(* ===== verification/Prelude.thy ===== *)
theory Prelude
  imports Main "HOL-Library.Char_ord" "HOL-Library.List_Lexorder"
begin

text \<open>
  Shared vocabulary of the development: Python values as they reach the services (JSON),
  the string operations of the standard library that the code calls, enumerations that are
  parsed from strings, tables as lists of rows, and runs of a step function.

  Strings are lists of \<^typ>\<open>char\<close>; case mapping and white space are those of ASCII.
  Numbers are integers: JSON floats are not represented. Human-readable message texts are
  not modelled anywhere; codes, categories, statuses and structure are.
\<close>

named_theorems table_simps \<open>characterisation of the table operations\<close>
named_theorems step_defs \<open>definitions of handlers that a proof unfolds\<close>

section \<open>Strings\<close>

type_synonym uuid = string
  \<comment> \<open>a UUID as its 32 lower-case hexadecimal digits\<close>

definition py_isspace :: "char \<Rightarrow> bool" where
  "py_isspace c = (let n = of_char c :: nat in (9 \<le> n \<and> n \<le> 13) \<or> (28 \<le> n \<and> n \<le> 32))"

definition lower_char :: "char \<Rightarrow> char" where
  "lower_char c = (let n = of_char c :: nat in if 65 \<le> n \<and> n \<le> 90 then char_of (n + 32) else c)"

definition upper_char :: "char \<Rightarrow> char" where
  "upper_char c = (let n = of_char c :: nat in if 97 \<le> n \<and> n \<le> 122 then char_of (n - 32) else c)"

definition is_digit :: "char \<Rightarrow> bool" where
  "is_digit c = (let n = of_char c :: nat in 48 \<le> n \<and> n \<le> 57)"

definition str_lower :: "string \<Rightarrow> string" where
  "str_lower s = map lower_char s"

definition str_upper :: "string \<Rightarrow> string" where
  "str_upper s = map upper_char s"

definition str_strip :: "string \<Rightarrow> string" where
  "str_strip s = rev (dropWhile py_isspace (rev (dropWhile py_isspace s)))"

definition starts_with :: "string \<Rightarrow> string \<Rightarrow> bool" where
  "starts_with s p = (take (length p) s = p)"

fun str_contains :: "string \<Rightarrow> string \<Rightarrow> bool" where
  "str_contains p [] = (p = [])"
| "str_contains p (c # cs) = (starts_with (c # cs) p \<or> str_contains p cs)"

fun show_nat :: "nat \<Rightarrow> string" where
  "show_nat n = (if n < 10 then [char_of (48 + n)] else show_nat (n div 10) @ [char_of (48 + n mod 10)])"

declare show_nat.simps [simp del]

definition show_int :: "int \<Rightarrow> string" where
  "show_int i = (if i < 0 then ''-'' @ show_nat (nat (- i)) else show_nat (nat i))"

fun join :: "string \<Rightarrow> string list \<Rightarrow> string" where
  "join sep [] = []"
| "join sep [x] = x"
| "join sep (x # y # zs) = x @ sep @ join sep (y # zs)"

text \<open>\<open>s.split(sep, 1)\<close> for a one-character separator: the part before the first
  separator and the rest, \<^const>\<open>None\<close> when the separator does not occur.\<close>

fun split_once :: "char \<Rightarrow> string \<Rightarrow> (string \<times> string) option" where
  "split_once sep [] = None"
| "split_once sep (c # cs) =
     (if c = sep then Some ([], cs)
      else map_option (\<lambda>(a, b). (c # a, b)) (split_once sep cs))"

lemma length_str_lower [simp]: "length (str_lower s) = length s"
  by (simp add: str_lower_def)

lemma str_lower_Nil [simp]: "str_lower [] = []"
  by (simp add: str_lower_def)

lemma lower_char_idem [simp]: "lower_char (lower_char c) = lower_char c"
  by (simp add: lower_char_def Let_def)

lemma str_lower_idem [simp]: "str_lower (str_lower s) = str_lower s"
  by (simp add: str_lower_def)

lemma length_dropWhile_le_self: "length (dropWhile P xs) \<le> length xs"
  by (induction xs) auto

lemma length_str_strip_le: "length (str_strip s) \<le> length s"
  unfolding str_strip_def
  by (simp, rule order_trans [OF length_dropWhile_le_self], simp, rule length_dropWhile_le_self)

section \<open>JSON values as Python sees them\<close>

datatype json =
    JNull
  | JBool bool
  | JInt int
  | JStr string
  | JArr "json list"
  | JObj "(string \<times> json) list"

type_synonym dict = "(string \<times> json) list"

text \<open>Exceptions of the Python runtime that a service does not catch itself.\<close>

datatype py_exc =
  AttributeError | TypeErr | ValueErr | KeyErr | LookupErr | IntegrityErr | InvalidToken

fun truthy :: "json \<Rightarrow> bool" where
  "truthy JNull = False"
| "truthy (JBool b) = b"
| "truthy (JInt i) = (i \<noteq> 0)"
| "truthy (JStr s) = (s \<noteq> [])"
| "truthy (JArr xs) = (xs \<noteq> [])"
| "truthy (JObj kvs) = (kvs \<noteq> [])"

text \<open>\<open>d.get(key)\<close>: Python's \<open>None\<close> when the key is absent.\<close>

definition dget :: "dict \<Rightarrow> string \<Rightarrow> json" where
  "dget d k = (case map_of d k of None \<Rightarrow> JNull | Some v \<Rightarrow> v)"

text \<open>\<open>d[key] = v\<close> on an insertion-ordered dictionary.\<close>

fun dput :: "dict \<Rightarrow> string \<Rightarrow> json \<Rightarrow> dict" where
  "dput [] k v = [(k, v)]"
| "dput ((k', v') # d) k v = (if k' = k then (k, v) # d else (k', v') # dput d k v)"

text \<open>\<open>v or d\<close>.\<close>

definition or_else :: "json \<Rightarrow> json \<Rightarrow> json" where
  "or_else v d = (if truthy v then v else d)"

text \<open>The receiver of a \<open>.get\<close> call: only a dictionary has that attribute.\<close>

fun as_dict :: "json \<Rightarrow> py_exc + dict" where
  "as_dict (JObj d) = Inr d"
| "as_dict _ = Inl AttributeError"

lemma dget_Nil [simp]: "dget [] k = JNull"
  by (simp add: dget_def)

lemma dget_Cons [simp]: "dget ((k', v) # d) k = (if k = k' then v else dget d k)"
  by (simp add: dget_def)

lemma map_of_dput [simp]: "map_of (dput d k v) = (map_of d)(k \<mapsto> v)"
  by (induction d k v rule: dput.induct) auto

lemma dget_dput: "dget (dput d k v) k' = (if k' = k then v else dget d k')"
  by (simp add: dget_def)

lemma keys_dput: "fst ` set (dput d k v) = insert k (fst ` set d)"
  by (induction d k v rule: dput.induct) auto

lemma distinct_dput: "distinct (map fst d) \<Longrightarrow> distinct (map fst (dput d k v))"
proof (induction d k v rule: dput.induct)
  case (2 k' v' d k v)
  then show ?case using keys_dput [of d k v] by (auto simp: image_iff)
qed simp

subsection \<open>\<open>int()\<close>\<close>

text \<open>\<open>int(text)\<close>: surrounding white space, a sign, digits with single underscores between.\<close>

fun digits_of :: "string \<Rightarrow> int \<Rightarrow> int option" where
  "digits_of [] acc = Some acc"
| "digits_of (c # cs) acc =
     (if is_digit c then digits_of cs (10 * acc + (of_char c - 48))
      else if c = CHR ''_'' then
        (case cs of d # ds \<Rightarrow> if is_digit d then digits_of ds (10 * acc + (of_char d - 48)) else None
         | [] \<Rightarrow> None)
      else None)"

definition unsigned_of :: "string \<Rightarrow> int option" where
  "unsigned_of s = (case s of c # cs \<Rightarrow> if is_digit c then digits_of s 0 else None | [] \<Rightarrow> None)"

definition parse_int :: "string \<Rightarrow> int option" where
  "parse_int s =
     (case str_strip s of
        [] \<Rightarrow> None
      | c # cs \<Rightarrow>
          if c = CHR ''-'' then map_option uminus (unsigned_of cs)
          else if c = CHR ''+'' then unsigned_of cs
          else unsigned_of (c # cs))"

text \<open>\<open>int(v)\<close> on a JSON value.\<close>

fun py_int :: "json \<Rightarrow> py_exc + int" where
  "py_int (JInt i) = Inr i"
| "py_int (JBool b) = Inr (if b then 1 else 0)"
| "py_int (JStr s) = (case parse_int s of None \<Rightarrow> Inl ValueErr | Some i \<Rightarrow> Inr i)"
| "py_int _ = Inl TypeErr"

subsection \<open>\<open>str()\<close> and \<open>repr()\<close>\<close>

definition hex_digit :: "nat \<Rightarrow> char" where
  "hex_digit n = (if n < 10 then char_of (48 + n) else char_of (87 + n))"

definition repr_char :: "char \<Rightarrow> char \<Rightarrow> string" where
  "repr_char q c =
     (let n = of_char c :: nat in
      if c = q \<or> n = 92 then [CHR 0x5C, c]
      else if n = 10 then [CHR 0x5C, CHR ''n'']
      else if n = 13 then [CHR 0x5C, CHR ''r'']
      else if n = 9 then [CHR 0x5C, CHR ''t'']
      else if n < 32 \<or> n = 127 then [CHR 0x5C, CHR ''x'', hex_digit (n div 16), hex_digit (n mod 16)]
      else [c])"

definition repr_str :: "string \<Rightarrow> string" where
  "repr_str s =
     (let q = (if CHR 0x27 \<in> set s \<and> CHR 0x22 \<notin> set s then CHR 0x22 else CHR 0x27)
      in q # concat (map (repr_char q) s) @ [q])"

fun py_repr :: "json \<Rightarrow> string" where
  "py_repr JNull = ''None''"
| "py_repr (JBool b) = (if b then ''True'' else ''False'')"
| "py_repr (JInt i) = show_int i"
| "py_repr (JStr s) = repr_str s"
| "py_repr (JArr xs) = ''['' @ join '', '' (map py_repr xs) @ '']''"
| "py_repr (JObj kvs) = ''{'' @ join '', '' (map (\<lambda>(k, v). repr_str k @ '': '' @ py_repr v) kvs) @ ''}''"

fun py_str :: "json \<Rightarrow> string" where
  "py_str (JStr s) = s"
| "py_str v = py_repr v"

text \<open>\<open>str(v or "")\<close>.\<close>

definition str_or_empty :: "json \<Rightarrow> string" where
  "str_or_empty v = (if truthy v then py_str v else [])"

lemma str_or_empty_simps [simp]:
  "str_or_empty JNull = []" "str_or_empty (JStr s) = s"
  by (auto simp: str_or_empty_def)

subsection \<open>\<open>==\<close> on JSON values\<close>

text \<open>\<open>True == 1\<close> holds in Python; dictionaries compare without regard to order.\<close>

fun num_of :: "json \<Rightarrow> int option" where
  "num_of (JBool b) = Some (if b then 1 else 0)"
| "num_of (JInt i) = Some i"
| "num_of _ = None"

lemma size_snd_json [termination_simp]:
  "(k, v) \<in> set kvs \<Longrightarrow> size v < Suc (size_list (size_prod (\<lambda>_. 0) size) kvs)"
  by (induction kvs) auto

lemma size_fst_zip_json [termination_simp]:
  "(x, y) \<in> set (zip xs ys) \<Longrightarrow> size x < Suc (size_list size xs)"
  by (drule set_zip_leftD) (simp add: size_list_estimation less_Suc_eq_le size_list_estimation')

fun py_eq :: "json \<Rightarrow> json \<Rightarrow> bool" where
  "py_eq JNull b = (b = JNull)"
| "py_eq (JBool x) b = (num_of b = Some (if x then 1 else 0))"
| "py_eq (JInt i) b = (num_of b = Some i)"
| "py_eq (JStr s) b = (b = JStr s)"
| "py_eq (JArr xs) b =
     (case b of
        JArr ys \<Rightarrow> length xs = length ys \<and> list_all (\<lambda>(x, y). py_eq x y) (zip xs ys)
      | _ \<Rightarrow> False)"
| "py_eq (JObj kvs) b =
     (case b of
        JObj d \<Rightarrow> length kvs = length d \<and>
          list_all (\<lambda>(k, v). case map_of d k of None \<Rightarrow> False | Some w \<Rightarrow> py_eq v w) kvs
      | _ \<Rightarrow> False)"

subsection \<open>\<open>json.dumps\<close>\<close>

definition dumps_char :: "bool \<Rightarrow> char \<Rightarrow> string" where
  "dumps_char asc c =
     (let n = of_char c :: nat in
      if n = 34 \<or> n = 92 then [CHR 0x5C, c]
      else if n = 10 then [CHR 0x5C, CHR ''n'']
      else if n = 13 then [CHR 0x5C, CHR ''r'']
      else if n = 9 then [CHR 0x5C, CHR ''t'']
      else if n = 12 then [CHR 0x5C, CHR ''f'']
      else if n = 8 then [CHR 0x5C, CHR ''b'']
      else if n < 32 \<or> (asc \<and> n > 126) then [CHR 0x5C, CHR ''u'', CHR ''0'', CHR ''0'', hex_digit (n div 16), hex_digit (n mod 16)]
      else [c])"

definition dumps_str :: "bool \<Rightarrow> string \<Rightarrow> string" where
  "dumps_str asc s = CHR 0x22 # concat (map (dumps_char asc) s) @ [CHR 0x22]"

text \<open>\<open>ensure_ascii\<close> is \<open>asc\<close>, \<open>sort_keys\<close> is \<open>srt\<close>; \<open>isep\<close> and \<open>ksep\<close> are the separators.\<close>

fun dumps :: "bool \<Rightarrow> bool \<Rightarrow> string \<Rightarrow> string \<Rightarrow> json \<Rightarrow> string" where
  "dumps asc srt isep ksep JNull = ''null''"
| "dumps asc srt isep ksep (JBool b) = (if b then ''true'' else ''false'')"
| "dumps asc srt isep ksep (JInt i) = show_int i"
| "dumps asc srt isep ksep (JStr s) = dumps_str asc s"
| "dumps asc srt isep ksep (JArr xs) = ''['' @ join isep (map (dumps asc srt isep ksep) xs) @ '']''"
| "dumps asc srt isep ksep (JObj kvs) =
     (let items = map (\<lambda>(k, v). (k, dumps_str asc k @ ksep @ dumps asc srt isep ksep v)) kvs
      in ''{'' @ join isep (map snd (if srt then sort_key fst items else items)) @ ''}'')"

section \<open>Enumerations parsed from their values\<close>

definition enum_parse :: "'e list \<Rightarrow> ('e \<Rightarrow> string) \<Rightarrow> string \<Rightarrow> 'e option" where
  "enum_parse members val s = find (\<lambda>m. val m = s) members"

text \<open>
  The contract of a Python string enum: every member is listed and no two members share a
  value. Calling the class on a string then inverts \<open>.value\<close>.
\<close>

locale py_enum =
  fixes members :: "'e list"
    and val :: "'e \<Rightarrow> string"
  assumes complete: "m \<in> set members"
    and distinct_values: "distinct (map val members)"
begin

lemma parse_value: "enum_parse members val (val m) = Some m"
proof -
  have "find (\<lambda>x. val x = val m) members = Some m"
    using complete [of m] distinct_values
    by (induction members) (auto simp: image_iff)
  then show ?thesis by (simp add: enum_parse_def)
qed

lemma parse_Some: "enum_parse members val s = Some m \<longleftrightarrow> s = val m"
proof
  assume "enum_parse members val s = Some m"
  then show "s = val m" by (auto simp: enum_parse_def find_Some_iff)
qed (simp add: parse_value)

lemma parse_None: "enum_parse members val s = None \<longleftrightarrow> s \<notin> range val"
proof -
  have "enum_parse members val s = None \<longleftrightarrow> (\<forall>m. enum_parse members val s \<noteq> Some m)"
    by auto
  then show ?thesis by (auto simp: parse_Some)
qed

lemma value_inj: "val a = val b \<longleftrightarrow> a = b"
proof
  assume e: "val a = val b"
  have "Some a = enum_parse members val (val a)" by (rule parse_value [symmetric])
  also have "\<dots> = Some b" unfolding e by (rule parse_value)
  finally show "a = b" by (rule option.inject [THEN iffD1])
qed (rule arg_cong)

end

section \<open>Tables\<close>

text \<open>A database table is the list of its rows. \<open>update_where\<close> writes the rows that a
  \<open>WHERE\<close> clause selects, \<open>count_where\<close> is \<open>SELECT count(*)\<close>, \<open>delete_where\<close> deletes and
  \<^const>\<open>find\<close> is a \<open>session.scalar(select(...))\<close>.\<close>

definition update_where :: "('r \<Rightarrow> bool) \<Rightarrow> ('r \<Rightarrow> 'r) \<Rightarrow> 'r list \<Rightarrow> 'r list" where
  "update_where P f rows = map (\<lambda>r. if P r then f r else r) rows"

definition count_where :: "('r \<Rightarrow> bool) \<Rightarrow> 'r list \<Rightarrow> nat" where
  "count_where P rows = length (filter P rows)"

definition delete_where :: "('r \<Rightarrow> bool) \<Rightarrow> 'r list \<Rightarrow> 'r list" where
  "delete_where P rows = filter (\<lambda>r. \<not> P r) rows"

text \<open>\<open>ORDER BY key DESC\<close>, ties in table order.\<close>

definition order_desc :: "('r \<Rightarrow> int) \<Rightarrow> 'r list \<Rightarrow> 'r list" where
  "order_desc k rows = sort_key (\<lambda>r. - k r) rows"

lemma set_update_where [table_simps]:
  "set (update_where P f rows) = f ` {r \<in> set rows. P r} \<union> {r \<in> set rows. \<not> P r}"
  by (auto simp: update_where_def)

lemma length_update_where [simp]: "length (update_where P f rows) = length rows"
  by (simp add: update_where_def)

lemma update_where_Nil [simp]: "update_where P f [] = []"
  by (simp add: update_where_def)

lemma update_where_Cons [simp]:
  "update_where P f (r # rows) = (if P r then f r else r) # update_where P f rows"
  by (simp add: update_where_def)

lemma update_where_append [simp]:
  "update_where P f (xs @ ys) = update_where P f xs @ update_where P f ys"
  by (simp add: update_where_def)

lemma update_where_none: "(\<And>r. r \<in> set rows \<Longrightarrow> \<not> P r) \<Longrightarrow> update_where P f rows = rows"
  by (induction rows) auto

lemma map_update_where: "(\<And>r. g (f r) = g r) \<Longrightarrow> map g (update_where P f rows) = map g rows"
  by (simp add: update_where_def)

lemma filter_update_where_disjoint:
  assumes "\<And>r. P r \<Longrightarrow> \<not> Q r" "\<And>r. P r \<Longrightarrow> \<not> Q (f r)"
  shows "filter Q (update_where P f rows) = filter Q rows"
  using assms by (induction rows) auto

lemma filter_update_where_commute:
  assumes "\<And>r. Q (f r) = Q r"
  shows "filter Q (update_where P f rows) = update_where P f (filter Q rows)"
  using assms by (induction rows) auto

lemma count_where_Nil [simp]: "count_where P [] = 0"
  by (simp add: count_where_def)

lemma count_where_Cons [simp]: "count_where P (r # rows) = (if P r then 1 else 0) + count_where P rows"
  by (simp add: count_where_def)

lemma count_where_append [simp]: "count_where P (xs @ ys) = count_where P xs + count_where P ys"
  by (simp add: count_where_def)

lemma count_where_0_iff: "count_where P rows = 0 \<longleftrightarrow> (\<forall>r \<in> set rows. \<not> P r)"
  by (induction rows) auto

lemma count_where_update_le:
  assumes "\<And>r. P r \<Longrightarrow> Q (f r) \<Longrightarrow> Q r"
  shows "count_where Q (update_where P f rows) \<le> count_where Q rows"
  using assms by (induction rows) auto

lemma count_where_update_eq:
  assumes "\<And>r. P r \<Longrightarrow> Q (f r) = Q r"
  shows "count_where Q (update_where P f rows) = count_where Q rows"
  using assms by (induction rows) auto

lemma find_update_where:
  assumes "\<And>r. Q (f r) = Q r"
  shows "find Q (update_where P f rows) =
    map_option (\<lambda>r. if P r then f r else r) (find Q rows)"
  using assms by (induction rows) auto

lemma find_SomeD: "find P xs = Some x \<Longrightarrow> x \<in> set xs \<and> P x"
  by (induction xs) (auto split: if_splits)

lemma find_append: "find P (xs @ ys) = (case find P xs of None \<Rightarrow> find P ys | Some x \<Rightarrow> Some x)"
  by (induction xs) auto

lemma find_None_iff_all: "find P xs = None \<longleftrightarrow> (\<forall>x \<in> set xs. \<not> P x)"
  by (induction xs) auto

lemma count_where_delete: "count_where Q (delete_where P rows) = count_where (\<lambda>r. Q r \<and> \<not> P r) rows"
  by (simp add: count_where_def delete_where_def conj_commute)

lemma set_delete_where [table_simps]: "set (delete_where P rows) = {r \<in> set rows. \<not> P r}"
  by (auto simp: delete_where_def)

section \<open>Runs\<close>

text \<open>A component driven by a list of requests, and the one lemma every invariant uses.\<close>

fun run :: "('s \<Rightarrow> 'i \<Rightarrow> 's) \<Rightarrow> 's \<Rightarrow> 'i list \<Rightarrow> 's" where
  "run stp s [] = s"
| "run stp s (i # is) = run stp (stp s i) is"

locale invariant_machine =
  fixes stp :: "'s \<Rightarrow> 'i \<Rightarrow> 's"
    and inv :: "'s \<Rightarrow> bool"
  assumes step_inv: "inv s \<Longrightarrow> inv (stp s i)"
begin

lemma run_inv: "inv s \<Longrightarrow> inv (run stp s is)"
  by (induction "is" arbitrary: s) (auto intro: step_inv)

end

text \<open>A view of the state that foreign steps leave alone while the invariant holds, for instance
  another tenant's rows.\<close>

locale framed_machine = invariant_machine stp inv
  for stp :: "'s \<Rightarrow> 'i \<Rightarrow> 's" and inv :: "'s \<Rightarrow> bool" +
  fixes view :: "'s \<Rightarrow> 'v"
    and foreign :: "'i \<Rightarrow> bool"
  assumes step_frame: "inv s \<Longrightarrow> foreign i \<Longrightarrow> view (stp s i) = view s"
begin

lemma run_frame: "inv s \<Longrightarrow> list_all foreign is \<Longrightarrow> view (run stp s is) = view s"
  by (induction "is" arbitrary: s) (auto simp: step_frame step_inv)

end

text \<open>A relation between earlier and later states that every step extends, for instance that a
  table only grows.\<close>

locale growing_machine = invariant_machine stp inv
  for stp :: "'s \<Rightarrow> 'i \<Rightarrow> 's" and inv :: "'s \<Rightarrow> bool" +
  fixes below :: "'s \<Rightarrow> 's \<Rightarrow> bool"
  assumes below_refl: "below s s"
    and below_trans: "below s t \<Longrightarrow> below t u \<Longrightarrow> below s u"
    and step_below: "inv s \<Longrightarrow> below s (stp s i)"
begin

lemma run_below: "inv s \<Longrightarrow> below s (run stp s is)"
proof (induction "is" arbitrary: s)
  case (Cons i "is")
  from below_trans [OF step_below [OF Cons.prems] Cons.IH [OF step_inv [OF Cons.prems]]]
  show ?case by simp
qed (simp add: below_refl)

end

end
