(* ===== verification/Enums.thy ===== *)
theory Enums
  imports Prelude
begin

text \<open>
  The product's vocabulary, \<open>app/models/enums.py\<close>: one datatype per Python enum (its
  members prefixed, because two enums share member names), the string value of each member
  and the member list that parsing scans. Every enum interprets \<^const>\<open>py_enum\<close>, so
  \<open>Enum(value)\<close> and \<open>.value\<close> invert each other. At the end, the terminal and active
  execution statuses.
\<close>

section \<open>\<open>WorkspaceStatus\<close>\<close>

datatype workspace_status =
    WS_ACTIVE
  | WS_SUSPENDED
  | WS_DELETED

fun workspace_status_value :: "workspace_status \<Rightarrow> string" where
  "workspace_status_value WS_ACTIVE = ''ACTIVE''"
| "workspace_status_value WS_SUSPENDED = ''SUSPENDED''"
| "workspace_status_value WS_DELETED = ''DELETED''"

definition workspace_status_members :: "workspace_status list" where
  "workspace_status_members = [WS_ACTIVE, WS_SUSPENDED, WS_DELETED]"

definition workspace_status_of :: "string \<Rightarrow> workspace_status option" where
  "workspace_status_of s = enum_parse workspace_status_members workspace_status_value s"

interpretation workspace_status_enum: py_enum workspace_status_members workspace_status_value
proof
  show "m \<in> set workspace_status_members" for m by (cases m) (simp_all add: workspace_status_members_def)
qed (simp add: workspace_status_members_def)

lemma workspace_status_of_value [simp]: "workspace_status_of (workspace_status_value m) = Some m"
  by (simp add: workspace_status_of_def workspace_status_enum.parse_value)

section \<open>\<open>WorkflowStatus\<close>\<close>

datatype workflow_status =
    WF_ACTIVE
  | WF_INACTIVE
  | WF_DELETED

fun workflow_status_value :: "workflow_status \<Rightarrow> string" where
  "workflow_status_value WF_ACTIVE = ''ACTIVE''"
| "workflow_status_value WF_INACTIVE = ''INACTIVE''"
| "workflow_status_value WF_DELETED = ''DELETED''"

definition workflow_status_members :: "workflow_status list" where
  "workflow_status_members = [WF_ACTIVE, WF_INACTIVE, WF_DELETED]"

definition workflow_status_of :: "string \<Rightarrow> workflow_status option" where
  "workflow_status_of s = enum_parse workflow_status_members workflow_status_value s"

interpretation workflow_status_enum: py_enum workflow_status_members workflow_status_value
proof
  show "m \<in> set workflow_status_members" for m by (cases m) (simp_all add: workflow_status_members_def)
qed (simp add: workflow_status_members_def)

lemma workflow_status_of_value [simp]: "workflow_status_of (workflow_status_value m) = Some m"
  by (simp add: workflow_status_of_def workflow_status_enum.parse_value)

section \<open>\<open>TriggerType\<close>\<close>

datatype trigger_type =
    TT_MANUAL
  | TT_WEBHOOK
  | TT_SCHEDULE

fun trigger_type_value :: "trigger_type \<Rightarrow> string" where
  "trigger_type_value TT_MANUAL = ''MANUAL''"
| "trigger_type_value TT_WEBHOOK = ''WEBHOOK''"
| "trigger_type_value TT_SCHEDULE = ''SCHEDULE''"

definition trigger_type_members :: "trigger_type list" where
  "trigger_type_members = [TT_MANUAL, TT_WEBHOOK, TT_SCHEDULE]"

definition trigger_type_of :: "string \<Rightarrow> trigger_type option" where
  "trigger_type_of s = enum_parse trigger_type_members trigger_type_value s"

interpretation trigger_type_enum: py_enum trigger_type_members trigger_type_value
proof
  show "m \<in> set trigger_type_members" for m by (cases m) (simp_all add: trigger_type_members_def)
qed (simp add: trigger_type_members_def)

lemma trigger_type_of_value [simp]: "trigger_type_of (trigger_type_value m) = Some m"
  by (simp add: trigger_type_of_def trigger_type_enum.parse_value)

section \<open>\<open>ScheduleType\<close>\<close>

datatype schedule_type =
    ST_INTERVAL
  | ST_DAILY
  | ST_CRON

fun schedule_type_value :: "schedule_type \<Rightarrow> string" where
  "schedule_type_value ST_INTERVAL = ''INTERVAL''"
| "schedule_type_value ST_DAILY = ''DAILY''"
| "schedule_type_value ST_CRON = ''CRON''"

definition schedule_type_members :: "schedule_type list" where
  "schedule_type_members = [ST_INTERVAL, ST_DAILY, ST_CRON]"

definition schedule_type_of :: "string \<Rightarrow> schedule_type option" where
  "schedule_type_of s = enum_parse schedule_type_members schedule_type_value s"

interpretation schedule_type_enum: py_enum schedule_type_members schedule_type_value
proof
  show "m \<in> set schedule_type_members" for m by (cases m) (simp_all add: schedule_type_members_def)
qed (simp add: schedule_type_members_def)

lemma schedule_type_of_value [simp]: "schedule_type_of (schedule_type_value m) = Some m"
  by (simp add: schedule_type_of_def schedule_type_enum.parse_value)

section \<open>\<open>OverlapPolicy\<close>\<close>

datatype overlap_policy =
    OP_SKIP_IF_RUNNING
  | OP_ALLOW

fun overlap_policy_value :: "overlap_policy \<Rightarrow> string" where
  "overlap_policy_value OP_SKIP_IF_RUNNING = ''SKIP_IF_RUNNING''"
| "overlap_policy_value OP_ALLOW = ''ALLOW''"

definition overlap_policy_members :: "overlap_policy list" where
  "overlap_policy_members = [OP_SKIP_IF_RUNNING, OP_ALLOW]"

definition overlap_policy_of :: "string \<Rightarrow> overlap_policy option" where
  "overlap_policy_of s = enum_parse overlap_policy_members overlap_policy_value s"

interpretation overlap_policy_enum: py_enum overlap_policy_members overlap_policy_value
proof
  show "m \<in> set overlap_policy_members" for m by (cases m) (simp_all add: overlap_policy_members_def)
qed (simp add: overlap_policy_members_def)

lemma overlap_policy_of_value [simp]: "overlap_policy_of (overlap_policy_value m) = Some m"
  by (simp add: overlap_policy_of_def overlap_policy_enum.parse_value)

section \<open>\<open>WebhookAuthMode\<close>\<close>

datatype webhook_auth_mode =
    WA_NONE
  | WA_BASIC
  | WA_HEADER_SIGNATURE

fun webhook_auth_mode_value :: "webhook_auth_mode \<Rightarrow> string" where
  "webhook_auth_mode_value WA_NONE = ''NONE''"
| "webhook_auth_mode_value WA_BASIC = ''BASIC''"
| "webhook_auth_mode_value WA_HEADER_SIGNATURE = ''HEADER_SIGNATURE''"

definition webhook_auth_mode_members :: "webhook_auth_mode list" where
  "webhook_auth_mode_members = [WA_NONE, WA_BASIC, WA_HEADER_SIGNATURE]"

definition webhook_auth_mode_of :: "string \<Rightarrow> webhook_auth_mode option" where
  "webhook_auth_mode_of s = enum_parse webhook_auth_mode_members webhook_auth_mode_value s"

interpretation webhook_auth_mode_enum: py_enum webhook_auth_mode_members webhook_auth_mode_value
proof
  show "m \<in> set webhook_auth_mode_members" for m by (cases m) (simp_all add: webhook_auth_mode_members_def)
qed (simp add: webhook_auth_mode_members_def)

lemma webhook_auth_mode_of_value [simp]: "webhook_auth_mode_of (webhook_auth_mode_value m) = Some m"
  by (simp add: webhook_auth_mode_of_def webhook_auth_mode_enum.parse_value)

section \<open>\<open>VersionKind\<close>\<close>

datatype version_kind =
    VK_DRAFT
  | VK_PUBLISHED

fun version_kind_value :: "version_kind \<Rightarrow> string" where
  "version_kind_value VK_DRAFT = ''DRAFT''"
| "version_kind_value VK_PUBLISHED = ''PUBLISHED''"

definition version_kind_members :: "version_kind list" where
  "version_kind_members = [VK_DRAFT, VK_PUBLISHED]"

definition version_kind_of :: "string \<Rightarrow> version_kind option" where
  "version_kind_of s = enum_parse version_kind_members version_kind_value s"

interpretation version_kind_enum: py_enum version_kind_members version_kind_value
proof
  show "m \<in> set version_kind_members" for m by (cases m) (simp_all add: version_kind_members_def)
qed (simp add: version_kind_members_def)

lemma version_kind_of_value [simp]: "version_kind_of (version_kind_value m) = Some m"
  by (simp add: version_kind_of_def version_kind_enum.parse_value)

section \<open>\<open>ExecutionStatus\<close>\<close>

datatype execution_status =
    EX_QUEUED
  | EX_DISPATCHING
  | EX_RUNNING
  | EX_SUCCEEDED
  | EX_FAILED
  | EX_CANCEL_REQUESTED
  | EX_CANCELLED
  | EX_TIMED_OUT
  | EX_FAILED_TO_START
  | EX_ENGINE_INTERRUPTED

fun execution_status_value :: "execution_status \<Rightarrow> string" where
  "execution_status_value EX_QUEUED = ''QUEUED''"
| "execution_status_value EX_DISPATCHING = ''DISPATCHING''"
| "execution_status_value EX_RUNNING = ''RUNNING''"
| "execution_status_value EX_SUCCEEDED = ''SUCCEEDED''"
| "execution_status_value EX_FAILED = ''FAILED''"
| "execution_status_value EX_CANCEL_REQUESTED = ''CANCEL_REQUESTED''"
| "execution_status_value EX_CANCELLED = ''CANCELLED''"
| "execution_status_value EX_TIMED_OUT = ''TIMED_OUT''"
| "execution_status_value EX_FAILED_TO_START = ''FAILED_TO_START''"
| "execution_status_value EX_ENGINE_INTERRUPTED = ''ENGINE_INTERRUPTED''"

definition execution_status_members :: "execution_status list" where
  "execution_status_members = [EX_QUEUED, EX_DISPATCHING, EX_RUNNING, EX_SUCCEEDED, EX_FAILED, EX_CANCEL_REQUESTED, EX_CANCELLED, EX_TIMED_OUT, EX_FAILED_TO_START, EX_ENGINE_INTERRUPTED]"

definition execution_status_of :: "string \<Rightarrow> execution_status option" where
  "execution_status_of s = enum_parse execution_status_members execution_status_value s"

interpretation execution_status_enum: py_enum execution_status_members execution_status_value
proof
  show "m \<in> set execution_status_members" for m by (cases m) (simp_all add: execution_status_members_def)
qed (simp add: execution_status_members_def)

lemma execution_status_of_value [simp]: "execution_status_of (execution_status_value m) = Some m"
  by (simp add: execution_status_of_def execution_status_enum.parse_value)

section \<open>\<open>NodeRunStatus\<close>\<close>

datatype node_run_status =
    NR_PENDING
  | NR_RUNNING
  | NR_SUCCEEDED
  | NR_FAILED
  | NR_SKIPPED

fun node_run_status_value :: "node_run_status \<Rightarrow> string" where
  "node_run_status_value NR_PENDING = ''PENDING''"
| "node_run_status_value NR_RUNNING = ''RUNNING''"
| "node_run_status_value NR_SUCCEEDED = ''SUCCEEDED''"
| "node_run_status_value NR_FAILED = ''FAILED''"
| "node_run_status_value NR_SKIPPED = ''SKIPPED''"

definition node_run_status_members :: "node_run_status list" where
  "node_run_status_members = [NR_PENDING, NR_RUNNING, NR_SUCCEEDED, NR_FAILED, NR_SKIPPED]"

definition node_run_status_of :: "string \<Rightarrow> node_run_status option" where
  "node_run_status_of s = enum_parse node_run_status_members node_run_status_value s"

interpretation node_run_status_enum: py_enum node_run_status_members node_run_status_value
proof
  show "m \<in> set node_run_status_members" for m by (cases m) (simp_all add: node_run_status_members_def)
qed (simp add: node_run_status_members_def)

lemma node_run_status_of_value [simp]: "node_run_status_of (node_run_status_value m) = Some m"
  by (simp add: node_run_status_of_def node_run_status_enum.parse_value)

section \<open>\<open>NodeCategory\<close>\<close>

datatype node_category =
    NC_TRIGGER
  | NC_ACTION
  | NC_LOGIC
  | NC_DATA
  | NC_APP

fun node_category_value :: "node_category \<Rightarrow> string" where
  "node_category_value NC_TRIGGER = ''TRIGGER''"
| "node_category_value NC_ACTION = ''ACTION''"
| "node_category_value NC_LOGIC = ''LOGIC''"
| "node_category_value NC_DATA = ''DATA''"
| "node_category_value NC_APP = ''APP''"

definition node_category_members :: "node_category list" where
  "node_category_members = [NC_TRIGGER, NC_ACTION, NC_LOGIC, NC_DATA, NC_APP]"

definition node_category_of :: "string \<Rightarrow> node_category option" where
  "node_category_of s = enum_parse node_category_members node_category_value s"

interpretation node_category_enum: py_enum node_category_members node_category_value
proof
  show "m \<in> set node_category_members" for m by (cases m) (simp_all add: node_category_members_def)
qed (simp add: node_category_members_def)

lemma node_category_of_value [simp]: "node_category_of (node_category_value m) = Some m"
  by (simp add: node_category_of_def node_category_enum.parse_value)

section \<open>\<open>Certification\<close>\<close>

datatype certification =
    CF_SUPPORTED
  | CF_BETA
  | CF_HIDDEN
  | CF_BLOCKED

fun certification_value :: "certification \<Rightarrow> string" where
  "certification_value CF_SUPPORTED = ''SUPPORTED''"
| "certification_value CF_BETA = ''BETA''"
| "certification_value CF_HIDDEN = ''HIDDEN''"
| "certification_value CF_BLOCKED = ''BLOCKED''"

definition certification_members :: "certification list" where
  "certification_members = [CF_SUPPORTED, CF_BETA, CF_HIDDEN, CF_BLOCKED]"

definition certification_of :: "string \<Rightarrow> certification option" where
  "certification_of s = enum_parse certification_members certification_value s"

interpretation certification_enum: py_enum certification_members certification_value
proof
  show "m \<in> set certification_members" for m by (cases m) (simp_all add: certification_members_def)
qed (simp add: certification_members_def)

lemma certification_of_value [simp]: "certification_of (certification_value m) = Some m"
  by (simp add: certification_of_def certification_enum.parse_value)

section \<open>\<open>NodeStatus\<close>\<close>

datatype node_status =
    NS_ACTIVE
  | NS_DISABLED
  | NS_DEPRECATED

fun node_status_value :: "node_status \<Rightarrow> string" where
  "node_status_value NS_ACTIVE = ''ACTIVE''"
| "node_status_value NS_DISABLED = ''DISABLED''"
| "node_status_value NS_DEPRECATED = ''DEPRECATED''"

definition node_status_members :: "node_status list" where
  "node_status_members = [NS_ACTIVE, NS_DISABLED, NS_DEPRECATED]"

definition node_status_of :: "string \<Rightarrow> node_status option" where
  "node_status_of s = enum_parse node_status_members node_status_value s"

interpretation node_status_enum: py_enum node_status_members node_status_value
proof
  show "m \<in> set node_status_members" for m by (cases m) (simp_all add: node_status_members_def)
qed (simp add: node_status_members_def)

lemma node_status_of_value [simp]: "node_status_of (node_status_value m) = Some m"
  by (simp add: node_status_of_def node_status_enum.parse_value)

section \<open>\<open>CredentialType\<close>\<close>

datatype credential_type =
    CT_NONE
  | CT_HTTP_BASIC
  | CT_BEARER
  | CT_HEADER_API_KEY
  | CT_QUERY_API_KEY

fun credential_type_value :: "credential_type \<Rightarrow> string" where
  "credential_type_value CT_NONE = ''NONE''"
| "credential_type_value CT_HTTP_BASIC = ''HTTP_BASIC''"
| "credential_type_value CT_BEARER = ''BEARER''"
| "credential_type_value CT_HEADER_API_KEY = ''HEADER_API_KEY''"
| "credential_type_value CT_QUERY_API_KEY = ''QUERY_API_KEY''"

definition credential_type_members :: "credential_type list" where
  "credential_type_members = [CT_NONE, CT_HTTP_BASIC, CT_BEARER, CT_HEADER_API_KEY, CT_QUERY_API_KEY]"

definition credential_type_of :: "string \<Rightarrow> credential_type option" where
  "credential_type_of s = enum_parse credential_type_members credential_type_value s"

interpretation credential_type_enum: py_enum credential_type_members credential_type_value
proof
  show "m \<in> set credential_type_members" for m by (cases m) (simp_all add: credential_type_members_def)
qed (simp add: credential_type_members_def)

lemma credential_type_of_value [simp]: "credential_type_of (credential_type_value m) = Some m"
  by (simp add: credential_type_of_def credential_type_enum.parse_value)

section \<open>\<open>CredentialStatus\<close>\<close>

datatype credential_status =
    CS_ACTIVE
  | CS_INVALID
  | CS_REVOKED
  | CS_DELETED

fun credential_status_value :: "credential_status \<Rightarrow> string" where
  "credential_status_value CS_ACTIVE = ''ACTIVE''"
| "credential_status_value CS_INVALID = ''INVALID''"
| "credential_status_value CS_REVOKED = ''REVOKED''"
| "credential_status_value CS_DELETED = ''DELETED''"

definition credential_status_members :: "credential_status list" where
  "credential_status_members = [CS_ACTIVE, CS_INVALID, CS_REVOKED, CS_DELETED]"

definition credential_status_of :: "string \<Rightarrow> credential_status option" where
  "credential_status_of s = enum_parse credential_status_members credential_status_value s"

interpretation credential_status_enum: py_enum credential_status_members credential_status_value
proof
  show "m \<in> set credential_status_members" for m by (cases m) (simp_all add: credential_status_members_def)
qed (simp add: credential_status_members_def)

lemma credential_status_of_value [simp]: "credential_status_of (credential_status_value m) = Some m"
  by (simp add: credential_status_of_def credential_status_enum.parse_value)

section \<open>\<open>EngineStatus\<close>\<close>

datatype engine_status =
    ES_HEALTHY
  | ES_DEGRADED
  | ES_OFFLINE

fun engine_status_value :: "engine_status \<Rightarrow> string" where
  "engine_status_value ES_HEALTHY = ''HEALTHY''"
| "engine_status_value ES_DEGRADED = ''DEGRADED''"
| "engine_status_value ES_OFFLINE = ''OFFLINE''"

definition engine_status_members :: "engine_status list" where
  "engine_status_members = [ES_HEALTHY, ES_DEGRADED, ES_OFFLINE]"

definition engine_status_of :: "string \<Rightarrow> engine_status option" where
  "engine_status_of s = enum_parse engine_status_members engine_status_value s"

interpretation engine_status_enum: py_enum engine_status_members engine_status_value
proof
  show "m \<in> set engine_status_members" for m by (cases m) (simp_all add: engine_status_members_def)
qed (simp add: engine_status_members_def)

lemma engine_status_of_value [simp]: "engine_status_of (engine_status_value m) = Some m"
  by (simp add: engine_status_of_def engine_status_enum.parse_value)

section \<open>\<open>ActorType\<close>\<close>

datatype actor_type =
    AT_USER
  | AT_SYSTEM
  | AT_API
  | AT_WEBHOOK

fun actor_type_value :: "actor_type \<Rightarrow> string" where
  "actor_type_value AT_USER = ''USER''"
| "actor_type_value AT_SYSTEM = ''SYSTEM''"
| "actor_type_value AT_API = ''API''"
| "actor_type_value AT_WEBHOOK = ''WEBHOOK''"

definition actor_type_members :: "actor_type list" where
  "actor_type_members = [AT_USER, AT_SYSTEM, AT_API, AT_WEBHOOK]"

definition actor_type_of :: "string \<Rightarrow> actor_type option" where
  "actor_type_of s = enum_parse actor_type_members actor_type_value s"

interpretation actor_type_enum: py_enum actor_type_members actor_type_value
proof
  show "m \<in> set actor_type_members" for m by (cases m) (simp_all add: actor_type_members_def)
qed (simp add: actor_type_members_def)

lemma actor_type_of_value [simp]: "actor_type_of (actor_type_value m) = Some m"
  by (simp add: actor_type_of_def actor_type_enum.parse_value)

section \<open>\<open>AuditResult\<close>\<close>

datatype audit_result =
    AR_SUCCESS
  | AR_FAILURE

fun audit_result_value :: "audit_result \<Rightarrow> string" where
  "audit_result_value AR_SUCCESS = ''SUCCESS''"
| "audit_result_value AR_FAILURE = ''FAILURE''"

definition audit_result_members :: "audit_result list" where
  "audit_result_members = [AR_SUCCESS, AR_FAILURE]"

definition audit_result_of :: "string \<Rightarrow> audit_result option" where
  "audit_result_of s = enum_parse audit_result_members audit_result_value s"

interpretation audit_result_enum: py_enum audit_result_members audit_result_value
proof
  show "m \<in> set audit_result_members" for m by (cases m) (simp_all add: audit_result_members_def)
qed (simp add: audit_result_members_def)

lemma audit_result_of_value [simp]: "audit_result_of (audit_result_value m) = Some m"
  by (simp add: audit_result_of_def audit_result_enum.parse_value)

section \<open>\<open>AlertEventType\<close>\<close>

datatype alert_event_type =
    AE_EXECUTION_FAILED
  | AE_CONSECUTIVE_FAILURES
  | AE_CREDENTIAL_INVALID
  | AE_SCHEDULE_MISSED
  | AE_WEBHOOK_AUTH_FAILURE_BURST
  | AE_ENGINE_DEGRADED
  | AE_VERSION_INCOMPATIBLE

fun alert_event_type_value :: "alert_event_type \<Rightarrow> string" where
  "alert_event_type_value AE_EXECUTION_FAILED = ''EXECUTION_FAILED''"
| "alert_event_type_value AE_CONSECUTIVE_FAILURES = ''CONSECUTIVE_FAILURES''"
| "alert_event_type_value AE_CREDENTIAL_INVALID = ''CREDENTIAL_INVALID''"
| "alert_event_type_value AE_SCHEDULE_MISSED = ''SCHEDULE_MISSED''"
| "alert_event_type_value AE_WEBHOOK_AUTH_FAILURE_BURST = ''WEBHOOK_AUTH_FAILURE_BURST''"
| "alert_event_type_value AE_ENGINE_DEGRADED = ''ENGINE_DEGRADED''"
| "alert_event_type_value AE_VERSION_INCOMPATIBLE = ''VERSION_INCOMPATIBLE''"

definition alert_event_type_members :: "alert_event_type list" where
  "alert_event_type_members = [AE_EXECUTION_FAILED, AE_CONSECUTIVE_FAILURES, AE_CREDENTIAL_INVALID, AE_SCHEDULE_MISSED, AE_WEBHOOK_AUTH_FAILURE_BURST, AE_ENGINE_DEGRADED, AE_VERSION_INCOMPATIBLE]"

definition alert_event_type_of :: "string \<Rightarrow> alert_event_type option" where
  "alert_event_type_of s = enum_parse alert_event_type_members alert_event_type_value s"

interpretation alert_event_type_enum: py_enum alert_event_type_members alert_event_type_value
proof
  show "m \<in> set alert_event_type_members" for m by (cases m) (simp_all add: alert_event_type_members_def)
qed (simp add: alert_event_type_members_def)

lemma alert_event_type_of_value [simp]: "alert_event_type_of (alert_event_type_value m) = Some m"
  by (simp add: alert_event_type_of_def alert_event_type_enum.parse_value)

section \<open>\<open>NotificationStatus\<close>\<close>

datatype notification_status =
    NT_UNREAD
  | NT_READ
  | NT_ACKNOWLEDGED

fun notification_status_value :: "notification_status \<Rightarrow> string" where
  "notification_status_value NT_UNREAD = ''UNREAD''"
| "notification_status_value NT_READ = ''READ''"
| "notification_status_value NT_ACKNOWLEDGED = ''ACKNOWLEDGED''"

definition notification_status_members :: "notification_status list" where
  "notification_status_members = [NT_UNREAD, NT_READ, NT_ACKNOWLEDGED]"

definition notification_status_of :: "string \<Rightarrow> notification_status option" where
  "notification_status_of s = enum_parse notification_status_members notification_status_value s"

interpretation notification_status_enum: py_enum notification_status_members notification_status_value
proof
  show "m \<in> set notification_status_members" for m by (cases m) (simp_all add: notification_status_members_def)
qed (simp add: notification_status_members_def)

lemma notification_status_of_value [simp]: "notification_status_of (notification_status_value m) = Some m"
  by (simp add: notification_status_of_def notification_status_enum.parse_value)

section \<open>\<open>HealthLevel\<close>\<close>

datatype health_level =
    HL_HEALTHY
  | HL_RUNNING
  | HL_WARNING
  | HL_ACTION_REQUIRED
  | HL_FAILED
  | HL_INACTIVE
  | HL_DRAFT_ONLY
  | HL_NEVER_RUN

fun health_level_value :: "health_level \<Rightarrow> string" where
  "health_level_value HL_HEALTHY = ''HEALTHY''"
| "health_level_value HL_RUNNING = ''RUNNING''"
| "health_level_value HL_WARNING = ''WARNING''"
| "health_level_value HL_ACTION_REQUIRED = ''ACTION_REQUIRED''"
| "health_level_value HL_FAILED = ''FAILED''"
| "health_level_value HL_INACTIVE = ''INACTIVE''"
| "health_level_value HL_DRAFT_ONLY = ''DRAFT_ONLY''"
| "health_level_value HL_NEVER_RUN = ''NEVER_RUN''"

definition health_level_members :: "health_level list" where
  "health_level_members = [HL_HEALTHY, HL_RUNNING, HL_WARNING, HL_ACTION_REQUIRED, HL_FAILED, HL_INACTIVE, HL_DRAFT_ONLY, HL_NEVER_RUN]"

definition health_level_of :: "string \<Rightarrow> health_level option" where
  "health_level_of s = enum_parse health_level_members health_level_value s"

interpretation health_level_enum: py_enum health_level_members health_level_value
proof
  show "m \<in> set health_level_members" for m by (cases m) (simp_all add: health_level_members_def)
qed (simp add: health_level_members_def)

lemma health_level_of_value [simp]: "health_level_of (health_level_value m) = Some m"
  by (simp add: health_level_of_def health_level_enum.parse_value)

section \<open>Terminal and active executions\<close>

definition TERMINAL_EXECUTION_STATUSES :: "execution_status set" where
  "TERMINAL_EXECUTION_STATUSES =
     {EX_SUCCEEDED, EX_FAILED, EX_CANCELLED, EX_TIMED_OUT, EX_FAILED_TO_START, EX_ENGINE_INTERRUPTED}"

definition ACTIVE_EXECUTION_STATUSES :: "execution_status set" where
  "ACTIVE_EXECUTION_STATUSES = {EX_QUEUED, EX_DISPATCHING, EX_RUNNING, EX_CANCEL_REQUESTED}"

definition is_terminal :: "execution_status \<Rightarrow> bool" where
  "is_terminal s = (s \<in> TERMINAL_EXECUTION_STATUSES)"

definition is_active :: "execution_status \<Rightarrow> bool" where
  "is_active s = (s \<in> ACTIVE_EXECUTION_STATUSES)"

lemma is_active_iff [simp]: "is_active s \<longleftrightarrow> \<not> is_terminal s"
  by (cases s) (simp_all add: is_active_def is_terminal_def TERMINAL_EXECUTION_STATUSES_def
      ACTIVE_EXECUTION_STATUSES_def)

lemma is_terminal_simps [simp]:
  "is_terminal EX_SUCCEEDED" "is_terminal EX_FAILED" "is_terminal EX_CANCELLED"
  "is_terminal EX_TIMED_OUT" "is_terminal EX_FAILED_TO_START" "is_terminal EX_ENGINE_INTERRUPTED"
  "\<not> is_terminal EX_QUEUED" "\<not> is_terminal EX_DISPATCHING" "\<not> is_terminal EX_RUNNING"
  "\<not> is_terminal EX_CANCEL_REQUESTED"
  by (simp_all add: is_terminal_def TERMINAL_EXECUTION_STATUSES_def)

lemma in_ACTIVE_iff [simp]: "s \<in> ACTIVE_EXECUTION_STATUSES \<longleftrightarrow> \<not> is_terminal s"
  unfolding is_active_def [symmetric] by (rule is_active_iff)

lemma in_TERMINAL_iff [simp]: "s \<in> TERMINAL_EXECUTION_STATUSES \<longleftrightarrow> is_terminal s"
  by (simp add: is_terminal_def)

end
