(* ===== verification/Errors.thy ===== *)
theory Errors
  imports Prelude
begin

text \<open>
  The normalized error envelope, \<open>app/core/errors.py\<close>: categories, the \<open>AppError\<close> class
  tree (status, code and category of each class), the keyword arguments of its constructor,
  the response envelope and the UX matrix with \<open>error_from_matrix\<close>. Human-readable messages
  are not modelled.
\<close>

datatype error_category =
    EC_AUTHENTICATION
  | EC_PERMISSION
  | EC_VALIDATION
  | EC_CONFIGURATION
  | EC_EXPRESSION
  | EC_NETWORK
  | EC_RATE_LIMIT
  | EC_TIMEOUT
  | EC_CONFLICT
  | EC_NOT_FOUND
  | EC_QUOTA
  | EC_ENGINE
  | EC_CANCELLED
  | EC_NODE
  | EC_UNKNOWN

fun error_category_value :: "error_category \<Rightarrow> string" where
  "error_category_value EC_AUTHENTICATION = ''AUTHENTICATION''"
| "error_category_value EC_PERMISSION = ''PERMISSION''"
| "error_category_value EC_VALIDATION = ''VALIDATION''"
| "error_category_value EC_CONFIGURATION = ''CONFIGURATION''"
| "error_category_value EC_EXPRESSION = ''EXPRESSION''"
| "error_category_value EC_NETWORK = ''NETWORK''"
| "error_category_value EC_RATE_LIMIT = ''RATE_LIMIT''"
| "error_category_value EC_TIMEOUT = ''TIMEOUT''"
| "error_category_value EC_CONFLICT = ''CONFLICT''"
| "error_category_value EC_NOT_FOUND = ''NOT_FOUND''"
| "error_category_value EC_QUOTA = ''QUOTA''"
| "error_category_value EC_ENGINE = ''ENGINE''"
| "error_category_value EC_CANCELLED = ''CANCELLED''"
| "error_category_value EC_NODE = ''NODE''"
| "error_category_value EC_UNKNOWN = ''UNKNOWN''"

definition error_category_members :: "error_category list" where
  "error_category_members = [EC_AUTHENTICATION, EC_PERMISSION, EC_VALIDATION, EC_CONFIGURATION, EC_EXPRESSION, EC_NETWORK, EC_RATE_LIMIT, EC_TIMEOUT, EC_CONFLICT, EC_NOT_FOUND, EC_QUOTA, EC_ENGINE, EC_CANCELLED, EC_NODE, EC_UNKNOWN]"

interpretation error_category_enum: py_enum error_category_members error_category_value
proof
  show "m \<in> set error_category_members" for m by (cases m) (simp_all add: error_category_members_def)
qed (simp add: error_category_members_def)

section \<open>The class tree\<close>

record error_class =
  cls_status :: int
  cls_code :: string
  cls_category :: error_category

definition AppError :: error_class where
  "AppError = \<lparr>cls_status = 400, cls_code = ''BAD_REQUEST'', cls_category = EC_VALIDATION\<rparr>"

definition ValidationError :: error_class where
  "ValidationError = \<lparr>cls_status = 422, cls_code = ''VALIDATION_FAILED'', cls_category = EC_VALIDATION\<rparr>"

definition NotFoundError :: error_class where
  "NotFoundError = \<lparr>cls_status = 404, cls_code = ''RESOURCE_NOT_FOUND'', cls_category = EC_NOT_FOUND\<rparr>"

definition UnauthorizedError :: error_class where
  "UnauthorizedError = \<lparr>cls_status = 401, cls_code = ''UNAUTHENTICATED'', cls_category = EC_AUTHENTICATION\<rparr>"

definition ForbiddenError :: error_class where
  "ForbiddenError = \<lparr>cls_status = 403, cls_code = ''PERMISSION_DENIED'', cls_category = EC_PERMISSION\<rparr>"

definition ConflictError :: error_class where
  "ConflictError = \<lparr>cls_status = 409, cls_code = ''RESOURCE_CONFLICT'', cls_category = EC_CONFLICT\<rparr>"

definition DraftConflictError :: error_class where
  "DraftConflictError = ConflictError\<lparr>cls_code := ''DRAFT_VERSION_CONFLICT''\<rparr>"

definition ResourceInUseError :: error_class where
  "ResourceInUseError = ConflictError\<lparr>cls_code := ''RESOURCE_IN_USE''\<rparr>"

definition WorkflowRunningError :: error_class where
  "WorkflowRunningError = ConflictError\<lparr>cls_code := ''WORKFLOW_ALREADY_RUNNING''\<rparr>"

definition QuotaExceededError :: error_class where
  "QuotaExceededError = \<lparr>cls_status = 429, cls_code = ''QUOTA_EXCEEDED'', cls_category = EC_QUOTA\<rparr>"

definition RateLimitedError :: error_class where
  "RateLimitedError = \<lparr>cls_status = 429, cls_code = ''RATE_LIMITED'', cls_category = EC_RATE_LIMIT\<rparr>"

definition EngineUnavailableError :: error_class where
  "EngineUnavailableError = \<lparr>cls_status = 503, cls_code = ''ENGINE_UNAVAILABLE'', cls_category = EC_ENGINE\<rparr>"

definition EngineIncompatibleError :: error_class where
  "EngineIncompatibleError = \<lparr>cls_status = 503, cls_code = ''ENGINE_INCOMPATIBLE'', cls_category = EC_ENGINE\<rparr>"

definition EngineOperationError :: error_class where
  "EngineOperationError = \<lparr>cls_status = 502, cls_code = ''ENGINE_OPERATION_FAILED'', cls_category = EC_ENGINE\<rparr>"

section \<open>Raising\<close>

text \<open>An \<open>AppError\<close> instance, and the keyword arguments of \<open>AppError.__init__\<close>: each
  argument that is absent or falsy leaves the class attribute in place.\<close>

record app_error =
  ae_status :: int
  ae_code :: string
  ae_category :: error_category
  ae_remediation :: "dict option"
  ae_technical :: "string option"
  ae_constraints :: "dict list option"
  ae_details :: "dict option"

record error_args =
  arg_code :: "string option"
  arg_category :: "error_category option"
  arg_status :: "int option"
  arg_remediation :: "dict option"
  arg_technical :: "string option"
  arg_constraints :: "dict list option"
  arg_details :: "dict option"

definition no_args :: error_args where
  "no_args = \<lparr>arg_code = None, arg_category = None, arg_status = None, arg_remediation = None,
     arg_technical = None, arg_constraints = None, arg_details = None\<rparr>"

definition AppError_init :: "error_class \<Rightarrow> error_args \<Rightarrow> app_error" where
  "AppError_init c a =
     \<lparr>ae_status = (case arg_status a of Some s \<Rightarrow> if s \<noteq> 0 then s else cls_status c | None \<Rightarrow> cls_status c),
      ae_code = (case arg_code a of Some s \<Rightarrow> if s \<noteq> [] then s else cls_code c | None \<Rightarrow> cls_code c),
      ae_category = (case arg_category a of Some k \<Rightarrow> k | None \<Rightarrow> cls_category c),
      ae_remediation = arg_remediation a,
      ae_technical = arg_technical a,
      ae_constraints = arg_constraints a,
      ae_details = arg_details a\<rparr>"

text \<open>\<open>raise C(...)\<close> with no keyword, and with \<open>code=\<close>.\<close>

definition raise_class :: "error_class \<Rightarrow> app_error" where
  "raise_class c = AppError_init c no_args"

definition raise_code :: "error_class \<Rightarrow> string \<Rightarrow> app_error" where
  "raise_code c code = AppError_init c (no_args\<lparr>arg_code := Some code\<rparr>)"

lemma raise_class_fields [simp]:
  "ae_status (raise_class c) = cls_status c" "ae_code (raise_class c) = cls_code c"
  "ae_category (raise_class c) = cls_category c"
  by (simp_all add: raise_class_def AppError_init_def no_args_def)

lemma raise_code_fields [simp]:
  "ae_status (raise_code c k) = cls_status c"
  "ae_code (raise_code c k) = (if k \<noteq> [] then k else cls_code c)"
  "ae_category (raise_code c k) = cls_category c"
  by (simp_all add: raise_code_def AppError_init_def no_args_def)

text \<open>\<open>to_envelope\<close>, less the message text: the optional parts appear only when truthy.\<close>

definition to_envelope :: "app_error \<Rightarrow> string \<Rightarrow> json" where
  "to_envelope e trace_id =
     (let body = [(''code'', JStr (ae_code e)),
                  (''category'', JStr (error_category_value (ae_category e))),
                  (''trace_id'', JStr trace_id)];
          body = (case ae_remediation e of
                    Some r \<Rightarrow> if r \<noteq> [] then body @ [(''remediation'', JObj r)] else body | None \<Rightarrow> body);
          body = (case ae_technical e of
                    Some t \<Rightarrow> if t \<noteq> [] then body @ [(''technical_message'', JStr t)] else body | None \<Rightarrow> body);
          body = (case ae_constraints e of
                    Some cs \<Rightarrow> if cs \<noteq> [] then body @ [(''constraints'', JArr (map JObj cs))] else body | None \<Rightarrow> body);
          body = (case ae_details e of
                    Some d \<Rightarrow> if d \<noteq> [] then body @ [(''details'', JObj d)] else body | None \<Rightarrow> body)
      in JObj [(''error'', JObj body)])"

section \<open>The UX matrix\<close>

definition ERROR_UX_MATRIX :: "(string \<times> int \<times> error_category \<times> string option) list" where
  "ERROR_UX_MATRIX =
    [
     (''WORKFLOW_INVALID'', 422, EC_VALIDATION, Some ''SHOW_INVALID_NODES''),
     (''NODE_UNSUPPORTED'', 422, EC_CONFIGURATION, Some ''REPLACE_NODE''),
     (''CREDENTIAL_REQUIRED'', 422, EC_CONFIGURATION, Some ''CHOOSE_CREDENTIAL''),
     (''CREDENTIAL_INVALID'', 400, EC_AUTHENTICATION, Some ''UPDATE_CREDENTIAL''),
     (''EXPRESSION_INVALID'', 422, EC_EXPRESSION, Some ''OPEN_FIELD''),
     (''EXPRESSION_EVALUATION_FAILED'', 400, EC_EXPRESSION, Some ''INSPECT_INPUT''),
     (''NODE_AUTHENTICATION_FAILED'', 400, EC_AUTHENTICATION, Some ''UPDATE_CREDENTIAL''),
     (''NODE_TIMEOUT'', 504, EC_TIMEOUT, Some ''RETRY_OR_CHECK_ENDPOINT''),
     (''NODE_RATE_LIMITED'', 429, EC_RATE_LIMIT, Some ''RETRY_LATER''),
     (''NODE_CONFIGURATION_INVALID'', 422, EC_CONFIGURATION, Some ''EDIT_NODE''),
     (''NODE_NETWORK_UNREACHABLE'', 400, EC_NETWORK, Some ''CHECK_ENDPOINT''),
     (''NODE_EXECUTION_FAILED'', 400, EC_NODE, Some ''INSPECT_NODE''),
     (''EGRESS_BLOCKED'', 422, EC_CONFIGURATION, Some ''EDIT_NODE''),
     (''WORKFLOW_ALREADY_RUNNING'', 409, EC_CONFLICT, Some ''VIEW_EXECUTION''),
     (''DRAFT_VERSION_CONFLICT'', 409, EC_CONFLICT, Some ''RELOAD_DRAFT''),
     (''WORKFLOW_NOT_PUBLISHED'', 409, EC_CONFLICT, Some ''PUBLISH_WORKFLOW''),
     (''ENGINE_UNAVAILABLE'', 503, EC_ENGINE, Some ''RETRY_LATER''),
     (''ENGINE_INCOMPATIBLE'', 503, EC_ENGINE, Some ''CONTACT_ADMIN''),
     (''EXECUTION_CANCELLED'', 200, EC_CANCELLED, None),
     (''EXECUTION_TIMED_OUT'', 504, EC_TIMEOUT, Some ''INSPECT_EXECUTION''),
     (''ENGINE_INTERRUPTED'', 500, EC_ENGINE, Some ''RETRY_EXECUTION''),
     (''WEBHOOK_AUTH_FAILED'', 401, EC_AUTHENTICATION, Some ''CHECK_WEBHOOK_SECRET''),
     (''SCHEDULE_INVALID'', 422, EC_VALIDATION, Some ''EDIT_SCHEDULE'')]"

text \<open>\<open>error_from_matrix(code, **kwargs)\<close>; the arguments are those of the constructor plus
  \<open>resource_id\<close>, which only decorates a remediation taken from the matrix.\<close>

definition error_from_matrix_with :: "string \<Rightarrow> string option \<Rightarrow> error_args \<Rightarrow> app_error" where
  "error_from_matrix_with code resource_id kwargs =
     (let (status, category, action) =
            (case map_of ERROR_UX_MATRIX code of
               Some row \<Rightarrow> row | None \<Rightarrow> (400, EC_UNKNOWN, None));
          remediation =
            (case (arg_remediation kwargs, action) of
               (None, Some act) \<Rightarrow>
                 Some ((''action'', JStr act) #
                   (case resource_id of
                      Some r \<Rightarrow> if r \<noteq> [] then [(''resource_id'', JStr r)] else []
                    | None \<Rightarrow> []))
             | (r, _) \<Rightarrow> r)
      in AppError_init AppError
           (kwargs\<lparr>arg_code := Some code, arg_category := Some category,
             arg_status := Some (case arg_status kwargs of
                                   Some s \<Rightarrow> if s \<noteq> 0 then s else status | None \<Rightarrow> status),
             arg_remediation := remediation\<rparr>))"

definition error_from_matrix :: "string \<Rightarrow> app_error" where
  "error_from_matrix code = error_from_matrix_with code None no_args"

text \<open>What a service call can end in besides its result: an \<open>AppError\<close>, or a Python exception
  that no service catches (the client sees a 500, or a 409 for an \<open>IntegrityError\<close>).\<close>

datatype service_error = App app_error | Crash py_exc

lemma matrix_status_pos: "(code, status, cat, act) \<in> set ERROR_UX_MATRIX \<Longrightarrow> status \<noteq> 0 \<and> code \<noteq> []"
  by (auto simp: ERROR_UX_MATRIX_def)

lemma error_from_matrix_code [simp]:
  "code \<noteq> [] \<Longrightarrow> ae_code (error_from_matrix code) = code"
  by (simp add: error_from_matrix_def error_from_matrix_with_def AppError_init_def no_args_def
      Let_def split: prod.splits option.splits)

end
