(* ===== verification/Permissions.thy ===== *)
theory Permissions
  imports Errors
begin

text \<open>
  Role-based access control, \<open>app/core/permissions.py\<close>, and the request context of
  \<open>app/core/context.py\<close>: the role matrix, the per-member overrides that replace a
  preset module by module, their validation and serialisation, and the organisation axis.
\<close>

section \<open>\<open>Role\<close>\<close>

datatype role =
    R_OWNER
  | R_AUTOMATION_ADMIN
  | R_AUTOMATION_BUILDER
  | R_OPERATOR
  | R_ANALYST
  | R_AUDITOR
  | R_PLATFORM_ADMIN

fun role_value :: "role \<Rightarrow> string" where
  "role_value R_OWNER = ''OWNER''"
| "role_value R_AUTOMATION_ADMIN = ''AUTOMATION_ADMIN''"
| "role_value R_AUTOMATION_BUILDER = ''AUTOMATION_BUILDER''"
| "role_value R_OPERATOR = ''OPERATOR''"
| "role_value R_ANALYST = ''ANALYST''"
| "role_value R_AUDITOR = ''AUDITOR''"
| "role_value R_PLATFORM_ADMIN = ''PLATFORM_ADMIN''"

definition role_members :: "role list" where
  "role_members = [R_OWNER, R_AUTOMATION_ADMIN, R_AUTOMATION_BUILDER, R_OPERATOR, R_ANALYST, R_AUDITOR, R_PLATFORM_ADMIN]"

definition role_of :: "string \<Rightarrow> role option" where
  "role_of s = enum_parse role_members role_value s"

interpretation role_enum: py_enum role_members role_value
proof
  show "m \<in> set role_members" for m by (cases m) (simp_all add: role_members_def)
qed (simp add: role_members_def)

lemma role_of_value [simp]: "role_of (role_value m) = Some m"
  by (simp add: role_of_def role_enum.parse_value)


section \<open>\<open>Module\<close>\<close>

datatype perm_module =
    M_WORKFLOWS
  | M_CREDENTIALS
  | M_EXECUTIONS
  | M_NODES
  | M_MONITORING
  | M_ALERTS
  | M_AUDIT
  | M_MEMBERS
  | M_SETTINGS

fun perm_module_value :: "perm_module \<Rightarrow> string" where
  "perm_module_value M_WORKFLOWS = ''workflows''"
| "perm_module_value M_CREDENTIALS = ''credentials''"
| "perm_module_value M_EXECUTIONS = ''executions''"
| "perm_module_value M_NODES = ''nodes''"
| "perm_module_value M_MONITORING = ''monitoring''"
| "perm_module_value M_ALERTS = ''alerts''"
| "perm_module_value M_AUDIT = ''audit''"
| "perm_module_value M_MEMBERS = ''members''"
| "perm_module_value M_SETTINGS = ''settings''"

definition perm_module_members :: "perm_module list" where
  "perm_module_members = [M_WORKFLOWS, M_CREDENTIALS, M_EXECUTIONS, M_NODES, M_MONITORING, M_ALERTS, M_AUDIT, M_MEMBERS, M_SETTINGS]"

definition perm_module_of :: "string \<Rightarrow> perm_module option" where
  "perm_module_of s = enum_parse perm_module_members perm_module_value s"

interpretation perm_module_enum: py_enum perm_module_members perm_module_value
proof
  show "m \<in> set perm_module_members" for m by (cases m) (simp_all add: perm_module_members_def)
qed (simp add: perm_module_members_def)

lemma perm_module_of_value [simp]: "perm_module_of (perm_module_value m) = Some m"
  by (simp add: perm_module_of_def perm_module_enum.parse_value)


section \<open>\<open>Action\<close>\<close>

datatype action =
    A_VIEW
  | A_VIEW_DATA
  | A_CREATE
  | A_EDIT
  | A_EXECUTE
  | A_PUBLISH
  | A_USE
  | A_DELETE
  | A_ADMIN

fun action_value :: "action \<Rightarrow> string" where
  "action_value A_VIEW = ''view''"
| "action_value A_VIEW_DATA = ''view_data''"
| "action_value A_CREATE = ''create''"
| "action_value A_EDIT = ''edit''"
| "action_value A_EXECUTE = ''execute''"
| "action_value A_PUBLISH = ''publish''"
| "action_value A_USE = ''use''"
| "action_value A_DELETE = ''delete''"
| "action_value A_ADMIN = ''admin''"

definition action_members :: "action list" where
  "action_members = [A_VIEW, A_VIEW_DATA, A_CREATE, A_EDIT, A_EXECUTE, A_PUBLISH, A_USE, A_DELETE, A_ADMIN]"

definition action_of :: "string \<Rightarrow> action option" where
  "action_of s = enum_parse action_members action_value s"

interpretation action_enum: py_enum action_members action_value
proof
  show "m \<in> set action_members" for m by (cases m) (simp_all add: action_members_def)
qed (simp add: action_members_def)

lemma action_of_value [simp]: "action_of (action_value m) = Some m"
  by (simp add: action_of_def action_enum.parse_value)


section \<open>\<open>OrgRole\<close>\<close>

datatype org_role =
    OR_OWNER
  | OR_ADMIN
  | OR_MEMBER

fun org_role_value :: "org_role \<Rightarrow> string" where
  "org_role_value OR_OWNER = ''ORG_OWNER''"
| "org_role_value OR_ADMIN = ''ORG_ADMIN''"
| "org_role_value OR_MEMBER = ''ORG_MEMBER''"

definition org_role_members :: "org_role list" where
  "org_role_members = [OR_OWNER, OR_ADMIN, OR_MEMBER]"

definition org_role_of :: "string \<Rightarrow> org_role option" where
  "org_role_of s = enum_parse org_role_members org_role_value s"

interpretation org_role_enum: py_enum org_role_members org_role_value
proof
  show "m \<in> set org_role_members" for m by (cases m) (simp_all add: org_role_members_def)
qed (simp add: org_role_members_def)

lemma org_role_of_value [simp]: "org_role_of (org_role_value m) = Some m"
  by (simp add: org_role_of_def org_role_enum.parse_value)



text \<open>Actions are ordered by their names, which is how the code sorts them for display.\<close>

instantiation action :: linorder
begin

definition less_eq_action :: "action \<Rightarrow> action \<Rightarrow> bool" where
  "less_eq_action a b = (action_value a \<le> action_value b)"

definition less_action :: "action \<Rightarrow> action \<Rightarrow> bool" where
  "less_action a b = (action_value a < action_value b)"

instance
  by standard
    (auto simp: less_eq_action_def less_action_def action_enum.value_inj less_le_not_le)

end

lemma finite_actions [simp]: "finite (S :: action set)"
proof (rule finite_subset [of _ "set action_members"])
  show "S \<subseteq> set action_members" using action_enum.complete by blast
qed simp

definition sorted_values :: "action set \<Rightarrow> string list" where
  "sorted_values S = map action_value (sorted_list_of_set S)"

lemma set_sorted_values: "set (sorted_values S) = action_value ` S"
  by (simp add: sorted_values_def)

lemma sorted_sorted_values: "sorted (sorted_values S)"
  unfolding sorted_values_def sorted_map
  by (rule sorted_wrt_mono_rel [OF _ sorted_sorted_list_of_set]) (simp add: less_eq_action_def)

section \<open>The role matrix\<close>

definition ALL_ACTIONS :: "action set" where
  "ALL_ACTIONS = set action_members"

definition RO_ACTIONS :: "action set" where
  "RO_ACTIONS = {A_VIEW}"

lemma ALL_ACTIONS_UNIV [simp]: "a \<in> ALL_ACTIONS"
  by (simp add: ALL_ACTIONS_def action_enum.complete)

fun MATRIX :: "role \<Rightarrow> perm_module \<Rightarrow> action set" where
  "MATRIX R_OWNER m = ALL_ACTIONS"
| "MATRIX R_PLATFORM_ADMIN m = ALL_ACTIONS"
| "MATRIX R_AUTOMATION_ADMIN M_WORKFLOWS = {A_VIEW, A_VIEW_DATA, A_CREATE, A_EDIT, A_EXECUTE, A_PUBLISH, A_DELETE}"
| "MATRIX R_AUTOMATION_ADMIN M_CREDENTIALS = {A_VIEW, A_CREATE, A_EDIT, A_USE, A_DELETE}"
| "MATRIX R_AUTOMATION_ADMIN M_EXECUTIONS = {A_VIEW, A_VIEW_DATA, A_EXECUTE}"
| "MATRIX R_AUTOMATION_ADMIN M_NODES = RO_ACTIONS"
| "MATRIX R_AUTOMATION_ADMIN M_MONITORING = {A_VIEW, A_VIEW_DATA}"
| "MATRIX R_AUTOMATION_ADMIN M_ALERTS = {A_VIEW, A_CREATE, A_EDIT, A_EXECUTE, A_DELETE}"
| "MATRIX R_AUTOMATION_ADMIN M_AUDIT = RO_ACTIONS"
| "MATRIX R_AUTOMATION_ADMIN M_MEMBERS = RO_ACTIONS"
| "MATRIX R_AUTOMATION_ADMIN M_SETTINGS = {A_VIEW, A_EDIT}"
| "MATRIX R_AUTOMATION_BUILDER M_WORKFLOWS = {A_VIEW, A_VIEW_DATA, A_CREATE, A_EDIT, A_EXECUTE}"
| "MATRIX R_AUTOMATION_BUILDER M_CREDENTIALS = {A_VIEW, A_CREATE, A_EDIT, A_USE}"
| "MATRIX R_AUTOMATION_BUILDER M_EXECUTIONS = {A_VIEW, A_VIEW_DATA, A_EXECUTE}"
| "MATRIX R_AUTOMATION_BUILDER M_NODES = RO_ACTIONS"
| "MATRIX R_AUTOMATION_BUILDER M_MONITORING = RO_ACTIONS"
| "MATRIX R_AUTOMATION_BUILDER M_ALERTS = {A_VIEW, A_EXECUTE}"
| "MATRIX R_AUTOMATION_BUILDER M_AUDIT = {}"
| "MATRIX R_AUTOMATION_BUILDER M_MEMBERS = {}"
| "MATRIX R_AUTOMATION_BUILDER M_SETTINGS = RO_ACTIONS"
| "MATRIX R_OPERATOR M_WORKFLOWS = {A_VIEW, A_EXECUTE}"
| "MATRIX R_OPERATOR M_CREDENTIALS = RO_ACTIONS"
| "MATRIX R_OPERATOR M_EXECUTIONS = {A_VIEW, A_VIEW_DATA, A_EXECUTE}"
| "MATRIX R_OPERATOR M_NODES = RO_ACTIONS"
| "MATRIX R_OPERATOR M_MONITORING = {A_VIEW, A_VIEW_DATA}"
| "MATRIX R_OPERATOR M_ALERTS = {A_VIEW, A_EXECUTE}"
| "MATRIX R_OPERATOR M_AUDIT = {}"
| "MATRIX R_OPERATOR M_MEMBERS = {}"
| "MATRIX R_OPERATOR M_SETTINGS = RO_ACTIONS"
| "MATRIX R_ANALYST M_WORKFLOWS = RO_ACTIONS"
| "MATRIX R_ANALYST M_CREDENTIALS = RO_ACTIONS"
| "MATRIX R_ANALYST M_EXECUTIONS = {A_VIEW, A_VIEW_DATA}"
| "MATRIX R_ANALYST M_NODES = RO_ACTIONS"
| "MATRIX R_ANALYST M_MONITORING = RO_ACTIONS"
| "MATRIX R_ANALYST M_ALERTS = RO_ACTIONS"
| "MATRIX R_ANALYST M_AUDIT = {}"
| "MATRIX R_ANALYST M_MEMBERS = {}"
| "MATRIX R_ANALYST M_SETTINGS = RO_ACTIONS"
| "MATRIX R_AUDITOR M_WORKFLOWS = RO_ACTIONS"
| "MATRIX R_AUDITOR M_CREDENTIALS = RO_ACTIONS"
| "MATRIX R_AUDITOR M_EXECUTIONS = RO_ACTIONS"
| "MATRIX R_AUDITOR M_NODES = RO_ACTIONS"
| "MATRIX R_AUDITOR M_MONITORING = RO_ACTIONS"
| "MATRIX R_AUDITOR M_ALERTS = RO_ACTIONS"
| "MATRIX R_AUDITOR M_AUDIT = RO_ACTIONS"
| "MATRIX R_AUDITOR M_MEMBERS = RO_ACTIONS"
| "MATRIX R_AUDITOR M_SETTINGS = RO_ACTIONS"

definition ASSIGNABLE_ROLES :: "role list" where
  "ASSIGNABLE_ROLES =
     [R_OWNER, R_AUTOMATION_ADMIN, R_AUTOMATION_BUILDER, R_OPERATOR, R_ANALYST, R_AUDITOR]"

definition allowed :: "role \<Rightarrow> perm_module \<Rightarrow> action \<Rightarrow> bool" where
  "allowed r m a = (a \<in> MATRIX r m)"

definition require_role :: "role \<Rightarrow> perm_module \<Rightarrow> action \<Rightarrow> service_error + unit" where
  "require_role r m a =
     (if \<not> allowed r m a then
        Inl (App (AppError_init ForbiddenError (no_args\<lparr>arg_details := Some
          [(''module'', JStr (perm_module_value m)), (''action'', JStr (action_value a)),
           (''role'', JStr (role_value r))]\<rparr>)))
      else Inr ())"

definition permission_map :: "role \<Rightarrow> (string \<times> string list) list" where
  "permission_map r = map (\<lambda>m. (perm_module_value m, sorted_values (MATRIX r m))) perm_module_members"

section \<open>Per-member overrides\<close>

text \<open>What a membership may do: every module has an entry, so a resolved permission
  dictionary is a total function.\<close>

type_synonym perms = "perm_module \<Rightarrow> action set"

definition as_module :: "string \<Rightarrow> perm_module option" where
  "as_module key = perm_module_of key"

fun as_actions :: "json \<Rightarrow> action set" where
  "as_actions (JArr items) = set (List.map_filter (\<lambda>item. action_of (py_str item)) items)"
| "as_actions _ = {}"

fun apply_overrides :: "perms \<Rightarrow> dict \<Rightarrow> perms" where
  "apply_overrides resolved [] = resolved"
| "apply_overrides resolved ((key, raw) # items) =
     (case as_module key of
        None \<Rightarrow> apply_overrides resolved items
      | Some m \<Rightarrow> apply_overrides (resolved(m := as_actions raw)) items)"

definition effective :: "role \<Rightarrow> dict option \<Rightarrow> bool \<Rightarrow> perms" where
  "effective r overrides is_platform_admin =
     (if is_platform_admin then (\<lambda>_. ALL_ACTIONS)
      else apply_overrides (MATRIX r) (case overrides of None \<Rightarrow> [] | Some d \<Rightarrow> d))"

text \<open>\<open>parse_overrides\<close>: the submitted map either becomes its stored shape or is refused.\<close>

fun parse_actions :: "json list \<Rightarrow> py_exc + action set" where
  "parse_actions [] = Inr {}"
| "parse_actions (item # items) =
     (case action_of (py_str item) of
        None \<Rightarrow> Inl ValueErr
      | Some a \<Rightarrow>
          (case parse_actions items of Inl e \<Rightarrow> Inl e | Inr acts \<Rightarrow> Inr (insert a acts)))"

fun parse_items :: "dict \<Rightarrow> dict \<Rightarrow> py_exc + dict" where
  "parse_items stored [] = Inr stored"
| "parse_items stored ((key, value) # items) =
     (case as_module key of
        None \<Rightarrow> Inl ValueErr
      | Some m \<Rightarrow>
          (case value of
             JArr xs \<Rightarrow>
               (case parse_actions xs of
                  Inl e \<Rightarrow> Inl e
                | Inr acts \<Rightarrow>
                    parse_items (dput stored (perm_module_value m) (JArr (map JStr (sorted_values acts)))) items)
           | _ \<Rightarrow> Inl ValueErr))"

definition parse_overrides :: "dict option \<Rightarrow> py_exc + dict" where
  "parse_overrides raw = (case raw of None \<Rightarrow> Inr [] | Some d \<Rightarrow> parse_items [] d)"

definition serialise :: "perms \<Rightarrow> dict" where
  "serialise p = map (\<lambda>m. (perm_module_value m, JArr (map JStr (sorted_values (p m))))) perm_module_members"

definition allowed_effective :: "perms \<Rightarrow> perm_module \<Rightarrow> action \<Rightarrow> bool" where
  "allowed_effective p m a = (a \<in> p m)"

definition require_effective :: "perms \<Rightarrow> perm_module \<Rightarrow> action \<Rightarrow> role \<Rightarrow> service_error + unit" where
  "require_effective p m a r =
     (if \<not> allowed_effective p m a then
        Inl (App (AppError_init ForbiddenError (no_args\<lparr>arg_details := Some
          [(''module'', JStr (perm_module_value m)), (''action'', JStr (action_value a)),
           (''role'', JStr (role_value r))]\<rparr>)))
      else Inr ())"

section \<open>The organisation axis\<close>

fun ORG_MATRIX :: "org_role \<Rightarrow> action set" where
  "ORG_MATRIX OR_OWNER = {A_VIEW, A_CREATE, A_EDIT, A_DELETE, A_ADMIN}"
| "ORG_MATRIX OR_ADMIN = {A_VIEW, A_CREATE, A_EDIT, A_ADMIN}"
| "ORG_MATRIX OR_MEMBER = {A_VIEW}"

definition ORG_ROLES_WITH_WORKSPACE_ACCESS :: "org_role list" where
  "ORG_ROLES_WITH_WORKSPACE_ACCESS = [OR_OWNER, OR_ADMIN]"

definition org_allowed :: "org_role option \<Rightarrow> action \<Rightarrow> bool" where
  "org_allowed r a = (case r of None \<Rightarrow> False | Some r \<Rightarrow> a \<in> ORG_MATRIX r)"

definition org_require :: "org_role option \<Rightarrow> action \<Rightarrow> service_error + unit" where
  "org_require r a =
     (if \<not> org_allowed r a then
        Inl (App (AppError_init ForbiddenError (no_args\<lparr>arg_code := Some ''ORG_ACTION_DENIED'',
          arg_details := Some
            [(''scope'', JStr ''organization''), (''action'', JStr (action_value a)),
             (''role'', JStr (case r of None \<Rightarrow> ''none'' | Some r \<Rightarrow> org_role_value r))]\<rparr>)))
      else Inr ())"

definition org_permissions :: "org_role option \<Rightarrow> string list" where
  "org_permissions r = (case r of None \<Rightarrow> [] | Some r \<Rightarrow> sorted_values (ORG_MATRIX r))"

section \<open>The request context\<close>

record request_context =
  ctx_user_id :: "uuid option"
  ctx_workspace_id :: uuid
  ctx_role :: role
  ctx_trace_id :: string
  ctx_email :: "string option"
  ctx_full_name :: "string option"
  ctx_is_platform_admin :: bool
  ctx_ip_address :: "string option"
  ctx_user_agent :: "string option"
  ctx_timezone :: string
  ctx_organization_id :: "uuid option"
  ctx_org_role :: "org_role option"
  ctx_permission_overrides :: "dict option"

definition effective_permissions :: "request_context \<Rightarrow> perms" where
  "effective_permissions ctx =
     effective (ctx_role ctx) (ctx_permission_overrides ctx) (ctx_is_platform_admin ctx)"

definition ctx_require :: "request_context \<Rightarrow> perm_module \<Rightarrow> action \<Rightarrow> service_error + unit" where
  "ctx_require ctx m a = require_effective (effective_permissions ctx) m a (ctx_role ctx)"

definition ctx_can :: "request_context \<Rightarrow> perm_module \<Rightarrow> action \<Rightarrow> bool" where
  "ctx_can ctx m a = allowed_effective (effective_permissions ctx) m a"

definition for_workspace :: "request_context \<Rightarrow> uuid \<Rightarrow> request_context" where
  "for_workspace ctx wid = ctx\<lparr>ctx_workspace_id := wid\<rparr>"

definition system_context :: "uuid \<Rightarrow> string \<Rightarrow> string \<Rightarrow> request_context" where
  "system_context wid trace_id timezone =
     \<lparr>ctx_user_id = None, ctx_workspace_id = wid, ctx_role = R_PLATFORM_ADMIN,
      ctx_trace_id = trace_id, ctx_email = None, ctx_full_name = Some ''system'',
      ctx_is_platform_admin = True, ctx_ip_address = None, ctx_user_agent = None,
      ctx_timezone = timezone, ctx_organization_id = None, ctx_org_role = None,
      ctx_permission_overrides = None\<rparr>"

section \<open>Properties\<close>

lemma apply_overrides_other:
  "\<forall>(k, v) \<in> set d. as_module k \<noteq> Some m \<Longrightarrow> apply_overrides p d m = p m"
  by (induction p d rule: apply_overrides.induct) (auto split: option.splits)

lemma as_module_inj: "as_module k = Some m \<longleftrightarrow> k = perm_module_value m"
  unfolding as_module_def perm_module_of_def by (rule perm_module_enum.parse_Some)

lemma apply_overrides_lookup:
  assumes "distinct (map fst d)"
  shows "apply_overrides p d m =
    (case map_of d (perm_module_value m) of None \<Rightarrow> p m | Some raw \<Rightarrow> as_actions raw)"
  using assms
proof (induction p d rule: apply_overrides.induct)
  case (2 p key raw items)
  show ?case
  proof (cases "as_module key")
    case None
    then have "key \<noteq> perm_module_value m" by (metis as_module_inj option.distinct(1))
    with 2 None show ?thesis by simp
  next
    case (Some m')
    then have key: "key = perm_module_value m'" by (simp add: as_module_inj)
    with 2(3) have none: "map_of items (perm_module_value m') = None"
      by (simp add: map_of_eq_None_iff)
    have "distinct (map fst items)" using 2(3) by simp
    note IH = 2(2) [OF Some this]
    have "apply_overrides p ((key, raw) # items) m = apply_overrides (p(m' := as_actions raw)) items m"
      by (simp only: apply_overrides.simps Some option.case)
    also have "\<dots> = (case map_of items (perm_module_value m) of
        None \<Rightarrow> (p(m' := as_actions raw)) m | Some raw \<Rightarrow> as_actions raw)"
      by (rule IH)
    finally show ?thesis
      using none key by (auto simp: perm_module_enum.value_inj split: option.splits)
  qed
qed simp

text \<open>
  what a member who is not a platform administrator may do is decided module by module.
  A module that the override map names (a JSON object, so with distinct keys) is given
  exactly the actions listed there, none when the list is empty; a module that it does not
  name keeps the preset of the role.
\<close>

lemma effective_override_semantics:
  assumes "distinct (map fst d)"
  shows "effective r (Some d) False m =
    (case map_of d (perm_module_value m) of None \<Rightarrow> MATRIX r m | Some raw \<Rightarrow> as_actions raw)"
  using assms by (simp add: effective_def apply_overrides_lookup)

lemma effective_override_semantics_example:
  "effective R_OPERATOR (Some [(''workflows'', JArr []), (''bogus'', JArr [JStr ''admin''])]) False M_WORKFLOWS = {}
   \<and> effective R_OPERATOR (Some [(''workflows'', JArr []), (''bogus'', JArr [JStr ''admin''])]) False M_NODES = {A_VIEW}"
  using effective_override_semantics [of "[(''workflows'', JArr []), (''bogus'', JArr [JStr ''admin''])]" R_OPERATOR M_WORKFLOWS]
    effective_override_semantics [of "[(''workflows'', JArr []), (''bogus'', JArr [JStr ''admin''])]" R_OPERATOR M_NODES]
  by (simp add: List.map_filter_simps RO_ACTIONS_def)

lemma parse_actions_Inr:
  "parse_actions xs = Inr acts \<Longrightarrow> acts = as_actions (JArr xs)"
  by (induction xs arbitrary: acts) (auto simp: List.map_filter_simps split: option.splits sum.splits)

lemma as_actions_sorted_values [simp]: "as_actions (JArr (map JStr (sorted_values S))) = S"
proof -
  have "set (List.map_filter action_of (map action_value xs)) = set xs" for xs
    by (induction xs) auto
  then show ?thesis
    by (simp add: sorted_values_def List.map_filter_def comp_def)
qed

lemma parse_items_lookup:
  assumes "parse_items stored d = Inr s" "distinct (map fst d)"
  shows "map_option as_actions (map_of s k) =
    (case map_of d k of Some raw \<Rightarrow> Some (as_actions raw) | None \<Rightarrow> map_option as_actions (map_of stored k))"
  using assms
proof (induction stored d rule: parse_items.induct)
  case (2 stored key vl items)
  from 2(2) obtain m xs acts where
    m: "as_module key = Some m" and v: "vl = JArr xs" and p: "parse_actions xs = Inr acts"
    by (auto split: option.splits json.splits sum.splits)
  have IH: "map_option as_actions (map_of s k) =
      (case map_of items k of Some raw \<Rightarrow> Some (as_actions raw)
       | None \<Rightarrow> map_option as_actions (map_of (dput stored (perm_module_value m) (JArr (map JStr (sorted_values acts)))) k))"
    using 2 m v p by simp
  have "map_of items key = None" using 2(3) by (simp add: map_of_eq_None_iff)
  then show ?case
    using IH m v parse_actions_Inr [OF p]
    by (auto simp add: as_module_inj simp del: as_actions.simps split: option.splits)
qed simp

lemma parse_items_distinct:
  "parse_items stored d = Inr s \<Longrightarrow> distinct (map fst stored) \<Longrightarrow> distinct (map fst s)"
  by (induction stored d rule: parse_items.induct)
    (auto intro: distinct_dput split: option.splits json.splits sum.splits)

text \<open>
  an override map that \<open>parse_overrides\<close> accepts grants, once stored, exactly what the
  submitted map says: resolving the stored map and resolving the submitted one give the same
  permissions for every role, so the editor never stores less or more than was asked.
\<close>

lemma parse_overrides_faithful:
  assumes "distinct (map fst d)" "parse_overrides (Some d) = Inr s"
  shows "effective r (Some s) adm = effective r (Some d) adm"
proof -
  have "parse_items [] d = Inr s" using assms(2) by (simp add: parse_overrides_def)
  then have dist: "distinct (map fst s)"
    and look: "map_option as_actions (map_of s k) = map_option as_actions (map_of d k)" for k
    using parse_items_distinct [of "[]" d s] parse_items_lookup [of "[]" d s k] assms(1)
    by (auto split: option.splits)
  have "apply_overrides p s m = apply_overrides p d m" for p m
    using look [of "perm_module_value m"]
    by (auto simp: apply_overrides_lookup dist assms(1) split: option.splits)
  then show ?thesis by (auto simp: effective_def)
qed

lemma parse_overrides_faithful_example:
  "effective R_ANALYST (Some [(''alerts'', JArr [JStr ''edit'', JStr ''view''])]) False M_ALERTS
   = effective R_ANALYST (Some [(''alerts'', JArr [JStr ''view'', JStr ''edit'', JStr ''view''])]) False M_ALERTS"
proof -
  have "sorted_values {A_VIEW, A_EDIT} = [''edit'', ''view'']"
    by (simp add: sorted_values_def less_eq_action_def less_action_def)
  then have "parse_overrides (Some [(''alerts'', JArr [JStr ''view'', JStr ''edit'', JStr ''view''])]) =
      Inr [(''alerts'', JArr [JStr ''edit'', JStr ''view''])]"
    by (simp add: parse_overrides_def as_module_def perm_module_of_def action_of_def enum_parse_def
        perm_module_members_def action_members_def insert_commute)
  from parse_overrides_faithful [OF _ this, of R_ANALYST False] show ?thesis by simp
qed

text \<open>Serialising what \<^const>\<open>effective\<close> resolved and storing the result as an override
  map of any role gives the same permissions back.\<close>

lemma map_of_map_enum:
  "m \<in> set ms \<Longrightarrow> inj_on v (set ms) \<Longrightarrow> map_of (map (\<lambda>m. (v m, f m)) ms) (v m) = Some (f m)"
  by (induction ms) (auto simp: inj_on_def)

lemma serialise_roundtrip: "effective r (Some (serialise p)) False = p"
proof
  fix m
  have inj: "inj_on perm_module_value (set perm_module_members)"
    by (simp add: inj_on_def perm_module_enum.value_inj)
  have "distinct (map fst (serialise p))"
    using perm_module_enum.distinct_values by (simp add: serialise_def comp_def)
  moreover have "map_of (serialise p) (perm_module_value m) = Some (JArr (map JStr (sorted_values (p m))))"
    unfolding serialise_def by (rule map_of_map_enum [OF perm_module_enum.complete inj])
  ultimately show "effective r (Some (serialise p)) False m = p m"
    by (simp add: effective_def apply_overrides_lookup del: as_actions.simps)
qed

lemma effective_platform_admin [simp]: "effective r ov True m = ALL_ACTIONS"
  by (simp add: effective_def)

lemma ctx_require_iff: "ctx_require ctx m a = Inr () \<longleftrightarrow> ctx_can ctx m a"
  by (simp add: ctx_require_def ctx_can_def require_effective_def)

lemma ctx_require_cases:
  "ctx_require ctx m a = Inr () \<or>
   (\<exists>e. ctx_require ctx m a = Inl (App e) \<and> ae_status e = 403 \<and> ae_code e = ''PERMISSION_DENIED'')"
  by (simp add: ctx_require_def require_effective_def AppError_init_def no_args_def ForbiddenError_def)

lemma system_context_can [simp]: "ctx_can (system_context w t z) m a"
  by (simp add: ctx_can_def effective_permissions_def system_context_def allowed_effective_def)

lemma for_workspace_permissions [simp]:
  "effective_permissions (for_workspace ctx w) = effective_permissions ctx"
  by (simp add: effective_permissions_def for_workspace_def)

section \<open>The stored shape\<close>

text \<open>What the column \<open>permissions\<close> of a membership may hold: distinct module names, each with the sorted list of distinct
  actions.\<close>

definition entry_shape :: "string \<Rightarrow> json \<Rightarrow> bool" where
  "entry_shape k v \<longleftrightarrow> as_module k \<noteq> None \<and> v = JArr (map JStr (sorted_values (as_actions v)))"

definition override_shape :: "dict \<Rightarrow> bool" where
  "override_shape s \<longleftrightarrow> s \<noteq> [] \<and> distinct (map fst s) \<and> (\<forall>(k, v) \<in> set s. entry_shape k v)"

lemma entry_shape_stored: "entry_shape (perm_module_value m) (JArr (map JStr (sorted_values acts)))"
  unfolding entry_shape_def as_actions_sorted_values by (simp add: as_module_inj [THEN iffD2, OF refl])

lemma dput_entries: "\<forall>(k, v) \<in> set s. P k v \<Longrightarrow> P key vl \<Longrightarrow> \<forall>(k, v) \<in> set (dput s key vl). P k v"
  by (induction s key vl rule: dput.induct) auto

lemma dput_nonempty: "dput s k v \<noteq> []"
  by (induction s k v rule: dput.induct) auto

lemma parse_items_shape:
  "parse_items stored d = Inr s \<Longrightarrow> \<forall>(k, v) \<in> set stored. entry_shape k v \<Longrightarrow>
     (\<forall>(k, v) \<in> set s. entry_shape k v) \<and> (stored \<noteq> [] \<or> d \<noteq> [] \<longrightarrow> s \<noteq> [])"
proof (induction stored d rule: parse_items.induct)
  case (2 stored key vl items)
  from 2(2) obtain m xs acts where
    m: "as_module key = Some m" and v: "vl = JArr xs" and p: "parse_actions xs = Inr acts"
    by (auto split: option.splits json.splits sum.splits)
  show ?case
    using 2(1) [OF m v p] 2(2) m v p dput_entries [OF 2(3) entry_shape_stored [of m acts]] by (auto simp: dput_nonempty)
qed simp

lemma parse_overrides_shape:
  assumes "parse_overrides (Some d) = Inr s" "d \<noteq> []"
  shows "override_shape s"
  using parse_items_shape [of "[]" d s] parse_items_distinct [of "[]" d s] assms
  by (auto simp: parse_overrides_def override_shape_def)

lemma parse_actions_values: "parse_actions (map (JStr \<circ> action_value) xs) = Inr (set xs)"
  by (induction xs) auto

lemma dput_fresh: "k \<notin> fst ` set s \<Longrightarrow> dput s k v = s @ [(k, v)]"
  by (induction s k v rule: dput.induct) auto

text \<open>A stored map is its own stored shape.\<close>

lemma parse_items_fixed:
  "\<forall>(k, v) \<in> set d. entry_shape k v \<Longrightarrow> distinct (map fst (stored @ d)) \<Longrightarrow> parse_items stored d = Inr (stored @ d)"
proof (induction d arbitrary: stored)
  case (Cons e d)
  obtain k v where e: "e = (k, v)" by (cases e)
  obtain m where m: "as_module k = Some m" and v: "v = JArr (map JStr (sorted_values (as_actions v)))"
    using Cons.prems(1) e by (auto simp: entry_shape_def)
  have p: "parse_actions (map JStr (sorted_values S)) = Inr S" for S
    using parse_actions_values [of "sorted_list_of_set S"] by (simp add: sorted_values_def)
  define S where "S = as_actions v"
  have v': "v = JArr (map JStr (sorted_values S))" using v unfolding S_def .
  have "parse_items stored (e # d) = parse_items (dput stored k v) d"
    by (simp add: e v' m p as_module_inj [THEN iffD1, OF m] as_module_inj [THEN iffD2, OF refl])
  also have "dput stored k v = stored @ [(k, v)]" using Cons.prems(2) e by (intro dput_fresh) auto
  also have "parse_items (stored @ [(k, v)]) d = Inr ((stored @ [(k, v)]) @ d)" using Cons e by auto
  finally show ?case using e by simp
qed simp

lemma parse_overrides_fixed: "override_shape s \<Longrightarrow> parse_overrides (Some s) = Inr s"
  using parse_items_fixed [of s "[]"] by (simp add: override_shape_def parse_overrides_def)

end
