(* ===== verification/Schedules.thy ===== *)
theory Schedules
  imports Errors Enums
begin

text \<open>
  Schedule arithmetic, \<open>app/services/schedules.py\<close>: validation of a schedule configuration and
  the next time it fires. Instants are microseconds since the epoch in UTC; a wall-clock time
  in a zone is the same count read as if it were UTC. The time-zone database and \<open>croniter\<close> are
  third-party: the \<open>calendar\<close> record holds what the code asks of them. \<open>describe\<close> only builds a
  message and is not modelled.
\<close>

record calendar =
  cal_zone_ok :: "string \<Rightarrow> bool"
  cal_to_local :: "string \<Rightarrow> int \<Rightarrow> int"
  cal_to_utc :: "string \<Rightarrow> int \<Rightarrow> int"
  cal_cron_ok :: "string \<Rightarrow> bool"
  cal_cron_next :: "string \<Rightarrow> string \<Rightarrow> int \<Rightarrow> int"

definition MIN_INTERVAL_SECONDS :: int where "MIN_INTERVAL_SECONDS = 60"

definition seconds :: "int \<Rightarrow> int" where "seconds n = n * 1000000"

definition DAY :: int where "DAY = 86400000000"

definition schedule_invalid :: "string option \<Rightarrow> service_error" where
  "schedule_invalid fld = App (AppError_init ValidationError
     (no_args\<lparr>arg_code := Some ''SCHEDULE_INVALID'',
       arg_details := map_option (\<lambda>f. [(''field'', JStr f)]) fld\<rparr>))"

definition resolve_zone :: "calendar \<Rightarrow> json \<Rightarrow> service_error + string" where
  "resolve_zone cal name =
     (let z = py_str (or_else name (JStr ''Asia/Bangkok'')) in
      if cal_zone_ok cal z then Inr z else Inl (schedule_invalid (Some ''timezone'')))"

definition pad2 :: "int \<Rightarrow> string" where
  "pad2 n = (if 0 \<le> n \<and> n < 10 then ''0'' @ show_int n else show_int n)"

text \<open>\<open>hour, minute = (int(part) for part in raw.split(":", 1))\<close> followed by \<open>time(hour, minute)\<close>;
  every failure is a \<open>ValueError\<close>.\<close>

definition clock_parts :: "string \<Rightarrow> (int \<times> int) option" where
  "clock_parts raw =
     (case split_once (CHR '':'') raw of
        None \<Rightarrow> None
      | Some (h, m) \<Rightarrow>
          (case (parse_int h, parse_int m) of
             (Some hour, Some minute) \<Rightarrow> Some (hour, minute)
           | _ \<Rightarrow> None))"

definition clock_ok :: "int \<times> int \<Rightarrow> bool" where
  "clock_ok hm = (case hm of (hour, minute) \<Rightarrow> 0 \<le> hour \<and> hour < 24 \<and> 0 \<le> minute \<and> minute < 60)"

definition schedules_validate :: "calendar \<Rightarrow> dict \<Rightarrow> string \<Rightarrow> service_error + dict" where
  "schedules_validate cal config workspace_timezone =
     (case schedule_type_of (str_upper (py_str (or_else (dget config ''schedule_type'') (JStr ''INTERVAL'')))) of
        None \<Rightarrow> Inl (schedule_invalid None)
      | Some ty \<Rightarrow>
          (let zone_name = py_str (or_else (dget config ''timezone'') (JStr workspace_timezone)) in
           case resolve_zone cal (JStr zone_name) of
             Inl e \<Rightarrow> Inl e
           | Inr _ \<Rightarrow>
               (let normalized =
                      [(''schedule_type'', JStr (schedule_type_value ty)), (''timezone'', JStr zone_name),
                       (''overlap_policy'',
                         JStr (py_str (or_else (dget config ''overlap_policy'') (JStr ''SKIP_IF_RUNNING''))))]
                in case ty of
                     ST_INTERVAL \<Rightarrow>
                       (case py_int (or_else (dget config ''interval_seconds'') (JInt 0)) of
                          Inl e \<Rightarrow> Inl (Crash e)
                        | Inr s \<Rightarrow>
                            if s < MIN_INTERVAL_SECONDS then Inl (schedule_invalid (Some ''interval_seconds''))
                            else Inr (normalized @ [(''interval_seconds'', JInt s)]))
                   | ST_DAILY \<Rightarrow>
                       (case clock_parts (py_str (or_else (dget config ''time_of_day'') (JStr ''02:00''))) of
                          None \<Rightarrow> Inl (schedule_invalid (Some ''time_of_day''))
                        | Some (hour, minute) \<Rightarrow>
                            if clock_ok (hour, minute)
                            then Inr (normalized @ [(''time_of_day'', JStr (pad2 hour @ '':'' @ pad2 minute))])
                            else Inl (schedule_invalid (Some ''time_of_day'')))
                   | ST_CRON \<Rightarrow>
                       (let expr = str_strip (str_or_empty (dget config ''cron_expression'')) in
                        if cal_cron_ok cal expr
                        then Inr (normalized @ [(''cron_expression'', JStr expr)])
                        else Inl (schedule_invalid (Some ''cron_expression''))))))"

text \<open>\<open>str(...).split(":")\<close> must give exactly two parts here, and the parts must be integers.\<close>

definition two_parts :: "string \<Rightarrow> (int \<times> int) option" where
  "two_parts raw =
     (case split_once (CHR '':'') raw of
        None \<Rightarrow> None
      | Some (h, m) \<Rightarrow> if CHR '':'' \<in> set m then None else clock_parts raw)"

definition daily_next :: "calendar \<Rightarrow> string \<Rightarrow> int \<Rightarrow> int \<Rightarrow> int \<Rightarrow> int" where
  "daily_next cal zone hour minute base =
     (let wall = cal_to_local cal zone base;
          candidate = wall - wall mod DAY + seconds (hour * 3600 + minute * 60);
          candidate = (if candidate \<le> wall then candidate + DAY else candidate)
      in cal_to_utc cal zone candidate)"

definition next_run_at :: "calendar \<Rightarrow> dict \<Rightarrow> int \<Rightarrow> service_error + int" where
  "next_run_at cal config base =
     (case schedule_type_of (py_str (or_else (dget config ''schedule_type'') (JStr ''INTERVAL''))) of
        None \<Rightarrow> Inl (Crash ValueErr)
      | Some ty \<Rightarrow>
          (case resolve_zone cal (dget config ''timezone'') of
             Inl e \<Rightarrow> Inl e
           | Inr zone \<Rightarrow>
               (case ty of
                  ST_INTERVAL \<Rightarrow>
                    (case py_int (or_else (dget config ''interval_seconds'') (JInt 3600)) of
                       Inl e \<Rightarrow> Inl (Crash e)
                     | Inr s \<Rightarrow> Inr (base + seconds s))
                | ST_DAILY \<Rightarrow>
                    (case two_parts (py_str (or_else (dget config ''time_of_day'') (JStr ''02:00''))) of
                       None \<Rightarrow> Inl (Crash ValueErr)
                     | Some (hour, minute) \<Rightarrow>
                         if clock_ok (hour, minute) then Inr (daily_next cal zone hour minute base)
                         else Inl (Crash ValueErr))
                | ST_CRON \<Rightarrow>
                    (case map_of config ''cron_expression'' of
                       None \<Rightarrow> Inl (Crash KeyErr)
                     | Some e \<Rightarrow> Inr (cal_cron_next cal (py_str e) zone base)))))"

text \<open>\<open>preview\<close>: the next \<open>max(1, count)\<close> fire times from now.\<close>

fun fire_times :: "calendar \<Rightarrow> dict \<Rightarrow> nat \<Rightarrow> int \<Rightarrow> service_error + int list" where
  "fire_times cal config 0 cursor = Inr []"
| "fire_times cal config (Suc n) cursor =
     (case next_run_at cal config cursor of
        Inl e \<Rightarrow> Inl e
      | Inr t \<Rightarrow>
          (case fire_times cal config n t of Inl e \<Rightarrow> Inl e | Inr ts \<Rightarrow> Inr (t # ts)))"

definition schedules_preview :: "calendar \<Rightarrow> dict \<Rightarrow> nat \<Rightarrow> int \<Rightarrow> service_error + int list" where
  "schedules_preview cal config count now = fire_times cal config (max 1 count) now"

section \<open>Properties\<close>

lemma pad2_small:
  assumes "0 \<le> n" "n < 60"
  shows "parse_int (pad2 n) = Some n \<and> CHR '':'' \<notin> set (pad2 n)"
proof -
  have "list_all (\<lambda>n. parse_int (pad2 n) = Some n \<and> CHR '':'' \<notin> set (pad2 n)) (map int [0..<60])"
    by code_simp
  moreover have "n \<in> set (map int [0..<60])" using assms by (auto intro!: image_eqI [of _ _ "nat n"])
  ultimately show ?thesis unfolding list_all_iff by blast
qed

lemma split_once_append: "c \<notin> set a \<Longrightarrow> split_once c (a @ [c] @ b) = Some (a, b)"
  by (induction a) auto

lemma two_parts_pad2:
  assumes "clock_ok (h, m)"
  shows "two_parts (pad2 h @ '':'' @ pad2 m) = Some (h, m)"
proof -
  have hm: "parse_int (pad2 h) = Some h" "CHR '':'' \<notin> set (pad2 h)"
    "parse_int (pad2 m) = Some m" "CHR '':'' \<notin> set (pad2 m)"
    using pad2_small assms by (auto simp: clock_ok_def)
  show ?thesis
    using split_once_append [OF hm(2), of "pad2 m"] hm by (simp add: two_parts_def clock_parts_def)
qed

lemma pad2_nonempty: "pad2 h @ '':'' @ m \<noteq> []"
  by simp

lemma schedule_type_value_nonempty [simp]: "schedule_type_value ty \<noteq> []"
  by (cases ty) simp_all

lemma validated_schedule_arms:
  assumes "schedules_validate cal config wtz = Inr norm"
  shows "\<exists>t. next_run_at cal norm base = Inr t \<and>
    (dget norm ''schedule_type'' = JStr ''INTERVAL'' \<longrightarrow> t \<ge> base + seconds 60)"
proof -
  define zone where "zone = py_str (or_else (dget config ''timezone'') (JStr wtz))"
  obtain ty where ty: "schedule_type_of (str_upper (py_str (or_else (dget config ''schedule_type'') (JStr ''INTERVAL'')))) = Some ty"
    using assms by (auto simp: schedules_validate_def split: option.splits)
  have zone: "\<exists>z. resolve_zone cal (JStr zone) = Inr z"
    using assms ty by (auto simp: schedules_validate_def zone_def [symmetric] Let_def split: sum.splits)
  show ?thesis
  proof (cases ty)
    case ST_INTERVAL
    then obtain s where s: "s \<ge> MIN_INTERVAL_SECONDS" and norm: "norm = [(''schedule_type'', JStr ''INTERVAL''),
        (''timezone'', JStr zone), (''overlap_policy'', JStr (py_str (or_else (dget config ''overlap_policy'') (JStr ''SKIP_IF_RUNNING'')))),
        (''interval_seconds'', JInt s)]"
      using assms ty zone
      by (auto simp: schedules_validate_def zone_def [symmetric] Let_def split: sum.splits if_splits)
    have "schedule_type_of ''INTERVAL'' = Some ST_INTERVAL"
      using schedule_type_of_value [of ST_INTERVAL] by simp
    then show ?thesis
      using s zone by (auto simp: norm next_run_at_def or_else_def MIN_INTERVAL_SECONDS_def seconds_def)
  next
    case ST_DAILY
    then obtain h m where hm: "clock_ok (h, m)" and norm: "norm = [(''schedule_type'', JStr ''DAILY''),
        (''timezone'', JStr zone), (''overlap_policy'', JStr (py_str (or_else (dget config ''overlap_policy'') (JStr ''SKIP_IF_RUNNING'')))),
        (''time_of_day'', JStr (pad2 h @ '':'' @ pad2 m))]"
      using assms ty zone
      by (auto simp: schedules_validate_def zone_def [symmetric] Let_def split: sum.splits if_splits option.splits prod.splits)
    have "schedule_type_of ''DAILY'' = Some ST_DAILY"
      using schedule_type_of_value [of ST_DAILY] by simp
    then show ?thesis
      using hm zone two_parts_pad2 [OF hm] by (auto simp: norm next_run_at_def or_else_def)
  next
    case ST_CRON
    then obtain e where norm: "norm = [(''schedule_type'', JStr ''CRON''),
        (''timezone'', JStr zone), (''overlap_policy'', JStr (py_str (or_else (dget config ''overlap_policy'') (JStr ''SKIP_IF_RUNNING'')))),
        (''cron_expression'', JStr e)]"
      using assms ty zone
      by (auto simp: schedules_validate_def zone_def [symmetric] Let_def split: sum.splits if_splits)
    have "schedule_type_of ''CRON'' = Some ST_CRON"
      using schedule_type_of_value [of ST_CRON] by simp
    then show ?thesis using zone by (auto simp: norm next_run_at_def or_else_def)
  qed
qed

text \<open>
  A schedule that validation accepts can always be armed: computing its next fire time never
  raises, from any instant, and for an interval schedule the result lies at least a minute
  ahead.
\<close>

lemma validated_schedule_fires:
  assumes "schedules_validate cal config wtz = Inr norm"
  shows "\<exists>t. next_run_at cal norm base = Inr t \<and>
    (dget norm ''schedule_type'' = JStr ''INTERVAL'' \<longrightarrow> t \<ge> base + seconds 60)"
  using assms by (rule validated_schedule_arms)

definition utc_plus_7 :: calendar where
  "utc_plus_7 = \<lparr>cal_zone_ok = (\<lambda>z. z = ''Asia/Bangkok''), cal_to_local = (\<lambda>_ t. t + seconds 25200),
     cal_to_utc = (\<lambda>_ t. t - seconds 25200), cal_cron_ok = (\<lambda>_. False), cal_cron_next = (\<lambda>_ _ t. t)\<rparr>"

lemma validated_schedule_fires_example:
  "\<exists>t. next_run_at utc_plus_7
     [(''schedule_type'', JStr ''INTERVAL''), (''timezone'', JStr ''Asia/Bangkok''),
      (''overlap_policy'', JStr ''SKIP_IF_RUNNING''), (''interval_seconds'', JInt 90)] 0 = Inr t \<and> t \<ge> seconds 60"
proof -
  have "schedules_validate utc_plus_7 [(''interval_seconds'', JStr '' 90 '')] ''Asia/Bangkok'' =
     Inr [(''schedule_type'', JStr ''INTERVAL''), (''timezone'', JStr ''Asia/Bangkok''),
      (''overlap_policy'', JStr ''SKIP_IF_RUNNING''), (''interval_seconds'', JInt 90)]"
    by code_simp
  from validated_schedule_fires [OF this, of 0] show ?thesis by simp
qed

text \<open>
  in a zone with a fixed offset, a daily schedule fires at the next occurrence of its
  wall-clock time: strictly after the base instant, at most a day later, and at exactly
  \<open>hour:minute:00\<close> local time.
\<close>

lemma daily_next_correct:
  assumes "\<And>t. cal_to_local cal zone t = t + off" "\<And>t. cal_to_utc cal zone t = t - off"
    and "clock_ok (hour, minute)"
  shows "base < daily_next cal zone hour minute base \<and> daily_next cal zone hour minute base \<le> base + DAY \<and>
    cal_to_local cal zone (daily_next cal zone hour minute base) mod DAY = seconds (hour * 3600 + minute * 60)"
proof -
  let ?w = "base + off"
  let ?s = "seconds (hour * 3600 + minute * 60)"
  have s: "0 \<le> ?s" "?s < DAY" using assms(3) by (auto simp: clock_ok_def seconds_def DAY_def)
  have w: "0 \<le> ?w mod DAY" "?w mod DAY < DAY" by (simp_all add: DAY_def)
  have r: "(?w - ?w mod DAY + ?s) mod DAY = ?s" using s
    by (simp add: minus_mod_eq_div_mult)
  have r': "(?w - ?w mod DAY + ?s + DAY) mod DAY = ?s" using r by simp
  define m where "m = ?w mod DAY"
  show ?thesis
    using s w r r' unfolding m_def [symmetric] by (auto simp: daily_next_def Let_def assms m_def [symmetric])
qed

lemma daily_next_correct_example:
  "0 < daily_next utc_plus_7 ''Asia/Bangkok'' 2 30 0 \<and> daily_next utc_plus_7 ''Asia/Bangkok'' 2 30 0 \<le> 0 + DAY"
  using daily_next_correct [of utc_plus_7 "''Asia/Bangkok''" "seconds 25200" 2 30 0]
  by (simp add: utc_plus_7_def clock_ok_def)

text \<open>
  Validation does not look at the overlap policy: whatever text stands there is accepted and
  stored, so a later conversion to the \<open>OverlapPolicy\<close> enum raises \<open>ValueError\<close> for every text that
  is not a member.
\<close>

lemma overlap_policy_unchecked:
  assumes "p \<noteq> []" "cal_zone_ok cal ''UTC''"
  shows "\<exists>norm. schedules_validate cal [(''interval_seconds'', JInt 60), (''timezone'', JStr ''UTC''), (''overlap_policy'', JStr p)] wtz = Inr norm
    \<and> dget norm ''overlap_policy'' = JStr p"
proof -
  have "schedule_type_of (str_upper ''INTERVAL'') = Some ST_INTERVAL"
    by code_simp
  then show ?thesis
    using assms
    by (simp add: schedules_validate_def or_else_def resolve_zone_def MIN_INTERVAL_SECONDS_def Let_def)
qed

lemma overlap_policy_unchecked_example:
  "\<exists>norm. schedules_validate (utc_plus_7\<lparr>cal_zone_ok := (\<lambda>_. True)\<rparr>)
      [(''interval_seconds'', JInt 60), (''timezone'', JStr ''UTC''), (''overlap_policy'', JStr ''SOMETIMES'')] ''UTC'' = Inr norm
    \<and> dget norm ''overlap_policy'' = JStr ''SOMETIMES'' \<and> overlap_policy_of ''SOMETIMES'' = None"
proof -
  have "overlap_policy_of ''SOMETIMES'' = None" by code_simp
  then show ?thesis
    using overlap_policy_unchecked [of "''SOMETIMES''" "utc_plus_7\<lparr>cal_zone_ok := (\<lambda>_. True)\<rparr>" "''UTC''"] by simp
qed

end
