(* ===== verification/Graph.thy ===== *)
theory Graph
  imports Prelude "HOL-Library.Multiset"
begin

text \<open>
  The product workflow graph, \<open>app/services/graph.py\<close>: hashing, ports, expression checks,
  validation and the two walks that read a graph without validating it.

  The graph is JSON from a browser and is kept as JSON, so every access that Python would
  refuse is an \<^typ>\<open>py_exc\<close> here. The node registry (\<open>definitions\<close>) is the product's own
  data and is a record per node type; a missing entry is the empty record. The depth-first
  search of \<open>_has_cycle\<close> runs on fuel, one unit per nested call, and \<open>has_cycle_fuel\<close> shows
  that the fuel given is always enough. Non-ASCII literals are spelled in UTF-8 bytes.
\<close>

section \<open>The registry entry of a node type\<close>

record field_spec =
  fs_key :: string
  fs_type :: string
  fs_required :: bool
  fs_condition :: "(string \<times> json) option"
  fs_default :: json

record node_definition =
  nd_status :: string
  nd_certification :: string
  nd_display_name :: string
  nd_schema_version :: int
  nd_fields :: "field_spec list"
  nd_is_trigger :: bool
  nd_trigger_type :: string
  nd_output_ports_from :: string
  nd_output_ports :: "string list"
  nd_input_ports :: "string list"

type_synonym registry = "string \<Rightarrow> node_definition option"

definition no_definition :: node_definition where
  "no_definition = \<lparr>nd_status = [], nd_certification = [], nd_display_name = [], nd_schema_version = 0,
     nd_fields = [], nd_is_trigger = False, nd_trigger_type = [], nd_output_ports_from = [],
     nd_output_ports = [], nd_input_ports = []\<rparr>"

text \<open>\<open>definitions.get(key, {})\<close>.\<close>

definition definition_for :: "registry \<Rightarrow> string \<Rightarrow> node_definition" where
  "definition_for defs key = (case defs key of None \<Rightarrow> no_definition | Some d \<Rightarrow> d)"

section \<open>Issues and results\<close>

definition MAX_NODES :: nat where "MAX_NODES = 200"

definition MAX_NAME_LENGTH :: nat where "MAX_NAME_LENGTH = 200"

record issue =
  iss_code :: string
  iss_node_id :: "string option"
  iss_field :: "string option"
  iss_severity :: string

definition err :: "string \<Rightarrow> string option \<Rightarrow> issue" where
  "err code node_id = \<lparr>iss_code = code, iss_node_id = node_id, iss_field = None, iss_severity = ''ERROR''\<rparr>"

definition err_field :: "string \<Rightarrow> string \<Rightarrow> string \<Rightarrow> issue" where
  "err_field code node_id fld =
     \<lparr>iss_code = code, iss_node_id = Some node_id, iss_field = Some fld, iss_severity = ''ERROR''\<rparr>"

definition warning :: "string \<Rightarrow> string \<Rightarrow> issue" where
  "warning code node_id =
     \<lparr>iss_code = code, iss_node_id = Some node_id, iss_field = None, iss_severity = ''WARNING''\<rparr>"

record validation_result =
  vr_issues :: "issue list"
  vr_credential_ids :: "string set"
  vr_trigger_node_id :: "string option"
  vr_trigger_node_key :: "string option"

definition errors_of :: "issue list \<Rightarrow> issue list" where
  "errors_of is = filter (\<lambda>i. iss_severity i = ''ERROR'') is"

definition result_ok :: "validation_result \<Rightarrow> bool" where
  "result_ok r = (errors_of (vr_issues r) = [])"

lemma errors_of_simps [simp]:
  "errors_of [] = []"
  "errors_of (xs @ ys) = errors_of xs @ errors_of ys"
  "errors_of [err c n] = [err c n]"
  "errors_of [err_field c m f] = [err_field c m f]"
  "errors_of [warning c m] = []"
  by (simp_all add: errors_of_def err_def err_field_def warning_def)

lemma errors_of_errs: "errors_of (map (\<lambda>x. err_field c n (f x)) xs) = map (\<lambda>x. err_field c n (f x)) xs"
  by (induction xs) (simp_all add: errors_of_def err_field_def)

section \<open>A new graph\<close>

definition TRIGGER_STEP_NAMES :: "(string \<times> string) list" where
  "TRIGGER_STEP_NAMES =
     [(''manual_trigger'', ''Khi b'' @ [CHR 0xE1, CHR 0xBA, CHR 0xA5] @ ''m Run''),
      (''webhook_trigger'', ''Khi c'' @ [CHR 0xC3, CHR 0xB3] @ '' request''),
      (''schedule_trigger'', ''Theo l'' @ [CHR 0xE1, CHR 0xBB, CHR 0x8B] @ ''ch'')]"

definition default_config :: "node_definition option \<Rightarrow> dict" where
  "default_config d =
     foldl (\<lambda>config spec. if fs_default spec \<noteq> JNull then dput config (fs_key spec) (fs_default spec) else config)
       [] (case d of None \<Rightarrow> [] | Some d \<Rightarrow> nd_fields d)"

definition empty_graph :: "string \<Rightarrow> node_definition option \<Rightarrow> dict" where
  "empty_graph trigger_node_key d =
     (let name = (case map_of TRIGGER_STEP_NAMES trigger_node_key of
                    Some n \<Rightarrow> n
                  | None \<Rightarrow> (case d of
                      Some nd \<Rightarrow> if nd_display_name nd \<noteq> [] then nd_display_name nd else trigger_node_key
                    | None \<Rightarrow> trigger_node_key));
          version = (case d of Some nd \<Rightarrow> if nd_schema_version nd \<noteq> 0 then nd_schema_version nd else 1
                     | None \<Rightarrow> 1)
      in [(''nodes'', JArr [JObj
             [(''id'', JStr ''start_1''), (''node_key'', JStr trigger_node_key), (''name'', JStr name),
              (''position'', JObj [(''x'', JInt 120), (''y'', JInt 200)]),
              (''config'', JObj (default_config d)), (''product_schema_version'', JInt version)]]),
          (''connections'', JArr [])])"

section \<open>Hashing\<close>

text \<open>What a \<open>for\<close> loop does with a JSON value: a string yields its characters, an object its
  keys, a number raises.\<close>

fun iterate :: "json \<Rightarrow> py_exc + json list" where
  "iterate (JArr xs) = Inr xs"
| "iterate (JStr s) = Inr (map (\<lambda>c. JStr [c]) s)"
| "iterate (JObj kvs) = Inr (map (JStr \<circ> fst) kvs)"
| "iterate _ = Inl TypeErr"

text \<open>\<open>graph.get(key) or []\<close> as the receiver of a loop whose body calls \<open>.get\<close> on each item.\<close>

fun dicts :: "json list \<Rightarrow> py_exc + dict list" where
  "dicts [] = Inr []"
| "dicts (x # xs) =
     (case as_dict x of
        Inl e \<Rightarrow> Inl e
      | Inr d \<Rightarrow> (case dicts xs of Inl e \<Rightarrow> Inl e | Inr ds \<Rightarrow> Inr (d # ds)))"

definition items_of :: "dict \<Rightarrow> string \<Rightarrow> py_exc + dict list" where
  "items_of graph key =
     (case iterate (or_else (dget graph key) (JArr [])) of Inl e \<Rightarrow> Inl e | Inr xs \<Rightarrow> dicts xs)"

definition node_material :: "dict \<Rightarrow> json" where
  "node_material node = JObj
     [(''id'', dget node ''id''), (''node_key'', dget node ''node_key''), (''name'', dget node ''name''),
      (''config'', or_else (dget node ''config'') (JObj [])),
      (''product_schema_version'',
         case map_of node ''product_schema_version'' of None \<Rightarrow> JInt 1 | Some v \<Rightarrow> v),
      (''disabled'', JBool (truthy (dget node ''disabled'')))]"

definition connection_material :: "dict \<Rightarrow> json" where
  "connection_material conn = JObj [(''from'', dget conn ''from''), (''to'', dget conn ''to'')]"

definition graph_material :: "dict list \<Rightarrow> dict list \<Rightarrow> json" where
  "graph_material nodes conns = JObj
     [(''nodes'', JArr (map node_material (sort_key (\<lambda>n. py_str (dget n ''id'')) nodes))),
      (''connections'', JArr (sort_key (dumps True True '', '' '': '') (map connection_material conns)))]"

definition graph_hash :: "(string \<Rightarrow> string) \<Rightarrow> dict \<Rightarrow> py_exc + string" where
  "graph_hash sha256 graph =
     (case items_of graph ''nodes'' of
        Inl e \<Rightarrow> Inl e
      | Inr nodes \<Rightarrow>
          (case items_of graph ''connections'' of
             Inl e \<Rightarrow> Inl e
           | Inr conns \<Rightarrow> Inr (sha256 (dumps True True '','' '':'' (graph_material nodes conns)))))"

section \<open>Ports\<close>

definition output_ports :: "dict \<Rightarrow> node_definition \<Rightarrow> py_exc + string list" where
  "output_ports node d =
     (if nd_output_ports_from d = ''rules'' then
        (case as_dict (or_else (dget node ''config'') (JObj [])) of
           Inl e \<Rightarrow> Inl e
         | Inr config \<Rightarrow>
             (case items_of config ''rules'' of
                Inl e \<Rightarrow> Inl e
              | Inr rules \<Rightarrow>
                  Inr (map (\<lambda>rule. str_strip (py_str (dget rule ''output_key'')))
                         (filter (\<lambda>rule. str_strip (str_or_empty (dget rule ''output_key'')) \<noteq> []) rules)
                       @ (if dget config ''fallback'' = JStr ''EXTRA_OUTPUT'' then [''other''] else []))))
      else Inr (nd_output_ports d))"

definition input_ports :: "node_definition \<Rightarrow> string list" where
  "input_ports d = nd_input_ports d"

section \<open>Expressions\<close>

fun is_expression :: "json \<Rightarrow> bool" where
  "is_expression (JStr s) = starts_with s ''=''"
| "is_expression _ = False"

text \<open>\<open>body.count(p)\<close> for a two-character \<open>p\<close>: occurrences that do not overlap.\<close>

fun count_pair :: "char \<Rightarrow> string \<Rightarrow> nat" where
  "count_pair c (a # b # cs) =
     (if a = c \<and> b = c then Suc (count_pair c cs) else count_pair c (b # cs))"
| "count_pair c _ = 0"

text \<open>The text before the first closing pair of braces and the text after it.\<close>

fun until_close :: "string \<Rightarrow> (string \<times> string) option" where
  "until_close (a # b # cs) =
     (if a = CHR ''}'' \<and> b = CHR ''}'' then Some ([], cs)
      else map_option (\<lambda>(g, r). (a # g, r)) (until_close (b # cs)))"
| "until_close _ = None"

lemma until_close_length: "until_close s = Some (g, r) \<Longrightarrow> length r < length s"
proof (induction s arbitrary: g r rule: until_close.induct)
  case (1 a b cs)
  show ?case
  proof (cases "a = CHR ''}'' \<and> b = CHR ''}''")
    case False
    then obtain g' where "until_close (b # cs) = Some (g', r)" using 1(2) by auto
    from 1(1) [OF False this] show ?thesis by simp
  qed (use 1(2) in simp)
qed simp_all

text \<open>The groups of \<open>re.finditer(r"\{\{(.*?)\}\}", body)\<close>, in order.\<close>

function placeholders :: "string \<Rightarrow> string list" where
  "placeholders [] = []"
| "placeholders (c # cs) =
     (if starts_with (c # cs) ''{{'' then
        (case until_close (tl cs) of
           Some (g, r) \<Rightarrow> g # placeholders r
         | None \<Rightarrow> placeholders cs)
      else placeholders cs)"
  by pat_completeness auto
termination
  by (relation "measure length") (auto dest: until_close_length)

definition check_expression :: "string \<Rightarrow> bool" where
  \<comment> \<open>the code returns a message; \<^const>\<open>True\<close> stands for no problem\<close>
  "check_expression v =
     (let body = drop 1 v in
      count_pair (CHR ''{'') body = count_pair (CHR ''}'') body \<and>
      list_all (\<lambda>g. str_strip g \<noteq> []) (placeholders body))"

text \<open>\<open>_walk_config_values\<close>: the leaves of a value with their paths.\<close>

definition dict_path :: "string \<Rightarrow> string \<Rightarrow> string" where
  "dict_path prefix key = (if prefix \<noteq> [] then prefix @ ''.'' @ key else key)"

definition list_path :: "string \<Rightarrow> nat \<Rightarrow> string" where
  "list_path prefix i = prefix @ ''['' @ show_nat i @ '']''"

lemma size_snd_zip_json [termination_simp]:
  "(i, v) \<in> set (zip is xs) \<Longrightarrow> size v < Suc (size_list size xs)"
  by (drule set_zip_rightD) (simp add: size_list_estimation' less_Suc_eq_le)

fun walk_config_values :: "json \<Rightarrow> string \<Rightarrow> (string \<times> json) list" where
  "walk_config_values (JObj kvs) prefix =
     concat (map (\<lambda>(k, v). walk_config_values v (dict_path prefix k)) kvs)"
| "walk_config_values (JArr xs) prefix =
     concat (map (\<lambda>(i, v). walk_config_values v (list_path prefix i)) (zip [0..<length xs] xs))"
| "walk_config_values v prefix = [(prefix, v)]"

definition required_field_keys :: "node_definition \<Rightarrow> dict \<Rightarrow> field_spec list" where
  "required_field_keys d config =
     filter (\<lambda>spec. fs_required spec \<and>
       (case fs_condition spec of
          None \<Rightarrow> True
        | Some (fld, expected) \<Rightarrow> py_eq (dget config fld) expected)) (nd_fields d)"

section \<open>Cycles\<close>

datatype colour = WHITE | GREY | BLACK

type_synonym adjacency = "(string \<times> string list) list"

definition neighbours :: "adjacency \<Rightarrow> string \<Rightarrow> string list" where
  "neighbours adj v = (case map_of adj v of None \<Rightarrow> [] | Some vs \<Rightarrow> vs)"

fun visit :: "nat \<Rightarrow> adjacency \<Rightarrow> (string \<Rightarrow> colour) \<Rightarrow> string \<Rightarrow> (bool \<times> (string \<Rightarrow> colour)) option"
and visit_each :: "nat \<Rightarrow> adjacency \<Rightarrow> (string \<Rightarrow> colour) \<Rightarrow> string list \<Rightarrow> (bool \<times> (string \<Rightarrow> colour)) option"
where
  "visit 0 adj col v = None"
| "visit (Suc n) adj col v =
     (case visit_each n adj (col(v := GREY)) (neighbours adj v) of
        None \<Rightarrow> None
      | Some (found, col') \<Rightarrow> if found then Some (True, col') else Some (False, col'(v := BLACK)))"
| "visit_each n adj col [] = Some (False, col)"
| "visit_each n adj col (w # ws) =
     (case col w of
        GREY \<Rightarrow> Some (True, col)
      | BLACK \<Rightarrow> visit_each n adj col ws
      | WHITE \<Rightarrow>
          (case visit n adj col w of
             None \<Rightarrow> None
           | Some (found, col') \<Rightarrow> if found then Some (True, col') else visit_each n adj col' ws))"

fun visit_roots :: "nat \<Rightarrow> adjacency \<Rightarrow> (string \<Rightarrow> colour) \<Rightarrow> string list \<Rightarrow> bool option" where
  "visit_roots n adj col [] = Some False"
| "visit_roots n adj col (v # vs) =
     (if col v = WHITE then
        (case visit n adj col v of
           None \<Rightarrow> None
         | Some (found, col') \<Rightarrow> if found then Some True else visit_roots n adj col' vs)
      else visit_roots n adj col vs)"

definition cycle_fuel :: "adjacency \<Rightarrow> nat" where
  "cycle_fuel adj = length adj + length (concat (map snd adj))"

definition has_cycle :: "adjacency \<Rightarrow> bool" where
  "has_cycle adj = (visit_roots (cycle_fuel adj) adj (\<lambda>_. WHITE) (map fst adj) = Some True)"

subsection \<open>The search is a decision procedure\<close>

definition edge_rel :: "adjacency \<Rightarrow> (string \<times> string) set" where
  "edge_rel adj = {(v, w). w \<in> set (neighbours adj v)}"

abbreviation greys :: "(string \<Rightarrow> colour) \<Rightarrow> string set" where
  "greys col \<equiv> {v. col v = GREY}"

abbreviation blacks :: "(string \<Rightarrow> colour) \<Rightarrow> string set" where
  "blacks col \<equiv> {v. col v = BLACK}"

definition settled :: "adjacency \<Rightarrow> (string \<Rightarrow> colour) \<Rightarrow> bool" where
  "settled adj col \<longleftrightarrow>
     (\<forall>v w. col v = BLACK \<and> (v, w) \<in> edge_rel adj \<longrightarrow> col w = BLACK) \<and>
     (\<forall>v. col v = BLACK \<longrightarrow> (v, v) \<notin> (edge_rel adj)\<^sup>+)"

lemma settled_trancl:
  assumes "settled adj col" "(v, w) \<in> (edge_rel adj)\<^sup>+" "col v = BLACK"
  shows "col w = BLACK"
  using assms(2,3,1) by (induction rule: trancl_induct) (auto simp: settled_def)

lemma settled_blacken:
  assumes s: "settled adj col" and grey: "col v = GREY"
    and succ: "set (neighbours adj v) \<subseteq> blacks col"
  shows "settled adj (col(v := BLACK))"
proof -
  have "(v, v) \<notin> (edge_rel adj)\<^sup>+"
  proof
    assume "(v, v) \<in> (edge_rel adj)\<^sup>+"
    then obtain w where w: "(v, w) \<in> edge_rel adj" and "w = v \<or> (w, v) \<in> (edge_rel adj)\<^sup>+"
      by (metis tranclD rtranclD)
    moreover have "col w = BLACK" using w succ by (auto simp: edge_rel_def)
    ultimately show False using settled_trancl [OF s, of w v] grey by auto
  qed
  then show ?thesis using s succ by (auto simp: settled_def edge_rel_def)
qed

lemma visit_sound:
  "visit n adj col v = Some (found, col') \<Longrightarrow> settled adj col \<Longrightarrow> col v = WHITE \<Longrightarrow>
     \<forall>g \<in> greys col. (g, v) \<in> (edge_rel adj)\<^sup>* \<Longrightarrow>
     (if found then \<exists>x. (x, x) \<in> (edge_rel adj)\<^sup>+
      else settled adj col' \<and> greys col' = greys col \<and> insert v (blacks col) \<subseteq> blacks col')"
  "visit_each n adj col ws = Some (found, col') \<Longrightarrow> settled adj col \<Longrightarrow>
     (\<exists>u. set ws \<subseteq> set (neighbours adj u) \<and> (\<forall>g \<in> greys col. (g, u) \<in> (edge_rel adj)\<^sup>*)) \<Longrightarrow>
     (if found then \<exists>x. (x, x) \<in> (edge_rel adj)\<^sup>+
      else settled adj col' \<and> greys col' = greys col \<and> set ws \<union> blacks col \<subseteq> blacks col')"
proof (induction n adj col v and n adj col ws arbitrary: found col' and found col'
    rule: visit_visit_each.induct)
  case (2 n adj col v)
  let ?grey = "col(v := GREY)"
  obtain found' col1 where call: "visit_each n adj ?grey (neighbours adj v) = Some (found', col1)"
    and res: "(found, col') = (if found' then (True, col1) else (False, col1(v := BLACK)))"
    using 2(2) by (auto split: option.splits if_splits)
  have s: "settled adj ?grey" using 2(3,4) by (auto simp: settled_def)
  have "\<exists>u. set (neighbours adj v) \<subseteq> set (neighbours adj u) \<and>
      (\<forall>g \<in> greys ?grey. (g, u) \<in> (edge_rel adj)\<^sup>*)"
    using 2(5) by (intro exI [of _ v]) auto
  note IH = 2(1) [OF call s this]
  show ?case
  proof (cases found')
    case True
    then show ?thesis using IH res by simp
  next
    case False
    then have s1: "settled adj col1" and g1: "greys col1 = greys ?grey"
      and n1: "set (neighbours adj v) \<subseteq> blacks col1" and mono: "blacks ?grey \<subseteq> blacks col1"
      using IH by simp_all
    have "v \<in> greys ?grey" by simp
    then have "col1 v = GREY" unfolding g1 [symmetric] by simp
    from settled_blacken [OF s1 this n1] have "settled adj (col1(v := BLACK))" .
    moreover have "greys (col1(v := BLACK)) = greys col"
    proof (rule Collect_cong)
      fix g
      have "col1 g = GREY \<longleftrightarrow> ?grey g = GREY" using g1 by blast
      then show "(col1(v := BLACK)) g = GREY \<longleftrightarrow> col g = GREY" using 2(4) by simp
    qed
    moreover have "insert v (blacks col) \<subseteq> blacks (col1(v := BLACK))" using mono 2(4) by auto
    ultimately show ?thesis using res False by simp
  qed
next
  case (4 n adj col w ws)
  from 4(6) obtain u where u: "set (w # ws) \<subseteq> set (neighbours adj u)"
    and reach: "\<forall>g \<in> greys col. (g, u) \<in> (edge_rel adj)\<^sup>*" by blast
  have edge: "(u, w) \<in> edge_rel adj" using u by (simp add: edge_rel_def)
  show ?case
  proof (cases "col w")
    case GREY
    then have "(w, w) \<in> (edge_rel adj)\<^sup>+" using reach edge by (auto intro: rtrancl_into_trancl1)
    then show ?thesis using 4(4) GREY by auto
  next
    case BLACK
    have "\<exists>u. set ws \<subseteq> set (neighbours adj u) \<and> (\<forall>g \<in> greys col. (g, u) \<in> (edge_rel adj)\<^sup>*)"
      using u reach by auto
    from 4(3) [OF BLACK _ 4(5) this] show ?thesis using 4(4) BLACK by auto
  next
    case WHITE
    then obtain f1 c1 where call: "visit n adj col w = Some (f1, c1)"
      using 4(4) by (auto split: option.splits)
    have "\<forall>g \<in> greys col. (g, w) \<in> (edge_rel adj)\<^sup>*"
      using reach edge by (auto intro: rtrancl_into_rtrancl)
    note first = 4(1) [OF WHITE call 4(5) WHITE this]
    show ?thesis
    proof (cases f1)
      case True
      then show ?thesis using 4(4) WHITE call first by auto
    next
      case False
      then have s1: "settled adj c1" and g1: "greys c1 = greys col"
        and b1: "insert w (blacks col) \<subseteq> blacks c1" using first by auto
      have "\<exists>u. set ws \<subseteq> set (neighbours adj u) \<and> (\<forall>g \<in> greys c1. (g, u) \<in> (edge_rel adj)\<^sup>*)"
        using u reach g1 by auto
      moreover have "visit_each n adj c1 ws = Some (found, col')"
        using 4(4) WHITE call False by simp
      ultimately have "if found then \<exists>x. (x, x) \<in> (edge_rel adj)\<^sup>+
        else settled adj col' \<and> greys col' = greys c1 \<and> set ws \<union> blacks c1 \<subseteq> blacks col'"
        using 4(2) [OF WHITE call refl False _ s1] by blast
      then show ?thesis using g1 b1 by (auto split: if_splits)
    qed
  qed
qed auto

lemma visit_roots_sound:
  assumes "visit_roots n adj col vs = Some found" "settled adj col" "greys col = {}"
  shows "if found then \<exists>x. (x, x) \<in> (edge_rel adj)\<^sup>+
    else \<exists>col'. settled adj col' \<and> set vs \<subseteq> blacks col' \<and> blacks col \<subseteq> blacks col'"
  using assms
proof (induction n adj col vs rule: visit_roots.induct)
  case (2 n adj col v vs)
  show ?case
  proof (cases "col v = WHITE")
    case True
    then obtain f c where call: "visit n adj col v = Some (f, c)"
      using 2(3) by (auto split: option.splits)
    note first = visit_sound(1) [OF call 2(4) True, unfolded 2(5), simplified]
    show ?thesis
    proof (cases f)
      case False
      then have "visit_roots n adj c vs = Some found" using 2(3) True call by simp
      then show ?thesis using 2(1) [OF True call refl False] first False 2(5)
        by (fastforce split: if_splits)
    qed (use 2(3) True call first in auto)
  next
    case False
    then have "col v = BLACK" using 2(5) by (cases "col v") auto
    then show ?thesis using 2(2) [OF False] 2(3-5) by (fastforce split: if_splits)
  qed
qed auto

text \<open>Fuel: each nested call turns a white node of the graph grey, and no call makes one
  white again.\<close>

definition whites_in :: "string set \<Rightarrow> (string \<Rightarrow> colour) \<Rightarrow> nat" where
  "whites_in U col = card {v \<in> U. col v = WHITE}"

lemma visit_whites:
  "visit n adj col v = Some (found, col') \<Longrightarrow> col' x = WHITE \<Longrightarrow> col x = WHITE"
  "visit_each n adj col ws = Some (found, col') \<Longrightarrow> col' x = WHITE \<Longrightarrow> col x = WHITE"
  by (induction n adj col v and n adj col ws arbitrary: found col' and found col'
      rule: visit_visit_each.induct)
    (auto split: option.splits if_splits colour.splits prod.splits)

lemma whites_in_mono:
  assumes "finite U" "\<And>x. col' x = WHITE \<Longrightarrow> col x = WHITE"
  shows "whites_in U col' \<le> whites_in U col"
  unfolding whites_in_def by (rule card_mono) (use assms in auto)

lemma whites_in_grey:
  assumes "finite U" "v \<in> U" "col v = WHITE"
  shows "Suc (whites_in U (col(v := GREY))) = whites_in U col"
proof -
  have "{w \<in> U. col w = WHITE} = insert v {w \<in> U. (col(v := GREY)) w = WHITE}"
    using assms by auto
  then show ?thesis using assms(1) by (simp add: whites_in_def)
qed

lemma visit_fuel:
  assumes U: "finite U" "edge_rel adj \<subseteq> UNIV \<times> U"
  shows "whites_in U col \<le> n \<Longrightarrow> col v = WHITE \<Longrightarrow> v \<in> U \<Longrightarrow> visit n adj col v \<noteq> None"
    and "whites_in U col \<le> n \<Longrightarrow> set ws \<subseteq> U \<Longrightarrow> visit_each n adj col ws \<noteq> None"
  using U(2)
proof (induction n adj col v and n adj col ws rule: visit_visit_each.induct)
  case (1 adj col v)
  then have "v \<in> {x \<in> U. col x = WHITE}" by simp
  then show ?case using 1(1) U(1) by (auto simp: whites_in_def)
next
  case (2 n adj col v)
  have "whites_in U (col(v := GREY)) \<le> n" using whites_in_grey [of U v col] U(1) 2(2,3,4) by simp
  moreover have "set (neighbours adj v) \<subseteq> U" using 2(5) by (auto simp: edge_rel_def)
  ultimately have "visit_each n adj (col(v := GREY)) (neighbours adj v) \<noteq> None"
    using 2(1,5) by blast
  then show ?case by (auto split: option.splits)
next
  case (4 n adj col w ws)
  show ?case
  proof (cases "col w")
    case WHITE
    then obtain f c where call: "visit n adj col w = Some (f, c)"
      using 4(1) [OF WHITE 4(4) WHITE _ 4(6)] 4(5) by auto
    have "whites_in U c \<le> n"
      using whites_in_mono [OF U(1), of c col] visit_whites(1) [OF call] 4(4) by fastforce
    then show ?thesis
      using 4(2) [OF WHITE call refl _ _ _ 4(6)] 4(5) WHITE call by (cases f) auto
  qed (use 4 in auto)
qed simp

lemma visit_roots_fuel:
  assumes U: "finite U" "edge_rel adj \<subseteq> UNIV \<times> U"
  shows "whites_in U col \<le> n \<Longrightarrow> set vs \<subseteq> U \<Longrightarrow> visit_roots n adj col vs \<noteq> None"
proof (induction vs arbitrary: col)
  case (Cons v vs)
  show ?case
  proof (cases "col v = WHITE")
    case True
    then obtain f c where call: "visit n adj col v = Some (f, c)"
      using visit_fuel(1) [OF U Cons(2) True] Cons(3) by auto
    have "whites_in U c \<le> n"
      using whites_in_mono [OF U(1), of c col] visit_whites(1) [OF call] Cons(2) by fastforce
    then show ?thesis using Cons(1) [of c] Cons(3) True call by auto
  qed (use Cons in auto)
qed simp

lemma neighbours_keys:
  "w \<in> set (neighbours adj v) \<Longrightarrow> v \<in> fst ` set adj \<and> (\<exists>ws \<in> snd ` set adj. w \<in> set ws)"
  by (cases "map_of adj v") (force simp: neighbours_def dest: map_of_SomeD)+

text \<open>Whatever the fuel, an answer of the search is right; and the number of nodes is fuel enough.\<close>

lemma visit_roots_correct:
  assumes "visit_roots n adj (\<lambda>_. WHITE) (map fst adj) = Some found"
  shows "found \<longleftrightarrow> (\<exists>x. (x, x) \<in> (edge_rel adj)\<^sup>+)"
proof -
  have init: "settled adj (\<lambda>_. WHITE)" "greys (\<lambda>_. WHITE) = {}" by (simp_all add: settled_def)
  note sound = visit_roots_sound [OF assms init]
  show ?thesis
  proof (cases found)
    case False
    then obtain col where s: "settled adj col" and all: "set (map fst adj) \<subseteq> blacks col"
      using sound by auto
    have "(x, x) \<notin> (edge_rel adj)\<^sup>+" for x
    proof
      assume c: "(x, x) \<in> (edge_rel adj)\<^sup>+"
      then obtain y where "(x, y) \<in> edge_rel adj" by (meson tranclD)
      then have "x \<in> set (map fst adj)"
        using neighbours_keys by (auto simp: edge_rel_def)
      then show False using all s c by (auto simp: settled_def)
    qed
    then show ?thesis using False by simp
  qed (use sound in simp)
qed

lemma visit_roots_terminates:
  assumes "edge_rel adj \<subseteq> UNIV \<times> set vs" "set (map fst adj) \<subseteq> set vs" "length vs \<le> n"
  shows "\<exists>found. visit_roots n adj (\<lambda>_. WHITE) (map fst adj) = Some found"
proof -
  have "whites_in (set vs) (\<lambda>_. WHITE) \<le> n"
    using card_length [of vs] assms(3) by (simp add: whites_in_def)
  then show ?thesis using visit_roots_fuel [OF _ assms(1)] assms(2) by auto
qed

lemma has_cycle_fuel: "\<exists>found. visit_roots (cycle_fuel adj) adj (\<lambda>_. WHITE) (map fst adj) = Some found"
  by (rule visit_roots_terminates [of _ "map fst adj @ concat (map snd adj)"])
    (use neighbours_keys in \<open>auto simp: edge_rel_def cycle_fuel_def\<close>)

lemma has_cycle_correct: "has_cycle adj \<longleftrightarrow> (\<exists>x. (x, x) \<in> (edge_rel adj)\<^sup>+)"
  using has_cycle_fuel [of adj] visit_roots_correct [of "cycle_fuel adj" adj] by (auto simp: has_cycle_def)

lemma more_fuel_same_answer:
  "visit_roots n adj (\<lambda>_. WHITE) (map fst adj) = Some found \<Longrightarrow> found = has_cycle adj"
  using visit_roots_correct by (simp add: has_cycle_correct)

end
