(* ===== verification/Store.thy ===== *)
theory Store
  imports Enums Permissions Schedules Graph
begin

text \<open>
  The data model, \<open>app/models/*.py\<close>: one record per table the services read or write, and the
  database as the record of those tables. Columns that only decorate a screen (icons, locale,
  row timestamps that no query reads) are left out. Services are functions from a database to
  a result and a database; the environment of a call holds what it takes from outside: the
  clock, fresh identifiers and random tokens, settings, cryptography and the node registry.
\<close>

section \<open>Identity\<close>

record user =
  us_id :: uuid
  us_email :: string
  us_full_name :: string
  us_password_hash :: string
  us_is_active :: bool
  us_is_platform_admin :: bool
  us_last_login_at :: "int option"
  us_failed_login_count :: int
  us_locked_until :: "int option"
  us_password_change_required :: bool
  us_session_version :: int
  us_password_changed_at :: "int option"

record organization =
  og_id :: uuid
  og_name :: string
  og_slug :: string
  og_status :: workspace_status

record organization_membership =
  om_id :: uuid
  om_organization_id :: uuid
  om_user_id :: uuid
  om_role :: org_role

record workspace =
  ws_id :: uuid
  ws_organization_id :: uuid
  ws_name :: string
  ws_slug :: string
  ws_status :: workspace_status
  ws_timezone :: string
  ws_engine_instance_id :: "uuid option"
  ws_max_concurrent_executions :: "int option"

record membership =
  me_id :: uuid
  me_workspace_id :: uuid
  me_user_id :: uuid
  me_role :: role
  me_permissions :: "dict option"

section \<open>Workflows\<close>

record workflow =
  wf_id :: uuid
  wf_workspace_id :: uuid
  wf_name :: string
  wf_description :: "string option"
  wf_status :: workflow_status
  wf_published_version_id :: "uuid option"
  wf_active_version_id :: "uuid option"
  wf_trigger_type_cache :: "trigger_type option"
  wf_created_by :: "uuid option"
  wf_updated_by :: "uuid option"
  wf_deleted_at :: "int option"

record workflow_draft =
  dr_workflow_id :: uuid
  dr_workspace_id :: uuid
  dr_graph :: dict
  dr_graph_hash :: string
  dr_schema_version :: int
  dr_revision :: int
  dr_validation_state :: "json option"
  dr_saved_by :: "uuid option"
  dr_updated_at :: int

record workflow_version =
  wv_id :: uuid
  wv_workflow_id :: uuid
  wv_workspace_id :: uuid
  wv_number :: int
  wv_graph :: dict
  wv_graph_hash :: string
  wv_schema_version :: int
  wv_compiler_version :: string
  wv_engine_set :: string
  wv_published_by :: "uuid option"
  wv_published_at :: int
  wv_change_note :: "string option"

record trigger_binding =
  tb_id :: uuid
  tb_workflow_id :: uuid
  tb_version_id :: "uuid option"
  tb_workspace_id :: uuid
  tb_trigger_type :: trigger_type
  tb_enabled :: bool
  tb_config :: dict
  tb_public_key :: "string option"
  tb_secret_ref :: "string option"
  tb_next_run_at :: "int option"
  tb_last_fired_at :: "int option"
  tb_overlap_policy :: overlap_policy
  tb_activated_by :: "uuid option"

record credential =
  cr_id :: uuid
  cr_workspace_id :: uuid
  cr_name :: string
  cr_type :: credential_type
  cr_secret_ref :: "string option"
  cr_public_metadata :: dict
  cr_status :: credential_status
  cr_last_test_at :: "int option"
  cr_last_test_ok :: "bool option"
  cr_last_test_message :: "string option"
  cr_created_by :: "uuid option"
  cr_rotated_at :: "int option"
  cr_deleted_at :: "int option"

record secret_record =
  sr_ref :: string
  sr_workspace_id :: uuid
  sr_wrapped_key :: string
  sr_ciphertext :: string
  sr_field_names :: "string list"
  sr_rotated_at :: int
  sr_version :: int

section \<open>Executions\<close>

record execution =
  ex_id :: uuid
  ex_short_id :: string
  ex_workspace_id :: uuid
  ex_workflow_id :: uuid
  ex_version_kind :: version_kind
  ex_version_id :: "uuid option"
  ex_version_number :: "int option"
  ex_draft_revision :: "int option"
  ex_graph :: dict
  ex_graph_hash :: string
  ex_trigger_type :: trigger_type
  ex_triggered_by :: "uuid option"
  ex_retry_of :: "uuid option"
  ex_idempotency_key :: "string option"
  ex_status :: execution_status
  ex_error_category :: "string option"
  ex_error_code :: "string option"
  ex_failed_node_name :: "string option"
  ex_queued_at :: int
  ex_started_at :: "int option"
  ex_ended_at :: "int option"
  ex_duration_ms :: "int option"
  ex_last_seen_at :: "int option"
  ex_input_metadata :: dict
  ex_start_payload :: "json option"
  ex_start_payload_sealed :: "string option"
  ex_output_summary :: dict
  ex_technical_metadata :: dict
  ex_engine_ref :: "string option"
  ex_trace_id :: string

record node_result =
  nr_execution_id :: uuid
  nr_node_id :: string
  nr_node_key :: string
  nr_node_name :: string
  nr_status :: node_run_status
  nr_index :: int
  nr_started_at :: "int option"
  nr_ended_at :: "int option"
  nr_duration_ms :: "int option"
  nr_item_count :: "int option"
  nr_input_preview :: "dict option"
  nr_output_preview :: "dict option"
  nr_truncated :: bool
  nr_error :: "json option"
  nr_branch_metadata :: dict

record log_line =
  lg_execution_id :: uuid
  lg_sequence :: nat
  lg_at :: int
  lg_level :: string
  lg_node_name :: "string option"
  lg_message :: string

section \<open>Operations\<close>

record audit_event =
  au_workspace_id :: uuid
  au_actor_type :: actor_type
  au_actor_id :: "uuid option"
  au_actor_label :: "string option"
  au_action :: string
  au_resource_type :: string
  au_resource_id :: "uuid option"
  au_resource_label :: "string option"
  au_result :: audit_result
  au_before :: "json option"
  au_after :: "json option"
  au_trace_id :: string
  au_ip_address :: "string option"
  au_user_agent :: "string option"
  au_created_at :: int

record alert_rule =
  ru_id :: uuid
  ru_workspace_id :: uuid
  ru_event_type :: alert_event_type
  ru_workflow_id :: "uuid option"
  ru_threshold :: int
  ru_cooldown_seconds :: int
  ru_enabled :: bool

record notification =
  no_id :: uuid
  no_workspace_id :: uuid
  no_event_type :: alert_event_type
  no_severity :: string
  no_workflow_id :: "uuid option"
  no_execution_id :: "uuid option"
  no_dedup_key :: string
  no_status :: notification_status
  no_remediation :: "dict option"
  no_created_at :: int
  no_read_at :: "int option"

record rate_limit_bucket =
  rl_key :: string
  rl_window_start :: int
  rl_hits :: int
  rl_updated_at :: int

record engine_instance =
  ei_id :: uuid
  ei_name :: string
  ei_engine_version :: "string option"
  ei_adapter_contract_version :: string
  ei_compiler_version :: string
  ei_status :: engine_status
  ei_is_default :: bool
  ei_last_probe_at :: "int option"
  ei_last_worker_beat_at :: "int option"

section \<open>The database\<close>

record db =
  db_users :: "user list"
  db_organizations :: "organization list"
  db_org_memberships :: "organization_membership list"
  db_workspaces :: "workspace list"
  db_memberships :: "membership list"
  db_workflows :: "workflow list"
  db_drafts :: "workflow_draft list"
  db_versions :: "workflow_version list"
  db_triggers :: "trigger_binding list"
  db_credentials :: "credential list"
  db_secrets :: "secret_record list"
  db_executions :: "execution list"
  db_node_results :: "node_result list"
  db_logs :: "log_line list"
  db_audit :: "audit_event list"
  db_rules :: "alert_rule list"
  db_notifications :: "notification list"
  db_buckets :: "rate_limit_bucket list"
  db_engines :: "engine_instance list"
  db_drawn :: nat

definition empty_db :: db where
  "empty_db = \<lparr>db_users = [], db_organizations = [], db_org_memberships = [], db_workspaces = [],
     db_memberships = [], db_workflows = [], db_drafts = [], db_versions = [], db_triggers = [],
     db_credentials = [], db_secrets = [], db_executions = [], db_node_results = [], db_logs = [],
     db_audit = [], db_rules = [], db_notifications = [], db_buckets = [], db_engines = [], db_drawn = 0\<rparr>"

section \<open>Settings and the environment of a call\<close>

record settings =
  cfg_max_per_workflow :: int
  cfg_max_per_workspace :: int
  cfg_stale_after_seconds :: int
  cfg_preview_retention_days :: int
  cfg_preview_bytes :: nat
  cfg_webhook_max_body_bytes :: int
  cfg_worker_batch_size :: nat
  cfg_adapter_contract_version :: string
  cfg_product_version :: string
  cfg_app_env :: string
  cfg_login_max_attempts :: int
  cfg_login_lockout_seconds :: int
  cfg_session_ttl_seconds :: int
  cfg_login_rate_limit_per_minute :: int
  cfg_webhook_rate_limit_per_minute :: int

definition default_settings :: settings where
  "default_settings = \<lparr>cfg_max_per_workflow = 1, cfg_max_per_workspace = 10,
     cfg_stale_after_seconds = 120, cfg_preview_retention_days = 14, cfg_preview_bytes = 65536,
     cfg_webhook_max_body_bytes = 524288, cfg_worker_batch_size = 5,
     cfg_adapter_contract_version = ''1'', cfg_product_version = ''1.0.0'',
     cfg_app_env = ''development'', cfg_login_max_attempts = 8, cfg_login_lockout_seconds = 300,
     cfg_session_ttl_seconds = 43200, cfg_login_rate_limit_per_minute = 30, cfg_webhook_rate_limit_per_minute = 120\<rparr>"

text \<open>\<open>env_id\<close> and \<open>env_token\<close> supply fresh identifiers and random strings; \<^const>\<open>db_drawn\<close> counts
  the draws so far.
  \<open>env_encrypt k\<close> and \<open>env_decrypt k\<close> are Fernet under key \<open>k\<close> around the JSON codec;
  decryption fails on a foreign key. \<open>env_key\<close> is a fresh data key.\<close>

record env =
  env_now :: int
  env_id :: "nat \<Rightarrow> uuid"
  env_token :: "nat \<Rightarrow> string"
  env_settings :: settings
  env_registry :: registry
  env_calendar :: calendar
  env_sha256 :: "string \<Rightarrow> string"
  env_hmac :: "string \<Rightarrow> string \<Rightarrow> string"
  env_b64decode :: "string \<Rightarrow> string option"
  env_parse_time :: "string \<Rightarrow> int option"
  env_kek :: string
  env_key :: string
  env_encrypt :: "string \<Rightarrow> json \<Rightarrow> string"
  env_decrypt :: "string \<Rightarrow> string \<Rightarrow> json option"

section \<open>Identifiers in text\<close>

text \<open>\<open>uuid.UUID(text)\<close>: the prefixes \<open>urn:\<close> and \<open>uuid:\<close> and hyphens are removed anywhere, braces at
  the ends; 32 hexadecimal digits must remain. \<open>str()\<close> of a UUID puts the hyphens back.\<close>

fun remove_all :: "string \<Rightarrow> string \<Rightarrow> string" where
  "remove_all p [] = []"
| "remove_all p (c # cs) =
     (if p \<noteq> [] \<and> starts_with (c # cs) p then remove_all p (drop (length p - 1) cs)
      else c # remove_all p cs)"

definition is_brace :: "char \<Rightarrow> bool" where "is_brace c = (c = CHR ''{'' \<or> c = CHR ''}'')"

definition is_hex :: "char \<Rightarrow> bool" where
  "is_hex c = (is_digit c \<or> (let n = of_char c :: nat in 97 \<le> n \<and> n \<le> 102))"

definition parse_uuid :: "string \<Rightarrow> uuid option" where
  "parse_uuid raw =
     (let s = remove_all ''uuid:'' (remove_all ''urn:'' raw);
          s = rev (dropWhile is_brace (rev (dropWhile is_brace s)));
          s = str_lower (filter (\<lambda>c. c \<noteq> CHR ''-'') s)
      in if length s = 32 \<and> list_all is_hex s then Some s else None)"

definition show_uuid :: "uuid \<Rightarrow> string" where
  "show_uuid u = take 8 u @ ''-'' @ take 4 (drop 8 u) @ ''-'' @ take 4 (drop 12 u) @ ''-''
     @ take 4 (drop 16 u) @ ''-'' @ drop 20 u"

definition valid_uuid :: "uuid \<Rightarrow> bool" where
  "valid_uuid u = (length u = 32 \<and> list_all is_hex u)"

lemma remove_all_absent: "c \<notin> set s \<Longrightarrow> remove_all (c # p) s = s"
  by (induction s) (auto simp: starts_with_def)

lemma is_hex_facts: "is_hex c \<Longrightarrow> c \<noteq> CHR ''-'' \<and> \<not> is_brace c \<and> c \<noteq> CHR ''u'' \<and> lower_char c = c"
  by (auto simp: is_hex_def is_digit_def Let_def is_brace_def lower_char_def)

lemma dropWhile_none: "(\<And>x. x \<in> set xs \<Longrightarrow> \<not> P x) \<Longrightarrow> dropWhile P xs = xs"
  by (cases xs) auto

lemma filter_show_uuid: "CHR ''-'' \<notin> set u \<Longrightarrow> filter (\<lambda>c. c \<noteq> CHR ''-'') (show_uuid u) = u"
proof -
  assume "CHR ''-'' \<notin> set u"
  then have f: "filter (\<lambda>c. c \<noteq> CHR ''-'') (take n (drop m u)) = take n (drop m u)" for n m
    by (auto intro!: filter_True dest!: in_set_takeD in_set_dropD)
  have "filter (\<lambda>c. c \<noteq> CHR ''-'') (show_uuid u) = take 8 (drop 0 u) @ take 4 (drop 8 u) @ take 4 (drop 12 u)
      @ take 4 (drop 16 u) @ take (length u) (drop 20 u)"
    using f [of 8 0] f [of 4 8] f [of 4 12] f [of 4 16] f [of "length u" 20]
    by (simp add: show_uuid_def)
  also have "\<dots> = u"
  proof -
    have d: "take n (drop m u) @ drop (n + m) u = drop m u" for n m
      by (metis append_take_drop_id drop_drop)
    show ?thesis
      using d [of 8 0] d [of 4 8] d [of 4 12] d [of 4 16] by simp
  qed
  finally show ?thesis .
qed

lemma parse_show_uuid:
  assumes "valid_uuid u"
  shows "parse_uuid (show_uuid u) = Some u"
proof -
  have hex: "\<And>c. c \<in> set u \<Longrightarrow> is_hex c" and len: "length u = 32"
    using assms by (auto simp: valid_uuid_def list_all_iff)
  have mem: "c \<in> set u \<or> c = CHR ''-''" if "c \<in> set (show_uuid u)" for c
    using that by (auto simp: show_uuid_def dest: in_set_takeD in_set_dropD)
  have noU: "CHR ''u'' \<notin> set (show_uuid u)" using mem hex is_hex_facts by blast
  have nobrace: "\<not> is_brace c" if "c \<in> set (show_uuid u)" for c
    using mem [OF that] hex is_hex_facts by (auto simp: is_brace_def)
  have "CHR ''-'' \<notin> set u" using hex is_hex_facts by blast
  then have f: "filter (\<lambda>c. c \<noteq> CHR ''-'') (show_uuid u) = u" by (rule filter_show_uuid)
  have "str_lower u = u" using hex is_hex_facts by (auto simp: str_lower_def intro: map_idI)
  moreover have "dropWhile is_brace (show_uuid u) = show_uuid u"
    "dropWhile is_brace (rev (show_uuid u)) = rev (show_uuid u)"
    using nobrace by (auto intro!: dropWhile_none)
  ultimately show ?thesis
    using noU f hex len by (simp add: parse_uuid_def remove_all_absent list_all_iff)
qed

section \<open>Writes\<close>

definition put_workflow :: "workflow \<Rightarrow> db \<Rightarrow> db" where
  "put_workflow w d = d\<lparr>db_workflows := update_where (\<lambda>r. wf_id r = wf_id w) (\<lambda>_. w) (db_workflows d)\<rparr>"

definition put_draft :: "workflow_draft \<Rightarrow> db \<Rightarrow> db" where
  "put_draft w d = d\<lparr>db_drafts := update_where (\<lambda>r. dr_workflow_id r = dr_workflow_id w) (\<lambda>_. w) (db_drafts d)\<rparr>"

definition put_trigger :: "trigger_binding \<Rightarrow> db \<Rightarrow> db" where
  "put_trigger b d = d\<lparr>db_triggers := update_where (\<lambda>r. tb_id r = tb_id b) (\<lambda>_. b) (db_triggers d)\<rparr>"

definition put_execution :: "execution \<Rightarrow> db \<Rightarrow> db" where
  "put_execution e d = d\<lparr>db_executions := update_where (\<lambda>r. ex_id r = ex_id e) (\<lambda>_. e) (db_executions d)\<rparr>"

definition put_credential :: "credential \<Rightarrow> db \<Rightarrow> db" where
  "put_credential c d = d\<lparr>db_credentials := update_where (\<lambda>r. cr_id r = cr_id c) (\<lambda>_. c) (db_credentials d)\<rparr>"

definition get_workspace :: "db \<Rightarrow> uuid \<Rightarrow> workspace option" where
  "get_workspace d i = find (\<lambda>r. ws_id r = i) (db_workspaces d)"

definition get_workflow_row :: "db \<Rightarrow> uuid \<Rightarrow> workflow option" where
  "get_workflow_row d i = find (\<lambda>r. wf_id r = i) (db_workflows d)"

definition get_draft_row :: "db \<Rightarrow> uuid \<Rightarrow> workflow_draft option" where
  "get_draft_row d i = find (\<lambda>r. dr_workflow_id r = i) (db_drafts d)"

definition get_version_row :: "db \<Rightarrow> uuid \<Rightarrow> workflow_version option" where
  "get_version_row d i = find (\<lambda>r. wv_id r = i) (db_versions d)"

definition first_trigger_of :: "db \<Rightarrow> uuid \<Rightarrow> trigger_binding option" where
  "first_trigger_of d i = find (\<lambda>r. tb_workflow_id r = i) (db_triggers d)"

definition get_execution_row :: "db \<Rightarrow> uuid \<Rightarrow> execution option" where
  "get_execution_row d i = find (\<lambda>r. ex_id r = i) (db_executions d)"

definition get_credential_row :: "db \<Rightarrow> uuid \<Rightarrow> credential option" where
  "get_credential_row d i = find (\<lambda>r. cr_id r = i) (db_credentials d)"

text \<open>Drawing a fresh identifier.\<close>

definition fresh_id :: "env \<Rightarrow> db \<Rightarrow> uuid" where
  "fresh_id env d = env_id env (db_drawn d)"

definition bump :: "db \<Rightarrow> db" where
  "bump d = d\<lparr>db_drawn := Suc (db_drawn d)\<rparr>"

text \<open>A permission check in front of a handler: what it refuses leaves the database alone.\<close>

definition guarded :: "service_error + unit \<Rightarrow> db \<Rightarrow> (service_error + 'a) \<times> db \<Rightarrow> (service_error + 'a) \<times> db" where
  "guarded check d rest = (case check of Inl e \<Rightarrow> (Inl e, d) | Inr _ \<Rightarrow> rest)"

lemma guarded_Inr [simp]: "guarded (Inr u) d rest = rest"
  by (simp add: guarded_def)

lemma guarded_Inl [simp]: "guarded (Inl e) d rest = (Inl e, d)"
  by (simp add: guarded_def)

lemma guarded_split:
  "P (guarded c d rest) \<longleftrightarrow> (\<forall>e. c = Inl e \<longrightarrow> P (Inl e, d)) \<and> (c = Inr () \<longrightarrow> P rest)"
  by (cases c) auto

lemma find_put_same:
  assumes "find (\<lambda>r. k r = i) rows = Some r0" "k r' = i"
  shows "find (\<lambda>r. k r = i) (update_where (\<lambda>r. k r = i) (\<lambda>_. r') rows) = Some r'"
  using assms by (induction rows) (auto split: if_splits)

lemma find_put_other:
  assumes "k r' = i" "i \<noteq> j"
  shows "find (\<lambda>r. k r = j) (update_where (\<lambda>r. k r = i) (\<lambda>_. r') rows) = find (\<lambda>r. k r = j) rows"
  using assms by (induction rows) auto

end
