(* ===== verification/Redaction.thy ===== *)
theory Redaction
  imports Prelude
begin

text \<open>
  Redaction and truncation of what executions store, \<open>app/core/redaction.py\<close>: the sensitive
  key test, the recursive mask, the size-bounded preview, header filtering and the metadata
  of a body. Values are JSON, so the tuple case of \<open>redact\<close> does not arise. Sizes are in
  bytes: strings hold UTF-8.
\<close>

definition MASK :: string where "MASK = ''********''"

definition SENSITIVE_KEY_HINTS :: "string list" where
  "SENSITIVE_KEY_HINTS =
     [''password'', ''passwd'', ''secret'', ''token'', ''credential'', ''api_key'', ''apikey'',
      ''api-key'', ''authorization'', ''auth'', ''private_key'', ''client_secret'',
      ''access_key'', ''passphrase'', ''cookie'', ''set-cookie'', ''session'',
      ''x-api-key'', ''signature'', ''bearer'']"

definition DROP_HEADERS :: "string list" where
  "DROP_HEADERS = [''authorization'', ''proxy-authorization'', ''cookie'', ''set-cookie'']"

definition MAX_DEPTH :: nat where "MAX_DEPTH = 8"

definition MAX_ITEMS :: nat where "MAX_ITEMS = 50"

definition MAX_STRING :: nat where "MAX_STRING = 4096"

definition TRUNCATED_SUFFIX :: string where
  "TRUNCATED_SUFFIX = [CHR 0xE2, CHR 0x80, CHR 0xA6] @ ''<truncated>''"

definition is_sensitive_key :: "string \<Rightarrow> bool" where
  "is_sensitive_key key = list_ex (\<lambda>hint. str_contains hint (str_lower key)) SENSITIVE_KEY_HINTS"

definition is_dropped_key :: "string \<Rightarrow> bool" where
  "is_dropped_key key = (str_lower key \<in> set DROP_HEADERS)"

function redact :: "nat \<Rightarrow> json \<Rightarrow> json" where
  "redact depth v =
     (if depth > MAX_DEPTH then JStr ''<depth limit>''
      else case v of
        JObj kvs \<Rightarrow>
          JObj (map (\<lambda>(k, x). (k, if is_sensitive_key k then JStr MASK else redact (Suc depth) x))
            (filter (\<lambda>(k, _). \<not> is_dropped_key k) kvs))
      | JArr xs \<Rightarrow> JArr (map (redact (Suc depth)) (take MAX_ITEMS xs))
      | JStr s \<Rightarrow> if length s > MAX_STRING then JStr (take MAX_STRING s @ TRUNCATED_SUFFIX) else JStr s
      | _ \<Rightarrow> v)"
  by pat_completeness auto
termination
  by (relation "measure (\<lambda>(depth, _). Suc MAX_DEPTH - depth)") (auto simp: MAX_DEPTH_def)

declare redact.simps [simp del]

lemma redact_deep: "depth > MAX_DEPTH \<Longrightarrow> redact depth v = JStr ''<depth limit>''"
  by (simp add: redact.simps)

lemma redact_simps:
  assumes "depth \<le> MAX_DEPTH"
  shows "redact depth JNull = JNull" "redact depth (JBool b) = JBool b" "redact depth (JInt i) = JInt i"
    "redact depth (JStr s) =
       (if length s > MAX_STRING then JStr (take MAX_STRING s @ TRUNCATED_SUFFIX) else JStr s)"
    "redact depth (JArr xs) = JArr (map (redact (Suc depth)) (take MAX_ITEMS xs))"
    "redact depth (JObj kvs) =
       JObj (map (\<lambda>(k, x). (k, if is_sensitive_key k then JStr MASK else redact (Suc depth) x))
         (filter (\<lambda>(k, _). \<not> is_dropped_key k) kvs))"
  using assms by (simp_all add: redact.simps)

section \<open>Previews\<close>

definition preview_body :: "json list \<Rightarrow> nat \<Rightarrow> dict" where
  "preview_body kept count = [(''items'', JArr kept), (''item_count'', JInt (int count))]"

definition encoded_size :: "dict \<Rightarrow> nat" where
  "encoded_size d = length (dumps False False '', '' '': '' (JObj d))"

function shed :: "nat \<Rightarrow> nat \<Rightarrow> json list \<Rightarrow> json list" where
  "shed max_bytes count kept =
     (if kept \<noteq> [] \<and> encoded_size (preview_body kept count) > max_bytes
      then shed max_bytes count (butlast kept) else kept)"
  by pat_completeness auto
termination
  by (relation "measure (\<lambda>(_, _, kept). length kept)") auto

declare shed.simps [simp del]

definition redaction_preview :: "json \<Rightarrow> nat \<Rightarrow> nat \<Rightarrow> dict \<times> bool" where
  "redaction_preview items max_items max_bytes =
     (if items = JNull then (preview_body [] 0, False)
      else
        (let sequence = (case items of JArr xs \<Rightarrow> xs | _ \<Rightarrow> [items]);
             count = length sequence;
             kept = map (redact 0) (take max_items sequence);
             truncated = (count > max_items)
         in if encoded_size (preview_body kept count) \<le> max_bytes
            then (preview_body kept count, truncated)
            else (preview_body (shed max_bytes count kept) count
                    @ [(''note'', JStr ''PREVIEW_TRUNCATED_BY_SIZE'')], True)))"

section \<open>Headers and bodies\<close>

definition sanitize_headers :: "dict \<Rightarrow> (string \<times> string) list" where
  "sanitize_headers headers =
     map (\<lambda>(k, v). (k, take 512 (py_str v)))
       (filter (\<lambda>(k, _). \<not> (is_dropped_key k \<or> is_sensitive_key (str_lower k))) headers)"

definition body_metadata :: "string option \<Rightarrow> string option \<Rightarrow> dict" where
  "body_metadata raw content_type =
     [(''content_type'', case content_type of None \<Rightarrow> JNull | Some c \<Rightarrow> JStr c),
      (''size_bytes'', JInt (case raw of None \<Rightarrow> 0 | Some b \<Rightarrow> int (length b)))]"

section \<open>Properties\<close>

text \<open>No key that names a secret keeps its value, and no dropped header survives.\<close>

fun masked :: "json \<Rightarrow> bool" where
  "masked (JObj kvs) =
     list_all (\<lambda>(k, v). \<not> is_dropped_key k \<and> (is_sensitive_key k \<longrightarrow> v = JStr MASK) \<and> masked v) kvs"
| "masked (JArr xs) = list_all masked xs"
| "masked _ = True"

text \<open>Depth at most \<open>d\<close>, arrays of at most 50 items, strings of bounded length.\<close>

fun within :: "nat \<Rightarrow> json \<Rightarrow> bool" where
  "within d (JObj kvs) = (d > 0 \<and> list_all (\<lambda>(k, v). within (d - 1) v) kvs)"
| "within d (JArr xs) = (d > 0 \<and> length xs \<le> MAX_ITEMS \<and> list_all (within (d - 1)) xs)"
| "within d (JStr s) = (length s \<le> MAX_STRING + length TRUNCATED_SUFFIX)"
| "within d _ = True"

lemma masked_redact: "masked (redact depth v)"
proof (induction v arbitrary: depth)
  case (JObj kvs)
  then show ?case
    by (cases "depth \<le> MAX_DEPTH") (force simp: redact_deep redact_simps list_all_iff)+
next
  case (JArr xs)
  then show ?case
    by (cases "depth \<le> MAX_DEPTH")
      (auto simp: redact_deep redact_simps list_all_iff dest: in_set_takeD)
qed (auto simp: redact.simps)

lemma within_redact: "within (Suc MAX_DEPTH - depth) (redact depth v)"
proof (induction v arbitrary: depth)
  case (JObj kvs)
  have "within (Suc MAX_DEPTH - depth - 1) (redact (Suc depth) x)" if "(k, x) \<in> set kvs" for k x
    using JObj that by (metis diff_Suc_eq_diff_pred diff_commute diff_Suc_1 snd_conv prod_set_simps(2) singletonI)
  then show ?case
    by (cases "depth \<le> MAX_DEPTH") (auto simp: redact_deep redact_simps list_all_iff MAX_DEPTH_def MAX_STRING_def MASK_def)
next
  case (JArr xs)
  have "within (Suc MAX_DEPTH - depth - 1) (redact (Suc depth) x)" if "x \<in> set xs" for x
    using JArr [OF that, of "Suc depth"] by simp
  then show ?case
    by (cases "depth \<le> MAX_DEPTH")
      (auto simp: redact_deep redact_simps list_all_iff MAX_DEPTH_def MAX_STRING_def dest: in_set_takeD)
qed (auto simp: redact.simps MAX_STRING_def TRUNCATED_SUFFIX_def)

lemma redact_idem: "redact depth (redact depth v) = redact depth v"
proof (induction v arbitrary: depth)
  case (JObj kvs)
  show ?case
  proof (cases "depth \<le> MAX_DEPTH")
    case True
    then show ?thesis
      using JObj by (auto simp: redact_simps comp_def MASK_def case_prod_unfold intro!: filter_cong)
  qed (simp add: redact_deep)
next
  case (JArr xs)
  then show ?case
    by (cases "depth \<le> MAX_DEPTH")
      (auto simp: redact_deep redact_simps take_map dest: in_set_takeD)
qed (auto simp: redact.simps TRUNCATED_SUFFIX_def MAX_STRING_def)

text \<open>
  C7: what \<open>redact\<close> returns is safe to store, whatever came in: at every depth, a header of the
  drop list is gone and a key that looks like a credential holds the mask; the value is at most
  nine levels deep, no array has more than 50 items and no string more than 4096 characters
  plus the truncation mark. Redacting again changes nothing.
\<close>

theorem redact_safe:
  "masked (redact 0 v) \<and> within (Suc MAX_DEPTH) (redact 0 v) \<and> redact 0 (redact 0 v) = redact 0 v"
  using masked_redact within_redact [of 0] redact_idem by simp

lemma shed_prefix: "\<exists>n \<le> length kept. shed m count kept = take n kept"
proof (induction m count kept rule: shed.induct)
  case (1 m count kept)
  show ?case
  proof (cases "kept \<noteq> [] \<and> encoded_size (preview_body kept count) > m")
    case True
    then obtain n where "n \<le> length (butlast kept)" "shed m count (butlast kept) = take n (butlast kept)"
      using 1 by blast
    moreover have "n < length kept"
      using \<open>n \<le> length (butlast kept)\<close> True by (cases kept) (simp_all split: if_splits)
    ultimately show ?thesis
      using True by (intro exI [of _ n]) (simp add: shed.simps [of m count kept] take_butlast)
  qed (auto simp: shed.simps [of m count kept])
qed

lemma shed_fits: "shed m count kept = [] \<or> encoded_size (preview_body (shed m count kept) count) \<le> m"
proof (induction m count kept rule: shed.induct)
  case (1 m count kept)
  then show ?case by (subst (1 2) shed.simps) auto
qed

text \<open>
  C8: a stored preview reports how many items there were, keeps a prefix of them, each redacted,
  at most \<open>max_items\<close>, and fits in \<open>max_bytes\<close> (before the note) unless it kept none; when it
  is not marked as truncated nothing is missing.
\<close>

theorem preview_bounds:
  assumes "redaction_preview items max_items max_bytes = (p, truncated)"
    and "s = (case items of JNull \<Rightarrow> [] | JArr xs \<Rightarrow> xs | _ \<Rightarrow> [items])"
  shows "\<exists>n note. p = preview_body (map (redact 0) (take n s)) (length s) @ note \<and> n \<le> length s \<and>
    (items \<noteq> JNull \<longrightarrow> n \<le> max_items) \<and>
    (items = JNull \<or> n = 0 \<or> encoded_size (preview_body (map (redact 0) (take n s)) (length s)) \<le> max_bytes) \<and>
    (\<not> truncated \<longrightarrow> n = length s \<and> note = [])"
proof (cases "items = JNull")
  case True
  then show ?thesis using assms by (auto simp: redaction_preview_def)
next
  case False
  have seq: "(case items of JArr xs \<Rightarrow> xs | _ \<Rightarrow> [items]) = s"
    using assms(2) False by (cases items) auto
  let ?kept = "map (redact 0) (take max_items s)"
  let ?count = "length s"
  have take_all: "take (min max_items ?count) s = take max_items s" by (simp add: min_def)
  show ?thesis
  proof (cases "encoded_size (preview_body ?kept ?count) \<le> max_bytes")
    case True
    then have "p = preview_body ?kept ?count" "truncated = (?count > max_items)"
      using assms(1) False by (simp_all add: redaction_preview_def seq Let_def)
    then show ?thesis
      using True take_all by (intro exI [of _ "min max_items ?count"] exI [of _ "[]"]) auto
  next
    case over: False
    then have p: "p = preview_body (shed max_bytes ?count ?kept) ?count @
        [(''note'', JStr ''PREVIEW_TRUNCATED_BY_SIZE'')]" "truncated"
      using assms(1) False by (simp_all add: redaction_preview_def seq Let_def)
    obtain n where n: "n \<le> length ?kept" "shed max_bytes ?count ?kept = take n ?kept"
      using shed_prefix by blast
    then have "take n ?kept = map (redact 0) (take n s)" by (simp add: take_map)
    then show ?thesis
      using p n shed_fits [of max_bytes ?count ?kept] by (intro exI [of _ n]) (auto simp: preview_body_def)
  qed
qed

theorem preview_bounds_witness:
  "\<exists>n note. preview_body [JInt 1] 2 = preview_body (map (redact 0) (take n [JInt 1, JInt 2])) (length [JInt 1, JInt 2]) @ note
    \<and> n \<le> 2 \<and> (JArr [JInt 1, JInt 2] \<noteq> JNull \<longrightarrow> n \<le> 1)"
proof -
  have "redaction_preview (JArr [JInt 1, JInt 2]) 1 1000 = (preview_body [JInt 1] 2, True)"
    by code_simp
  from preview_bounds [OF this refl] show ?thesis by auto
qed

lemma sanitize_headers_safe:
  "(k, v) \<in> set (sanitize_headers hs) \<Longrightarrow> \<not> is_dropped_key k \<and> \<not> is_sensitive_key k \<and> length v \<le> 512"
  by (auto simp: sanitize_headers_def is_sensitive_key_def)

end
