(* ===== verification/Alerts.thy ===== *)
theory Alerts
  imports Store Redaction
begin

text \<open>
  The audit trail (\<open>app/services/audit.py\<close>) and alerts (\<open>app/services/alerts.py\<close>): one redacted
  event per mutation; notifications with a deduplication key and a cooldown; the failure
  streak; alert rules; acknowledgement. Titles and bodies are message text and not modelled.
  The list views are modelled up to the rows and page data they return.
\<close>

section \<open>Audit\<close>

datatype resource_ref = NoResource | ResourceId uuid | ResourceText string

record audit_entry =
  aa_action :: string
  aa_type :: string
  aa_resource :: resource_ref
  aa_label :: "string option"
  aa_result :: audit_result
  aa_before :: dict
  aa_after :: dict
  aa_actor :: "actor_type option"

definition entry :: "string \<Rightarrow> string \<Rightarrow> uuid \<Rightarrow> string \<Rightarrow> audit_entry" where
  "entry act ty rid label = \<lparr>aa_action = act, aa_type = ty, aa_resource = ResourceId rid,
     aa_label = Some label, aa_result = AR_SUCCESS, aa_before = [], aa_after = [], aa_actor = None\<rparr>"

definition nonempty :: "string \<Rightarrow> string option" where
  "nonempty s = (if s = [] then None else Some s)"

definition text_or_empty :: "string option \<Rightarrow> string" where
  "text_or_empty s = (case s of None \<Rightarrow> [] | Some t \<Rightarrow> t)"

text \<open>A textual resource id that is not a UUID becomes the label.\<close>

definition resolve_resource :: "resource_ref \<Rightarrow> string option \<Rightarrow> uuid option \<times> string option" where
  "resolve_resource r label =
     (case r of
        NoResource \<Rightarrow> (None, label)
      | ResourceId u \<Rightarrow> (Some u, label)
      | ResourceText t \<Rightarrow>
          (case parse_uuid t of
             Some u \<Rightarrow> (Some u, label)
           | None \<Rightarrow> (None, if text_or_empty label \<noteq> [] then label else Some t)))"

definition redacted :: "dict \<Rightarrow> json option" where
  "redacted d = (if d = [] then None else Some (redact 0 (JObj d)))"

definition audit_record :: "env \<Rightarrow> request_context \<Rightarrow> audit_entry \<Rightarrow> db \<Rightarrow> db" where
  "audit_record env ctx a d =
     (let (rid, label) = resolve_resource (aa_resource a) (aa_label a) in
      d\<lparr>db_audit := db_audit d @
        [\<lparr>au_workspace_id = ctx_workspace_id ctx,
          au_actor_type = (case aa_actor a of Some t \<Rightarrow> t
             | None \<Rightarrow> if ctx_user_id ctx \<noteq> None then AT_USER else AT_SYSTEM),
          au_actor_id = ctx_user_id ctx,
          au_actor_label = (if text_or_empty (ctx_email ctx) \<noteq> [] then ctx_email ctx else ctx_full_name ctx),
          au_action = aa_action a, au_resource_type = aa_type a, au_resource_id = rid,
          au_resource_label = nonempty (take 255 (text_or_empty label)),
          au_result = aa_result a,
          au_before = redacted (aa_before a), au_after = redacted (aa_after a),
          au_trace_id = ctx_trace_id ctx, au_ip_address = ctx_ip_address ctx,
          au_user_agent = nonempty (take 255 (text_or_empty (ctx_user_agent ctx))),
          au_created_at = env_now env\<rparr>]\<rparr>)"

section \<open>Raising an alert\<close>

definition DEFAULT_COOLDOWN_SECONDS :: int where "DEFAULT_COOLDOWN_SECONDS = 900"

definition ALWAYS_ON :: "alert_event_type list" where
  "ALWAYS_ON = [AE_EXECUTION_FAILED, AE_CREDENTIAL_INVALID]"

text \<open>The parts are already \<open>str()\<close> of what the caller passes; \<^const>\<open>None\<close> parts are dropped.\<close>

definition fingerprint :: "env \<Rightarrow> string option list \<Rightarrow> string" where
  "fingerprint env parts = take 32 (env_sha256 env (join ''|'' (List.map_filter id parts)))"

definition dedup_key_of :: "env \<Rightarrow> uuid \<Rightarrow> uuid option \<Rightarrow> alert_event_type \<Rightarrow> string list \<Rightarrow> string" where
  "dedup_key_of env wid workflow_id ev parts =
     fingerprint env (Some (show_uuid wid) # map_option show_uuid workflow_id
       # Some (alert_event_type_value ev) # map Some parts)"

text \<open>Rules for a workflow sort before the workspace-wide ones (\<open>workflow_id IS NULL\<close>).\<close>

definition rule_for :: "db \<Rightarrow> uuid \<Rightarrow> alert_event_type \<Rightarrow> alert_rule option" where
  "rule_for d wid ev =
     (case sort_key (\<lambda>r. ru_workflow_id r = None)
             (filter (\<lambda>r. ru_workspace_id r = wid \<and> ru_event_type r = ev \<and> ru_enabled r) (db_rules d)) of
        [] \<Rightarrow> None
      | r # _ \<Rightarrow> Some r)"

definition recent_alert :: "db \<Rightarrow> uuid \<Rightarrow> string \<Rightarrow> int \<Rightarrow> notification option" where
  "recent_alert d wid key since =
     find (\<lambda>n. no_workspace_id n = wid \<and> no_dedup_key n = key \<and> no_created_at n \<ge> since) (db_notifications d)"

record alert_args =
  al_event :: alert_event_type
  al_workflow_id :: "uuid option"
  al_execution_id :: "uuid option"
  al_severity :: string
  al_remediation :: "dict option"
  al_parts :: "string list"

definition raise_alert :: "env \<Rightarrow> uuid \<Rightarrow> alert_args \<Rightarrow> db \<Rightarrow> notification option \<times> db" where
  "raise_alert env wid a d =
     (let rule = rule_for d wid (al_event a) in
      if rule = None \<and> al_event a \<notin> set ALWAYS_ON then (None, d)
      else if (case rule of Some r \<Rightarrow> ru_workflow_id r \<noteq> None \<and> ru_workflow_id r \<noteq> al_workflow_id a | None \<Rightarrow> False)
      then (None, d)
      else
        (let cooldown = (case rule of Some r \<Rightarrow> ru_cooldown_seconds r | None \<Rightarrow> DEFAULT_COOLDOWN_SECONDS);
             key = dedup_key_of env wid (al_workflow_id a) (al_event a) (al_parts a)
         in if recent_alert d wid key (env_now env - seconds cooldown) \<noteq> None then (None, d)
            else
              (let n = \<lparr>no_id = fresh_id env d, no_workspace_id = wid, no_event_type = al_event a,
                        no_severity = al_severity a, no_workflow_id = al_workflow_id a,
                        no_execution_id = al_execution_id a, no_dedup_key = key, no_status = NT_UNREAD,
                        no_remediation = al_remediation a, no_created_at = env_now env, no_read_at = None\<rparr>
               in (Some n, (bump d)\<lparr>db_notifications := db_notifications d @ [n]\<rparr>))))"

section \<open>Evaluating a finished run\<close>

fun streak_of :: "execution list \<Rightarrow> int" where
  "streak_of [] = 0"
| "streak_of (e # es) =
     (if \<not> is_terminal (ex_status e) then streak_of es
      else if ex_status e = EX_SUCCEEDED \<or> ex_status e = EX_CANCELLED then 0
      else 1 + streak_of es)"

definition failure_streak :: "db \<Rightarrow> uuid \<Rightarrow> uuid \<Rightarrow> int" where
  "failure_streak d wid wfid =
     streak_of (take 20 (order_desc ex_queued_at
       (filter (\<lambda>e. ex_workspace_id e = wid \<and> ex_workflow_id e = wfid) (db_executions d))))"

definition consecutive_rule :: "db \<Rightarrow> uuid \<Rightarrow> alert_rule option" where
  "consecutive_rule d wid =
     find (\<lambda>r. ru_workspace_id r = wid \<and> ru_event_type r = AE_CONSECUTIVE_FAILURES \<and> ru_enabled r) (db_rules d)"

definition AUTH_FAILURES :: "string option list" where
  "AUTH_FAILURES = [Some ''NODE_AUTHENTICATION_FAILED'', Some ''CREDENTIAL_INVALID'']"

definition failed_alert :: "execution \<Rightarrow> alert_args" where
  "failed_alert e = \<lparr>al_event = AE_EXECUTION_FAILED, al_workflow_id = Some (ex_workflow_id e),
     al_execution_id = Some (ex_id e), al_severity = ''ERROR'',
     al_remediation = Some [(''action'', JStr ''VIEW_EXECUTION''), (''resource_id'', JStr (show_uuid (ex_id e)))],
     al_parts = [if text_or_empty (ex_error_code e) \<noteq> [] then text_or_empty (ex_error_code e) else ''UNKNOWN'']\<rparr>"

definition streak_alert :: "execution \<Rightarrow> int \<Rightarrow> int \<Rightarrow> alert_args" where
  "streak_alert e streak threshold = \<lparr>al_event = AE_CONSECUTIVE_FAILURES,
     al_workflow_id = Some (ex_workflow_id e), al_execution_id = Some (ex_id e), al_severity = ''CRITICAL'',
     al_remediation = Some [(''action'', JStr ''OPEN_WORKFLOW''), (''resource_id'', JStr (show_uuid (ex_workflow_id e)))],
     al_parts = [show_int (streak div max threshold 1)]\<rparr>"

definition credential_alert :: "execution \<Rightarrow> alert_args" where
  "credential_alert e = \<lparr>al_event = AE_CREDENTIAL_INVALID, al_workflow_id = Some (ex_workflow_id e),
     al_execution_id = Some (ex_id e), al_severity = ''ERROR'',
     al_remediation = Some [(''action'', JStr ''UPDATE_CREDENTIAL'')], al_parts = []\<rparr>"

definition evaluate_execution :: "env \<Rightarrow> execution \<Rightarrow> db \<Rightarrow> db" where
  "evaluate_execution env e d =
     (if ex_status e = EX_SUCCEEDED \<or> ex_status e = EX_CANCELLED then d
      else
        (let wid = ex_workspace_id e;
             d = snd (raise_alert env wid (failed_alert e) d);
             streak = failure_streak d wid (ex_workflow_id e);
             threshold = (case consecutive_rule d wid of Some r \<Rightarrow> ru_threshold r | None \<Rightarrow> 3);
             d = (if streak \<ge> threshold then snd (raise_alert env wid (streak_alert e streak threshold) d) else d)
         in if ex_error_code e \<in> set AUTH_FAILURES
            then snd (raise_alert env wid (credential_alert e) d) else d))"

section \<open>Rules\<close>

definition list_rules :: "request_context \<Rightarrow> db \<Rightarrow> service_error + alert_rule list" where
  "list_rules ctx d =
     (case ctx_require ctx M_ALERTS A_VIEW of
        Inl e \<Rightarrow> Inl e
      | Inr _ \<Rightarrow> Inr (sort_key (\<lambda>r. alert_event_type_value (ru_event_type r))
          (filter (\<lambda>r. ru_workspace_id r = ctx_workspace_id ctx) (db_rules d))))"

definition upsert_rule :: "env \<Rightarrow> request_context \<Rightarrow> string \<Rightarrow> uuid option \<Rightarrow> int \<Rightarrow> int \<Rightarrow> bool
    \<Rightarrow> db \<Rightarrow> (service_error + alert_rule) \<times> db" where
  "upsert_rule env ctx event_type workflow_id threshold cooldown enabled d =
     guarded (ctx_require ctx M_ALERTS A_CREATE) d
       (case alert_event_type_of event_type of
          None \<Rightarrow> (Inl (App (raise_class ValidationError)), d)
        | Some kind \<Rightarrow>
            if cooldown < 60 then (Inl (App (raise_class ValidationError)), d)
            else
              (let same = (\<lambda>r. ru_workspace_id r = ctx_workspace_id ctx \<and> ru_event_type r = kind \<and> ru_workflow_id r = workflow_id)
               in case find same (db_rules d) of
                    Some r \<Rightarrow>
                      (let r' = r\<lparr>ru_threshold := max 1 threshold, ru_cooldown_seconds := cooldown, ru_enabled := enabled\<rparr>
                       in (Inr r', d\<lparr>db_rules := update_where (\<lambda>x. ru_id x = ru_id r) (\<lambda>_. r') (db_rules d)\<rparr>))
                  | None \<Rightarrow>
                      (let r' = \<lparr>ru_id = fresh_id env d, ru_workspace_id = ctx_workspace_id ctx, ru_event_type = kind,
                                 ru_workflow_id = workflow_id, ru_threshold = max 1 threshold,
                                 ru_cooldown_seconds = cooldown, ru_enabled = enabled\<rparr>
                       in (Inr r', (bump d)\<lparr>db_rules := db_rules d @ [r']\<rparr>))))"

definition delete_rule :: "request_context \<Rightarrow> uuid \<Rightarrow> db \<Rightarrow> (service_error + unit) \<times> db" where
  "delete_rule ctx rid d =
     guarded (ctx_require ctx M_ALERTS A_DELETE) d
       (case find (\<lambda>r. ru_id r = rid \<and> ru_workspace_id r = ctx_workspace_id ctx) (db_rules d) of
          None \<Rightarrow> (Inl (App (raise_class NotFoundError)), d)
        | Some r \<Rightarrow> (Inr (), d\<lparr>db_rules := delete_where (\<lambda>x. ru_id x = ru_id r) (db_rules d)\<rparr>))"

section \<open>Notifications\<close>

record 'a page =
  pg_items :: "'a list"
  pg_total :: nat
  pg_has_more :: bool

definition page_of :: "'a list \<Rightarrow> nat \<Rightarrow> nat \<Rightarrow> 'a page" where
  "page_of rows lim off =
     (let items = take lim (drop off rows)
      in \<lparr>pg_items = items, pg_total = length rows, pg_has_more = (off + length items < length rows)\<rparr>)"

definition list_notifications :: "request_context \<Rightarrow> string \<Rightarrow> nat \<Rightarrow> nat \<Rightarrow> db \<Rightarrow> service_error + notification page" where
  "list_notifications ctx status lim off d =
     (case ctx_require ctx M_ALERTS A_VIEW of
        Inl e \<Rightarrow> Inl e
      | Inr _ \<Rightarrow>
          (let mine = filter (\<lambda>n. no_workspace_id n = ctx_workspace_id ctx) (db_notifications d) in
           if status = [] then Inr (page_of (order_desc no_created_at mine) lim off)
           else
             (case notification_status_of (str_upper status) of
                None \<Rightarrow> Inl (Crash ValueErr)
              | Some s \<Rightarrow> Inr (page_of (order_desc no_created_at (filter (\<lambda>n. no_status n = s) mine)) lim off))))"

definition unread_in :: "request_context \<Rightarrow> notification \<Rightarrow> bool" where
  "unread_in ctx n = (no_workspace_id n = ctx_workspace_id ctx \<and> no_status n = NT_UNREAD)"

definition unread_count :: "request_context \<Rightarrow> db \<Rightarrow> service_error + nat" where
  "unread_count ctx d =
     (case ctx_require ctx M_ALERTS A_VIEW of
        Inl e \<Rightarrow> Inl e
      | Inr _ \<Rightarrow> Inr (count_where (unread_in ctx) (db_notifications d)))"

definition mark_read :: "env \<Rightarrow> notification \<Rightarrow> notification" where
  "mark_read env n = n\<lparr>no_status := NT_ACKNOWLEDGED, no_read_at := Some (env_now env)\<rparr>"

definition acknowledge :: "env \<Rightarrow> request_context \<Rightarrow> uuid \<Rightarrow> db \<Rightarrow> (service_error + unit) \<times> db" where
  "acknowledge env ctx nid d =
     guarded (ctx_require ctx M_ALERTS A_EXECUTE) d
       (let mine = (\<lambda>n. no_id n = nid \<and> no_workspace_id n = ctx_workspace_id ctx) in
        case find mine (db_notifications d) of
          None \<Rightarrow> (Inl (App (raise_class NotFoundError)), d)
        | Some _ \<Rightarrow> (Inr (), d\<lparr>db_notifications := update_where mine (mark_read env) (db_notifications d)\<rparr>))"

definition acknowledge_all :: "env \<Rightarrow> request_context \<Rightarrow> db \<Rightarrow> (service_error + nat) \<times> db" where
  "acknowledge_all env ctx d =
     guarded (ctx_require ctx M_ALERTS A_EXECUTE) d
       (Inr (count_where (unread_in ctx) (db_notifications d)),
        d\<lparr>db_notifications := update_where (unread_in ctx) (mark_read env) (db_notifications d)\<rparr>)"

section \<open>Properties\<close>

lemma audit_record_frame [simp]:
  "db_executions (audit_record env ctx a d) = db_executions d"
  "db_workflows (audit_record env ctx a d) = db_workflows d"
  "db_drafts (audit_record env ctx a d) = db_drafts d"
  "db_versions (audit_record env ctx a d) = db_versions d"
  "db_triggers (audit_record env ctx a d) = db_triggers d"
  "db_credentials (audit_record env ctx a d) = db_credentials d"
  "db_secrets (audit_record env ctx a d) = db_secrets d"
  "db_notifications (audit_record env ctx a d) = db_notifications d"
  "db_node_results (audit_record env ctx a d) = db_node_results d"
  "db_logs (audit_record env ctx a d) = db_logs d"
  "db_rules (audit_record env ctx a d) = db_rules d"
  "db_users (audit_record env ctx a d) = db_users d"
  "db_workspaces (audit_record env ctx a d) = db_workspaces d"
  "db_memberships (audit_record env ctx a d) = db_memberships d"
  "db_organizations (audit_record env ctx a d) = db_organizations d"
  "db_org_memberships (audit_record env ctx a d) = db_org_memberships d"
  "db_drawn (audit_record env ctx a d) = db_drawn d"
  by (simp_all add: audit_record_def Let_def split: prod.splits)

lemma bump_frame [simp]:
  "db_executions (bump d) = db_executions d" "db_workflows (bump d) = db_workflows d"
  "db_drafts (bump d) = db_drafts d" "db_versions (bump d) = db_versions d"
  "db_triggers (bump d) = db_triggers d" "db_credentials (bump d) = db_credentials d"
  "db_secrets (bump d) = db_secrets d" "db_notifications (bump d) = db_notifications d"
  "db_node_results (bump d) = db_node_results d" "db_logs (bump d) = db_logs d"
  "db_rules (bump d) = db_rules d" "db_audit (bump d) = db_audit d"
  "db_users (bump d) = db_users d" "db_workspaces (bump d) = db_workspaces d"
  "db_memberships (bump d) = db_memberships d" "db_organizations (bump d) = db_organizations d"
  "db_org_memberships (bump d) = db_org_memberships d" "db_drawn (bump d) = Suc (db_drawn d)"
  by (simp_all add: bump_def)

lemma raise_alert_frame [simp]:
  "db_executions (snd (raise_alert env wid a d)) = db_executions d"
  "db_workflows (snd (raise_alert env wid a d)) = db_workflows d"
  "db_drafts (snd (raise_alert env wid a d)) = db_drafts d"
  "db_versions (snd (raise_alert env wid a d)) = db_versions d"
  "db_triggers (snd (raise_alert env wid a d)) = db_triggers d"
  "db_credentials (snd (raise_alert env wid a d)) = db_credentials d"
  "db_secrets (snd (raise_alert env wid a d)) = db_secrets d"
  "db_node_results (snd (raise_alert env wid a d)) = db_node_results d"
  "db_logs (snd (raise_alert env wid a d)) = db_logs d"
  "db_rules (snd (raise_alert env wid a d)) = db_rules d"
  "db_audit (snd (raise_alert env wid a d)) = db_audit d"
  "db_workspaces (snd (raise_alert env wid a d)) = db_workspaces d"
  by (simp_all add: raise_alert_def Let_def)

lemma evaluate_execution_frame [simp]:
  "db_executions (evaluate_execution env e d) = db_executions d"
  "db_workflows (evaluate_execution env e d) = db_workflows d"
  "db_drafts (evaluate_execution env e d) = db_drafts d"
  "db_versions (evaluate_execution env e d) = db_versions d"
  "db_triggers (evaluate_execution env e d) = db_triggers d"
  "db_credentials (evaluate_execution env e d) = db_credentials d"
  "db_secrets (evaluate_execution env e d) = db_secrets d"
  "db_node_results (evaluate_execution env e d) = db_node_results d"
  "db_logs (evaluate_execution env e d) = db_logs d"
  "db_rules (evaluate_execution env e d) = db_rules d"
  "db_audit (evaluate_execution env e d) = db_audit d"
  "db_workspaces (evaluate_execution env e d) = db_workspaces d"
  by (simp_all add: evaluate_execution_def Let_def)


text \<open>
  A raised alert silences its repetitions. After \<open>raise_alert\<close> created a notification, the same
  alert raised again at any moment of the cooldown that governs it creates nothing and changes
  nothing.
\<close>

lemma alert_cooldown:
  assumes "raise_alert env wid a d = (Some n, d')"
    and "env_sha256 env' = env_sha256 env"
    and "env_now env' \<le> env_now env +
      seconds (case rule_for d wid (al_event a) of Some r \<Rightarrow> ru_cooldown_seconds r | None \<Rightarrow> DEFAULT_COOLDOWN_SECONDS)"
  shows "raise_alert env' wid a d' = (None, d')"
proof -
  let ?key = "dedup_key_of env wid (al_workflow_id a) (al_event a) (al_parts a)"
  have key: "dedup_key_of env' wid (al_workflow_id a) (al_event a) (al_parts a) = ?key"
    by (simp add: dedup_key_of_def fingerprint_def assms(2))
  have n: "n \<in> set (db_notifications d')" "no_workspace_id n = wid" "no_dedup_key n = ?key"
      "no_created_at n = env_now env" and rules: "db_rules d' = db_rules d"
    using assms(1) by (auto simp: raise_alert_def Let_def split: if_splits)
  have rule: "rule_for d' wid (al_event a) = rule_for d wid (al_event a)"
    by (simp add: rule_for_def rules)
  have "recent_alert d' wid ?key (env_now env' - seconds
      (case rule_for d wid (al_event a) of Some r \<Rightarrow> ru_cooldown_seconds r | None \<Rightarrow> DEFAULT_COOLDOWN_SECONDS)) \<noteq> None"
    using n assms(3) by (auto simp: recent_alert_def find_None_iff)
  then show ?thesis by (simp add: raise_alert_def key rule Let_def)
qed

definition demo_env :: env where
  "demo_env = \<lparr>env_now = 0, env_id = (\<lambda>n. replicate 31 (CHR ''0'') @ [hex_digit (n mod 16)]),
     env_token = (\<lambda>_. ''tok''), env_settings = default_settings, env_registry = (\<lambda>_. None),
     env_calendar = utc_plus_7, env_sha256 = id, env_hmac = (\<lambda>k m. k @ m), env_b64decode = Some,
     env_parse_time = (\<lambda>_. None), env_kek = ''k'', env_key = ''dk'',
     env_encrypt = (\<lambda>_ _. []), env_decrypt = (\<lambda>_ _. None)\<rparr>"

definition demo_alert :: alert_args where
  "demo_alert = \<lparr>al_event = AE_EXECUTION_FAILED, al_workflow_id = None, al_execution_id = None,
     al_severity = ''ERROR'', al_remediation = None, al_parts = []\<rparr>"

lemma demo_alert_raised: "\<exists>n d'. raise_alert demo_env [] demo_alert empty_db = (Some n, d')"
  by (simp add: raise_alert_def Let_def rule_for_def empty_db_def ALWAYS_ON_def demo_alert_def recent_alert_def)

lemma alert_cooldown_example:
  "\<exists>d'. raise_alert (demo_env\<lparr>env_now := seconds 900\<rparr>) [] demo_alert d' = (None, d') \<and> db_notifications d' \<noteq> []"
proof -
  obtain n d' where r: "raise_alert demo_env [] demo_alert empty_db = (Some n, d')"
    using demo_alert_raised by blast
  have "raise_alert (demo_env\<lparr>env_now := seconds 900\<rparr>) [] demo_alert d' = (None, d')"
    by (rule alert_cooldown [OF r])
      (simp_all add: demo_env_def rule_for_def empty_db_def DEFAULT_COOLDOWN_SECONDS_def)
  moreover have "db_notifications d' \<noteq> []"
    using r by (auto simp: raise_alert_def Let_def split: if_splits)
  ultimately show ?thesis by blast
qed

text \<open>
  a rule for one workflow silences the others. When an enabled rule for an event names
  workflow \<open>w1\<close>, and every enabled rule of the workspace for the event names \<open>w1\<close> or no workflow
  at all, an alert about another workflow is dropped, even for the event types that the product
  raises without any rule and even when a workspace-wide rule is there.
\<close>

lemma workflow_rule_silences_others:
  assumes "r \<in> set (db_rules d)" "ru_workspace_id r = wid" "ru_event_type r = al_event a" "ru_enabled r"
    and "ru_workflow_id r = Some w1"
    and "\<And>x. x \<in> set (db_rules d) \<Longrightarrow> ru_workspace_id x = wid \<Longrightarrow> ru_event_type x = al_event a \<Longrightarrow> ru_enabled x \<Longrightarrow>
      ru_workflow_id x = Some w1 \<or> ru_workflow_id x = None"
    and "al_workflow_id a \<noteq> Some w1"
  shows "raise_alert env wid a d = (None, d)"
proof -
  let ?rows = "filter (\<lambda>r. ru_workspace_id r = wid \<and> ru_event_type r = al_event a \<and> ru_enabled r) (db_rules d)"
  let ?sorted = "sort_key (\<lambda>r. ru_workflow_id r = None) ?rows"
  have mem: "set ?sorted = set ?rows" by simp
  have "r \<in> set ?sorted" unfolding mem using assms(1-4) by simp
  then obtain x xs where x: "?sorted = x # xs" by (cases ?sorted) auto
  have "sorted (map (\<lambda>r. ru_workflow_id r = None) ?sorted)" by (rule sorted_sort_key)
  then have "\<forall>y \<in> set xs. (ru_workflow_id x = None) \<le> (ru_workflow_id y = None)" by (simp add: x)
  then have "ru_workflow_id x \<noteq> None"
    using \<open>r \<in> set ?sorted\<close> assms(5) by (auto simp: x)
  moreover have "x \<in> set ?rows" unfolding mem [symmetric] by (simp add: x)
  ultimately have "ru_workflow_id x = Some w1" using assms(6) [of x] by auto
  then show ?thesis using assms(7) x by (simp add: raise_alert_def rule_for_def Let_def)
qed

definition silencing_rules :: "alert_rule list" where
  "silencing_rules =
     [\<lparr>ru_id = ''r0'', ru_workspace_id = [], ru_event_type = AE_EXECUTION_FAILED, ru_workflow_id = None,
       ru_threshold = 1, ru_cooldown_seconds = 60, ru_enabled = True\<rparr>,
      \<lparr>ru_id = ''r1'', ru_workspace_id = [], ru_event_type = AE_EXECUTION_FAILED, ru_workflow_id = Some ''w1'',
       ru_threshold = 1, ru_cooldown_seconds = 60, ru_enabled = True\<rparr>]"

lemma workflow_rule_silences_others_example:
  "raise_alert demo_env [] (demo_alert\<lparr>al_workflow_id := Some ''w2''\<rparr>) (empty_db\<lparr>db_rules := silencing_rules\<rparr>)
     = (None, empty_db\<lparr>db_rules := silencing_rules\<rparr>)"
  by (rule workflow_rule_silences_others [of "silencing_rules ! 1" _ _ _ "''w1''"])
    (auto simp: silencing_rules_def demo_alert_def)

lemma streak_of_le_length: "streak_of es \<le> int (length es)"
  by (induction es) auto

lemma failure_streak_le: "failure_streak d wid wfid \<le> 20"
  unfolding failure_streak_def by (rule order_trans [OF streak_of_le_length]) simp

lemma raise_alert_other_event:
  "al_event a \<noteq> ev \<Longrightarrow>
     filter (\<lambda>n. no_event_type n = ev) (db_notifications (snd (raise_alert env wid a d))) =
     filter (\<lambda>n. no_event_type n = ev) (db_notifications d)"
  by (simp add: raise_alert_def Let_def)

text \<open>
  A consecutive-failures threshold above twenty never fires: the streak only looks at the
  twenty latest runs, so evaluating a run adds no such notification, however many runs in a row
  have failed.
\<close>

lemma threshold_above_twenty_never_fires:
  assumes "consecutive_rule d (ex_workspace_id e) = Some r" "ru_threshold r > 20"
  shows "filter (\<lambda>n. no_event_type n = AE_CONSECUTIVE_FAILURES) (db_notifications (evaluate_execution env e d)) =
    filter (\<lambda>n. no_event_type n = AE_CONSECUTIVE_FAILURES) (db_notifications d)"
proof -
  have "consecutive_rule (snd (raise_alert env (ex_workspace_id e) (failed_alert e) d)) (ex_workspace_id e) = Some r"
    using assms(1) by (simp add: consecutive_rule_def)
  moreover have "\<not> failure_streak d' wid wf \<ge> ru_threshold r" for d' wid wf
    using failure_streak_le [of d' wid wf] assms(2) by simp
  ultimately show ?thesis
    by (simp add: evaluate_execution_def raise_alert_other_event failed_alert_def credential_alert_def Let_def)
qed

definition demo_execution :: execution where
  "demo_execution = \<lparr>ex_id = ''e'', ex_short_id = ''AAAAAA'', ex_workspace_id = ''w'', ex_workflow_id = ''f'',
     ex_version_kind = VK_DRAFT, ex_version_id = None, ex_version_number = None, ex_draft_revision = Some 1,
     ex_graph = [], ex_graph_hash = [], ex_trigger_type = TT_MANUAL, ex_triggered_by = None,
     ex_retry_of = None, ex_idempotency_key = None, ex_status = EX_FAILED, ex_error_category = None,
     ex_error_code = None, ex_failed_node_name = None, ex_queued_at = 0, ex_started_at = None,
     ex_ended_at = Some 0, ex_duration_ms = None, ex_last_seen_at = None, ex_input_metadata = [],
     ex_start_payload = None, ex_start_payload_sealed = None, ex_output_summary = [],
     ex_technical_metadata = [], ex_engine_ref = None, ex_trace_id = []\<rparr>"

definition high_threshold_rule :: alert_rule where
  "high_threshold_rule = \<lparr>ru_id = ''r'', ru_workspace_id = ''w'', ru_event_type = AE_CONSECUTIVE_FAILURES,
     ru_workflow_id = None, ru_threshold = 25, ru_cooldown_seconds = 60, ru_enabled = True\<rparr>"

lemma threshold_above_twenty_never_fires_example:
  "filter (\<lambda>n. no_event_type n = AE_CONSECUTIVE_FAILURES)
     (db_notifications (evaluate_execution demo_env demo_execution
       (empty_db\<lparr>db_rules := [high_threshold_rule], db_executions := replicate 30 demo_execution\<rparr>))) = []"
proof -
  have "consecutive_rule (empty_db\<lparr>db_rules := [high_threshold_rule], db_executions := replicate 30 demo_execution\<rparr>)
      (ex_workspace_id demo_execution) = Some high_threshold_rule"
    by (simp add: consecutive_rule_def high_threshold_rule_def demo_execution_def)
  from threshold_above_twenty_never_fires [OF this, of demo_env] show ?thesis
    by (simp add: high_threshold_rule_def empty_db_def)
qed

text \<open>
  nobody has to configure anything to hear of a failed run: in a workspace without rules for
  failed executions, evaluating a run that ended in failure leaves a notification about that
  workflow raised within the last fifteen minutes.
\<close>

lemma failed_run_is_announced:
  assumes "ex_status e \<noteq> EX_SUCCEEDED" "ex_status e \<noteq> EX_CANCELLED"
    and "rule_for d (ex_workspace_id e) AE_EXECUTION_FAILED = None"
  shows "\<exists>n \<in> set (db_notifications (evaluate_execution env e d)).
    no_workspace_id n = ex_workspace_id e \<and>
    no_dedup_key n = dedup_key_of env (ex_workspace_id e) (Some (ex_workflow_id e)) AE_EXECUTION_FAILED (al_parts (failed_alert e)) \<and>
    no_created_at n \<ge> env_now env - seconds 900"
proof -
  define key where "key = dedup_key_of env (ex_workspace_id e) (Some (ex_workflow_id e)) AE_EXECUTION_FAILED (al_parts (failed_alert e))"
  let ?P = "\<lambda>n. no_workspace_id n = ex_workspace_id e \<and> no_dedup_key n = key \<and> no_created_at n \<ge> env_now env - seconds 900"
  have mono: "set (db_notifications d0) \<subseteq> set (db_notifications (snd (raise_alert env w a d0)))" for w a d0
    by (auto simp: raise_alert_def Let_def)
  let ?d1 = "snd (raise_alert env (ex_workspace_id e) (failed_alert e) d)"
  have "\<exists>n \<in> set (db_notifications ?d1). ?P n"
  proof (cases "recent_alert d (ex_workspace_id e) key (env_now env - seconds DEFAULT_COOLDOWN_SECONDS)")
    case None
    then show ?thesis
      using assms(3) by (simp add: raise_alert_def failed_alert_def ALWAYS_ON_def Let_def key_def seconds_def)
  next
    case (Some n)
    then have "n \<in> set (db_notifications d)" "?P n"
      by (auto simp: recent_alert_def DEFAULT_COOLDOWN_SECONDS_def dest: find_SomeD)
    then show ?thesis using mono by blast
  qed
  moreover have "set (db_notifications ?d1) \<subseteq> set (db_notifications (evaluate_execution env e d))"
    using assms(1,2) mono unfolding evaluate_execution_def Let_def by (auto split: if_splits) blast+
  ultimately show ?thesis unfolding key_def by blast
qed

lemma failed_run_is_announced_example:
  "\<exists>n \<in> set (db_notifications (evaluate_execution demo_env demo_execution empty_db)). no_workspace_id n = ''w''"
proof -
  have "\<exists>n \<in> set (db_notifications (evaluate_execution demo_env demo_execution empty_db)).
    no_workspace_id n = ex_workspace_id demo_execution"
    using failed_run_is_announced [of demo_execution empty_db demo_env]
    by (auto simp: demo_execution_def rule_for_def empty_db_def)
  then show ?thesis by (simp add: demo_execution_def)
qed

end
