(* ===== verification/RateLimit.thy ===== *)
theory RateLimit
  imports Store
begin

text \<open>
  The rate limiter, \<open>app/core/rate_limit.py\<close>: one row per bucket, counting within a fixed window.
  The statement \<open>_HIT\<close> is one upsert; \<open>check\<close> runs it in a transaction of its own and lets the request
  through when the database does not answer; \<open>prune\<close> drops rows that nobody touched for an hour.
\<close>

section \<open>The limiter\<close>

definition window_start :: "int \<Rightarrow> int \<Rightarrow> int" where
  "window_start window_seconds moment = moment div window_seconds * window_seconds"

text \<open>\<open>time.time()\<close> in whole seconds: flooring commutes with the floor division by the window.\<close>

definition clock_seconds :: "env \<Rightarrow> int" where
  "clock_seconds env = env_now env div 1000000"

definition bucket_of :: "db \<Rightarrow> string \<Rightarrow> rate_limit_bucket option" where
  "bucket_of d k = find (\<lambda>b. rl_key b = k) (db_buckets d)"

text \<open>\<open>INSERT ... ON CONFLICT (bucket_key) DO UPDATE ... RETURNING hits\<close>.\<close>

definition upsert_hit :: "string \<Rightarrow> int \<Rightarrow> int \<Rightarrow> db \<Rightarrow> int \<times> db" where
  "upsert_hit k w now d =
     (case bucket_of d k of
        None \<Rightarrow> (1, d\<lparr>db_buckets := db_buckets d @
          [\<lparr>rl_key = k, rl_window_start = w, rl_hits = 1, rl_updated_at = now\<rparr>]\<rparr>)
      | Some b \<Rightarrow>
          (let hits = (if rl_window_start b = w then rl_hits b + 1 else 1) in
           (hits, d\<lparr>db_buckets := update_where (\<lambda>r. rl_key r = k)
              (\<lambda>r. r\<lparr>rl_hits := hits, rl_window_start := w, rl_updated_at := now\<rparr>) (db_buckets d)\<rparr>)))"

definition rate_hit :: "env \<Rightarrow> string \<Rightarrow> int \<Rightarrow> int \<Rightarrow> db \<Rightarrow> (bool \<times> int) \<times> db" where
  "rate_hit env bucket_key lim window_seconds d =
     (let (hits, d') = upsert_hit (take 200 bucket_key) (window_start window_seconds (clock_seconds env)) (env_now env) d
      in ((hits \<le> lim, hits), d'))"

text \<open>\<open>answers\<close> says whether the limiter's own session got through to the database.\<close>

definition rate_check :: "env \<Rightarrow> bool \<Rightarrow> string \<Rightarrow> int \<Rightarrow> int \<Rightarrow> db \<Rightarrow> (bool \<times> int) \<times> db" where
  "rate_check env answers bucket_key lim window_seconds d =
     (if answers then rate_hit env bucket_key lim window_seconds d else ((True, 0), d))"

definition rate_prune :: "env \<Rightarrow> int \<Rightarrow> db \<Rightarrow> nat \<times> db" where
  "rate_prune env age d =
     (let old = (\<lambda>b. rl_updated_at b < env_now env - seconds age) in
      (count_where old (db_buckets d), d\<lparr>db_buckets := delete_where old (db_buckets d)\<rparr>))"

section \<open>A fixed-window counter\<close>

text \<open>
  The contract: a store counts the touches of a key within a window; a touch says how many there are
  now and leaves other keys alone. From it the answers to a batch of requests within one window follow.
\<close>

locale fixed_window =
  fixes touch :: "'k \<Rightarrow> 'i \<Rightarrow> 's \<Rightarrow> int \<times> 's"
    and touches :: "'s \<Rightarrow> 'k \<Rightarrow> int"
    and good :: "'i \<Rightarrow> bool"
  assumes touch_counts: "good i \<Longrightarrow> fst (touch k i s) = touches s k + 1"
    and touch_self: "good i \<Longrightarrow> touches (snd (touch k i s)) k = touches s k + 1"
    and touch_other: "good i \<Longrightarrow> k' \<noteq> k \<Longrightarrow> touches (snd (touch k i s)) k' = touches s k'"
begin

fun serve :: "('i \<times> 'k) list \<Rightarrow> 's \<Rightarrow> ('k \<times> int) list \<times> 's" where
  "serve [] s = ([], s)"
| "serve ((i, k) # reqs) s =
     (let (n, s') = touch k i s; (answers, t) = serve reqs s' in ((k, n) # answers, t))"

lemma serve_counts:
  assumes "list_all (good \<circ> fst) reqs"
  shows "map snd (filter (\<lambda>a. fst a = k) (fst (serve reqs s))) =
    map (\<lambda>j. touches s k + int j + 1) [0..<count_where (\<lambda>r. snd r = k) reqs]"
  using assms
proof (induction reqs s rule: serve.induct)
  case (2 i q reqs s)
  obtain n s' where t: "touch q i s = (n, s')" by fastforce
  obtain as u where r: "serve reqs s' = (as, u)" by fastforce
  have g: "good i" "list_all (good \<circ> fst) reqs" using 2(2) by (auto simp: comp_def)
  have IH: "map snd (filter (\<lambda>a. fst a = k) as) =
      map (\<lambda>j. touches s' k + int j + 1) [0..<count_where (\<lambda>r. snd r = k) reqs]"
    using 2(1) [OF t [symmetric] refl g(2)] by (simp add: r)
  show ?case
  proof (cases "q = k")
    case True
    have "n = touches s k + 1" "touches s' k = touches s k + 1"
      using touch_counts [OF g(1), of q s] touch_self [OF g(1), of q s] True t by simp_all
    then show ?thesis
      using IH by (simp add: t [unfolded True] r True upt_conv_Cons map_Suc_upt [symmetric] add_ac comp_def del: upt_Suc)
  next
    case False
    then have "touches s' k = touches s k" using touch_other [OF g(1), of k q s] t by simp
    then show ?thesis using IH False by (simp add: t r)
  qed
qed simp

end

text \<open>The bucket table as such a store: the touches of a key are the hits of its row when the row belongs
  to the window.\<close>

definition hits_in :: "int \<Rightarrow> db \<Rightarrow> string \<Rightarrow> int" where
  "hits_in w d k = (case bucket_of d k of Some b \<Rightarrow> if rl_window_start b = w then rl_hits b else 0 | None \<Rightarrow> 0)"

lemma bucket_of_upsert:
  "bucket_of (snd (upsert_hit k w now d)) k' =
    (if k' = k then Some \<lparr>rl_key = k, rl_window_start = w, rl_hits = hits_in w d k + 1, rl_updated_at = now\<rparr>
     else bucket_of d k')"
proof (cases "bucket_of d k")
  case None
  then show ?thesis by (simp add: upsert_hit_def bucket_of_def hits_in_def find_append split: option.split)
next
  case (Some b)
  then have key: "rl_key b = k" by (auto simp: bucket_of_def dest: find_SomeD)
  let ?f = "\<lambda>r. r\<lparr>rl_hits := hits_in w d k + 1, rl_window_start := w, rl_updated_at := now\<rparr>"
  have "snd (upsert_hit k w now d) = d\<lparr>db_buckets := update_where (\<lambda>r. rl_key r = k) ?f (db_buckets d)\<rparr>"
    using Some by (simp add: upsert_hit_def hits_in_def Let_def)
  moreover have "find (\<lambda>r. rl_key r = k') (update_where (\<lambda>r. rl_key r = k) ?f (db_buckets d)) =
      map_option (\<lambda>r. if rl_key r = k then ?f r else r) (find (\<lambda>r. rl_key r = k') (db_buckets d))"
    by (rule find_update_where) simp
  ultimately show ?thesis
    using Some key
    by (cases "find (\<lambda>r. rl_key r = k') (db_buckets d)") (auto simp: bucket_of_def dest: find_SomeD)
qed

lemma upsert_counts: "fst (upsert_hit k w now d) = hits_in w d k + 1"
  by (simp add: upsert_hit_def hits_in_def Let_def split: option.split)

lemma upsert_hits: "hits_in w (snd (upsert_hit k w now d)) k' = hits_in w d k' + (if k' = k then 1 else 0)"
  by (simp add: hits_in_def [of _ "snd _"] bucket_of_upsert) (simp add: hits_in_def)

definition hit_once :: "int \<Rightarrow> string \<Rightarrow> env \<Rightarrow> db \<Rightarrow> int \<times> db" where
  "hit_once window_seconds k env d = upsert_hit k (window_start window_seconds (clock_seconds env)) (env_now env) d"

interpretation limiter: fixed_window "hit_once window_seconds" "hits_in w"
  "\<lambda>env. window_start window_seconds (clock_seconds env) = w" for window_seconds w
  by unfold_locales (simp_all add: hit_once_def upsert_counts upsert_hits)

section \<open>Properties\<close>

text \<open>A batch of requests, each with its moment and its bucket, in the order in which their statements
  reach the database.\<close>

fun serve_hits :: "int \<Rightarrow> int \<Rightarrow> (env \<times> string) list \<Rightarrow> db \<Rightarrow> (string \<times> bool) list \<times> db" where
  "serve_hits lim window_seconds [] d = ([], d)"
| "serve_hits lim window_seconds ((env, key) # reqs) d =
     (let ((ok, n), d1) = rate_hit env key lim window_seconds d;
          (answers, d2) = serve_hits lim window_seconds reqs d1
      in ((take 200 key, ok) # answers, d2))"

lemma serve_hits_serve:
  "serve_hits lim window_seconds reqs d =
    map_prod (map (\<lambda>(k, n). (k, n \<le> lim))) id
      (fixed_window.serve (hit_once window_seconds) (map (\<lambda>(env, key). (env, take 200 key)) reqs) d)"
proof (induction reqs arbitrary: d)
  case (Cons r reqs)
  obtain env key where r: "r = (env, key)" by (cases r)
  obtain n d1 where h: "hit_once window_seconds (take 200 key) env d = (n, d1)" by fastforce
  then have "rate_hit env key lim window_seconds d = ((n \<le> lim, n), d1)" by (simp add: rate_hit_def hit_once_def)
  then show ?case using Cons h by (simp add: r limiter.serve.simps split: prod.split)
qed (simp add: limiter.serve.simps)

text \<open>
  C20: within one window a bucket lets exactly the configured number of requests through. Whatever requests
  reach the database during a window, on this and other keys and from whatever replica, the answers for
  a key are: allowed as long as the count of its hits in this window, those before included, does not
  exceed the limit, and refused from then on. Keys count as equal when they agree in the first 200
  characters.
\<close>

theorem window_admits_exactly_limit:
  assumes "list_all (\<lambda>(env, key). window_start window_seconds (clock_seconds env) = w) reqs"
  shows "map snd (filter (\<lambda>a. fst a = k) (fst (serve_hits lim window_seconds reqs d))) =
    map (\<lambda>j. hits_in w d k + int j + 1 \<le> lim) [0..<count_where (\<lambda>(env, key). take 200 key = k) reqs]"
proof -
  let ?reqs = "map (\<lambda>(env, key). (env, take 200 key)) reqs"
  have good: "list_all ((\<lambda>env. window_start window_seconds (clock_seconds env) = w) \<circ> fst) ?reqs"
    using assms by (auto simp: list_all_iff)
  have "count_where (\<lambda>r. snd r = k) ?reqs = count_where (\<lambda>(env, key). take 200 key = k) reqs"
    by (induction reqs) auto
  moreover have "map snd (filter (\<lambda>a. fst a = k) (map (\<lambda>(k, n). (k, n \<le> lim)) xs)) =
      map (\<lambda>n. n \<le> lim) (map snd (filter (\<lambda>a. fst a = k) xs))" for xs :: "(string \<times> int) list"
    by (induction xs) auto
  ultimately show ?thesis
    using arg_cong [OF limiter.serve_counts [OF good, of k d], of "map (\<lambda>n. n \<le> lim)"]
    by (simp add: serve_hits_serve comp_def)
qed

definition at_second :: "int \<Rightarrow> env" where
  "at_second s = \<lparr>env_now = s * 1000000, env_id = (\<lambda>_. []), env_token = (\<lambda>_. []), env_settings = default_settings,
     env_registry = (\<lambda>_. None), env_calendar = utc_plus_7, env_sha256 = id, env_hmac = (\<lambda>_. id), env_b64decode = Some,
     env_parse_time = (\<lambda>_. None), env_kek = [], env_key = [], env_encrypt = (\<lambda>_ _. []), env_decrypt = (\<lambda>_ _. None)\<rparr>"

theorem window_admits_exactly_limit_witness:
  "map snd (filter (\<lambda>a. fst a = ''a'')
     (fst (serve_hits 2 60 [(at_second 61, ''a''), (at_second 119, ''b''), (at_second 90, ''a''), (at_second 60, ''a'')] empty_db))) =
   [True, True, False]"
proof -
  have w: "list_all (\<lambda>(env, key). window_start 60 (clock_seconds env) = 60)
      [(at_second 61, ''a''), (at_second 119, ''b''), (at_second 90, ''a''), (at_second 60, ''a'')]"
    by (simp add: window_start_def clock_seconds_def at_second_def)
  show ?thesis
    by (subst window_admits_exactly_limit [OF w]) (simp add: hits_in_def bucket_of_def empty_db_def upt_rec)
qed

text \<open>Pruning never resets a count of the current window: a row touched in it is younger than an hour.\<close>

lemma prune_keeps_current_window:
  assumes "bucket_of d k = Some b" "distinct (map rl_key (db_buckets d))" "rl_updated_at b \<ge> env_now env - seconds age"
  shows "bucket_of (snd (rate_prune env age d)) k = Some b"
proof -
  let ?old = "\<lambda>b. rl_updated_at b < env_now env - seconds age"
  have "find (\<lambda>b. rl_key b = k) (delete_where ?old rows) = Some b"
    if "find (\<lambda>b. rl_key b = k) rows = Some b" for rows
    using that assms(3) by (induction rows) (auto simp: delete_where_def split: if_splits)
  then show ?thesis using assms(1) by (simp add: rate_prune_def bucket_of_def Let_def)
qed

text \<open>When the database does not answer, everything is let through.\<close>

lemma limiter_fails_open: "fst (fst (rate_check env False key lim window_seconds d))"
  by (simp add: rate_check_def)

end
