(* ===== verification/Security.thy ===== *)
theory Security
  imports Alerts RateLimit
begin

text \<open>
  Passwords and session tokens, \<open>app/core/security.py\<close>. The hashing context (passlib) and the token
  codec (PyJWT) are a parameter of the model: \<open>cx_hash\<close> and \<open>cx_verify\<close> give \<^const>\<open>None\<close> where the
  library raises \<open>ValueError\<close>; \<open>cx_decode leeway now token\<close> gives the error text or the claims.
\<close>

record crypto =
  cx_hash :: "string \<Rightarrow> string option"
  cx_verify :: "string \<Rightarrow> string \<Rightarrow> bool option"
  cx_encode :: "dict \<Rightarrow> string"
  cx_decode :: "int \<Rightarrow> int \<Rightarrow> string \<Rightarrow> string + dict"

section \<open>Passwords\<close>

definition MIN_PASSWORD_LENGTH :: nat where "MIN_PASSWORD_LENGTH = 12"

datatype password_problem = PP_SHORT | PP_ONE_CASE | PP_NO_DIGIT | PP_BLANK

definition password_problems :: "string \<Rightarrow> password_problem list" where
  "password_problems raw =
     (if length raw < MIN_PASSWORD_LENGTH then [PP_SHORT] else []) @
     (if str_lower raw = raw \<or> str_upper raw = raw then [PP_ONE_CASE] else []) @
     (if \<not> list_ex is_digit raw then [PP_NO_DIGIT] else []) @
     (if str_strip raw = [] then [PP_BLANK] else [])"

definition hash_password :: "crypto \<Rightarrow> string \<Rightarrow> service_error + string" where
  "hash_password cx raw = (case cx_hash cx raw of None \<Rightarrow> Inl (Crash ValueErr) | Some h \<Rightarrow> Inr h)"

definition verify_password :: "crypto \<Rightarrow> string \<Rightarrow> string \<Rightarrow> bool" where
  "verify_password cx raw hashed = (case cx_verify cx raw hashed of None \<Rightarrow> False | Some b \<Rightarrow> b)"

text \<open>\<open>details={"problems": problems}\<close> holds the texts of the problems.\<close>

definition problem_json :: "password_problem \<Rightarrow> json" where
  "problem_json p = JStr (case p of PP_SHORT \<Rightarrow> ''short'' | PP_ONE_CASE \<Rightarrow> ''case'' | PP_NO_DIGIT \<Rightarrow> ''digit'' | PP_BLANK \<Rightarrow> ''blank'')"

definition password_too_weak :: "password_problem list \<Rightarrow> service_error" where
  "password_too_weak problems = App (AppError_init ValidationError (no_args\<lparr>arg_code := Some ''PASSWORD_TOO_WEAK'',
     arg_details := Some [(''problems'', JArr (map problem_json problems))]\<rparr>))"

section \<open>Session tokens\<close>

definition uuid_json :: "uuid option \<Rightarrow> json" where
  "uuid_json u = (case u of None \<Rightarrow> JNull | Some i \<Rightarrow> JStr (show_uuid i))"

definition session_claims :: "env \<Rightarrow> uuid \<Rightarrow> uuid option \<Rightarrow> int \<Rightarrow> db \<Rightarrow> dict" where
  "session_claims env user_id workspace_id session_version d =
     [(''sub'', JStr (show_uuid user_id)), (''ws'', uuid_json workspace_id), (''iat'', JInt (clock_seconds env)),
      (''exp'', JInt (clock_seconds env + cfg_session_ttl_seconds (env_settings env))),
      (''jti'', JStr (fresh_id env d)), (''sv'', JInt session_version)]"

definition issue_session_token :: "crypto \<Rightarrow> env \<Rightarrow> uuid \<Rightarrow> uuid option \<Rightarrow> int \<Rightarrow> db \<Rightarrow> string" where
  "issue_session_token cx env user_id workspace_id session_version d =
     cx_encode cx (session_claims env user_id workspace_id session_version d)"

definition CLOCK_SKEW_LEEWAY_SECONDS :: int where "CLOCK_SKEW_LEEWAY_SECONDS = 30"

definition decode_session_token :: "crypto \<Rightarrow> env \<Rightarrow> string \<Rightarrow> service_error + dict" where
  "decode_session_token cx env token =
     (case cx_decode cx CLOCK_SKEW_LEEWAY_SECONDS (clock_seconds env) token of
        Inl why \<Rightarrow> Inl (App (AppError_init UnauthorizedError (no_args\<lparr>arg_technical := Some why\<rparr>)))
      | Inr claims \<Rightarrow> Inr claims)"

text \<open>What the code relies on: a token of plain claims decodes to what was encoded, from \<open>leeway\<close> seconds
  before its issue up to \<open>leeway\<close> seconds after its expiry; and a password verifies against its own hash.\<close>

fun plain :: "json \<Rightarrow> bool" where
  "plain JNull = True" | "plain (JInt i) = True" | "plain (JStr s) = True" | "plain _ = False"

definition jwt_roundtrips :: "crypto \<Rightarrow> bool" where
  "jwt_roundtrips cx \<longleftrightarrow>
     (\<forall>leeway now claims iat exp. list_all (plain \<circ> snd) claims \<longrightarrow>
        dget claims ''iat'' = JInt iat \<longrightarrow> dget claims ''exp'' = JInt exp \<longrightarrow>
        iat \<le> now + leeway \<longrightarrow> now - leeway < exp \<longrightarrow> cx_decode cx leeway now (cx_encode cx claims) = Inr claims)"

definition hash_verifies :: "crypto \<Rightarrow> bool" where
  "hash_verifies cx \<longleftrightarrow> (\<forall>raw h. cx_hash cx raw = Some h \<longrightarrow> cx_verify cx raw h = Some True)"

lemma dget_claims [simp]:
  "dget (session_claims env u w v d) ''iat'' = JInt (clock_seconds env)"
  "dget (session_claims env u w v d) ''exp'' = JInt (clock_seconds env + cfg_session_ttl_seconds (env_settings env))"
  "dget (session_claims env u w v d) ''sv'' = JInt v"
  "map_of (session_claims env u w v d) ''sv'' = Some (JInt v)"
  "dget (session_claims env u w v d) ''sub'' = JStr (show_uuid u)"
  "map_of (session_claims env u w v d) ''sub'' = Some (JStr (show_uuid u))"
  "dget (session_claims env u w v d) ''ws'' = uuid_json w"
  by (simp_all add: session_claims_def)

lemma plain_claims: "list_all (plain \<circ> snd) (session_claims env u w v d)"
  by (cases w) (simp_all add: session_claims_def uuid_json_def)

lemma decode_issued:
  assumes "jwt_roundtrips cx" "clock_seconds env \<le> clock_seconds env' + CLOCK_SKEW_LEEWAY_SECONDS"
    and "clock_seconds env' < clock_seconds env + cfg_session_ttl_seconds (env_settings env) + CLOCK_SKEW_LEEWAY_SECONDS"
  shows "decode_session_token cx env' (issue_session_token cx env u w v d) = Inr (session_claims env u w v d)"
proof -
  have "cx_decode cx CLOCK_SKEW_LEEWAY_SECONDS (clock_seconds env') (cx_encode cx (session_claims env u w v d)) =
      Inr (session_claims env u w v d)"
    using assms(2,3) assms(1) [unfolded jwt_roundtrips_def, rule_format, of "session_claims env u w v d"] plain_claims by simp
  then show ?thesis by (simp add: decode_session_token_def issue_session_token_def)
qed

lemma strong_password_iff:
  "password_problems raw = [] \<longleftrightarrow>
    MIN_PASSWORD_LENGTH \<le> length raw \<and> str_lower raw \<noteq> raw \<and> str_upper raw \<noteq> raw \<and> (\<exists>c \<in> set raw. is_digit c) \<and>
    str_strip raw \<noteq> []"
  by (auto simp: password_problems_def list_ex_iff)

section \<open>A codec\<close>

text \<open>An instance of the token codec, to run the properties on: strings are written character by character
  up to a full stop, numbers in unary.\<close>

fun put_text :: "string \<Rightarrow> string" where
  "put_text [] = ''.''"
| "put_text (c # cs) = CHR ''c'' # c # put_text cs"

fun take_text :: "string \<Rightarrow> string \<times> string" where
  "take_text (c # d # r) = (if c = CHR ''c'' then map_prod (Cons d) id (take_text r) else ([], d # r))"
| "take_text (c # []) = ([], [])"
| "take_text [] = ([], [])"

lemma take_put_text [simp]: "take_text (put_text s @ r) = (s, r)"
  by (induction s) (cases r, simp_all)

fun put_plain :: "json \<Rightarrow> string" where
  "put_plain (JStr s) = ''S'' @ put_text s"
| "put_plain (JInt i) = (if i < 0 then ''-'' else ''+'') @ put_text (replicate (nat \<bar>i\<bar>) CHR ''u'')"
| "put_plain _ = ''N''"

fun take_plain :: "string \<Rightarrow> json \<times> string" where
  "take_plain [] = (JNull, [])"
| "take_plain (c # r) =
     (if c = CHR ''S'' then map_prod JStr id (take_text r)
      else if c = CHR ''+'' then map_prod (JInt \<circ> int \<circ> length) id (take_text r)
      else if c = CHR ''-'' then map_prod (JInt \<circ> uminus \<circ> int \<circ> length) id (take_text r)
      else (JNull, r))"

lemma take_put_plain [simp]: "plain v \<Longrightarrow> take_plain (put_plain v @ r) = (v, r)"
  by (cases v) simp_all

fun put_claims :: "dict \<Rightarrow> string" where
  "put_claims [] = ''.''"
| "put_claims ((k, v) # d) = ''k'' @ put_text k @ put_plain v @ put_claims d"

fun take_claims :: "nat \<Rightarrow> string \<Rightarrow> dict" where
  "take_claims (Suc n) (c # r) =
     (if c = CHR ''k'' then
        (let (k, r1) = take_text r; (v, r2) = take_plain r1 in (k, v) # take_claims n r2)
      else [])"
| "take_claims _ _ = []"

lemma take_put_claims: "list_all (plain \<circ> snd) d \<Longrightarrow> length d < n \<Longrightarrow> take_claims n (put_claims d) = d"
proof (induction d arbitrary: n)
  case Nil
  then show ?case by (cases n) simp_all
next
  case (Cons kv d)
  then show ?case by (cases kv; cases n) simp_all
qed

lemma length_claims: "length d < length (put_claims d)"
  by (induction d) auto

definition demo_crypto :: crypto where
  "demo_crypto = \<lparr>cx_hash = (\<lambda>p. Some (''#'' @ p)), cx_verify = (\<lambda>p h. Some (h = ''#'' @ p)), cx_encode = put_claims,
     cx_decode = (\<lambda>leeway now t. let c = take_claims (length t) t in
       case (dget c ''iat'', dget c ''exp'') of
         (JInt i, JInt e) \<Rightarrow> if i \<le> now + leeway \<and> now - leeway < e then Inr c else Inl ''expired''
       | _ \<Rightarrow> Inl ''malformed'')\<rparr>"

lemma demo_crypto_ok: "jwt_roundtrips demo_crypto" "hash_verifies demo_crypto"
  by (auto simp: jwt_roundtrips_def hash_verifies_def demo_crypto_def take_put_claims length_claims)

end
