(* ===== verification/Validation.thy ===== *)
theory Validation
  imports Graph
begin

text \<open>
  \<open>validate_graph\<close> of \<open>app/services/graph.py\<close>, pass by pass: the index of nodes by id, the
  checks on each node, the trigger rules, the connections, cycles, orphans and the connected
  trigger. Then \<open>collect_credential_ids\<close> and \<open>trigger_of\<close>. Each pass threads the state the
  Python function keeps in local variables. The lemmas characterise when a pass adds no
  error; together they show that an accepted graph is well formed in the sense of the
  declarative \<open>well_formed\<close>.
\<close>

section \<open>The index of nodes\<close>

definition is_id_char :: "char \<Rightarrow> bool" where
  "is_id_char c = (let n = of_char c :: nat in
     (65 \<le> n \<and> n \<le> 90) \<or> (97 \<le> n \<and> n \<le> 122) \<or> (48 \<le> n \<and> n \<le> 57) \<or> n = 95 \<or> n = 45)"

text \<open>\<open>NODE_ID_RE.match\<close>: the \<open>$\<close> of the pattern also matches before one final newline.\<close>

definition node_id_ok :: "string \<Rightarrow> bool" where
  "node_id_ok s =
     (let t = (if s \<noteq> [] \<and> last s = CHR 0x0A then butlast s else s)
      in 1 \<le> length t \<and> length t \<le> 64 \<and> list_all is_id_char t)"

definition node_id :: "dict \<Rightarrow> string" where
  "node_id node = str_or_empty (dget node ''id'')"

fun index_nodes :: "json list \<Rightarrow> (string \<times> dict) list \<Rightarrow> issue list
    \<Rightarrow> py_exc + (string \<times> dict) list \<times> issue list" where
  "index_nodes [] by_id iss = Inr (by_id, iss)"
| "index_nodes (node # nodes) by_id iss =
     (case as_dict node of
        Inl e \<Rightarrow> Inl e
      | Inr nd \<Rightarrow>
          (let nid = node_id nd in
           if \<not> node_id_ok nid then
             index_nodes nodes by_id (iss @ [err ''NODE_ID_INVALID'' (if nid = [] then None else Some nid)])
           else if nid \<in> fst ` set by_id then
             index_nodes nodes by_id (iss @ [err ''NODE_ID_DUPLICATE'' (Some nid)])
           else index_nodes nodes (by_id @ [(nid, nd)]) iss))"

section \<open>Checks on one node\<close>

record node_pass =
  np_issues :: "issue list"
  np_triggers :: "string list"
  np_names :: "string list"
  np_credentials :: "string set"

definition add_issues :: "issue list \<Rightarrow> node_pass \<Rightarrow> node_pass" where
  "add_issues is st = st\<lparr>np_issues := np_issues st @ is\<rparr>"

definition is_blank :: "json \<Rightarrow> bool" where
  "is_blank v = (v = JNull \<or> v = JStr [] \<or> v = JArr [] \<or> v = JObj [])"

definition missing_fields :: "node_definition \<Rightarrow> dict \<Rightarrow> string list" where
  "missing_fields d config =
     map fs_key (filter (\<lambda>spec. is_blank (dget config (fs_key spec))) (required_field_keys d config))"

definition credential_refs :: "node_definition \<Rightarrow> dict \<Rightarrow> string list" where
  "credential_refs d config =
     map (\<lambda>spec. py_str (dget config (fs_key spec)))
       (filter (\<lambda>spec. fs_type spec = ''credential'' \<and> truthy (dget config (fs_key spec))) (nd_fields d))"

definition bad_expressions :: "dict \<Rightarrow> string list" where
  "bad_expressions config =
     map fst (filter (\<lambda>(path, v). is_expression v \<and> \<not> check_expression (py_str v))
       (walk_config_values (JObj config) []))"

definition node_blocked :: "node_definition \<Rightarrow> bool" where
  "node_blocked d = (nd_status d = ''DISABLED'' \<or> nd_certification d = ''BLOCKED'')"

definition node_name :: "dict \<Rightarrow> string" where
  "node_name node = str_strip (str_or_empty (dget node ''name''))"

definition node_key_of :: "dict \<Rightarrow> string" where
  "node_key_of node = str_or_empty (dget node ''node_key'')"

definition check_name :: "string \<Rightarrow> string \<Rightarrow> node_pass \<Rightarrow> node_pass" where
  "check_name nid name st =
     (if name = [] then add_issues [err ''NODE_NAME_REQUIRED'' (Some nid)] st
      else if length name > MAX_NAME_LENGTH then add_issues [err ''NODE_NAME_TOO_LONG'' (Some nid)] st
      else if name \<in> set (np_names st) then add_issues [err ''NODE_NAME_DUPLICATE'' (Some nid)] st
      else st\<lparr>np_names := np_names st @ [name]\<rparr>)"

definition check_config :: "node_definition \<Rightarrow> string \<Rightarrow> dict \<Rightarrow> node_pass \<Rightarrow> node_pass" where
  "check_config d nid config st =
     (let st = (if nd_is_trigger d then st\<lparr>np_triggers := np_triggers st @ [nid]\<rparr> else st);
          st = add_issues (map (err_field ''NODE_CONFIGURATION_INVALID'' nid) (missing_fields d config)) st;
          st = st\<lparr>np_credentials := np_credentials st \<union> set (credential_refs d config)\<rparr>
      in add_issues (map (err_field ''EXPRESSION_INVALID'' nid) (bad_expressions config)) st)"

definition check_node :: "registry \<Rightarrow> node_pass \<Rightarrow> string \<times> dict \<Rightarrow> node_pass" where
  "check_node defs st entry =
     (let (nid, node) = entry in
      case defs (node_key_of node) of
        None \<Rightarrow> add_issues [err ''NODE_UNSUPPORTED'' (Some nid)] st
      | Some d \<Rightarrow>
          if node_blocked d then add_issues [err ''NODE_UNSUPPORTED'' (Some nid)] st
          else
            (let st = (if nd_status d = ''DEPRECATED'' then add_issues [warning ''NODE_DEPRECATED'' nid] st else st);
                 st = check_name nid (node_name node) st
             in case or_else (dget node ''config'') (JObj []) of
                  JObj config \<Rightarrow> check_config d nid config st
                | _ \<Rightarrow> add_issues [err ''NODE_CONFIGURATION_INVALID'' (Some nid)] st))"

definition check_nodes :: "registry \<Rightarrow> (string \<times> dict) list \<Rightarrow> issue list \<Rightarrow> node_pass" where
  "check_nodes defs by_id iss =
     foldl (check_node defs) \<lparr>np_issues = iss, np_triggers = [], np_names = [], np_credentials = {}\<rparr> by_id"

section \<open>Connections\<close>

type_synonym edge = "string \<times> string \<times> string \<times> string"

record edge_pass =
  ep_issues :: "issue list"
  ep_seen :: "edge list"
  ep_incoming :: "string \<Rightarrow> nat"
  ep_outgoing :: "string \<Rightarrow> nat"
  ep_adjacency :: adjacency

definition edge_error :: "string \<Rightarrow> string option \<Rightarrow> edge_pass \<Rightarrow> edge_pass" where
  "edge_error code nid st = st\<lparr>ep_issues := ep_issues st @ [err code nid]\<rparr>"

definition lookup_node :: "(string \<times> dict) list \<Rightarrow> string \<Rightarrow> dict" where
  "lookup_node by_id nid = (case map_of by_id nid of None \<Rightarrow> [] | Some n \<Rightarrow> n)"

text \<open>The two ends of a connection, ports defaulting to \<open>main\<close>.\<close>

definition endpoint :: "dict \<Rightarrow> string \<Rightarrow> py_exc + string \<times> string" where
  "endpoint conn key =
     (case as_dict (or_else (dget conn key) (JObj [])) of
        Inl e \<Rightarrow> Inl e
      | Inr d \<Rightarrow> Inr (str_or_empty (dget d ''node_id''), py_str (or_else (dget d ''port'') (JStr ''main''))))"

definition edge_of :: "json \<Rightarrow> py_exc + edge" where
  "edge_of conn =
     (case as_dict conn of
        Inl e \<Rightarrow> Inl e
      | Inr c \<Rightarrow>
          (case endpoint c ''from'' of
             Inl e \<Rightarrow> Inl e
           | Inr (source_id, source_port) \<Rightarrow>
               (case endpoint c ''to'' of
                  Inl e \<Rightarrow> Inl e
                | Inr (target_id, target_port) \<Rightarrow> Inr (source_id, source_port, target_id, target_port))))"

definition add_edge :: "string \<Rightarrow> string \<Rightarrow> edge_pass \<Rightarrow> edge_pass" where
  "add_edge source_id target_id st =
     st\<lparr>ep_outgoing := (ep_outgoing st)(source_id := Suc (ep_outgoing st source_id)),
        ep_incoming := (ep_incoming st)(target_id := Suc (ep_incoming st target_id)),
        ep_adjacency := map (\<lambda>(k, vs). if k = source_id then (k, vs @ [target_id]) else (k, vs)) (ep_adjacency st)\<rparr>"

definition check_connection :: "registry \<Rightarrow> (string \<times> dict) list \<Rightarrow> edge_pass \<Rightarrow> json \<Rightarrow> py_exc + edge_pass" where
  "check_connection defs by_id st conn =
     (case edge_of conn of
        Inl e \<Rightarrow> Inl e
      | Inr (source_id, source_port, target_id, target_port) \<Rightarrow>
          if source_id \<notin> fst ` set by_id \<or> target_id \<notin> fst ` set by_id then
            Inr (edge_error ''CONNECTION_DANGLING'' None st)
          else if source_id = target_id then
            Inr (edge_error ''CONNECTION_SELF'' (Some source_id) st)
          else if (source_id, source_port, target_id, target_port) \<in> set (ep_seen st) then
            Inr (edge_error ''CONNECTION_DUPLICATE'' (Some source_id) st)
          else
            (let st = st\<lparr>ep_seen := ep_seen st @ [(source_id, source_port, target_id, target_port)]\<rparr>;
                 source = lookup_node by_id source_id;
                 target = lookup_node by_id target_id;
                 valid_in = input_ports (definition_for defs (py_str (dget target ''node_key'')))
             in case output_ports source (definition_for defs (py_str (dget source ''node_key''))) of
                  Inl e \<Rightarrow> Inl e
                | Inr valid_out \<Rightarrow>
                    if valid_out \<noteq> [] \<and> source_port \<notin> set valid_out then
                      Inr (edge_error ''CONNECTION_PORT_INVALID'' (Some source_id) st)
                    else if valid_in \<noteq> [] \<and> target_port \<notin> set valid_in then
                      Inr (edge_error ''CONNECTION_PORT_INVALID'' (Some target_id) st)
                    else if valid_in = [] then
                      Inr (edge_error ''CONNECTION_PORT_INVALID'' (Some target_id) st)
                    else Inr (add_edge source_id target_id st)))"

fun check_connections :: "registry \<Rightarrow> (string \<times> dict) list \<Rightarrow> edge_pass \<Rightarrow> json list \<Rightarrow> py_exc + edge_pass" where
  "check_connections defs by_id st [] = Inr st"
| "check_connections defs by_id st (c # cs) =
     (case check_connection defs by_id st c of
        Inl e \<Rightarrow> Inl e
      | Inr st' \<Rightarrow> check_connections defs by_id st' cs)"

section \<open>The whole validation\<close>

definition trigger_issues :: "bool \<Rightarrow> string list \<Rightarrow> issue list" where
  "trigger_issues require_trigger triggers =
     (if require_trigger then
        (case triggers of
           [] \<Rightarrow> [err ''TRIGGER_REQUIRED'' None]
         | [_] \<Rightarrow> []
         | _ # second # _ \<Rightarrow> [err ''TRIGGER_AMBIGUOUS'' (Some second)])
      else [])"

definition orphan_issues :: "registry \<Rightarrow> (string \<times> dict) list \<Rightarrow> (string \<Rightarrow> nat) \<Rightarrow> issue list" where
  "orphan_issues defs by_id incoming =
     map (\<lambda>(nid, _). warning ''NODE_ORPHAN'' nid)
       (filter (\<lambda>(nid, node). \<not> nd_is_trigger (definition_for defs (py_str (dget node ''node_key'')))
          \<and> incoming nid = 0) by_id)"

definition early_result :: "string \<Rightarrow> validation_result" where
  "early_result code =
     \<lparr>vr_issues = [err code None], vr_credential_ids = {}, vr_trigger_node_id = None, vr_trigger_node_key = None\<rparr>"

definition validate_graph :: "dict \<Rightarrow> registry \<Rightarrow> bool \<Rightarrow> py_exc + validation_result" where
  "validate_graph graph defs require_trigger =
     (case (dget graph ''nodes'', dget graph ''connections'') of
        (JArr nodes, JArr connections) \<Rightarrow>
          if length nodes > MAX_NODES then Inr (early_result ''GRAPH_TOO_LARGE'')
          else
            (case index_nodes nodes [] [] of
               Inl e \<Rightarrow> Inl e
             | Inr (by_id, iss) \<Rightarrow>
                 (let np = check_nodes defs by_id iss;
                      triggers = np_triggers np;
                      iss = np_issues np @ trigger_issues require_trigger triggers;
                      trigger = (case triggers of [] \<Rightarrow> None | t # _ \<Rightarrow> Some t);
                      ep0 = \<lparr>ep_issues = iss, ep_seen = [], ep_incoming = (\<lambda>_. 0), ep_outgoing = (\<lambda>_. 0),
                             ep_adjacency = map (\<lambda>(nid, _). (nid, [])) by_id\<rparr>
                  in case check_connections defs by_id ep0 connections of
                       Inl e \<Rightarrow> Inl e
                     | Inr ep \<Rightarrow>
                         Inr \<lparr>vr_issues = ep_issues ep
                                @ (if has_cycle (ep_adjacency ep) then [err ''GRAPH_HAS_CYCLE'' None] else [])
                                @ orphan_issues defs by_id (ep_incoming ep)
                                @ (case trigger of
                                     None \<Rightarrow> []
                                   | Some t \<Rightarrow> if ep_outgoing ep t = 0
                                               then [err ''TRIGGER_NOT_CONNECTED'' (Some t)] else []),
                              vr_credential_ids = np_credentials np,
                              vr_trigger_node_id = trigger,
                              vr_trigger_node_key = map_option
                                (\<lambda>t. py_str (dget (lookup_node by_id t) ''node_key'')) trigger\<rparr>))
      | _ \<Rightarrow> Inr (early_result ''GRAPH_MALFORMED''))"

section \<open>Walks without validation\<close>

definition is_trigger_node :: "registry \<Rightarrow> dict \<Rightarrow> bool" where
  "is_trigger_node defs node = nd_is_trigger (definition_for defs (py_str (dget node ''node_key'')))"

definition node_credentials :: "registry \<Rightarrow> dict \<Rightarrow> py_exc + string list" where
  "node_credentials defs node =
     (let d = definition_for defs (py_str (dget node ''node_key'')) in
      case or_else (dget node ''config'') (JObj []) of
        JObj config \<Rightarrow> Inr (credential_refs d config)
      | _ \<Rightarrow> if \<exists>spec \<in> set (nd_fields d). fs_type spec = ''credential'' then Inl AttributeError else Inr [])"

fun collect_each :: "registry \<Rightarrow> dict list \<Rightarrow> py_exc + string set" where
  "collect_each defs [] = Inr {}"
| "collect_each defs (node # nodes) =
     (case node_credentials defs node of
        Inl e \<Rightarrow> Inl e
      | Inr ids \<Rightarrow> (case collect_each defs nodes of Inl e \<Rightarrow> Inl e | Inr rest \<Rightarrow> Inr (set ids \<union> rest)))"

text \<open>The loop raises at its first item that is not a dictionary, whatever came before.\<close>

definition collect_credential_ids :: "dict \<Rightarrow> registry \<Rightarrow> py_exc + string set" where
  "collect_credential_ids graph defs =
     (case items_of graph ''nodes'' of Inl e \<Rightarrow> Inl e | Inr nodes \<Rightarrow> collect_each defs nodes)"

text \<open>\<open>trigger_of\<close> stops at the first trigger, so items after it are never touched.\<close>

fun first_trigger :: "registry \<Rightarrow> json list \<Rightarrow> py_exc + dict option" where
  "first_trigger defs [] = Inr None"
| "first_trigger defs (x # xs) =
     (case as_dict x of
        Inl e \<Rightarrow> Inl e
      | Inr node \<Rightarrow> if is_trigger_node defs node then Inr (Some node) else first_trigger defs xs)"

definition trigger_of :: "dict \<Rightarrow> registry \<Rightarrow> py_exc + dict option" where
  "trigger_of graph defs =
     (case iterate (or_else (dget graph ''nodes'') (JArr [])) of
        Inl e \<Rightarrow> Inl e
      | Inr xs \<Rightarrow> first_trigger defs xs)"

section \<open>What each pass establishes\<close>

subsection \<open>The index\<close>

lemma index_nodes_errors:
  "index_nodes nodes by_id iss = Inr (by_id', iss') \<Longrightarrow> errors_of iss' = [] \<Longrightarrow> errors_of iss = []"
proof (induction nodes arbitrary: by_id iss)
  case (Cons node nodes)
  then show ?case by (cases node) (fastforce simp: Let_def split: if_splits)+
qed simp

lemma index_nodes_no_errors:
  "index_nodes nodes by_id iss = Inr (by_id', iss') \<Longrightarrow> errors_of iss' = [] \<Longrightarrow>
     errors_of iss = [] \<and>
     (\<exists>ns. nodes = map JObj ns \<and> by_id' = by_id @ map (\<lambda>n. (node_id n, n)) ns \<and>
        list_all (\<lambda>n. node_id_ok (node_id n)) ns \<and>
        (distinct (map fst by_id) \<longrightarrow> distinct (map fst by_id @ map node_id ns)))"
proof (induction nodes arbitrary: by_id iss)
  case (Cons node nodes)
  then obtain nd where nd: "node = JObj nd" by (cases node) auto
  consider (invalid) "\<not> node_id_ok (node_id nd)"
    | (dup) "node_id_ok (node_id nd)" "node_id nd \<in> fst ` set by_id"
    | (fresh) "node_id_ok (node_id nd)" "node_id nd \<notin> fst ` set by_id" by blast
  then show ?case
  proof cases
    case invalid
    then show ?thesis
      using Cons.prems nd by (auto simp: Let_def split: if_splits dest!: index_nodes_errors)
  next
    case dup
    then show ?thesis
      using Cons.prems nd by (auto simp: Let_def split: if_splits dest!: index_nodes_errors)
  next
    case fresh
    then have rest: "index_nodes nodes (by_id @ [(node_id nd, nd)]) iss = Inr (by_id', iss')"
      using Cons.prems nd by (simp add: Let_def)
    from Cons.IH [OF this Cons.prems(2)] obtain ns where ns: "nodes = map JObj ns"
      "by_id' = (by_id @ [(node_id nd, nd)]) @ map (\<lambda>n. (node_id n, n)) ns"
      "list_all (\<lambda>n. node_id_ok (node_id n)) ns" "errors_of iss = []"
      "distinct (map fst (by_id @ [(node_id nd, nd)])) \<longrightarrow>
         distinct (map fst (by_id @ [(node_id nd, nd)]) @ map node_id ns)" by blast
    show ?thesis using ns fresh nd by (intro conjI exI [of _ "nd # ns"]) auto
  qed
qed simp

lemma index_nodes_clean:
  "list_all (\<lambda>n. node_id_ok (node_id n)) ns \<Longrightarrow> distinct (map fst by_id @ map node_id ns) \<Longrightarrow>
     index_nodes (map JObj ns) by_id iss = Inr (by_id @ map (\<lambda>n. (node_id n, n)) ns, iss)"
proof (induction ns arbitrary: by_id)
  case (Cons n ns)
  have "index_nodes (map JObj ns) (by_id @ [(node_id n, n)]) iss =
      Inr ((by_id @ [(node_id n, n)]) @ map (\<lambda>n. (node_id n, n)) ns, iss)"
    using Cons(2,3) by (intro Cons(1)) auto
  then show ?case using Cons(2,3) by (simp add: Let_def)
qed simp

subsection \<open>Nodes\<close>

definition node_ok :: "registry \<Rightarrow> dict \<Rightarrow> bool" where
  "node_ok defs node \<longleftrightarrow>
     node_name node \<noteq> [] \<and> length (node_name node) \<le> MAX_NAME_LENGTH \<and>
     (case (defs (node_key_of node), or_else (dget node ''config'') (JObj [])) of
        (Some d, JObj config) \<Rightarrow>
          \<not> node_blocked d \<and> missing_fields d config = [] \<and> bad_expressions config = []
      | _ \<Rightarrow> False)"

definition trigger_key :: "registry \<Rightarrow> dict \<Rightarrow> bool" where
  "trigger_key defs node = nd_is_trigger (definition_for defs (node_key_of node))"

definition refs_of :: "registry \<Rightarrow> dict \<Rightarrow> string set" where
  "refs_of defs node =
     (case or_else (dget node ''config'') (JObj []) of
        JObj config \<Rightarrow> set (credential_refs (definition_for defs (node_key_of node)) config)
      | _ \<Rightarrow> {})"

lemma add_issues_fields [simp]:
  "np_issues (add_issues is st) = np_issues st @ is"
  "np_triggers (add_issues is st) = np_triggers st"
  "np_names (add_issues is st) = np_names st"
  "np_credentials (add_issues is st) = np_credentials st"
  by (simp_all add: add_issues_def)

lemma errors_of_err_fields [simp]: "errors_of (map (err_field c n) xs) = map (err_field c n) xs"
  using errors_of_errs [of c n "\<lambda>x. x" xs] by simp

lemma check_name_errors:
  "errors_of (np_issues (check_name nid name st)) = [] \<longleftrightarrow>
     errors_of (np_issues st) = [] \<and> name \<noteq> [] \<and> length name \<le> MAX_NAME_LENGTH \<and> name \<notin> set (np_names st)"
  by (auto simp: check_name_def)

lemma check_name_fields [simp]:
  "np_triggers (check_name nid name st) = np_triggers st"
  "np_credentials (check_name nid name st) = np_credentials st"
  by (simp_all add: check_name_def)

lemma check_config_fields [simp]:
  "np_issues (check_config d nid config st) = np_issues st
     @ map (err_field ''NODE_CONFIGURATION_INVALID'' nid) (missing_fields d config)
     @ map (err_field ''EXPRESSION_INVALID'' nid) (bad_expressions config)"
  "np_triggers (check_config d nid config st) = np_triggers st @ (if nd_is_trigger d then [nid] else [])"
  "np_names (check_config d nid config st) = np_names st"
  "np_credentials (check_config d nid config st) = np_credentials st \<union> set (credential_refs d config)"
  by (simp_all add: check_config_def Let_def)

lemma check_node_errors:
  "errors_of (np_issues (check_node defs st (nid, node))) = [] \<longleftrightarrow>
     errors_of (np_issues st) = [] \<and> node_ok defs node \<and> node_name node \<notin> set (np_names st)"
  by (auto simp: check_node_def node_ok_def check_name_errors Let_def split: option.splits json.splits)

lemma check_node_ok:
  assumes "node_ok defs node" "node_name node \<notin> set (np_names st)"
  shows "np_names (check_node defs st (nid, node)) = np_names st @ [node_name node]"
    "np_triggers (check_node defs st (nid, node)) = np_triggers st @ (if trigger_key defs node then [nid] else [])"
    "np_credentials (check_node defs st (nid, node)) = np_credentials st \<union> refs_of defs node"
proof -
  obtain d config where d: "defs (node_key_of node) = Some d" "\<not> node_blocked d"
    and c: "or_else (dget node ''config'') (JObj []) = JObj config"
    using assms(1) by (auto simp: node_ok_def split: option.splits json.splits)
  have n: "node_name node \<noteq> []" "length (node_name node) \<le> MAX_NAME_LENGTH"
    using assms(1) by (auto simp: node_ok_def)
  have "np_names (check_name nid (node_name node) st') = np_names st' @ [node_name node]"
    if "np_names st' = np_names st" for st'
    using n assms(2) that by (simp add: check_name_def)
  then show "np_names (check_node defs st (nid, node)) = np_names st @ [node_name node]"
    using d c by (simp add: check_node_def Let_def)
  show "np_triggers (check_node defs st (nid, node)) = np_triggers st @ (if trigger_key defs node then [nid] else [])"
    using d c by (simp add: check_node_def trigger_key_def definition_for_def Let_def)
  show "np_credentials (check_node defs st (nid, node)) = np_credentials st \<union> refs_of defs node"
    using d c by (simp add: check_node_def refs_of_def definition_for_def Let_def)
qed

lemma check_nodes_errors:
  "errors_of (np_issues (foldl (check_node defs) st entries)) = [] \<longleftrightarrow>
     errors_of (np_issues st) = [] \<and> list_all (node_ok defs) (map snd entries) \<and>
     distinct (map (node_name \<circ> snd) entries) \<and>
     (\<forall>e \<in> set entries. node_name (snd e) \<notin> set (np_names st))"
proof (induction entries arbitrary: st)
  case (Cons e entries)
  obtain nid node where e: "e = (nid, node)" by (cases e)
  show ?case
  proof (cases "node_ok defs node \<and> node_name node \<notin> set (np_names st)")
    case True
    then have "np_names (check_node defs st (nid, node)) = np_names st @ [node_name node]"
      by (intro check_node_ok) auto
    then show ?thesis using True by (auto simp: e Cons.IH check_node_errors image_iff)
  next
    case False
    then show ?thesis by (auto simp: e Cons.IH check_node_errors)
  qed
qed simp

lemma check_nodes_ok:
  assumes "list_all (node_ok defs) (map snd entries)" "distinct (map (node_name \<circ> snd) entries)"
    "\<forall>e \<in> set entries. node_name (snd e) \<notin> set (np_names st)"
  shows "np_triggers (foldl (check_node defs) st entries) =
      np_triggers st @ map fst (filter (trigger_key defs \<circ> snd) entries) \<and>
    np_credentials (foldl (check_node defs) st entries) =
      np_credentials st \<union> (\<Union>e \<in> set entries. refs_of defs (snd e))"
  using assms
proof (induction entries arbitrary: st)
  case (Cons e entries)
  obtain nid node where e: "e = (nid, node)" by (cases e)
  have ok: "node_ok defs node" "node_name node \<notin> set (np_names st)" using Cons(2,4) e by auto
  note step = check_node_ok [OF ok, of nid]
  have "\<forall>e \<in> set entries. node_name (snd e) \<notin> set (np_names (check_node defs st (nid, node)))"
    using Cons(3,4) e step(1) by force
  then show ?case using Cons(1) [of "check_node defs st (nid, node)"] Cons(2,3) e step by auto
qed simp

subsection \<open>Connections\<close>

definition edge_ok :: "registry \<Rightarrow> (string \<times> dict) list \<Rightarrow> edge \<Rightarrow> bool" where
  "edge_ok defs by_id e \<longleftrightarrow>
     (case e of (s, sp, t, tp) \<Rightarrow>
        s \<in> fst ` set by_id \<and> t \<in> fst ` set by_id \<and> s \<noteq> t \<and>
        (case output_ports (lookup_node by_id s) (definition_for defs (py_str (dget (lookup_node by_id s) ''node_key''))) of
           Inl _ \<Rightarrow> False
         | Inr outs \<Rightarrow> outs = [] \<or> sp \<in> set outs) \<and>
        tp \<in> set (input_ports (definition_for defs (py_str (dget (lookup_node by_id t) ''node_key'')))))"

definition accept_edge :: "edge \<Rightarrow> edge_pass \<Rightarrow> edge_pass" where
  "accept_edge e st = (case e of (s, sp, t, tp) \<Rightarrow> add_edge s t (st\<lparr>ep_seen := ep_seen st @ [e]\<rparr>))"

lemma edge_error_fields [simp]:
  "ep_issues (edge_error c n st) = ep_issues st @ [err c n]"
  by (simp add: edge_error_def)

lemma accept_edge_fields [simp]:
  "ep_issues (accept_edge e st) = ep_issues st"
  "ep_seen (accept_edge e st) = ep_seen st @ [e]"
  by (simp_all add: accept_edge_def add_edge_def split: prod.splits)

lemma check_connection_clean:
  "check_connection defs by_id st c = Inr st' \<and> errors_of (ep_issues st') = [] \<longleftrightarrow>
     (\<exists>e. edge_of c = Inr e \<and> edge_ok defs by_id e \<and> e \<notin> set (ep_seen st) \<and>
        errors_of (ep_issues st) = [] \<and> st' = accept_edge e st)"
proof (cases "edge_of c")
  case (Inr e)
  obtain s sp t tp where e: "e = (s, sp, t, tp)" by (cases e) auto
  show ?thesis
  proof (cases "s \<notin> fst ` set by_id \<or> t \<notin> fst ` set by_id \<or> s = t \<or> e \<in> set (ep_seen st)")
    case True
    then show ?thesis using Inr e by (auto simp: check_connection_def edge_ok_def)
  next
    case False
    then show ?thesis
      using Inr e by (auto simp: check_connection_def edge_ok_def accept_edge_def add_edge_def Let_def split: sum.splits)
  qed
qed (simp add: check_connection_def)

lemma check_connection_errors:
  "check_connection defs by_id st c = Inr st' \<Longrightarrow> errors_of (ep_issues st') = [] \<Longrightarrow> errors_of (ep_issues st) = []"
  using check_connection_clean by blast

lemma check_connections_errors:
  "check_connections defs by_id st cs = Inr st' \<Longrightarrow> errors_of (ep_issues st') = [] \<Longrightarrow> errors_of (ep_issues st) = []"
  by (induction defs by_id st cs rule: check_connections.induct)
    (auto split: sum.splits dest: check_connection_errors)

lemma check_connections_clean:
  assumes "distinct (ep_seen st)"
  shows "check_connections defs by_id st cs = Inr st' \<and> errors_of (ep_issues st') = [] \<longleftrightarrow>
     (\<exists>es. map edge_of cs = map Inr es \<and> list_all (edge_ok defs by_id) es \<and>
        distinct (ep_seen st @ es) \<and> errors_of (ep_issues st) = [] \<and>
        st' = fold accept_edge es st)"
  using assms
proof (induction cs arbitrary: st)
  case (Cons c cs)
  show ?case (is "?L = ?R")
  proof
    assume L: ?L
    then obtain st1 where c1: "check_connection defs by_id st c = Inr st1"
      and rest: "check_connections defs by_id st1 cs = Inr st'"
      by (auto split: sum.splits)
    have "errors_of (ep_issues st1) = []" using L rest check_connections_errors by blast
    then obtain e where e: "edge_of c = Inr e" "edge_ok defs by_id e" "e \<notin> set (ep_seen st)"
      "errors_of (ep_issues st) = []" "st1 = accept_edge e st"
      using c1 check_connection_clean by blast
    have "distinct (ep_seen st1)" using e Cons(2) by simp
    from Cons(1) [OF this] rest L obtain es where es: "map edge_of cs = map Inr es"
      "list_all (edge_ok defs by_id) es" "distinct (ep_seen st1 @ es)" "st' = fold accept_edge es st1"
      by blast
    then show ?R using e by (intro exI [of _ "e # es"]) auto
  next
    assume ?R
    then obtain es0 where "map edge_of (c # cs) = map Inr es0" "list_all (edge_ok defs by_id) es0"
      "distinct (ep_seen st @ es0)" "errors_of (ep_issues st) = []" "st' = fold accept_edge es0 st" by blast
    moreover then obtain e es where "es0 = e # es" by (cases es0) auto
    ultimately have e: "edge_of c = Inr e" "edge_ok defs by_id e" "e \<notin> set (ep_seen st)"
      and es: "map edge_of cs = map Inr es" "list_all (edge_ok defs by_id) es"
      "distinct (ep_seen (accept_edge e st) @ es)" "errors_of (ep_issues st) = []"
      "st' = fold accept_edge es (accept_edge e st)" by auto
    then have "check_connection defs by_id st c = Inr (accept_edge e st)"
      using check_connection_clean by blast
    moreover have "check_connections defs by_id (accept_edge e st) cs = Inr st' \<and> errors_of (ep_issues st') = []"
      using Cons(1) [of "accept_edge e st"] es by auto
    ultimately show ?L by simp
  qed
qed auto

definition edges_rel :: "edge list \<Rightarrow> (string \<times> string) set" where
  "edges_rel es = {(s, t). \<exists>sp tp. (s, sp, t, tp) \<in> set es}"

lemma map_of_add_edge:
  "map_of (map (\<lambda>(k, vs). if k = s then (k, vs @ [t]) else (k, vs)) adj) v =
     map_option (\<lambda>vs. if v = s then vs @ [t] else vs) (map_of adj v)"
  by (induction adj) auto

lemma neighbours_update:
  "neighbours (map (\<lambda>(k, vs). if k = s then (k, vs @ [t]) else (k, vs)) adj) v =
     (if v = s \<and> s \<in> fst ` set adj then neighbours adj v @ [t] else neighbours adj v)"
proof (cases "map_of adj v")
  case None
  then show ?thesis by (simp add: neighbours_def map_of_add_edge) (auto simp: map_of_eq_None_iff)
next
  case (Some vs)
  then have "v \<in> fst ` set adj" by (force dest: map_of_SomeD)
  then show ?thesis using Some by (auto simp: neighbours_def map_of_add_edge)
qed

lemma fold_accept_issues [simp]: "ep_issues (fold accept_edge es st) = ep_issues st"
  by (induction es arbitrary: st) auto

lemma fold_accept_edges:
  assumes "list_all (edge_ok defs by_id) es" "fst ` set by_id = fst ` set (ep_adjacency st)"
  shows "edge_rel (ep_adjacency (fold accept_edge es st)) = edge_rel (ep_adjacency st) \<union> edges_rel es"
  using assms
proof (induction es arbitrary: st)
  case (Cons e es)
  obtain s sp t tp where e: "e = (s, sp, t, tp)" by (cases e) auto
  have s: "s \<in> fst ` set (ep_adjacency st)" using Cons(2,3) e by (simp add: edge_ok_def)
  have "edge_rel (ep_adjacency (accept_edge e st)) = insert (s, t) (edge_rel (ep_adjacency st))"
    using s by (auto simp: accept_edge_def add_edge_def edge_rel_def e neighbours_update split: if_splits)
  moreover have "fst ` set (ep_adjacency (accept_edge e st)) = fst ` set (ep_adjacency st)"
    by (force simp: accept_edge_def add_edge_def e)
  ultimately show ?case using Cons(1) [of "accept_edge e st"] Cons(2,3) e by (auto simp: edges_rel_def)
qed (simp add: edges_rel_def)

lemma fold_accept_outgoing:
  "ep_outgoing (fold accept_edge es st) v = 0 \<longleftrightarrow> ep_outgoing st v = 0 \<and> v \<notin> fst ` set es"
  by (induction es arbitrary: st) (auto simp: accept_edge_def add_edge_def split: prod.splits)


subsection \<open>Accepted graphs\<close>

text \<open>The declarative reading of an accepted graph. \<open>edge_ok\<close> says that both ends of a
  connection are distinct nodes of the graph and that it uses ports these offer; \<open>node_ok\<close>
  that a node has a usable type, a name, its required fields and sound expressions.\<close>

definition by_id_of :: "dict list \<Rightarrow> (string \<times> dict) list" where
  "by_id_of ns = map (\<lambda>n. (node_id n, n)) ns"

definition well_formed_parts :: "dict \<Rightarrow> registry \<Rightarrow> dict list \<Rightarrow> edge list \<Rightarrow> dict \<Rightarrow> bool" where
  "well_formed_parts graph defs ns es trig \<longleftrightarrow>
     dget graph ''nodes'' = JArr (map JObj ns) \<and> length ns \<le> MAX_NODES \<and>
     list_all (\<lambda>n. node_id_ok (node_id n)) ns \<and> distinct (map node_id ns) \<and>
     list_all (node_ok defs) ns \<and> distinct (map node_name ns) \<and>
     filter (trigger_key defs) ns = [trig] \<and>
     (\<exists>cs. dget graph ''connections'' = JArr cs \<and> map edge_of cs = map Inr es) \<and>
     list_all (edge_ok defs (by_id_of ns)) es \<and> distinct es \<and>
     acyclic (edges_rel es) \<and> node_id trig \<in> fst ` set es"

definition well_formed :: "dict \<Rightarrow> registry \<Rightarrow> bool" where
  "well_formed graph defs \<longleftrightarrow> (\<exists>ns es trig. well_formed_parts graph defs ns es trig)"

lemma errors_of_orphans [simp]: "errors_of (orphan_issues defs by_id inc) = []"
  by (auto simp: errors_of_def orphan_issues_def warning_def filter_empty_conv)

lemma errors_of_trigger_issues [simp]:
  "errors_of (trigger_issues True ts) = [] \<longleftrightarrow> (\<exists>t. ts = [t])"
  by (auto simp: trigger_issues_def split: list.splits)

lemma has_cycle_accept:
  assumes "list_all (edge_ok defs by_id) es" "ep_adjacency st = map (\<lambda>(nid, _). (nid, [])) by_id"
  shows "has_cycle (ep_adjacency (fold accept_edge es st)) \<longleftrightarrow> \<not> acyclic (edges_rel es)"
proof -
  have "neighbours (map (\<lambda>(nid, _). (nid, [])) by_id) v = []" for v
    by (induction by_id) (auto simp: neighbours_def)
  then have "edge_rel (ep_adjacency st) = {}" by (simp add: assms(2) edge_rel_def)
  moreover have "fst ` set by_id = fst ` set (ep_adjacency st)" by (force simp: assms(2))
  ultimately have "edge_rel (ep_adjacency (fold accept_edge es st)) = edges_rel es"
    using fold_accept_edges [OF assms(1)] by simp
  then show ?thesis by (simp add: has_cycle_correct acyclic_def)
qed

abbreviation start_edges :: "(string \<times> dict) list \<Rightarrow> issue list \<Rightarrow> edge_pass" where
  "start_edges by_id iss \<equiv> \<lparr>ep_issues = iss, ep_seen = [], ep_incoming = (\<lambda>_. 0), ep_outgoing = (\<lambda>_. 0),
     ep_adjacency = map (\<lambda>(nid, _). (nid, [])) by_id\<rparr>"

lemma validate_graph_accepted:
  assumes v: "validate_graph graph defs True = Inr r" and ok: "result_ok r"
  obtains ns es trig where "well_formed_parts graph defs ns es trig"
    "vr_trigger_node_id r = Some (node_id trig)"
    "vr_credential_ids r = (\<Union>n \<in> set ns. refs_of defs n)"
proof -
  obtain nodes cs where g: "dget graph ''nodes'' = JArr nodes" "dget graph ''connections'' = JArr cs"
    and len: "length nodes \<le> MAX_NODES"
    using v ok by (auto simp: validate_graph_def early_result_def result_ok_def split: json.splits if_splits)
  obtain by_id iss where idx: "index_nodes nodes [] [] = Inr (by_id, iss)"
    using v g len by (auto simp: validate_graph_def split: sum.splits)
  define np where "np = check_nodes defs by_id iss"
  define ep0 where "ep0 = start_edges by_id (np_issues np @ trigger_issues True (np_triggers np))"
  obtain ep where ep: "check_connections defs by_id ep0 cs = Inr ep"
    using v g len idx by (auto simp: validate_graph_def np_def ep0_def Let_def split: sum.splits)
  have r: "vr_issues r = ep_issues ep
      @ (if has_cycle (ep_adjacency ep) then [err ''GRAPH_HAS_CYCLE'' None] else [])
      @ orphan_issues defs by_id (ep_incoming ep)
      @ (case np_triggers np of [] \<Rightarrow> []
         | t # _ \<Rightarrow> if ep_outgoing ep t = 0 then [err ''TRIGGER_NOT_CONNECTED'' (Some t)] else [])"
    "vr_credential_ids r = np_credentials np"
    "vr_trigger_node_id r = (case np_triggers np of [] \<Rightarrow> None | t # _ \<Rightarrow> Some t)"
    using v g len idx ep
    by (auto simp: validate_graph_def np_def ep0_def Let_def split: sum.splits list.splits)
  have clean: "errors_of (ep_issues ep) = []" "\<not> has_cycle (ep_adjacency ep)"
    using ok r by (auto simp: result_ok_def split: if_splits)
  obtain es where es: "map edge_of cs = map Inr es" "list_all (edge_ok defs by_id) es" "distinct es"
    "errors_of (ep_issues ep0) = []" "ep = fold accept_edge es ep0"
    using check_connections_clean [of ep0 defs by_id cs ep] ep clean(1) by (auto simp: ep0_def)
  obtain t where t: "np_triggers np = [t]" and npe: "errors_of (np_issues np) = []"
    using es(4) by (auto simp: ep0_def)
  have nodes_ok: "errors_of iss = []" "list_all (node_ok defs) (map snd by_id)"
    "distinct (map (node_name \<circ> snd) by_id)"
    using npe by (auto simp: np_def check_nodes_def check_nodes_errors)
  obtain ns where ns: "nodes = map JObj ns" "by_id = map (\<lambda>n. (node_id n, n)) ns"
    "list_all (\<lambda>n. node_id_ok (node_id n)) ns" "distinct (map node_id ns)"
    using index_nodes_no_errors [OF idx nodes_ok(1)] by auto
  have np: "np_triggers np = map fst (filter (trigger_key defs \<circ> snd) by_id)"
    "np_credentials np = (\<Union>e \<in> set by_id. refs_of defs (snd e))"
    using check_nodes_ok [OF nodes_ok(2,3)] by (simp_all add: np_def check_nodes_def)
  then have "map node_id (filter (trigger_key defs) ns) = [t]"
    using t by (simp add: ns(2) filter_map comp_def)
  then obtain trig where trig: "filter (trigger_key defs) ns = [trig]" "node_id trig = t" by auto
  have "acyclic (edges_rel es)"
    using clean(2) has_cycle_accept [OF es(2), of ep0] es(5) by (auto simp: ep0_def)
  moreover have "node_id trig \<in> fst ` set es"
    using ok r(1) t trig(2) fold_accept_outgoing [of es ep0 t] es(5)
    by (auto simp: result_ok_def ep0_def split: if_splits)
  ultimately have "well_formed_parts graph defs ns es trig"
    using g len ns es nodes_ok trig
    by (auto simp: well_formed_parts_def by_id_of_def comp_def list.pred_map)
  moreover have "vr_trigger_node_id r = Some (node_id trig)" using r(3) t trig(2) by simp
  moreover have "vr_credential_ids r = (\<Union>n \<in> set ns. refs_of defs n)"
    using r(2) np(2) ns(2) by simp
  ultimately show ?thesis by (rule that)
qed

lemma well_formed_accepted:
  assumes "well_formed_parts graph defs ns es trig"
  shows "\<exists>r. validate_graph graph defs True = Inr r \<and> result_ok r"
proof -
  obtain cs where g: "dget graph ''nodes'' = JArr (map JObj ns)" "dget graph ''connections'' = JArr cs"
    and len: "length ns \<le> MAX_NODES" and cs: "map edge_of cs = map Inr es"
    and ids: "list_all (\<lambda>n. node_id_ok (node_id n)) ns" "distinct (map node_id ns)"
    and nodes: "list_all (node_ok defs) ns" "distinct (map node_name ns)"
    and trig: "filter (trigger_key defs) ns = [trig]"
    and es: "list_all (edge_ok defs (by_id_of ns)) es" "distinct es" "acyclic (edges_rel es)"
    and start: "node_id trig \<in> fst ` set es"
    using assms by (auto simp: well_formed_parts_def)
  let ?by_id = "by_id_of ns"
  have idx: "index_nodes (map JObj ns) [] [] = Inr (?by_id, [])"
    using index_nodes_clean [OF ids(1), of "[]" "[]"] ids(2) by (simp add: by_id_of_def)
  define np where "np = check_nodes defs ?by_id []"
  have all: "list_all (node_ok defs) (map snd ?by_id)" "distinct (map (node_name \<circ> snd) ?by_id)"
    using nodes by (simp_all add: by_id_of_def comp_def list.pred_map)
  have npe: "errors_of (np_issues np) = []"
    using all by (simp add: np_def check_nodes_def check_nodes_errors)
  have "np_triggers np = map fst (filter (trigger_key defs \<circ> snd) ?by_id)"
    using check_nodes_ok [OF all] by (simp add: np_def check_nodes_def)
  then have t: "np_triggers np = [node_id trig]"
    using trig by (simp add: by_id_of_def filter_map comp_def)
  define ep0 where "ep0 = start_edges ?by_id (np_issues np @ trigger_issues True (np_triggers np))"
  define ep where "ep = fold accept_edge es ep0"
  have ep: "check_connections defs ?by_id ep0 cs = Inr ep" and epe: "errors_of (ep_issues ep) = []"
    using check_connections_clean [of ep0 defs ?by_id cs ep] cs es npe t by (auto simp: ep0_def ep_def)
  have "\<not> has_cycle (ep_adjacency ep)"
    using has_cycle_accept [OF es(1), of ep0] es(3) by (simp add: ep_def ep0_def)
  moreover have "ep_outgoing ep (node_id trig) \<noteq> 0"
    using fold_accept_outgoing [of es ep0 "node_id trig"] start by (simp add: ep_def)
  moreover have "check_nodes defs ?by_id [] = np" by (simp add: np_def)
  moreover have "start_edges ?by_id (np_issues np @ trigger_issues True [node_id trig]) = ep0"
    by (simp add: ep0_def t)
  ultimately show ?thesis
    using g len idx ep epe t by (simp add: validate_graph_def Let_def result_ok_def)
qed

text \<open>
  C1: \<open>validate_graph\<close> accepts exactly the well-formed graphs. The call returns a result
  without errors if and only if \<open>nodes\<close> and \<open>connections\<close> are lists, there are at most 200
  nodes, all objects, with distinct valid ids and distinct names, each of a known and
  enabled type with its required fields filled and its expressions sound; exactly one node
  is a trigger; every connection joins two different nodes of the graph through ports they
  offer and none is repeated; no path along the connections returns to where it started;
  and the trigger leads somewhere. In particular no accepted graph raises.
\<close>

theorem validate_graph_iff_well_formed:
  "(\<exists>r. validate_graph graph defs True = Inr r \<and> result_ok r) = well_formed graph defs"
proof
  assume "\<exists>r. validate_graph graph defs True = Inr r \<and> result_ok r"
  then show "well_formed graph defs" by (metis validate_graph_accepted well_formed_def)
next
  assume "well_formed graph defs"
  then show "\<exists>r. validate_graph graph defs True = Inr r \<and> result_ok r"
    using well_formed_accepted by (auto simp: well_formed_def)
qed

text \<open>the depth-first search finds a cycle exactly when the adjacency has one: some node
  reaches itself along at least one edge.\<close>

lemma has_cycle_iff: "has_cycle adj = (\<not> acyclic (edge_rel adj))"
  by (simp add: has_cycle_correct acyclic_def)

subsection \<open>The depth of the search\<close>

lemma index_nodes_length:
  "index_nodes nodes by_id iss = Inr (by_id', iss') \<Longrightarrow> length by_id' \<le> length by_id + length nodes"
proof (induction nodes arbitrary: by_id iss)
  case (Cons node nodes)
  then show ?case by (cases node) (fastforce simp: Let_def split: if_splits)+
qed simp

text \<open>Connections are kept between indexed nodes only, so the adjacency stays closed.\<close>

definition closed_over :: "string list \<Rightarrow> adjacency \<Rightarrow> bool" where
  "closed_over ids adj \<longleftrightarrow> map fst adj = ids \<and> edge_rel adj \<subseteq> UNIV \<times> set ids"

lemma add_edge_closed:
  assumes "closed_over ids (ep_adjacency st)" "t \<in> set ids"
  shows "closed_over ids (ep_adjacency (add_edge s t st))"
proof -
  have "map fst (map (\<lambda>(k, vs). if k = s then (k, vs @ [t]) else (k, vs)) adj) = map fst adj" for adj :: adjacency
    by (induction adj) auto
  then have "map fst (ep_adjacency (add_edge s t st)) = map fst (ep_adjacency st)"
    by (simp add: add_edge_def del: map_map)
  moreover have "edge_rel (ep_adjacency (add_edge s t st)) \<subseteq> insert (s, t) (edge_rel (ep_adjacency st))"
    by (auto simp: add_edge_def edge_rel_def neighbours_update split: if_splits)
  ultimately show ?thesis using assms by (auto simp: closed_over_def)
qed

lemma check_connection_closed:
  assumes "check_connection defs by_id st c = Inr st'" "closed_over (map fst by_id) (ep_adjacency st)"
  shows "closed_over (map fst by_id) (ep_adjacency st')"
  using assms add_edge_closed [of "map fst by_id" "st\<lparr>ep_seen := seen\<rparr>" for seen]
  by (force simp: check_connection_def edge_error_def Let_def split: sum.splits if_splits prod.splits)

lemma check_connections_closed:
  "check_connections defs by_id st cs = Inr st' \<Longrightarrow> closed_over (map fst by_id) (ep_adjacency st) \<Longrightarrow>
     closed_over (map fst by_id) (ep_adjacency st')"
  by (induction cs arbitrary: st) (auto split: sum.splits dest: check_connection_closed)

text \<open>
  C29: \<open>_has_cycle\<close> returns, and never nests deep. One unit of the model's fuel is one nested call of \<open>visit\<close>. On the adjacency
  that validation builds from a graph which it has not refused as too large, two hundred nested calls are enough,
  whatever the nodes and the connections say, and the answer is the one that the search has with any fuel. So the
  recursion stays far below the interpreter's limit.
\<close>

theorem cycle_search_terminates:
  assumes "length nodes \<le> MAX_NODES" "index_nodes nodes [] [] = Inr (by_id, iss)"
    and "check_connections defs by_id (start_edges by_id iss') connections = Inr ep"
  shows "visit_roots 200 (ep_adjacency ep) (\<lambda>_. WHITE) (map fst (ep_adjacency ep)) = Some (has_cycle (ep_adjacency ep))"
proof -
  have "neighbours (map (\<lambda>(nid, _). (nid, [])) by_id) v = []" for v
    by (induction by_id) (auto simp: neighbours_def)
  then have "closed_over (map fst by_id) (map (\<lambda>(nid, _). (nid, [])) by_id)"
    by (auto simp: closed_over_def edge_rel_def)
  then have "closed_over (map fst by_id) (ep_adjacency ep)"
    using check_connections_closed [OF assms(3)] by simp
  moreover have "length (map fst by_id) \<le> 200"
    using index_nodes_length [OF assms(2)] assms(1) by (simp add: MAX_NODES_def)
  ultimately obtain found where "visit_roots 200 (ep_adjacency ep) (\<lambda>_. WHITE) (map fst (ep_adjacency ep)) = Some found"
    using visit_roots_terminates [of "ep_adjacency ep" "map fst by_id" 200] by (auto simp: closed_over_def)
  then show ?thesis using more_fuel_same_answer by simp
qed

text \<open>\<open>collect_credential_ids\<close> and \<open>trigger_of\<close> look a node type up by
  \<open>str(node.get("node_key"))\<close>, validation by \<open>str(node.get("node_key") or "")\<close>; on an
  accepted graph the two agree.\<close>

lemma node_key_agrees:
  assumes "defs [] = None" "node_ok defs node"
  shows "py_str (dget node ''node_key'') = node_key_of node"
proof -
  have "node_key_of node \<noteq> []"
    using assms by (auto simp: node_ok_def split: option.splits json.splits)
  then show ?thesis by (auto simp: node_key_of_def str_or_empty_def split: if_splits)
qed

lemma collect_each_ok:
  assumes "defs [] = None" "list_all (node_ok defs) ns"
  shows "collect_each defs ns = Inr (\<Union>n \<in> set ns. refs_of defs n)"
  using assms(2)
proof (induction ns)
  case (Cons n ns)
  have "py_str (dget n ''node_key'') = node_key_of n" using node_key_agrees assms(1) Cons(2) by simp
  moreover obtain config where "or_else (dget n ''config'') (JObj []) = JObj config"
    using Cons(2) by (auto simp: node_ok_def split: option.splits json.splits)
  ultimately show ?case using Cons by (simp add: node_credentials_def refs_of_def Let_def)
qed simp

lemma first_trigger_ok:
  assumes "defs [] = None" "list_all (node_ok defs) ns"
  shows "first_trigger defs (map JObj ns) = Inr (find (trigger_key defs) ns)"
  using assms(2)
  by (induction ns) (auto simp: is_trigger_node_def trigger_key_def node_key_agrees [of defs, OF assms(1)])

lemma dicts_JObj [simp]: "dicts (map JObj ds) = Inr ds"
  by (induction ds) simp_all

lemma find_filter_Cons: "filter P xs = y # ys \<Longrightarrow> find P xs = Some y"
  by (induction xs) (auto split: if_splits)

text \<open>
  on an accepted graph the two walks that do not validate agree with validation:
  \<open>collect_credential_ids\<close> returns the credential ids that validation reported and
  \<open>trigger_of\<close> the node that it named as the trigger, and neither raises. (The registry is
  assumed to have no entry for the empty type name.)
\<close>

lemma walks_agree_with_validation:
  assumes "validate_graph graph defs True = Inr r" "result_ok r" "defs [] = None"
  shows "collect_credential_ids graph defs = Inr (vr_credential_ids r) \<and>
    (\<exists>t. trigger_of graph defs = Inr (Some t) \<and> vr_trigger_node_id r = Some (node_id t))"
proof -
  obtain ns es trig where wf: "well_formed_parts graph defs ns es trig"
    and r: "vr_trigger_node_id r = Some (node_id trig)"
      "vr_credential_ids r = (\<Union>n \<in> set ns. refs_of defs n)"
    using validate_graph_accepted [OF assms(1,2)] by blast
  have ok: "list_all (node_ok defs) ns" and trig: "filter (trigger_key defs) ns = [trig]"
    and g: "dget graph ''nodes'' = JArr (map JObj ns)"
    using wf by (simp_all add: well_formed_parts_def)
  have ne: "ns \<noteq> []" using trig by auto
  have "iterate (or_else (dget graph ''nodes'') (JArr [])) = Inr (map JObj ns)"
    using ne by (simp add: g or_else_def)
  then show ?thesis
    using r ok trig collect_each_ok [OF assms(3) ok] first_trigger_ok [OF assms(3) ok]
    by (simp add: collect_credential_ids_def trigger_of_def items_of_def find_filter_Cons)
qed

subsection \<open>A small registry and graphs over it\<close>

definition demo_registry :: registry where
  "demo_registry key =
     (if key = ''manual_trigger'' then
        Some (no_definition\<lparr>nd_status := ''ENABLED'', nd_is_trigger := True, nd_output_ports := [''main'']\<rparr>)
      else if key = ''http_request'' then
        Some (no_definition\<lparr>nd_status := ''ENABLED'', nd_output_ports := [''main''], nd_input_ports := [''main''],
          nd_fields := [\<lparr>fs_key = ''auth'', fs_type = ''credential'', fs_required = True,
                          fs_condition = None, fs_default = JNull\<rparr>]\<rparr>)
      else if key = ''switch'' then
        Some (no_definition\<lparr>nd_status := ''ENABLED'', nd_output_ports_from := ''rules'', nd_input_ports := [''main'']\<rparr>)
      else None)"

definition demo_node :: "string \<Rightarrow> string \<Rightarrow> json \<Rightarrow> json" where
  "demo_node nid key config =
     JObj [(''id'', JStr nid), (''node_key'', JStr key), (''name'', JStr nid), (''config'', config)]"

definition demo_edge :: "string \<Rightarrow> string \<Rightarrow> json" where
  "demo_edge a b = JObj [(''from'', JObj [(''node_id'', JStr a)]), (''to'', JObj [(''node_id'', JStr b)])]"

definition demo_graph :: dict where
  "demo_graph =
     [(''nodes'', JArr [demo_node ''a'' ''manual_trigger'' (JObj []),
                       demo_node ''b'' ''http_request'' (JObj [(''auth'', JStr ''c1'')])]),
      (''connections'', JArr [demo_edge ''a'' ''b''])]"

definition loop_nodes :: "json list" where
  "loop_nodes = [demo_node ''a'' ''http_request'' (JObj []), demo_node ''b'' ''http_request'' (JObj [])]"

definition loop_edges :: "json list" where
  "loop_edges = [demo_edge ''a'' ''b'', demo_edge ''b'' ''a'']"

theorem cycle_search_terminates_witness:
  "\<exists>by_id iss ep. index_nodes loop_nodes [] [] = Inr (by_id, iss) \<and>
     check_connections demo_registry by_id (start_edges by_id []) loop_edges = Inr ep \<and>
     visit_roots 200 (ep_adjacency ep) (\<lambda>_. WHITE) (map fst (ep_adjacency ep)) = Some True"
proof -
  let ?ids = "[(''a'', [(''id'', JStr ''a''), (''node_key'', JStr ''http_request''), (''name'', JStr ''a''), (''config'', JObj [])]),
    (''b'', [(''id'', JStr ''b''), (''node_key'', JStr ''http_request''), (''name'', JStr ''b''), (''config'', JObj [])])]"
  have idx: "index_nodes loop_nodes [] [] = Inr (?ids, [])"
    by code_simp
  have "case check_connections demo_registry ?ids (start_edges ?ids []) loop_edges of
      Inl _ \<Rightarrow> False | Inr ep \<Rightarrow> ep_adjacency ep = [(''a'', [''b'']), (''b'', [''a''])]"
    by code_simp
  then obtain ep where ep: "check_connections demo_registry ?ids (start_edges ?ids []) loop_edges = Inr ep"
    "ep_adjacency ep = [(''a'', [''b'']), (''b'', [''a''])]"
    by (auto split: sum.splits)
  have "has_cycle [(''a'', [''b'']), (''b'', [''a''])]"
    by code_simp
  then have "visit_roots 200 (ep_adjacency ep) (\<lambda>_. WHITE) (map fst (ep_adjacency ep)) = Some True"
    using cycle_search_terminates [OF _ idx ep(1)] by (simp add: ep(2) loop_nodes_def MAX_NODES_def)
  with idx ep(1) show ?thesis by blast
qed

lemma demo_graph_validates:
  "validate_graph demo_graph demo_registry True =
     Inr \<lparr>vr_issues = [], vr_credential_ids = {''c1''}, vr_trigger_node_id = Some ''a'',
          vr_trigger_node_key = Some ''manual_trigger''\<rparr>"
  by code_simp

lemma walks_agree_with_validation_example:
  "collect_credential_ids demo_graph demo_registry = Inr {''c1''} \<and>
    (\<exists>t. trigger_of demo_graph demo_registry = Inr (Some t) \<and> Some ''a'' = Some (node_id t))"
proof -
  have "demo_registry [] = None" by (simp add: demo_registry_def)
  from walks_agree_with_validation [OF demo_graph_validates _ this] show ?thesis
    by (simp add: result_ok_def)
qed

text \<open>A node whose ports come from its rules, whose configuration is not an object and which
  has an outgoing connection.\<close>

definition crash_graph :: "string \<Rightarrow> dict" where
  "crash_graph c =
     [(''nodes'', JArr [demo_node ''a'' ''switch'' (JStr c), demo_node ''b'' ''switch'' (JObj [])]),
      (''connections'', JArr [demo_edge ''a'' ''b''])]"

text \<open>
  validation reports a configuration that is not an object as an issue, and then trips
  over it: for any non-empty text in place of the configuration of a node whose ports come
  from its rules, an outgoing connection makes \<open>validate_graph\<close> raise \<open>AttributeError\<close>
  instead of returning the issue.
\<close>

lemma validate_graph_raises_on_text_config:
  assumes "c \<noteq> []"
  shows "validate_graph (crash_graph c) demo_registry req = Inl AttributeError"
  using assms
  by (simp add: validate_graph_def crash_graph_def demo_node_def demo_edge_def MAX_NODES_def node_id_def
      node_id_ok_def is_id_char_def check_nodes_def check_node_def node_key_of_def demo_registry_def
      node_blocked_def no_definition_def check_name_def node_name_def str_strip_def py_isspace_def
      MAX_NAME_LENGTH_def or_else_def Let_def check_connection_def edge_of_def endpoint_def
      lookup_node_def definition_for_def output_ports_def)

lemma validate_graph_raises_on_text_config_example:
  "validate_graph (crash_graph ''oops!'') demo_registry True = Inl AttributeError"
  using validate_graph_raises_on_text_config [of "''oops!''" True] by simp

section \<open>Hashing\<close>

lemma insort_key_map: "insort_key f (g x) (map g xs) = map g (insort_key (f \<circ> g) x xs)"
  by (induction xs) auto

lemma sort_key_map: "sort_key f (map g xs) = map g (sort_key (f \<circ> g) xs)"
  by (induction xs) (simp_all add: insort_key_map [of f g, unfolded comp_def] comp_def)

lemma sort_key_cong_mset:
  assumes "mset xs = mset ys" "inj_on f (set xs)"
  shows "sort_key f xs = sort_key f ys"
  by (rule sort_key_inj_key_eq) (use assms in simp_all)

lemma graph_material_cong:
  assumes "mset (map node_material ns) = mset (map node_material ns')"
    and "mset (map connection_material cs) = mset (map connection_material cs')"
    and "distinct (map (\<lambda>n. py_str (dget n ''id'')) ns)"
    and "inj_on (dumps True True '', '' '': '') (connection_material ` set cs)"
  shows "graph_material ns cs = graph_material ns' cs'"
proof -
  define k where "k m = (case m of JObj d \<Rightarrow> py_str (dget d ''id'') | _ \<Rightarrow> [])" for m
  have k: "k \<circ> node_material = (\<lambda>n. py_str (dget n ''id''))"
    by (simp add: k_def node_material_def fun_eq_iff)
  have "inj_on k (node_material ` set ns)"
    using assms(3) k by (auto simp: distinct_map inj_on_def fun_eq_iff)
  then have "sort_key k (map node_material ns) = sort_key k (map node_material ns')"
    by (intro sort_key_cong_mset [OF assms(1)]) simp
  then have "map node_material (sort_key (\<lambda>n. py_str (dget n ''id'')) ns) =
      map node_material (sort_key (\<lambda>n. py_str (dget n ''id'')) ns')"
    by (simp add: sort_key_map k)
  moreover have "sort_key (dumps True True '', '' '': '') (map connection_material cs) =
      sort_key (dumps True True '', '' '': '') (map connection_material cs')"
    by (rule sort_key_cong_mset [OF assms(2)]) (use assms(4) in simp)
  ultimately show ?thesis by (simp add: graph_material_def)
qed

text \<open>
  the hash depends only on what a graph means. Two graphs whose nodes agree up to order in
  id, type, name, configuration, schema version and the disabled flag (positions and any other
  key are free), and whose connections agree up to order, have the same hash, provided ids are
  distinct and different connections are spelled differently by \<open>json.dumps\<close>.
\<close>

lemma graph_hash_ignores_layout:
  assumes "items_of g ''nodes'' = Inr ns" "items_of g' ''nodes'' = Inr ns'"
    and "items_of g ''connections'' = Inr cs" "items_of g' ''connections'' = Inr cs'"
    and "mset (map node_material ns) = mset (map node_material ns')"
    and "mset (map connection_material cs) = mset (map connection_material cs')"
    and "distinct (map (\<lambda>n. py_str (dget n ''id'')) ns)"
    and "inj_on (dumps True True '', '' '': '') (connection_material ` set cs)"
  shows "graph_hash sha256 g = graph_hash sha256 g'"
  using assms graph_material_cong [OF assms(5-8)] by (simp add: graph_hash_def)

definition moved_graph :: dict where
  "moved_graph =
     [(''nodes'', JArr [JObj [(''position'', JObj [(''x'', JInt 7)]), (''id'', JStr ''b''),
                              (''node_key'', JStr ''http_request''), (''name'', JStr ''b''),
                              (''config'', JObj [(''auth'', JStr ''c1'')])],
                       demo_node ''a'' ''manual_trigger'' JNull]),
      (''connections'', JArr [demo_edge ''a'' ''b''])]"

lemma graph_hash_ignores_layout_example:
  "graph_hash rev demo_graph = graph_hash rev moved_graph"
proof -
  let ?a = "[(''id'', JStr ''a''), (''node_key'', JStr ''manual_trigger''), (''name'', JStr ''a''),
      (''config'', JObj [])]"
  let ?b = "[(''id'', JStr ''b''), (''node_key'', JStr ''http_request''), (''name'', JStr ''b''),
      (''config'', JObj [(''auth'', JStr ''c1'')])]"
  let ?a' = "[(''id'', JStr ''a''), (''node_key'', JStr ''manual_trigger''), (''name'', JStr ''a''),
      (''config'', JNull)]"
  let ?b' = "[(''position'', JObj [(''x'', JInt 7)]), (''id'', JStr ''b''),
      (''node_key'', JStr ''http_request''), (''name'', JStr ''b''),
      (''config'', JObj [(''auth'', JStr ''c1'')])]"
  let ?c = "[(''from'', JObj [(''node_id'', JStr ''a'')]), (''to'', JObj [(''node_id'', JStr ''b'')])]"
  have "items_of demo_graph ''nodes'' = Inr [?a, ?b]" "items_of moved_graph ''nodes'' = Inr [?b', ?a']"
    "items_of demo_graph ''connections'' = Inr [?c]" "items_of moved_graph ''connections'' = Inr [?c]"
    by (simp_all add: demo_graph_def moved_graph_def demo_node_def demo_edge_def items_of_def or_else_def)
  from graph_hash_ignores_layout [OF this, of rev] show ?thesis
    by (simp add: node_material_def or_else_def add_mset_commute)
qed

end
