(* ===== verification/Credentials.thy ===== *)
theory Credentials
  imports Alerts Validation
begin

text \<open>
  The secret store of \<open>app/core/secrets.py\<close> and the credential service,
  \<open>app/services/credentials.py\<close>. Secrets are envelope-encrypted: a fresh data key encrypts the
  payload and the key-encryption key wraps the data key; Fernet is the pair \<open>env_encrypt\<close>,
  \<open>env_decrypt\<close>. The field lists of the credential types are those of the bundled registry
  (\<open>app/resources/node_registry.json\<close>).
\<close>

section \<open>The secret store\<close>

definition find_secret :: "db \<Rightarrow> string \<Rightarrow> secret_record option" where
  "find_secret d ref = find (\<lambda>r. sr_ref r = ref) (db_secrets d)"

definition secret_write :: "env \<Rightarrow> uuid \<Rightarrow> dict \<Rightarrow> string option \<Rightarrow> db \<Rightarrow> string \<times> db" where
  "secret_write env wid payload ref d =
     (let ciphertext = env_encrypt env (env_key env) (JObj payload);
          wrapped = env_encrypt env (env_kek env) (JStr (env_key env));
          names = sort (map fst payload);
          existing = (case ref of None \<Rightarrow> None | Some r \<Rightarrow> if r = [] then None else find_secret d r)
      in case existing of
           Some rec \<Rightarrow>
             (sr_ref rec,
              d\<lparr>db_secrets := update_where (\<lambda>r. sr_ref r = sr_ref rec)
                 (\<lambda>r. r\<lparr>sr_wrapped_key := wrapped, sr_ciphertext := ciphertext, sr_field_names := names,
                       sr_rotated_at := env_now env, sr_version := sr_version r + 1\<rparr>) (db_secrets d)\<rparr>)
         | None \<Rightarrow>
             (let new_ref = (case ref of Some (c # cs) \<Rightarrow> c # cs
                             | _ \<Rightarrow> ''secret://'' @ cfg_app_env (env_settings env) @ ''/'' @ fresh_id env d)
              in (new_ref,
                  (bump d)\<lparr>db_secrets := db_secrets d @
                    [\<lparr>sr_ref = new_ref, sr_workspace_id = wid, sr_wrapped_key = wrapped,
                      sr_ciphertext = ciphertext, sr_field_names = names,
                      sr_rotated_at = env_now env, sr_version = 1\<rparr>]\<rparr>)))"

definition open_secret :: "env \<Rightarrow> string \<Rightarrow> secret_record \<Rightarrow> py_exc + dict" where
  "open_secret env kek rec =
     (case env_decrypt env kek (sr_wrapped_key rec) of
        Some (JStr data_key) \<Rightarrow>
          (case env_decrypt env data_key (sr_ciphertext rec) of
             Some (JObj payload) \<Rightarrow> Inr payload
           | _ \<Rightarrow> Inl InvalidToken)
      | _ \<Rightarrow> Inl InvalidToken)"

definition secret_read :: "env \<Rightarrow> string \<Rightarrow> db \<Rightarrow> py_exc + dict" where
  "secret_read env ref d =
     (case find_secret d ref of None \<Rightarrow> Inr [] | Some rec \<Rightarrow> open_secret env (env_kek env) rec)"

definition secret_delete :: "string \<Rightarrow> db \<Rightarrow> db" where
  "secret_delete ref d = d\<lparr>db_secrets := delete_where (\<lambda>r. sr_ref r = ref) (db_secrets d)\<rparr>"

subsection \<open>Rotating the key-encryption key\<close>

definition rewrap :: "env \<Rightarrow> string \<Rightarrow> string \<Rightarrow> secret_record \<Rightarrow> secret_record" where
  "rewrap env old new rec =
     (case env_decrypt env old (sr_wrapped_key rec) of
        None \<Rightarrow> rec
      | Some data_key \<Rightarrow> rec\<lparr>sr_wrapped_key := env_encrypt env new data_key\<rparr>)"

definition unwraps :: "env \<Rightarrow> string \<Rightarrow> secret_record \<Rightarrow> bool" where
  "unwraps env key rec = (env_decrypt env key (sr_wrapped_key rec) \<noteq> None)"

text \<open>The loop over batches in key order; an update leaves the order and the offsets alone.\<close>

function rewrap_loop :: "env \<Rightarrow> string \<Rightarrow> string \<Rightarrow> nat \<Rightarrow> nat \<Rightarrow> nat \<times> nat \<Rightarrow> secret_record list
    \<Rightarrow> (nat \<times> nat) \<times> secret_record list" where
  "rewrap_loop env old new batch offset counts rows =
     (let records = take batch (drop offset rows) in
      if records = [] then (counts, rows)
      else
        rewrap_loop env old new batch (offset + length records)
          (fst counts + count_where (unwraps env old) records,
           snd counts + count_where (\<lambda>r. \<not> unwraps env old r) records)
          (take offset rows @ map (rewrap env old new) records @ drop (offset + length records) rows))"
  by pat_completeness auto
termination
  by (relation "measure (\<lambda>(_, _, _, _, offset, _, rows). length rows - offset)") auto

declare rewrap_loop.simps [simp del]

definition rewrap_all :: "env \<Rightarrow> string \<Rightarrow> string \<Rightarrow> nat \<Rightarrow> db \<Rightarrow> (nat \<times> nat) \<times> db" where
  "rewrap_all env old new batch d =
     (let (counts, rows) = rewrap_loop env old new batch 0 (0, 0) (db_secrets d)
      in (counts, d\<lparr>db_secrets := rows\<rparr>))"

section \<open>Credential types\<close>

record type_spec =
  ts_secret_fields :: "string list"
  ts_public_fields :: "string list"
  ts_fields :: "(string \<times> bool) list"

fun type_spec_of :: "credential_type \<Rightarrow> type_spec" where
  "type_spec_of CT_NONE = \<lparr>ts_secret_fields = [], ts_public_fields = [], ts_fields = []\<rparr>"
| "type_spec_of CT_HTTP_BASIC = \<lparr>ts_secret_fields = [''username'', ''password''],
     ts_public_fields = [''username''], ts_fields = [(''username'', True), (''password'', True)]\<rparr>"
| "type_spec_of CT_BEARER = \<lparr>ts_secret_fields = [''token''], ts_public_fields = [],
     ts_fields = [(''token'', True)]\<rparr>"
| "type_spec_of CT_HEADER_API_KEY = \<lparr>ts_secret_fields = [''value''], ts_public_fields = [''header_name''],
     ts_fields = [(''header_name'', True), (''value'', True)]\<rparr>"
| "type_spec_of CT_QUERY_API_KEY = \<lparr>ts_secret_fields = [''value''], ts_public_fields = [''param_name''],
     ts_fields = [(''param_name'', True), (''value'', True)]\<rparr>"

definition BULLETS :: string where
  "BULLETS = concat (replicate 8 [CHR 0xE2, CHR 0x80, CHR 0xA2])"

definition mask_hint :: "string \<Rightarrow> string" where
  "mask_hint v = BULLETS @ (if length v \<ge> 8 then drop (length v - 4) v else [])"

record credential_view =
  cv_id :: uuid
  cv_name :: string
  cv_type :: credential_type
  cv_status :: credential_status
  cv_public_metadata :: dict
  cv_configured :: bool
  cv_masked_hint :: json
  cv_rotated_at :: "int option"
  cv_last_test_at :: "int option"
  cv_last_test_ok :: "bool option"

definition credential_public_view :: "credential \<Rightarrow> credential_view" where
  "credential_public_view row =
     (let spec = type_spec_of (cr_type row); metadata = cr_public_metadata row in
      \<lparr>cv_id = cr_id row, cv_name = cr_name row, cv_type = cr_type row, cv_status = cr_status row,
       cv_public_metadata = map (\<lambda>k. (k, dget metadata k))
         (filter (\<lambda>k. dget metadata k \<noteq> JNull) (ts_public_fields spec)),
       cv_configured = (text_or_empty (cr_secret_ref row) \<noteq> []),
       cv_masked_hint = dget metadata ''masked_hint'', cv_rotated_at = cr_rotated_at row,
       cv_last_test_at = cr_last_test_at row, cv_last_test_ok = cr_last_test_ok row\<rparr>)"

section \<open>Sorting a submitted form\<close>

definition field_error :: "string \<Rightarrow> string \<Rightarrow> service_error" where
  "field_error code key = App (AppError_init ValidationError
     (no_args\<lparr>arg_code := Some code, arg_details := Some [(''field'', JStr key)]\<rparr>))"

fun split_items :: "type_spec \<Rightarrow> dict \<Rightarrow> dict \<times> dict \<Rightarrow> service_error + dict \<times> dict" where
  "split_items spec [] acc = Inr acc"
| "split_items spec ((key, v) # items) (secret, pub) =
     (if key \<notin> fst ` set (ts_fields spec) then Inl (field_error ''CREDENTIAL_FIELD_UNKNOWN'' key)
      else if key \<in> set (ts_secret_fields spec) \<and> v = JNull then split_items spec items (secret, pub)
      else if key \<in> set (ts_secret_fields spec) \<and> str_strip (py_str v) = [] then
        Inl (field_error ''CREDENTIAL_FIELD_EMPTY'' key)
      else
        split_items spec items
          (if key \<in> set (ts_secret_fields spec) then dput secret key (JStr (py_str v)) else secret,
           if key \<in> set (ts_public_fields spec) \<and> v \<noteq> JNull then dput pub key (JStr (py_str v)) else pub))"

fun longest :: "string list \<Rightarrow> string" where
  "longest [] = []"
| "longest (s # ss) = foldl (\<lambda>best t. if length t > length best then t else best) s ss"

definition split_payload :: "type_spec \<Rightarrow> dict \<Rightarrow> bool \<Rightarrow> service_error + dict \<times> dict" where
  "split_payload spec form require_all =
     (case split_items spec form ([], []) of
        Inl e \<Rightarrow> Inl e
      | Inr (secret, pub) \<Rightarrow>
          (let missing = filter (\<lambda>(k, req). req \<and> k \<notin> fst ` set secret \<and> k \<notin> fst ` set pub) (ts_fields spec) in
           if require_all \<and> missing \<noteq> [] then
             Inl (App (AppError_init ValidationError (no_args\<lparr>arg_code := Some ''CREDENTIAL_INCOMPLETE'',
               arg_details := Some [(''fields'', JArr (map (JStr \<circ> fst) missing))]\<rparr>)))
           else
             Inr (secret,
               if secret \<noteq> [] then dput pub ''masked_hint'' (JStr (mask_hint (longest (map (py_str \<circ> snd) secret))))
               else pub)))"

section \<open>The service\<close>

definition list_credentials :: "request_context \<Rightarrow> string \<Rightarrow> db \<Rightarrow> service_error + credential_view list" where
  "list_credentials ctx query d =
     (case ctx_require ctx M_CREDENTIALS A_VIEW of
        Inl e \<Rightarrow> Inl e
      | Inr _ \<Rightarrow>
          (let rows = sort_key cr_name (filter (\<lambda>c. cr_workspace_id c = ctx_workspace_id ctx \<and> cr_deleted_at c = None)
                 (db_credentials d));
               needle = str_lower (str_strip query)
           in Inr (map credential_public_view
                (if query \<noteq> [] then filter (\<lambda>r. str_contains needle (str_lower (cr_name r))) rows else rows))))"

definition credential_get :: "request_context \<Rightarrow> uuid \<Rightarrow> db \<Rightarrow> service_error + credential" where
  "credential_get ctx cid d =
     (case find (\<lambda>c. cr_id c = cid \<and> cr_workspace_id c = ctx_workspace_id ctx \<and> cr_deleted_at c = None) (db_credentials d) of
        None \<Rightarrow> Inl (App (raise_class NotFoundError))
      | Some c \<Rightarrow> Inr c)"

text \<open>The unique constraint on \<open>(workspace_id, name)\<close>, which also counts deleted rows.\<close>

definition name_taken :: "db \<Rightarrow> uuid \<Rightarrow> uuid \<Rightarrow> string \<Rightarrow> bool" where
  "name_taken d cid wid name =
     list_ex (\<lambda>c. cr_id c \<noteq> cid \<and> cr_workspace_id c = wid \<and> cr_name c = name) (db_credentials d)"

definition credential_create :: "env \<Rightarrow> request_context \<Rightarrow> string \<Rightarrow> string \<Rightarrow> dict \<Rightarrow> db
    \<Rightarrow> (service_error + credential_view) \<times> db" where
  "credential_create env ctx name0 ctype form d =
     guarded (ctx_require ctx M_CREDENTIALS A_CREATE) d
       (case credential_type_of ctype of
          None \<Rightarrow> (Inl (Crash ValueErr), d)
        | Some kind \<Rightarrow>
            (let name = str_strip name0 in
             if name = [] then (Inl (App (raise_class ValidationError)), d)
             else if list_ex (\<lambda>c. cr_workspace_id c = ctx_workspace_id ctx \<and>
                 str_lower (cr_name c) = str_lower name \<and> cr_deleted_at c = None) (db_credentials d)
             then (Inl (App (raise_class ConflictError)), d)
             else
               (case split_payload (type_spec_of kind) form True of
                  Inl e \<Rightarrow> (Inl e, d)
                | Inr (secret, pub) \<Rightarrow>
                    (let cid = fresh_id env d;
                         row = \<lparr>cr_id = cid, cr_workspace_id = ctx_workspace_id ctx, cr_name = name, cr_type = kind,
                                cr_secret_ref = None, cr_public_metadata = pub, cr_status = CS_ACTIVE,
                                cr_last_test_at = None, cr_last_test_ok = None, cr_last_test_message = None,
                                cr_created_by = ctx_user_id ctx, cr_rotated_at = None, cr_deleted_at = None\<rparr>
                     in if name_taken d cid (ctx_workspace_id ctx) name then (Inl (Crash IntegrityErr), d)
                        else
                          (let d1 = (bump d)\<lparr>db_credentials := db_credentials d @ [row]\<rparr>;
                               (row2, d2) =
                                 (if secret \<noteq> [] then
                                    (let (ref, d') = secret_write env (ctx_workspace_id ctx) secret None d1;
                                         r = row\<lparr>cr_secret_ref := Some ref, cr_rotated_at := Some (env_now env)\<rparr>
                                     in (r, put_credential r d'))
                                  else (row, d1))
                           in (Inr (credential_public_view row2),
                               audit_record env ctx
                                 ((entry ''credential.created'' ''CREDENTIAL'' cid name)\<lparr>aa_after :=
                                    [(''credential_type'', JStr ctype),
                                     (''fields'', JArr (map JStr (sort (map fst secret))))]\<rparr>) d2))))))"

definition credential_update :: "env \<Rightarrow> request_context \<Rightarrow> uuid \<Rightarrow> string option \<Rightarrow> dict \<Rightarrow> db
    \<Rightarrow> (service_error + credential_view) \<times> db" where
  "credential_update env ctx cid name form d =
     guarded (ctx_require ctx M_CREDENTIALS A_EDIT) d
       (case credential_get ctx cid d of
          Inl e \<Rightarrow> (Inl e, d)
        | Inr row \<Rightarrow>
            if name \<noteq> None \<and> str_strip (text_or_empty name) = [] then (Inl (App (raise_class ValidationError)), d)
            else
              (let row1 = (case name of None \<Rightarrow> row | Some n \<Rightarrow> row\<lparr>cr_name := str_strip n\<rparr>) in
               case (if form = [] then Inr ([], []) else split_payload (type_spec_of (cr_type row)) form False) of
                 Inl e \<Rightarrow> (Inl e, d)
               | Inr (secret, pub) \<Rightarrow>
                   if name_taken d cid (ctx_workspace_id ctx) (cr_name row1) then (Inl (Crash IntegrityErr), d)
                   else
                     (let row2 = row1\<lparr>cr_public_metadata := foldl (\<lambda>m (k, v). dput m k v) (cr_public_metadata row1) pub\<rparr>;
                          (row3, d1) =
                            (if secret \<noteq> [] then
                               (let (ref, d') = secret_write env (ctx_workspace_id ctx) secret (cr_secret_ref row) d
                                in (row2\<lparr>cr_secret_ref := Some ref, cr_rotated_at := Some (env_now env),
                                        cr_status := CS_ACTIVE, cr_last_test_ok := None, cr_last_test_message := None\<rparr>, d'))
                             else (row2, d))
                      in (Inr (credential_public_view row3),
                          audit_record env ctx
                            ((entry (if secret \<noteq> [] then ''credential.rotated'' else ''credential.updated'')
                                ''CREDENTIAL'' cid (cr_name row3))\<lparr>
                               aa_before := [(''name'', JStr (cr_name row)), (''status'', JStr (credential_status_value (cr_status row)))],
                               aa_after := [(''name'', JStr (cr_name row3)), (''rotated'', JBool (secret \<noteq> []))]\<rparr>)
                            (put_credential row3 d1)))))"

subsection \<open>Dependents and deletion\<close>

record dependent =
  dp_kind :: string
  dp_workflow :: uuid
  dp_blocking :: bool

definition mentions :: "env \<Rightarrow> string \<Rightarrow> dict \<Rightarrow> py_exc + bool" where
  "mentions env needle graph =
     (case collect_credential_ids graph (env_registry env) of Inl e \<Rightarrow> Inl e | Inr ids \<Rightarrow> Inr (needle \<in> ids))"

definition draft_dependents :: "env \<Rightarrow> string \<Rightarrow> workflow \<Rightarrow> db \<Rightarrow> py_exc + dependent list" where
  "draft_dependents env needle w d =
     (case get_draft_row d (wf_id w) of
        None \<Rightarrow> Inr []
      | Some dr \<Rightarrow>
          (case mentions env needle (dr_graph dr) of
             Inl e \<Rightarrow> Inl e
           | Inr b \<Rightarrow> Inr (if b then [\<lparr>dp_kind = ''WORKFLOW_DRAFT'', dp_workflow = wf_id w, dp_blocking = False\<rparr>] else [])))"

definition version_dependents :: "env \<Rightarrow> string \<Rightarrow> workflow \<Rightarrow> db \<Rightarrow> py_exc + dependent list" where
  "version_dependents env needle w d =
     (case Option.bind (wf_active_version_id w) (get_version_row d) of
        None \<Rightarrow> Inr []
      | Some v \<Rightarrow>
          (case mentions env needle (wv_graph v) of
             Inl e \<Rightarrow> Inl e
           | Inr b \<Rightarrow> Inr (if b then [\<lparr>dp_kind = ''ACTIVE_VERSION'', dp_workflow = wf_id w,
               dp_blocking = (wf_status w = WF_ACTIVE)\<rparr>] else [])))"

fun dependents_in :: "env \<Rightarrow> string \<Rightarrow> db \<Rightarrow> workflow list \<Rightarrow> py_exc + dependent list" where
  "dependents_in env needle d [] = Inr []"
| "dependents_in env needle d (w # ws) =
     (case draft_dependents env needle w d of
        Inl e \<Rightarrow> Inl e
      | Inr a \<Rightarrow>
          (case version_dependents env needle w d of
             Inl e \<Rightarrow> Inl e
           | Inr b \<Rightarrow>
               (case dependents_in env needle d ws of Inl e \<Rightarrow> Inl e | Inr c \<Rightarrow> Inr (a @ b @ c))))"

definition live_workflows :: "uuid \<Rightarrow> db \<Rightarrow> workflow list" where
  "live_workflows wid d = filter (\<lambda>w. wf_workspace_id w = wid \<and> wf_deleted_at w = None) (db_workflows d)"

definition dependents_of :: "env \<Rightarrow> request_context \<Rightarrow> uuid \<Rightarrow> db \<Rightarrow> py_exc + dependent list" where
  "dependents_of env ctx cid d =
     dependents_in env (show_uuid cid) d (live_workflows (ctx_workspace_id ctx) d)"

definition in_use_error :: "dependent list \<Rightarrow> service_error" where
  "in_use_error blocking = App (AppError_init ResourceInUseError
     (no_args\<lparr>arg_constraints := Some (map (\<lambda>u. [(''type'', JStr (dp_kind u)), (''id'', JStr (show_uuid (dp_workflow u)))]) blocking),
       arg_remediation := Some [(''action'', JStr ''VIEW_DEPENDENCIES'')]\<rparr>))"

definition credential_delete :: "env \<Rightarrow> request_context \<Rightarrow> uuid \<Rightarrow> db \<Rightarrow> (service_error + unit) \<times> db" where
  "credential_delete env ctx cid d =
     guarded (ctx_require ctx M_CREDENTIALS A_DELETE) d
       (case credential_get ctx cid d of
          Inl e \<Rightarrow> (Inl e, d)
        | Inr row \<Rightarrow>
            (case dependents_of env ctx cid d of
               Inl e \<Rightarrow> (Inl (Crash e), d)
             | Inr uses \<Rightarrow>
                 (let blocking = filter dp_blocking uses in
                  if blocking \<noteq> [] then (Inl (in_use_error blocking), d)
                  else
                    (let row' = row\<lparr>cr_deleted_at := Some (env_now env), cr_status := CS_DELETED, cr_secret_ref := None\<rparr>;
                         d1 = (if text_or_empty (cr_secret_ref row) \<noteq> [] then secret_delete (text_or_empty (cr_secret_ref row)) d else d)
                     in (Inr (),
                         audit_record env ctx
                           ((entry ''credential.deleted'' ''CREDENTIAL'' cid (cr_name row))\<lparr>
                              aa_before := [(''credential_type'', JStr (credential_type_value (cr_type row)))]\<rparr>)
                           (put_credential row' d1))))))"

subsection \<open>Resolution for one execution\<close>

record runtime_credential =
  rc_id :: string
  rc_type :: string
  rc_data :: dict

definition resolvable :: "uuid \<Rightarrow> string set \<Rightarrow> credential \<Rightarrow> bool" where
  "resolvable wid ids c =
     (Some (cr_id c) \<in> parse_uuid ` ids \<and> cr_workspace_id c = wid \<and> cr_deleted_at c = None)"

fun resolve_rows :: "env \<Rightarrow> db \<Rightarrow> credential list \<Rightarrow> py_exc + runtime_credential list" where
  "resolve_rows env d [] = Inr []"
| "resolve_rows env d (c # cs) =
     (if cr_status c = CS_REVOKED then resolve_rows env d cs
      else
        (case (if text_or_empty (cr_secret_ref c) \<noteq> [] then secret_read env (text_or_empty (cr_secret_ref c)) d else Inr []) of
           Inl e \<Rightarrow> Inl e
         | Inr payload \<Rightarrow>
             (case resolve_rows env d cs of
                Inl e \<Rightarrow> Inl e
              | Inr rest \<Rightarrow>
                  Inr (\<lparr>rc_id = show_uuid (cr_id c), rc_type = credential_type_value (cr_type c),
                        rc_data = foldl (\<lambda>m (k, v). dput m k v)
                          (filter (\<lambda>(k, _). k \<noteq> ''masked_hint'') (cr_public_metadata c)) payload\<rparr> # rest))))"

definition resolve_for_execution :: "env \<Rightarrow> uuid \<Rightarrow> string set \<Rightarrow> db \<Rightarrow> py_exc + runtime_credential list" where
  "resolve_for_execution env wid ids d =
     resolve_rows env d (filter (resolvable wid ids) (db_credentials d))"

subsection \<open>Test results\<close>

definition mark_invalid :: "env \<Rightarrow> uuid \<Rightarrow> string \<Rightarrow> db \<Rightarrow> db" where
  "mark_invalid env cid message d =
     (case get_credential_row d cid of
        None \<Rightarrow> d
      | Some row \<Rightarrow>
          if cr_status row = CS_REVOKED then d
          else put_credential (row\<lparr>cr_status := CS_INVALID, cr_last_test_ok := Some False,
            cr_last_test_message := Some (take 500 message), cr_last_test_at := Some (env_now env)\<rparr>) d)"

definition record_test :: "env \<Rightarrow> request_context \<Rightarrow> uuid \<Rightarrow> bool \<Rightarrow> string option \<Rightarrow> db
    \<Rightarrow> (service_error + credential_view) \<times> db" where
  "record_test env ctx cid ok message d =
     (case credential_get ctx cid d of
        Inl e \<Rightarrow> (Inl e, d)
      | Inr row \<Rightarrow>
          (let row' = row\<lparr>cr_last_test_at := Some (env_now env), cr_last_test_ok := Some ok,
                 cr_last_test_message := nonempty (take 500 (text_or_empty message)),
                 cr_status := (if ok \<and> cr_status row = CS_INVALID then CS_ACTIVE
                               else if \<not> ok then CS_INVALID else cr_status row)\<rparr>
           in (Inr (credential_public_view row'),
               audit_record env ctx
                 ((entry ''credential.tested'' ''CREDENTIAL'' cid (cr_name row))\<lparr>
                    aa_result := (if ok then AR_SUCCESS else AR_FAILURE), aa_after := [(''ok'', JBool ok)]\<rparr>)
                 (put_credential row' d))))"


section \<open>Properties\<close>

subsection \<open>Key rotation\<close>

lemma count_where_not: "count_where P xs + count_where (\<lambda>x. \<not> P x) xs = length xs"
  by (induction xs) auto

lemma rewrap_loop_eq:
  assumes "batch > 0" "offset \<le> length rows"
  shows "rewrap_loop env old new batch offset (a, b) rows =
    ((a + count_where (unwraps env old) (drop offset rows),
      b + count_where (\<lambda>r. \<not> unwraps env old r) (drop offset rows)),
     take offset rows @ map (rewrap env old new) (drop offset rows))"
  using assms
proof (induction env old new batch offset "(a, b)" rows arbitrary: a b rule: rewrap_loop.induct)
  case (1 env old new batch offset rows)
  define recs where "recs = take batch (drop offset rows)"
  define rest where "rest = drop (offset + length recs) rows"
  have split: "drop offset rows = recs @ rest"
    unfolding recs_def rest_def
    by (cases "length (drop offset rows) \<le> batch")
      (simp_all add: drop_drop [symmetric] add.commute [of offset] del: drop_drop)
  show ?case
  proof (cases "recs = []")
    case True
    then have "drop offset rows = []" using 1(2,3) by (simp add: recs_def)
    then show ?thesis using True by (simp add: rewrap_loop.simps [of env old new batch offset] recs_def)
  next
    case False
    have len: "offset + length recs \<le> length rows" using 1(3) by (simp add: recs_def)
    let ?rows = "take offset rows @ map (rewrap env old new) recs @ rest"
    have step: "rewrap_loop env old new batch offset (a, b) rows =
        rewrap_loop env old new batch (offset + length recs)
          (a + count_where (unwraps env old) recs, b + count_where (\<lambda>r. \<not> unwraps env old r) recs) ?rows"
      using False by (subst rewrap_loop.simps) (simp add: recs_def [symmetric] rest_def Let_def)
    have dropq: "drop (offset + length recs) ?rows = rest" "take (offset + length recs) ?rows = take offset rows @ map (rewrap env old new) recs"
      using 1(3) by simp_all
    have "offset + length recs \<le> length ?rows" using 1(3) by simp
    then have "rewrap_loop env old new batch offset (a, b) rows =
        ((a + count_where (unwraps env old) recs + count_where (unwraps env old) rest,
          b + count_where (\<lambda>r. \<not> unwraps env old r) recs + count_where (\<lambda>r. \<not> unwraps env old r) rest),
         (take offset rows @ map (rewrap env old new) recs) @ map (rewrap env old new) rest)"
      unfolding step using 1(1) [OF recs_def False 1(2)] dropq by (simp add: rest_def)
    then show ?thesis by (simp add: split add.assoc)
  qed
qed

lemma rewrap_all_eq:
  "batch > 0 \<Longrightarrow> rewrap_all env old new batch d =
     ((count_where (unwraps env old) (db_secrets d), count_where (\<lambda>r. \<not> unwraps env old r) (db_secrets d)),
      d\<lparr>db_secrets := map (rewrap env old new) (db_secrets d)\<rparr>)"
  using rewrap_loop_eq [of batch 0 "db_secrets d" env old new 0 0] by (simp add: rewrap_all_def)

text \<open>
  C9: rotating the key-encryption key loses nothing. Given that decrypting what was encrypted under
  the same key returns it, that text encrypted under the new key does not open with the old one,
  and that data keys are text, after \<open>rewrap_all\<close> every secret that opened under the old key
  opens under the new one with the same payload, a record that did not unwrap with the old key
  is untouched, the counts cover every record, and a second run changes nothing.
\<close>

theorem rewrap_all_preserves_secrets:
  assumes "\<And>s. env_decrypt env new (env_encrypt env new (JStr s)) = Some (JStr s)"
    and "\<And>s. env_decrypt env old (env_encrypt env new (JStr s)) = None"
    and "\<And>r x. r \<in> set (db_secrets d) \<Longrightarrow> env_decrypt env old (sr_wrapped_key r) = Some x \<Longrightarrow> \<exists>s. x = JStr s"
    and "batch > 0" "rewrap_all env old new batch d = ((rotated, skipped), d')"
  shows "rotated + skipped = length (db_secrets d) \<and>
    list_all2 (\<lambda>r r'. (\<forall>p. open_secret env old r = Inr p \<longrightarrow> open_secret env new r' = Inr p) \<and>
       (\<not> unwraps env old r \<longrightarrow> r' = r)) (db_secrets d) (db_secrets d') \<and>
    snd (rewrap_all env old new batch d') = d'"
proof -
  have r: "rotated = count_where (unwraps env old) (db_secrets d)"
    "skipped = count_where (\<lambda>r. \<not> unwraps env old r) (db_secrets d)"
    and d': "d' = d\<lparr>db_secrets := map (rewrap env old new) (db_secrets d)\<rparr>"
    using assms(4,5) by (simp_all add: rewrap_all_eq)
  have keep: "open_secret env new (rewrap env old new r) = Inr p" if "open_secret env old r = Inr p" for r p
    using that by (auto simp: open_secret_def rewrap_def assms(1) split: option.splits json.splits)
  have same: "rewrap env old new r = r" if "\<not> unwraps env old r" for r
    using that by (simp add: unwraps_def rewrap_def)
  have again: "rewrap env old new (rewrap env old new r) = rewrap env old new r" if "r \<in> set (db_secrets d)" for r
    using assms(3) [OF that] by (auto simp: rewrap_def assms(2) split: option.splits)
  have "list_all2 (\<lambda>r r'. (\<forall>p. open_secret env old r = Inr p \<longrightarrow> open_secret env new r' = Inr p) \<and>
       (\<not> unwraps env old r \<longrightarrow> r' = r)) rs (map (rewrap env old new) rs)" for rs
    using keep same by (induction rs) auto
  moreover have "snd (rewrap_all env old new batch d') = d'"
    using assms(4) again by (simp add: rewrap_all_eq d')
  ultimately show ?thesis using r count_where_not by (simp add: d')
qed

text \<open>A toy cipher: the key, a tag and the text.\<close>

definition toy_env :: env where
  "toy_env = demo_env\<lparr>
     env_encrypt := (\<lambda>k x. k @ (case x of JStr s \<Rightarrow> '':s'' @ s | _ \<Rightarrow> '':o'')),
     env_decrypt := (\<lambda>k c. if starts_with c (k @ '':s'') then Some (JStr (drop (length k + 2) c))
       else if starts_with c (k @ '':o'') then Some (JObj []) else None)\<rparr>"

definition toy_secret :: "string \<Rightarrow> string \<Rightarrow> secret_record" where
  "toy_secret ref wrapped = \<lparr>sr_ref = ref, sr_workspace_id = ''w'', sr_wrapped_key = wrapped,
     sr_ciphertext = ''dk:o'', sr_field_names = [], sr_rotated_at = 0, sr_version = 1\<rparr>"

definition toy_db :: db where
  "toy_db = empty_db\<lparr>db_secrets := [toy_secret ''s1'' ''old:sdk'', toy_secret ''s2'' ''third:sdk'']\<rparr>"

theorem rewrap_all_preserves_secrets_witness:
  "fst (rewrap_all toy_env ''old'' ''new'' 1 toy_db) = (1, 1) \<and>
    snd (rewrap_all toy_env ''old'' ''new'' 1 (snd (rewrap_all toy_env ''old'' ''new'' 1 toy_db))) =
      snd (rewrap_all toy_env ''old'' ''new'' 1 toy_db)"
proof -
  have e: "rewrap_all toy_env ''old'' ''new'' 1 toy_db = ((1, 1), snd (rewrap_all toy_env ''old'' ''new'' 1 toy_db))"
    by (simp add: rewrap_all_eq toy_db_def toy_secret_def toy_env_def unwraps_def starts_with_def)
  have "snd (rewrap_all toy_env ''old'' ''new'' 1 (snd (rewrap_all toy_env ''old'' ''new'' 1 toy_db))) =
      snd (rewrap_all toy_env ''old'' ''new'' 1 toy_db)"
    by (rule rewrap_all_preserves_secrets [OF _ _ _ _ e, THEN conjunct2, THEN conjunct2])
      (auto simp: toy_env_def toy_db_def toy_secret_def starts_with_def)
  then show ?thesis using e by (metis fst_conv)
qed

subsection \<open>What leaves the service\<close>

lemma split_items_keys:
  "split_items spec items (s0, p0) = Inr (secret, pub) \<Longrightarrow>
     fst ` set s0 \<subseteq> set (ts_secret_fields spec) \<Longrightarrow> fst ` set p0 \<subseteq> set (ts_public_fields spec) \<Longrightarrow>
     list_all (\<lambda>(k, v). str_strip (py_str v) \<noteq> []) s0 \<Longrightarrow>
     fst ` set secret \<subseteq> set (ts_secret_fields spec) \<and> fst ` set pub \<subseteq> set (ts_public_fields spec) \<and>
     list_all (\<lambda>(k, v). str_strip (py_str v) \<noteq> []) secret"
proof (induction spec items "(s0, p0)" arbitrary: s0 p0 rule: split_items.induct)
  case (2 spec key v items s0 p0)
  have put: "list_all (\<lambda>(k, v). str_strip (py_str v) \<noteq> []) (dput s k x)"
    if "list_all (\<lambda>(k, v). str_strip (py_str v) \<noteq> []) s" "str_strip (py_str x) \<noteq> []" for s k x
    using that by (induction s k x rule: dput.induct) auto
  show ?case
    using 2 put [OF 2(6), of "JStr (py_str v)"] by (auto simp: keys_dput split: if_splits)
qed auto

text \<open>
  A submitted credential form is sorted without leaking. Whatever is accepted, the encrypted
  part holds only secret fields of the type, none of them blank; the displayable part holds only
  public fields of the type and the hint; and the hint is eight bullets followed by at most four
  characters.
\<close>

lemma split_payload_separates:
  assumes "split_payload spec form req = Inr (secret, pub)" "''masked_hint'' \<notin> set (ts_public_fields spec)"
  shows "fst ` set secret \<subseteq> set (ts_secret_fields spec) \<and>
    (\<forall>(k, v) \<in> set secret. str_strip (py_str v) \<noteq> []) \<and>
    fst ` set pub \<subseteq> insert ''masked_hint'' (set (ts_public_fields spec)) \<and>
    (dget pub ''masked_hint'' = JNull \<or>
     (\<exists>tail. dget pub ''masked_hint'' = JStr (BULLETS @ tail) \<and> length tail \<le> 4))"
proof -
  obtain pub0 where s: "split_items spec form ([], []) = Inr (secret, pub0)"
    and pub: "pub = (if secret \<noteq> [] then dput pub0 ''masked_hint'' (JStr (mask_hint (longest (map (py_str \<circ> snd) secret)))) else pub0)"
    using assms(1) by (auto simp: split_payload_def Let_def split: sum.splits if_splits)
  have keys: "fst ` set secret \<subseteq> set (ts_secret_fields spec)" "fst ` set pub0 \<subseteq> set (ts_public_fields spec)"
    "list_all (\<lambda>(k, v). str_strip (py_str v) \<noteq> []) secret"
    using split_items_keys [OF s] by auto
  have "map_of pub0 ''masked_hint'' = None"
    using keys(2) assms(2) by (auto simp: map_of_eq_None_iff)
  then have hint: "dget pub ''masked_hint'' =
      (if secret \<noteq> [] then JStr (mask_hint (longest (map (py_str \<circ> snd) secret))) else JNull)"
    by (simp add: pub dget_def)
  have "\<exists>tail. mask_hint v = BULLETS @ tail \<and> length tail \<le> 4" for v
    by (auto simp: mask_hint_def)
  then show ?thesis
    using keys hint by (auto simp: pub keys_dput list_all_iff)
qed

lemma split_payload_separates_example:
  "\<exists>tail. dget [(''masked_hint'', JStr (BULLETS @ ''WXYZ''))] ''masked_hint'' = JStr (BULLETS @ tail) \<and> length tail \<le> 4"
proof -
  have "split_payload (type_spec_of CT_BEARER) [(''token'', JStr ''abcdWXYZ'')] True =
      Inr ([(''token'', JStr ''abcdWXYZ'')], [(''masked_hint'', JStr (BULLETS @ ''WXYZ''))])"
    by code_simp
  from split_payload_separates [OF this] show ?thesis by simp
qed

subsection \<open>Deletion and its guard\<close>

lemma dependents_in_blocking:
  assumes "dependents_in env needle d ws = Inr uses" "w \<in> set ws" "wf_status w = WF_ACTIVE"
    and "wf_active_version_id w = Some vid" "get_version_row d vid = Some v"
    and "collect_credential_ids (wv_graph v) (env_registry env) = Inr ids" "needle \<in> ids"
  shows "filter dp_blocking uses \<noteq> []"
  using assms
proof (induction ws arbitrary: uses)
  case (Cons x ws)
  obtain a b c where parts: "draft_dependents env needle x d = Inr a" "version_dependents env needle x d = Inr b"
    "dependents_in env needle d ws = Inr c" "uses = a @ b @ c"
    using Cons(2) by (auto split: sum.splits)
  show ?case
  proof (cases "x = w")
    case True
    then have "b = [\<lparr>dp_kind = ''ACTIVE_VERSION'', dp_workflow = wf_id w, dp_blocking = True\<rparr>]"
      using parts(2) assms(3-7) by (simp add: version_dependents_def mentions_def)
    then show ?thesis by (simp add: parts(4))
  next
    case False
    then show ?thesis using Cons(1) [OF parts(3)] Cons(3-) by (auto simp: parts(4))
  qed
qed simp

text \<open>
  a credential that an active workflow fires with is not deleted: when \<open>delete\<close> succeeds, no
  active workflow of the workspace has an active version whose graph names the credential by its
  canonical id.
\<close>

lemma delete_spares_credentials_in_use:
  assumes "credential_delete env ctx cid d = (Inr (), d')"
    and "w \<in> set (live_workflows (ctx_workspace_id ctx) d)" "wf_status w = WF_ACTIVE"
    and "wf_active_version_id w = Some vid" "get_version_row d vid = Some v"
    and "collect_credential_ids (wv_graph v) (env_registry env) = Inr ids"
  shows "show_uuid cid \<notin> ids"
proof
  assume "show_uuid cid \<in> ids"
  moreover obtain uses where "dependents_of env ctx cid d = Inr uses" "filter dp_blocking uses = []"
    using assms(1) by (auto simp: credential_delete_def guarded_def Let_def split: sum.splits if_splits)
  ultimately show False
    using dependents_in_blocking assms(2-6) unfolding dependents_of_def by metis
qed


lemma dependents_in_none:
  assumes "\<And>w dr. w \<in> set ws \<Longrightarrow> get_draft_row d (wf_id w) = Some dr \<Longrightarrow>
      \<exists>ids. collect_credential_ids (dr_graph dr) (env_registry env) = Inr ids \<and> needle \<notin> ids"
    and "\<And>w vid v. w \<in> set ws \<Longrightarrow> wf_active_version_id w = Some vid \<Longrightarrow> get_version_row d vid = Some v \<Longrightarrow>
      \<exists>ids. collect_credential_ids (wv_graph v) (env_registry env) = Inr ids \<and> needle \<notin> ids"
  shows "dependents_in env needle d ws = Inr []"
  using assms
proof (induction ws)
  case (Cons w ws)
  have "draft_dependents env needle w d = Inr []"
    using Cons(2) [of w] by (fastforce simp: draft_dependents_def mentions_def split: option.splits)
  moreover have "version_dependents env needle w d = Inr []"
    using Cons(3) [of w] by (fastforce simp: version_dependents_def mentions_def bind_eq_Some_conv split: option.splits)
  moreover have "dependents_in env needle d ws = Inr []"
    using Cons(1) Cons(2,3) by (metis list.set_intros(2))
  ultimately show ?case by simp
qed simp

text \<open>
  the guard compares text, the runtime compares identifiers. If every graph of the workspace
  spells a credential in another way that \<open>uuid.UUID\<close> accepts (without hyphens, in capitals),
  \<open>delete\<close> goes through although active workflows use the credential: execution would have
  resolved that spelling to it.
\<close>

lemma other_spelling_escapes_delete_guard:
  assumes "ctx_can ctx M_CREDENTIALS A_DELETE" "credential_get ctx cid d = Inr row"
    and "parse_uuid t = Some cid" "t \<noteq> show_uuid cid"
    and "\<And>w dr. w \<in> set (live_workflows (ctx_workspace_id ctx) d) \<Longrightarrow> get_draft_row d (wf_id w) = Some dr \<Longrightarrow>
      \<exists>ids \<subseteq> {t}. collect_credential_ids (dr_graph dr) (env_registry env) = Inr ids"
    and "\<And>w vid v. w \<in> set (live_workflows (ctx_workspace_id ctx) d) \<Longrightarrow> wf_active_version_id w = Some vid \<Longrightarrow>
      get_version_row d vid = Some v \<Longrightarrow>
      \<exists>ids \<subseteq> {t}. collect_credential_ids (wv_graph v) (env_registry env) = Inr ids"
  shows "fst (credential_delete env ctx cid d) = Inr () \<and> resolvable (ctx_workspace_id ctx) {t} row"
proof -
  have "dependents_of env ctx cid d = Inr []"
    unfolding dependents_of_def
  proof (rule dependents_in_none)
    fix w dr assume "w \<in> set (live_workflows (ctx_workspace_id ctx) d)" "get_draft_row d (wf_id w) = Some dr"
    then show "\<exists>ids. collect_credential_ids (dr_graph dr) (env_registry env) = Inr ids \<and> show_uuid cid \<notin> ids"
      using assms(4,5) by blast
  next
    fix w vid v assume "w \<in> set (live_workflows (ctx_workspace_id ctx) d)" "wf_active_version_id w = Some vid"
      "get_version_row d vid = Some v"
    then show "\<exists>ids. collect_credential_ids (wv_graph v) (env_registry env) = Inr ids \<and> show_uuid cid \<notin> ids"
      using assms(4,6) by blast
  qed
  moreover have "ctx_require ctx M_CREDENTIALS A_DELETE = Inr ()" using assms(1) by (simp add: ctx_require_iff)
  moreover have "cr_id row = cid" "cr_workspace_id row = ctx_workspace_id ctx" "cr_deleted_at row = None"
    using assms(2) by (auto simp: credential_get_def split: option.splits dest: find_SomeD)
  ultimately show ?thesis
    using assms(2,3) by (simp add: credential_delete_def guarded_def resolvable_def Let_def)
qed

definition demo_cid :: uuid where "demo_cid = replicate 32 (CHR ''a'')"

definition demo_credential :: credential where
  "demo_credential = \<lparr>cr_id = demo_cid, cr_workspace_id = ''w'', cr_name = ''key'', cr_type = CT_BEARER,
     cr_secret_ref = None, cr_public_metadata = [], cr_status = CS_ACTIVE, cr_last_test_at = None,
     cr_last_test_ok = None, cr_last_test_message = None, cr_created_by = None, cr_rotated_at = None,
     cr_deleted_at = None\<rparr>"

definition demo_workflow :: workflow where
  "demo_workflow = \<lparr>wf_id = ''f'', wf_workspace_id = ''w'', wf_name = ''flow'', wf_description = None,
     wf_status = WF_ACTIVE, wf_published_version_id = Some ''v'', wf_active_version_id = Some ''v'',
     wf_trigger_type_cache = None, wf_created_by = None, wf_updated_by = None, wf_deleted_at = None\<rparr>"

definition demo_version :: "string \<Rightarrow> workflow_version" where
  "demo_version t = \<lparr>wv_id = ''v'', wv_workflow_id = ''f'', wv_workspace_id = ''w'', wv_number = 1,
     wv_graph = [(''nodes'', JArr [demo_node ''b'' ''http_request'' (JObj [(''auth'', JStr t)])]), (''connections'', JArr [])],
     wv_graph_hash = [], wv_schema_version = 1, wv_compiler_version = [], wv_engine_set = [],
     wv_published_by = None, wv_published_at = 0, wv_change_note = None\<rparr>"

definition admin_ctx :: request_context where
  "admin_ctx = system_context ''w'' ''t'' ''UTC''"

lemma admin_ctx_simps [simp]:
  "ctx_can admin_ctx m a" "ctx_require admin_ctx m a = Inr ()" "ctx_workspace_id admin_ctx = ''w''"
  "ctx_user_id admin_ctx = None" "ctx_timezone admin_ctx = ''UTC''"
  by (simp_all add: admin_ctx_def ctx_require_iff) (simp_all add: system_context_def)

lemma other_spelling_escapes_delete_guard_example:
  "fst (credential_delete (demo_env\<lparr>env_registry := demo_registry\<rparr>) admin_ctx demo_cid
     (empty_db\<lparr>db_credentials := [demo_credential], db_workflows := [demo_workflow],
       db_versions := [demo_version (replicate 32 (CHR ''A''))]\<rparr>)) = Inr ()"
proof -
  have p: "parse_uuid (replicate 32 (CHR ''A'')) = Some demo_cid" by code_simp
  have n: "replicate 32 (CHR ''A'') \<noteq> show_uuid demo_cid" by code_simp
  have c: "collect_credential_ids (wv_graph (demo_version (replicate 32 (CHR ''A'')))) demo_registry =
      Inr {replicate 32 (CHR ''A'')}"
    by code_simp
  show ?thesis
    by (rule other_spelling_escapes_delete_guard [OF _ _ p n, THEN conjunct1, of _ _ demo_credential])
      (use c in \<open>auto simp: credential_get_def demo_credential_def get_draft_row_def
        live_workflows_def get_version_row_def empty_db_def demo_workflow_def demo_version_def\<close>)
qed

text \<open>
  The name of a deleted credential is taken for good: creating one under that name passes the
  service's own duplicate check, which skips deleted rows, and then fails on the database
  constraint, which does not, with an \<open>IntegrityError\<close>.
\<close>

lemma deleted_name_blocks_create:
  assumes "ctx_can ctx M_CREDENTIALS A_CREATE" "credential_type_of ctype = Some kind" "str_strip name \<noteq> []"
    and "split_payload (type_spec_of kind) form True = Inr parts"
    and "\<forall>c \<in> set (db_credentials d). cr_workspace_id c = ctx_workspace_id ctx \<longrightarrow> cr_deleted_at c = None \<longrightarrow>
      str_lower (cr_name c) \<noteq> str_lower (str_strip name)"
    and "c \<in> set (db_credentials d)" "cr_workspace_id c = ctx_workspace_id ctx" "cr_name c = str_strip name"
    and "cr_deleted_at c \<noteq> None" "cr_id c \<noteq> fresh_id env d"
  shows "credential_create env ctx name ctype form d = (Inl (Crash IntegrityErr), d)"
proof -
  have "ctx_require ctx M_CREDENTIALS A_CREATE = Inr ()" using assms(1) by (simp add: ctx_require_iff)
  moreover have "\<not> list_ex (\<lambda>c. cr_workspace_id c = ctx_workspace_id ctx \<and>
      str_lower (cr_name c) = str_lower (str_strip name) \<and> cr_deleted_at c = None) (db_credentials d)"
    using assms(5) by (auto simp: list_ex_iff)
  moreover have "name_taken d (fresh_id env d) (ctx_workspace_id ctx) (str_strip name)"
    using assms(6-10) by (auto simp: name_taken_def list_ex_iff)
  ultimately show ?thesis
    using assms(2-4) by (cases parts) (simp add: credential_create_def Let_def)
qed

lemma deleted_name_blocks_create_example:
  "fst (credential_create demo_env admin_ctx ''key'' ''NONE'' []
     (empty_db\<lparr>db_credentials := [demo_credential\<lparr>cr_deleted_at := Some 0, cr_status := CS_DELETED\<rparr>]\<rparr>)) =
   Inl (Crash IntegrityErr)"
proof -
  have t: "credential_type_of ''NONE'' = Some CT_NONE" by code_simp
  have s: "split_payload (type_spec_of CT_NONE) [] True = Inr ([], [])" by code_simp
  have n: "str_strip ''key'' = ''key''" by code_simp
  have i: "demo_cid \<noteq> fresh_id demo_env d" for d
  proof
    assume "demo_cid = fresh_id demo_env d"
    then have "hd demo_cid = hd (fresh_id demo_env d)" by (rule arg_cong)
    then show False by (simp add: fresh_id_def demo_env_def demo_cid_def hd_append)
  qed
  show ?thesis
    by (subst deleted_name_blocks_create [OF _ t _ s, of _ _ _ "demo_credential\<lparr>cr_deleted_at := Some 0, cr_status := CS_DELETED\<rparr>"])
      (use i in \<open>simp_all add: n demo_credential_def\<close>)
qed

text \<open>Nothing of another workspace is ever resolved, and nothing deleted or revoked.\<close>

lemma resolve_rows_source:
  "resolve_rows env d cs = Inr out \<Longrightarrow> rc \<in> set out \<Longrightarrow>
     \<exists>c \<in> set cs. rc_id rc = show_uuid (cr_id c) \<and> cr_status c \<noteq> CS_REVOKED"
  by (induction cs arbitrary: out) (auto split: if_splits sum.splits)



end
