(* ===== verification/Access.thy ===== *)
theory Access
  imports Security Credentials
begin

text \<open>
  Sign-in, workspace membership and the session payload, \<open>app/services/access.py\<close>. The membership
  table is in the order of \<open>created_at\<close>. A service that raises has flushed what the returned database
  shows; the routes commit only what did not raise.
\<close>

section \<open>Rows\<close>

definition get_user :: "db \<Rightarrow> uuid \<Rightarrow> user option" where
  "get_user d i = find (\<lambda>u. us_id u = i) (db_users d)"

definition put_user :: "user \<Rightarrow> db \<Rightarrow> db" where
  "put_user u d = d\<lparr>db_users := update_where (\<lambda>r. us_id r = us_id u) (\<lambda>_. u) (db_users d)\<rparr>"

definition put_membership :: "membership \<Rightarrow> db \<Rightarrow> db" where
  "put_membership m d = d\<lparr>db_memberships := update_where (\<lambda>r. me_id r = me_id m) (\<lambda>_. m) (db_memberships d)\<rparr>"

definition put_workspace :: "workspace \<Rightarrow> db \<Rightarrow> db" where
  "put_workspace w d = d\<lparr>db_workspaces := update_where (\<lambda>r. ws_id r = ws_id w) (\<lambda>_. w) (db_workspaces d)\<rparr>"

definition normalized_email :: "string \<Rightarrow> string" where
  "normalized_email raw = str_lower (str_strip raw)"

definition user_by_email :: "db \<Rightarrow> string \<Rightarrow> user option" where
  "user_by_email d e = find (\<lambda>u. str_lower (us_email u) = e) (db_users d)"

definition user_label :: "db \<Rightarrow> uuid \<Rightarrow> string" where
  "user_label d i = (case get_user d i of None \<Rightarrow> [] | Some u \<Rightarrow> us_email u)"

section \<open>What an account can reach\<close>

record workspace_access =
  wa_workspace :: workspace
  wa_role :: role
  wa_via_organization :: bool
  wa_org_role :: "org_role option"
  wa_permissions :: "dict option"

definition organizations_of :: "db \<Rightarrow> uuid \<Rightarrow> (uuid \<times> org_role) list" where
  "organizations_of d uid =
     map (\<lambda>m. (om_organization_id m, om_role m)) (filter (\<lambda>m. om_user_id m = uid) (db_org_memberships d))"

definition org_role_of_user :: "db \<Rightarrow> uuid \<Rightarrow> uuid \<Rightarrow> org_role option" where
  "org_role_of_user d uid oid =
     map_option om_role (find (\<lambda>m. om_user_id m = uid \<and> om_organization_id m = oid) (db_org_memberships d))"

definition grants_workspaces :: "org_role option \<Rightarrow> bool" where
  "grants_workspaces r = (case r of None \<Rightarrow> False | Some x \<Rightarrow> x \<in> set ORG_ROLES_WITH_WORKSPACE_ACCESS)"

definition effective_role :: "bool \<Rightarrow> role option \<Rightarrow> org_role option \<Rightarrow> py_exc + role" where
  "effective_role is_platform_admin workspace_role org =
     (case workspace_role of
        Some r \<Rightarrow> Inr r
      | None \<Rightarrow>
          if is_platform_admin then Inr R_PLATFORM_ADMIN
          else if grants_workspaces org then Inr R_OWNER
          else Inl LookupErr)"

definition ws_active :: "workspace \<Rightarrow> bool" where "ws_active w = (ws_status w = WS_ACTIVE)"

definition own_memberships :: "db \<Rightarrow> uuid \<Rightarrow> (workspace \<times> membership) list" where
  "own_memberships d uid =
     List.map_filter (\<lambda>m. case get_workspace d (me_workspace_id m) of
         Some w \<Rightarrow> if me_user_id m = uid \<and> ws_active w then Some (w, m) else None | None \<Rightarrow> None) (db_memberships d)"

text \<open>\<open>workspaces.setdefault(workspace.id, workspace)\<close> over a list.\<close>

definition add_missing :: "workspace list \<Rightarrow> workspace list \<Rightarrow> workspace list" where
  "add_missing ws rest = foldl (\<lambda>acc w. if ws_id w \<in> ws_id ` set acc then acc else acc @ [w]) ws rest"

definition reachable_workspaces :: "db \<Rightarrow> user \<Rightarrow> workspace list" where
  "reachable_workspaces d u =
     (let own = add_missing [] (map fst (own_memberships d (us_id u)));
          admin_orgs = map fst (filter (\<lambda>(i, r). r \<in> set ORG_ROLES_WITH_WORKSPACE_ACCESS) (organizations_of d (us_id u)));
          through = add_missing own (filter (\<lambda>w. ws_organization_id w \<in> set admin_orgs \<and> ws_active w) (db_workspaces d))
      in if us_is_platform_admin u then add_missing through (filter ws_active (db_workspaces d)) else through)"

definition access_to :: "db \<Rightarrow> user \<Rightarrow> workspace \<Rightarrow> workspace_access option" where
  "access_to d u w =
     (let org = map_of (organizations_of d (us_id u)) (ws_organization_id w);
          via = grants_workspaces org;
          m = map_option snd (find (\<lambda>(x, _). ws_id x = ws_id w) (own_memberships d (us_id u)))
      in case effective_role (us_is_platform_admin u) (map_option me_role m) org of
           Inl _ \<Rightarrow> None
         | Inr r \<Rightarrow> Some \<lparr>wa_workspace = w, wa_role = r, wa_via_organization = via, wa_org_role = org,
             wa_permissions = (case m of None \<Rightarrow> None
               | Some x \<Rightarrow> if via \<or> us_is_platform_admin u then None else me_permissions x)\<rparr>)"

definition user_reachable :: "db \<Rightarrow> user \<Rightarrow> workspace_access list" where
  "user_reachable d u =
     sort_key (\<lambda>a. if ws_active (wa_workspace a) then 0 else 1 :: nat)
       (List.map_filter (access_to d u) (reachable_workspaces d u))"

definition landing :: "db \<Rightarrow> user \<Rightarrow> uuid option" where
  "landing d u = (case user_reachable d u of [] \<Rightarrow> None | a # _ \<Rightarrow> Some (ws_id (wa_workspace a)))"

section \<open>Signing in\<close>

definition invalid_credentials :: service_error where
  "invalid_credentials = App (raise_code UnauthorizedError ''INVALID_CREDENTIALS'')"

definition is_locked :: "env \<Rightarrow> user \<Rightarrow> bool" where
  "is_locked env u = (case us_locked_until u of None \<Rightarrow> False | Some t \<Rightarrow> t > env_now env)"

definition count_failure :: "env \<Rightarrow> user \<Rightarrow> user" where
  "count_failure env u =
     (let u' = u\<lparr>us_failed_login_count := us_failed_login_count u + 1\<rparr> in
      if us_failed_login_count u' \<ge> cfg_login_max_attempts (env_settings env)
      then u'\<lparr>us_locked_until := Some (env_now env + seconds (cfg_login_lockout_seconds (env_settings env))),
             us_failed_login_count := 0\<rparr>
      else u')"

definition signed_in :: "env \<Rightarrow> user \<Rightarrow> user" where
  "signed_in env u = u\<lparr>us_failed_login_count := 0, us_locked_until := None, us_last_login_at := Some (env_now env)\<rparr>"

definition authenticate :: "crypto \<Rightarrow> env \<Rightarrow> string \<Rightarrow> string \<Rightarrow> db \<Rightarrow> (service_error + user \<times> string) \<times> db" where
  "authenticate cx env email password d =
     (case user_by_email d (normalized_email email) of
        None \<Rightarrow> (Inl invalid_credentials, d)
      | Some u \<Rightarrow>
          if is_locked env u then
            (Inl (App (AppError_init UnauthorizedError (no_args\<lparr>arg_code := Some ''ACCOUNT_LOCKED'',
               arg_details := Some [(''locked_until'', case us_locked_until u of None \<Rightarrow> JNull | Some t \<Rightarrow> JInt t)]\<rparr>))), d)
          else if \<not> us_is_active u then (Inl (App (raise_code UnauthorizedError ''ACCOUNT_DISABLED'')), d)
          else if \<not> verify_password cx password (us_password_hash u)
          then (Inl invalid_credentials, put_user (count_failure env u) d)
          else
            (let u' = signed_in env u; d' = put_user u' d in
             (Inr (u', issue_session_token cx env (us_id u') (landing d' u') (us_session_version u') d'), d')))"

definition change_password :: "crypto \<Rightarrow> env \<Rightarrow> user \<Rightarrow> string \<Rightarrow> string \<Rightarrow> db \<Rightarrow> (service_error + user \<times> string) \<times> db" where
  "change_password cx env u current new d =
     (if \<not> verify_password cx current (us_password_hash u) then (Inl invalid_credentials, d)
      else if password_problems new \<noteq> [] then (Inl (password_too_weak (password_problems new)), d)
      else
        (case hash_password cx new of
           Inl e \<Rightarrow> (Inl e, d)
         | Inr h \<Rightarrow>
             (let u' = u\<lparr>us_password_hash := h, us_password_change_required := False,
                    us_password_changed_at := Some (env_now env), us_session_version := us_session_version u + 1\<rparr>;
                  d' = put_user u' d
              in (Inr (u', issue_session_token cx env (us_id u') (landing d' u') (us_session_version u') d'), d'))))"

record session_view =
  sv_user :: user
  sv_workspace :: "workspace_access option"
  sv_workspaces :: "workspace_access list"
  sv_role :: role
  sv_permissions :: dict

definition session_payload :: "db \<Rightarrow> user \<Rightarrow> uuid option \<Rightarrow> session_view" where
  "session_payload d u workspace_id =
     (let accesses = user_reachable d u;
          named = find (\<lambda>a. Some (ws_id (wa_workspace a)) = workspace_id) accesses;
          current = (case named of Some a \<Rightarrow> Some a | None \<Rightarrow> (case accesses of [] \<Rightarrow> None | a # _ \<Rightarrow> Some a));
          r = (case current of Some a \<Rightarrow> wa_role a | None \<Rightarrow> R_ANALYST);
          perms = effective r (case current of Some a \<Rightarrow> wa_permissions a | None \<Rightarrow> None) (us_is_platform_admin u)
      in \<lparr>sv_user = u, sv_workspace = current, sv_workspaces = accesses, sv_role = r, sv_permissions = serialise perms\<rparr>)"

section \<open>Members\<close>

definition list_members :: "request_context \<Rightarrow> db \<Rightarrow> service_error + (membership \<times> user) list" where
  "list_members ctx d =
     (case ctx_require ctx M_MEMBERS A_VIEW of
        Inl e \<Rightarrow> Inl e
      | Inr _ \<Rightarrow> Inr (List.map_filter (\<lambda>m. map_option (Pair m) (get_user d (me_user_id m)))
          (filter (\<lambda>m. me_workspace_id m = ctx_workspace_id ctx) (db_memberships d))))"

definition assignable :: "string \<Rightarrow> service_error + role" where
  "assignable raw =
     (let allowed = Some [(''allowed'', JArr (map (JStr \<circ> role_value) ASSIGNABLE_ROLES))] in
      case role_of (str_upper raw) of
        None \<Rightarrow> Inl (App (AppError_init ValidationError (no_args\<lparr>arg_details := allowed\<rparr>)))
      | Some r \<Rightarrow>
          if r \<notin> set ASSIGNABLE_ROLES then Inl (App (AppError_init ForbiddenError (no_args\<lparr>arg_details := allowed\<rparr>)))
          else Inr r)"

definition invited_user :: "uuid \<Rightarrow> string \<Rightarrow> string \<Rightarrow> string \<Rightarrow> user" where
  "invited_user i email full_name h =
     \<lparr>us_id = i, us_email = email, us_full_name = full_name, us_password_hash = h, us_is_active = True,
      us_is_platform_admin = False, us_last_login_at = None, us_failed_login_count = 0, us_locked_until = None,
      us_password_change_required = True, us_session_version = 0, us_password_changed_at = None\<rparr>"

text \<open>An account that exists keeps its password; the initial one is for a new account only.\<close>

definition ensure_account :: "crypto \<Rightarrow> env \<Rightarrow> string \<Rightarrow> string \<Rightarrow> string \<Rightarrow> db \<Rightarrow> (service_error + user) \<times> db" where
  "ensure_account cx env email full_name password d =
     (let e = normalized_email email in
      case user_by_email d e of
        Some u \<Rightarrow> (Inr u, d)
      | None \<Rightarrow>
          (case hash_password cx password of
             Inl x \<Rightarrow> (Inl x, d)
           | Inr h \<Rightarrow>
               (let name = str_strip full_name;
                    u = invited_user (fresh_id env d) e (if name = [] then e else name) h
                in (Inr u, (bump d)\<lparr>db_users := db_users d @ [u]\<rparr>))))"

definition member_entry :: "string \<Rightarrow> uuid \<Rightarrow> string \<Rightarrow> dict \<Rightarrow> dict \<Rightarrow> audit_entry" where
  "member_entry act uid label before after =
     (entry act ''MEMBER'' uid label)\<lparr>aa_before := before, aa_after := after\<rparr>"

definition role_json :: "role \<Rightarrow> dict" where
  "role_json r = [(''role'', JStr (role_value r))]"

definition invite_member :: "crypto \<Rightarrow> env \<Rightarrow> request_context \<Rightarrow> string \<Rightarrow> string \<Rightarrow> string \<Rightarrow> string \<Rightarrow> db
    \<Rightarrow> (service_error + membership \<times> user) \<times> db" where
  "invite_member cx env ctx email full_name raw_role password d =
     guarded (ctx_require ctx M_MEMBERS A_CREATE) d
       (case assignable raw_role of
          Inl e \<Rightarrow> (Inl e, d)
        | Inr r \<Rightarrow>
            if password_problems password \<noteq> [] then (Inl (password_too_weak (password_problems password)), d)
            else
              (case ensure_account cx env email full_name password d of
                 (Inl e, d1) \<Rightarrow> (Inl e, d1)
               | (Inr u, d1) \<Rightarrow>
                   if list_ex (\<lambda>m. me_workspace_id m = ctx_workspace_id ctx \<and> me_user_id m = us_id u) (db_memberships d1)
                   then (Inl (App (raise_class ConflictError)), d1)
                   else
                     (let m = \<lparr>me_id = fresh_id env d1, me_workspace_id = ctx_workspace_id ctx, me_user_id = us_id u,
                            me_role = r, me_permissions = None\<rparr>;
                          d2 = (bump d1)\<lparr>db_memberships := db_memberships d1 @ [m]\<rparr>
                      in (Inr (m, u), audit_record env ctx (member_entry ''member.invited'' (us_id u) (us_email u) [] (role_json r)) d2))))"

definition member_row :: "request_context \<Rightarrow> uuid \<Rightarrow> db \<Rightarrow> membership option" where
  "member_row ctx mid d = find (\<lambda>m. me_id m = mid \<and> me_workspace_id m = ctx_workspace_id ctx) (db_memberships d)"

definition guard_last_owner :: "request_context \<Rightarrow> uuid \<Rightarrow> db \<Rightarrow> service_error + unit" where
  "guard_last_owner ctx exclude d =
     (if count_where (\<lambda>m. me_workspace_id m = ctx_workspace_id ctx \<and> me_role m = R_OWNER \<and> me_id m \<noteq> exclude)
           (db_memberships d) = 0
      then Inl (App (AppError_init ConflictError (no_args\<lparr>arg_code := Some ''LAST_OWNER'',
             arg_remediation := Some [(''action'', JStr ''ASSIGN_ANOTHER_OWNER'')]\<rparr>)))
      else Inr ())"

text \<open>The statements that read, and the statements that write, of one request: two requests interleave
  between them.\<close>

definition update_role_read :: "request_context \<Rightarrow> uuid \<Rightarrow> string \<Rightarrow> db \<Rightarrow> service_error + membership \<times> role" where
  "update_role_read ctx mid raw_role d =
     (case ctx_require ctx M_MEMBERS A_EDIT of
        Inl e \<Rightarrow> Inl e
      | Inr _ \<Rightarrow>
          (case assignable raw_role of
             Inl e \<Rightarrow> Inl e
           | Inr r \<Rightarrow>
               (case member_row ctx mid d of
                  None \<Rightarrow> Inl (App (raise_class NotFoundError))
                | Some m \<Rightarrow>
                    if me_role m = R_OWNER \<and> r \<noteq> R_OWNER
                    then (case guard_last_owner ctx (me_id m) d of Inl e \<Rightarrow> Inl e | Inr _ \<Rightarrow> Inr (m, r))
                    else Inr (m, r))))"

text \<open>Only the changed column is written.\<close>

definition update_role_write :: "env \<Rightarrow> request_context \<Rightarrow> membership \<Rightarrow> role \<Rightarrow> db \<Rightarrow> db" where
  "update_role_write env ctx m r d =
     audit_record env ctx
       (member_entry ''member.role_changed'' (me_user_id m) (user_label d (me_user_id m)) (role_json (me_role m)) (role_json r))
       (d\<lparr>db_memberships := update_where (\<lambda>x. me_id x = me_id m) (\<lambda>x. x\<lparr>me_role := r\<rparr>) (db_memberships d)\<rparr>)"

definition update_role :: "env \<Rightarrow> request_context \<Rightarrow> uuid \<Rightarrow> string \<Rightarrow> db \<Rightarrow> (service_error + membership) \<times> db" where
  "update_role env ctx mid raw_role d =
     (case update_role_read ctx mid raw_role d of
        Inl e \<Rightarrow> (Inl e, d)
      | Inr (m, r) \<Rightarrow> (Inr (m\<lparr>me_role := r\<rparr>), update_role_write env ctx m r d))"

definition dict_json :: "dict option \<Rightarrow> json" where
  "dict_json v = (case v of None \<Rightarrow> JNull | Some x \<Rightarrow> JObj x)"

definition stored_overrides :: "dict option \<Rightarrow> py_exc + dict option" where
  "stored_overrides overrides =
     (case overrides of
        None \<Rightarrow> Inr None
      | Some [] \<Rightarrow> Inr None
      | Some x \<Rightarrow> (case parse_overrides (Some x) of Inl e \<Rightarrow> Inl e | Inr s \<Rightarrow> Inr (Some s)))"

definition update_permissions :: "env \<Rightarrow> request_context \<Rightarrow> uuid \<Rightarrow> dict option \<Rightarrow> db
    \<Rightarrow> (service_error + membership \<times> dict) \<times> db" where
  "update_permissions env ctx mid overrides d =
     guarded (ctx_require ctx M_MEMBERS A_ADMIN) d
       (case member_row ctx mid d of
          None \<Rightarrow> (Inl (App (raise_class NotFoundError)), d)
        | Some m \<Rightarrow>
            (case stored_overrides overrides of
               Inl _ \<Rightarrow> (Inl (App (raise_code ValidationError ''PERMISSION_OVERRIDE_INVALID'')), d)
             | Inr stored \<Rightarrow>
                 (let m' = m\<lparr>me_permissions := stored\<rparr> in
                  (Inr (m', serialise (effective (me_role m) stored False)),
                   audit_record env ctx
                     (member_entry ''member.permissions_changed'' (me_user_id m) (user_label d (me_user_id m))
                        [(''permissions'', dict_json (me_permissions m))] [(''permissions'', dict_json stored)])
                     (put_membership m' d)))))"

definition remove_member :: "env \<Rightarrow> request_context \<Rightarrow> uuid \<Rightarrow> db \<Rightarrow> (service_error + unit) \<times> db" where
  "remove_member env ctx mid d =
     guarded (ctx_require ctx M_MEMBERS A_DELETE) d
       (case member_row ctx mid d of
          None \<Rightarrow> (Inl (App (raise_class NotFoundError)), d)
        | Some m \<Rightarrow>
            (case (if me_role m = R_OWNER then guard_last_owner ctx (me_id m) d else Inr ()) of
               Inl e \<Rightarrow> (Inl e, d)
             | Inr _ \<Rightarrow>
                 (Inr (), audit_record env ctx
                    (member_entry ''member.removed'' (me_user_id m) (user_label d (me_user_id m)) [] [])
                    (d\<lparr>db_memberships := delete_where (\<lambda>x. me_id x = me_id m) (db_memberships d)\<rparr>))))"

section \<open>The workspace\<close>

definition workspace_settings :: "env \<Rightarrow> request_context \<Rightarrow> db \<Rightarrow> service_error + workspace \<times> int" where
  "workspace_settings env ctx d =
     (case ctx_require ctx M_SETTINGS A_VIEW of
        Inl e \<Rightarrow> Inl e
      | Inr _ \<Rightarrow>
          (case get_workspace d (ctx_workspace_id ctx) of
             None \<Rightarrow> Inl (App (raise_class NotFoundError))
           | Some w \<Rightarrow>
               Inr (w, case ws_max_concurrent_executions w of
                  Some n \<Rightarrow> if n \<noteq> 0 then n else cfg_max_per_workspace (env_settings env)
                | None \<Rightarrow> cfg_max_per_workspace (env_settings env))))"

definition renamed :: "string option \<Rightarrow> workspace \<Rightarrow> service_error + workspace" where
  "renamed name w =
     (case name of
        None \<Rightarrow> Inr w
      | Some n \<Rightarrow> if str_strip n = [] then Inl (App (raise_class ValidationError)) else Inr (w\<lparr>ws_name := str_strip n\<rparr>))"

definition in_zone :: "calendar \<Rightarrow> string option \<Rightarrow> workspace \<Rightarrow> service_error + workspace" where
  "in_zone cal timezone w =
     (case timezone of
        None \<Rightarrow> Inr w
      | Some z \<Rightarrow> (case resolve_zone cal (JStr z) of Inl e \<Rightarrow> Inl e | Inr _ \<Rightarrow> Inr (w\<lparr>ws_timezone := z\<rparr>)))"

definition with_ceiling :: "int option \<Rightarrow> workspace \<Rightarrow> workspace" where
  "with_ceiling n w =
     (case n of None \<Rightarrow> w | Some k \<Rightarrow> w\<lparr>ws_max_concurrent_executions := Some (max 1 (min 100 k))\<rparr>)"

definition workspace_json :: "workspace \<Rightarrow> dict" where
  "workspace_json w = [(''name'', JStr (ws_name w)), (''timezone'', JStr (ws_timezone w))]"

definition update_workspace :: "env \<Rightarrow> request_context \<Rightarrow> string option \<Rightarrow> string option \<Rightarrow> int option \<Rightarrow> db
    \<Rightarrow> (service_error + workspace \<times> int) \<times> db" where
  "update_workspace env ctx name timezone ceiling d =
     guarded (ctx_require ctx M_SETTINGS A_EDIT) d
       (case get_workspace d (ctx_workspace_id ctx) of
          None \<Rightarrow> (Inl (App (raise_class NotFoundError)), d)
        | Some w \<Rightarrow>
            (case renamed name w of
               Inl e \<Rightarrow> (Inl e, d)
             | Inr w1 \<Rightarrow>
                 (case in_zone (env_calendar env) timezone w1 of
                    Inl e \<Rightarrow> (Inl e, d)
                  | Inr w2 \<Rightarrow>
                      (let w3 = with_ceiling ceiling w2;
                           d' = audit_record env ctx
                             ((entry ''workspace.updated'' ''WORKSPACE'' (ws_id w3) (ws_name w3))\<lparr>aa_before := workspace_json w,
                                aa_after := workspace_json w3\<rparr>) (put_workspace w3 d)
                       in (workspace_settings env ctx d', d')))))"

definition audit_log :: "request_context \<Rightarrow> string \<Rightarrow> string \<Rightarrow> nat \<Rightarrow> nat \<Rightarrow> db \<Rightarrow> service_error + audit_event page" where
  "audit_log ctx act resource_type lim off d =
     (case ctx_require ctx M_AUDIT A_VIEW of
        Inl e \<Rightarrow> Inl e
      | Inr _ \<Rightarrow>
          Inr (page_of (order_desc au_created_at
            (filter (\<lambda>r. au_workspace_id r = ctx_workspace_id ctx \<and> (act = [] \<or> au_action r = act) \<and>
                (resource_type = [] \<or> au_resource_type r = str_upper resource_type)) (db_audit d))) lim off))"

end
