(* ===== verification/Sessions.thy ===== *)
theory Sessions
  imports Access
begin

text \<open>
  The way into the product: the dependencies that turn a request into a user and a tenant context
  (\<open>app/api/deps.py\<close>) and the authentication routes (\<open>app/api/v1/auth.py\<close>). A route commits explicitly;
  when it raises, \<open>get_session\<close> (\<open>app/core/db.py\<close>) rolls its session back. Cookie attributes are not
  modelled: a route that sets the cookie returns the token.
\<close>

section \<open>Dependencies\<close>

record request_meta =
  rq_authorization :: "string option"
  rq_cookie :: "string option"
  rq_workspace_header :: "string option"
  rq_trace_id :: string
  rq_ip :: "string option"
  rq_user_agent :: "string option"

definition bearer :: "string option \<Rightarrow> string option" where
  "bearer authorization =
     (if text_or_empty authorization \<noteq> [] \<and> starts_with (str_lower (text_or_empty authorization)) ''bearer ''
      then Some (str_strip (drop 7 (text_or_empty authorization))) else None)"

definition token_of :: "request_meta \<Rightarrow> string" where
  "token_of q = (let b = text_or_empty (bearer (rq_authorization q)) in if b \<noteq> [] then b else text_or_empty (rq_cookie q))"

text \<open>\<open>uuid.UUID(v)\<close> on a claim.\<close>

fun claim_uuid :: "json \<Rightarrow> py_exc + uuid" where
  "claim_uuid (JStr s) = (case parse_uuid s of None \<Rightarrow> Inl ValueErr | Some u \<Rightarrow> Inr u)"
| "claim_uuid JNull = Inl TypeErr"
| "claim_uuid _ = Inl AttributeError"

definition current_user :: "crypto \<Rightarrow> env \<Rightarrow> request_meta \<Rightarrow> db \<Rightarrow> service_error + user" where
  "current_user cx env q d =
     (if token_of q = [] then Inl (App (raise_class UnauthorizedError))
      else
        (case decode_session_token cx env (token_of q) of
           Inl e \<Rightarrow> Inl e
         | Inr claims \<Rightarrow>
             (case map_of claims ''sub'' of
                None \<Rightarrow> Inl (Crash KeyErr)
              | Some sub \<Rightarrow>
                  (case claim_uuid sub of
                     Inl e \<Rightarrow> Inl (Crash e)
                   | Inr uid \<Rightarrow>
                       (case get_user d uid of
                          None \<Rightarrow> Inl (App (raise_class UnauthorizedError))
                        | Some u \<Rightarrow>
                            if \<not> us_is_active u then Inl (App (raise_class UnauthorizedError))
                            else
                              (case py_int (case map_of claims ''sv'' of None \<Rightarrow> JInt 0 | Some v \<Rightarrow> v) of
                                 Inl e \<Rightarrow> Inl (Crash e)
                               | Inr v \<Rightarrow>
                                   if v \<noteq> us_session_version u then Inl (App (raise_code UnauthorizedError ''SESSION_REVOKED''))
                                   else Inr u))))))"

definition find_access :: "uuid \<Rightarrow> workspace_access list \<Rightarrow> workspace_access option" where
  "find_access wid accesses = find (\<lambda>a. ws_id (wa_workspace a) = wid) accesses"

text \<open>A workspace that the header names must be reachable; the one that the token remembers need not be.\<close>

definition choose_workspace :: "request_meta \<Rightarrow> dict \<Rightarrow> workspace_access list \<Rightarrow> service_error + workspace_access option" where
  "choose_workspace q claims accesses =
     (if text_or_empty (rq_workspace_header q) \<noteq> [] then
        (case parse_uuid (text_or_empty (rq_workspace_header q)) of
           None \<Rightarrow> Inl (App (raise_class ForbiddenError))
         | Some wanted \<Rightarrow>
             (case find_access wanted accesses of
                None \<Rightarrow> Inl (App (raise_class ForbiddenError))
              | Some a \<Rightarrow> Inr (Some a)))
      else if truthy (dget claims ''ws'') then
        (case parse_uuid (py_str (dget claims ''ws'')) of
           None \<Rightarrow> Inr None
         | Some remembered \<Rightarrow> Inr (find_access remembered accesses))
      else Inr None)"

definition context_for :: "request_meta \<Rightarrow> user \<Rightarrow> workspace_access \<Rightarrow> request_context" where
  "context_for q u a =
     \<lparr>ctx_user_id = Some (us_id u), ctx_workspace_id = ws_id (wa_workspace a), ctx_role = wa_role a,
      ctx_trace_id = rq_trace_id q, ctx_email = Some (us_email u), ctx_full_name = Some (us_full_name u),
      ctx_is_platform_admin = us_is_platform_admin u, ctx_ip_address = rq_ip q, ctx_user_agent = rq_user_agent q,
      ctx_timezone = ws_timezone (wa_workspace a), ctx_organization_id = Some (ws_organization_id (wa_workspace a)),
      ctx_org_role = wa_org_role a, ctx_permission_overrides = wa_permissions a\<rparr>"

definition request_context_of :: "crypto \<Rightarrow> env \<Rightarrow> request_meta \<Rightarrow> db \<Rightarrow> service_error + request_context" where
  "request_context_of cx env q d =
     (case current_user cx env q d of
        Inl e \<Rightarrow> Inl e
      | Inr u \<Rightarrow>
          if us_password_change_required u then Inl (App (raise_code ForbiddenError ''PASSWORD_CHANGE_REQUIRED''))
          else
            (case decode_session_token cx env (token_of q) of
               Inl e \<Rightarrow> Inl e
             | Inr claims \<Rightarrow>
                 (case user_reachable d u of
                    [] \<Rightarrow> Inl (App (raise_class ForbiddenError))
                  | first # rest \<Rightarrow>
                      (case choose_workspace q claims (first # rest) of
                         Inl e \<Rightarrow> Inl e
                       | Inr chosen \<Rightarrow>
                           (let a = (case chosen of Some a \<Rightarrow> a | None \<Rightarrow> first) in
                            if \<not> ws_active (wa_workspace a) then Inl (App (raise_class ForbiddenError))
                            else Inr (context_for q u a))))))"

definition platform_admin :: "request_context \<Rightarrow> service_error + request_context" where
  "platform_admin ctx = (if \<not> ctx_is_platform_admin ctx then Inl (App (raise_class ForbiddenError)) else Inr ctx)"

section \<open>Routes\<close>

text \<open>The workspace that a fresh token remembers.\<close>

definition token_workspace :: "dict \<Rightarrow> service_error + uuid option" where
  "token_workspace claims =
     (if truthy (dget claims ''ws'')
      then (case claim_uuid (dget claims ''ws'') of Inl e \<Rightarrow> Inl (Crash e) | Inr u \<Rightarrow> Inr (Some u))
      else Inr None)"

definition payload_for :: "crypto \<Rightarrow> env \<Rightarrow> user \<Rightarrow> string \<Rightarrow> db \<Rightarrow> service_error + string \<times> session_view" where
  "payload_for cx env u token d =
     (case decode_session_token cx env token of
        Inl e \<Rightarrow> Inl e
      | Inr claims \<Rightarrow>
          (case token_workspace claims of
             Inl e \<Rightarrow> Inl e
           | Inr wid \<Rightarrow> Inr (token, session_payload d u wid)))"

text \<open>\<open>answers\<close>: whether the rate limiter reaches its database. Its count is committed by itself.\<close>

definition login :: "crypto \<Rightarrow> env \<Rightarrow> bool \<Rightarrow> string option \<Rightarrow> string \<Rightarrow> string \<Rightarrow> db
    \<Rightarrow> (service_error + string \<times> session_view) \<times> db" where
  "login cx env answers ip email password d =
     (let ((ok, n), d1) =
        (if text_or_empty ip = [] then ((True, 0), d)
         else rate_check env answers (''login:'' @ text_or_empty ip) (cfg_login_rate_limit_per_minute (env_settings env)) 60 d)
      in if \<not> ok then (Inl (App (raise_class RateLimitedError)), d1)
         else
           (case authenticate cx env email password d1 of
              (Inl e, _) \<Rightarrow> (Inl e, d1)
            | (Inr (u, token), d2) \<Rightarrow> (payload_for cx env u token d2, d2)))"

definition change_password_route :: "crypto \<Rightarrow> env \<Rightarrow> request_meta \<Rightarrow> string \<Rightarrow> string \<Rightarrow> db
    \<Rightarrow> (service_error + string \<times> session_view) \<times> db" where
  "change_password_route cx env q current new d =
     (case current_user cx env q d of
        Inl e \<Rightarrow> (Inl e, d)
      | Inr u \<Rightarrow>
          (case change_password cx env u current new d of
             (Inl e, _) \<Rightarrow> (Inl e, d)
           | (Inr (u', token), d') \<Rightarrow> (payload_for cx env u' token d', d')))"

text \<open>The header and the token are tried in this order; a candidate that is no UUID is passed over.\<close>

fun first_uuid :: "string list \<Rightarrow> uuid option" where
  "first_uuid [] = None"
| "first_uuid (c # cs) = (if c = [] then first_uuid cs else (case parse_uuid c of Some u \<Rightarrow> Some u | None \<Rightarrow> first_uuid cs))"

definition me :: "crypto \<Rightarrow> env \<Rightarrow> request_meta \<Rightarrow> db \<Rightarrow> service_error + session_view" where
  "me cx env q d =
     (case current_user cx env q d of
        Inl e \<Rightarrow> Inl e
      | Inr u \<Rightarrow>
          (let token = (if text_or_empty (rq_cookie q) \<noteq> [] then text_or_empty (rq_cookie q)
                        else text_or_empty (bearer (rq_authorization q))) in
           case (if token = [] then Inr [] else decode_session_token cx env token) of
             Inl e \<Rightarrow> Inl e
           | Inr claims \<Rightarrow>
               Inr (session_payload d u
                 (first_uuid [text_or_empty (rq_workspace_header q), str_or_empty (dget claims ''ws'')]))))"

definition switch_workspace :: "crypto \<Rightarrow> env \<Rightarrow> request_meta \<Rightarrow> uuid \<Rightarrow> db \<Rightarrow> service_error + string \<times> session_view" where
  "switch_workspace cx env q wid d =
     (case current_user cx env q d of
        Inl e \<Rightarrow> Inl e
      | Inr u \<Rightarrow>
          if \<not> list_ex (\<lambda>a. ws_id (wa_workspace a) = wid) (user_reachable d u) then Inl (App (raise_class ForbiddenError))
          else Inr (issue_session_token cx env (us_id u) (Some wid) (us_session_version u) d, session_payload d u (Some wid)))"

end
