(* ===== verification/Reach.thy ===== *)
theory Reach
  imports Sessions
begin

text \<open>
  What sign-in and the tenant context guarantee: the workspaces of an account and its role in each are
  those of a one-line specification; a context is only made for one of them; changing the password
  revokes every token issued before; and the lockout, which works as a service and not as a route.
\<close>

section \<open>Reach\<close>

definition has_org_grant :: "db \<Rightarrow> uuid \<Rightarrow> uuid \<Rightarrow> bool" where
  "has_org_grant d uid oid \<longleftrightarrow>
     (\<exists>m \<in> set (db_org_memberships d). om_user_id m = uid \<and> om_organization_id m = oid \<and> om_role m \<in> {OR_OWNER, OR_ADMIN})"

definition seat_of :: "db \<Rightarrow> uuid \<Rightarrow> uuid \<Rightarrow> membership option" where
  "seat_of d uid wid = find (\<lambda>m. me_user_id m = uid \<and> me_workspace_id m = wid) (db_memberships d)"

text \<open>The specification: a seat decides, then the platform flag, then the organisation's grant.\<close>

definition reach_role :: "db \<Rightarrow> user \<Rightarrow> workspace \<Rightarrow> role option" where
  "reach_role d u w =
     (if \<not> ws_active w then None
      else (case seat_of d (us_id u) (ws_id w) of
              Some m \<Rightarrow> Some (me_role m)
            | None \<Rightarrow> if us_is_platform_admin u then Some R_PLATFORM_ADMIN
                      else if has_org_grant d (us_id u) (ws_organization_id w) then Some R_OWNER else None))"

text \<open>Primary keys and the unique constraints on memberships.\<close>

definition keys_ok :: "db \<Rightarrow> bool" where
  "keys_ok d \<longleftrightarrow> distinct (map ws_id (db_workspaces d)) \<and>
     distinct (map (\<lambda>m. (me_workspace_id m, me_user_id m)) (db_memberships d)) \<and>
     distinct (map (\<lambda>m. (om_organization_id m, om_user_id m)) (db_org_memberships d))"

lemma get_workspace_self:
  "keys_ok d \<Longrightarrow> w \<in> set (db_workspaces d) \<Longrightarrow> get_workspace d (ws_id w) = Some w"
proof -
  have "distinct (map ws_id rows) \<Longrightarrow> w \<in> set rows \<Longrightarrow> find (\<lambda>r. ws_id r = ws_id w) rows = Some w" for rows
    by (induction rows) (auto simp: image_iff)
  then show "keys_ok d \<Longrightarrow> w \<in> set (db_workspaces d) \<Longrightarrow> get_workspace d (ws_id w) = Some w"
    by (simp add: keys_ok_def get_workspace_def)
qed

lemma get_workspace_in: "get_workspace d i = Some w \<Longrightarrow> w \<in> set (db_workspaces d) \<and> ws_id w = i"
  by (auto simp: get_workspace_def dest: find_SomeD)

lemma ids_inj: "keys_ok d \<Longrightarrow> inj_on ws_id (set (db_workspaces d))"
  by (simp add: keys_ok_def distinct_map)

lemma set_map_filter: "set (List.map_filter f xs) = {y. \<exists>x \<in> set xs. f x = Some y}"
  by (induction xs) (auto simp: List.map_filter_simps split: option.splits)

lemma own_memberships_iff:
  "(w, m) \<in> set (own_memberships d uid) \<longleftrightarrow>
    m \<in> set (db_memberships d) \<and> me_user_id m = uid \<and> get_workspace d (me_workspace_id m) = Some w \<and> ws_active w"
  by (auto simp: own_memberships_def set_map_filter split: option.splits if_splits)

lemma add_missing_facts:
  assumes "inj_on ws_id (set xs \<union> set ys)"
  shows "set (add_missing xs ys) = set xs \<union> set ys \<and> (distinct (map ws_id xs) \<longrightarrow> distinct (map ws_id (add_missing xs ys)))"
  using assms
proof (induction ys arbitrary: xs)
  case (Cons y ys)
  show ?case
  proof (cases "ws_id y \<in> ws_id ` set xs")
    case True
    then have y: "y \<in> set xs" using Cons.prems by (auto dest: inj_onD)
    have "inj_on ws_id (set xs \<union> set ys)" using Cons.prems by (rule inj_on_subset) auto
    from Cons.IH [OF this] True y show ?thesis by (auto simp: add_missing_def)
  next
    case False
    have "inj_on ws_id (set (xs @ [y]) \<union> set ys)" using Cons.prems by (rule inj_on_subset) auto
    from Cons.IH [OF this] False show ?thesis by (auto simp: add_missing_def)
  qed
qed (simp add: add_missing_def)

lemma reachable_workspaces_facts:
  assumes "keys_ok d"
  shows "distinct (map ws_id (reachable_workspaces d u))"
    and "w \<in> set (reachable_workspaces d u) \<longleftrightarrow> w \<in> set (db_workspaces d) \<and> ws_active w \<and>
      (us_is_platform_admin u \<or> seat_of d (us_id u) (ws_id w) \<noteq> None \<or> has_org_grant d (us_id u) (ws_organization_id w))"
proof -
  let ?own0 = "map fst (own_memberships d (us_id u))"
  let ?orgs = "map fst (filter (\<lambda>(i, r). r \<in> set ORG_ROLES_WITH_WORKSPACE_ACCESS) (organizations_of d (us_id u)))"
  let ?through = "filter (\<lambda>w. ws_organization_id w \<in> set ?orgs \<and> ws_active w) (db_workspaces d)"
  let ?all = "filter ws_active (db_workspaces d)"
  note inj = ids_inj [OF assms]
  have own0: "set ?own0 \<subseteq> set (db_workspaces d)" using get_workspace_in by (auto simp: own_memberships_iff)
  have own: "set (add_missing [] ?own0) = set ?own0 \<and> distinct (map ws_id (add_missing [] ?own0))"
    using add_missing_facts [of "[]" ?own0] inj_on_subset [OF inj own0] by simp
  have thr: "set (add_missing (add_missing [] ?own0) ?through) = set ?own0 \<union> set ?through \<and>
      distinct (map ws_id (add_missing (add_missing [] ?own0) ?through))"
    using add_missing_facts [of "add_missing [] ?own0" ?through] own inj_on_subset [OF inj, of "set ?own0 \<union> set ?through"] own0
    by auto
  have all: "set (add_missing (add_missing (add_missing [] ?own0) ?through) ?all) = set ?own0 \<union> set ?through \<union> set ?all \<and>
      distinct (map ws_id (add_missing (add_missing (add_missing [] ?own0) ?through) ?all))"
    using add_missing_facts [of "add_missing (add_missing [] ?own0) ?through" ?all] thr
      inj_on_subset [OF inj, of "set ?own0 \<union> set ?through \<union> set ?all"] own0 by auto
  show "distinct (map ws_id (reachable_workspaces d u))"
    using thr all by (simp add: reachable_workspaces_def Let_def)
  have m1: "w \<in> set ?own0 \<longleftrightarrow> w \<in> set (db_workspaces d) \<and> ws_active w \<and> seat_of d (us_id u) (ws_id w) \<noteq> None"
  proof
    assume "w \<in> set ?own0"
    then obtain m where m: "(w, m) \<in> set (own_memberships d (us_id u))" by auto
    then have facts: "get_workspace d (me_workspace_id m) = Some w" "ws_active w"
      "m \<in> set (db_memberships d)" "me_user_id m = us_id u"
      unfolding own_memberships_iff by blast+
    from get_workspace_in [OF facts(1)] facts
    show "w \<in> set (db_workspaces d) \<and> ws_active w \<and> seat_of d (us_id u) (ws_id w) \<noteq> None"
      unfolding seat_of_def find_None_iff_all by metis
  next
    assume w: "w \<in> set (db_workspaces d) \<and> ws_active w \<and> seat_of d (us_id u) (ws_id w) \<noteq> None"
    then obtain m where "m \<in> set (db_memberships d)" "me_user_id m = us_id u" "me_workspace_id m = ws_id w"
      unfolding seat_of_def find_None_iff_all by blast
    then have "(w, m) \<in> set (own_memberships d (us_id u))"
      using w get_workspace_self [OF assms, of w] by (simp add: own_memberships_iff)
    then show "w \<in> set ?own0" by force
  qed
  have m2: "w \<in> set ?through \<longleftrightarrow> w \<in> set (db_workspaces d) \<and> ws_active w \<and> has_org_grant d (us_id u) (ws_organization_id w)"
  proof -
    have "oid \<in> set ?orgs \<longleftrightarrow> has_org_grant d (us_id u) oid" for oid
      by (force simp: has_org_grant_def organizations_of_def ORG_ROLES_WITH_WORKSPACE_ACCESS_def)
    then show ?thesis by auto
  qed
  show "w \<in> set (reachable_workspaces d u) \<longleftrightarrow> w \<in> set (db_workspaces d) \<and> ws_active w \<and>
      (us_is_platform_admin u \<or> seat_of d (us_id u) (ws_id w) \<noteq> None \<or> has_org_grant d (us_id u) (ws_organization_id w))"
  proof (cases "us_is_platform_admin u")
    case True
    then have "set (reachable_workspaces d u) = set ?own0 \<union> set ?through \<union> set ?all"
      using all by (simp add: reachable_workspaces_def Let_def)
    then show ?thesis using m1 m2 True by auto
  next
    case False
    then have "set (reachable_workspaces d u) = set ?own0 \<union> set ?through"
      using thr by (simp add: reachable_workspaces_def Let_def)
    then show ?thesis using m1 m2 False by auto
  qed
qed

lemma org_lookup:
  assumes "keys_ok d"
  shows "grants_workspaces (map_of (organizations_of d uid) oid) \<longleftrightarrow> has_org_grant d uid oid"
proof -
  have look: "distinct (map (\<lambda>m. (om_organization_id m, om_user_id m)) rows) \<Longrightarrow>
      map_of (map (\<lambda>m. (om_organization_id m, om_role m)) (filter (\<lambda>m. om_user_id m = uid) rows)) oid = Some r \<longleftrightarrow>
      (\<exists>m \<in> set rows. om_user_id m = uid \<and> om_organization_id m = oid \<and> om_role m = r)" for rows r
    by (induction rows) (auto simp: image_iff)
  have "map_of (organizations_of d uid) oid = Some r \<longleftrightarrow>
      (\<exists>m \<in> set (db_org_memberships d). om_user_id m = uid \<and> om_organization_id m = oid \<and> om_role m = r)" for r
    unfolding organizations_of_def using assms by (intro look) (simp add: keys_ok_def)
  moreover have "grants_workspaces x \<longleftrightarrow> x = Some OR_OWNER \<or> x = Some OR_ADMIN" for x
    by (auto simp: grants_workspaces_def ORG_ROLES_WITH_WORKSPACE_ACCESS_def split: option.split)
  ultimately show ?thesis unfolding has_org_grant_def by auto
qed

lemma seat_lookup:
  assumes "keys_ok d" "w \<in> set (db_workspaces d)" "ws_active w"
  shows "map_option snd (find (\<lambda>(x, _). ws_id x = ws_id w) (own_memberships d uid)) = seat_of d uid (ws_id w)"
proof -
  have "map_option snd (find (\<lambda>(x, _). ws_id x = ws_id w)
      (List.map_filter (\<lambda>m. case get_workspace d (me_workspace_id m) of
         Some w \<Rightarrow> if me_user_id m = uid \<and> ws_active w then Some (w, m) else None | None \<Rightarrow> None) rows)) =
      find (\<lambda>m. me_user_id m = uid \<and> me_workspace_id m = ws_id w) rows" for rows
  proof (induction rows)
    case (Cons m rows)
    show ?case
    proof (cases "me_workspace_id m = ws_id w")
      case True
      then show ?thesis using Cons get_workspace_self [OF assms(1,2)] assms(3) by (simp add: List.map_filter_simps)
    next
      case False
      then have "ws_id x \<noteq> ws_id w" if "get_workspace d (me_workspace_id m) = Some x" for x
        using get_workspace_in [OF that] by simp
      then show ?thesis using Cons False by (cases "get_workspace d (me_workspace_id m)") (simp_all add: List.map_filter_simps)
    qed
  qed (simp add: List.map_filter_simps)
  then show ?thesis by (simp add: own_memberships_def seat_of_def)
qed

lemma access_to_role:
  assumes "keys_ok d" "w \<in> set (db_workspaces d)" "ws_active w"
  shows "map_option wa_role (access_to d u w) = reach_role d u w"
    and "access_to d u w = Some a \<Longrightarrow> wa_workspace a = w"
  using org_lookup [OF assms(1)] seat_lookup [OF assms] assms(3)
  by (auto simp: access_to_def Let_def reach_role_def effective_role_def split: option.splits if_splits)

lemma map_filter_total:
  assumes "\<And>x. x \<in> set xs \<Longrightarrow> f x = Some (g x)"
  shows "List.map_filter f xs = map g xs"
  using assms by (induction xs) (auto simp: List.map_filter_simps)

lemma user_reachable_eq:
  assumes "keys_ok d"
  shows "user_reachable d u = map (\<lambda>w. the (access_to d u w)) (reachable_workspaces d u)"
    and "\<And>w. w \<in> set (reachable_workspaces d u) \<Longrightarrow> access_to d u w = Some (the (access_to d u w)) \<and>
      wa_workspace (the (access_to d u w)) = w \<and> Some (wa_role (the (access_to d u w))) = reach_role d u w"
proof -
  have A: "access_to d u w = Some (the (access_to d u w)) \<and> wa_workspace (the (access_to d u w)) = w \<and>
      Some (wa_role (the (access_to d u w))) = reach_role d u w" if "w \<in> set (reachable_workspaces d u)" for w
  proof -
    have w: "w \<in> set (db_workspaces d)" "ws_active w" "reach_role d u w \<noteq> None"
      using that reachable_workspaces_facts(2) [OF assms, of w u] by (auto simp: reach_role_def split: option.splits)
    then show ?thesis using access_to_role [OF assms w(1,2), of u] by (cases "access_to d u w") auto
  qed
  then have e: "List.map_filter (access_to d u) (reachable_workspaces d u) =
      map (\<lambda>w. the (access_to d u w)) (reachable_workspaces d u)"
    by (intro map_filter_total) blast
  have "sort_key (\<lambda>a. if ws_active (wa_workspace a) then 0 else 1 :: nat) xs = xs"
    if "list_all (\<lambda>a. ws_active (wa_workspace a)) xs" for xs
    using that by (intro sort_key_id_if_sorted) (induction xs, auto simp: list_all_iff)
  moreover have "list_all (\<lambda>a. ws_active (wa_workspace a)) (map (\<lambda>w. the (access_to d u w)) (reachable_workspaces d u))"
    using A reachable_workspaces_facts(2) [OF assms, of _ u] by (auto simp: list_all_iff)
  ultimately show "user_reachable d u = map (\<lambda>w. the (access_to d u w)) (reachable_workspaces d u)"
    unfolding user_reachable_def e by blast
  fix w assume "w \<in> set (reachable_workspaces d u)"
  with A show "access_to d u w = Some (the (access_to d u w)) \<and> wa_workspace (the (access_to d u w)) = w \<and>
      Some (wa_role (the (access_to d u w))) = reach_role d u w" by blast
qed

lemma user_reachable_iff:
  assumes "keys_ok d"
  shows "(\<exists>a \<in> set (user_reachable d u). wa_workspace a = w \<and> wa_role a = r) \<longleftrightarrow>
    w \<in> set (db_workspaces d) \<and> reach_role d u w = Some r"
proof -
  note A = user_reachable_eq(2) [OF assms, of _ u] and F = reachable_workspaces_facts [OF assms, where u = u]
  have "w \<in> set (reachable_workspaces d u) \<longleftrightarrow> w \<in> set (db_workspaces d) \<and> reach_role d u w \<noteq> None"
    unfolding F(2) [of w] by (auto simp: reach_role_def split: option.splits)
  then show ?thesis
    unfolding user_reachable_eq(1) [OF assms] using A by force
qed

text \<open>
  C21: an account reaches exactly what its seats and grants say. With the keys of the tables unique, the
  list of \<open>reachable\<close> names no workspace twice, and a workspace of the deployment is in it, with a role,
  exactly when the specification gives that role: it must be active, a seat decides, else the platform
  flag, else an organisation role of owner or administrator.
\<close>

theorem reachable_meets_specification:
  assumes "keys_ok d"
  shows "distinct (map (ws_id \<circ> wa_workspace) (user_reachable d u)) \<and>
    (\<forall>w r. (\<exists>a \<in> set (user_reachable d u). wa_workspace a = w \<and> wa_role a = r) \<longleftrightarrow>
       w \<in> set (db_workspaces d) \<and> reach_role d u w = Some r)"
proof (intro conjI allI)
  note A = user_reachable_eq(2) [OF assms, of _ u] and F = reachable_workspaces_facts [OF assms, where u = u]
  have "map (ws_id \<circ> wa_workspace) (user_reachable d u) = map ws_id (reachable_workspaces d u)"
    unfolding user_reachable_eq(1) [OF assms] using A by (simp add: comp_def cong: map_cong)
  then show "distinct (map (ws_id \<circ> wa_workspace) (user_reachable d u))" using F(1) by simp
qed (rule user_reachable_iff [OF assms])


section \<open>A small deployment\<close>

definition demo_user :: user where
  "demo_user = (invited_user demo_cid ''a@x'' ''A'' ''h0'')\<lparr>us_password_change_required := False\<rparr>"

definition reach_workspace :: "uuid \<Rightarrow> workspace" where
  "reach_workspace i = \<lparr>ws_id = i, ws_organization_id = ''o'', ws_name = i, ws_slug = i, ws_status = WS_ACTIVE,
     ws_timezone = ''UTC'', ws_engine_instance_id = None, ws_max_concurrent_executions = None\<rparr>"

definition seat :: "uuid \<Rightarrow> uuid \<Rightarrow> role \<Rightarrow> membership" where
  "seat i wid r = \<lparr>me_id = i, me_workspace_id = wid, me_user_id = demo_cid, me_role = r, me_permissions = None\<rparr>"

definition reach_db :: db where
  "reach_db = empty_db\<lparr>db_users := [demo_user], db_workspaces := [reach_workspace ''w1'', reach_workspace ''w2''],
     db_memberships := [seat ''m'' ''w2'' R_ANALYST],
     db_org_memberships := [\<lparr>om_id = ''x'', om_organization_id = ''o'', om_user_id = demo_cid, om_role = OR_ADMIN\<rparr>]\<rparr>"

lemma reach_demo:
  "keys_ok reach_db" "get_user reach_db demo_cid = Some demo_user" "us_id demo_user = demo_cid"
  "reach_role reach_db demo_user (reach_workspace ''w1'') = Some R_OWNER"
  "reach_role reach_db demo_user (reach_workspace ''w2'') = Some R_ANALYST"
  by (simp_all add: keys_ok_def reach_db_def empty_db_def reach_workspace_def seat_def get_user_def demo_user_def
      invited_user_def reach_role_def ws_active_def seat_of_def has_org_grant_def)

theorem reachable_meets_specification_witness:
  "\<exists>a \<in> set (user_reachable reach_db demo_user). wa_workspace a = reach_workspace ''w1'' \<and> wa_role a = R_OWNER"
proof -
  have "reach_workspace ''w1'' \<in> set (db_workspaces reach_db)" by (simp add: reach_db_def)
  then show ?thesis using reachable_meets_specification [OF reach_demo(1), of demo_user] reach_demo(4) by blast
qed

lemma reachable_cases:
  assumes "keys_ok d" "a \<in> set (user_reachable d u)"
  shows "wa_workspace a \<in> set (db_workspaces d) \<and> ws_active (wa_workspace a) \<and> reach_role d u (wa_workspace a) = Some (wa_role a)"
proof -
  have "a \<in> (\<lambda>w. the (access_to d u w)) ` set (reachable_workspaces d u)"
    using assms(2) user_reachable_eq(1) [OF assms(1), of u] by simp
  then obtain w where w: "w \<in> set (reachable_workspaces d u)" "a = the (access_to d u w)" by blast
  then show ?thesis
    using user_reachable_eq(2) [OF assms(1) w(1)] reachable_workspaces_facts(2) [OF assms(1), of w u] by simp
qed

text \<open>An organisation administrator with a seat in a department has the role of the seat there, not that
  of an owner, although the seat's overrides are ignored.\<close>

lemma seat_beats_org_grant:
  assumes "keys_ok d" "a \<in> set (user_reachable d u)" "seat_of d (us_id u) (ws_id (wa_workspace a)) = Some m"
  shows "wa_role a = me_role m"
  using reachable_cases [OF assms(1,2)] assms(3) by (auto simp: reach_role_def)

section \<open>Contexts\<close>

text \<open>
  C5: a request only ever acts in a workspace its account reaches. When a request gets a context, its
  token decoded to an active account with the token's session version and no pending password
  change; the context's workspace is active and one that the account reaches, with the role and the
  overrides of that reach; and a workspace header, when there is one, names that very workspace.
\<close>

theorem context_stays_within_reach:
  assumes "request_context_of cx env q d = Inr ctx"
  shows "\<exists>u a claims. decode_session_token cx env (token_of q) = Inr claims \<and>
    u \<in> set (db_users d) \<and> us_is_active u \<and> \<not> us_password_change_required u \<and> ctx_user_id ctx = Some (us_id u) \<and>
    py_int (case map_of claims ''sv'' of None \<Rightarrow> JInt 0 | Some v \<Rightarrow> v) = Inr (us_session_version u) \<and>
    a \<in> set (user_reachable d u) \<and> ws_active (wa_workspace a) \<and> ctx_workspace_id ctx = ws_id (wa_workspace a) \<and>
    ctx_role ctx = wa_role a \<and> ctx_permission_overrides ctx = wa_permissions a \<and>
    ctx_is_platform_admin ctx = us_is_platform_admin u \<and>
    (text_or_empty (rq_workspace_header q) \<noteq> [] \<longrightarrow>
      parse_uuid (text_or_empty (rq_workspace_header q)) = Some (ctx_workspace_id ctx))"
proof -
  obtain u where u: "current_user cx env q d = Inr u" "\<not> us_password_change_required u"
    using assms by (auto simp: request_context_of_def split: sum.splits if_splits)
  obtain claims where claims: "decode_session_token cx env (token_of q) = Inr claims"
    and row: "u \<in> set (db_users d)" "us_is_active u"
    and version: "py_int (case map_of claims ''sv'' of None \<Rightarrow> JInt 0 | Some v \<Rightarrow> v) = Inr (us_session_version u)"
    using u(1) by (auto simp: current_user_def get_user_def split: if_splits sum.splits option.splits dest!: find_SomeD)
  obtain a where a: "a \<in> set (user_reachable d u)" "ws_active (wa_workspace a)" "ctx = context_for q u a"
    "text_or_empty (rq_workspace_header q) \<noteq> [] \<longrightarrow>
       parse_uuid (text_or_empty (rq_workspace_header q)) = Some (ws_id (wa_workspace a))"
    using assms u claims
    by (auto simp: request_context_of_def choose_workspace_def find_access_def Let_def
        split: list.splits sum.splits option.splits if_splits dest!: find_SomeD)
  show ?thesis
    using claims row version a u(2) by (intro exI [of _ u] exI [of _ a] exI [of _ claims]) (simp add: context_for_def)
qed


lemma demo_cid_valid: "valid_uuid demo_cid"
  by code_simp

definition bearing :: "string \<Rightarrow> request_meta" where
  "bearing token = \<lparr>rq_authorization = None, rq_cookie = Some token, rq_workspace_header = None, rq_trace_id = [],
     rq_ip = None, rq_user_agent = None\<rparr>"

lemma token_of_bearing [simp]: "token_of (bearing t) = t"
  by (simp add: token_of_def bearing_def bearer_def text_or_empty_def)

lemma put_claims_nonempty: "put_claims d \<noteq> []"
  by (cases d) auto

lemma current_user_issued:
  assumes "jwt_roundtrips cx" "valid_uuid uid" "token_of q = issue_session_token cx env0 uid w v d0" "token_of q \<noteq> []"
    and "clock_seconds env0 \<le> clock_seconds env + CLOCK_SKEW_LEEWAY_SECONDS"
    and "clock_seconds env < clock_seconds env0 + cfg_session_ttl_seconds (env_settings env0) + CLOCK_SKEW_LEEWAY_SECONDS"
    and "get_user d uid = Some u" "us_is_active u"
  shows "current_user cx env q d =
    (if v = us_session_version u then Inr u else Inl (App (raise_code UnauthorizedError ''SESSION_REVOKED'')))"
  using assms(4,7,8) decode_issued [OF assms(1,5,6), of uid w v d0]
  by (simp add: current_user_def assms(3) parse_show_uuid [OF assms(2)])

lemma get_put_user: "get_user d i = Some u \<Longrightarrow> us_id u' = i \<Longrightarrow> get_user (put_user u' d) i = Some u'"
  using find_put_same [of us_id i "db_users d" u u'] by (simp add: get_user_def put_user_def)

text \<open>
  C22: changing the password ends every other session. Given the codec's round trip, once a password
  change of an active account has succeeded, every token issued to that account under an earlier
  session version is refused with \<open>SESSION_REVOKED\<close> for as long as the codec accepts it, and the
  token that the change returned is accepted.
\<close>

theorem password_change_revokes_sessions:
  assumes "jwt_roundtrips cx" "valid_uuid (us_id u)" "get_user d (us_id u) = Some u" "us_is_active u"
    and "change_password cx env u current new d = (Inr (u', token), d')"
    and "token_of q = issue_session_token cx env0 (us_id u) w v d0" "v \<le> us_session_version u" "token_of q \<noteq> []"
    and "clock_seconds env0 \<le> clock_seconds env' + CLOCK_SKEW_LEEWAY_SECONDS"
    and "clock_seconds env' < clock_seconds env0 + cfg_session_ttl_seconds (env_settings env0) + CLOCK_SKEW_LEEWAY_SECONDS"
    and "token_of q' = token" "token \<noteq> []" "clock_seconds env \<le> clock_seconds env'"
    and "clock_seconds env' < clock_seconds env + cfg_session_ttl_seconds (env_settings env)"
  shows "current_user cx env' q d' = Inl (App (raise_code UnauthorizedError ''SESSION_REVOKED'')) \<and>
    current_user cx env' q' d' = Inr u'"
proof -
  have u': "us_id u' = us_id u" "us_is_active u'" "us_session_version u' = us_session_version u + 1" "d' = put_user u' d"
    and token: "token = issue_session_token cx env (us_id u) (landing d' u') (us_session_version u') d'"
    using assms(4,5) by (auto simp: change_password_def Let_def split: if_splits sum.splits)
  have row: "get_user d' (us_id u) = Some u'" using get_put_user [OF assms(3) u'(1)] u'(4) by simp
  have t: "clock_seconds env \<le> clock_seconds env' + CLOCK_SKEW_LEEWAY_SECONDS"
    "clock_seconds env' < clock_seconds env + cfg_session_ttl_seconds (env_settings env) + CLOCK_SKEW_LEEWAY_SECONDS"
    "token_of q' = issue_session_token cx env (us_id u) (landing d' u') (us_session_version u') d'" "token_of q' \<noteq> []"
    using assms(11-14) token by (simp_all add: CLOCK_SKEW_LEEWAY_SECONDS_def)
  show ?thesis
    using current_user_issued [OF assms(1,2,6,8,9,10) row u'(2)] u'(3) assms(7)
      current_user_issued [OF assms(1,2) t(3,4,1,2) row u'(2)] by simp
qed

definition demo_account :: user where
  "demo_account = demo_user\<lparr>us_password_hash := ''#old''\<rparr>"

definition account_db :: db where
  "account_db = reach_db\<lparr>db_users := [demo_account]\<rparr>"

lemma account_facts:
  "get_user account_db (us_id demo_account) = Some demo_account" "us_is_active demo_account" "us_id demo_account = demo_cid"
  "us_session_version demo_account = 0" "clock_seconds demo_env = 0" "cfg_session_ttl_seconds (env_settings demo_env) = 43200"
  by (simp_all add: get_user_def account_db_def demo_account_def demo_user_def invited_user_def clock_seconds_def demo_env_def
      default_settings_def)

theorem password_change_revokes_sessions_witness:
  "\<exists>u' token d'. change_password demo_crypto demo_env demo_account ''old'' ''Str0ng-enough'' account_db = (Inr (u', token), d') \<and>
     current_user demo_crypto demo_env (bearing (issue_session_token demo_crypto demo_env demo_cid None 0 empty_db)) d' =
       Inl (App (raise_code UnauthorizedError ''SESSION_REVOKED'')) \<and>
     current_user demo_crypto demo_env (bearing token) d' = Inr u'"
proof -
  have "password_problems ''Str0ng-enough'' = []" by code_simp
  then obtain u' token d' where c: "change_password demo_crypto demo_env demo_account ''old'' ''Str0ng-enough'' account_db = (Inr (u', token), d')"
    by (simp add: change_password_def verify_password_def demo_crypto_def demo_account_def hash_password_def Let_def)
  have t: "token \<noteq> []" using c by (auto simp: change_password_def Let_def issue_session_token_def demo_crypto_def put_claims_nonempty
      split: if_splits sum.splits)
  have v: "valid_uuid (us_id demo_account)" using demo_cid_valid by (simp add: account_facts)
  have o: "token_of (bearing (issue_session_token demo_crypto demo_env demo_cid None 0 empty_db)) =
      issue_session_token demo_crypto demo_env (us_id demo_account) None 0 empty_db" by (simp add: account_facts)
  have n: "token_of (bearing (issue_session_token demo_crypto demo_env demo_cid None 0 empty_db)) \<noteq> []"
    by (simp add: issue_session_token_def demo_crypto_def put_claims_nonempty)
  show ?thesis
    using c password_change_revokes_sessions [OF demo_crypto_ok(1) v account_facts(1,2) c o _ n _ _ token_of_bearing t, of demo_env]
    by (simp add: account_facts CLOCK_SKEW_LEEWAY_SECONDS_def)
qed

theorem context_stays_within_reach_witness:
  "\<exists>ctx. request_context_of demo_crypto demo_env (bearing (issue_session_token demo_crypto demo_env demo_cid None 0 empty_db)) account_db =
     Inr ctx \<and> (\<exists>a. a \<in> set (user_reachable account_db demo_account) \<and> ctx_workspace_id ctx = ws_id (wa_workspace a))"
proof -
  let ?q = "bearing (issue_session_token demo_crypto demo_env demo_cid None 0 empty_db)"
  have n: "token_of ?q \<noteq> []" by (simp add: issue_session_token_def demo_crypto_def put_claims_nonempty)
  have dec: "decode_session_token demo_crypto demo_env (token_of ?q) = Inr (session_claims demo_env demo_cid None 0 empty_db)"
    using decode_issued [OF demo_crypto_ok(1), of demo_env demo_env demo_cid None 0 empty_db]
    by (simp add: account_facts CLOCK_SKEW_LEEWAY_SECONDS_def)
  have cu: "current_user demo_crypto demo_env ?q account_db = Inr demo_account"
    using n dec account_facts by (simp add: current_user_def parse_show_uuid [OF demo_cid_valid])
  have k: "keys_ok account_db" using reach_demo(1) by (simp add: account_db_def keys_ok_def)
  have w: "reach_workspace ''w1'' \<in> set (reachable_workspaces account_db demo_account)"
    unfolding reachable_workspaces_facts(2) [OF k]
    by (simp add: account_db_def reach_db_def ws_active_def reach_workspace_def has_org_grant_def demo_account_def demo_user_def invited_user_def)
  have "user_reachable account_db demo_account \<noteq> []" using user_reachable_eq(1) [OF k, of demo_account] w by auto
  then obtain first rest where r: "user_reachable account_db demo_account = first # rest" by (cases "user_reachable account_db demo_account") auto
  then have act: "ws_active (wa_workspace first)"
    using reachable_cases [OF k, of first demo_account] by simp
  have nope: "\<not> us_password_change_required demo_account" by (simp add: demo_account_def demo_user_def)
  have "choose_workspace ?q (session_claims demo_env demo_cid None 0 empty_db) (first # rest) = Inr None"
    by (simp add: choose_workspace_def bearing_def text_or_empty_def uuid_json_def)
  then have ctx: "request_context_of demo_crypto demo_env ?q account_db = Inr (context_for ?q demo_account first)"
    using cu nope dec r act by (simp add: request_context_of_def)
  from context_stays_within_reach [OF this] cu dec n show ?thesis
  proof (elim exE conjE)
    fix u a claims
    assume f: "u \<in> set (db_users account_db)" "a \<in> set (user_reachable account_db u)"
      "ctx_workspace_id (context_for ?q demo_account first) = ws_id (wa_workspace a)"
    then have "u = demo_account" by (simp add: account_db_def)
    with f ctx show ?thesis by blast
  qed
qed


section \<open>Lockout\<close>

text \<open>Attempts to sign in to one account, one after the other, through the route.\<close>

fun attempts :: "crypto \<Rightarrow> string \<Rightarrow> (env \<times> bool \<times> string option \<times> string) list \<Rightarrow> db \<Rightarrow> db" where
  "attempts cx email [] d = d"
| "attempts cx email ((env, answers, ip, password) # rest) d =
     attempts cx email rest (snd (login cx env answers ip email password d))"

lemma rate_check_users [simp]:
  "db_users (snd (rate_check env answers k lim w d)) = db_users d"
  by (simp add: rate_check_def rate_hit_def upsert_hit_def Let_def split: option.split prod.split)

lemma user_by_email_cong: "db_users d' = db_users d \<Longrightarrow> user_by_email d' e = user_by_email d e"
  by (simp add: user_by_email_def)

lemma wrong_password_fails:
  "user_by_email d (normalized_email email) = Some u \<Longrightarrow> \<not> verify_password cx password (us_password_hash u) \<Longrightarrow>
    \<exists>e d'. authenticate cx env email password d = (Inl e, d')"
  by (simp add: authenticate_def)

lemma failed_login_users:
  assumes "user_by_email d (normalized_email email) = Some u" "\<not> verify_password cx password (us_password_hash u)"
  shows "db_users (snd (login cx env answers ip email password d)) = db_users d"
proof -
  let ?c = "if text_or_empty ip = [] then ((True, 0), d)
    else rate_check env answers (''login:'' @ text_or_empty ip) (cfg_login_rate_limit_per_minute (env_settings env)) 60 d"
  obtain ok n d1 where c: "?c = ((ok, n), d1)" by (metis surj_pair)
  have users: "db_users d1 = db_users d" using arg_cong [OF c, of "db_users \<circ> snd"] by (auto split: if_splits)
  then obtain e d' where "authenticate cx env email password d1 = (Inl e, d')"
    using wrong_password_fails [of d1 email u cx password env] assms user_by_email_cong [OF users] by auto
  then show ?thesis using users by (simp add: login_def c Let_def)
qed

text \<open>
  the lockout never happens. The service counts a failure and locks the account, but the
  route lets the exception through before it commits, so the count is rolled back: however many wrong
  passwords are tried, from whatever addresses and at whatever times, every account is afterwards as it
  was before, and the right password still signs in.
\<close>

lemma wrong_passwords_never_lock:
  assumes "user_by_email d (normalized_email email) = Some u" "\<not> is_locked env u" "us_is_active u"
    and "list_all (\<lambda>(_, _, _, p). \<not> verify_password cx p (us_password_hash u)) tries"
    and "verify_password cx password (us_password_hash u)"
  shows "db_users (attempts cx email tries d) = db_users d \<and>
    (\<exists>token d'. authenticate cx env email password (attempts cx email tries d) = (Inr (signed_in env u, token), d'))"
proof -
  have users: "db_users (attempts cx email tries d) = db_users d"
    using assms(4,1)
  proof (induction cx email tries d rule: attempts.induct)
    case (2 cx email env answers ip password rest d)
    have f: "db_users (snd (login cx env answers ip email password d)) = db_users d"
      using failed_login_users [OF 2(3)] 2(2) by simp
    then show ?case using 2(1) 2(2,3) user_by_email_cong [OF f] by simp
  qed simp
  then have "user_by_email (attempts cx email tries d) (normalized_email email) = Some u"
    using assms(1) user_by_email_cong [OF users] by simp
  then show ?thesis using users assms(2,3,5) by (simp add: authenticate_def Let_def)
qed

lemma wrong_passwords_never_lock_example:
  "db_users (attempts demo_crypto '' A@x'' (replicate 1000 (demo_env, True, Some ''ip'', ''guess'')) account_db) = [demo_account]"
proof -
  have e: "normalized_email '' A@x'' = ''a@x''" "str_lower ''a@x'' = ''a@x''" by code_simp+
  have "user_by_email account_db (normalized_email '' A@x'') = Some demo_account" "\<not> is_locked demo_env demo_account"
    "list_all (\<lambda>(_, _, _, p). \<not> verify_password demo_crypto p (us_password_hash demo_account))
      (replicate 1000 (demo_env, True, Some ''ip'', ''guess''))"
    "verify_password demo_crypto ''old'' (us_password_hash demo_account)"
    by (simp_all add: e user_by_email_def account_db_def demo_account_def demo_user_def invited_user_def is_locked_def
        verify_password_def demo_crypto_def list_all_iff)
  from wrong_passwords_never_lock [OF this(1,2) account_facts(2) this(3,4)] show ?thesis by (simp add: account_db_def)
qed

text \<open>Had the failures been committed, the last one of a series would lock the account.\<close>

lemma service_locks:
  assumes "user_by_email d (normalized_email email) = Some u" "\<not> is_locked env u" "us_is_active u"
    and "\<not> verify_password cx password (us_password_hash u)"
    and "cfg_login_max_attempts (env_settings env) \<le> us_failed_login_count u + 1" "0 < cfg_login_lockout_seconds (env_settings env)"
  shows "\<exists>u' d'. authenticate cx env email password d = (Inl invalid_credentials, put_user u' d) \<and>
    us_id u' = us_id u \<and> is_locked env u'"
  using assms by (auto simp: authenticate_def count_failure_def is_locked_def seconds_def Let_def)

end
