(* ===== verification/Seats.thy ===== *)
theory Seats
  imports Prelude
begin

text \<open>
  Tables of seats: rows with an identifier, a scope (a workspace, an organisation) and a mark for the top
  role. A request acts within one scope and may add a seat there, rewrite one or remove one; a top seat
  loses its mark only while another is left in the scope. Members of a workspace and of an
  organisation are both such tables.
\<close>

inductive seat_change :: "('r \<Rightarrow> uuid) \<Rightarrow> ('r \<Rightarrow> uuid) \<Rightarrow> ('r \<Rightarrow> bool) \<Rightarrow> uuid \<Rightarrow> 'r list \<Rightarrow> 'r list \<Rightarrow> bool"
  for rid scope lead w where
  same: "seat_change rid scope lead w rows rows"
| seated: "scope m = w \<Longrightarrow> seat_change rid scope lead w rows (rows @ [m])"
| rewritten: "m \<in> set rows \<Longrightarrow> scope m = w \<Longrightarrow> rid (f m) = rid m \<Longrightarrow> scope (f m) = scope m \<Longrightarrow>
    (lead m \<longrightarrow> lead (f m) \<or> (\<exists>x \<in> set rows. scope x = w \<and> lead x \<and> rid x \<noteq> rid m)) \<Longrightarrow>
    seat_change rid scope lead w rows (update_where (\<lambda>x. rid x = rid m) f rows)"
| removed: "m \<in> set rows \<Longrightarrow> scope m = w \<Longrightarrow>
    (lead m \<longrightarrow> (\<exists>x \<in> set rows. scope x = w \<and> lead x \<and> rid x \<noteq> rid m)) \<Longrightarrow>
    seat_change rid scope lead w rows (delete_where (\<lambda>x. rid x = rid m) rows)"

lemma distinct_key_eq: "distinct (map k rows) \<Longrightarrow> x \<in> set rows \<Longrightarrow> y \<in> set rows \<Longrightarrow> k x = k y \<Longrightarrow> x = y"
  by (auto simp: distinct_map dest: inj_onD)

lemma seat_change_top:
  assumes "seat_change rid scope lead w rows rows'" "distinct (map rid rows)" "\<exists>x \<in> set rows. scope x = v \<and> lead x"
  shows "\<exists>x \<in> set rows'. scope x = v \<and> lead x"
  using assms(1)
proof cases
  case (rewritten m f)
  have keep: "x \<in> set rows \<Longrightarrow> rid x \<noteq> rid m \<Longrightarrow> x \<in> set rows'" for x using rewritten(1) by (simp add: table_simps)
  have new: "f m \<in> set rows'" using rewritten(1,2) by (auto simp: table_simps)
  obtain x where x: "x \<in> set rows" "scope x = v" "lead x" using assms(3) by blast
  then show ?thesis
    using keep new rewritten(2-6) distinct_key_eq [OF assms(2) x(1) rewritten(2)] by metis
next
  case (removed m)
  have keep: "x \<in> set rows \<Longrightarrow> rid x \<noteq> rid m \<Longrightarrow> x \<in> set rows'" for x using removed(1) by (simp add: table_simps)
  obtain x where x: "x \<in> set rows" "scope x = v" "lead x" using assms(3) by blast
  then show ?thesis
    using keep removed(2-4) distinct_key_eq [OF assms(2) x(1) removed(2)] by metis
qed (use assms(3) in auto)

lemma seat_change_elsewhere:
  assumes "seat_change rid scope lead w rows rows'" "distinct (map rid rows)" "w \<noteq> v"
  shows "filter (\<lambda>x. scope x = v) rows' = filter (\<lambda>x. scope x = v) rows"
  using assms(1)
proof cases
  case (rewritten m f)
  have "filter (\<lambda>x. scope x = v) (update_where (\<lambda>x. rid x = rid m) f rs) = filter (\<lambda>x. scope x = v) rs"
    if "set rs \<subseteq> set rows" for rs
    using that
  proof (induction rs)
    case (Cons x rs)
    then show ?case using distinct_key_eq [OF assms(2) _ rewritten(2), of x] rewritten(3,5) assms(3) by auto
  qed simp
  then show ?thesis by (simp add: rewritten(1))
next
  case (removed m)
  have "filter (\<lambda>x. scope x = v) (delete_where (\<lambda>x. rid x = rid m) rs) = filter (\<lambda>x. scope x = v) rs"
    if "set rs \<subseteq> set rows" for rs
    using that
  proof (induction rs)
    case (Cons x rs)
    then show ?case using distinct_key_eq [OF assms(2) _ removed(2), of x] removed(3) assms(3) by (auto simp: delete_where_def)
  qed (simp add: delete_where_def)
  then show ?thesis by (simp add: removed(1))
qed (use assms(3) in auto)

text \<open>A machine whose steps are such requests keeps a leading seat in every scope that has one, and leaves
  the seats of other scopes alone.\<close>

locale guarded_seats =
  fixes stp :: "'s \<Rightarrow> 'i \<Rightarrow> 's"
    and rows :: "'s \<Rightarrow> 'r list"
    and rid :: "'r \<Rightarrow> uuid"
    and scope :: "'r \<Rightarrow> uuid"
    and lead :: "'r \<Rightarrow> bool"
    and acting :: "'i \<Rightarrow> uuid"
  assumes step_change: "distinct (map rid (rows s)) \<Longrightarrow> distinct (map rid (rows (stp s i))) \<and>
    seat_change rid scope lead (acting i) (rows s) (rows (stp s i))"
begin

sublocale machine: framed_machine stp "\<lambda>s. distinct (map rid (rows s)) \<and> (\<exists>x \<in> set (rows s). scope x = w \<and> lead x)"
    "\<lambda>s. filter (\<lambda>x. scope x = v) (rows s)" "\<lambda>i. acting i \<noteq> v" for w v
proof unfold_locales
  fix w v s i
  assume inv: "distinct (map rid (rows s)) \<and> (\<exists>x \<in> set (rows s). scope x = w \<and> lead x)"
  note c = step_change [OF inv [THEN conjunct1], of i]
  show "distinct (map rid (rows (stp s i))) \<and> (\<exists>x \<in> set (rows (stp s i)). scope x = w \<and> lead x)"
    using c inv seat_change_top [OF c [THEN conjunct2], of w] by blast
  show "acting i \<noteq> v \<Longrightarrow> filter (\<lambda>x. scope x = v) (rows (stp s i)) = filter (\<lambda>x. scope x = v) (rows s)"
    using seat_change_elsewhere [OF c [THEN conjunct2] inv [THEN conjunct1]] by blast
qed

lemma keeps_top:
  "distinct (map rid (rows s)) \<Longrightarrow> \<exists>x \<in> set (rows s). scope x = w \<and> lead x \<Longrightarrow>
    \<exists>x \<in> set (rows (run stp s is)). scope x = w \<and> lead x"
  using machine.run_inv [of s w "is"] by blast

end

end
