(* ===== verification/Members.thy ===== *)
theory Members
  imports Reach Seats
begin

text \<open>
  Membership over time: the member requests of \<open>app/api/v1/ops.py\<close> as a machine over
  \<open>app/services/access.py\<close>. A workspace keeps an owner and its seats change by its own requests only;
  between two requests that interleave, the guard does not hold.
\<close>

section \<open>Member requests as a machine\<close>

datatype member_call =
    Invite crypto env request_context string string string string
  | ChangeRole env request_context uuid string
  | ChangePermissions env request_context uuid "dict option"
  | Remove env request_context uuid
  | Configure env request_context "string option" "string option" "int option"

fun member_caller :: "member_call \<Rightarrow> request_context" where
  "member_caller (Invite _ _ ctx _ _ _ _) = ctx"
| "member_caller (ChangeRole _ ctx _ _) = ctx"
| "member_caller (ChangePermissions _ ctx _ _) = ctx"
| "member_caller (Remove _ ctx _) = ctx"
| "member_caller (Configure _ ctx _ _ _) = ctx"

text \<open>A route commits what did not raise.\<close>

definition committed :: "db \<Rightarrow> (service_error + 'a) \<times> db \<Rightarrow> db" where
  "committed d r = (case r of (Inl _, _) \<Rightarrow> d | (Inr _, d') \<Rightarrow> d')"

fun member_request :: "db \<Rightarrow> member_call \<Rightarrow> db" where
  "member_request d (Invite cx env ctx email name r p) = committed d (invite_member cx env ctx email name r p d)"
| "member_request d (ChangeRole env ctx mid r) = committed d (update_role env ctx mid r d)"
| "member_request d (ChangePermissions env ctx mid ov) = committed d (update_permissions env ctx mid ov d)"
| "member_request d (Remove env ctx mid) = committed d (remove_member env ctx mid d)"
| "member_request d (Configure env ctx name tz n) = committed d (update_workspace env ctx name tz n d)"

definition seat_ids_ok :: "db \<Rightarrow> bool" where
  "seat_ids_ok d \<longleftrightarrow> distinct (map me_id (db_memberships d))"

text \<open>The primary key refuses an identifier that repeats.\<close>

definition member_step :: "db \<Rightarrow> member_call \<Rightarrow> db" where
  "member_step d c = (if seat_ids_ok (member_request d c) then member_request d c else d)"

definition owned :: "uuid \<Rightarrow> db \<Rightarrow> bool" where
  "owned wid d \<longleftrightarrow> (\<exists>m \<in> set (db_memberships d). me_workspace_id m = wid \<and> me_role m = R_OWNER)"

definition seats :: "uuid \<Rightarrow> db \<Rightarrow> membership list" where
  "seats wid d = filter (\<lambda>m. me_workspace_id m = wid) (db_memberships d)"

definition acts_elsewhere :: "uuid \<Rightarrow> member_call \<Rightarrow> bool" where
  "acts_elsewhere wid c \<longleftrightarrow> ctx_workspace_id (member_caller c) \<noteq> wid"

section \<open>Effects\<close>

lemma owned_seats: "owned wid d \<longleftrightarrow> (\<exists>m \<in> set (seats wid d). me_role m = R_OWNER)"
  by (auto simp: owned_def seats_def)

lemma ensure_account_frame [simp]: "db_memberships (snd (ensure_account cx env email name p d)) = db_memberships d"
  by (simp add: ensure_account_def Let_def split: option.split sum.split)

lemma member_rowD: "member_row ctx mid d = Some m \<Longrightarrow>
    m \<in> set (db_memberships d) \<and> me_id m = mid \<and> me_workspace_id m = ctx_workspace_id ctx"
  by (auto simp: member_row_def dest: find_SomeD)

lemma guard_last_ownerD: "guard_last_owner ctx mid d = Inr u \<Longrightarrow>
    \<exists>m \<in> set (db_memberships d). me_workspace_id m = ctx_workspace_id ctx \<and> me_role m = R_OWNER \<and> me_id m \<noteq> mid"
  by (auto simp: guard_last_owner_def count_where_0_iff split: if_splits)

abbreviation member_change :: "request_context \<Rightarrow> db \<Rightarrow> db \<Rightarrow> bool" where
  "member_change ctx d d' \<equiv> seat_change me_id me_workspace_id (\<lambda>m. me_role m = R_OWNER) (ctx_workspace_id ctx)
     (db_memberships d) (db_memberships d')"

lemma member_same: "db_memberships d' = db_memberships d \<Longrightarrow> member_change ctx d d'"
  by (simp add: seat_change.same)

lemma invite_change: "member_change ctx d (committed d (invite_member cx env ctx email name r p d))"
proof (cases "invite_member cx env ctx email name r p d")
  case (Pair x d')
  show ?thesis
  proof (cases x)
    case (Inr mu)
    then obtain role u d1 where "assignable r = Inr role" "ensure_account cx env email name p d = (Inr u, d1)"
      and d': "db_memberships d' = db_memberships d1 @
        [\<lparr>me_id = fresh_id env d1, me_workspace_id = ctx_workspace_id ctx, me_user_id = us_id u, me_role = role, me_permissions = None\<rparr>]"
      using Pair by (auto simp: invite_member_def guarded_def Let_def split: sum.splits if_splits prod.splits)
    moreover have "db_memberships d1 = db_memberships d"
      using ensure_account_frame [of cx env email name p d] calculation(2) by simp
    ultimately have d'': "db_memberships d' = db_memberships d @
        [\<lparr>me_id = fresh_id env d1, me_workspace_id = ctx_workspace_id ctx, me_user_id = us_id u, me_role = role, me_permissions = None\<rparr>]"
      by simp
    have "member_change ctx d d'" unfolding d'' by (rule seat_change.seated) simp
    then show ?thesis using Pair Inr by (simp add: committed_def)
  qed (use Pair in \<open>simp add: committed_def seat_change.same\<close>)
qed

lemma change_role_change: "member_change ctx d (committed d (update_role env ctx mid r d))"
proof (cases "update_role_read ctx mid r d")
  case (Inr mr)
  obtain m role where mr: "mr = (m, role)" by (cases mr)
  have m: "member_row ctx mid d = Some m" "me_role m = R_OWNER \<longrightarrow> role = R_OWNER \<or> guard_last_owner ctx (me_id m) d = Inr ()"
    using Inr by (auto simp: mr update_role_read_def split: sum.splits option.splits if_splits)
  have d': "db_memberships (update_role_write env ctx m role d) =
      update_where (\<lambda>x. me_id x = me_id m) (\<lambda>x. x\<lparr>me_role := role\<rparr>) (db_memberships d)"
    by (simp add: update_role_write_def)
  have "member_change ctx d (update_role_write env ctx m role d)"
    unfolding d' using member_rowD [OF m(1)] m(2) guard_last_ownerD by (intro seat_change.rewritten) auto
  then show ?thesis by (simp add: committed_def update_role_def Inr mr)
qed (simp add: update_role_def committed_def member_same)

lemma change_permissions_change: "member_change ctx d (committed d (update_permissions env ctx mid ov d))"
proof (cases "fst (update_permissions env ctx mid ov d)")
  case (Inr r)
  then obtain m stored where m: "member_row ctx mid d = Some m" and
    d': "db_memberships (snd (update_permissions env ctx mid ov d)) =
      update_where (\<lambda>x. me_id x = me_id m) (\<lambda>_. m\<lparr>me_permissions := stored\<rparr>) (db_memberships d)"
    by (auto simp: update_permissions_def guarded_def put_membership_def Let_def split: sum.splits option.splits)
  have "member_change ctx d (snd (update_permissions env ctx mid ov d))"
    unfolding d' using member_rowD [OF m] by (intro seat_change.rewritten) auto
  then show ?thesis using Inr by (simp add: committed_def case_prod_beta)
qed (auto simp: committed_def case_prod_beta intro: member_same)

lemma remove_change: "member_change ctx d (committed d (remove_member env ctx mid d))"
proof (cases "fst (remove_member env ctx mid d)")
  case (Inr r)
  then obtain m where m: "member_row ctx mid d = Some m" "me_role m = R_OWNER \<longrightarrow> guard_last_owner ctx (me_id m) d = Inr ()" and
    d': "db_memberships (snd (remove_member env ctx mid d)) = delete_where (\<lambda>x. me_id x = me_id m) (db_memberships d)"
    by (auto simp: remove_member_def guarded_def split: sum.splits option.splits if_splits)
  have "member_change ctx d (snd (remove_member env ctx mid d))"
    unfolding d' using member_rowD [OF m(1)] m(2) guard_last_ownerD by (intro seat_change.removed) auto
  then show ?thesis using Inr by (simp add: committed_def case_prod_beta)
qed (auto simp: committed_def case_prod_beta intro: member_same)

lemma configure_change: "member_change ctx d (committed d (update_workspace env ctx name tz n d))"
  by (rule member_same)
    (auto simp: update_workspace_def guarded_def committed_def put_workspace_def Let_def split: sum.splits option.splits)

lemma request_change: "member_change (member_caller c) d (member_request d c)"
  by (cases c) (simp_all add: invite_change change_role_change change_permissions_change remove_change configure_change)

interpretation members: guarded_seats member_step db_memberships me_id me_workspace_id "\<lambda>m. me_role m = R_OWNER"
    "\<lambda>c. ctx_workspace_id (member_caller c)"
  by unfold_locales (auto simp: member_step_def seat_ids_ok_def request_change seat_change.same)

section \<open>Properties\<close>

text \<open>
  C23: a workspace always has an owner, and its members are its own affair. Whatever member requests
  follow one another, by whomever and in whatever workspaces, a workspace that had an owner still has one;
  and a sequence of requests made in other workspaces leaves its seats exactly as they were.
\<close>

theorem workspace_keeps_an_owner:
  assumes "seat_ids_ok d" "owned wid d"
  shows "owned wid (run member_step d calls) \<and>
    (list_all (acts_elsewhere wid) calls \<longrightarrow> seats wid (run member_step d calls) = seats wid d)"
  using members.keeps_top [of d wid calls] members.machine.run_frame [of d wid wid calls] assms
  by (simp add: seat_ids_ok_def owned_def seats_def acts_elsewhere_def list_all_iff)


definition owner_ctx :: "request_context" where
  "owner_ctx = admin_ctx\<lparr>ctx_workspace_id := ''w1'', ctx_role := R_OWNER, ctx_is_platform_admin := False\<rparr>"

lemma owner_ctx_simps [simp]:
  "ctx_require owner_ctx m a = Inr ()" "ctx_workspace_id owner_ctx = ''w1''"
  by (simp_all add: owner_ctx_def ctx_require_iff ctx_can_def effective_permissions_def effective_def allowed_effective_def
      admin_ctx_def system_context_def)

definition two_owners :: db where
  "two_owners = empty_db\<lparr>db_memberships := [seat ''a'' ''w1'' R_OWNER, seat ''b'' ''w1'' R_OWNER]\<rparr>"

theorem workspace_keeps_an_owner_witness:
  "owned ''w1'' (run member_step two_owners
     [Remove demo_env owner_ctx ''a'', ChangeRole demo_env owner_ctx ''b'' ''analyst'', Remove demo_env owner_ctx ''b''])"
  by (rule workspace_keeps_an_owner [THEN conjunct1])
    (simp_all add: two_owners_def empty_db_def seat_ids_ok_def seat_def owned_def)

section \<open>Stored permission maps are typed\<close>

definition typed_seats :: "db \<Rightarrow> bool" where
  "typed_seats d \<longleftrightarrow> (\<forall>m \<in> set (db_memberships d). \<forall>s. me_permissions m = Some s \<longrightarrow> override_shape s)"

lemma stored_overrides_shape: "stored_overrides ov = Inr (Some s) \<Longrightarrow> override_shape s"
  by (auto simp: stored_overrides_def parse_overrides_shape split: option.splits list.splits sum.splits)

lemma typed_rows:
  "typed_seats d \<Longrightarrow> (\<And>m. m \<in> set (db_memberships d') \<Longrightarrow> m \<in> set (db_memberships d) \<or>
     (\<forall>s. me_permissions m = Some s \<longrightarrow> override_shape s)) \<Longrightarrow> typed_seats d'"
  by (auto simp: typed_seats_def)

lemma committed_typed: "typed_seats d \<Longrightarrow> typed_seats (snd r) \<Longrightarrow> typed_seats (committed d r)"
  by (auto simp: committed_def split: prod.split sum.split)

lemma invite_typed: "typed_seats d \<Longrightarrow> typed_seats (snd (invite_member cx env ctx email name r p d))"
proof (rule typed_rows)
  fix m assume m: "m \<in> set (db_memberships (snd (invite_member cx env ctx email name r p d)))"
  obtain u d1 where e: "ensure_account cx env email name p d = (u, d1)" by fastforce
  then have "db_memberships d1 = db_memberships d" using ensure_account_frame [of cx env email name p d] by simp
  then show "m \<in> set (db_memberships d) \<or> (\<forall>s. me_permissions m = Some s \<longrightarrow> override_shape s)"
    using m by (auto simp: invite_member_def guarded_def e Let_def split: sum.splits if_splits)
qed

lemma update_role_typed: "typed_seats d \<Longrightarrow> typed_seats (snd (update_role env ctx mid r d))"
  by (auto simp: update_role_def update_role_write_def typed_seats_def set_update_where split: sum.split)

lemma update_permissions_typed: "typed_seats d \<Longrightarrow> typed_seats (snd (update_permissions env ctx mid ov d))"
  by (rule typed_rows)
    (auto simp: update_permissions_def guarded_def put_membership_def set_update_where Let_def dest: stored_overrides_shape
      split: sum.splits option.splits)

lemma remove_typed: "typed_seats d \<Longrightarrow> typed_seats (snd (remove_member env ctx mid d))"
  by (rule typed_rows) (auto simp: remove_member_def guarded_def set_delete_where split: sum.splits option.splits if_splits)

lemma configure_typed: "typed_seats d \<Longrightarrow> typed_seats (snd (update_workspace env ctx name tz n d))"
  by (rule typed_rows) (auto simp: update_workspace_def guarded_def put_workspace_def Let_def split: sum.splits option.splits)

lemma request_typed: "typed_seats d \<Longrightarrow> typed_seats (member_request d c)"
  by (cases c) (auto intro: committed_typed invite_typed update_role_typed update_permissions_typed remove_typed configure_typed)

interpretation typing: invariant_machine member_step typed_seats
  by unfold_locales (simp add: member_step_def request_typed)

text \<open>
  C30: the column \<open>permissions\<close> is typed. When every stored override map has the stored shape -- at least one module,
  distinct module names, each with the sorted actions that \<open>parse_overrides\<close> writes -- then after any sequence
  of member requests, with any submitted maps, every stored map still has it. A stored map is then accepted
  by \<open>parse_overrides\<close> and stored as it is when the editor submits it again.
\<close>

theorem stored_overrides_stay_typed:
  assumes "typed_seats d" "m \<in> set (db_memberships (run member_step d calls))" "me_permissions m = Some s"
  shows "override_shape s \<and> stored_overrides (Some s) = Inr (Some s)"
proof -
  have "override_shape s" using typing.run_inv [OF assms(1), of calls] assms(2,3) by (auto simp: typed_seats_def)
  then show ?thesis
    using parse_overrides_fixed by (auto simp: stored_overrides_def override_shape_def split: list.split)
qed

theorem stored_overrides_stay_typed_witness:
  "\<exists>m s. m \<in> set (db_memberships (run member_step two_owners
       [ChangePermissions demo_env owner_ctx ''a'' (Some [(''alerts'', JArr [JStr ''view'', JStr ''edit'', JStr ''view''])])])) \<and>
     me_permissions m = Some s \<and> override_shape s"
proof -
  let ?s = "[(''alerts'', JArr [JStr ''edit'', JStr ''view''])]"
  let ?m = "seat ''a'' ''w1'' R_OWNER\<lparr>me_permissions := Some ?s\<rparr>"
  have "sorted_values {A_VIEW, A_EDIT} = [''edit'', ''view'']"
    by (simp add: sorted_values_def less_eq_action_def less_action_def)
  then have "stored_overrides (Some [(''alerts'', JArr [JStr ''view'', JStr ''edit'', JStr ''view''])]) =
      Inr (Some [(''alerts'', JArr [JStr ''edit'', JStr ''view''])])"
    by (simp add: stored_overrides_def parse_overrides_def as_module_def perm_module_of_def action_of_def enum_parse_def
        perm_module_members_def action_members_def insert_commute)
  then have row: "?m \<in>
      set (db_memberships (run member_step two_owners
        [ChangePermissions demo_env owner_ctx ''a'' (Some [(''alerts'', JArr [JStr ''view'', JStr ''edit'', JStr ''view''])])]))"
    by (simp add: member_step_def committed_def update_permissions_def guarded_def member_row_def two_owners_def empty_db_def seat_def
        put_membership_def update_where_def seat_ids_ok_def Let_def case_prod_beta)
  have "typed_seats two_owners" by (simp add: typed_seats_def two_owners_def empty_db_def seat_def)
  from stored_overrides_stay_typed [OF this row, of ?s] row show ?thesis
    by (intro exI [of _ ?m] exI [of _ ?s]) simp
qed

lemma update_role_readD: "update_role_read ctx mid raw d = Inr (m, r) \<Longrightarrow> m \<in> set (db_memberships d)"
  by (auto simp: update_role_read_def dest: member_rowD split: sum.splits option.splits if_splits)

text \<open>
  interleaved, two owners can remove each other. When each of the only two owners of a workspace is
  demoted by a request of its own, both requests pass the guard if each reads before the other writes,
  and when both have written the workspace has no owner.
\<close>

lemma interleaved_demotions_lose_the_owner:
  assumes "\<forall>m \<in> set (db_memberships d). me_workspace_id m = wid \<and> me_role m = R_OWNER \<longrightarrow> m = a \<or> m = b"
    and "update_role_read ctx (me_id a) new d = Inr (a, r)" "update_role_read ctx' (me_id b) new d = Inr (b, r)" "r \<noteq> R_OWNER"
  shows "\<not> owned wid (update_role_write env' ctx' b r (update_role_write env ctx a r d))"
proof -
  have rows: "a \<in> set (db_memberships d)" "b \<in> set (db_memberships d)"
    using assms(2,3) by (blast dest: update_role_readD)+
  let ?f = "\<lambda>x. x\<lparr>me_role := r\<rparr>"
  have "db_memberships (update_role_write env' ctx' b r (update_role_write env ctx a r d)) =
      map (\<lambda>x. if me_id x = me_id a \<or> me_id x = me_id b then ?f x else x) (db_memberships d)"
    by (simp add: update_role_write_def update_where_def)
  then show ?thesis using assms(1,4) unfolding owned_def by (auto split: if_splits)
qed

lemma interleaved_demotions_lose_the_owner_example:
  "\<exists>a b r. update_role_read owner_ctx ''a'' ''analyst'' two_owners = Inr (a, r) \<and>
     update_role_read owner_ctx ''b'' ''analyst'' two_owners = Inr (b, r) \<and>
     owned ''w1'' two_owners \<and>
     \<not> owned ''w1'' (update_role_write demo_env owner_ctx b r (update_role_write demo_env owner_ctx a r two_owners))"
proof -
  have r: "role_of (str_upper ''analyst'') = Some R_ANALYST" by code_simp
  have reads: "update_role_read owner_ctx (me_id (seat ''a'' ''w1'' R_OWNER)) ''analyst'' two_owners = Inr (seat ''a'' ''w1'' R_OWNER, R_ANALYST)"
    "update_role_read owner_ctx (me_id (seat ''b'' ''w1'' R_OWNER)) ''analyst'' two_owners = Inr (seat ''b'' ''w1'' R_OWNER, R_ANALYST)"
    by (simp_all add: update_role_read_def assignable_def r ASSIGNABLE_ROLES_def member_row_def two_owners_def seat_def guard_last_owner_def)
  have "\<not> owned ''w1'' (update_role_write demo_env owner_ctx (seat ''b'' ''w1'' R_OWNER) R_ANALYST
      (update_role_write demo_env owner_ctx (seat ''a'' ''w1'' R_OWNER) R_ANALYST two_owners))"
    by (rule interleaved_demotions_lose_the_owner [OF _ reads])
      (simp_all add: two_owners_def empty_db_def seat_ids_ok_def seat_def)
  moreover have "me_id (seat ''a'' ''w1'' R_OWNER) = ''a''" "me_id (seat ''b'' ''w1'' R_OWNER) = ''b''" "owned ''w1'' two_owners"
    by (simp_all add: seat_def owned_def two_owners_def)
  ultimately show ?thesis using reads by metis
qed

section \<open>Where the guard looks away\<close>

text \<open>A member who may change roles but not grant authority can take the owner's role.\<close>

lemma editor_takes_ownership:
  assumes "ctx_can ctx M_MEMBERS A_EDIT" "member_row ctx mid d = Some m"
  shows "\<exists>d'. update_role env ctx mid ''OWNER'' d = (Inr (m\<lparr>me_role := R_OWNER\<rparr>), d')"
proof -
  have r: "role_of (str_upper ''OWNER'') = Some R_OWNER" by code_simp
  show ?thesis
    using assms by (simp add: update_role_def update_role_read_def ctx_require_iff [THEN iffD2] assignable_def r ASSIGNABLE_ROLES_def)
qed

text \<open>The guard counts roles: the last owner can be left without any authority over the members.\<close>

lemma last_owner_can_be_stripped:
  assumes "ctx_can ctx M_MEMBERS A_ADMIN" "member_row ctx mid d = Some m"
  shows "\<exists>m' p d'. update_permissions env ctx mid (Some [(''members'', JArr [])]) d = (Inr (m', p), d') \<and>
    effective (me_role m') (me_permissions m') False M_MEMBERS = {}"
proof -
  have "parse_overrides (Some [(''members'', JArr [])]) = Inr [(''members'', JArr [])]"
    "apply_overrides (MATRIX r) [(''members'', JArr [])] M_MEMBERS = {}" for r
    by (simp_all add: parse_overrides_def as_module_def perm_module_of_def enum_parse_def perm_module_members_def sorted_values_def
        List.map_filter_simps)
  then show ?thesis
    using assms by (simp add: update_permissions_def ctx_require_iff [THEN iffD2] stored_overrides_def effective_def Let_def)
qed

end
