(* ===== verification/Organizations.thy ===== *)
theory Organizations
  imports Members
begin

text \<open>
  The organisation's own membership, \<open>app/services/organizations.py\<close>: the axis above the workspaces,
  with the same guard for its last owner, and one hole: an administrator may not make an owner but may
  unmake one.
\<close>

section \<open>Operations\<close>

definition org_id_of :: "request_context \<Rightarrow> service_error + uuid" where
  "org_id_of ctx =
     (case ctx_organization_id ctx of
        None \<Rightarrow> Inl (App (raise_code ForbiddenError ''SESSION_WITHOUT_ORG''))
      | Some i \<Rightarrow> Inr i)"

text \<open>A check of the caller's organisation role, then of the session's organisation.\<close>

definition within_org :: "request_context \<Rightarrow> action \<Rightarrow> service_error + uuid" where
  "within_org ctx a = (case org_require (ctx_org_role ctx) a of Inl e \<Rightarrow> Inl e | Inr _ \<Rightarrow> org_id_of ctx)"

definition get_organization :: "db \<Rightarrow> uuid \<Rightarrow> organization option" where
  "get_organization d i = find (\<lambda>o1. og_id o1 = i) (db_organizations d)"

record org_overview =
  os_organization :: organization
  os_my_role :: "org_role option"
  os_my_permissions :: "string list"

definition org_summary :: "request_context \<Rightarrow> db \<Rightarrow> service_error + org_overview" where
  "org_summary ctx d =
     (case within_org ctx A_VIEW of
        Inl e \<Rightarrow> Inl e
      | Inr i \<Rightarrow>
          (case get_organization d i of
             None \<Rightarrow> Inl (App (raise_class NotFoundError))
           | Some o1 \<Rightarrow> Inr \<lparr>os_organization = o1, os_my_role = ctx_org_role ctx, os_my_permissions = org_permissions (ctx_org_role ctx)\<rparr>))"

definition org_list_members :: "request_context \<Rightarrow> db \<Rightarrow> service_error + (organization_membership \<times> user) list" where
  "org_list_members ctx d =
     (case within_org ctx A_VIEW of
        Inl e \<Rightarrow> Inl e
      | Inr i \<Rightarrow> Inr (List.map_filter (\<lambda>m. map_option (Pair m) (get_user d (om_user_id m)))
          (filter (\<lambda>m. om_organization_id m = i) (db_org_memberships d))))"

definition assignable_org_role :: "string \<Rightarrow> org_role option \<Rightarrow> service_error + org_role" where
  "assignable_org_role raw acting_role =
     (case org_role_of (str_upper raw) of
        None \<Rightarrow> Inl (App (AppError_init ValidationError (no_args\<lparr>arg_details :=
          Some [(''allowed'', JArr (map (JStr \<circ> org_role_value) org_role_members))]\<rparr>)))
      | Some r \<Rightarrow>
          if r = OR_OWNER \<and> acting_role \<noteq> Some OR_OWNER
          then Inl (App (raise_code ForbiddenError ''ORG_ROLE_NOT_ASSIGNABLE''))
          else Inr r)"

definition org_entry :: "string \<Rightarrow> uuid \<Rightarrow> string \<Rightarrow> dict \<Rightarrow> dict \<Rightarrow> audit_entry" where
  "org_entry act uid label before after =
     (entry act ''ORGANIZATION_MEMBER'' uid label)\<lparr>aa_before := before, aa_after := after\<rparr>"

definition org_role_json :: "org_role \<Rightarrow> dict" where
  "org_role_json r = [(''role'', JStr (org_role_value r))]"

definition org_invite_member :: "crypto \<Rightarrow> env \<Rightarrow> request_context \<Rightarrow> string \<Rightarrow> string \<Rightarrow> string \<Rightarrow> string \<Rightarrow> db
    \<Rightarrow> (service_error + organization_membership \<times> user) \<times> db" where
  "org_invite_member cx env ctx email full_name raw_role password d =
     guarded (org_require (ctx_org_role ctx) A_ADMIN) d
       (case assignable_org_role raw_role (ctx_org_role ctx) of
          Inl e \<Rightarrow> (Inl e, d)
        | Inr r \<Rightarrow>
            if password_problems password \<noteq> [] then (Inl (password_too_weak (password_problems password)), d)
            else
              (case ensure_account cx env email full_name password d of
                 (Inl e, d1) \<Rightarrow> (Inl e, d1)
               | (Inr u, d1) \<Rightarrow>
                   (case org_id_of ctx of
                      Inl e \<Rightarrow> (Inl e, d1)
                    | Inr i \<Rightarrow>
                        if list_ex (\<lambda>m. om_organization_id m = i \<and> om_user_id m = us_id u) (db_org_memberships d1)
                        then (Inl (App (raise_class ConflictError)), d1)
                        else
                          (let m = \<lparr>om_id = fresh_id env d1, om_organization_id = i, om_user_id = us_id u, om_role = r\<rparr>;
                               d2 = (bump d1)\<lparr>db_org_memberships := db_org_memberships d1 @ [m]\<rparr>
                           in (Inr (m, u), audit_record env ctx
                                 (org_entry ''org_member.invited'' (us_id u) (us_email u) [] (org_role_json r)) d2)))))"

definition org_member_row :: "uuid \<Rightarrow> uuid \<Rightarrow> db \<Rightarrow> organization_membership option" where
  "org_member_row i mid d = find (\<lambda>m. om_id m = mid \<and> om_organization_id m = i) (db_org_memberships d)"

definition guard_last_org_owner :: "uuid \<Rightarrow> uuid \<Rightarrow> db \<Rightarrow> service_error + unit" where
  "guard_last_org_owner i exclude d =
     (if count_where (\<lambda>m. om_organization_id m = i \<and> om_role m = OR_OWNER \<and> om_id m \<noteq> exclude) (db_org_memberships d) = 0
      then Inl (App (AppError_init ConflictError (no_args\<lparr>arg_code := Some ''LAST_ORG_OWNER'',
             arg_remediation := Some [(''action'', JStr ''ASSIGN_ANOTHER_ORG_OWNER'')]\<rparr>)))
      else Inr ())"

definition org_update_role :: "env \<Rightarrow> request_context \<Rightarrow> uuid \<Rightarrow> string \<Rightarrow> db \<Rightarrow> (service_error + organization_membership) \<times> db" where
  "org_update_role env ctx mid raw_role d =
     guarded (org_require (ctx_org_role ctx) A_ADMIN) d
       (case assignable_org_role raw_role (ctx_org_role ctx) of
          Inl e \<Rightarrow> (Inl e, d)
        | Inr r \<Rightarrow>
            (case org_id_of ctx of
               Inl e \<Rightarrow> (Inl e, d)
             | Inr i \<Rightarrow>
                 (case org_member_row i mid d of
                    None \<Rightarrow> (Inl (App (raise_class NotFoundError)), d)
                  | Some m \<Rightarrow>
                      (case (if om_role m = OR_OWNER \<and> r \<noteq> OR_OWNER then guard_last_org_owner i (om_id m) d else Inr ()) of
                         Inl e \<Rightarrow> (Inl e, d)
                       | Inr _ \<Rightarrow>
                           (Inr (m\<lparr>om_role := r\<rparr>), audit_record env ctx
                              (org_entry ''org_member.role_changed'' (om_user_id m) (user_label d (om_user_id m))
                                 (org_role_json (om_role m)) (org_role_json r))
                              (d\<lparr>db_org_memberships := update_where (\<lambda>x. om_id x = om_id m) (\<lambda>x. x\<lparr>om_role := r\<rparr>)
                                   (db_org_memberships d)\<rparr>))))))"

definition org_remove_member :: "env \<Rightarrow> request_context \<Rightarrow> uuid \<Rightarrow> db \<Rightarrow> (service_error + unit) \<times> db" where
  "org_remove_member env ctx mid d =
     (case within_org ctx A_ADMIN of
        Inl e \<Rightarrow> (Inl e, d)
      | Inr i \<Rightarrow>
          (case org_member_row i mid d of
             None \<Rightarrow> (Inl (App (raise_class NotFoundError)), d)
           | Some m \<Rightarrow>
               (case (if om_role m = OR_OWNER then guard_last_org_owner i (om_id m) d else Inr ()) of
                  Inl e \<Rightarrow> (Inl e, d)
                | Inr _ \<Rightarrow>
                    (Inr (), audit_record env ctx
                       (org_entry ''org_member.removed'' (om_user_id m) (user_label d (om_user_id m)) [] [])
                       (d\<lparr>db_org_memberships := delete_where (\<lambda>x. om_id x = om_id m) (db_org_memberships d)\<rparr>)))))"

section \<open>Requests as a machine\<close>

datatype org_call =
    OrgInvite crypto env request_context string string string string
  | OrgChangeRole env request_context uuid string
  | OrgRemove env request_context uuid

fun org_caller :: "org_call \<Rightarrow> request_context" where
  "org_caller (OrgInvite _ _ ctx _ _ _ _) = ctx"
| "org_caller (OrgChangeRole _ ctx _ _) = ctx"
| "org_caller (OrgRemove _ ctx _) = ctx"

fun org_request :: "db \<Rightarrow> org_call \<Rightarrow> db" where
  "org_request d (OrgInvite cx env ctx email name r p) = committed d (org_invite_member cx env ctx email name r p d)"
| "org_request d (OrgChangeRole env ctx mid r) = committed d (org_update_role env ctx mid r d)"
| "org_request d (OrgRemove env ctx mid) = committed d (org_remove_member env ctx mid d)"

definition org_seat_ids_ok :: "db \<Rightarrow> bool" where
  "org_seat_ids_ok d \<longleftrightarrow> distinct (map om_id (db_org_memberships d))"

definition org_step :: "db \<Rightarrow> org_call \<Rightarrow> db" where
  "org_step d c = (if org_seat_ids_ok (org_request d c) then org_request d c else d)"

definition org_of_caller :: "org_call \<Rightarrow> uuid" where
  "org_of_caller c = (case ctx_organization_id (org_caller c) of None \<Rightarrow> [] | Some i \<Rightarrow> i)"

definition org_owned :: "uuid \<Rightarrow> db \<Rightarrow> bool" where
  "org_owned i d \<longleftrightarrow> (\<exists>m \<in> set (db_org_memberships d). om_organization_id m = i \<and> om_role m = OR_OWNER)"

abbreviation org_change :: "uuid \<Rightarrow> db \<Rightarrow> db \<Rightarrow> bool" where
  "org_change i d d' \<equiv> seat_change om_id om_organization_id (\<lambda>m. om_role m = OR_OWNER) i
     (db_org_memberships d) (db_org_memberships d')"

lemma org_same: "db_org_memberships d' = db_org_memberships d \<Longrightarrow> org_change i d d'"
  by (simp add: seat_change.same)

lemma ensure_account_org_frame [simp]: "db_org_memberships (snd (ensure_account cx env email name p d)) = db_org_memberships d"
  by (simp add: ensure_account_def Let_def split: option.split sum.split)

lemma org_member_rowD: "org_member_row i mid d = Some m \<Longrightarrow> m \<in> set (db_org_memberships d) \<and> om_organization_id m = i"
  by (auto simp: org_member_row_def dest: find_SomeD)

lemma guard_last_org_ownerD: "guard_last_org_owner i mid d = Inr u \<Longrightarrow>
    \<exists>m \<in> set (db_org_memberships d). om_organization_id m = i \<and> om_role m = OR_OWNER \<and> om_id m \<noteq> mid"
  by (auto simp: guard_last_org_owner_def count_where_0_iff split: if_splits)

lemma org_id_of_Inr [simp]: "org_id_of ctx = Inr i \<longleftrightarrow> ctx_organization_id ctx = Some i"
  by (simp add: org_id_of_def split: option.split)

lemma org_invite_change: "org_change (org_of_caller (OrgInvite cx env ctx email name r p)) d (committed d (org_invite_member cx env ctx email name r p d))"
proof (cases "fst (org_invite_member cx env ctx email name r p d)")
  case (Inr mu)
  then obtain role u d1 i where e: "ensure_account cx env email name p d = (Inr u, d1)" "ctx_organization_id ctx = Some i"
    and d': "db_org_memberships (snd (org_invite_member cx env ctx email name r p d)) = db_org_memberships d1 @
      [\<lparr>om_id = fresh_id env d1, om_organization_id = i, om_user_id = us_id u, om_role = role\<rparr>]"
    by (auto simp: org_invite_member_def guarded_def Let_def split: sum.splits if_splits prod.splits)
  have "db_org_memberships d1 = db_org_memberships d"
    using ensure_account_org_frame [of cx env email name p d] e(1) by simp
  then have "org_change i d (snd (org_invite_member cx env ctx email name r p d))"
    unfolding d' by (simp only:) (rule seat_change.seated, simp)
  then show ?thesis using Inr e(2) by (simp add: committed_def case_prod_beta org_of_caller_def)
qed (auto simp: committed_def case_prod_beta intro: org_same)

lemma org_role_change: "org_change (org_of_caller (OrgChangeRole env ctx mid r)) d (committed d (org_update_role env ctx mid r d))"
proof (cases "fst (org_update_role env ctx mid r d)")
  case (Inr x)
  then obtain role where role: "assignable_org_role r (ctx_org_role ctx) = Inr role"
    by (auto simp: org_update_role_def guarded_def split: sum.splits)
  from Inr obtain i m where m: "ctx_organization_id ctx = Some i" "org_member_row i mid d = Some m"
      "om_role m = OR_OWNER \<longrightarrow> role = OR_OWNER \<or> guard_last_org_owner i (om_id m) d = Inr ()"
    and d': "db_org_memberships (snd (org_update_role env ctx mid r d)) =
      update_where (\<lambda>x. om_id x = om_id m) (\<lambda>x. x\<lparr>om_role := role\<rparr>) (db_org_memberships d)"
    by (auto simp: org_update_role_def guarded_def role split: sum.splits option.splits if_splits)
  have "org_change i d (snd (org_update_role env ctx mid r d))"
    unfolding d' using org_member_rowD [OF m(2)] m(3) guard_last_org_ownerD by (intro seat_change.rewritten) auto
  then show ?thesis using Inr m(1) by (simp add: committed_def case_prod_beta org_of_caller_def)
qed (auto simp: committed_def case_prod_beta intro: org_same)

lemma org_remove_change: "org_change (org_of_caller (OrgRemove env ctx mid)) d (committed d (org_remove_member env ctx mid d))"
proof (cases "fst (org_remove_member env ctx mid d)")
  case (Inr x)
  then obtain i m where m: "ctx_organization_id ctx = Some i" "org_member_row i mid d = Some m"
      "om_role m = OR_OWNER \<longrightarrow> guard_last_org_owner i (om_id m) d = Inr ()"
    and d': "db_org_memberships (snd (org_remove_member env ctx mid d)) =
      delete_where (\<lambda>x. om_id x = om_id m) (db_org_memberships d)"
    by (auto simp: org_remove_member_def within_org_def split: sum.splits option.splits if_splits)
  have "org_change i d (snd (org_remove_member env ctx mid d))"
    unfolding d' using org_member_rowD [OF m(2)] m(3) guard_last_org_ownerD by (intro seat_change.removed) auto
  then show ?thesis using Inr m(1) by (simp add: committed_def case_prod_beta org_of_caller_def)
qed (auto simp: committed_def case_prod_beta intro: org_same)

lemma org_request_change: "org_change (org_of_caller c) d (org_request d c)"
  by (cases c) (simp_all add: org_invite_change org_role_change org_remove_change)

interpretation organizations: guarded_seats org_step db_org_memberships om_id om_organization_id "\<lambda>m. om_role m = OR_OWNER" org_of_caller
  by unfold_locales (auto simp: org_step_def org_seat_ids_ok_def org_request_change seat_change.same)

text \<open>
  an organisation always has an owner. Whatever organisation requests follow one another, an
  organisation that had an owner still has one, and requests made in other organisations, or by
  sessions without one, leave its membership exactly as it was.
\<close>

lemma organization_keeps_an_owner:
  assumes "org_seat_ids_ok d" "org_owned i d"
  shows "org_owned i (run org_step d calls) \<and>
    (list_all (\<lambda>c. org_of_caller c \<noteq> i) calls \<longrightarrow>
      filter (\<lambda>m. om_organization_id m = i) (db_org_memberships (run org_step d calls)) =
      filter (\<lambda>m. om_organization_id m = i) (db_org_memberships d))"
  using organizations.keeps_top [of d i calls] organizations.machine.run_frame [of d i i calls] assms
  by (simp add: org_seat_ids_ok_def org_owned_def)

text \<open>
  an administrator cannot make an owner but can unmake one. \<open>ORG_ADMIN\<close> is refused when it assigns
  \<open>ORG_OWNER\<close>; but when another owner remains, its demotion of an owner goes through.
\<close>

lemma org_admin_demotes_an_owner:
  assumes "ctx_org_role ctx = Some OR_ADMIN" "ctx_organization_id ctx = Some i" "org_member_row i mid d = Some m"
    and "\<exists>x \<in> set (db_org_memberships d). om_organization_id x = i \<and> om_role x = OR_OWNER \<and> om_id x \<noteq> om_id m"
  shows "fst (org_update_role env ctx mid ''ORG_OWNER'' d) = Inl (App (raise_code ForbiddenError ''ORG_ROLE_NOT_ASSIGNABLE'')) \<and>
    fst (org_update_role env ctx mid ''ORG_MEMBER'' d) = Inr (m\<lparr>om_role := OR_MEMBER\<rparr>)"
proof -
  have "org_role_of (str_upper ''ORG_OWNER'') = Some OR_OWNER" "org_role_of (str_upper ''ORG_MEMBER'') = Some OR_MEMBER"
    by code_simp+
  moreover have "org_require (ctx_org_role ctx) A_ADMIN = Inr ()" using assms(1) by (simp add: org_require_def org_allowed_def)
  moreover have "guard_last_org_owner i (om_id m) d = Inr ()"
    using assms(4) by (auto simp: guard_last_org_owner_def count_where_0_iff)
  ultimately show ?thesis using assms(1-3) by (simp add: org_update_role_def assignable_org_role_def org_id_of_def)
qed

definition org_db :: db where
  "org_db = empty_db\<lparr>db_org_memberships := [\<lparr>om_id = ''a'', om_organization_id = ''o'', om_user_id = ''u'', om_role = OR_OWNER\<rparr>,
     \<lparr>om_id = ''b'', om_organization_id = ''o'', om_user_id = ''v'', om_role = OR_OWNER\<rparr>]\<rparr>"

definition org_admin_ctx :: request_context where
  "org_admin_ctx = admin_ctx\<lparr>ctx_organization_id := Some ''o'', ctx_org_role := Some OR_ADMIN\<rparr>"

lemma organization_keeps_an_owner_example:
  "org_owned ''o'' (run org_step org_db [OrgRemove demo_env org_admin_ctx ''a'', OrgRemove demo_env org_admin_ctx ''b''])"
  by (rule organization_keeps_an_owner [THEN conjunct1]) (simp_all add: org_db_def empty_db_def org_seat_ids_ok_def org_owned_def)

lemma org_admin_demotes_an_owner_example:
  "fst (org_update_role demo_env org_admin_ctx ''a'' ''ORG_MEMBER'' org_db) =
    Inr \<lparr>om_id = ''a'', om_organization_id = ''o'', om_user_id = ''u'', om_role = OR_MEMBER\<rparr>"
  using org_admin_demotes_an_owner [of org_admin_ctx "''o''" "''a''" org_db
      "\<lparr>om_id = ''a'', om_organization_id = ''o'', om_user_id = ''u'', om_role = OR_OWNER\<rparr>" demo_env]
  by (simp add: org_admin_ctx_def org_member_row_def org_db_def)

end
