(* ===== verification/Provisioning.thy ===== *)
theory Provisioning
  imports Organizations
begin

text \<open>
  Creating and administering tenants, \<open>app/services/provisioning.py\<close>. Unicode decomposition and the
  removal of combining marks (\<open>unicodedata\<close>) are a parameter; the letters outside Latin-1 of the
  transliteration table have no character here.
\<close>

section \<open>Slugs and names\<close>

definition is_slug_char :: "char \<Rightarrow> bool" where
  "is_slug_char c = (is_digit c \<or> (let n = of_char c :: nat in 97 \<le> n \<and> n \<le> 122))"

text \<open>\<open>^[a-z0-9]+(?:-[a-z0-9]+)*$\<close>, where \<open>$\<close> also matches before a final line feed. The flag says that
  the character before was one of the class.\<close>

fun slug_tail :: "bool \<Rightarrow> string \<Rightarrow> bool" where
  "slug_tail ok [] = ok"
| "slug_tail ok (c # cs) =
     (if is_slug_char c then slug_tail True cs
      else if c = CHR ''-'' then ok \<and> slug_tail False cs
      else c = CHR 0x0A \<and> cs = [] \<and> ok)"

definition slug_ok :: "string \<Rightarrow> bool" where
  "slug_ok s = slug_tail False s"

definition SLUG_RESERVED :: "string list" where
  "SLUG_RESERVED = [''api'', ''admin'', ''hooks'', ''internal'', ''login'', ''logout'', ''static'', ''assets'', ''health'',
     ''healthz'', ''readyz'', ''metrics'', ''platform'', ''www'']"

definition transliterate :: "string \<Rightarrow> string" where
  "transliterate s = concat (map (\<lambda>c. if c = CHR 0xF0 then ''d'' else if c = CHR 0xF8 then ''o''
     else if c = CHR 0xDF then ''ss'' else [c]) s)"

text \<open>\<open>re.sub(r"[^a-z0-9]+", "-", s)\<close>: every run of other characters becomes one hyphen.\<close>

fun hyphenate :: "bool \<Rightarrow> string \<Rightarrow> string" where
  "hyphenate inside [] = []"
| "hyphenate inside (c # cs) =
     (if is_slug_char c then c # hyphenate False cs
      else if inside then hyphenate True cs
      else CHR ''-'' # hyphenate True cs)"

definition strip_hyphens :: "string \<Rightarrow> string" where
  "strip_hyphens s = rev (dropWhile (\<lambda>c. c = CHR ''-'') (rev (dropWhile (\<lambda>c. c = CHR ''-'') s)))"

definition slugify :: "(string \<Rightarrow> string) \<Rightarrow> string \<Rightarrow> string" where
  "slugify fold_marks name =
     (let ascii_only = fold_marks (transliterate (str_strip name));
          slug = take 60 (strip_hyphens (hyphenate False (str_lower ascii_only)))
      in if slug = [] then ''workspace'' else slug)"

fun split_words :: "string \<Rightarrow> string \<Rightarrow> string list" where
  "split_words acc [] = (if acc = [] then [] else [rev acc])"
| "split_words acc (c # cs) =
     (if c \<in> set ''._+-'' then (if acc = [] then split_words [] cs else rev acc # split_words [] cs)
      else split_words (c # acc) cs)"

definition name_from_email :: "string \<Rightarrow> string" where
  "name_from_email email =
     (let part = (case split_once (CHR ''@'') email of None \<Rightarrow> email | Some (a, _) \<Rightarrow> a);
          words = split_words [] part
      in if words = [] then email else join '' '' (map (\<lambda>w. str_upper (take 1 w) @ drop 1 w) words))"

definition field_detail :: "string \<Rightarrow> dict option" where
  "field_detail f = Some [(''field'', JStr f)]"

definition invalid_field :: "error_class \<Rightarrow> string \<Rightarrow> string \<Rightarrow> service_error" where
  "invalid_field cls code f = App (AppError_init cls (no_args\<lparr>arg_code := Some code, arg_details := field_detail f\<rparr>))"

definition validate_slug :: "string \<Rightarrow> service_error + string" where
  "validate_slug slug =
     (if \<not> slug_ok slug then Inl (invalid_field ValidationError ''WORKSPACE_SLUG_INVALID'' ''slug'')
      else if length slug > 60 then Inl (invalid_field ValidationError ''WORKSPACE_SLUG_INVALID'' ''slug'')
      else if slug \<in> set SLUG_RESERVED then Inl (invalid_field ValidationError ''WORKSPACE_SLUG_RESERVED'' ''slug'')
      else Inr slug)"

section \<open>Creating a tenant\<close>

definition require_platform_admin :: "request_context \<Rightarrow> service_error + unit" where
  "require_platform_admin ctx =
     (if \<not> ctx_is_platform_admin ctx then Inl (App (raise_code ForbiddenError ''PLATFORM_ADMIN_REQUIRED'')) else Inr ())"

definition resolve_engine :: "db \<Rightarrow> string option \<Rightarrow> service_error + engine_instance" where
  "resolve_engine d engine_name =
     (if text_or_empty engine_name \<noteq> [] then
        (case find (\<lambda>e. ei_name e = text_or_empty engine_name) (db_engines d) of
           None \<Rightarrow> Inl (App (raise_code NotFoundError ''ENGINE_INSTANCE_NOT_FOUND''))
         | Some e \<Rightarrow> Inr e)
      else
        (case find ei_is_default (db_engines d) of
           None \<Rightarrow> Inl (App (raise_code ConflictError ''ENGINE_INSTANCE_MISSING''))
         | Some e \<Rightarrow> Inr e))"

definition slug_wanted :: "(string \<Rightarrow> string) \<Rightarrow> string \<Rightarrow> string option \<Rightarrow> string" where
  "slug_wanted fold_marks display_name slug =
     str_lower (str_strip (if text_or_empty slug \<noteq> [] then text_or_empty slug else slugify fold_marks display_name))"

definition quota_invalid :: "int option \<Rightarrow> bool" where
  "quota_invalid n = (case n of None \<Rightarrow> False | Some k \<Rightarrow> k < 1)"

record tenant_args =
  ta_name :: string
  ta_slug :: "string option"
  ta_timezone :: string
  ta_quota :: "int option"
  ta_engine :: "string option"

text \<open>The checks that both ways of creating a workspace make, in their order; \<open>orgs\<close>: whether the slug
  must be free among the organisations too.\<close>

definition check_tenant :: "(string \<Rightarrow> string) \<Rightarrow> env \<Rightarrow> bool \<Rightarrow> tenant_args \<Rightarrow> db \<Rightarrow> service_error + string \<times> string \<times> engine_instance" where
  "check_tenant fold_marks env orgs a d =
     (let display_name = str_strip (ta_name a) in
      if display_name = [] then Inl (invalid_field ValidationError ''WORKSPACE_NAME_REQUIRED'' ''name'')
      else
        (case validate_slug (slug_wanted fold_marks display_name (ta_slug a)) of
           Inl e \<Rightarrow> Inl e
         | Inr slug \<Rightarrow>
             if list_ex (\<lambda>w. ws_slug w = slug) (db_workspaces d) \<or> orgs \<and> list_ex (\<lambda>o1. og_slug o1 = slug) (db_organizations d)
             then Inl (invalid_field ConflictError ''WORKSPACE_SLUG_TAKEN'' ''slug'')
             else
               (case resolve_zone (env_calendar env) (JStr (ta_timezone a)) of
                  Inl e \<Rightarrow> Inl e
                | Inr _ \<Rightarrow>
                    if quota_invalid (ta_quota a)
                    then Inl (invalid_field ValidationError ''WORKSPACE_QUOTA_INVALID'' ''max_concurrent_executions'')
                    else (case resolve_engine d (ta_engine a) of Inl e \<Rightarrow> Inl e | Inr e \<Rightarrow> Inr (display_name, slug, e)))))"

definition new_workspace :: "uuid \<Rightarrow> uuid \<Rightarrow> string \<Rightarrow> string \<Rightarrow> tenant_args \<Rightarrow> engine_instance \<Rightarrow> workspace" where
  "new_workspace i org name slug a engine =
     \<lparr>ws_id = i, ws_organization_id = org, ws_name = name, ws_slug = slug, ws_status = WS_ACTIVE,
      ws_timezone = ta_timezone a, ws_engine_instance_id = Some (ei_id engine), ws_max_concurrent_executions = ta_quota a\<rparr>"

text \<open>The owner's account: an existing one is left as it is; a new one has the given password or a
  generated one, which is returned.\<close>

definition ensure_owner :: "crypto \<Rightarrow> env \<Rightarrow> string \<Rightarrow> string option \<Rightarrow> string option \<Rightarrow> db
    \<Rightarrow> (service_error + user \<times> string option) \<times> db" where
  "ensure_owner cx env email full_name password d =
     (case user_by_email d email of
        Some u \<Rightarrow> (Inr (u, None), d)
      | None \<Rightarrow>
          (let given = text_or_empty password; secret = (if given \<noteq> [] then given else env_token env (db_drawn d)) in
           if given \<noteq> [] \<and> password_problems given \<noteq> [] then (Inl (password_too_weak (password_problems given)), d)
           else
             (case hash_password cx secret of
                Inl e \<Rightarrow> (Inl e, d)
              | Inr h \<Rightarrow>
                  (let name = str_strip (text_or_empty full_name);
                       u = invited_user (fresh_id env d) email (if name = [] then name_from_email email else name) h
                   in (Inr (u, if given \<noteq> [] then None else Some secret), (bump d)\<lparr>db_users := db_users d @ [u]\<rparr>)))))"

definition quota_json :: "int option \<Rightarrow> json" where
  "quota_json n = (case n of None \<Rightarrow> JNull | Some k \<Rightarrow> JInt k)"

definition tenant_entry :: "string \<Rightarrow> workspace \<Rightarrow> dict \<Rightarrow> dict \<Rightarrow> audit_entry" where
  "tenant_entry act w before after = (entry act ''WORKSPACE'' (ws_id w) (ws_name w))\<lparr>aa_before := before, aa_after := after\<rparr>"

definition provision_workspace :: "crypto \<Rightarrow> (string \<Rightarrow> string) \<Rightarrow> env \<Rightarrow> request_context \<Rightarrow> tenant_args \<Rightarrow> string
    \<Rightarrow> string option \<Rightarrow> string option \<Rightarrow> db \<Rightarrow> (service_error + workspace \<times> user \<times> string option) \<times> db" where
  "provision_workspace cx fold_marks env ctx a owner_email owner_full_name owner_password d =
     guarded (require_platform_admin ctx) d
       (case check_tenant fold_marks env True a d of
          Inl e \<Rightarrow> (Inl e, d)
        | Inr (name, slug, engine) \<Rightarrow>
            (let email = normalized_email owner_email in
             if CHR ''@'' \<notin> set email then (Inl (invalid_field ValidationError ''OWNER_EMAIL_INVALID'' ''owner_email''), d)
             else
               (let org = \<lparr>og_id = fresh_id env d, og_name = name, og_slug = slug, og_status = WS_ACTIVE\<rparr>;
                    d1 = (bump d)\<lparr>db_organizations := db_organizations d @ [org]\<rparr>;
                    w = new_workspace (fresh_id env d1) (og_id org) name slug a engine;
                    d2 = (bump d1)\<lparr>db_workspaces := db_workspaces d1 @ [w]\<rparr>
                in case ensure_owner cx env email owner_full_name owner_password d2 of
                     (Inl e, d3) \<Rightarrow> (Inl e, d3)
                   | (Inr (u, generated), d3) \<Rightarrow>
                       (let seat = \<lparr>me_id = fresh_id env d3, me_workspace_id = ws_id w, me_user_id = us_id u, me_role = R_OWNER,
                              me_permissions = None\<rparr>;
                            d4 = (bump d3)\<lparr>db_memberships := db_memberships d3 @ [seat]\<rparr>;
                            org_seat = \<lparr>om_id = fresh_id env d4, om_organization_id = og_id org, om_user_id = us_id u, om_role = OR_OWNER\<rparr>;
                            d5 = (bump d4)\<lparr>db_org_memberships := db_org_memberships d4 @ [org_seat]\<rparr>
                        in (Inr (w, u, generated),
                            audit_record env (for_workspace ctx (ws_id w))
                              (tenant_entry ''workspace.provisioned'' w []
                                 [(''slug'', JStr slug), (''timezone'', JStr (ta_timezone a)), (''owner_email'', JStr (us_email u)),
                                  (''max_concurrent_executions'', quota_json (ta_quota a)), (''engine_instance'', JStr (ei_name engine))])
                              d5)))))"

text \<open>An organisation that is not there violates the foreign key, which the code reports as a taken slug; a
  session without a user violates the membership's.\<close>

definition provision_department_workspace :: "(string \<Rightarrow> string) \<Rightarrow> env \<Rightarrow> request_context \<Rightarrow> tenant_args \<Rightarrow> db
    \<Rightarrow> (service_error + workspace) \<times> db" where
  "provision_department_workspace fold_marks env ctx a d =
     (case org_id_of ctx of
        Inl e \<Rightarrow> (Inl e, d)
      | Inr org \<Rightarrow>
          guarded (org_require (ctx_org_role ctx) A_CREATE) d
            (case check_tenant fold_marks env False a d of
               Inl e \<Rightarrow> (Inl e, d)
             | Inr (name, slug, engine) \<Rightarrow>
                 if get_organization d org = None then (Inl (App (raise_code ConflictError ''WORKSPACE_SLUG_TAKEN'')), d)
                 else
                   (let w = new_workspace (fresh_id env d) org name slug a engine;
                        d1 = (bump d)\<lparr>db_workspaces := db_workspaces d @ [w]\<rparr>
                    in case ctx_user_id ctx of
                         None \<Rightarrow> (Inl (Crash IntegrityErr), d)
                       | Some uid \<Rightarrow>
                           (let seat = \<lparr>me_id = fresh_id env d1, me_workspace_id = ws_id w, me_user_id = uid, me_role = R_OWNER,
                                  me_permissions = None\<rparr>;
                                d2 = (bump d1)\<lparr>db_memberships := db_memberships d1 @ [seat]\<rparr>
                            in (Inr w, audit_record env (for_workspace ctx (ws_id w))
                                  (tenant_entry ''workspace.provisioned'' w []
                                     [(''slug'', JStr slug), (''timezone'', JStr (ta_timezone a)),
                                      (''organization_id'', JStr (show_uuid org)), (''engine_instance'', JStr (ei_name engine))])
                                  d2)))))"

definition list_department_workspaces :: "request_context \<Rightarrow> db \<Rightarrow> service_error + workspace list" where
  "list_department_workspaces ctx d =
     (case org_id_of ctx of
        Inl e \<Rightarrow> Inl e
      | Inr org \<Rightarrow>
          (case org_require (ctx_org_role ctx) A_VIEW of
             Inl e \<Rightarrow> Inl e
           | Inr _ \<Rightarrow> Inr (filter (\<lambda>w. ws_organization_id w = org) (db_workspaces d))))"

section \<open>Administering a tenant\<close>

definition tenant_row :: "db \<Rightarrow> uuid \<Rightarrow> service_error + workspace" where
  "tenant_row d i = (case get_workspace d i of None \<Rightarrow> Inl (App (raise_class NotFoundError)) | Some w \<Rightarrow> Inr w)"

definition set_quota :: "env \<Rightarrow> request_context \<Rightarrow> uuid \<Rightarrow> int option \<Rightarrow> db \<Rightarrow> (service_error + workspace) \<times> db" where
  "set_quota env ctx wid n d =
     guarded (require_platform_admin ctx) d
       (case tenant_row d wid of
          Inl e \<Rightarrow> (Inl e, d)
        | Inr w \<Rightarrow>
            if quota_invalid n
            then (Inl (invalid_field ValidationError ''WORKSPACE_QUOTA_INVALID'' ''max_concurrent_executions''), d)
            else
              (let w' = w\<lparr>ws_max_concurrent_executions := n\<rparr> in
               (Inr w', audit_record env (for_workspace ctx (ws_id w))
                  (tenant_entry ''workspace.quota_changed'' w
                     [(''max_concurrent_executions'', quota_json (ws_max_concurrent_executions w))]
                     [(''max_concurrent_executions'', quota_json n)])
                  (put_workspace w' d))))"

definition set_engine :: "env \<Rightarrow> request_context \<Rightarrow> uuid \<Rightarrow> string \<Rightarrow> db \<Rightarrow> (service_error + workspace) \<times> db" where
  "set_engine env ctx wid engine_name d =
     guarded (require_platform_admin ctx) d
       (case tenant_row d wid of
          Inl e \<Rightarrow> (Inl e, d)
        | Inr w \<Rightarrow>
            (case resolve_engine d (Some engine_name) of
               Inl e \<Rightarrow> (Inl e, d)
             | Inr engine \<Rightarrow>
                 (let w' = w\<lparr>ws_engine_instance_id := Some (ei_id engine)\<rparr> in
                  (Inr w', audit_record env (for_workspace ctx (ws_id w))
                     (tenant_entry ''workspace.engine_changed'' w
                        [(''engine_instance_id'', uuid_json (ws_engine_instance_id w))] [(''engine_instance'', JStr (ei_name engine))])
                     (put_workspace w' d)))))"

definition set_status :: "env \<Rightarrow> request_context \<Rightarrow> uuid \<Rightarrow> string \<Rightarrow> db \<Rightarrow> (service_error + workspace) \<times> db" where
  "set_status env ctx wid raw d =
     guarded (require_platform_admin ctx) d
       (case tenant_row d wid of
          Inl e \<Rightarrow> (Inl e, d)
        | Inr w \<Rightarrow>
            (case workspace_status_of (str_upper raw) of
               None \<Rightarrow> (Inl (invalid_field ValidationError ''WORKSPACE_STATUS_INVALID'' ''status''), d)
             | Some s \<Rightarrow>
                 (let w' = w\<lparr>ws_status := s\<rparr> in
                  (Inr w', audit_record env (for_workspace ctx (ws_id w))
                     (tenant_entry ''workspace.status_changed'' w
                        [(''status'', JStr (workspace_status_value (ws_status w)))] [(''status'', JStr (workspace_status_value s))])
                     (put_workspace w' d)))))"

definition list_workspaces :: "request_context \<Rightarrow> db \<Rightarrow> service_error + (workspace \<times> string list) list" where
  "list_workspaces ctx d =
     (case require_platform_admin ctx of
        Inl e \<Rightarrow> Inl e
      | Inr _ \<Rightarrow>
          Inr (map (\<lambda>w. (w, sort (map (\<lambda>m. user_label d (me_user_id m))
              (filter (\<lambda>m. me_workspace_id m = ws_id w \<and> me_role m = R_OWNER) (db_memberships d))))) (db_workspaces d)))"

end
