(* ===== verification/Executions.thy ===== *)
theory Executions
  imports Credentials
begin

text \<open>
  The run saga, \<open>app/services/executions.py\<close>: creation against a frozen graph, the concurrency
  ceiling and idempotency keys, dispatch to the engine, polling and ingestion, interruption,
  cancellation, retry, the reads and the worker's queries.

  A function that ends in \<^const>\<open>Inl\<close> leaves the transaction to be rolled back by its caller, so
  such results carry no database. \<open>dispatch\<close> commits in the middle: it is split there, into what
  happens before the engine call and what is written after it, because other transactions run
  in between. The engine is behind an adapter: an \<open>engine_answer\<close> is what a call returned or the
  \<open>AppError\<close> it raised. \<open>datetime.fromisoformat\<close> is the environment's \<open>env_parse_time\<close>.
\<close>

section \<open>The engine boundary (\<open>app/engine/dto.py\<close>)\<close>

datatype 'a engine_answer = Answer 'a | EngineDown app_error | EngineRefused app_error

record engine_request =
  rq_execution_id :: string
  rq_workspace_ref :: string
  rq_graph :: dict
  rq_start_payload :: json
  rq_credentials :: "runtime_credential list"
  rq_trace_id :: string
  rq_idempotency_key :: string

record engine_node_result =
  en_node_id :: string
  en_node_name :: string
  en_status :: string
  en_index :: int
  en_started_at :: "string option"
  en_ended_at :: "string option"
  en_duration_ms :: "int option"
  en_item_count :: "int option"
  en_input_preview :: dict
  en_output_preview :: dict
  en_truncated :: bool
  en_error :: dict
  en_branch_metadata :: dict

record engine_log_line =
  el_at :: string
  el_level :: string
  el_message :: string
  el_node_name :: "string option"

record engine_report =
  er_status :: string
  er_started_at :: "string option"
  er_ended_at :: "string option"
  er_duration_ms :: "int option"
  er_error_code :: "string option"
  er_error_category :: "string option"
  er_failed_node_name :: "string option"
  er_node_results :: "engine_node_result list"
  er_logs :: "engine_log_line list"
  er_output_summary :: dict
  er_technical :: dict

section \<open>Creation\<close>

definition get_workflow :: "request_context \<Rightarrow> uuid \<Rightarrow> db \<Rightarrow> service_error + workflow" where
  "get_workflow ctx wfid d =
     (case find (\<lambda>w. wf_id w = wfid \<and> wf_workspace_id w = ctx_workspace_id ctx \<and> wf_deleted_at w = None) (db_workflows d) of
        None \<Rightarrow> Inl (App (raise_class NotFoundError))
      | Some w \<Rightarrow> Inr w)"

definition by_idempotency_key :: "db \<Rightarrow> uuid \<Rightarrow> uuid \<Rightarrow> string \<Rightarrow> execution option" where
  "by_idempotency_key d wid wfid key =
     find (\<lambda>e. ex_workspace_id e = wid \<and> ex_workflow_id e = wfid \<and> ex_idempotency_key e = Some key) (db_executions d)"

definition active_in_workflow :: "uuid \<Rightarrow> uuid \<Rightarrow> execution \<Rightarrow> bool" where
  "active_in_workflow wid wfid e =
     (ex_workspace_id e = wid \<and> ex_workflow_id e = wfid \<and> is_active (ex_status e))"

definition active_in_workspace :: "uuid \<Rightarrow> execution \<Rightarrow> bool" where
  "active_in_workspace wid e = (ex_workspace_id e = wid \<and> is_active (ex_status e))"

definition workspace_ceiling :: "settings \<Rightarrow> db \<Rightarrow> uuid \<Rightarrow> int" where
  "workspace_ceiling cfg d wid =
     (case Option.bind (get_workspace d wid) ws_max_concurrent_executions of
        Some n \<Rightarrow> if n > 0 then n else cfg_max_per_workspace cfg
      | None \<Rightarrow> cfg_max_per_workspace cfg)"

definition check_concurrency :: "settings \<Rightarrow> uuid \<Rightarrow> uuid \<Rightarrow> db \<Rightarrow> service_error + unit" where
  "check_concurrency cfg wid wfid d =
     (if int (count_where (active_in_workflow wid wfid) (db_executions d)) \<ge> cfg_max_per_workflow cfg
      then Inl (App (error_from_matrix ''WORKFLOW_ALREADY_RUNNING''))
      else if int (count_where (active_in_workspace wid) (db_executions d)) \<ge> workspace_ceiling cfg d wid
      then Inl (App (AppError_init QuotaExceededError
             (no_args\<lparr>arg_remediation := Some [(''action'', JStr ''WAIT_OR_CANCEL'')]\<rparr>)))
      else Inr ())"

definition input_metadata :: "json \<Rightarrow> dict" where
  "input_metadata payload =
     (case payload of
        JNull \<Rightarrow> [(''kind'', JStr ''EMPTY''), (''item_count'', JInt 0)]
      | JArr xs \<Rightarrow> [(''kind'', JStr ''LIST''), (''item_count'', JInt (int (length xs)))]
      | _ \<Rightarrow> [(''kind'', JStr ''OBJECT''), (''item_count'', JInt 1)])"

definition sanitize_payload :: "json \<Rightarrow> json option" where
  "sanitize_payload payload = (if payload = JNull then None else Some (redact 0 payload))"

definition seal_payload :: "env \<Rightarrow> json \<Rightarrow> string option" where
  "seal_payload env payload = (if payload = JNull then None else Some (env_encrypt env (env_kek env) payload))"

definition unseal_payload :: "env \<Rightarrow> string option \<Rightarrow> json option" where
  "unseal_payload env sealed =
     (case sealed of None \<Rightarrow> None | Some s \<Rightarrow> if s = [] then None else env_decrypt env (env_kek env) s)"

text \<open>\<open>unseal\<close> returns Python's \<open>None\<close> also for a sealed \<open>null\<close>.\<close>

definition payload_for_engine :: "env \<Rightarrow> execution \<Rightarrow> json" where
  "payload_for_engine env e =
     (case unseal_payload env (ex_start_payload_sealed e) of
        Some p \<Rightarrow> if p \<noteq> JNull then p else (case ex_start_payload e of Some q \<Rightarrow> q | None \<Rightarrow> JObj [])
      | None \<Rightarrow> (case ex_start_payload e of Some q \<Rightarrow> q | None \<Rightarrow> JObj []))"

definition issue_json :: "issue \<Rightarrow> json" where
  "issue_json i = JObj [(''code'', JStr (iss_code i)),
     (''node_id'', case iss_node_id i of None \<Rightarrow> JNull | Some n \<Rightarrow> JStr n),
     (''field'', case iss_field i of None \<Rightarrow> JNull | Some f \<Rightarrow> JStr f),
     (''severity'', JStr (iss_severity i))]"

definition invalid_workflow :: "issue list \<Rightarrow> service_error" where
  "invalid_workflow iss = App (error_from_matrix_with ''WORKFLOW_INVALID'' None
     (no_args\<lparr>arg_details := Some [(''issues'', JArr (map issue_json iss))]\<rparr>))"

record create_args =
  ca_kind :: version_kind
  ca_trigger :: trigger_type
  ca_payload :: json
  ca_key :: "string option"
  ca_retry_of :: "uuid option"
  ca_version_id :: "uuid option"

text \<open>The artefact a run executes: its graph, version number, draft revision and version id.\<close>

definition resolve_artefact :: "workflow \<Rightarrow> create_args \<Rightarrow> db
    \<Rightarrow> service_error + dict \<times> int option \<times> int option \<times> uuid option" where
  "resolve_artefact w a d =
     (case ca_kind a of
        VK_DRAFT \<Rightarrow>
          (case get_draft_row d (wf_id w) of
             None \<Rightarrow> Inl (App (raise_class NotFoundError))
           | Some dr \<Rightarrow> Inr (dr_graph dr, None, Some (dr_revision dr), None))
      | VK_PUBLISHED \<Rightarrow>
          (let version =
                 (case (ca_version_id a, wf_active_version_id w, wf_published_version_id w) of
                    (Some v, _, _) \<Rightarrow> get_version_row d v
                  | (None, Some v, _) \<Rightarrow> get_version_row d v
                  | (None, None, Some v) \<Rightarrow> get_version_row d v
                  | (None, None, None) \<Rightarrow> None)
           in case version of
                None \<Rightarrow> Inl (App (error_from_matrix ''WORKFLOW_NOT_PUBLISHED''))
              | Some v \<Rightarrow>
                  if wv_workflow_id v \<noteq> wf_id w then Inl (App (error_from_matrix ''WORKFLOW_NOT_PUBLISHED''))
                  else Inr (wv_graph v, Some (wv_number v), None, Some (wv_id v))))"

definition new_execution :: "env \<Rightarrow> request_context \<Rightarrow> workflow \<Rightarrow> create_args
    \<Rightarrow> dict \<times> int option \<times> int option \<times> uuid option \<Rightarrow> string \<Rightarrow> db \<Rightarrow> execution" where
  "new_execution env ctx w a artefact hash d =
     (case artefact of (graph, number, revision, vid) \<Rightarrow>
      \<lparr>ex_id = fresh_id env d, ex_short_id = env_token env (db_drawn d), ex_workspace_id = ctx_workspace_id ctx,
       ex_workflow_id = wf_id w, ex_version_kind = ca_kind a, ex_version_id = vid,
       ex_version_number = number, ex_draft_revision = revision, ex_graph = graph, ex_graph_hash = hash,
       ex_trigger_type = ca_trigger a, ex_triggered_by = ctx_user_id ctx, ex_retry_of = ca_retry_of a,
       ex_idempotency_key = ca_key a, ex_status = EX_QUEUED, ex_error_category = None, ex_error_code = None,
       ex_failed_node_name = None, ex_queued_at = env_now env, ex_started_at = None, ex_ended_at = None,
       ex_duration_ms = None, ex_last_seen_at = None, ex_input_metadata = input_metadata (ca_payload a),
       ex_start_payload = sanitize_payload (ca_payload a),
       ex_start_payload_sealed = seal_payload env (ca_payload a), ex_output_summary = [],
       ex_technical_metadata = [], ex_engine_ref = None, ex_trace_id = ctx_trace_id ctx\<rparr>)"

definition usable_key :: "string option \<Rightarrow> bool" where
  "usable_key k = (text_or_empty k \<noteq> [])"

definition created_entry :: "workflow \<Rightarrow> create_args \<Rightarrow> execution \<Rightarrow> audit_entry" where
  "created_entry w a e =
     (entry (if ca_retry_of a = None then ''execution.queued'' else ''execution.retry_created'') ''EXECUTION'' (ex_id e)
        (wf_name w @ '' #'' @ ex_short_id e))\<lparr>aa_after :=
          [(''trigger'', JStr (trigger_type_value (ca_trigger a))), (''version_kind'', JStr (version_kind_value (ca_kind a))),
           (''version'', case ex_version_number e of None \<Rightarrow> JNull | Some n \<Rightarrow> JInt n),
           (''retry_of'', case ca_retry_of a of None \<Rightarrow> JNull | Some r \<Rightarrow> JStr (show_uuid r))]\<rparr>"

text \<open>Everything after the workspace's advisory lock is held. A key that is the empty text is
  stored but not looked up, so only the unique index notices its repetition.\<close>

definition create_locked :: "env \<Rightarrow> request_context \<Rightarrow> workflow \<Rightarrow> create_args \<Rightarrow> db
    \<Rightarrow> (service_error + execution) \<times> db" where
  "create_locked env ctx w a d =
     (let keyed = (if usable_key (ca_key a)
                   then by_idempotency_key d (ctx_workspace_id ctx) (wf_id w) (text_or_empty (ca_key a)) else None)
      in case check_concurrency (env_settings env) (ctx_workspace_id ctx) (wf_id w) d of
           Inl e \<Rightarrow> (case keyed of Some winner \<Rightarrow> (Inr winner, d) | None \<Rightarrow> (Inl e, d))
         | Inr _ \<Rightarrow>
             (case resolve_artefact w a d of
                Inl e \<Rightarrow> (Inl e, d)
              | Inr artefact \<Rightarrow>
                  (case validate_graph (fst artefact) (env_registry env) True of
                     Inl e \<Rightarrow> (Inl (Crash e), d)
                   | Inr result \<Rightarrow>
                       if \<not> result_ok result then (Inl (invalid_workflow (vr_issues result)), d)
                       else
                         (case graph_hash (env_sha256 env) (fst artefact) of
                            Inl e \<Rightarrow> (Inl (Crash e), d)
                          | Inr hash \<Rightarrow>
                              (case keyed of
                                 Some winner \<Rightarrow> (Inr winner, d)
                               | None \<Rightarrow>
                                   if ca_key a \<noteq> None \<and>
                                     by_idempotency_key d (ctx_workspace_id ctx) (wf_id w) (text_or_empty (ca_key a)) \<noteq> None
                                   then (Inl (Crash IntegrityErr), d)
                                   else
                                   (let e = new_execution env ctx w a artefact hash d
                                    in (Inr e, audit_record env ctx (created_entry w a e)
                                          ((bump d)\<lparr>db_executions := db_executions d @ [e]\<rparr>))))))))"

definition execution_create :: "env \<Rightarrow> request_context \<Rightarrow> uuid \<Rightarrow> create_args \<Rightarrow> db
    \<Rightarrow> (service_error + execution) \<times> db" where
  "execution_create env ctx wfid a d =
     guarded (ctx_require ctx M_WORKFLOWS A_EXECUTE) d
       (case get_workflow ctx wfid d of
          Inl e \<Rightarrow> (Inl e, d)
        | Inr w \<Rightarrow>
            (case (if usable_key (ca_key a)
                   then by_idempotency_key d (ctx_workspace_id ctx) (wf_id w) (text_or_empty (ca_key a)) else None) of
               Some existing \<Rightarrow> (Inr existing, d)
             | None \<Rightarrow> create_locked env ctx w a d))"

section \<open>When a run ends\<close>

definition mark_all :: "env \<Rightarrow> string list \<Rightarrow> db \<Rightarrow> db" where
  "mark_all env raws d =
     foldl (\<lambda>d raw. case parse_uuid raw of None \<Rightarrow> d | Some cid \<Rightarrow> mark_invalid env cid [] d) d raws"

definition on_terminal :: "env \<Rightarrow> execution \<Rightarrow> db \<Rightarrow> service_error + db" where
  "on_terminal env e d =
     (if ex_error_code e \<in> set AUTH_FAILURES then
        (case collect_credential_ids (ex_graph e) (env_registry env) of
           Inl x \<Rightarrow> Inl (Crash x)
         | Inr ids \<Rightarrow> Inr (evaluate_execution env e (mark_all env (sorted_list_of_set ids) d)))
      else Inr (evaluate_execution env e d))"

definition millis :: "int \<Rightarrow> int" where
  "millis t = (if t \<ge> 0 then t div 1000 else - ((- t) div 1000))"

definition interrupted :: "env \<Rightarrow> execution \<Rightarrow> execution" where
  "interrupted env e = e\<lparr>ex_status := EX_ENGINE_INTERRUPTED, ex_error_code := Some ''ENGINE_INTERRUPTED'',
     ex_error_category := Some ''ENGINE'', ex_ended_at := Some (env_now env),
     ex_duration_ms := (case ex_started_at e of None \<Rightarrow> ex_duration_ms e | Some s \<Rightarrow> Some (millis (env_now env - s)))\<rparr>"

definition mark_interrupted :: "env \<Rightarrow> execution \<Rightarrow> db \<Rightarrow> service_error + db" where
  "mark_interrupted env e d = on_terminal env (interrupted env e) (put_execution (interrupted env e) d)"

section \<open>Ingesting an engine report\<close>

fun node_key_among :: "string \<Rightarrow> json list \<Rightarrow> py_exc + string" where
  "node_key_among nid [] = Inr ''unknown''"
| "node_key_among nid (x # xs) =
     (case as_dict x of
        Inl e \<Rightarrow> Inl e
      | Inr n \<Rightarrow>
          if py_str (dget n ''id'') = nid then Inr (py_str (or_else (dget n ''node_key'') (JStr ''unknown'')))
          else node_key_among nid xs)"

definition node_key_for :: "execution \<Rightarrow> string \<Rightarrow> py_exc + string" where
  "node_key_for e nid =
     (case iterate (or_else (dget (ex_graph e) ''nodes'') (JArr [])) of Inl x \<Rightarrow> Inl x | Inr xs \<Rightarrow> node_key_among nid xs)"

definition bounded_preview :: "env \<Rightarrow> dict \<Rightarrow> dict option" where
  "bounded_preview env payload =
     (if payload = [] then None
      else if dget payload ''items'' = JNull then
        (case redact 0 (JObj payload) of JObj p \<Rightarrow> Some p | _ \<Rightarrow> None)
      else
        (let (bounded, truncated) = redaction_preview (dget payload ''items'') MAX_ITEMS (cfg_preview_bytes (env_settings env));
             bounded = (if dget payload ''item_count'' \<noteq> JNull then dput bounded ''item_count'' (dget payload ''item_count'') else bounded)
         in Some (if truncated then dput bounded ''note'' (JStr ''PREVIEW_TRUNCATED_BY_SIZE'') else bounded)))"

definition parse_time :: "env \<Rightarrow> string option \<Rightarrow> int option" where
  "parse_time env t = (case t of None \<Rightarrow> None | Some s \<Rightarrow> if s = [] then None else env_parse_time env s)"

fun ingest_results :: "env \<Rightarrow> execution \<Rightarrow> engine_node_result list \<Rightarrow> py_exc + node_result list" where
  "ingest_results env e [] = Inr []"
| "ingest_results env e (r # rs) =
     (case node_key_for e (en_node_id r) of
        Inl x \<Rightarrow> Inl x
      | Inr key \<Rightarrow>
          (case node_run_status_of (en_status r) of
             None \<Rightarrow> Inl ValueErr
           | Some st \<Rightarrow>
               (case ingest_results env e rs of
                  Inl x \<Rightarrow> Inl x
                | Inr rest \<Rightarrow>
                    Inr (\<lparr>nr_execution_id = ex_id e, nr_node_id = en_node_id r, nr_node_key = key,
                          nr_node_name = en_node_name r, nr_status = st, nr_index = en_index r,
                          nr_started_at = parse_time env (en_started_at r), nr_ended_at = parse_time env (en_ended_at r),
                          nr_duration_ms = en_duration_ms r, nr_item_count = en_item_count r,
                          nr_input_preview = bounded_preview env (en_input_preview r),
                          nr_output_preview = bounded_preview env (en_output_preview r),
                          nr_truncated = en_truncated r,
                          nr_error = (if en_error r = [] then None else Some (redact 0 (JObj (en_error r)))),
                          nr_branch_metadata = en_branch_metadata r\<rparr> # rest))))"

definition ingest_log :: "env \<Rightarrow> execution \<Rightarrow> nat \<times> engine_log_line \<Rightarrow> log_line" where
  "ingest_log env e numbered =
     (case numbered of (i, line) \<Rightarrow>
      \<lparr>lg_execution_id = ex_id e, lg_sequence = i,
       lg_at = (case parse_time env (Some (el_at line)) of Some t \<Rightarrow> t | None \<Rightarrow> env_now env),
       lg_level = el_level line, lg_node_name = el_node_name line, lg_message = take 4000 (el_message line)\<rparr>)"

definition merge :: "dict \<Rightarrow> dict \<Rightarrow> dict" where
  "merge a b = foldl (\<lambda>m (k, v). dput m k v) a b"

definition reported :: "env \<Rightarrow> engine_report \<Rightarrow> execution_status \<Rightarrow> execution \<Rightarrow> execution" where
  "reported env r st e = e\<lparr>ex_last_seen_at := Some (env_now env), ex_status := st,
     ex_started_at := (case parse_time env (er_started_at r) of Some t \<Rightarrow> Some t | None \<Rightarrow> ex_started_at e),
     ex_ended_at := (case parse_time env (er_ended_at r) of Some t \<Rightarrow> Some t | None \<Rightarrow> Some (env_now env)),
     ex_duration_ms := er_duration_ms r, ex_error_code := er_error_code r,
     ex_error_category := er_error_category r, ex_failed_node_name := er_failed_node_name r,
     ex_output_summary := er_output_summary r,
     ex_technical_metadata := merge (ex_technical_metadata e) (er_technical r)\<rparr>"

definition still_running :: "env \<Rightarrow> execution \<Rightarrow> execution" where
  "still_running env e =
     (let e = e\<lparr>ex_last_seen_at := Some (env_now env)\<rparr> in
      if ex_status e = EX_DISPATCHING then
        e\<lparr>ex_status := EX_RUNNING,
          ex_started_at := (case ex_started_at e of Some t \<Rightarrow> Some t | None \<Rightarrow> Some (env_now env))\<rparr>
      else e)"

definition ingest :: "env \<Rightarrow> execution \<Rightarrow> engine_report \<Rightarrow> db \<Rightarrow> service_error + db" where
  "ingest env e r d =
     (if er_status r = execution_status_value EX_RUNNING then Inr (put_execution (still_running env e) d)
      else
        (case ingest_results env e (er_node_results r) of
           Inl x \<Rightarrow> Inl (Crash x)
         | Inr results \<Rightarrow>
             (case execution_status_of (er_status r) of
                None \<Rightarrow> Inl (Crash ValueErr)
              | Some st \<Rightarrow>
                  (let e' = reported env r st e;
                       d' = d\<lparr>db_node_results := delete_where (\<lambda>n. nr_execution_id n = ex_id e) (db_node_results d) @ results,
                              db_logs := delete_where (\<lambda>l. lg_execution_id l = ex_id e) (db_logs d)
                                @ map (ingest_log env e) (zip [0..<length (er_logs r)] (er_logs r))\<rparr>
                   in on_terminal env e' (put_execution e' d')))))"

definition poll :: "env \<Rightarrow> execution \<Rightarrow> engine_report engine_answer \<Rightarrow> db \<Rightarrow> service_error + db" where
  "poll env e answer d =
     (if text_or_empty (ex_engine_ref e) = [] then Inr d
      else
        (case answer of
           EngineDown _ \<Rightarrow> Inr d
         | EngineRefused x \<Rightarrow>
             if ae_code x = ''ENGINE_EXECUTION_UNKNOWN'' then mark_interrupted env e d else Inl (App x)
         | Answer r \<Rightarrow> ingest env e r d))"

section \<open>Dispatch\<close>

definition engine_request_for :: "env \<Rightarrow> execution \<Rightarrow> runtime_credential list \<Rightarrow> engine_request" where
  "engine_request_for env e resolved =
     \<lparr>rq_execution_id = show_uuid (ex_id e), rq_workspace_ref = show_uuid (ex_workspace_id e), rq_graph = ex_graph e,
      rq_start_payload = payload_for_engine env e, rq_credentials = resolved, rq_trace_id = ex_trace_id e,
      rq_idempotency_key = show_uuid (ex_id e)\<rparr>"

text \<open>Up to the commit before the engine call: the request and the committed database.\<close>

definition dispatch_begin :: "env \<Rightarrow> execution \<Rightarrow> db \<Rightarrow> service_error + engine_request \<times> db" where
  "dispatch_begin env e d =
     (case collect_credential_ids (ex_graph e) (env_registry env) of
        Inl x \<Rightarrow> Inl (Crash x)
      | Inr ids \<Rightarrow>
          (case resolve_for_execution env (ex_workspace_id e) ids d of
             Inl x \<Rightarrow> Inl (Crash x)
           | Inr resolved \<Rightarrow>
               (let e' = e\<lparr>ex_status := EX_DISPATCHING, ex_last_seen_at := Some (env_now env)\<rparr>
                in Inr (engine_request_for env e' resolved, put_execution e' d))))"

text \<open>What the answer writes onto the row as it is by then.\<close>

definition dispatch_finish :: "env \<Rightarrow> uuid \<Rightarrow> string engine_answer \<Rightarrow> db \<Rightarrow> service_error + db" where
  "dispatch_finish env eid answer d =
     (case get_execution_row d eid of
        None \<Rightarrow> Inr d
      | Some e \<Rightarrow>
          (case answer of
             EngineDown x \<Rightarrow>
               Inr (put_execution (e\<lparr>ex_status := EX_QUEUED, ex_error_code := Some ''ENGINE_UNAVAILABLE''\<rparr>) d)
           | EngineRefused x \<Rightarrow>
               (let e' = e\<lparr>ex_status := EX_FAILED_TO_START, ex_error_code := Some (ae_code x),
                      ex_error_category := Some (error_category_value (ae_category x)),
                      ex_ended_at := Some (env_now env),
                      ex_technical_metadata := dput (ex_technical_metadata e) ''dispatch_error''
                        (case ae_technical x of None \<Rightarrow> JNull | Some t \<Rightarrow> JStr t)\<rparr>
                in on_terminal env e' (put_execution e' d))
           | Answer ref \<Rightarrow>
               Inr (put_execution (e\<lparr>ex_engine_ref := Some ref, ex_status := EX_RUNNING,
                 ex_started_at := (case ex_started_at e of Some t \<Rightarrow> Some t | None \<Rightarrow> Some (env_now env)),
                 ex_last_seen_at := Some (env_now env)\<rparr>) d)))"

definition dispatch :: "env \<Rightarrow> (engine_request \<Rightarrow> string engine_answer) \<Rightarrow> execution \<Rightarrow> db \<Rightarrow> service_error + db" where
  "dispatch env execute e d =
     (case dispatch_begin env e d of
        Inl x \<Rightarrow> Inl x
      | Inr (request, d') \<Rightarrow> dispatch_finish env (ex_id e) (execute request) d')"

section \<open>Control\<close>

definition execution_get :: "request_context \<Rightarrow> uuid \<Rightarrow> db \<Rightarrow> service_error + execution" where
  "execution_get ctx eid d =
     (case find (\<lambda>e. ex_id e = eid \<and> ex_workspace_id e = ctx_workspace_id ctx) (db_executions d) of
        None \<Rightarrow> Inl (App (raise_class NotFoundError))
      | Some e \<Rightarrow> Inr e)"

definition cancel :: "env \<Rightarrow> request_context \<Rightarrow> (string \<Rightarrow> engine_report engine_answer) \<Rightarrow> uuid \<Rightarrow> db
    \<Rightarrow> (service_error + unit) \<times> db" where
  "cancel env ctx engine_cancel eid d =
     guarded (ctx_require ctx M_EXECUTIONS A_EXECUTE) d
       (case execution_get ctx eid d of
          Inl x \<Rightarrow> (Inl x, d)
        | Inr e \<Rightarrow>
            if is_terminal (ex_status e) then (Inr (), d)
            else
              (let e1 = e\<lparr>ex_status := EX_CANCEL_REQUESTED\<rparr>;
                   d1 = put_execution e1 d;
                   outcome =
                     (if text_or_empty (ex_engine_ref e) \<noteq> [] then
                        (case engine_cancel (text_or_empty (ex_engine_ref e)) of
                           Answer r \<Rightarrow> ingest env e1 r d1
                         | EngineDown _ \<Rightarrow> Inr d1
                         | EngineRefused x \<Rightarrow> Inl (App x))
                      else Inr (put_execution (e1\<lparr>ex_status := EX_CANCELLED, ex_ended_at := Some (env_now env)\<rparr>) d1))
               in case outcome of
                    Inl x \<Rightarrow> (Inl x, d)
                  | Inr d2 \<Rightarrow>
                      (Inr (), audit_record env ctx
                         (entry ''execution.cancel_requested'' ''EXECUTION'' eid (ex_short_id e)) d2)))"

definition retry :: "env \<Rightarrow> request_context \<Rightarrow> uuid \<Rightarrow> db \<Rightarrow> (service_error + execution) \<times> db" where
  "retry env ctx eid d =
     guarded (ctx_require ctx M_EXECUTIONS A_EXECUTE) d
       (case execution_get ctx eid d of
          Inl x \<Rightarrow> (Inl x, d)
        | Inr e \<Rightarrow>
            if \<not> is_terminal (ex_status e) then (Inl (App (raise_code ValidationError ''EXECUTION_NOT_TERMINAL'')), d)
            else execution_create env ctx (ex_workflow_id e)
              \<lparr>ca_kind = ex_version_kind e, ca_trigger = ex_trigger_type e, ca_payload = payload_for_engine env e,
               ca_key = None, ca_retry_of = Some (ex_id e), ca_version_id = ex_version_id e\<rparr> d)"

section \<open>Reads\<close>

record execution_view =
  xv_execution :: execution
  xv_workflow_name :: "string option"
  xv_can_cancel :: bool
  xv_can_retry :: bool

definition execution_summary :: "execution \<Rightarrow> string option \<Rightarrow> execution_view" where
  "execution_summary e name = \<lparr>xv_execution = e, xv_workflow_name = name,
     xv_can_cancel = is_active (ex_status e), xv_can_retry = is_terminal (ex_status e)\<rparr>"

record execution_detail =
  xd_summary :: execution_view
  xd_nodes :: "node_result list"
  xd_payload_access :: bool
  xd_technical :: "dict option"

definition detail_view :: "request_context \<Rightarrow> execution \<Rightarrow> db \<Rightarrow> service_error + execution_detail" where
  "detail_view ctx e d =
     (if ex_workspace_id e \<noteq> ctx_workspace_id ctx then Inl (App (raise_class NotFoundError))
      else
        (let w = find (\<lambda>w. wf_id w = ex_workflow_id e \<and> wf_workspace_id w = ctx_workspace_id ctx) (db_workflows d)
         in Inr \<lparr>xd_summary = execution_summary e (map_option wf_name w),
                 xd_nodes = sort_key nr_index (filter (\<lambda>n. nr_execution_id n = ex_id e) (db_node_results d)),
                 xd_payload_access = ctx_can ctx M_EXECUTIONS A_VIEW_DATA,
                 xd_technical = (if ctx_is_platform_admin ctx then Some (ex_technical_metadata e) else None)\<rparr>))"

definition node_payload :: "request_context \<Rightarrow> uuid \<Rightarrow> string \<Rightarrow> string \<Rightarrow> db \<Rightarrow> service_error + dict" where
  "node_payload ctx eid nid direction d =
     (case ctx_require ctx M_EXECUTIONS A_VIEW_DATA of
        Inl x \<Rightarrow> Inl x
      | Inr _ \<Rightarrow>
          (case execution_get ctx eid d of
             Inl x \<Rightarrow> Inl x
           | Inr e \<Rightarrow>
               (case sort_key nr_index (filter (\<lambda>n. nr_execution_id n = ex_id e \<and> nr_node_id n = nid) (db_node_results d)) of
                  [] \<Rightarrow> Inl (App (raise_class NotFoundError))
                | n # _ \<Rightarrow>
                    Inr (case (if direction = ''input'' then nr_input_preview n else nr_output_preview n) of
                           Some (kv # kvs) \<Rightarrow> kv # kvs
                         | _ \<Rightarrow> [(''items'', JArr []), (''item_count'', JInt 0)]))))"

definition execution_logs :: "request_context \<Rightarrow> uuid \<Rightarrow> nat \<Rightarrow> nat \<Rightarrow> db \<Rightarrow> service_error + log_line list \<times> nat \<times> bool" where
  "execution_logs ctx eid cursor lim d =
     (case ctx_require ctx M_EXECUTIONS A_VIEW of
        Inl x \<Rightarrow> Inl x
      | Inr _ \<Rightarrow>
          (case execution_get ctx eid d of
             Inl x \<Rightarrow> Inl x
           | Inr e \<Rightarrow>
               (let rows = take lim (sort_key lg_sequence
                      (filter (\<lambda>l. lg_execution_id l = ex_id e \<and> lg_sequence l \<ge> cursor) (db_logs d)))
                in Inr (rows, if rows = [] then cursor else Suc (lg_sequence (last rows)), length rows = lim))))"

record execution_filter =
  xf_workflow_id :: "uuid option"
  xf_status :: string
  xf_trigger :: string
  xf_kind :: string
  xf_error_code :: string

text \<open>A filter text that is not empty must name a member of its enum.\<close>

definition enum_filter :: "(string \<Rightarrow> 'e option) \<Rightarrow> string \<Rightarrow> service_error + 'e option" where
  "enum_filter parse s =
     (if s = [] then Inr None else (case parse (str_upper s) of None \<Rightarrow> Inl (Crash ValueErr) | Some e \<Rightarrow> Inr (Some e)))"

definition list_executions :: "env \<Rightarrow> request_context \<Rightarrow> execution_filter \<Rightarrow> nat \<Rightarrow> nat \<Rightarrow> db
    \<Rightarrow> service_error + execution_view page \<times> nat \<times> nat" where
  "list_executions env ctx f lim off d =
     (case ctx_require ctx M_EXECUTIONS A_VIEW of
        Inl x \<Rightarrow> Inl x
      | Inr _ \<Rightarrow>
          (case enum_filter execution_status_of (xf_status f) of
             Inl x \<Rightarrow> Inl x
           | Inr st \<Rightarrow>
               (case enum_filter trigger_type_of (xf_trigger f) of
                  Inl x \<Rightarrow> Inl x
                | Inr tr \<Rightarrow>
                    (case enum_filter version_kind_of (xf_kind f) of
                       Inl x \<Rightarrow> Inl x
                     | Inr kind \<Rightarrow>
                         (let mine = filter (\<lambda>e. ex_workspace_id e = ctx_workspace_id ctx) (db_executions d);
                              rows = filter (\<lambda>e. (xf_workflow_id f = None \<or> Some (ex_workflow_id e) = xf_workflow_id f) \<and>
                                  (st = None \<or> Some (ex_status e) = st) \<and> (tr = None \<or> Some (ex_trigger_type e) = tr) \<and>
                                  (kind = None \<or> Some (ex_version_kind e) = kind) \<and>
                                  (xf_error_code f = [] \<or> ex_error_code e = Some (xf_error_code f))) mine;
                              name = (\<lambda>e. map_option wf_name (find (\<lambda>w. wf_id w = ex_workflow_id e \<and>
                                  wf_workspace_id w = ctx_workspace_id ctx) (db_workflows d)))
                          in Inr (page_of (map (\<lambda>e. execution_summary e (name e)) (order_desc ex_queued_at rows)) lim off,
                               count_where (active_in_workspace (ctx_workspace_id ctx)) (db_executions d),
                               count_where (\<lambda>e. ex_status e = EX_FAILED \<and> ex_queued_at e \<ge> env_now env - DAY) mine))))))"

section \<open>Worker queries\<close>

definition claim_queued :: "nat \<Rightarrow> db \<Rightarrow> execution list" where
  "claim_queued lim d = take lim (sort_key ex_queued_at (filter (\<lambda>e. ex_status e = EX_QUEUED) (db_executions d)))"

definition active_executions :: "nat \<Rightarrow> db \<Rightarrow> execution list" where
  "active_executions lim d =
     take lim (sort_key ex_queued_at
       (filter (\<lambda>e. ex_status e \<in> {EX_DISPATCHING, EX_RUNNING, EX_CANCEL_REQUESTED}) (db_executions d)))"

end
