(* ===== verification/Workflows.thy ===== *)
theory Workflows
  imports Executions
begin

text \<open>
  Workflows, \<open>app/services/workflows.py\<close>: the draft with its revision, the immutable published
  versions, the active version that triggers fire, and the trigger binding kept in step with the
  canvas; health, available actions and the list page; deletion.

  The node catalogue (\<open>catalog.definitions_map\<close>) is the environment's registry. The engine's compile
  dry run is an argument, \<open>compile\<close>: whether the graph compiles with its diagnostics, or the
  \<open>AppError\<close> that was raised. \<open>updated_at\<close> of a workflow row is written by the database on every
  update; the list takes it as a function. Credential ids of a graph are a set, walked here in
  alphabetical order.
\<close>

section \<open>Reads\<close>

definition WF_MAX_NAME_LENGTH :: nat where "WF_MAX_NAME_LENGTH = 200"

definition last_execution :: "db \<Rightarrow> uuid \<Rightarrow> uuid \<Rightarrow> execution option" where
  "last_execution d wid wfid =
     (case order_desc ex_queued_at (filter (\<lambda>e. ex_workspace_id e = wid \<and> ex_workflow_id e = wfid) (db_executions d)) of
        [] \<Rightarrow> None | e # _ \<Rightarrow> Some e)"

definition active_execution_count :: "db \<Rightarrow> uuid \<Rightarrow> uuid \<Rightarrow> nat" where
  "active_execution_count d wid wfid = count_where (active_in_workflow wid wfid) (db_executions d)"

datatype credential_problem = CredentialDeleted | CredentialBroken string

definition graph_at_risk :: "workflow \<Rightarrow> db \<Rightarrow> dict" where
  "graph_at_risk w d =
     (case (case wf_active_version_id w of Some v \<Rightarrow> Some v | None \<Rightarrow> wf_published_version_id w) of
        Some v \<Rightarrow> (case get_version_row d v of Some row \<Rightarrow> wv_graph row | None \<Rightarrow> [])
      | None \<Rightarrow> (case get_draft_row d (wf_id w) of Some dr \<Rightarrow> dr_graph dr | None \<Rightarrow> []))"

definition parsed_ids :: "string set \<Rightarrow> (string \<times> uuid) list" where
  "parsed_ids ids = List.map_filter (\<lambda>raw. map_option (Pair raw) (parse_uuid raw)) (sorted_list_of_set ids)"

definition broken_status :: "credential_status \<Rightarrow> bool" where
  "broken_status s = (s \<in> {CS_INVALID, CS_REVOKED})"

definition credential_problem_of :: "env \<Rightarrow> workflow \<Rightarrow> db \<Rightarrow> py_exc + credential_problem option" where
  "credential_problem_of env w d =
     (if graph_at_risk w d = [] then Inr None
      else
        (case collect_credential_ids (graph_at_risk w d) (env_registry env) of
           Inl e \<Rightarrow> Inl e
         | Inr ids \<Rightarrow>
             (let parsed = map snd (parsed_ids ids);
                  rows = filter (\<lambda>c. cr_workspace_id c = wf_workspace_id w \<and> cr_id c \<in> set parsed) (db_credentials d);
                  found = map cr_id (filter (\<lambda>c. cr_deleted_at c = None) rows)
              in Inr (if list_ex (\<lambda>p. p \<notin> set found) parsed then Some CredentialDeleted
                      else map_option (\<lambda>c. CredentialBroken (cr_name c)) (find (\<lambda>c. broken_status (cr_status c)) rows)))))"

definition trigger_enabled :: "db \<Rightarrow> workflow \<Rightarrow> bool" where
  "trigger_enabled d w = (case first_trigger_of d (wf_id w) of None \<Rightarrow> False | Some b \<Rightarrow> tb_enabled b)"

definition derive_health :: "env \<Rightarrow> workflow \<Rightarrow> db \<Rightarrow> py_exc + health_level \<times> string option" where
  "derive_health env w d =
     (if active_execution_count d (wf_workspace_id w) (wf_id w) > 0 then Inr (HL_RUNNING, None)
      else
        (case credential_problem_of env w d of
           Inl e \<Rightarrow> Inl e
         | Inr (Some _) \<Rightarrow> Inr (HL_ACTION_REQUIRED, Some ''CREDENTIAL_INVALID'')
         | Inr None \<Rightarrow>
             if wf_published_version_id w = None then Inr (HL_DRAFT_ONLY, None)
             else if \<not> trigger_enabled d w then Inr (HL_INACTIVE, None)
             else
               (case last_execution d (wf_workspace_id w) (wf_id w) of
                  None \<Rightarrow> Inr (HL_NEVER_RUN, None)
                | Some e \<Rightarrow>
                    if ex_status e = EX_SUCCEEDED then Inr (HL_HEALTHY, None)
                    else if ex_status e \<in> {EX_FAILED, EX_TIMED_OUT, EX_ENGINE_INTERRUPTED, EX_FAILED_TO_START}
                    then Inr (HL_FAILED, ex_error_code e)
                    else Inr (HL_WARNING, ex_error_code e))))"

definition available_actions :: "request_context \<Rightarrow> workflow \<Rightarrow> string option \<Rightarrow> db \<Rightarrow> string list" where
  "available_actions ctx w code d =
     (if ctx_can ctx M_WORKFLOWS A_EDIT then [''EDIT''] else []) @
     (if ctx_can ctx M_WORKFLOWS A_EXECUTE then [''RUN_DRAFT''] else []) @
     (if ctx_can ctx M_WORKFLOWS A_PUBLISH
      then [''PUBLISH''] @ (if wf_published_version_id w \<noteq> None
            then (if trigger_enabled d w then [''DEACTIVATE''] else [''ACTIVATE'']) else [])
      else []) @
     (if code = Some ''CREDENTIAL_INVALID'' then [''UPDATE_CREDENTIAL''] else []) @
     (if ctx_can ctx M_WORKFLOWS A_CREATE then [''DUPLICATE''] else []) @
     (if ctx_can ctx M_WORKFLOWS A_DELETE then [''DELETE''] else [])"

record workflow_summary =
  sv_workflow :: workflow
  sv_revision :: int
  sv_graph_hash :: string
  sv_has_changes :: bool
  sv_published :: "(int \<times> int) option"
  sv_active_version :: "int option"
  sv_trigger :: "(trigger_type \<times> bool \<times> int option) option"
  sv_last_execution :: "execution option"
  sv_health :: "health_level \<times> string option"
  sv_available_actions :: "string list"

definition has_changes :: "workflow_draft option \<Rightarrow> workflow_version option \<Rightarrow> bool" where
  "has_changes draft published =
     (case (draft, published) of
        (Some dr, Some v) \<Rightarrow> dr_graph_hash dr \<noteq> wv_graph_hash v
      | (Some dr, None) \<Rightarrow> dr_graph_hash dr \<noteq> []
      | _ \<Rightarrow> False)"

definition summary_view :: "env \<Rightarrow> request_context \<Rightarrow> workflow \<Rightarrow> db \<Rightarrow> service_error + workflow_summary" where
  "summary_view env ctx w d =
     (case derive_health env w d of
        Inl e \<Rightarrow> Inl (Crash e)
      | Inr health \<Rightarrow>
          (let draft = get_draft_row d (wf_id w);
               published = Option.bind (wf_published_version_id w) (get_version_row d);
               active = Option.bind (wf_active_version_id w) (get_version_row d)
           in Inr \<lparr>sv_workflow = w, sv_revision = (case draft of None \<Rightarrow> 0 | Some dr \<Rightarrow> dr_revision dr),
                   sv_graph_hash = (case draft of None \<Rightarrow> [] | Some dr \<Rightarrow> dr_graph_hash dr),
                   sv_has_changes = has_changes draft published,
                   sv_published = map_option (\<lambda>v. (wv_number v, wv_published_at v)) published,
                   sv_active_version = map_option wv_number active,
                   sv_trigger = map_option (\<lambda>b. (tb_trigger_type b, tb_enabled b, tb_next_run_at b)) (first_trigger_of d (wf_id w)),
                   sv_last_execution = last_execution d (wf_workspace_id w) (wf_id w),
                   sv_health = health, sv_available_actions = available_actions ctx w (snd health) d\<rparr>))"

fun summaries :: "env \<Rightarrow> request_context \<Rightarrow> db \<Rightarrow> workflow list \<Rightarrow> service_error + workflow_summary list" where
  "summaries env ctx d [] = Inr []"
| "summaries env ctx d (w # ws) =
     (case summary_view env ctx w d of
        Inl e \<Rightarrow> Inl e
      | Inr s \<Rightarrow> (case summaries env ctx d ws of Inl e \<Rightarrow> Inl e | Inr ss \<Rightarrow> Inr (s # ss)))"

record workflow_page =
  wp_items :: "workflow_summary list"
  wp_total :: nat
  wp_has_more :: bool
  wp_active :: nat
  wp_needs_attention :: nat
  wp_draft_only :: nat

definition list_workflows :: "env \<Rightarrow> request_context \<Rightarrow> (workflow \<Rightarrow> int) \<Rightarrow> string \<Rightarrow> string \<Rightarrow> string \<Rightarrow> nat \<Rightarrow> nat \<Rightarrow> db
    \<Rightarrow> service_error + workflow_page" where
  "list_workflows env ctx updated_at query status trigger lim off d =
     (case ctx_require ctx M_WORKFLOWS A_VIEW of
        Inl e \<Rightarrow> Inl e
      | Inr _ \<Rightarrow>
          (case enum_filter workflow_status_of status of
             Inl e \<Rightarrow> Inl e
           | Inr st \<Rightarrow>
               (case enum_filter trigger_type_of trigger of
                  Inl e \<Rightarrow> Inl e
                | Inr tr \<Rightarrow>
                    (let needle = str_lower (str_strip query);
                         rows = filter (\<lambda>w. (st = None \<or> Some (wf_status w) = st) \<and>
                             (tr = None \<or> wf_trigger_type_cache w = tr) \<and>
                             (query = [] \<or> str_contains needle (str_lower (wf_name w))))
                           (live_workflows (ctx_workspace_id ctx) d);
                         shown = take lim (drop off (order_desc updated_at rows))
                     in case summaries env ctx d shown of
                          Inl e \<Rightarrow> Inl e
                        | Inr items \<Rightarrow>
                            Inr \<lparr>wp_items = items, wp_total = length rows, wp_has_more = off + length shown < length rows,
                                 wp_active = count_where (\<lambda>s. wf_status (sv_workflow s) = WF_ACTIVE) items,
                                 wp_needs_attention = count_where (\<lambda>s. fst (sv_health s) \<in> {HL_FAILED, HL_ACTION_REQUIRED}) items,
                                 wp_draft_only = count_where (\<lambda>s. fst (sv_health s) = HL_DRAFT_ONLY) items\<rparr>))))"

section \<open>The binding follows the canvas\<close>

text \<open>What a trigger node makes of the binding; \<open>SCHEDULE\<close> and \<open>WEBHOOK\<close> read its configuration.\<close>

definition schedule_binding :: "env \<Rightarrow> request_context \<Rightarrow> dict \<Rightarrow> trigger_binding \<Rightarrow> service_error + trigger_binding" where
  "schedule_binding env ctx config b =
     (case schedules_validate (env_calendar env) config (ctx_timezone ctx) of
        Inl e \<Rightarrow> Inl e
      | Inr normalized \<Rightarrow>
          (case overlap_policy_of (py_str (dget normalized ''overlap_policy'')) of
             None \<Rightarrow> Inl (Crash ValueErr)
           | Some policy \<Rightarrow>
               (let b = b\<lparr>tb_config := normalized, tb_overlap_policy := policy\<rparr> in
                if tb_enabled b then
                  (case next_run_at (env_calendar env) normalized (env_now env) of
                     Inl e \<Rightarrow> Inl e
                   | Inr t \<Rightarrow> Inr (b\<lparr>tb_next_run_at := Some t\<rparr>))
                else Inr b)))"

definition webhook_config :: "env \<Rightarrow> dict \<Rightarrow> service_error + dict" where
  "webhook_config env config =
     (let maximum = cfg_webhook_max_body_bytes (env_settings env) in
      case py_int (or_else (dget config ''max_body_bytes'') (JInt maximum)) of
        Inl e \<Rightarrow> Inl (Crash e)
      | Inr n \<Rightarrow>
          Inr [(''method'', JStr (str_upper (py_str (or_else (dget config ''method'') (JStr ''POST''))))),
               (''auth_mode'', JStr (str_upper (py_str (or_else (dget config ''auth_mode'') (JStr ''HEADER_SIGNATURE''))))),
               (''allowed_content_type'', or_else (dget config ''allowed_content_type'') (JStr ''application/json'')),
               (''max_body_bytes'', JInt (min n maximum))])"

definition webhook_binding :: "env \<Rightarrow> uuid \<Rightarrow> dict \<Rightarrow> trigger_binding \<Rightarrow> db \<Rightarrow> service_error + trigger_binding \<times> db" where
  "webhook_binding env wid config b d =
     (case webhook_config env config of
        Inl e \<Rightarrow> Inl e
      | Inr cfg \<Rightarrow>
          (let (b1, d1) = (if text_or_empty (tb_public_key b) = []
                 then (b\<lparr>tb_public_key := Some (env_token env (db_drawn d))\<rparr>, bump d) else (b, d));
               (b2, d2) = (if dget cfg ''auth_mode'' \<noteq> JStr (webhook_auth_mode_value WA_NONE) \<and> text_or_empty (tb_secret_ref b1) = []
                 then (let (ref, d') = secret_write env wid [(''secret'', JStr (env_token env (db_drawn d1)))] None (bump d1)
                       in (b1\<lparr>tb_secret_ref := Some ref\<rparr>, d'))
                 else (b1, d1))
           in Inr (b2\<lparr>tb_config := cfg, tb_next_run_at := None\<rparr>, d2)))"

definition new_binding :: "uuid \<Rightarrow> uuid \<Rightarrow> uuid \<Rightarrow> trigger_type \<Rightarrow> dict \<Rightarrow> trigger_binding" where
  "new_binding tid wfid wid ty config = \<lparr>tb_id = tid, tb_workflow_id = wfid, tb_version_id = None, tb_workspace_id = wid,
     tb_trigger_type = ty, tb_enabled = False, tb_config = config, tb_public_key = None, tb_secret_ref = None,
     tb_next_run_at = None, tb_last_fired_at = None, tb_overlap_policy = OP_SKIP_IF_RUNNING, tb_activated_by = None\<rparr>"

definition ensure_binding :: "env \<Rightarrow> workflow \<Rightarrow> db \<Rightarrow> trigger_binding \<times> db" where
  "ensure_binding env w d =
     (case first_trigger_of d (wf_id w) of
        Some b \<Rightarrow> (b, d)
      | None \<Rightarrow>
          (let b = new_binding (fresh_id env d) (wf_id w) (wf_workspace_id w) TT_MANUAL []
           in (b, (bump d)\<lparr>db_triggers := db_triggers d @ [b]\<rparr>)))"

definition shape_binding :: "env \<Rightarrow> request_context \<Rightarrow> workflow \<Rightarrow> trigger_type \<Rightarrow> json \<Rightarrow> trigger_binding \<Rightarrow> db
    \<Rightarrow> service_error + trigger_binding \<times> db" where
  "shape_binding env ctx w ty config b d =
     (case ty of
        TT_SCHEDULE \<Rightarrow>
          (case as_dict config of
             Inl e \<Rightarrow> Inl (Crash e)
           | Inr cfg \<Rightarrow> (case schedule_binding env ctx cfg b of Inl e \<Rightarrow> Inl e | Inr b' \<Rightarrow> Inr (b', d)))
      | TT_WEBHOOK \<Rightarrow>
          (case as_dict config of
             Inl e \<Rightarrow> Inl (Crash e)
           | Inr cfg \<Rightarrow> webhook_binding env (wf_workspace_id w) cfg b d)
      | TT_MANUAL \<Rightarrow> Inr (b\<lparr>tb_config := [], tb_next_run_at := None\<rparr>, d))"

definition sync_trigger_from_graph :: "env \<Rightarrow> request_context \<Rightarrow> workflow \<Rightarrow> dict \<Rightarrow> db \<Rightarrow> service_error + workflow \<times> db" where
  "sync_trigger_from_graph env ctx w graph d =
     (case trigger_of graph (env_registry env) of
        Inl e \<Rightarrow> Inl (Crash e)
      | Inr node \<Rightarrow>
          (let (b, d1) = ensure_binding env w d in
           case node of
             None \<Rightarrow> Inr (w, d1)
           | Some n \<Rightarrow>
               (let declared = nd_trigger_type (definition_for (env_registry env) (py_str (dget n ''node_key''))) in
                case trigger_type_of (if declared = [] then ''MANUAL'' else declared) of
                  None \<Rightarrow> Inl (Crash ValueErr)
                | Some ty \<Rightarrow>
                    (case shape_binding env ctx w ty (or_else (dget n ''config'') (JObj [])) (b\<lparr>tb_trigger_type := ty\<rparr>) d1 of
                       Inl e \<Rightarrow> Inl e
                     | Inr (b', d2) \<Rightarrow>
                         if tb_trigger_type b \<noteq> ty \<and> tb_enabled b' then
                           (let w' = w\<lparr>wf_trigger_type_cache := Some ty, wf_status := WF_INACTIVE\<rparr>
                            in Inr (w', audit_record env ctx
                                 ((entry ''workflow.deactivated'' ''WORKFLOW'' (wf_id w) (wf_name w))\<lparr>aa_after :=
                                    [(''reason'', JStr ''TRIGGER_TYPE_CHANGED'')]\<rparr>)
                                 (put_trigger (b'\<lparr>tb_enabled := False\<rparr>) (put_workflow w' d2))))
                         else
                           (let w' = w\<lparr>wf_trigger_type_cache := Some ty\<rparr>
                            in Inr (w', put_trigger b' (put_workflow w' d2)))))))"

section \<open>Drafts\<close>

definition workflow_create :: "env \<Rightarrow> request_context \<Rightarrow> string \<Rightarrow> string option \<Rightarrow> string \<Rightarrow> db
    \<Rightarrow> (service_error + workflow) \<times> db" where
  "workflow_create env ctx name0 description trigger_node_key d =
     guarded (ctx_require ctx M_WORKFLOWS A_CREATE) d
       (let name = str_strip name0 in
        if name = [] then (Inl (App (raise_class ValidationError)), d)
        else if length name > WF_MAX_NAME_LENGTH then (Inl (App (raise_class ValidationError)), d)
        else
          (case env_registry env trigger_node_key of
             None \<Rightarrow> (Inl (field_error ''NODE_UNSUPPORTED'' ''trigger_node_key''), d)
           | Some nd \<Rightarrow>
               if \<not> nd_is_trigger nd then (Inl (field_error ''NODE_UNSUPPORTED'' ''trigger_node_key''), d)
               else
                 (let wfid = fresh_id env d;
                      w = \<lparr>wf_id = wfid, wf_workspace_id = ctx_workspace_id ctx, wf_name = name,
                           wf_description = Option.bind description nonempty, wf_status = WF_INACTIVE,
                           wf_published_version_id = None, wf_active_version_id = None,
                           wf_trigger_type_cache = Some TT_MANUAL, wf_created_by = ctx_user_id ctx,
                           wf_updated_by = ctx_user_id ctx, wf_deleted_at = None\<rparr>;
                      graph = empty_graph trigger_node_key (Some nd)
                  in case graph_hash (env_sha256 env) graph of
                       Inl e \<Rightarrow> (Inl (Crash e), d)
                     | Inr hash \<Rightarrow>
                         (let draft = \<lparr>dr_workflow_id = wfid, dr_workspace_id = ctx_workspace_id ctx, dr_graph = graph,
                                dr_graph_hash = hash, dr_schema_version = 1, dr_revision = 1, dr_validation_state = None,
                                dr_saved_by = ctx_user_id ctx, dr_updated_at = env_now env\<rparr>;
                              d1 = (bump d)\<lparr>db_workflows := db_workflows d @ [w], db_drafts := db_drafts d @ [draft]\<rparr>;
                              d2 = (bump d1)\<lparr>db_triggers := db_triggers d1 @
                                     [new_binding (fresh_id env d1) wfid (ctx_workspace_id ctx) TT_MANUAL []]\<rparr>
                          in case sync_trigger_from_graph env ctx w graph d2 of
                               Inl e \<Rightarrow> (Inl e, d)
                             | Inr (w', d3) \<Rightarrow>
                                 (Inr w', audit_record env ctx
                                    ((entry ''workflow.created'' ''WORKFLOW'' wfid name)\<lparr>aa_after :=
                                       [(''trigger'', JStr trigger_node_key)]\<rparr>) d3)))))"

definition rename :: "env \<Rightarrow> request_context \<Rightarrow> uuid \<Rightarrow> string option \<Rightarrow> string option \<Rightarrow> db
    \<Rightarrow> (service_error + workflow) \<times> db" where
  "rename env ctx wfid name description d =
     guarded (ctx_require ctx M_WORKFLOWS A_EDIT) d
       (case get_workflow ctx wfid d of
          Inl e \<Rightarrow> (Inl e, d)
        | Inr w \<Rightarrow>
            if name \<noteq> None \<and> str_strip (text_or_empty name) = [] then (Inl (App (raise_class ValidationError)), d)
            else
              (let w1 = (case name of None \<Rightarrow> w | Some n \<Rightarrow> w\<lparr>wf_name := take WF_MAX_NAME_LENGTH (str_strip n)\<rparr>);
                   w2 = (case description of None \<Rightarrow> w1 | Some t \<Rightarrow> w1\<lparr>wf_description := nonempty t\<rparr>);
                   w3 = w2\<lparr>wf_updated_by := ctx_user_id ctx\<rparr>
               in (Inr w3, audit_record env ctx
                     ((entry ''workflow.updated'' ''WORKFLOW'' wfid (wf_name w3))\<lparr>
                        aa_before := [(''name'', JStr (wf_name w)),
                          (''description'', case wf_description w of None \<Rightarrow> JNull | Some t \<Rightarrow> JStr t)],
                        aa_after := [(''name'', JStr (wf_name w3))]\<rparr>)
                     (put_workflow w3 d))))"

definition get_draft :: "request_context \<Rightarrow> uuid \<Rightarrow> db \<Rightarrow> service_error + workflow \<times> workflow_draft" where
  "get_draft ctx wfid d =
     (case ctx_require ctx M_WORKFLOWS A_VIEW of
        Inl e \<Rightarrow> Inl e
      | Inr _ \<Rightarrow>
          (case get_workflow ctx wfid d of
             Inl e \<Rightarrow> Inl e
           | Inr w \<Rightarrow> (case get_draft_row d (wf_id w) of None \<Rightarrow> Inl (App (raise_class NotFoundError)) | Some dr \<Rightarrow> Inr (w, dr))))"

definition draft_conflict :: "dict option \<Rightarrow> int \<Rightarrow> int \<Rightarrow> service_error" where
  "draft_conflict remedy server yours = App (AppError_init DraftConflictError
     (no_args\<lparr>arg_details := Some [(''server_revision'', JInt server), (''your_revision'', JInt yours)],
       arg_remediation := remedy\<rparr>))"

definition json_text :: "string option \<Rightarrow> json" where
  "json_text t = (case t of None \<Rightarrow> JNull | Some s \<Rightarrow> JStr s)"

definition result_json :: "validation_result \<Rightarrow> json" where
  "result_json r = JObj [(''ok'', JBool (result_ok r)), (''issues'', JArr (map issue_json (vr_issues r))),
     (''trigger_node_id'', json_text (vr_trigger_node_id r)), (''trigger_node_key'', json_text (vr_trigger_node_key r))]"

definition save_draft :: "env \<Rightarrow> request_context \<Rightarrow> uuid \<Rightarrow> dict \<Rightarrow> int \<Rightarrow> db \<Rightarrow> (service_error + workflow_draft) \<times> db" where
  "save_draft env ctx wfid graph expected_revision d =
     guarded (ctx_require ctx M_WORKFLOWS A_EDIT) d
       (case get_workflow ctx wfid d of
          Inl e \<Rightarrow> (Inl e, d)
        | Inr w \<Rightarrow>
            (case get_draft_row d (wf_id w) of
               None \<Rightarrow> (Inl (App (raise_class NotFoundError)), d)
             | Some draft \<Rightarrow>
                 if expected_revision \<noteq> dr_revision draft then
                   (Inl (draft_conflict (Some [(''action'', JStr ''RELOAD_DRAFT'')]) (dr_revision draft) expected_revision), d)
                 else
                   (case validate_graph graph (env_registry env) False of
                      Inl e \<Rightarrow> (Inl (Crash e), d)
                    | Inr result \<Rightarrow>
                        (case graph_hash (env_sha256 env) graph of
                           Inl e \<Rightarrow> (Inl (Crash e), d)
                         | Inr hash \<Rightarrow>
                             (let draft' = draft\<lparr>dr_graph := graph, dr_graph_hash := hash, dr_revision := dr_revision draft + 1,
                                    dr_validation_state := Some (result_json result), dr_saved_by := ctx_user_id ctx,
                                    dr_updated_at := env_now env\<rparr>
                              in case sync_trigger_from_graph env ctx w graph (put_draft draft' d) of
                                   Inl e \<Rightarrow> (Inl e, d)
                                 | Inr (w', d') \<Rightarrow> (Inr draft', put_workflow (w'\<lparr>wf_updated_by := ctx_user_id ctx\<rparr>) d'))))))"

section \<open>Validation against the workspace and the engine\<close>

datatype engine_state = ENGINE_SKIPPED | ENGINE_OK | ENGINE_INVALID | ENGINE_UNAVAILABLE

type_synonym compiler = "dict \<Rightarrow> (string \<times> string) list \<Rightarrow> (bool \<times> issue list) engine_answer"
  \<comment> \<open>the graph and the credentials' ids and types\<close>

definition credential_issue :: "string \<Rightarrow> issue" where
  "credential_issue code = \<lparr>iss_code = code, iss_node_id = None, iss_field = None, iss_severity = ''ERROR''\<rparr>"

definition credential_issues :: "request_context \<Rightarrow> validation_result \<Rightarrow> db \<Rightarrow> issue list \<times> credential list" where
  "credential_issues ctx result d =
     (let ids = vr_credential_ids result;
          parsed = parsed_ids ids;
          malformed = map (\<lambda>_. credential_issue ''CREDENTIAL_REQUIRED'') (filter (\<lambda>raw. parse_uuid raw = None) (sorted_list_of_set ids));
          rows = filter (\<lambda>c. cr_id c \<in> snd ` set parsed \<and> cr_workspace_id c = ctx_workspace_id ctx \<and> cr_deleted_at c = None)
                   (db_credentials d);
          judged = List.map_filter (\<lambda>(raw, cid).
              case find (\<lambda>c. cr_id c = cid) rows of
                None \<Rightarrow> Some (credential_issue ''CREDENTIAL_REQUIRED'')
              | Some c \<Rightarrow> if broken_status (cr_status c) then Some (credential_issue ''CREDENTIAL_INVALID'') else None) parsed
      in if parsed = [] then (malformed, []) else (malformed @ judged, rows))"

definition engine_validate :: "compiler \<Rightarrow> dict \<Rightarrow> credential list \<Rightarrow> engine_state \<times> issue list" where
  "engine_validate compile graph creds =
     (let unavailable = (\<lambda>e. (ENGINE_UNAVAILABLE, [\<lparr>iss_code = ae_code e, iss_node_id = None, iss_field = None, iss_severity = ''WARNING''\<rparr>]))
      in case compile graph (map (\<lambda>c. (show_uuid (cr_id c), credential_type_value (cr_type c))) creds) of
           EngineDown e \<Rightarrow> unavailable e
         | EngineRefused e \<Rightarrow> unavailable e
         | Answer (ok, diagnostics) \<Rightarrow> (if ok then ENGINE_OK else ENGINE_INVALID, diagnostics))"

fun engine_state_value :: "engine_state \<Rightarrow> string" where
  "engine_state_value ENGINE_SKIPPED = ''SKIPPED''"
| "engine_state_value ENGINE_OK = ''OK''"
| "engine_state_value ENGINE_INVALID = ''INVALID''"
| "engine_state_value ENGINE_UNAVAILABLE = ''UNAVAILABLE''"

record validation_payload =
  vp_ok :: bool
  vp_issues :: "issue list"
  vp_engine :: engine_state
  vp_trigger_node_id :: "string option"
  vp_trigger_node_key :: "string option"

definition payload_json :: "validation_payload \<Rightarrow> json" where
  "payload_json p = JObj [(''ok'', JBool (vp_ok p)), (''issues'', JArr (map issue_json (vp_issues p))),
     (''engine'', JStr (engine_state_value (vp_engine p))), (''trigger_node_id'', json_text (vp_trigger_node_id p)),
     (''trigger_node_key'', json_text (vp_trigger_node_key p))]"

definition workflow_validate :: "env \<Rightarrow> compiler \<Rightarrow> request_context \<Rightarrow> uuid \<Rightarrow> bool \<Rightarrow> db
    \<Rightarrow> (service_error + validation_payload) \<times> db" where
  "workflow_validate env compile ctx wfid with_engine d =
     guarded (ctx_require ctx M_WORKFLOWS A_VIEW) d
       (case get_workflow ctx wfid d of
          Inl e \<Rightarrow> (Inl e, d)
        | Inr w \<Rightarrow>
            (case get_draft_row d (wf_id w) of
               None \<Rightarrow> (Inl (App (raise_class NotFoundError)), d)
             | Some draft \<Rightarrow>
                 (case validate_graph (dr_graph draft) (env_registry env) True of
                    Inl e \<Rightarrow> (Inl (Crash e), d)
                  | Inr result \<Rightarrow>
                      (let (cred_issues, creds) = credential_issues ctx result d;
                           issues = vr_issues result @ cred_issues;
                           (state, engine_issues) =
                             (if with_engine \<and> errors_of issues = [] then engine_validate compile (dr_graph draft) creds
                              else (ENGINE_SKIPPED, []));
                           payload = \<lparr>vp_ok = (errors_of (issues @ engine_issues) = []), vp_issues = issues @ engine_issues,
                             vp_engine = state, vp_trigger_node_id = vr_trigger_node_id result,
                             vp_trigger_node_key = vr_trigger_node_key result\<rparr>
                       in (Inr payload, put_draft (draft\<lparr>dr_validation_state := Some (payload_json payload)\<rparr>) d)))))"

section \<open>Versions\<close>

definition versions_of :: "db \<Rightarrow> uuid \<Rightarrow> workflow_version list" where
  "versions_of d wfid = filter (\<lambda>v. wv_workflow_id v = wfid) (db_versions d)"

definition next_number :: "db \<Rightarrow> uuid \<Rightarrow> int" where
  "next_number d wfid = foldl max 0 (map wv_number (versions_of d wfid)) + 1"

definition publish :: "env \<Rightarrow> compiler \<Rightarrow> request_context \<Rightarrow> uuid \<Rightarrow> int option \<Rightarrow> string option \<Rightarrow> db
    \<Rightarrow> (service_error + workflow_version) \<times> db" where
  "publish env compile ctx wfid expected_revision change_note d =
     guarded (ctx_require ctx M_WORKFLOWS A_PUBLISH) d
       (case get_workflow ctx wfid d of
          Inl e \<Rightarrow> (Inl e, d)
        | Inr w \<Rightarrow>
            (case get_draft_row d (wf_id w) of
               None \<Rightarrow> (Inl (App (raise_class NotFoundError)), d)
             | Some draft \<Rightarrow>
                 if expected_revision \<noteq> None \<and> expected_revision \<noteq> Some (dr_revision draft) then
                   (Inl (draft_conflict None (dr_revision draft) (the expected_revision)), d)
                 else
                   (case workflow_validate env compile ctx wfid True d of
                      (Inl e, _) \<Rightarrow> (Inl e, d)
                    | (Inr outcome, d1) \<Rightarrow>
                        if \<not> vp_ok outcome then (Inl (invalid_workflow (vp_issues outcome)), d)
                        else if vp_engine outcome = ENGINE_UNAVAILABLE then (Inl (App (error_from_matrix ''ENGINE_UNAVAILABLE'')), d)
                        else
                          (let v = \<lparr>wv_id = fresh_id env d1, wv_workflow_id = wf_id w, wv_workspace_id = ctx_workspace_id ctx,
                                 wv_number = next_number d1 (wf_id w), wv_graph = dr_graph draft, wv_graph_hash = dr_graph_hash draft,
                                 wv_schema_version = dr_schema_version draft,
                                 wv_compiler_version = cfg_adapter_contract_version (env_settings env),
                                 wv_engine_set = cfg_product_version (env_settings env), wv_published_by = ctx_user_id ctx,
                                 wv_published_at = env_now env, wv_change_note = Option.bind change_note nonempty\<rparr>;
                               d2 = (bump d1)\<lparr>db_versions := db_versions d1 @ [v]\<rparr>;
                               w' = w\<lparr>wf_published_version_id := Some (wv_id v), wf_updated_by := ctx_user_id ctx\<rparr>
                           in (Inr v, audit_record env ctx
                                 ((entry ''workflow.published'' ''WORKFLOW'' (wf_id w) (wf_name w))\<lparr>aa_after :=
                                    [(''version'', JInt (wv_number v)), (''graph_hash'', JStr (wv_graph_hash v)),
                                     (''change_note'', json_text change_note)]\<rparr>)
                                 (put_workflow w' d2))))))"

definition list_versions :: "request_context \<Rightarrow> uuid \<Rightarrow> db \<Rightarrow> service_error + (workflow_version \<times> bool \<times> bool) list" where
  "list_versions ctx wfid d =
     (case ctx_require ctx M_WORKFLOWS A_VIEW of
        Inl e \<Rightarrow> Inl e
      | Inr _ \<Rightarrow>
          (case get_workflow ctx wfid d of
             Inl e \<Rightarrow> Inl e
           | Inr w \<Rightarrow> Inr (map (\<lambda>v. (v, Some (wv_id v) = wf_active_version_id w, Some (wv_id v) = wf_published_version_id w))
                (order_desc wv_number (versions_of d (wf_id w))))))"

definition numbered_version :: "db \<Rightarrow> uuid \<Rightarrow> int \<Rightarrow> workflow_version option" where
  "numbered_version d wfid n = find (\<lambda>v. wv_workflow_id v = wfid \<and> wv_number v = n) (db_versions d)"

definition get_version :: "request_context \<Rightarrow> uuid \<Rightarrow> int \<Rightarrow> db \<Rightarrow> service_error + workflow_version \<times> bool" where
  "get_version ctx wfid n d =
     (case ctx_require ctx M_WORKFLOWS A_VIEW of
        Inl e \<Rightarrow> Inl e
      | Inr _ \<Rightarrow>
          (case get_workflow ctx wfid d of
             Inl e \<Rightarrow> Inl e
           | Inr w \<Rightarrow>
               (case numbered_version d (wf_id w) n of
                  None \<Rightarrow> Inl (App (raise_class NotFoundError))
                | Some v \<Rightarrow> Inr (v, Some (wv_id v) = wf_active_version_id w))))"

section \<open>Activation\<close>

definition version_to_activate :: "workflow \<Rightarrow> int option \<Rightarrow> db \<Rightarrow> service_error + workflow_version" where
  "version_to_activate w number d =
     (case number of
        None \<Rightarrow>
          (case wf_published_version_id w of
             None \<Rightarrow> Inl (App (error_from_matrix ''WORKFLOW_NOT_PUBLISHED''))
           | Some vid \<Rightarrow> (case get_version_row d vid of None \<Rightarrow> Inl (App (raise_class NotFoundError)) | Some v \<Rightarrow> Inr v))
      | Some n \<Rightarrow> (case numbered_version d (wf_id w) n of None \<Rightarrow> Inl (App (raise_class NotFoundError)) | Some v \<Rightarrow> Inr v))"

definition armed_binding :: "env \<Rightarrow> request_context \<Rightarrow> workflow_version \<Rightarrow> trigger_binding \<Rightarrow> service_error + trigger_binding" where
  "armed_binding env ctx v b =
     (let b' = b\<lparr>tb_version_id := Some (wv_id v), tb_enabled := True, tb_activated_by := ctx_user_id ctx\<rparr> in
      if tb_trigger_type b = TT_SCHEDULE then
        (case next_run_at (env_calendar env) (tb_config b) (env_now env) of
           Inl e \<Rightarrow> Inl e | Inr t \<Rightarrow> Inr (b'\<lparr>tb_next_run_at := Some t\<rparr>))
      else Inr b')"

definition activate :: "env \<Rightarrow> request_context \<Rightarrow> uuid \<Rightarrow> int option \<Rightarrow> db \<Rightarrow> (service_error + workflow_summary) \<times> db" where
  "activate env ctx wfid number d =
     guarded (ctx_require ctx M_WORKFLOWS A_PUBLISH) d
       (case get_workflow ctx wfid d of
          Inl e \<Rightarrow> (Inl e, d)
        | Inr w \<Rightarrow>
            (case version_to_activate w number d of
               Inl e \<Rightarrow> (Inl e, d)
             | Inr v \<Rightarrow>
                 (case validate_graph (wv_graph v) (env_registry env) True of
                    Inl e \<Rightarrow> (Inl (Crash e), d)
                  | Inr result \<Rightarrow>
                      if \<not> result_ok result then (Inl (invalid_workflow (vr_issues result)), d)
                      else
                        (let blocking = errors_of (fst (credential_issues ctx result d)) in
                         if blocking \<noteq> [] then
                           (Inl (App (error_from_matrix_with ''CREDENTIAL_INVALID'' None
                              (no_args\<lparr>arg_details := Some [(''issues'', JArr (map issue_json blocking))]\<rparr>))), d)
                         else
                           (case first_trigger_of d (wf_id w) of
                              None \<Rightarrow> (Inl (App (raise_class ConflictError)), d)
                            | Some b \<Rightarrow>
                                (case armed_binding env ctx v b of
                                   Inl e \<Rightarrow> (Inl e, d)
                                 | Inr b' \<Rightarrow>
                                     (let w' = w\<lparr>wf_active_version_id := Some (wv_id v), wf_status := WF_ACTIVE,
                                            wf_updated_by := ctx_user_id ctx\<rparr>;
                                          d' = audit_record env ctx
                                            ((entry ''workflow.activated'' ''WORKFLOW'' (wf_id w) (wf_name w))\<lparr>aa_after :=
                                               [(''version'', JInt (wv_number v)),
                                                (''trigger'', JStr (trigger_type_value (tb_trigger_type b))),
                                                (''next_run_at'', case tb_next_run_at b' of None \<Rightarrow> JNull | Some t \<Rightarrow> JInt t)]\<rparr>)
                                            (put_workflow w' (put_trigger b' d))
                                      in case summary_view env ctx w' d' of Inl e \<Rightarrow> (Inl e, d) | Inr s \<Rightarrow> (Inr s, d'))))))))"

definition deactivate :: "env \<Rightarrow> request_context \<Rightarrow> uuid \<Rightarrow> db \<Rightarrow> (service_error + workflow_summary) \<times> db" where
  "deactivate env ctx wfid d =
     guarded (ctx_require ctx M_WORKFLOWS A_PUBLISH) d
       (case get_workflow ctx wfid d of
          Inl e \<Rightarrow> (Inl e, d)
        | Inr w \<Rightarrow>
            (let d1 = (case first_trigger_of d (wf_id w) of None \<Rightarrow> d
                 | Some b \<Rightarrow> put_trigger (b\<lparr>tb_enabled := False, tb_next_run_at := None\<rparr>) d);
                 w' = w\<lparr>wf_status := WF_INACTIVE, wf_updated_by := ctx_user_id ctx\<rparr>;
                 d' = audit_record env ctx (entry ''workflow.deactivated'' ''WORKFLOW'' (wf_id w) (wf_name w)) (put_workflow w' d1)
             in case summary_view env ctx w' d' of Inl e \<Rightarrow> (Inl e, d) | Inr s \<Rightarrow> (Inr s, d')))"

section \<open>Copies and deletion\<close>

definition duplicate :: "env \<Rightarrow> request_context \<Rightarrow> uuid \<Rightarrow> db \<Rightarrow> (service_error + workflow) \<times> db" where
  "duplicate env ctx wfid d =
     guarded (ctx_require ctx M_WORKFLOWS A_CREATE) d
       (case get_workflow ctx wfid d of
          Inl e \<Rightarrow> (Inl e, d)
        | Inr source \<Rightarrow>
            (case get_draft_row d (wf_id source) of
               None \<Rightarrow> (Inl (App (raise_class NotFoundError)), d)
             | Some draft \<Rightarrow>
                 (case graph_hash (env_sha256 env) (dr_graph draft) of
                    Inl e \<Rightarrow> (Inl (Crash e), d)
                  | Inr hash \<Rightarrow>
                      (let cid = fresh_id env d;
                           copy = \<lparr>wf_id = cid, wf_workspace_id = ctx_workspace_id ctx,
                             wf_name = take WF_MAX_NAME_LENGTH (wf_name source @ '' (copy)''),
                             wf_description = wf_description source, wf_status = WF_INACTIVE, wf_published_version_id = None,
                             wf_active_version_id = None, wf_trigger_type_cache = wf_trigger_type_cache source,
                             wf_created_by = ctx_user_id ctx, wf_updated_by = ctx_user_id ctx, wf_deleted_at = None\<rparr>;
                           d1 = (bump d)\<lparr>db_workflows := db_workflows d @ [copy],
                             db_drafts := db_drafts d @ [\<lparr>dr_workflow_id = cid, dr_workspace_id = ctx_workspace_id ctx,
                               dr_graph = dr_graph draft, dr_graph_hash = hash, dr_schema_version = 1, dr_revision = 1,
                               dr_validation_state = None, dr_saved_by = ctx_user_id ctx, dr_updated_at = env_now env\<rparr>]\<rparr>;
                           d2 = (bump d1)\<lparr>db_triggers := db_triggers d1 @
                             [new_binding (fresh_id env d1) cid (ctx_workspace_id ctx)
                                (case wf_trigger_type_cache source of Some ty \<Rightarrow> ty | None \<Rightarrow> TT_MANUAL)
                                (case first_trigger_of d (wf_id source) of Some b \<Rightarrow> tb_config b | None \<Rightarrow> [])]\<rparr>
                       in case sync_trigger_from_graph env ctx copy (dr_graph draft) d2 of
                            Inl e \<Rightarrow> (Inl e, d)
                          | Inr (copy', d3) \<Rightarrow>
                              (Inr copy', audit_record env ctx
                                 ((entry ''workflow.duplicated'' ''WORKFLOW'' cid (wf_name copy))\<lparr>aa_after :=
                                    [(''source_workflow_id'', JStr (show_uuid (wf_id source)))]\<rparr>) d3)))))"

definition released :: "trigger_binding \<Rightarrow> trigger_binding" where
  "released b = b\<lparr>tb_enabled := False, tb_next_run_at := None, tb_public_key := None\<rparr>"

definition workflow_delete :: "env \<Rightarrow> request_context \<Rightarrow> uuid \<Rightarrow> db \<Rightarrow> (service_error + unit) \<times> db" where
  "workflow_delete env ctx wfid d =
     guarded (ctx_require ctx M_WORKFLOWS A_DELETE) d
       (case get_workflow ctx wfid d of
          Inl e \<Rightarrow> (Inl e, d)
        | Inr w \<Rightarrow>
            if wf_status w = WF_ACTIVE then
              (Inl (App (AppError_init ConflictError (no_args\<lparr>arg_remediation := Some [(''action'', JStr ''DEACTIVATE'')]\<rparr>))), d)
            else if active_execution_count d (wf_workspace_id w) (wf_id w) > 0 then
              (Inl (App (error_from_matrix ''WORKFLOW_ALREADY_RUNNING'')), d)
            else
              (let w' = w\<lparr>wf_deleted_at := Some (env_now env), wf_status := WF_DELETED\<rparr>;
                   d1 = put_workflow w' d
               in (Inr (), audit_record env ctx (entry ''workflow.deleted'' ''WORKFLOW'' (wf_id w) (wf_name w))
                     (d1\<lparr>db_triggers := update_where (\<lambda>b. tb_workflow_id b = wf_id w) released (db_triggers d1)\<rparr>))))"

end
