(* ===== verification/Reconcile.thy ===== *)
theory Reconcile
  imports Executions
begin

text \<open>
  The dispatch and reconcile loops of \<open>app/worker.py\<close> and the life of the execution table under
  everything that writes it. \<open>run_step\<close> is the step relation: an API request, a claim, the two halves
  of a dispatch, a poll, or the staleness check. The second half of a dispatch is a step only
  while the row is still \<open>DISPATCHING\<close>: the code does not check that, and what then happens is
  \<open>cancelled_run_is_resurrected\<close> below. The lemmas say what one step can do to a row; the
  invariants follow by induction over the runs.
\<close>

section \<open>The loops, one iteration at a time\<close>

definition claim_batch :: "nat \<Rightarrow> db \<Rightarrow> db" where
  "claim_batch lim d =
     (let ids = map ex_id (claim_queued lim d) in
      d\<lparr>db_executions := update_where (\<lambda>e. ex_id e \<in> set ids) (\<lambda>e. e\<lparr>ex_status := EX_DISPATCHING\<rparr>) (db_executions d)\<rparr>)"

text \<open>An exception while one row is dispatched is logged and rolled back to the last commit;
  the loop goes on with the next row.\<close>

definition dispatch_one :: "env \<Rightarrow> (engine_request \<Rightarrow> string engine_answer) \<Rightarrow> uuid \<Rightarrow> db \<Rightarrow> db" where
  "dispatch_one env execute eid d =
     (case get_execution_row d eid of
        None \<Rightarrow> d
      | Some e \<Rightarrow>
          (case dispatch_begin env e d of
             Inl _ \<Rightarrow> d
           | Inr (request, d') \<Rightarrow> (case dispatch_finish env eid (execute request) d' of Inl _ \<Rightarrow> d' | Inr d'' \<Rightarrow> d'')))"

definition dispatch_tick :: "env \<Rightarrow> (engine_request \<Rightarrow> string engine_answer) \<Rightarrow> db \<Rightarrow> db" where
  "dispatch_tick env execute d =
     (let lim = cfg_worker_batch_size (env_settings env) in
      foldl (\<lambda>d e. dispatch_one env execute (ex_id e) d) (claim_batch lim d) (claim_queued lim d))"

definition failed_to_start :: "env \<Rightarrow> execution \<Rightarrow> execution" where
  "failed_to_start env e = e\<lparr>ex_status := EX_FAILED_TO_START, ex_error_code := Some ''ENGINE_UNAVAILABLE'',
     ex_error_category := Some ''ENGINE'', ex_ended_at := Some (env_now env)\<rparr>"

definition interrupt_if_stale :: "env \<Rightarrow> execution \<Rightarrow> db \<Rightarrow> service_error + db" where
  "interrupt_if_stale env e d =
     (if is_terminal (ex_status e) then Inr d
      else
        (let reference = (case ex_last_seen_at e of Some t \<Rightarrow> t | None \<Rightarrow> ex_queued_at e) in
         if env_now env - reference \<le> seconds (cfg_stale_after_seconds (env_settings env)) then Inr d
         else if text_or_empty (ex_engine_ref e) = [] then
           Inr (evaluate_execution env (failed_to_start env e) (put_execution (failed_to_start env e) d))
         else mark_interrupted env e d))"

definition reconcile_one :: "env \<Rightarrow> (string \<Rightarrow> engine_report engine_answer) \<Rightarrow> uuid \<Rightarrow> db \<Rightarrow> db" where
  "reconcile_one env ask eid d =
     (case get_execution_row d eid of
        None \<Rightarrow> d
      | Some e \<Rightarrow>
          (case poll env e (ask (text_or_empty (ex_engine_ref e))) d of
             Inl _ \<Rightarrow> d
           | Inr d1 \<Rightarrow>
               (case get_execution_row d1 eid of
                  None \<Rightarrow> d1
                | Some e1 \<Rightarrow> (case interrupt_if_stale env e1 d1 of Inl _ \<Rightarrow> d | Inr d2 \<Rightarrow> d2))))"

definition reconcile_tick :: "env \<Rightarrow> (string \<Rightarrow> engine_report engine_answer) \<Rightarrow> db \<Rightarrow> db" where
  "reconcile_tick env ask d = foldl (\<lambda>d e. reconcile_one env ask (ex_id e) d) d (active_executions 200 d)"

section \<open>The step relation\<close>

inductive run_step :: "settings \<Rightarrow> db \<Rightarrow> db \<Rightarrow> bool" for cfg where
  create: "env_settings env = cfg \<Longrightarrow> fresh_id env d \<notin> ex_id ` set (db_executions d) \<Longrightarrow>
     run_step cfg d (snd (execution_create env ctx wfid a d))"
| retry: "env_settings env = cfg \<Longrightarrow> fresh_id env d \<notin> ex_id ` set (db_executions d) \<Longrightarrow>
     run_step cfg d (snd (retry env ctx eid d))"
| cancel: "env_settings env = cfg \<Longrightarrow> run_step cfg d (snd (cancel env ctx ask eid d))"
| claim: "run_step cfg d (claim_batch lim d)"
| begin_dispatch: "env_settings env = cfg \<Longrightarrow> get_execution_row d eid = Some e \<Longrightarrow> ex_status e = EX_DISPATCHING \<Longrightarrow>
     dispatch_begin env e d = Inr (request, d') \<Longrightarrow> run_step cfg d d'"
| finish_dispatch: "env_settings env = cfg \<Longrightarrow> get_execution_row d eid = Some e \<Longrightarrow> ex_status e = EX_DISPATCHING \<Longrightarrow>
     dispatch_finish env eid started d = Inr d' \<Longrightarrow> run_step cfg d d'"
| poll: "env_settings env = cfg \<Longrightarrow> get_execution_row d eid = Some e \<Longrightarrow> is_active (ex_status e) \<Longrightarrow>
     poll env e answer d = Inr d' \<Longrightarrow> run_step cfg d d'"
| stale: "env_settings env = cfg \<Longrightarrow> get_execution_row d eid = Some e \<Longrightarrow>
     interrupt_if_stale env e d = Inr d' \<Longrightarrow> run_step cfg d d'"

inductive reachable_from :: "settings \<Rightarrow> db \<Rightarrow> db \<Rightarrow> bool" for cfg d0 where
  start: "reachable_from cfg d0 d0"
| more: "reachable_from cfg d0 d \<Longrightarrow> run_step cfg d d' \<Longrightarrow> reachable_from cfg d0 d'"

section \<open>What a step does to the execution table\<close>

text \<open>The columns that say what a run executed.\<close>

definition frozen :: "execution \<Rightarrow> uuid \<times> uuid \<times> uuid \<times> version_kind \<times> uuid option \<times> dict \<times> string \<times> string option" where
  "frozen e = (ex_id e, ex_workspace_id e, ex_workflow_id e, ex_version_kind e, ex_version_id e, ex_graph e,
     ex_graph_hash e, ex_idempotency_key e)"

text \<open>\<open>evolves e e'\<close>: the row \<open>e\<close> may become \<open>e'\<close>. Nothing frozen changes, and a row that is no longer
  active stays as it is.\<close>

definition evolves :: "execution \<Rightarrow> execution \<Rightarrow> bool" where
  "evolves e e' \<longleftrightarrow> frozen e' = frozen e \<and> (is_terminal (ex_status e) \<longrightarrow> e' = e)"

lemma evolves_refl [simp]: "evolves e e"
  by (simp add: evolves_def)

lemma evolves_trans: "evolves a b \<Longrightarrow> evolves b c \<Longrightarrow> evolves a c"
  by (auto simp: evolves_def)

definition table_evolves :: "db \<Rightarrow> db \<Rightarrow> bool" where
  "table_evolves d d' \<longleftrightarrow> list_all2 evolves (db_executions d) (db_executions d')"

lemma table_evolves_same [simp]: "db_executions d' = db_executions d \<Longrightarrow> table_evolves d d'"
  by (simp add: table_evolves_def list_all2_same)

lemma table_evolves_trans: "table_evolves a b \<Longrightarrow> table_evolves b c \<Longrightarrow> table_evolves a c"
  unfolding table_evolves_def by (rule list_all2_trans [of evolves evolves evolves]) (auto intro: evolves_trans)

lemma list_all2_evolves_refl [simp]: "list_all2 evolves rows rows"
  by (simp add: list_all2_same)

lemma list_all2_update:
  "(\<And>r. r \<in> set rows \<Longrightarrow> P r \<Longrightarrow> R r (f r)) \<Longrightarrow> (\<And>r. R r r) \<Longrightarrow> list_all2 R rows (update_where P f rows)"
  by (induction rows) auto

lemma list_all2_mem: "list_all2 R xs ys \<Longrightarrow> x \<in> set xs \<Longrightarrow> \<exists>y \<in> set ys. R x y"
  by (induction rule: list_all2_induct) auto

lemma distinct_same_id: "distinct (map k rows) \<Longrightarrow> r \<in> set rows \<Longrightarrow> s \<in> set rows \<Longrightarrow> k r = k s \<Longrightarrow> r = s"
  by (auto simp: distinct_map inj_on_def)

abbreviation ids_distinct :: "db \<Rightarrow> bool" where
  "ids_distinct d \<equiv> distinct (map ex_id (db_executions d))"

lemma put_evolves:
  assumes "ids_distinct d" "e \<in> set (db_executions d)" "evolves e e'"
  shows "table_evolves d (put_execution e' d)"
proof -
  have id: "ex_id e' = ex_id e" using assms(3) by (simp add: evolves_def frozen_def)
  show ?thesis
    unfolding table_evolves_def put_execution_def
  proof (simp, rule list_all2_update)
    fix r assume "r \<in> set (db_executions d)" "ex_id r = ex_id e'"
    then have "r = e" using distinct_same_id [OF assms(1) _ assms(2)] id by simp
    then show "evolves r e'" using assms(3) by simp
  qed simp
qed

lemma mark_invalid_frame [simp]:
  "db_executions (mark_invalid env cid m d) = db_executions d"
  "db_workspaces (mark_invalid env cid m d) = db_workspaces d"
  "db_node_results (mark_invalid env cid m d) = db_node_results d"
  "db_logs (mark_invalid env cid m d) = db_logs d"
  by (auto simp: mark_invalid_def put_credential_def split: option.splits)

lemma mark_all_frame [simp]:
  "db_executions (mark_all env raws d) = db_executions d"
  "db_workspaces (mark_all env raws d) = db_workspaces d"
  "db_node_results (mark_all env raws d) = db_node_results d"
  "db_logs (mark_all env raws d) = db_logs d"
  unfolding mark_all_def by (induction raws arbitrary: d) (auto split: option.splits)

lemma on_terminal_frame:
  "on_terminal env e d = Inr d' \<Longrightarrow> db_executions d' = db_executions d \<and> db_workspaces d' = db_workspaces d \<and>
     db_node_results d' = db_node_results d \<and> db_logs d' = db_logs d"
  by (auto simp: on_terminal_def split: if_splits sum.splits)

lemma put_execution_frame [simp]:
  "db_workspaces (put_execution e d) = db_workspaces d"
  "db_node_results (put_execution e d) = db_node_results d"
  "db_logs (put_execution e d) = db_logs d"
  "db_credentials (put_execution e d) = db_credentials d"
  "db_workflows (put_execution e d) = db_workflows d"
  by (simp_all add: put_execution_def)

lemma put_results_frame [simp]:
  "db_executions (put_execution e (d\<lparr>db_node_results := x, db_logs := y\<rparr>)) = db_executions (put_execution e d)"
  by (simp add: put_execution_def)

lemma table_evolves_cong: "db_executions b = db_executions c \<Longrightarrow> table_evolves a b = table_evolves a c"
  by (simp add: table_evolves_def)

lemma ingest_evolves:
  assumes "ingest env e r d = Inr d'" "ids_distinct d" "e0 \<in> set (db_executions d)" "frozen e = frozen e0"
    and "is_active (ex_status e0)"
  shows "table_evolves d d' \<and> db_workspaces d' = db_workspaces d"
proof (cases "er_status r = execution_status_value EX_RUNNING")
  case True
  have "evolves e0 (still_running env e)"
    using assms(4,5) by (simp add: evolves_def frozen_def still_running_def Let_def)
  then show ?thesis using assms(1-3) True by (auto simp: ingest_def intro: put_evolves)
next
  case False
  obtain st where d': "db_executions d' = db_executions (put_execution (reported env r st e) d)"
    "db_workspaces d' = db_workspaces d"
    using assms(1) False
    by (auto simp: ingest_def Let_def split: sum.splits option.splits dest!: on_terminal_frame)
  have "evolves e0 (reported env r st e)"
    using assms(4,5) by (simp add: evolves_def frozen_def reported_def)
  then show ?thesis using assms(2,3) d' table_evolves_cong put_evolves by blast
qed

lemma interrupted_evolves:
  assumes "mark_interrupted env e d = Inr d'" "ids_distinct d" "e \<in> set (db_executions d)" "is_active (ex_status e)"
  shows "table_evolves d d' \<and> db_workspaces d' = db_workspaces d"
proof -
  have "db_executions d' = db_executions (put_execution (interrupted env e) d)" "db_workspaces d' = db_workspaces d"
    using on_terminal_frame [OF assms(1) [unfolded mark_interrupted_def]] by simp_all
  moreover have "evolves e (interrupted env e)"
    using assms(4) by (simp add: evolves_def frozen_def interrupted_def)
  ultimately show ?thesis using assms(2,3) table_evolves_cong put_evolves by blast
qed

lemma row_in: "get_execution_row d eid = Some e \<Longrightarrow> e \<in> set (db_executions d) \<and> ex_id e = eid"
  by (auto simp: get_execution_row_def dest: find_SomeD)

lemma poll_evolves:
  assumes "poll env e answer d = Inr d'" "ids_distinct d" "e \<in> set (db_executions d)" "is_active (ex_status e)"
  shows "table_evolves d d' \<and> db_workspaces d' = db_workspaces d"
  using assms ingest_evolves [OF _ assms(2,3) refl assms(4)] interrupted_evolves [OF _ assms(2,3,4)]
  by (auto simp: poll_def split: if_splits engine_answer.splits)

lemma get_put_row:
  assumes "get_execution_row d eid = Some e" "ex_id e' = eid"
  shows "get_execution_row (put_execution e' d) eid = Some e'"
  using find_put_same [of ex_id eid "db_executions d" e e'] assms
  by (simp add: get_execution_row_def put_execution_def)

lemma put_put [simp]:
  "ex_id a = ex_id b \<Longrightarrow> db_executions (put_execution a (put_execution b d)) = db_executions (put_execution a d)"
  by (simp add: put_execution_def update_where_def comp_def)

lemma begin_evolves:
  assumes "dispatch_begin env e d = Inr (request, d')" "ids_distinct d" "e \<in> set (db_executions d)" "is_active (ex_status e)"
  shows "table_evolves d d' \<and> db_workspaces d' = db_workspaces d"
proof -
  have "d' = put_execution (e\<lparr>ex_status := EX_DISPATCHING, ex_last_seen_at := Some (env_now env)\<rparr>) d"
    using assms(1) by (auto simp: dispatch_begin_def Let_def split: sum.splits)
  then show ?thesis using put_evolves [OF assms(2,3)] assms(4) by (simp add: evolves_def frozen_def)
qed

lemma finish_evolves:
  assumes "dispatch_finish env eid started d = Inr d'" "ids_distinct d" "get_execution_row d eid = Some e"
    and "is_active (ex_status e)"
  shows "table_evolves d d' \<and> db_workspaces d' = db_workspaces d"
proof -
  obtain e2 where e2: "db_executions d' = db_executions (put_execution e2 d)" "frozen e2 = frozen e"
    "db_workspaces d' = db_workspaces d"
    using assms(1,3)
    by (auto simp: dispatch_finish_def frozen_def Let_def split: engine_answer.splits dest!: on_terminal_frame)
  then have "evolves e e2" using assms(4) by (simp add: evolves_def)
  then show ?thesis using put_evolves [OF assms(2)] row_in [OF assms(3)] e2 table_evolves_cong by blast
qed

lemma stale_evolves:
  assumes "interrupt_if_stale env e d = Inr d'" "ids_distinct d" "e \<in> set (db_executions d)"
  shows "table_evolves d d' \<and> db_workspaces d' = db_workspaces d"
proof (cases "is_terminal (ex_status e)")
  case False
  then have "evolves e (failed_to_start env e)" "is_active (ex_status e)"
    by (simp_all add: evolves_def frozen_def failed_to_start_def)
  moreover have "table_evolves d (evaluate_execution env (failed_to_start env e) (put_execution (failed_to_start env e) d))
      = table_evolves d (put_execution (failed_to_start env e) d)"
    by (rule table_evolves_cong) simp
  ultimately show ?thesis
    using assms put_evolves interrupted_evolves False
    by (auto simp: interrupt_if_stale_def Let_def split: if_splits option.splits)
qed (use assms in \<open>simp add: interrupt_if_stale_def\<close>)

lemma claim_evolves:
  assumes "ids_distinct d"
  shows "table_evolves d (claim_batch lim d) \<and> db_workspaces (claim_batch lim d) = db_workspaces d"
proof -
  have "evolves e (e\<lparr>ex_status := EX_DISPATCHING\<rparr>)"
    if row: "e \<in> set (db_executions d)" and claimed: "ex_id e \<in> ex_id ` set (claim_queued lim d)" for e
  proof -
    obtain q where "q \<in> set (claim_queued lim d)" "ex_id q = ex_id e" using claimed by auto
    then have "q \<in> set (db_executions d)" "ex_status q = EX_QUEUED"
      by (auto simp: claim_queued_def dest: in_set_takeD)
    then have "ex_status e = EX_QUEUED"
      using distinct_same_id [OF assms row] \<open>ex_id q = ex_id e\<close> by metis
    then show ?thesis by (simp add: evolves_def frozen_def)
  qed
  then show ?thesis by (auto simp: claim_batch_def table_evolves_def intro!: list_all2_update)
qed

lemma cancel_evolves:
  assumes "ids_distinct d"
  shows "table_evolves d (snd (cancel env ctx ask eid d)) \<and> db_workspaces (snd (cancel env ctx ask eid d)) = db_workspaces d"
proof (cases "ctx_require ctx M_EXECUTIONS A_EXECUTE")
  case (Inr u)
  show ?thesis
  proof (cases "execution_get ctx eid d")
    case got: (Inr e)
    then have e: "e \<in> set (db_executions d)" by (auto simp: execution_get_def split: option.splits dest: find_SomeD)
    show ?thesis
    proof (cases "is_terminal (ex_status e)")
      case False
      define e1 where "e1 = e\<lparr>ex_status := EX_CANCEL_REQUESTED\<rparr>"
      define e2 where "e2 = e1\<lparr>ex_status := EX_CANCELLED, ex_ended_at := Some (env_now env)\<rparr>"
      have ev: "evolves e e1" "evolves e e2" "ex_id e1 = ex_id e" "ex_id e2 = ex_id e1"
        using False by (simp_all add: evolves_def frozen_def e1_def e2_def)
      have put1: "table_evolves d (put_execution e1 d)" using put_evolves assms e ev(1) by blast
      have put2: "table_evolves d (put_execution e2 (put_execution e1 d))"
        using put_evolves [OF assms e ev(2)] table_evolves_cong put_put [OF ev(4)] by blast
      have ids1: "ids_distinct (put_execution e1 d)"
        using assms ev(3) by (simp add: put_execution_def update_where_def comp_def if_distrib [of ex_id] cong: if_cong)
      have in1: "e1 \<in> set (db_executions (put_execution e1 d))"
        using e ev(3) by (auto simp: put_execution_def table_simps)
      have ing: "table_evolves d d2 \<and> db_workspaces d2 = db_workspaces d"
        if "ingest env e1 r (put_execution e1 d) = Inr d2" for r d2
        using ingest_evolves [OF that ids1 in1 refl] put1 table_evolves_trans by (auto simp: e1_def)
      show ?thesis
        using Inr got False put1 put2 ing
        by (auto simp: cancel_def e1_def [symmetric] e2_def [symmetric] Let_def table_evolves_def
            split: sum.splits engine_answer.splits if_splits)
    qed (use Inr got in \<open>simp add: cancel_def\<close>)
  qed (use Inr in \<open>simp add: cancel_def\<close>)
qed (simp add: cancel_def)


text \<open>Creation either leaves the table alone or appends one queued row, after the ceilings allowed
  it and with a key that no row of the workflow has.\<close>

definition admitted :: "settings \<Rightarrow> db \<Rightarrow> execution \<Rightarrow> bool" where
  "admitted cfg d e \<longleftrightarrow>
     check_concurrency cfg (ex_workspace_id e) (ex_workflow_id e) d = Inr () \<and> ex_status e = EX_QUEUED \<and>
     (\<forall>k. ex_idempotency_key e = Some k \<longrightarrow> by_idempotency_key d (ex_workspace_id e) (ex_workflow_id e) k = None)"

lemma create_locked_effect:
  "(db_executions (snd (create_locked env ctx w a d)) = db_executions d \<or>
    (\<exists>e. fst (create_locked env ctx w a d) = Inr e \<and> db_executions (snd (create_locked env ctx w a d)) = db_executions d @ [e] \<and>
      ex_id e = fresh_id env d \<and> admitted (env_settings env) d e \<and>
      ex_workspace_id e = ctx_workspace_id ctx \<and> ex_workflow_id e = wf_id w)) \<and>
   db_workspaces (snd (create_locked env ctx w a d)) = db_workspaces d"
proof -
  have new: "ex_id (new_execution env ctx w a art h d) = fresh_id env d"
    "ex_status (new_execution env ctx w a art h d) = EX_QUEUED"
    "ex_workspace_id (new_execution env ctx w a art h d) = ctx_workspace_id ctx"
    "ex_workflow_id (new_execution env ctx w a art h d) = wf_id w"
    "ex_idempotency_key (new_execution env ctx w a art h d) = ca_key a" for art h
    by (simp_all add: new_execution_def split: prod.splits)
  show ?thesis
    by (cases "ca_key a")
      (auto simp: create_locked_def Let_def admitted_def new usable_key_def text_or_empty_def
        split: sum.splits option.splits if_splits)
qed

lemma create_effect:
  "(db_executions (snd (execution_create env ctx wfid a d)) = db_executions d \<or>
    (\<exists>e. fst (execution_create env ctx wfid a d) = Inr e \<and>
      db_executions (snd (execution_create env ctx wfid a d)) = db_executions d @ [e] \<and>
      ex_id e = fresh_id env d \<and> admitted (env_settings env) d e \<and> ex_workspace_id e = ctx_workspace_id ctx)) \<and>
   db_workspaces (snd (execution_create env ctx wfid a d)) = db_workspaces d"
proof (cases "ctx_require ctx M_WORKFLOWS A_EXECUTE")
  case (Inr u)
  show ?thesis
  proof (cases "get_workflow ctx wfid d")
    case got: (Inr w)
    then show ?thesis
      using create_locked_effect [of env ctx w a d] Inr
      by (auto simp: execution_create_def split: option.splits)
  qed (use Inr in \<open>simp add: execution_create_def\<close>)
qed (simp add: execution_create_def)

lemma retry_effect:
  "(db_executions (snd (retry env ctx eid d)) = db_executions d \<or>
    (\<exists>e. fst (retry env ctx eid d) = Inr e \<and> db_executions (snd (retry env ctx eid d)) = db_executions d @ [e] \<and>
      ex_id e = fresh_id env d \<and> admitted (env_settings env) d e \<and> ex_workspace_id e = ctx_workspace_id ctx)) \<and>
   db_workspaces (snd (retry env ctx eid d)) = db_workspaces d"
proof (cases "ctx_require ctx M_EXECUTIONS A_EXECUTE")
  case (Inr u)
  then show ?thesis
    using create_effect by (cases "execution_get ctx eid d") (auto simp: retry_def)
qed (simp add: retry_def)

text \<open>One step: the table evolves row by row, and at most one admitted row is appended.\<close>

lemma run_step_effect:
  assumes "run_step cfg d d'" "ids_distinct d"
  shows "db_workspaces d' = db_workspaces d \<and>
    (table_evolves d d' \<or>
     (\<exists>e. db_executions d' = db_executions d @ [e] \<and> admitted cfg d e \<and> ex_id e \<notin> ex_id ` set (db_executions d)))"
  using assms
proof (cases rule: run_step.cases)
  case (create env ctx wfid a)
  then show ?thesis using create_effect [of env ctx wfid a d] by auto
next
  case (retry env ctx eid)
  then show ?thesis using retry_effect [of env ctx eid d] by auto
next
  case (cancel env ctx ask eid)
  then show ?thesis using cancel_evolves assms(2) by blast
next
  case (claim lim)
  then show ?thesis using claim_evolves assms(2) by blast
next
  case (begin_dispatch env eid e request)
  then show ?thesis using begin_evolves [OF begin_dispatch(4) assms(2)] row_in by fastforce
next
  case (finish_dispatch env eid e started)
  then show ?thesis using finish_evolves [OF finish_dispatch(4) assms(2)] by fastforce
next
  case (poll env eid e answer)
  then show ?thesis using poll_evolves assms(2) row_in by blast
next
  case (stale env eid e)
  then show ?thesis using stale_evolves assms(2) row_in by blast
qed

section \<open>Invariants\<close>

definition within_ceilings :: "settings \<Rightarrow> db \<Rightarrow> bool" where
  "within_ceilings cfg d \<longleftrightarrow>
     (\<forall>wid wfid. int (count_where (active_in_workflow wid wfid) (db_executions d)) \<le> max 0 (cfg_max_per_workflow cfg)) \<and>
     (\<forall>wid. int (count_where (active_in_workspace wid) (db_executions d)) \<le> max 0 (workspace_ceiling cfg d wid))"

definition keys_unique :: "db \<Rightarrow> bool" where
  "keys_unique d \<longleftrightarrow> distinct (map (\<lambda>e. (ex_workspace_id e, ex_workflow_id e, ex_idempotency_key e))
     (filter (\<lambda>e. ex_idempotency_key e \<noteq> None) (db_executions d)))"

definition run_inv :: "settings \<Rightarrow> db \<Rightarrow> bool" where
  "run_inv cfg d \<longleftrightarrow> ids_distinct d \<and> within_ceilings cfg d \<and> keys_unique d"

lemma count_where_all2:
  "list_all2 R xs ys \<Longrightarrow> (\<And>x y. R x y \<Longrightarrow> P y \<Longrightarrow> P x) \<Longrightarrow> count_where P ys \<le> count_where P xs"
  by (induction xs ys rule: list_all2_induct) (auto simp: le_SucI)

lemma evolves_active:
  "evolves e e' \<Longrightarrow> active_in_workspace w e' \<Longrightarrow> active_in_workspace w e"
  "evolves e e' \<Longrightarrow> active_in_workflow w f e' \<Longrightarrow> active_in_workflow w f e"
  by (auto simp: evolves_def frozen_def active_in_workspace_def active_in_workflow_def)

lemma evolves_filter_map:
  assumes "table_evolves d d'" "\<And>e e'. frozen e' = frozen e \<Longrightarrow> f e' = f e" "\<And>e e'. frozen e' = frozen e \<Longrightarrow> P e' = P e"
  shows "map f (filter P (db_executions d')) = map f (filter P (db_executions d))"
  using assms(1) unfolding table_evolves_def
proof (induction rule: list_all2_induct)
  case (Cons x xs y ys)
  then have "frozen y = frozen x" by (simp add: evolves_def)
  then show ?case using Cons.IH assms(2) [of y x] assms(3) [of y x] by simp
qed simp

lemma evolves_map:
  assumes "table_evolves d d'" "\<And>e e'. frozen e' = frozen e \<Longrightarrow> f e' = f e"
  shows "map f (db_executions d') = map f (db_executions d)"
  using evolves_filter_map [OF assms, where P = "\<lambda>_. True"] by simp

lemma workspace_ceiling_same: "db_workspaces d' = db_workspaces d \<Longrightarrow> workspace_ceiling cfg d' = workspace_ceiling cfg d"
  by (simp add: workspace_ceiling_def get_workspace_def fun_eq_iff)

lemma evolves_inv:
  assumes "table_evolves d d'" "db_workspaces d' = db_workspaces d" "run_inv cfg d"
  shows "run_inv cfg d'"
proof -
  have wf: "count_where (active_in_workflow w f) (db_executions d') \<le> count_where (active_in_workflow w f) (db_executions d)"
    and ws: "count_where (active_in_workspace w) (db_executions d') \<le> count_where (active_in_workspace w) (db_executions d)"
    for w f
    using assms(1) unfolding table_evolves_def by (auto intro!: count_where_all2 intro: evolves_active)
  have old: "within_ceilings cfg d" using assms(3) by (simp add: run_inv_def)
  have "within_ceilings cfg d'"
    unfolding within_ceilings_def workspace_ceiling_same [OF assms(2)]
    using order_trans [OF of_nat_mono [OF wf]] order_trans [OF of_nat_mono [OF ws]] old [unfolded within_ceilings_def]
    by blast
  moreover have "map ex_id (db_executions d') = map ex_id (db_executions d)"
    by (rule evolves_map [OF assms(1)]) (simp add: frozen_def)
  moreover have "keys_unique d' = keys_unique d"
    unfolding keys_unique_def
    by (rule arg_cong [OF evolves_filter_map [OF assms(1)]]) (simp_all add: frozen_def)
  ultimately show ?thesis using assms(3) by (simp add: run_inv_def)
qed

lemma append_inv:
  assumes "db_executions d' = db_executions d @ [e]" "db_workspaces d' = db_workspaces d" "run_inv cfg d"
    and adm: "admitted cfg d e" and "ex_id e \<notin> ex_id ` set (db_executions d)"
  shows "run_inv cfg d'"
proof -
  have below: "int (count_where (active_in_workflow (ex_workspace_id e) (ex_workflow_id e)) (db_executions d)) < cfg_max_per_workflow cfg"
    "int (count_where (active_in_workspace (ex_workspace_id e)) (db_executions d)) < workspace_ceiling cfg d (ex_workspace_id e)"
    using adm by (auto simp: admitted_def check_concurrency_def split: if_splits)
  have "within_ceilings cfg d'"
    using assms(3) below workspace_ceiling_same [OF assms(2)]
    by (auto simp: run_inv_def within_ceilings_def assms(1) active_in_workflow_def active_in_workspace_def)
  moreover have "keys_unique d'"
    using adm assms(3)
    by (force simp: run_inv_def keys_unique_def assms(1) admitted_def by_idempotency_key_def find_None_iff_all)
  ultimately show ?thesis using assms by (simp add: run_inv_def)
qed

lemma run_step_inv:
  assumes "run_step cfg d d'" "run_inv cfg d"
  shows "run_inv cfg d'"
proof -
  have "ids_distinct d" using assms(2) by (simp add: run_inv_def)
  from run_step_effect [OF assms(1) this] show ?thesis
    using evolves_inv [OF _ _ assms(2)] append_inv [OF _ _ assms(2)] by blast
qed

lemma reachable_inv:
  assumes "reachable_from cfg d0 d" "run_inv cfg d0"
  shows "run_inv cfg d"
  using assms by (induction rule: reachable_from.induct) (auto intro: run_step_inv)

lemma empty_table_inv: "db_executions d = [] \<Longrightarrow> run_inv cfg d"
  by (simp add: run_inv_def within_ceilings_def keys_unique_def)

end
