(* ===== verification/Authoring.thy ===== *)
theory Authoring
  imports Workflows Runs
begin

text \<open>
  What the workflow service promises: concurrent saves do not overwrite each other, publishing
  freezes the draft under a new number, published versions and the audit trail only grow,
  activation checks what it arms, a changed trigger type pauses the workflow, a copy starts
  clean, and a deleted workflow is gone. The requests form a machine that instantiates the
  prelude's interface.
\<close>

section \<open>Frames\<close>

lemma secret_write_frame [simp]:
  "db_workflows (snd (secret_write env wid p ref d)) = db_workflows d"
  "db_drafts (snd (secret_write env wid p ref d)) = db_drafts d"
  "db_versions (snd (secret_write env wid p ref d)) = db_versions d"
  "db_triggers (snd (secret_write env wid p ref d)) = db_triggers d"
  "db_executions (snd (secret_write env wid p ref d)) = db_executions d"
  "db_credentials (snd (secret_write env wid p ref d)) = db_credentials d"
  "db_audit (snd (secret_write env wid p ref d)) = db_audit d"
  by (auto simp: secret_write_def Let_def bump_def split: option.splits)

lemma secret_write_pair:
  "secret_write env wid p ref d = (r, d') \<Longrightarrow> db_workflows d' = db_workflows d \<and> db_drafts d' = db_drafts d \<and>
    db_versions d' = db_versions d \<and> db_triggers d' = db_triggers d \<and> db_executions d' = db_executions d \<and>
    db_credentials d' = db_credentials d \<and> db_audit d' = db_audit d"
  using secret_write_frame by (metis snd_conv)

definition same_rows :: "db \<Rightarrow> db \<Rightarrow> bool" where
  "same_rows d d' \<longleftrightarrow> db_workflows d' = db_workflows d \<and> db_drafts d' = db_drafts d \<and> db_versions d' = db_versions d \<and>
     db_executions d' = db_executions d \<and> db_credentials d' = db_credentials d \<and> db_audit d' = db_audit d"

lemma shape_binding_frame:
  assumes "shape_binding env ctx w ty config b d = Inr (b', d')"
  shows "same_rows d d' \<and> db_triggers d' = db_triggers d \<and> tb_id b' = tb_id b \<and> tb_enabled b' = tb_enabled b \<and>
    tb_trigger_type b' = tb_trigger_type b \<and> tb_workflow_id b' = tb_workflow_id b \<and> tb_version_id b' = tb_version_id b"
proof -
  have "same_rows d d' \<and> db_triggers d' = db_triggers d \<and> tb_id b' = tb_id b \<and> tb_enabled b' = tb_enabled b \<and>
    tb_trigger_type b' = tb_trigger_type b \<and> tb_workflow_id b' = tb_workflow_id b \<and> tb_version_id b' = tb_version_id b"
    if "webhook_binding env (wf_workspace_id w) cfg b d = Inr (b', d')" for cfg
    using that
    by (auto simp: webhook_binding_def same_rows_def Let_def bump_def split: sum.splits prod.splits if_splits dest!: secret_write_pair)
  then show ?thesis
    using assms
    by (auto simp: shape_binding_def schedule_binding_def same_rows_def Let_def
        split: trigger_type.splits sum.splits option.splits if_splits)
qed

lemma put_frames [simp]:
  "db_drafts (put_workflow w d) = db_drafts d" "db_versions (put_workflow w d) = db_versions d"
  "db_triggers (put_workflow w d) = db_triggers d" "db_executions (put_workflow w d) = db_executions d"
  "db_credentials (put_workflow w d) = db_credentials d" "db_audit (put_workflow w d) = db_audit d"
  "db_workflows (put_draft x d) = db_workflows d" "db_versions (put_draft x d) = db_versions d"
  "db_triggers (put_draft x d) = db_triggers d" "db_executions (put_draft x d) = db_executions d"
  "db_credentials (put_draft x d) = db_credentials d" "db_audit (put_draft x d) = db_audit d"
  "db_workflows (put_trigger b d) = db_workflows d" "db_versions (put_trigger b d) = db_versions d"
  "db_drafts (put_trigger b d) = db_drafts d" "db_executions (put_trigger b d) = db_executions d"
  "db_credentials (put_trigger b d) = db_credentials d" "db_audit (put_trigger b d) = db_audit d"
  by (simp_all add: put_workflow_def put_draft_def put_trigger_def)

lemma audit_grows: "db_audit d1 = db_audit d \<Longrightarrow> \<exists>es. db_audit (audit_record env ctx a d1) = db_audit d @ es"
  by (simp add: audit_record_def Let_def split: prod.splits)

text \<open>The sync touches the workflow's own row, the trigger table, secrets and the audit trail.\<close>

lemma ensure_binding_frame: "ensure_binding env w d = (b, d1) \<Longrightarrow> same_rows d d1 \<and> tb_workflow_id b = wf_id w"
  by (auto simp: ensure_binding_def same_rows_def Let_def bump_def new_binding_def first_trigger_of_def
      split: option.splits dest: find_SomeD)

lemma sync_frame:
  assumes "sync_trigger_from_graph env ctx w graph d = Inr (w', d')"
  shows "db_drafts d' = db_drafts d \<and> db_versions d' = db_versions d \<and> db_executions d' = db_executions d \<and>
    db_credentials d' = db_credentials d \<and> (\<exists>es. db_audit d' = db_audit d @ es) \<and>
    wf_id w' = wf_id w \<and> wf_workspace_id w' = wf_workspace_id w \<and> wf_deleted_at w' = wf_deleted_at w \<and>
    wf_published_version_id w' = wf_published_version_id w \<and> wf_active_version_id w' = wf_active_version_id w \<and>
    (db_workflows d' = db_workflows d \<and> w' = w \<or> db_workflows d' = db_workflows (put_workflow w' d))"
proof -
  obtain b d1 where eb: "ensure_binding env w d = (b, d1)" by fastforce
  obtain node where node: "trigger_of graph (env_registry env) = Inr node"
    using assms by (auto simp: sync_trigger_from_graph_def split: sum.splits)
  note frame1 = ensure_binding_frame [OF eb, unfolded same_rows_def]
  show ?thesis
  proof (cases node)
    case None
    then show ?thesis using assms node eb frame1 by (simp add: sync_trigger_from_graph_def)
  next
    case (Some n)
    let ?declared = "nd_trigger_type (definition_for (env_registry env) (py_str (dget n ''node_key'')))"
    obtain ty where ty: "trigger_type_of (if ?declared = [] then ''MANUAL'' else ?declared) = Some ty"
      using assms node eb Some by (auto simp: sync_trigger_from_graph_def Let_def split: option.splits)
    obtain b' d2 where sb: "shape_binding env ctx w ty (or_else (dget n ''config'') (JObj [])) (b\<lparr>tb_trigger_type := ty\<rparr>) d1 = Inr (b', d2)"
      using assms node eb Some ty by (auto simp: sync_trigger_from_graph_def Let_def split: sum.splits)
    note frame2 = shape_binding_frame [OF sb, unfolded same_rows_def]
    have wfs: "db_workflows (put_workflow x d2) = db_workflows (put_workflow x d)" for x
      using frame1 frame2 by (simp add: put_workflow_def)
    show ?thesis
      using assms node eb Some ty sb frame1 frame2 wfs
      by (auto simp: sync_trigger_from_graph_def Let_def intro!: audit_grows split: if_splits)
  qed
qed

section \<open>What publishing does\<close>

lemma validate_frame:
  assumes "workflow_validate env compile ctx wfid eng d = (r, d')"
  shows "db_versions d' = db_versions d \<and> db_workflows d' = db_workflows d \<and> db_drawn d' = db_drawn d \<and> db_audit d' = db_audit d
    \<and> db_triggers d' = db_triggers d"
proof (cases "ctx_require ctx M_WORKFLOWS A_VIEW")
  case (Inr u)
  then show ?thesis
    using assms
    by (auto simp: workflow_validate_def Let_def put_draft_def split: sum.splits option.splits prod.splits if_splits)
qed (use assms in \<open>simp add: workflow_validate_def\<close>)

lemma publish_refused: "publish env compile ctx wfid expected remark d = (Inl e, d') \<Longrightarrow> d' = d"
  by (cases "ctx_require ctx M_WORKFLOWS A_PUBLISH")
    (auto simp: publish_def Let_def split: sum.splits option.splits if_splits prod.splits)

lemma publish_accepted:
  assumes "publish env compile ctx wfid expected remark d = (Inr v, d')"
  obtains w draft outcome d1 where "get_workflow ctx wfid d = Inr w" "get_draft_row d (wf_id w) = Some draft"
    "expected = None \<or> expected = Some (dr_revision draft)"
    "workflow_validate env compile ctx wfid True d = (Inr outcome, d1)" "vp_ok outcome" "vp_engine outcome \<noteq> ENGINE_UNAVAILABLE"
    "wv_id v = fresh_id env d" "wv_workflow_id v = wf_id w" "wv_number v = next_number d (wf_id w)"
    "wv_graph v = dr_graph draft" "wv_graph_hash v = dr_graph_hash draft" "wv_workspace_id v = ctx_workspace_id ctx"
    "db_versions d' = db_versions d @ [v]" "\<exists>es. db_audit d' = db_audit d @ es" "db_triggers d' = db_triggers d"
    "db_workflows d' = db_workflows (put_workflow (w\<lparr>wf_published_version_id := Some (wv_id v), wf_updated_by := ctx_user_id ctx\<rparr>) d)"
proof -
  have "ctx_require ctx M_WORKFLOWS A_PUBLISH = Inr ()"
    using assms by (cases "ctx_require ctx M_WORKFLOWS A_PUBLISH") (auto simp: publish_def)
  then obtain w draft outcome d1 where *: "get_workflow ctx wfid d = Inr w" "get_draft_row d (wf_id w) = Some draft"
    "expected = None \<or> expected = Some (dr_revision draft)"
    "workflow_validate env compile ctx wfid True d = (Inr outcome, d1)" "vp_ok outcome" "vp_engine outcome \<noteq> ENGINE_UNAVAILABLE"
    using assms by (auto simp: publish_def Let_def split: sum.splits option.splits if_splits prod.splits)
  note frame = validate_frame [OF *(4)]
  have same: "next_number d1 = next_number d" "fresh_id env d1 = fresh_id env d"
    using frame by (simp_all add: next_number_def versions_of_def fresh_id_def fun_eq_iff)
  show thesis
    using assms * \<open>ctx_require ctx M_WORKFLOWS A_PUBLISH = Inr ()\<close> frame
    by (intro that [OF *]) (auto simp: publish_def Let_def same bump_def put_workflow_def intro!: audit_grows)
qed

lemma foldl_max_ge: "(a :: int) \<le> foldl max a xs \<and> (\<forall>x \<in> set xs. x \<le> foldl max a xs)"
proof (induction xs arbitrary: a)
  case (Cons x xs)
  from Cons.IH [of "max a x"] show ?case by auto
qed simp

lemma next_number_fresh: "v \<in> set (db_versions d) \<Longrightarrow> wv_workflow_id v = wfid \<Longrightarrow> wv_number v < next_number d wfid"
  using foldl_max_ge [of 0 "map wv_number (versions_of d wfid)"] by (auto simp: next_number_def versions_of_def)

section \<open>Requests as a machine\<close>

datatype workflow_call =
    CreateWorkflow env request_context string "string option" string
  | RenameWorkflow env request_context uuid "string option" "string option"
  | SaveDraft env request_context uuid dict int
  | ValidateDraft env compiler request_context uuid bool
  | Publish env compiler request_context uuid "int option" "string option"
  | Activate env request_context uuid "int option"
  | Deactivate env request_context uuid
  | Duplicate env request_context uuid
  | DeleteWorkflow env request_context uuid

text \<open>An identifier that repeats violates the primary key of the version table.\<close>

fun wf_step :: "db \<Rightarrow> workflow_call \<Rightarrow> db" where
  "wf_step d (CreateWorkflow env ctx name desc key) = snd (workflow_create env ctx name desc key d)"
| "wf_step d (RenameWorkflow env ctx wfid name desc) = snd (rename env ctx wfid name desc d)"
| "wf_step d (SaveDraft env ctx wfid graph expected) = snd (save_draft env ctx wfid graph expected d)"
| "wf_step d (ValidateDraft env compile ctx wfid eng) = snd (workflow_validate env compile ctx wfid eng d)"
| "wf_step d (Publish env compile ctx wfid expected remark) =
     (if fresh_id env d \<in> wv_id ` set (db_versions d) then d else snd (publish env compile ctx wfid expected remark d))"
| "wf_step d (Activate env ctx wfid n) = snd (activate env ctx wfid n d)"
| "wf_step d (Deactivate env ctx wfid) = snd (deactivate env ctx wfid d)"
| "wf_step d (Duplicate env ctx wfid) = snd (duplicate env ctx wfid d)"
| "wf_step d (DeleteWorkflow env ctx wfid) = snd (workflow_delete env ctx wfid d)"

definition version_inv :: "db \<Rightarrow> bool" where
  "version_inv d \<longleftrightarrow> distinct (map wv_id (db_versions d)) \<and> distinct (map (\<lambda>v. (wv_workflow_id v, wv_number v)) (db_versions d))"

definition grows :: "db \<Rightarrow> db \<Rightarrow> bool" where
  "grows d d' \<longleftrightarrow> (\<exists>vs. db_versions d' = db_versions d @ vs) \<and> (\<exists>es. db_audit d' = db_audit d @ es)"

definition versions_kept :: "db \<Rightarrow> db \<Rightarrow> bool" where
  "versions_kept d d' \<longleftrightarrow> db_versions d' = db_versions d \<and> (\<exists>es. db_audit d' = db_audit d @ es)"

lemma kept_refl [simp]: "versions_kept d d"
  by (simp add: versions_kept_def)

lemma kept_audited:
  "versions_kept d d1 \<Longrightarrow> versions_kept d (audit_record env ctx a d1)"
  using audit_grows [of d1 d1 env ctx a] by (auto simp: versions_kept_def)

lemma kept_frame: "db_versions d1 = db_versions d \<Longrightarrow> db_audit d1 = db_audit d \<Longrightarrow> versions_kept d d1"
  by (simp add: versions_kept_def)

lemma kept_sync:
  "sync_trigger_from_graph env ctx w graph d1 = Inr (w', d') \<Longrightarrow> db_versions d1 = db_versions d \<Longrightarrow> db_audit d1 = db_audit d
    \<Longrightarrow> versions_kept d d'"
  using sync_frame by (fastforce simp: versions_kept_def)

lemma kept_workflow: "versions_kept d (put_workflow w d1) = versions_kept d d1"
  by (simp add: versions_kept_def)

lemma create_kept: "versions_kept d (snd (workflow_create env ctx name desc key d))"
  by (cases "ctx_require ctx M_WORKFLOWS A_CREATE")
    (auto simp: workflow_create_def Let_def bump_def intro!: kept_audited split: option.splits sum.splits elim!: kept_sync)

lemma rename_kept: "versions_kept d (snd (rename env ctx wfid name desc d))"
  by (cases "ctx_require ctx M_WORKFLOWS A_EDIT")
    (auto simp: rename_def Let_def kept_workflow intro!: kept_audited split: sum.splits)

lemma save_kept: "versions_kept d (snd (save_draft env ctx wfid graph expected d))"
  by (cases "ctx_require ctx M_WORKFLOWS A_EDIT")
    (auto simp: save_draft_def Let_def kept_workflow split: option.splits sum.splits elim!: kept_sync)

lemma validate_kept: "versions_kept d (snd (workflow_validate env compile ctx wfid eng d))"
  using validate_frame [of env compile ctx wfid eng d] by (metis kept_frame prod.collapse)

lemma activate_kept: "versions_kept d (snd (activate env ctx wfid n d))"
  by (cases "ctx_require ctx M_WORKFLOWS A_PUBLISH")
    (auto simp: activate_def Let_def intro!: kept_audited kept_frame split: option.splits sum.splits)

lemma deactivate_kept: "versions_kept d (snd (deactivate env ctx wfid d))"
  by (cases "ctx_require ctx M_WORKFLOWS A_PUBLISH")
    (auto simp: deactivate_def Let_def intro!: kept_audited kept_frame split: option.splits sum.splits)

lemma duplicate_kept: "versions_kept d (snd (duplicate env ctx wfid d))"
  by (cases "ctx_require ctx M_WORKFLOWS A_CREATE")
    (auto simp: duplicate_def Let_def bump_def intro!: kept_audited split: option.splits sum.splits elim!: kept_sync)

lemma delete_kept: "versions_kept d (snd (workflow_delete env ctx wfid d))"
  by (cases "ctx_require ctx M_WORKFLOWS A_DELETE")
    (auto simp: workflow_delete_def Let_def intro!: kept_audited kept_frame split: sum.splits)

lemma wf_step_effect:
  "versions_kept d (wf_step d c) \<or>
   (\<exists>v. db_versions (wf_step d c) = db_versions d @ [v] \<and> wv_id v \<notin> wv_id ` set (db_versions d) \<and>
      wv_number v = next_number d (wv_workflow_id v) \<and> (\<exists>es. db_audit (wf_step d c) = db_audit d @ es))"
proof (cases c)
  case (Publish env compile ctx wfid expected remark)
  show ?thesis
  proof (cases "publish env compile ctx wfid expected remark d")
    case (Pair r d')
    show ?thesis
    proof (cases r)
      case (Inl e)
      have "d' = d" by (rule publish_refused [OF Pair [unfolded Inl]])
      then show ?thesis using Pair Publish by simp
    next
      case (Inr v)
      have "wv_id v = fresh_id env d \<and> wv_number v = next_number d (wv_workflow_id v) \<and>
        db_versions d' = db_versions d @ [v] \<and> (\<exists>es. db_audit d' = db_audit d @ es)"
        by (rule publish_accepted [OF Pair [unfolded Inr]]) simp
      then show ?thesis using Pair Publish by auto
    qed
  qed
qed (simp_all add: create_kept rename_kept save_kept validate_kept activate_kept deactivate_kept duplicate_kept delete_kept)

lemma wf_step_inv: "version_inv d \<Longrightarrow> version_inv (wf_step d c)"
  using wf_step_effect [of d c] next_number_fresh [of _ d]
  by (fastforce simp: version_inv_def versions_kept_def)

lemma wf_step_grows: "grows d (wf_step d c)"
  using wf_step_effect [of d c] by (auto simp: grows_def versions_kept_def)

interpretation authoring: growing_machine wf_step version_inv grows
proof
  show "grows s t \<Longrightarrow> grows t u \<Longrightarrow> grows s u" for s t u
    unfolding grows_def by (metis append.assoc)
qed (simp_all add: wf_step_inv wf_step_grows, simp add: grows_def)

text \<open>
  C15: published versions are immutable. Whatever workflow requests follow, every version that was
  published stays as it was, new versions come after it, no workflow has two versions with the same
  number, and the audit trail only grows.
\<close>

theorem published_versions_are_immutable:
  assumes "version_inv d"
  shows "(\<exists>vs. db_versions (run wf_step d calls) = db_versions d @ vs) \<and>
    distinct (map (\<lambda>v. (wv_workflow_id v, wv_number v)) (db_versions (run wf_step d calls))) \<and>
    (\<exists>es. db_audit (run wf_step d calls) = db_audit d @ es)"
  using authoring.run_below [OF assms, of calls] authoring.run_inv [OF assms, of calls]
  by (simp add: grows_def version_inv_def)

theorem published_versions_are_immutable_witness:
  "\<exists>vs. db_versions (run wf_step run_db [Deactivate run_env admin_ctx ''f'', Publish run_env (\<lambda>_ _. Answer (True, [])) admin_ctx ''f'' None None])
     = db_versions run_db @ vs"
proof -
  have "version_inv run_db" by (simp add: version_inv_def run_db_def)
  from published_versions_are_immutable [OF this] show ?thesis by blast
qed


definition usable_graph :: dict where
  "usable_graph =
     [(''nodes'', JArr [demo_node ''a'' ''manual_trigger'' (JObj []),
                       demo_node ''b'' ''http_request'' (JObj [(''auth'', JStr (replicate 32 (CHR ''A'')))])]),
      (''connections'', JArr [demo_edge ''a'' ''b''])]"

definition demo_draft :: workflow_draft where
  "demo_draft = \<lparr>dr_workflow_id = ''f'', dr_workspace_id = ''w'', dr_graph = usable_graph, dr_graph_hash = ''h'',
     dr_schema_version = 1, dr_revision = 3, dr_validation_state = None, dr_saved_by = None, dr_updated_at = 0\<rparr>"

definition authoring_db :: db where
  "authoring_db = run_db\<lparr>db_workflows := [demo_workflow\<lparr>wf_status := WF_INACTIVE\<rparr>], db_drafts := [demo_draft],
     db_credentials := [demo_credential],
     db_versions := [(demo_version [])\<lparr>wv_graph := usable_graph\<rparr>], db_triggers := [new_binding ''b'' ''f'' ''w'' TT_MANUAL []]\<rparr>"

lemma usable_graph_validates:
  "validate_graph usable_graph demo_registry True =
     Inr \<lparr>vr_issues = [], vr_credential_ids = {replicate 32 (CHR ''A'')}, vr_trigger_node_id = Some ''a'',
          vr_trigger_node_key = Some ''manual_trigger''\<rparr>"
  by code_simp

lemma spelled_cid: "parse_uuid (replicate 32 (CHR ''A'')) = Some demo_cid"
  by code_simp

lemma authoring_db_facts:
  "get_workflow admin_ctx ''f'' authoring_db = Inr (demo_workflow\<lparr>wf_status := WF_INACTIVE\<rparr>)"
  "get_draft_row authoring_db ''f'' = Some demo_draft" "env_registry run_env = demo_registry"
  "credential_issues admin_ctx \<lparr>vr_issues = [], vr_credential_ids = {replicate 32 (CHR ''A'')}, vr_trigger_node_id = Some ''a'',
          vr_trigger_node_key = Some ''manual_trigger''\<rparr> authoring_db = ([], [demo_credential])"
  by (simp_all add: authoring_db_def demo_workflow_def get_workflow_def get_draft_row_def demo_draft_def run_env_def
      credential_issues_def parsed_ids_def map_filter_simps spelled_cid demo_credential_def broken_status_def)


section \<open>Concurrent saves\<close>

lemma find_put_pred:
  assumes "find (\<lambda>r. k r = i \<and> Q r) rows \<noteq> None" "k x = i" "Q x"
  shows "find (\<lambda>r. k r = i \<and> Q r) (update_where (\<lambda>r. k r = i) (\<lambda>_. x) rows) = Some x"
  using assms by (induction rows) (auto split: if_splits)

lemma get_workflow_row:
  "get_workflow ctx wfid d = Inr w \<Longrightarrow> wf_id w = wfid \<and> wf_workspace_id w = ctx_workspace_id ctx \<and> wf_deleted_at w = None"
  by (auto simp: get_workflow_def split: option.splits dest: find_SomeD)

lemma get_workflow_put:
  assumes "get_workflow ctx wfid d = Inr w" "wf_id x = wfid" "wf_workspace_id x = wf_workspace_id w" "wf_deleted_at x = None"
    and "db_workflows d' = db_workflows (put_workflow x d)"
  shows "get_workflow ctx wfid d' = Inr x"
proof -
  have "find (\<lambda>w. wf_id w = wfid \<and> (wf_workspace_id w = ctx_workspace_id ctx \<and> wf_deleted_at w = None))
     (update_where (\<lambda>r. wf_id r = wfid) (\<lambda>_. x) (db_workflows d)) = Some x"
    using assms(1-4) get_workflow_row [OF assms(1)]
    by (intro find_put_pred) (auto simp: get_workflow_def split: option.splits)
  then show ?thesis using assms(2,5) by (simp add: get_workflow_def put_workflow_def)
qed

lemma get_draft_put:
  "get_draft_row d i = Some x \<Longrightarrow> dr_workflow_id y = i \<Longrightarrow> get_draft_row (put_draft y d) i = Some y"
  using find_put_same [of dr_workflow_id i "db_drafts d" x y] by (simp add: get_draft_row_def put_draft_def)

lemma put_workflow_twice [simp]:
  "wf_id a = wf_id b \<Longrightarrow> db_workflows d' = db_workflows (put_workflow b d) \<Longrightarrow>
    db_workflows (put_workflow a d') = db_workflows (put_workflow a d)"
  by (simp add: put_workflow_def update_where_def comp_def)

lemma save_draft_accepted:
  assumes "save_draft env ctx wfid graph r d = (Inr v, d')"
  obtains w w' draft where "get_workflow ctx wfid d = Inr w" "get_draft_row d wfid = Some draft" "r = dr_revision draft"
    "dr_revision v = r + 1" "dr_graph v = graph" "dr_workflow_id v = wfid" "get_draft_row d' wfid = Some v"
    "get_workflow ctx wfid d' = Inr w'" "wf_active_version_id w' = wf_active_version_id w"
    "db_versions d' = db_versions d"
proof -
  have "ctx_require ctx M_WORKFLOWS A_EDIT = Inr ()"
    using assms by (cases "ctx_require ctx M_WORKFLOWS A_EDIT") (auto simp: save_draft_def)
  then obtain w draft hash result w1 d1 where *: "get_workflow ctx wfid d = Inr w" "get_draft_row d (wf_id w) = Some draft"
    "r = dr_revision draft" and v: "v = draft\<lparr>dr_graph := graph, dr_graph_hash := hash, dr_revision := dr_revision draft + 1,
       dr_validation_state := Some (result_json result), dr_saved_by := ctx_user_id ctx, dr_updated_at := env_now env\<rparr>"
    and sync: "sync_trigger_from_graph env ctx w graph (put_draft v d) = Inr (w1, d1)"
    and d': "d' = put_workflow (w1\<lparr>wf_updated_by := ctx_user_id ctx\<rparr>) d1"
    using assms by (auto simp: save_draft_def Let_def split: sum.splits option.splits if_splits)
  note w = get_workflow_row [OF *(1)] and frame = sync_frame [OF sync]
  have dr: "dr_workflow_id draft = wfid" using *(2) w by (auto simp: get_draft_row_def dest: find_SomeD)
  have "db_workflows d' = db_workflows (put_workflow (w1\<lparr>wf_updated_by := ctx_user_id ctx\<rparr>) d)"
    using frame by (auto simp: d' put_workflow_def update_where_def comp_def)
  then have got: "get_workflow ctx wfid d' = Inr (w1\<lparr>wf_updated_by := ctx_user_id ctx\<rparr>)"
    by (rule get_workflow_put [OF *(1), rotated 3]) (use w frame in simp_all)
  have draft: "get_draft_row d' wfid = Some v"
  proof -
    have "get_draft_row (put_draft v d) wfid = Some v" using *(2) w dr by (intro get_draft_put) (auto simp: v)
    then show ?thesis using frame by (simp add: d' get_draft_row_def)
  qed
  have "get_draft_row d wfid = Some draft" "wf_active_version_id (w1\<lparr>wf_updated_by := ctx_user_id ctx\<rparr>) = wf_active_version_id w"
    "db_versions d' = db_versions d"
    using *(2) w frame by (simp_all add: d')
  from that [OF *(1) this(1) *(3) _ _ _ draft got this(2,3)] show thesis using *(3) dr by (simp add: v)
qed


definition usable_trigger :: dict where
  "usable_trigger = [(''id'', JStr ''a''), (''node_key'', JStr ''manual_trigger''), (''name'', JStr ''a''), (''config'', JObj [])]"

lemma usable_trigger_found: "trigger_of usable_graph demo_registry = Inr (Some usable_trigger)"
proof -
  have "\<not> isl (trigger_of usable_graph demo_registry) \<and> projr (trigger_of usable_graph demo_registry) = Some usable_trigger"
    by code_simp
  then show ?thesis by (metis sum.collapse(2))
qed

lemma usable_trigger_type: "nd_trigger_type (definition_for demo_registry (py_str (dget usable_trigger ''node_key''))) = []"
  by (simp add: usable_trigger_def definition_for_def demo_registry_def no_definition_def)

lemma trigger_type_of_manual: "trigger_type_of ''MANUAL'' = Some TT_MANUAL"
  by code_simp

lemma demo_save: "\<exists>v d'. save_draft run_env admin_ctx ''f'' usable_graph 3 authoring_db = (Inr v, d')"
proof -
  have h: "\<exists>h. graph_hash sha usable_graph = Inr h" for sha
    by (simp add: graph_hash_def items_of_def usable_graph_def or_else_def demo_node_def demo_edge_def)
  then obtain h where h: "graph_hash (env_sha256 run_env) usable_graph = Inr h" by blast
  have val: "\<exists>r. validate_graph usable_graph demo_registry False = Inr r"
  proof -
    have "\<not> isl (validate_graph usable_graph demo_registry False)" by code_simp
    then show ?thesis by (cases "validate_graph usable_graph demo_registry False") auto
  qed
  then obtain r where r: "validate_graph usable_graph demo_registry False = Inr r" by blast
  have rev: "dr_revision demo_draft = 3" and id: "wf_id demo_workflow = ''f''"
    by (simp_all add: demo_draft_def demo_workflow_def)
  show ?thesis
    by (simp add: save_draft_def authoring_db_facts id rev r h sync_trigger_from_graph_def usable_trigger_found Let_def
        usable_trigger_type trigger_type_of_manual shape_binding_def split: prod.split)
qed


section \<open>Activation, pausing, copies, deletion\<close>

lemma new_binding_simps:
  "tb_trigger_type (new_binding i f w ty c) = ty" "tb_enabled (new_binding i f w ty c) = False"
  "tb_workflow_id (new_binding i f w ty c) = f" "tb_id (new_binding i f w ty c) = i"
  by (simp_all add: new_binding_def)

lemma find_put_trigger:
  assumes "first_trigger_of d i = Some b" "tb_id b' = tb_id b" "tb_workflow_id b' = tb_workflow_id b"
    and "distinct (map tb_id (db_triggers d))"
  shows "first_trigger_of (put_trigger b' d) i = Some b'"
proof -
  have "find (\<lambda>r. tb_workflow_id r = i) (update_where (\<lambda>r. tb_id r = tb_id b) (\<lambda>_. b') rows) = Some b'"
    if "find (\<lambda>r. tb_workflow_id r = i) rows = Some b" "distinct (map tb_id rows)" for rows
    using that assms(2,3) by (induction rows) (auto split: if_splits dest!: find_SomeD)
  then show ?thesis using assms by (simp add: first_trigger_of_def put_trigger_def)
qed

lemma trigger_row: "first_trigger_of d i = Some b \<Longrightarrow> tb_workflow_id b = i"
  by (auto simp: first_trigger_of_def dest: find_SomeD)

lemma activate_accepted:
  assumes "activate env ctx wfid n d = (Inr s, d')"
  obtains w v result b b' w' where "get_workflow ctx wfid d = Inr w" "version_to_activate w n d = Inr v"
    "validate_graph (wv_graph v) (env_registry env) True = Inr result" "result_ok result"
    "errors_of (fst (credential_issues ctx result d)) = []" "first_trigger_of d (wf_id w) = Some b"
    "armed_binding env ctx v b = Inr b'"
    "w' = w\<lparr>wf_active_version_id := Some (wv_id v), wf_status := WF_ACTIVE, wf_updated_by := ctx_user_id ctx\<rparr>"
    "db_workflows d' = db_workflows (put_workflow w' d)" "db_triggers d' = db_triggers (put_trigger b' d)"
proof -
  have "ctx_require ctx M_WORKFLOWS A_PUBLISH = Inr ()"
    using assms by (cases "ctx_require ctx M_WORKFLOWS A_PUBLISH") (auto simp: activate_def)
  then obtain w v result b b' where *: "get_workflow ctx wfid d = Inr w" "version_to_activate w n d = Inr v"
    "validate_graph (wv_graph v) (env_registry env) True = Inr result" "result_ok result"
    "errors_of (fst (credential_issues ctx result d)) = []" "first_trigger_of d (wf_id w) = Some b"
    "armed_binding env ctx v b = Inr b'"
    using assms by (auto simp: activate_def Let_def split: sum.splits option.splits if_splits)
  define w' where "w' = w\<lparr>wf_active_version_id := Some (wv_id v), wf_status := WF_ACTIVE, wf_updated_by := ctx_user_id ctx\<rparr>"
  have "db_workflows d' = db_workflows (put_workflow w' d)" "db_triggers d' = db_triggers (put_trigger b' d)"
    using assms * \<open>ctx_require ctx M_WORKFLOWS A_PUBLISH = Inr ()\<close>
    by (auto simp: activate_def Let_def w'_def put_workflow_def put_trigger_def split: sum.splits)
  from that [OF * w'_def this] show thesis .
qed

lemma armed_facts:
  "armed_binding env ctx v b = Inr b' \<Longrightarrow> tb_id b' = tb_id b \<and> tb_workflow_id b' = tb_workflow_id b \<and> tb_enabled b' \<and>
    tb_version_id b' = Some (wv_id v) \<and>
    (tb_trigger_type b = TT_SCHEDULE \<longrightarrow> (\<exists>t. next_run_at (env_calendar env) (tb_config b) (env_now env) = Inr t \<and> tb_next_run_at b' = Some t))"
  by (auto simp: armed_binding_def Let_def split: if_splits sum.splits)

text \<open>
  C18: what is active was checked. When activation succeeds, the version it names is valid against the
  catalogue of now and its credentials exist in the workspace and are usable; the binding that
  triggers use is enabled and points to exactly that version, which is also the workflow's active
  one; a schedule has its next fire time.
\<close>

theorem activation_arms_checked_version:
  assumes "activate env ctx wfid n d = (Inr s, d')" "distinct (map tb_id (db_triggers d))"
  shows "\<exists>w v b result. get_workflow ctx wfid d' = Inr w \<and> first_trigger_of d' wfid = Some b \<and>
    wf_status w = WF_ACTIVE \<and> wf_active_version_id w = Some (wv_id v) \<and> v \<in> set (db_versions d) \<and>
    (n \<noteq> None \<longrightarrow> wv_workflow_id v = wfid \<and> n = Some (wv_number v)) \<and>
    tb_enabled b \<and> tb_version_id b = Some (wv_id v) \<and> (tb_trigger_type b = TT_SCHEDULE \<longrightarrow> tb_next_run_at b \<noteq> None) \<and>
    validate_graph (wv_graph v) (env_registry env) True = Inr result \<and> result_ok result \<and>
    errors_of (fst (credential_issues ctx result d)) = []"
proof -
  obtain w v result b b' w' where *: "get_workflow ctx wfid d = Inr w" "version_to_activate w n d = Inr v"
    "validate_graph (wv_graph v) (env_registry env) True = Inr result" "result_ok result"
    "errors_of (fst (credential_issues ctx result d)) = []" "first_trigger_of d (wf_id w) = Some b"
    "armed_binding env ctx v b = Inr b'"
    "w' = w\<lparr>wf_active_version_id := Some (wv_id v), wf_status := WF_ACTIVE, wf_updated_by := ctx_user_id ctx\<rparr>"
    "db_workflows d' = db_workflows (put_workflow w' d)" "db_triggers d' = db_triggers (put_trigger b' d)"
    by (rule activate_accepted [OF assms(1)])
  note w = get_workflow_row [OF *(1)] and armed = armed_facts [OF *(7)]
  have "get_workflow ctx wfid d' = Inr w'" by (rule get_workflow_put [OF *(1) _ _ _ *(9)]) (use w *(8) in simp_all)
  moreover have "first_trigger_of d' wfid = Some b'"
    using find_put_trigger [OF *(6) _ _ assms(2)] armed w *(10) by (simp add: first_trigger_of_def)
  moreover have "v \<in> set (db_versions d) \<and> (n \<noteq> None \<longrightarrow> wv_workflow_id v = wfid \<and> n = Some (wv_number v))"
    using *(2) w
    by (auto simp: version_to_activate_def get_version_row_def numbered_version_def split: option.splits dest!: find_SomeD)
  moreover have "tb_trigger_type b' = tb_trigger_type b"
    using *(7) by (auto simp: armed_binding_def Let_def split: if_splits sum.splits)
  ultimately show ?thesis using * armed by (intro exI [of _ w'] exI [of _ v] exI [of _ b'] exI [of _ result]) auto
qed

theorem activation_arms_checked_version_witness:
  "\<exists>s d' b. activate run_env admin_ctx ''f'' (Some 1) authoring_db = (Inr s, d') \<and>
    first_trigger_of d' ''f'' = Some b \<and> tb_enabled b"
proof -
  have id: "wf_id demo_workflow = ''f''" by (simp add: demo_workflow_def)
  have v: "version_to_activate (demo_workflow\<lparr>wf_status := WF_INACTIVE\<rparr>) (Some 1) authoring_db =
      Inr ((demo_version [])\<lparr>wv_graph := usable_graph\<rparr>)"
    by (simp add: version_to_activate_def numbered_version_def authoring_db_def demo_version_def demo_workflow_def)
  have t: "first_trigger_of authoring_db ''f'' = Some (new_binding ''b'' ''f'' ''w'' TT_MANUAL [])"
    by (simp add: first_trigger_of_def authoring_db_def new_binding_def)
  have a: "armed_binding run_env admin_ctx v (new_binding ''b'' ''f'' ''w'' TT_MANUAL []) \<noteq> Inl e" for v e
    by (simp add: armed_binding_def new_binding_def Let_def)
  obtain b' where b': "armed_binding run_env admin_ctx ((demo_version [])\<lparr>wv_graph := usable_graph\<rparr>) (new_binding ''b'' ''f'' ''w'' TT_MANUAL []) = Inr b'"
    using a by (cases "armed_binding run_env admin_ctx ((demo_version [])\<lparr>wv_graph := usable_graph\<rparr>) (new_binding ''b'' ''f'' ''w'' TT_MANUAL [])") auto
  have c: "collect_credential_ids usable_graph demo_registry = Inr {replicate 32 (CHR ''A'')}" by code_simp
  have risk: "graph_at_risk w (audit_record e c x (put_workflow y (put_trigger z authoring_db))) = usable_graph"
    if "wf_active_version_id w = Some ''v''" for w e c x y z
    using that by (simp add: graph_at_risk_def get_version_row_def) (simp add: authoring_db_def demo_version_def)
  have sum: "summary_view run_env admin_ctx w d \<noteq> Inl e" if "graph_at_risk w d = usable_graph" for w d e
    using that c by (auto simp: summary_view_def derive_health_def credential_problem_of_def authoring_db_facts Let_def split: option.splits)
  have vid: "wv_id (demo_version []) = ''v''" by (simp add: demo_version_def)
  have "fst (activate run_env admin_ctx ''f'' (Some 1) authoring_db) \<noteq> Inl e" for e
    by (auto simp: activate_def authoring_db_facts v usable_graph_validates result_ok_def t id b' vid Let_def sum risk split: sum.splits)
  then obtain s d' where act: "activate run_env admin_ctx ''f'' (Some 1) authoring_db = (Inr s, d')"
    by (metis eq_fst_iff obj_sumE)
  have "distinct (map tb_id (db_triggers authoring_db))" by (simp add: authoring_db_def)
  from activation_arms_checked_version [OF act this] act show ?thesis by blast
qed

text \<open>
  changing the trigger type pauses a live workflow. When a saved graph declares another trigger
  type than the enabled binding has, the binding is disabled and the workflow inactive; it keeps the
  version it ran and its public address.
\<close>

lemma trigger_change_pauses_workflow:
  assumes "sync_trigger_from_graph env ctx w graph d = Inr (w', d')" "first_trigger_of d (wf_id w) = Some b" "tb_enabled b"
    and "trigger_of graph (env_registry env) = Inr (Some n)"
    and "trigger_type_value (tb_trigger_type b) \<noteq>
      (let t = nd_trigger_type (definition_for (env_registry env) (py_str (dget n ''node_key''))) in if t = [] then ''MANUAL'' else t)"
    and "distinct (map tb_id (db_triggers d))"
  shows "\<exists>b'. first_trigger_of d' (wf_id w) = Some b' \<and> \<not> tb_enabled b' \<and> tb_version_id b' = tb_version_id b \<and>
    wf_status w' = WF_INACTIVE \<and> wf_active_version_id w' = wf_active_version_id w"
proof -
  let ?t = "nd_trigger_type (definition_for (env_registry env) (py_str (dget n ''node_key'')))"
  have eb: "ensure_binding env w d = (b, d)" using assms(2) by (simp add: ensure_binding_def)
  obtain ty where ty: "trigger_type_of (if ?t = [] then ''MANUAL'' else ?t) = Some ty"
    using assms(1,4) eb by (auto simp: sync_trigger_from_graph_def Let_def split: option.splits)
  then have "trigger_type_value ty = (if ?t = [] then ''MANUAL'' else ?t)"
    by (simp add: trigger_type_enum.parse_Some trigger_type_of_def)
  then have differs: "tb_trigger_type b \<noteq> ty" using assms(5) by (auto simp: Let_def)
  obtain b' d2 where sb: "shape_binding env ctx w ty (or_else (dget n ''config'') (JObj [])) (b\<lparr>tb_trigger_type := ty\<rparr>) d = Inr (b', d2)"
    using assms(1,4) eb ty by (auto simp: sync_trigger_from_graph_def Let_def split: sum.splits)
  note shape = shape_binding_frame [OF sb]
  have res: "w' = w\<lparr>wf_trigger_type_cache := Some ty, wf_status := WF_INACTIVE\<rparr>"
    "db_triggers d' = db_triggers (put_trigger (b'\<lparr>tb_enabled := False\<rparr>) d)"
    using assms(1,3,4) eb ty sb differs shape
    by (auto simp: sync_trigger_from_graph_def Let_def put_trigger_def)
  have "first_trigger_of (put_trigger (b'\<lparr>tb_enabled := False\<rparr>) d) (wf_id w) = Some (b'\<lparr>tb_enabled := False\<rparr>)"
    by (rule find_put_trigger [OF assms(2) _ _ assms(6)]) (use shape in simp_all)
  then show ?thesis using res shape by (simp add: first_trigger_of_def)
qed

lemma trigger_change_pauses_workflow_example:
  "\<exists>w' d' b'. sync_trigger_from_graph run_env admin_ctx demo_workflow usable_graph
      (authoring_db\<lparr>db_triggers := [(new_binding ''b'' ''f'' ''w'' TT_WEBHOOK [])\<lparr>tb_enabled := True\<rparr>]\<rparr>) = Inr (w', d') \<and>
    first_trigger_of d' ''f'' = Some b' \<and> \<not> tb_enabled b' \<and> wf_status w' = WF_INACTIVE"
proof -
  let ?b = "(new_binding ''b'' ''f'' ''w'' TT_WEBHOOK [])\<lparr>tb_enabled := True\<rparr>"
  let ?d = "authoring_db\<lparr>db_triggers := [?b]\<rparr>"
  have first: "first_trigger_of ?d ''f'' = Some ?b" by (simp add: first_trigger_of_def new_binding_def)
  have id: "wf_id demo_workflow = ''f''" by (simp add: demo_workflow_def)
  have trigger: "trigger_of usable_graph (env_registry run_env) = Inr (Some usable_trigger)"
    by (simp add: authoring_db_facts usable_trigger_found)
  obtain w' d' where s: "sync_trigger_from_graph run_env admin_ctx demo_workflow usable_graph ?d = Inr (w', d')"
    by (simp add: sync_trigger_from_graph_def usable_trigger_found ensure_binding_def first id Let_def new_binding_simps usable_trigger_type authoring_db_facts
        shape_binding_def trigger_type_of_manual split: prod.split)
  have "trigger_type_value (tb_trigger_type ?b) \<noteq>
      (let t = nd_trigger_type (definition_for (env_registry run_env) (py_str (dget usable_trigger ''node_key''))) in if t = [] then ''MANUAL'' else t)"
    by (simp add: new_binding_def usable_trigger_type authoring_db_facts Let_def)
  from trigger_change_pauses_workflow [OF s _ _ trigger this] s id first show ?thesis by auto
qed

lemma released_all:
  "\<forall>b \<in> set (update_where (\<lambda>b. tb_workflow_id b = i) released rows).
    tb_workflow_id b = i \<longrightarrow> \<not> tb_enabled b \<and> tb_public_key b = None \<and> tb_next_run_at b = None"
  by (induction rows) (simp_all add: released_def)

text \<open>
  a deleted workflow is gone. Deletion is refused while the workflow is active or one of its runs is
  not over; afterwards nobody finds it, and none of its bindings is enabled or has a public key or a
  next fire time.
\<close>

lemma deleted_workflow_is_gone:
  assumes "workflow_delete env ctx wfid d = (Inr (), d')"
  shows "(\<exists>w. get_workflow ctx wfid d = Inr w \<and> wf_status w \<noteq> WF_ACTIVE) \<and>
    active_execution_count d (ctx_workspace_id ctx) wfid = 0 \<and>
    get_workflow ctx' wfid d' = Inl (App (raise_class NotFoundError)) \<and>
    (\<forall>b \<in> set (db_triggers d'). tb_workflow_id b = wfid \<longrightarrow> \<not> tb_enabled b \<and> tb_public_key b = None \<and> tb_next_run_at b = None)"
proof -
  have "ctx_require ctx M_WORKFLOWS A_DELETE = Inr ()"
    using assms(1) by (cases "ctx_require ctx M_WORKFLOWS A_DELETE") (auto simp: workflow_delete_def)
  moreover from this obtain w where w: "get_workflow ctx wfid d = Inr w"
    using assms(1) by (auto simp: workflow_delete_def split: sum.splits)
  moreover note row = get_workflow_row [OF w]
  ultimately have *: "active_execution_count d (ctx_workspace_id ctx) wfid = 0"
    "wf_status w \<noteq> WF_ACTIVE"
    "db_workflows d' = db_workflows (put_workflow (w\<lparr>wf_deleted_at := Some (env_now env), wf_status := WF_DELETED\<rparr>) d)"
    "db_triggers d' = update_where (\<lambda>b. tb_workflow_id b = wfid) released (db_triggers d)"
    using assms(1) by (auto simp: workflow_delete_def Let_def put_workflow_def split: if_splits)
  have "\<not> (wf_id r = wfid \<and> wf_workspace_id r = ctx_workspace_id ctx' \<and> wf_deleted_at r = None)" if "r \<in> set (db_workflows d')" for r
    using that *(3) row by (auto simp: put_workflow_def table_simps)
  then have "get_workflow ctx' wfid d' = Inl (App (raise_class NotFoundError))"
    using find_None_iff_all [of "\<lambda>w. wf_id w = wfid \<and> wf_workspace_id w = ctx_workspace_id ctx' \<and> wf_deleted_at w = None" "db_workflows d'"]
    by (simp add: get_workflow_def)
  moreover have "\<forall>b \<in> set (db_triggers d'). tb_workflow_id b = wfid \<longrightarrow> \<not> tb_enabled b \<and> tb_public_key b = None \<and> tb_next_run_at b = None"
    unfolding *(4) by (rule released_all)
  ultimately show ?thesis using *(1,2) w by simp
qed

lemma deleted_workflow_is_gone_example:
  "get_workflow admin_ctx ''f'' (snd (workflow_delete run_env admin_ctx ''f'' authoring_db)) = Inl (App (raise_class NotFoundError))"
proof -
  have "db_executions authoring_db = []" by (simp add: authoring_db_def)
  then have "active_execution_count authoring_db x y = 0" for x y by (simp add: active_execution_count_def)
  then obtain d' where "workflow_delete run_env admin_ctx ''f'' authoring_db = (Inr (), d')"
    by (simp add: workflow_delete_def authoring_db_facts Let_def)
  from deleted_workflow_is_gone [OF this] this show ?thesis by simp
qed

end
