(* ===== verification/Triggers.thy ===== *)
theory Triggers
  imports Authoring
begin

text \<open>
  The webhook gateway and the scheduler, \<open>app/services/triggers.py\<close>, with the schedule loop of
  \<open>app/worker.py\<close>. HMAC-SHA256 in hexadecimal and Base64 decoding are functions of the environment.
  Headers are pairs; a repeated name keeps its last value, as in the \<open>dict\<close> the route builds.
  \<open>hmac.compare_digest\<close> on text raises \<open>TypeError\<close> unless both texts are ASCII.
\<close>

section \<open>The webhook gateway\<close>

definition SIGNATURE_HEADER :: string where "SIGNATURE_HEADER = ''X-AppBI-Signature''"
definition TIMESTAMP_HEADER :: string where "TIMESTAMP_HEADER = ''X-AppBI-Timestamp''"
definition SIGNATURE_TOLERANCE_SECONDS :: int where "SIGNATURE_TOLERANCE_SECONDS = 300"

definition WebhookRejected :: error_class where
  "WebhookRejected = AppError\<lparr>cls_status := 401, cls_code := ''WEBHOOK_AUTH_FAILED''\<rparr>"

definition rejected :: "string option \<Rightarrow> int option \<Rightarrow> service_error" where
  "rejected code status = App (AppError_init WebhookRejected (no_args\<lparr>arg_code := code, arg_status := status\<rparr>))"

definition webhook_not_found :: service_error where
  "webhook_not_found = App (raise_code NotFoundError ''WEBHOOK_NOT_FOUND'')"

definition hook_binding :: "string \<Rightarrow> db \<Rightarrow> trigger_binding option" where
  "hook_binding key d = find (\<lambda>b. tb_public_key b = Some key \<and> tb_trigger_type b = TT_WEBHOOK) (db_triggers d)"

definition resolve_webhook :: "string \<Rightarrow> db \<Rightarrow> service_error + trigger_binding \<times> workflow \<times> workspace" where
  "resolve_webhook key d =
     (case hook_binding key d of
        None \<Rightarrow> Inl webhook_not_found
      | Some b \<Rightarrow>
          if \<not> tb_enabled b then Inl webhook_not_found
          else
            (case get_workflow_row d (tb_workflow_id b) of
               None \<Rightarrow> Inl webhook_not_found
             | Some w \<Rightarrow>
                 if wf_deleted_at w \<noteq> None then Inl webhook_not_found
                 else
                   (case get_workspace d (tb_workspace_id b) of
                      None \<Rightarrow> Inl webhook_not_found
                    | Some ws \<Rightarrow> Inr (b, w, ws))))"

definition is_ascii :: "string \<Rightarrow> bool" where
  "is_ascii s = list_all (\<lambda>c. (of_char c :: nat) < 128) s"

definition compare_digest :: "string \<Rightarrow> string \<Rightarrow> py_exc + bool" where
  "compare_digest a b = (if is_ascii a \<and> is_ascii b then Inr (a = b) else Inl TypeErr)"

definition checked_digest :: "string \<Rightarrow> string \<Rightarrow> service_error + unit" where
  "checked_digest a b =
     (case compare_digest a b of Inl e \<Rightarrow> Inl (Crash e) | Inr ok \<Rightarrow> if ok then Inr () else Inl (rejected None None))"

definition header :: "(string \<times> string) list \<Rightarrow> string \<Rightarrow> string" where
  "header headers name =
     (case map_of (rev (map (\<lambda>(k, v). (str_lower k, v)) headers)) (str_lower name) of None \<Rightarrow> [] | Some v \<Rightarrow> v)"

definition password_part :: "string \<Rightarrow> string" where
  "password_part s = (case split_once (CHR '':'') s of None \<Rightarrow> [] | Some (_, p) \<Rightarrow> p)"

definition check_basic :: "env \<Rightarrow> (string \<times> string) list \<Rightarrow> string \<Rightarrow> service_error + unit" where
  "check_basic env headers secret =
     (let provided = header headers ''authorization'' in
      if \<not> starts_with (str_lower provided) ''basic '' then Inl (rejected None None)
      else
        (case env_b64decode env (drop 6 provided) of
           None \<Rightarrow> Inl (rejected None None)
         | Some decoded \<Rightarrow> checked_digest (password_part decoded) secret))"

definition check_signature :: "env \<Rightarrow> (string \<times> string) list \<Rightarrow> string \<Rightarrow> string \<Rightarrow> service_error + unit" where
  "check_signature env headers body secret =
     (let signature = header headers SIGNATURE_HEADER; timestamp = header headers TIMESTAMP_HEADER in
      if signature = [] \<or> timestamp = [] then Inl (rejected None None)
      else
        (case parse_int timestamp of
           None \<Rightarrow> Inl (rejected None None)
         | Some sent_at \<Rightarrow>
             if \<bar>env_now env div 1000000 - sent_at\<bar> > SIGNATURE_TOLERANCE_SECONDS
             then Inl (rejected (Some ''WEBHOOK_SIGNATURE_EXPIRED'') None)
             else checked_digest (env_hmac env secret (timestamp @ ''.'' @ body))
               (if starts_with signature ''sha256='' then drop 7 signature else signature)))"

definition stored_secret :: "env \<Rightarrow> trigger_binding \<Rightarrow> db \<Rightarrow> service_error + string" where
  "stored_secret env b d =
     (if text_or_empty (tb_secret_ref b) = [] then Inr []
      else
        (case secret_read env (text_or_empty (tb_secret_ref b)) d of
           Inl e \<Rightarrow> Inl (Crash e)
         | Inr stored \<Rightarrow> Inr (str_or_empty (dget stored ''secret''))))"

record hook_request =
  hk_method :: string
  hk_headers :: "(string \<times> string) list"
  hk_body :: string
  hk_content_type :: "string option"

definition authenticate_webhook :: "env \<Rightarrow> trigger_binding \<Rightarrow> hook_request \<Rightarrow> db \<Rightarrow> service_error + unit" where
  "authenticate_webhook env b r d =
     (let config = tb_config b;
          maximum = cfg_webhook_max_body_bytes (env_settings env);
          allowed_type = py_str (or_else (dget config ''allowed_content_type'') (JStr ''application/json'')) in
      if str_upper (hk_method r) \<noteq> str_upper (py_str (or_else (dget config ''method'') (JStr ''POST'')))
      then Inl (rejected (Some ''WEBHOOK_METHOD_NOT_ALLOWED'') (Some 405))
      else if allowed_type \<noteq> ''*'' \<and> text_or_empty (hk_content_type r) \<noteq> [] \<and>
        \<not> starts_with (str_lower (text_or_empty (hk_content_type r))) (str_lower allowed_type)
      then Inl (rejected (Some ''WEBHOOK_CONTENT_TYPE_INVALID'') (Some 415))
      else
        (case py_int (or_else (dget config ''max_body_bytes'') (JInt maximum)) of
           Inl e \<Rightarrow> Inl (Crash e)
         | Inr n \<Rightarrow>
             if int (length (hk_body r)) > min n maximum then Inl (rejected (Some ''WEBHOOK_BODY_TOO_LARGE'') (Some 413))
             else
               (case webhook_auth_mode_of (str_upper (py_str (or_else (dget config ''auth_mode'') (JStr ''NONE'')))) of
                  None \<Rightarrow> Inl (Crash ValueErr)
                | Some WA_NONE \<Rightarrow> Inr ()
                | Some mode \<Rightarrow>
                    (case stored_secret env b d of
                       Inl e \<Rightarrow> Inl e
                     | Inr secret \<Rightarrow>
                         if secret = [] then Inl (rejected (Some ''WEBHOOK_SECRET_MISSING'') None)
                         else if mode = WA_BASIC then check_basic env (hk_headers r) secret
                         else check_signature env (hk_headers r) (hk_body r) secret))))"

definition hook_context :: "workspace \<Rightarrow> string \<Rightarrow> string option \<Rightarrow> request_context" where
  "hook_context ws trace_id client_ip = (system_context (ws_id ws) trace_id (ws_timezone ws))\<lparr>ctx_ip_address := client_ip\<rparr>"

definition hook_entry :: "string \<Rightarrow> string \<Rightarrow> uuid \<Rightarrow> string \<Rightarrow> audit_entry" where
  "hook_entry act ty rid label = (entry act ty rid label)\<lparr>aa_actor := Some AT_WEBHOOK\<rparr>"

definition arrival_metadata :: "hook_request \<Rightarrow> string option \<Rightarrow> dict \<Rightarrow> dict" where
  "arrival_metadata r client_ip before =
     merge (merge before (body_metadata (Some (hk_body r)) (hk_content_type r)))
       [(''headers'', JObj (map (\<lambda>(k, v). (k, JStr v)) (sanitize_headers (map (\<lambda>(k, v). (k, JStr v)) (hk_headers r))))),
        (''source_ip'', json_text client_ip)]"

text \<open>The database that comes with an \<open>App\<close> error is committed by the route; a crash is rolled back.\<close>

definition handle_webhook :: "env \<Rightarrow> string \<Rightarrow> hook_request \<Rightarrow> json \<Rightarrow> string option \<Rightarrow> string \<Rightarrow> string option \<Rightarrow> db
    \<Rightarrow> (service_error + execution) \<times> db" where
  "handle_webhook env key r parsed_body client_ip trace_id idempotency_key d =
     (case resolve_webhook key d of
        Inl e \<Rightarrow> (Inl e, d)
      | Inr (b, w, ws) \<Rightarrow>
          (let ctx = hook_context ws trace_id client_ip in
           case authenticate_webhook env b r d of
             Inl (Crash e) \<Rightarrow> (Inl (Crash e), d)
           | Inl (App e) \<Rightarrow>
               (Inl (App e), audit_record env ctx
                  ((hook_entry ''webhook.rejected'' ''WORKFLOW'' (wf_id w) (wf_name w))\<lparr>aa_result := AR_FAILURE,
                     aa_after := [(''code'', JStr (ae_code e)), (''method'', JStr (hk_method r))]\<rparr>) d)
           | Inr _ \<Rightarrow>
               if tb_version_id b = None then (Inl (App (error_from_matrix ''WORKFLOW_NOT_PUBLISHED'')), d)
               else
                 (case execution_create env ctx (wf_id w)
                    \<lparr>ca_kind = VK_PUBLISHED, ca_trigger = TT_WEBHOOK, ca_payload = parsed_body, ca_key = idempotency_key,
                     ca_retry_of = None, ca_version_id = tb_version_id b\<rparr> d of
                    (Inl e, d1) \<Rightarrow> (Inl e, d1)
                  | (Inr e, d1) \<Rightarrow>
                      (let e' = e\<lparr>ex_input_metadata := arrival_metadata r client_ip (ex_input_metadata e)\<rparr>
                       in (Inr e', audit_record env ctx
                             ((hook_entry ''webhook.received'' ''EXECUTION'' (ex_id e) (wf_name w @ '' #'' @ ex_short_id e))\<lparr>aa_after :=
                                [(''method'', JStr (hk_method r)), (''size_bytes'', JInt (int (length (hk_body r))))]\<rparr>)
                             (put_trigger (b\<lparr>tb_last_fired_at := Some (env_now env)\<rparr>) (put_execution e' d1)))))))"

section \<open>The scheduler\<close>

definition is_due :: "int \<Rightarrow> trigger_binding \<Rightarrow> bool" where
  "is_due now b = (tb_enabled b \<and> tb_trigger_type b = TT_SCHEDULE \<and>
     (case tb_next_run_at b of None \<Rightarrow> False | Some t \<Rightarrow> t \<le> now))"

definition due_schedules :: "int \<Rightarrow> nat \<Rightarrow> db \<Rightarrow> trigger_binding list" where
  "due_schedules now lim d =
     take lim (sort_key (\<lambda>b. case tb_next_run_at b of None \<Rightarrow> 0 | Some t \<Rightarrow> t) (filter (is_due now) (db_triggers d)))"

definition system_entry :: "string \<Rightarrow> string \<Rightarrow> uuid \<Rightarrow> string \<Rightarrow> audit_entry" where
  "system_entry act ty rid label = (entry act ty rid label)\<lparr>aa_actor := Some AT_SYSTEM\<rparr>"

definition disabled :: "trigger_binding \<Rightarrow> trigger_binding" where
  "disabled b = b\<lparr>tb_enabled := False, tb_next_run_at := None\<rparr>"

definition schedule_context :: "env \<Rightarrow> workspace \<Rightarrow> db \<Rightarrow> request_context" where
  "schedule_context env ws d = system_context (ws_id ws) (''sched_'' @ take 16 (fresh_id env d)) (ws_timezone ws)"

definition skips_overlap :: "trigger_binding \<Rightarrow> workflow \<Rightarrow> db \<Rightarrow> bool" where
  "skips_overlap b w d = (tb_overlap_policy b = OP_SKIP_IF_RUNNING \<and>
     count_where (\<lambda>e. ex_workflow_id e = wf_id w \<and> is_active (ex_status e)) (db_executions d) > 0)"

text \<open>The body of the \<open>try\<close>: what fired, the binding as it is then, the database. An \<open>AppError\<close> of
  the creation is swallowed.\<close>

definition fire_attempt :: "env \<Rightarrow> request_context \<Rightarrow> trigger_binding \<Rightarrow> workflow \<Rightarrow> db
    \<Rightarrow> py_exc + execution option \<times> trigger_binding \<times> db" where
  "fire_attempt env ctx b w d =
     (if skips_overlap b w d then
        Inr (None, b, audit_record env ctx (system_entry ''schedule.skipped_overlap'' ''WORKFLOW'' (wf_id w) (wf_name w)) d)
      else if tb_version_id b = None then Inr (None, disabled b, put_trigger (disabled b) d)
      else
        (case execution_create env ctx (wf_id w)
           \<lparr>ca_kind = VK_PUBLISHED, ca_trigger = TT_SCHEDULE, ca_payload = JObj [], ca_key = None, ca_retry_of = None,
            ca_version_id = tb_version_id b\<rparr> d of
           (Inl (Crash x), _) \<Rightarrow> Inl x
         | (Inl (App _), d1) \<Rightarrow> Inr (None, b, d1)
         | (Inr e, d1) \<Rightarrow>
             Inr (Some e, b, audit_record env ctx
                (system_entry ''schedule.triggered'' ''EXECUTION'' (ex_id e) (wf_name w @ '' #'' @ ex_short_id e)) d1)))"

text \<open>The \<open>finally\<close>: the next fire time is computed whatever happened.\<close>

definition advance :: "env \<Rightarrow> request_context \<Rightarrow> trigger_binding \<Rightarrow> workflow \<Rightarrow> db \<Rightarrow> py_exc + db" where
  "advance env ctx b w d =
     (let b = b\<lparr>tb_last_fired_at := Some (env_now env)\<rparr> in
      case next_run_at (env_calendar env) (tb_config b) (env_now env) of
        Inr t \<Rightarrow> Inr (put_trigger (b\<lparr>tb_next_run_at := Some t\<rparr>) d)
      | Inl (Crash x) \<Rightarrow> Inl x
      | Inl (App _) \<Rightarrow>
          Inr (audit_record env ctx
            ((system_entry ''schedule.disabled_invalid'' ''WORKFLOW'' (wf_id w) (wf_name w))\<lparr>aa_result := AR_FAILURE\<rparr>)
            (put_trigger (disabled b) d)))"

definition fire_schedule :: "env \<Rightarrow> trigger_binding \<Rightarrow> db \<Rightarrow> py_exc + execution option \<times> db" where
  "fire_schedule env b d =
     (case (get_workflow_row d (tb_workflow_id b), get_workspace d (tb_workspace_id b)) of
        (Some w, Some ws) \<Rightarrow>
          if wf_deleted_at w \<noteq> None then Inr (None, put_trigger (disabled b) d)
          else
            (let ctx = schedule_context env ws d; d0 = bump d in
             case fire_attempt env ctx b w d0 of
               Inl x \<Rightarrow> Inl x
             | Inr (fired, b', d1) \<Rightarrow> (case advance env ctx b' w d1 of Inl x \<Rightarrow> Inl x | Inr d2 \<Rightarrow> Inr (fired, d2)))
      | _ \<Rightarrow> Inr (None, put_trigger (disabled b) d))"

text \<open>One tick of the schedule loop is one transaction over all due bindings.\<close>

fun fire_all :: "env \<Rightarrow> trigger_binding list \<Rightarrow> db \<Rightarrow> py_exc + db" where
  "fire_all env [] d = Inr d"
| "fire_all env (b # bs) d = (case fire_schedule env b d of Inl x \<Rightarrow> Inl x | Inr (_, d') \<Rightarrow> fire_all env bs d')"

definition schedule_tick :: "env \<Rightarrow> db \<Rightarrow> db" where
  "schedule_tick env d = (case fire_all env (due_schedules (env_now env) 50 d) d of Inl _ \<Rightarrow> d | Inr d' \<Rightarrow> d')"

definition detect_missed :: "int \<Rightarrow> db \<Rightarrow> trigger_binding list" where
  "detect_missed now d =
     filter (\<lambda>b. tb_enabled b \<and> tb_trigger_type b = TT_SCHEDULE \<and>
       (case tb_next_run_at b of None \<Rightarrow> False | Some t \<Rightarrow> t < now - seconds 300)) (db_triggers d)"

section \<open>Views and rotation\<close>

record trigger_summary =
  ts_binding :: trigger_binding
  ts_webhook :: "(string \<times> json \<times> json \<times> bool) option"
  ts_next_runs :: "int list"

definition trigger_view :: "env \<Rightarrow> trigger_binding \<Rightarrow> service_error + trigger_summary" where
  "trigger_view env b =
     (let hook = (if tb_trigger_type b = TT_WEBHOOK \<and> text_or_empty (tb_public_key b) \<noteq> []
            then Some (text_or_empty (tb_public_key b),
              case map_of (tb_config b) ''method'' of None \<Rightarrow> JStr ''POST'' | Some m \<Rightarrow> m,
              case map_of (tb_config b) ''auth_mode'' of None \<Rightarrow> JStr ''NONE'' | Some m \<Rightarrow> m,
              text_or_empty (tb_secret_ref b) \<noteq> []) else None)
      in if tb_trigger_type b = TT_SCHEDULE \<and> tb_config b \<noteq> [] then
           (case schedules_preview (env_calendar env) (tb_config b) 3 (env_now env) of
              Inl e \<Rightarrow> Inl e
            | Inr ts \<Rightarrow> Inr \<lparr>ts_binding = b, ts_webhook = hook, ts_next_runs = ts\<rparr>)
         else Inr \<lparr>ts_binding = b, ts_webhook = hook, ts_next_runs = []\<rparr>)"

definition rotate_webhook_secret :: "env \<Rightarrow> request_context \<Rightarrow> uuid \<Rightarrow> db \<Rightarrow> (service_error + string) \<times> db" where
  "rotate_webhook_secret env ctx wfid d =
     guarded (ctx_require ctx M_WORKFLOWS A_PUBLISH) d
       (case find (\<lambda>b. tb_workflow_id b = wfid \<and> tb_workspace_id b = ctx_workspace_id ctx) (db_triggers d) of
          None \<Rightarrow> (Inl (App (raise_class NotFoundError)), d)
        | Some b \<Rightarrow>
            if tb_trigger_type b \<noteq> TT_WEBHOOK then (Inl (App (raise_class NotFoundError)), d)
            else
              (let new_secret = env_token env (db_drawn d);
                   (ref, d1) = secret_write env (ctx_workspace_id ctx) [(''secret'', JStr new_secret)] (tb_secret_ref b) (bump d)
               in (Inr new_secret, audit_record env ctx
                     \<lparr>aa_action = ''webhook.secret_rotated'', aa_type = ''WORKFLOW'', aa_resource = ResourceId wfid, aa_label = None,
                      aa_result = AR_SUCCESS, aa_before = [], aa_after = [(''signature_header'', JStr SIGNATURE_HEADER)],
                      aa_actor = None\<rparr>
                     (put_trigger (b\<lparr>tb_secret_ref := Some ref\<rparr>) d1))))"

end
