(* ===== verification/Gateway.thy ===== *)
theory Gateway
  imports Triggers
begin

text \<open>
  What the gateway and the scheduler promise: a signed hook is accepted exactly when its signature and
  time are right; an accepted hook starts the bound version in the binding's workspace and a refused
  one starts nothing and is audited; a fired schedule is armed again; overlap is skipped. Two places
  where the code misbehaves: credentials that are not ASCII, and a binding without a version.
\<close>

section \<open>Signatures\<close>

definition mac_of :: "env \<Rightarrow> string \<Rightarrow> hook_request \<Rightarrow> string" where
  "mac_of env secret r = env_hmac env secret (header (hk_headers r) TIMESTAMP_HEADER @ ''.'' @ hk_body r)"

definition within_policy :: "env \<Rightarrow> trigger_binding \<Rightarrow> hook_request \<Rightarrow> bool" where
  "within_policy env b r \<longleftrightarrow>
     (let allowed = py_str (or_else (dget (tb_config b) ''allowed_content_type'') (JStr ''application/json''));
          maximum = cfg_webhook_max_body_bytes (env_settings env) in
      str_upper (hk_method r) = str_upper (py_str (or_else (dget (tb_config b) ''method'') (JStr ''POST''))) \<and>
      (allowed = ''*'' \<or> text_or_empty (hk_content_type r) = [] \<or>
        starts_with (str_lower (text_or_empty (hk_content_type r))) (str_lower allowed)) \<and>
      (\<exists>n. py_int (or_else (dget (tb_config b) ''max_body_bytes'') (JInt maximum)) = Inr n \<and> int (length (hk_body r)) \<le> min n maximum))"

definition auth_mode_of :: "trigger_binding \<Rightarrow> webhook_auth_mode option" where
  "auth_mode_of b = webhook_auth_mode_of (str_upper (py_str (or_else (dget (tb_config b) ''auth_mode'') (JStr ''NONE''))))"

lemma authenticate_signature:
  assumes "auth_mode_of b = Some WA_HEADER_SIGNATURE" "stored_secret env b d = Inr secret" "within_policy env b r"
  shows "authenticate_webhook env b r d =
    (if secret = [] then Inl (rejected (Some ''WEBHOOK_SECRET_MISSING'') None) else check_signature env (hk_headers r) (hk_body r) secret)"
  using assms by (auto simp: authenticate_webhook_def within_policy_def auth_mode_of_def Let_def)

lemma checked_digest_Inr: "checked_digest a b = Inr () \<longleftrightarrow> is_ascii a \<and> is_ascii b \<and> a = b"
  by (simp add: checked_digest_def compare_digest_def)

lemma check_signature_Inr:
  "check_signature env headers body secret = Inr () \<longleftrightarrow>
    (let signature = header headers SIGNATURE_HEADER; timestamp = header headers TIMESTAMP_HEADER;
         mac = env_hmac env secret (timestamp @ ''.'' @ body) in
     signature \<noteq> [] \<and> timestamp \<noteq> [] \<and> is_ascii mac \<and>
     (\<exists>t. parse_int timestamp = Some t \<and> \<bar>env_now env div 1000000 - t\<bar> \<le> 300) \<and>
     (if starts_with signature ''sha256='' then drop 7 signature else signature) = mac)"
  by (auto simp: check_signature_def Let_def checked_digest_Inr SIGNATURE_TOLERANCE_SECONDS_def split: option.splits)

lemma authenticate_policy: "authenticate_webhook env b r d = Inr () \<Longrightarrow> within_policy env b r"
  by (auto simp: authenticate_webhook_def within_policy_def Let_def split: if_splits sum.splits)

section \<open>A small gateway\<close>

definition hook_env :: env where
  "hook_env = run_env\<lparr>
     env_decrypt := (\<lambda>k _. if k = ''k'' then Some (JStr ''dk'') else Some (JObj [(''secret'', JStr ''s'')])),
     env_hmac := (\<lambda>k m. k @ m)\<rparr>"

definition hook_row :: "string \<Rightarrow> trigger_binding" where
  "hook_row mode = (new_binding ''b'' ''f'' ''w'' TT_WEBHOOK [(''auth_mode'', JStr mode)])\<lparr>tb_enabled := True,
     tb_version_id := Some ''v'', tb_public_key := Some ''key'', tb_secret_ref := Some ''r''\<rparr>"

definition demo_workspace :: workspace where
  "demo_workspace = \<lparr>ws_id = ''w'', ws_organization_id = ''o'', ws_name = ''W'', ws_slug = ''w'', ws_status = WS_ACTIVE,
     ws_timezone = ''UTC'', ws_engine_instance_id = None, ws_max_concurrent_executions = None\<rparr>"

definition hook_db :: "string \<Rightarrow> db" where
  "hook_db mode = run_db\<lparr>db_triggers := [hook_row mode], db_workspaces := [demo_workspace],
     db_secrets := [\<lparr>sr_ref = ''r'', sr_workspace_id = ''w'', sr_wrapped_key = [], sr_ciphertext = [], sr_field_names = [],
       sr_rotated_at = 0, sr_version = 1\<rparr>]\<rparr>"

definition hook_post :: "(string \<times> string) list \<Rightarrow> hook_request" where
  "hook_post headers = \<lparr>hk_method = ''POST'', hk_headers = headers, hk_body = ''x'', hk_content_type = None\<rparr>"

lemma hook_demo:
  "resolve_webhook ''key'' (hook_db mode) = Inr (hook_row mode, demo_workflow, demo_workspace)"
  "stored_secret hook_env (hook_row mode) (hook_db mode) = Inr ''s''"
  "within_policy hook_env (hook_row mode) (hook_post headers)"
  by (simp_all add: resolve_webhook_def hook_binding_def hook_db_def hook_row_def new_binding_def get_workflow_row_def
      run_db_def demo_workflow_def get_workspace_def demo_workspace_def stored_secret_def text_or_empty_def secret_read_def
      find_secret_def open_secret_def hook_env_def run_env_def demo_env_def within_policy_def hook_post_def or_else_def
      default_settings_def Let_def)

lemma hook_modes: "auth_mode_of (hook_row ''HEADER_SIGNATURE'') = Some WA_HEADER_SIGNATURE" "auth_mode_of (hook_row ''BASIC'') = Some WA_BASIC"
  "auth_mode_of (hook_row ''NONE'') = Some WA_NONE"
proof -
  have "webhook_auth_mode_of (str_upper ''HEADER_SIGNATURE'') = Some WA_HEADER_SIGNATURE"
    "webhook_auth_mode_of (str_upper ''BASIC'') = Some WA_BASIC" "webhook_auth_mode_of (str_upper ''NONE'') = Some WA_NONE" by code_simp+
  then show "auth_mode_of (hook_row ''HEADER_SIGNATURE'') = Some WA_HEADER_SIGNATURE"
    "auth_mode_of (hook_row ''BASIC'') = Some WA_BASIC" "auth_mode_of (hook_row ''NONE'') = Some WA_NONE"
    by (simp_all add: auth_mode_of_def hook_row_def new_binding_def or_else_def)
qed

text \<open>
  C19: a signed hook is accepted exactly when it is authentic and fresh. For a binding in signature mode,
  with a digest function that returns ASCII text: the request passes exactly when it is within the method,
  content-type and size policy, the binding has a secret, both headers are there, the timestamp is an
  integer at most 300 seconds away from now, and the signature, with or without the \<open>sha256=\<close>
  prefix, is the digest of the timestamp and the body under that secret.
\<close>

theorem signed_webhook_accepted_iff:
  assumes "auth_mode_of b = Some WA_HEADER_SIGNATURE" "stored_secret env b d = Inr secret" "is_ascii (mac_of env secret r)"
  shows "authenticate_webhook env b r d = Inr () \<longleftrightarrow>
    within_policy env b r \<and> secret \<noteq> [] \<and> header (hk_headers r) SIGNATURE_HEADER \<noteq> [] \<and>
    (\<exists>t. parse_int (header (hk_headers r) TIMESTAMP_HEADER) = Some t \<and> \<bar>env_now env div 1000000 - t\<bar> \<le> 300) \<and>
    header (hk_headers r) TIMESTAMP_HEADER \<noteq> [] \<and>
    (if starts_with (header (hk_headers r) SIGNATURE_HEADER) ''sha256=''
     then drop 7 (header (hk_headers r) SIGNATURE_HEADER) else header (hk_headers r) SIGNATURE_HEADER) = mac_of env secret r"
  (is "_ \<longleftrightarrow> ?right")
proof (cases "within_policy env b r")
  case True
  show ?thesis
    using assms(3) by (auto simp: authenticate_signature [OF assms(1,2) True] True check_signature_Inr mac_of_def Let_def)
qed (use authenticate_policy in blast)

theorem signed_webhook_accepted_iff_witness:
  "authenticate_webhook hook_env (hook_row ''HEADER_SIGNATURE'')
     (hook_post [(''x-appbi-timestamp'', ''7''), (''x-appbi-signature'', ''sha256=s7.x'')]) (hook_db ''HEADER_SIGNATURE'') = Inr ()"
proof -
  let ?r = "hook_post [(''x-appbi-timestamp'', ''7''), (''x-appbi-signature'', ''sha256=s7.x'')]"
  have low: "str_lower TIMESTAMP_HEADER = ''x-appbi-timestamp''" "str_lower SIGNATURE_HEADER = ''x-appbi-signature''"
    "str_lower ''x-appbi-timestamp'' = ''x-appbi-timestamp''" "str_lower ''x-appbi-signature'' = ''x-appbi-signature''"
    "parse_int ''7'' = Some 7" by code_simp+
  have h: "header (hk_headers ?r) TIMESTAMP_HEADER = ''7''" "header (hk_headers ?r) SIGNATURE_HEADER = ''sha256=s7.x''"
    by (simp_all add: header_def hook_post_def low)
  have m: "mac_of hook_env ''s'' ?r = ''s7.x''" by (simp add: mac_of_def h) (simp add: hook_env_def hook_post_def)
  have "env_now hook_env = 0" by (simp add: hook_env_def run_env_def demo_env_def)
  then show ?thesis
    using signed_webhook_accepted_iff [OF hook_modes(1) hook_demo(2), of ?r]
    by (simp add: m h low is_ascii_def hook_demo(3) starts_with_def)
qed

section \<open>Credentials that are not ASCII\<close>

text \<open>
  a Basic password that is not ASCII crashes the gateway. For a binding in Basic mode with a secret, a
  request within the policy whose decoded password has a character outside ASCII is not refused: the
  comparison raises \<open>TypeError\<close>, which is no \<open>AppError\<close>, so the caller gets an internal error and
  the refusal is not audited.
\<close>

lemma non_ascii_password_crashes:
  assumes "resolve_webhook key d = Inr (b, w, ws)" "auth_mode_of b = Some WA_BASIC" "stored_secret env b d = Inr secret"
    and "secret \<noteq> []" "within_policy env b r" "starts_with (str_lower (header (hk_headers r) ''authorization'')) ''basic ''"
    and "env_b64decode env (drop 6 (header (hk_headers r) ''authorization'')) = Some decoded" "\<not> is_ascii (password_part decoded)"
  shows "handle_webhook env key r body ip tr k d = (Inl (Crash TypeErr), d)"
proof -
  have "check_basic env (hk_headers r) secret = Inl (Crash TypeErr)"
    using assms(6-8) by (simp add: check_basic_def checked_digest_def compare_digest_def Let_def)
  then have "authenticate_webhook env b r d = Inl (Crash TypeErr)"
    using assms(2-5) by (auto simp: authenticate_webhook_def within_policy_def auth_mode_of_def Let_def)
  then show ?thesis using assms(1) by (simp add: handle_webhook_def Let_def)
qed

lemma non_ascii_password_crashes_example:
  "handle_webhook (hook_env\<lparr>env_b64decode := (\<lambda>_. Some [CHR '':'', CHR 0xE9])\<rparr>) ''key'' (hook_post [(''authorization'', ''Basic OuY='')])
     JNull None ''t'' None (hook_db ''BASIC'') = (Inl (Crash TypeErr), hook_db ''BASIC'')"
proof -
  let ?env = "hook_env\<lparr>env_b64decode := (\<lambda>_. Some [CHR '':'', CHR 0xE9])\<rparr>"
  have secret: "stored_secret ?env (hook_row ''BASIC'') (hook_db ''BASIC'') = Inr ''s''"
    by (simp add: stored_secret_def hook_row_def hook_db_def text_or_empty_def secret_read_def find_secret_def open_secret_def
        hook_env_def run_env_def demo_env_def)
  have low: "str_lower ''authorization'' = ''authorization''" "str_lower ''Basic OuY='' = ''basic ouy=''" by code_simp+
  have h: "header (hk_headers (hook_post [(''authorization'', ''Basic OuY='')])) ''authorization'' = ''Basic OuY=''"
    by (simp add: header_def hook_post_def low)
  have policy: "within_policy ?env (hook_row ''BASIC'') (hook_post [(''authorization'', ''Basic OuY='')])"
    using hook_demo(3) by (simp add: within_policy_def)
  show ?thesis
    by (rule non_ascii_password_crashes [OF hook_demo(1) hook_modes(2) secret _ policy, of "[CHR '':'', CHR 0xE9]"])
      (simp_all add: h low starts_with_def password_part_def is_ascii_def)
qed

section \<open>Hooks\<close>

lemma put_execution_id: "map ex_id (db_executions (put_execution e d)) = map ex_id (db_executions d)"
  by (simp add: put_execution_def update_where_def)

lemma resolve_facts:
  "resolve_webhook key d = Inr (b, w, ws) \<Longrightarrow> tb_enabled b \<and> tb_public_key b = Some key \<and> tb_trigger_type b = TT_WEBHOOK \<and>
    wf_id w = tb_workflow_id b \<and> wf_deleted_at w = None \<and> ws_id ws = tb_workspace_id b"
  by (auto simp: resolve_webhook_def hook_binding_def get_workflow_row_def get_workspace_def
      split: option.splits if_splits dest!: find_SomeD)

lemma hook_context_simps [simp]: "ctx_workspace_id (hook_context ws tr ip) = ws_id ws"
  by (simp add: hook_context_def system_context_def)

lemma create_answer:
  assumes "execution_create env ctx wfid a d = (Inr e, d')"
  shows "ex_workspace_id e = ctx_workspace_id ctx \<and> ex_workflow_id e = wfid \<and>
    (ca_key a = None \<longrightarrow> db_executions d' = db_executions d @ [e] \<and>
      (ca_kind a = VK_PUBLISHED \<longrightarrow> ca_version_id a \<noteq> None \<longrightarrow> ex_version_id e = ca_version_id a))"
proof -
  have "ctx_require ctx M_WORKFLOWS A_EXECUTE = Inr ()"
    using assms by (cases "ctx_require ctx M_WORKFLOWS A_EXECUTE") (auto simp: execution_create_def)
  moreover from this obtain w where w: "get_workflow ctx wfid d = Inr w"
    using assms by (auto simp: execution_create_def split: sum.splits)
  moreover note wid = get_workflow_row [OF w]
  ultimately consider "by_idempotency_key d (ctx_workspace_id ctx) (wf_id w) (text_or_empty (ca_key a)) = Some e" "ca_key a \<noteq> None"
    | "create_locked env ctx w a d = (Inr e, d')"
    using assms by (auto simp: execution_create_def usable_key_def text_or_empty_def split: option.splits if_splits)
  then show ?thesis
  proof cases
    case 1
    then show ?thesis using wid by (auto simp: by_idempotency_key_def dest!: find_SomeD)
  next
    case 2
    then show ?thesis
    proof (cases rule: create_locked_cases)
      case replayed
      then show ?thesis
        using wid by (cases "ca_key a") (auto simp: by_idempotency_key_def usable_key_def text_or_empty_def dest!: find_SomeD)
    next
      case (created art h)
      then show ?thesis
        using wid by (auto simp: resolve_artefact_def get_version_row_def split: option.splits if_splits dest!: find_SomeD)
    qed
  qed
qed

text \<open>
  a hook starts what is bound to it. A request that the gateway accepts went to an enabled webhook
  binding with that key, passed authentication, and is answered with a run of the binding's workflow in
  the binding's workspace; without an idempotency key it is exactly one new run, of the bound version.
\<close>

lemma webhook_starts_bound_version:
  assumes "handle_webhook env key r body ip tr k d = (Inr e, d')"
  shows "\<exists>b w ws. resolve_webhook key d = Inr (b, w, ws) \<and> tb_enabled b \<and> tb_public_key b = Some key \<and>
    authenticate_webhook env b r d = Inr () \<and> ex_workspace_id e = tb_workspace_id b \<and> ex_workflow_id e = tb_workflow_id b \<and>
    (k = None \<longrightarrow> ex_version_id e = tb_version_id b \<and> length (db_executions d') = Suc (length (db_executions d)))"
proof -
  obtain b w ws where res: "resolve_webhook key d = Inr (b, w, ws)"
    using assms by (auto simp: handle_webhook_def split: sum.splits)
  let ?ctx = "hook_context ws tr ip"
  let ?a = "\<lparr>ca_kind = VK_PUBLISHED, ca_trigger = TT_WEBHOOK, ca_payload = body, ca_key = k, ca_retry_of = None,
     ca_version_id = tb_version_id b\<rparr>"
  have auth: "authenticate_webhook env b r d = Inr ()" "tb_version_id b \<noteq> None"
    using assms res by (auto simp: handle_webhook_def Let_def split: sum.splits service_error.splits if_splits)
  obtain e0 d1 where create: "execution_create env ?ctx (wf_id w) ?a d = (Inr e0, d1)"
    and e: "e = e0\<lparr>ex_input_metadata := arrival_metadata r ip (ex_input_metadata e0)\<rparr>"
    and d': "db_executions d' = db_executions (put_execution e d1)"
    using assms res auth by (auto simp: handle_webhook_def Let_def put_execution_def split: prod.splits sum.splits)
  have "length (db_executions d') = length (db_executions d1)" by (simp add: d' put_execution_def)
  then show ?thesis
    using create_answer [OF create] resolve_facts [OF res] auth res by (auto simp: e)
qed

lemma webhook_starts_bound_version_example:
  "\<exists>e d'. handle_webhook hook_env ''key'' (hook_post []) (JObj []) None ''t'' None (hook_db ''NONE'') = (Inr e, d') \<and>
    ex_workspace_id e = ''w'' \<and> ex_workflow_id e = ''f'' \<and> ex_version_id e = Some ''v''"
proof -
  have auth: "authenticate_webhook hook_env (hook_row ''NONE'') (hook_post []) (hook_db ''NONE'') = Inr ()"
    using hook_demo(3) [of "''NONE''" "[]"] hook_modes(3)
    by (auto simp: authenticate_webhook_def within_policy_def auth_mode_of_def Let_def)
  let ?a = "\<lparr>ca_kind = VK_PUBLISHED, ca_trigger = TT_WEBHOOK, ca_payload = JObj [], ca_key = None, ca_retry_of = None,
     ca_version_id = Some ''v''\<rparr>"
  have facts: "check_concurrency (env_settings hook_env) ''w'' ''f'' (hook_db ''NONE'') = Inr ()"
    "resolve_artefact demo_workflow ?a (hook_db ''NONE'') = Inr (demo_graph, Some 1, None, Some ''v'')"
    "get_workflow (hook_context demo_workspace ''t'' None) ''f'' (hook_db ''NONE'') = Inr demo_workflow"
    "env_registry hook_env = demo_registry" "env_sha256 hook_env = (\<lambda>_. ''h'')" "wf_id demo_workflow = ''f''"
    by (simp_all add: check_concurrency_def hook_db_def run_db_def empty_db_def hook_env_def run_env_def demo_env_def default_settings_def
        workspace_ceiling_def get_workspace_def demo_workspace_def resolve_artefact_def get_version_row_def demo_version_def demo_workflow_def
        get_workflow_def hook_context_def system_context_def)
  have "ctx_can (hook_context demo_workspace ''t'' None) m x = ctx_can admin_ctx m x" for m x
    by (simp add: ctx_can_def effective_permissions_def hook_context_def admin_ctx_def system_context_def)
  then have allowed: "ctx_require (hook_context demo_workspace ''t'' None) m x = Inr ()" for m x
    by (simp add: ctx_require_iff)
  have id: "ws_id demo_workspace = ''w''" by (simp add: demo_workspace_def)
  have ver: "tb_version_id (hook_row m) = Some ''v''" for m by (simp add: hook_row_def)
  obtain e d' where h: "handle_webhook hook_env ''key'' (hook_post []) (JObj []) None ''t'' None (hook_db ''NONE'') = (Inr e, d')"
    by (simp add: handle_webhook_def hook_demo(1) auth Let_def execution_create_def allowed facts usable_key_def text_or_empty_def
        create_locked_def id ver demo_graph_validates result_ok_def errors_of_def demo_graph_hash)
  have "tb_workspace_id (hook_row ''NONE'') = ''w''" "tb_workflow_id (hook_row ''NONE'') = ''f''"
    by (simp_all add: hook_row_def new_binding_def)
  then show ?thesis using webhook_starts_bound_version [OF h] h by (auto simp: hook_demo(1) ver)
qed

lemma audit_record_event:
  "\<exists>ev. audit_record env ctx a d = d\<lparr>db_audit := db_audit d @ [ev]\<rparr> \<and> au_workspace_id ev = ctx_workspace_id ctx \<and>
    au_action ev = aa_action a \<and> au_result ev = aa_result a \<and>
    au_resource_id ev = fst (resolve_resource (aa_resource a) (aa_label a))"
  unfolding audit_record_def Let_def case_prod_beta by (rule exI, rule conjI, rule refl) simp

text \<open>
  a refused hook starts nothing and leaves a trace. When authentication fails with an \<open>AppError\<close>, the
  caller gets that error, no table but the audit trail changes, and the trail gains one failed
  \<open>webhook.rejected\<close> event of the binding's workspace.
\<close>

lemma refused_webhook_is_audited:
  assumes "resolve_webhook key d = Inr (b, w, ws)" "authenticate_webhook env b r d = Inl (App x)"
  shows "\<exists>ev. handle_webhook env key r body ip tr k d = (Inl (App x), d\<lparr>db_audit := db_audit d @ [ev]\<rparr>) \<and>
    au_workspace_id ev = tb_workspace_id b \<and> au_action ev = ''webhook.rejected'' \<and> au_result ev = AR_FAILURE \<and>
    au_resource_id ev = Some (tb_workflow_id b)"
proof -
  let ?a = "(hook_entry ''webhook.rejected'' ''WORKFLOW'' (wf_id w) (wf_name w))\<lparr>aa_result := AR_FAILURE,
     aa_after := [(''code'', JStr (ae_code x)), (''method'', JStr (hk_method r))]\<rparr>"
  obtain ev where ev: "audit_record env (hook_context ws tr ip) ?a d = d\<lparr>db_audit := db_audit d @ [ev]\<rparr>"
    "au_workspace_id ev = ws_id ws" "au_action ev = ''webhook.rejected''" "au_result ev = AR_FAILURE" "au_resource_id ev = Some (wf_id w)"
    using audit_record_event [of env "hook_context ws tr ip" ?a d] by (auto simp: hook_entry_def entry_def resolve_resource_def)
  then show ?thesis using assms resolve_facts [OF assms(1)] by (intro exI [of _ ev]) (simp add: handle_webhook_def Let_def)
qed

lemma refused_webhook_is_audited_example:
  "\<exists>x ev. handle_webhook hook_env ''key'' (hook_post []) JNull None ''t'' None (hook_db ''HEADER_SIGNATURE'') =
      (Inl (App x), (hook_db ''HEADER_SIGNATURE'')\<lparr>db_audit := db_audit (hook_db ''HEADER_SIGNATURE'') @ [ev]\<rparr>) \<and>
    au_result ev = AR_FAILURE"
proof -
  have "check_signature hook_env [] ''x'' ''s'' = Inl (rejected None None)"
    by (simp add: check_signature_def header_def Let_def)
  then have a: "authenticate_webhook hook_env (hook_row ''HEADER_SIGNATURE'') (hook_post []) (hook_db ''HEADER_SIGNATURE'') =
      Inl (App (AppError_init WebhookRejected (no_args\<lparr>arg_code := None, arg_status := None\<rparr>)))"
    using authenticate_signature [OF hook_modes(1) hook_demo(2) hook_demo(3), of "[]"] by (simp add: hook_post_def rejected_def)
  from refused_webhook_is_audited [OF hook_demo(1) a, of JNull None "''t''" None] show ?thesis by auto
qed

section \<open>Schedules\<close>

lemma create_locked_triggers: "db_triggers (snd (create_locked env ctx w a d)) = db_triggers d"
  by (cases "ca_key a")
    (auto simp: create_locked_def Let_def bump_def split: sum.splits option.splits if_splits)

lemma create_triggers: "db_triggers (snd (execution_create env ctx wfid a d)) = db_triggers d"
proof (cases "ctx_require ctx M_WORKFLOWS A_EXECUTE")
  case (Inr u)
  then show ?thesis
    using create_locked_triggers [of env ctx _ a d]
    by (cases "get_workflow ctx wfid d") (auto simp: execution_create_def split: option.splits)
qed (simp add: execution_create_def)

lemma fire_attempt_effect:
  assumes "fire_attempt env ctx b w d = Inr (fired, b', d')"
  shows "tb_id b' = tb_id b \<and> tb_config b' = tb_config b \<and>
    (db_triggers d' = db_triggers d \<or> db_triggers d' = db_triggers (put_trigger (disabled b) d)) \<and>
    (db_executions d' = db_executions d \<and> fired = None \<or> (\<exists>e. fired = Some e \<and> db_executions d' = db_executions d @ [e])) \<and>
    (skips_overlap b w d \<longrightarrow> db_executions d' = db_executions d)"
proof (cases "skips_overlap b w d \<or> tb_version_id b = None")
  case False
  let ?a = "\<lparr>ca_kind = VK_PUBLISHED, ca_trigger = TT_SCHEDULE, ca_payload = JObj [], ca_key = None, ca_retry_of = None,
            ca_version_id = tb_version_id b\<rparr>"
  obtain r d1 where create: "execution_create env ctx (wf_id w) ?a d = (r, d1)" by fastforce
  then have same: "db_triggers d1 = db_triggers d" using create_triggers by (metis snd_conv)
  show ?thesis
  proof (cases r)
    case (Inl x)
    then have "db_executions d1 = db_executions d"
      using create_effect [of env ctx "wf_id w" ?a d] create by auto
    then show ?thesis using assms False create Inl same by (auto simp: fire_attempt_def split: service_error.splits)
  next
    case (Inr e)
    then have "db_executions d1 = db_executions d @ [e]"
      using create_answer create by fastforce
    then show ?thesis using assms False create Inr same by (auto simp: fire_attempt_def)
  qed
qed (use assms in \<open>auto simp: fire_attempt_def disabled_def split: if_splits\<close>)

lemma put_trigger_mem:
  assumes "b \<in> set (db_triggers d)" "tb_id b' = tb_id b"
  shows "b' \<in> set (db_triggers (put_trigger b' d))"
  using assms by (auto simp: put_trigger_def table_simps)

lemma put_trigger_ids: "tb_id ` set (db_triggers (put_trigger b d)) = tb_id ` set (db_triggers d)"
proof -
  have "map tb_id (db_triggers (put_trigger b d)) = map tb_id (db_triggers d)"
    by (simp add: put_trigger_def update_where_def)
  then show ?thesis by (metis list.set_map)
qed

text \<open>
  A schedule that fired is armed again. Firing a due schedule of a live workflow, with a configuration
  that validation produced, starts at most one run, and none while the overlap policy sees a run that is
  not over; whatever happened, the binding's next fire time is computed from now, so an interval schedule is
  not due again for a minute.
\<close>

lemma fired_schedule_is_rearmed:
  assumes "fire_schedule env b d = Inr (fired, d')" "b \<in> set (db_triggers d)"
    and "get_workflow_row d (tb_workflow_id b) = Some w" "wf_deleted_at w = None" "get_workspace d (tb_workspace_id b) = Some ws"
    and "schedules_validate (env_calendar env) config tz = Inr (tb_config b)"
  shows "\<exists>b' \<in> set (db_triggers d'). \<exists>t. tb_id b' = tb_id b \<and> tb_last_fired_at b' = Some (env_now env) \<and>
    next_run_at (env_calendar env) (tb_config b) (env_now env) = Inr t \<and> tb_next_run_at b' = Some t \<and>
    (dget (tb_config b) ''schedule_type'' = JStr ''INTERVAL'' \<longrightarrow> \<not> is_due (env_now env + seconds 59) b') \<and>
    (db_executions d' = db_executions d \<or> (\<exists>e. fired = Some e \<and> db_executions d' = db_executions d @ [e])) \<and>
    (skips_overlap b w d \<longrightarrow> db_executions d' = db_executions d)"
proof -
  obtain t where t: "next_run_at (env_calendar env) (tb_config b) (env_now env) = Inr t"
    "dget (tb_config b) ''schedule_type'' = JStr ''INTERVAL'' \<longrightarrow> t \<ge> env_now env + seconds 60"
    using validated_schedule_arms [OF assms(6)] by blast
  let ?ctx = "schedule_context env ws d"
  obtain b1 d1 where attempt: "fire_attempt env ?ctx b w (bump d) = Inr (fired, b1, d1)"
    and advance: "advance env ?ctx b1 w d1 = Inr d'"
    using assms(1,3-5) by (auto simp: fire_schedule_def Let_def split: sum.splits)
  note effect = fire_attempt_effect [OF attempt]
  define b' where "b' = b1\<lparr>tb_last_fired_at := Some (env_now env), tb_next_run_at := Some t\<rparr>"
  have d': "d' = put_trigger b' d1" using advance t(1) effect by (simp add: advance_def b'_def)
  have "tb_id b \<in> tb_id ` set (db_triggers d1)"
    using effect assms(2) put_trigger_ids [of "disabled b" "bump d"] by (auto simp: bump_def)
  then obtain x where "x \<in> set (db_triggers d1)" "tb_id x = tb_id b" by auto
  then have "b' \<in> set (db_triggers d')" unfolding d' using effect by (intro put_trigger_mem [of x]) (simp_all add: b'_def)
  moreover have "skips_overlap b w (bump d) = skips_overlap b w d" by (simp add: skips_overlap_def bump_def)
  ultimately show ?thesis
    using t effect by (intro bexI [of _ b'] exI [of _ t]) (auto simp: b'_def d' is_due_def bump_def seconds_def)
qed

definition interval_config :: dict where
  "interval_config = [(''schedule_type'', JStr ''INTERVAL''), (''timezone'', JStr ''Asia/Bangkok''),
      (''overlap_policy'', JStr ''SKIP_IF_RUNNING''), (''interval_seconds'', JInt 90)]"

lemma fired_schedule_is_rearmed_example:
  "\<exists>fired d'. fire_schedule run_env (new_binding ''b'' ''f'' ''w'' TT_SCHEDULE interval_config)
      ((hook_db [])\<lparr>db_triggers := [new_binding ''b'' ''f'' ''w'' TT_SCHEDULE interval_config]\<rparr>) = Inr (fired, d') \<and>
    \<not> list_ex (is_due (seconds 59)) (db_triggers d')"
proof -
  let ?b = "new_binding ''b'' ''f'' ''w'' TT_SCHEDULE interval_config"
  let ?d = "(hook_db [])\<lparr>db_triggers := [?b]\<rparr>"
  have rows: "get_workflow_row ?d (tb_workflow_id ?b) = Some demo_workflow" "wf_deleted_at demo_workflow = None"
    "get_workspace ?d (tb_workspace_id ?b) = Some demo_workspace" "?b \<in> set (db_triggers ?d)"
    by (simp_all add: new_binding_def hook_db_def run_db_def get_workflow_row_def demo_workflow_def get_workspace_def demo_workspace_def)
  have cal: "env_calendar run_env = utc_plus_7" and now: "env_now run_env = 0" by (simp_all add: run_env_def demo_env_def)
  have v: "schedules_validate (env_calendar run_env) [(''interval_seconds'', JStr '' 90 '')] ''Asia/Bangkok'' = Inr (tb_config ?b)"
    unfolding cal by code_simp
  have n: "\<exists>t. next_run_at (env_calendar run_env) interval_config 0 = Inr t"
    using validated_schedule_arms [OF v] by (auto simp: new_binding_def)
  have skip: "\<not> skips_overlap ?b demo_workflow (bump ?d)" by (simp add: skips_overlap_def bump_def hook_db_def)
  obtain fired d' where f: "fire_schedule run_env ?b ?d = Inr (fired, d')"
    using rows(1-3) n skip
    by (auto simp: fire_schedule_def fire_attempt_def advance_def Let_def now disabled_def new_binding_def)
  from fired_schedule_is_rearmed [OF f rows(4,1,2,3) v] obtain b' where b': "b' \<in> set (db_triggers d')" "\<not> is_due (seconds 59) b'"
    by (auto simp: now interval_config_def new_binding_def)
  have "length (db_triggers d') = 1"
    using f rows(1-3) skip
    by (auto simp: fire_schedule_def fire_attempt_def advance_def Let_def put_trigger_def bump_def new_binding_def split: sum.splits service_error.splits)
  then show ?thesis using f b' by (cases "db_triggers d'") auto
qed

text \<open>A binding without a version is switched off, and then armed all the same.\<close>

lemma switched_off_schedule_keeps_fire_time:
  assumes "tb_version_id b = None" "\<not> skips_overlap b w d" "next_run_at (env_calendar env) (tb_config b) (env_now env) = Inr t"
    and "get_workflow_row d (tb_workflow_id b) = Some w" "wf_deleted_at w = None" "get_workspace d (tb_workspace_id b) = Some ws"
    and "b \<in> set (db_triggers d)"
  shows "\<exists>d' b'. fire_schedule env b d = Inr (None, d') \<and> b' \<in> set (db_triggers d') \<and> \<not> tb_enabled b' \<and> tb_next_run_at b' = Some t"
proof -
  define b' where "b' = (disabled b)\<lparr>tb_last_fired_at := Some (env_now env), tb_next_run_at := Some t\<rparr>"
  have "skips_overlap b w (bump d) = skips_overlap b w d" by (simp add: skips_overlap_def bump_def)
  then have "fire_schedule env b d = Inr (None, put_trigger b' (put_trigger (disabled b) (bump d)))"
    using assms by (simp add: fire_schedule_def fire_attempt_def advance_def Let_def b'_def disabled_def)
  moreover have "b' \<in> set (db_triggers (put_trigger b' (put_trigger (disabled b) (bump d))))"
    using assms(7)
    by (intro put_trigger_mem [of "disabled b"] put_trigger_mem [of b]) (simp_all add: b'_def disabled_def bump_def)
  ultimately show ?thesis by (auto simp: b'_def disabled_def)
qed

end
