(* ===== verification/Tenants.thy ===== *)
theory Tenants
  imports Provisioning Gateway
begin

text \<open>
  What provisioning promises: a derived slug is a slug, but for the cut at sixty characters; a created
  tenant has its organisation, its workspace and an owner on both axes; over every sequence of platform
  and organisation requests slugs stay unique and well-formed, and every workspace has an owner; and what
  suspending a tenant does not stop.
\<close>

section \<open>Derived slugs\<close>

text \<open>Characters of the class and single hyphens; the flag says that a hyphen came before.\<close>

fun neat :: "bool \<Rightarrow> string \<Rightarrow> bool" where
  "neat h [] = True"
| "neat h (c # cs) = (if is_slug_char c then neat False cs else c = CHR ''-'' \<and> \<not> h \<and> neat True cs)"

lemma hyphen_no_slug_char [simp]: "\<not> is_slug_char (CHR ''-'')"
  by (simp add: is_slug_char_def is_digit_def)

lemma neat_hyphenate: "neat inside (hyphenate inside s)"
  by (induction inside s rule: hyphenate.induct) auto

lemma neat_mono: "neat True s \<Longrightarrow> neat h s"
  by (cases s) auto

lemma neat_dropWhile: "neat h s \<Longrightarrow> neat True (dropWhile (\<lambda>c. c = CHR ''-'') s)"
proof (induction s arbitrary: h)
  case (Cons c s)
  then show ?case by (cases "is_slug_char c") (auto split: if_splits)
qed simp

lemma neat_take: "neat h s \<Longrightarrow> neat h (take n s)"
proof (induction s arbitrary: h n)
  case (Cons c s)
  then show ?case by (cases n) auto
qed simp

lemma rev_dropWhile_rev: "\<exists>k. rev (dropWhile P (rev s)) = take k s"
  by (metis dropWhile_eq_drop rev_drop rev_rev_ident)

lemma neat_strip: "neat h s \<Longrightarrow> neat True (strip_hyphens s)"
  unfolding strip_hyphens_def using rev_dropWhile_rev neat_take neat_dropWhile by metis

lemma last_strip: "strip_hyphens s \<noteq> [] \<Longrightarrow> last (strip_hyphens s) \<noteq> CHR ''-''"
  unfolding strip_hyphens_def
  using hd_dropWhile [of "\<lambda>c. c = CHR ''-''" "rev (dropWhile (\<lambda>c. c = CHR ''-'') s)"] by (simp add: last_rev)

lemma neat_slug_tail: "neat (\<not> ok) s \<Longrightarrow> slug_tail ok s \<longleftrightarrow> (if s = [] then ok else last s \<noteq> CHR ''-'')"
proof (induction s arbitrary: ok)
  case (Cons c s)
  show ?case
  proof (cases "is_slug_char c")
    case True
    then show ?thesis using Cons.IH [of True] Cons.prems by auto
  next
    case False
    then show ?thesis using Cons.IH [of False] Cons.prems by auto
  qed
qed simp

text \<open>
  a slug derived from a name is a slug, but for the cut. Whatever the name and however its accents are
  folded, the result is not empty, has at most sixty characters and satisfies the slug pattern exactly when
  it does not end in a hyphen; it can only end in one when the cut at sixty characters fell on it.
\<close>

lemma slugify_gives_a_slug:
  "slugify fold_marks name \<noteq> [] \<and> length (slugify fold_marks name) \<le> 60 \<and>
   slug_ok (slugify fold_marks name) = (last (slugify fold_marks name) \<noteq> CHR ''-'') \<and>
   (last (slugify fold_marks name) = CHR ''-'' \<longrightarrow> length (slugify fold_marks name) = 60)"
proof -
  define t where "t = strip_hyphens (hyphenate False (str_lower (fold_marks (transliterate (str_strip name)))))"
  have s: "slugify fold_marks name = (if take 60 t = [] then ''workspace'' else take 60 t)"
    by (simp add: slugify_def t_def Let_def)
  have t: "neat True t" using neat_strip [OF neat_hyphenate] by (simp add: t_def)
  show ?thesis
  proof (cases "t = []")
    case True
    moreover have "slug_ok ''workspace''" by code_simp
    ultimately show ?thesis by (simp add: s)
  next
    case False
    have "slug_ok (take 60 t) = (last (take 60 t) \<noteq> CHR ''-'')"
      using neat_slug_tail [of False "take 60 t"] neat_take [OF t, of 60] False by (simp add: slug_ok_def)
    moreover have "length t > 60" if "last (take 60 t) = CHR ''-''"
    proof (rule ccontr)
      assume "\<not> length t > 60"
      with that False show False using last_strip [of "hyphenate False (str_lower (fold_marks (transliterate (str_strip name))))"]
        by (simp add: t_def)
    qed
    ultimately show ?thesis using False by (auto simp: s)
  qed
qed

lemma slugify_gives_a_slug_example:
  "\<not> slug_ok (slugify id (replicate 59 (CHR ''a'') @ '' b'')) \<and> length (slugify id (replicate 59 (CHR ''a'') @ '' b'')) = 60"
proof -
  have "last (slugify id (replicate 59 (CHR ''a'') @ '' b'')) = CHR ''-''" by code_simp
  then show ?thesis using slugify_gives_a_slug [of id "replicate 59 (CHR ''a'') @ '' b''"] by simp
qed

section \<open>A created tenant\<close>

lemma check_tenant_Inr:
  assumes "check_tenant fold_marks env orgs a d = Inr (name, slug, engine)"
  shows "name \<noteq> [] \<and> slug_ok slug \<and> length slug \<le> 60 \<and> slug \<notin> set SLUG_RESERVED \<and> slug \<notin> ws_slug ` set (db_workspaces d) \<and>
    (orgs \<longrightarrow> slug \<notin> og_slug ` set (db_organizations d)) \<and> engine \<in> set (db_engines d)"
proof -
  have "engine \<in> set (db_engines d)" if "resolve_engine d n = Inr engine" for n
    using that by (auto simp: resolve_engine_def split: if_splits option.splits dest: find_SomeD)
  then show ?thesis
    using assms
    by (auto simp: check_tenant_def validate_slug_def list_ex_iff Let_def split: if_splits sum.splits)
qed

lemma ensure_owner_effect:
  assumes "ensure_owner cx env email full_name password d = (Inr (u, generated), d')"
  shows "db_workspaces d' = db_workspaces d \<and> db_organizations d' = db_organizations d \<and> db_memberships d' = db_memberships d \<and>
    db_org_memberships d' = db_org_memberships d \<and>
    (db_users d' = db_users d \<and> u \<in> set (db_users d) \<and> generated = None \<or>
     db_users d' = db_users d @ [u] \<and> us_password_change_required u \<and> us_is_active u \<and> \<not> us_is_platform_admin u \<and> us_email u = email)"
  using assms
  by (auto simp: ensure_owner_def user_by_email_def invited_user_def Let_def
      split: option.splits if_splits sum.splits dest!: find_SomeD)

lemma ensure_owner_fails: "ensure_owner cx env email n p d = (Inl e, d') \<Longrightarrow> d' = d"
  by (auto simp: ensure_owner_def Let_def split: option.splits if_splits sum.splits)

lemma provision_effect:
  assumes "provision_workspace cx fold_marks env ctx a owner_email full_name password d = (Inr (w, u, generated), d')"
  shows "ctx_is_platform_admin ctx \<and> ws_active w \<and> slug_ok (ws_slug w) \<and> length (ws_slug w) \<le> 60 \<and>
    ws_slug w \<notin> ws_slug ` set (db_workspaces d) \<and> ws_slug w \<notin> og_slug ` set (db_organizations d) \<and>
    (\<exists>o1 m om. db_organizations d' = db_organizations d @ [o1] \<and> og_slug o1 = ws_slug w \<and> ws_organization_id w = og_id o1 \<and>
      db_workspaces d' = db_workspaces d @ [w] \<and>
      db_memberships d' = db_memberships d @ [m] \<and> me_workspace_id m = ws_id w \<and> me_user_id m = us_id u \<and> me_role m = R_OWNER \<and>
      db_org_memberships d' = db_org_memberships d @ [om] \<and> om_organization_id om = og_id o1 \<and> om_user_id om = us_id u \<and>
      om_role om = OR_OWNER) \<and>
    (db_users d' = db_users d \<and> u \<in> set (db_users d) \<and> generated = None \<or>
     db_users d' = db_users d @ [u] \<and> us_password_change_required u)"
proof -
  have admin: "ctx_is_platform_admin ctx"
    using assms by (auto simp: provision_workspace_def require_platform_admin_def split: if_splits)
  obtain name slug engine where check: "check_tenant fold_marks env True a d = Inr (name, slug, engine)"
    using assms admin by (auto simp: provision_workspace_def require_platform_admin_def split: sum.splits)
  define org where "org = \<lparr>og_id = fresh_id env d, og_name = name, og_slug = slug, og_status = WS_ACTIVE\<rparr>"
  define d1 where "d1 = (bump d)\<lparr>db_organizations := db_organizations d @ [org]\<rparr>"
  define w0 where "w0 = new_workspace (fresh_id env d1) (og_id org) name slug a engine"
  define d2 where "d2 = (bump d1)\<lparr>db_workspaces := db_workspaces d @ [w0]\<rparr>"
  obtain d3 where owner: "ensure_owner cx env (normalized_email owner_email) full_name password d2 = (Inr (u, generated), d3)"
    and w: "w = w0"
    and d': "db_organizations d' = db_organizations d3" "db_workspaces d' = db_workspaces d3" "db_users d' = db_users d3"
      "\<exists>m. db_memberships d' = db_memberships d3 @ [m] \<and> me_workspace_id m = ws_id w0 \<and> me_user_id m = us_id u \<and> me_role m = R_OWNER"
      "\<exists>om. db_org_memberships d' = db_org_memberships d3 @ [om] \<and> om_organization_id om = og_id org \<and> om_user_id om = us_id u \<and>
         om_role om = OR_OWNER"
    using assms admin
    by (auto simp: provision_workspace_def require_platform_admin_def check Let_def org_def [symmetric] d1_def [symmetric]
        w0_def [symmetric] d2_def [symmetric] split: if_splits sum.splits prod.splits)
  note e = ensure_owner_effect [OF owner]
  have d2: "db_organizations d2 = db_organizations d @ [org]" "db_workspaces d2 = db_workspaces d @ [w0]"
    "db_users d2 = db_users d" "db_memberships d2 = db_memberships d" "db_org_memberships d2 = db_org_memberships d"
    by (simp_all add: d2_def d1_def)
  have w0: "ws_active w0" "ws_slug w0 = slug" "ws_organization_id w0 = og_id org" "og_slug org = slug"
    by (simp_all add: w0_def new_workspace_def ws_active_def org_def)
  show ?thesis
    using admin check_tenant_Inr [OF check] d' e d2 w0 by (simp add: w) (elim conjE exE disjE; blast)
qed



definition platform_db :: db where
  "platform_db = empty_db\<lparr>db_engines := [\<lparr>ei_id = ''e'', ei_name = ''n8n'', ei_engine_version = None, ei_adapter_contract_version = ''1'',
     ei_compiler_version = ''1'', ei_status = ES_HEALTHY, ei_is_default = True, ei_last_probe_at = None,
     ei_last_worker_beat_at = None\<rparr>]\<rparr>"

definition acme_args :: tenant_args where
  "acme_args = \<lparr>ta_name = ''Acme Corp'', ta_slug = None, ta_timezone = ''Asia/Bangkok'', ta_quota = Some 3, ta_engine = None\<rparr>"

lemma acme_checked: "env_calendar env = env_calendar demo_env \<Longrightarrow> \<exists>engine. check_tenant id env orgs acme_args platform_db = Inr (''Acme Corp'', ''acme-corp'', engine)"
proof -
  have "str_strip ''Acme Corp'' = ''Acme Corp''" "slug_wanted id ''Acme Corp'' None = ''acme-corp''" "validate_slug ''acme-corp'' = Inr ''acme-corp''"
    by code_simp+
  moreover have "\<exists>z. resolve_zone (env_calendar demo_env) (JStr ''Asia/Bangkok'') = Inr z"
    by (simp add: resolve_zone_def demo_env_def utc_plus_7_def or_else_def)
  moreover assume "env_calendar env = env_calendar demo_env"
  ultimately show ?thesis
    by (auto simp: check_tenant_def acme_args_def platform_db_def empty_db_def quota_invalid_def resolve_engine_def text_or_empty_def)
qed


section \<open>The deployment over time\<close>

datatype tenant_call =
    Provision crypto "string \<Rightarrow> string" env request_context tenant_args string "string option" "string option"
  | Department "string \<Rightarrow> string" env request_context tenant_args
  | SetQuota env request_context uuid "int option"
  | SetEngine env request_context uuid string
  | SetStatus env request_context uuid string
  | OfMembers member_call
  | OfOrganization org_call

fun tenant_request :: "db \<Rightarrow> tenant_call \<Rightarrow> db" where
  "tenant_request d (Provision cx f env ctx a email name p) = committed d (provision_workspace cx f env ctx a email name p d)"
| "tenant_request d (Department f env ctx a) = committed d (provision_department_workspace f env ctx a d)"
| "tenant_request d (SetQuota env ctx wid n) = committed d (set_quota env ctx wid n d)"
| "tenant_request d (SetEngine env ctx wid e) = committed d (set_engine env ctx wid e d)"
| "tenant_request d (SetStatus env ctx wid s) = committed d (set_status env ctx wid s d)"
| "tenant_request d (OfMembers c) = member_request d c"
| "tenant_request d (OfOrganization c) = org_request d c"

text \<open>The primary keys of the two tables; the rest is the code's own doing.\<close>

definition primary_keys :: "db \<Rightarrow> bool" where
  "primary_keys d \<longleftrightarrow> seat_ids_ok d \<and> distinct (map ws_id (db_workspaces d))"

definition tenant_step :: "db \<Rightarrow> tenant_call \<Rightarrow> db" where
  "tenant_step d c = (if primary_keys (tenant_request d c) then tenant_request d c else d)"

definition sites :: "db \<Rightarrow> (uuid \<times> string \<times> uuid) list" where
  "sites d = map (\<lambda>w. (ws_id w, ws_slug w, ws_organization_id w)) (db_workspaces d)"

definition good_slug :: "string \<Rightarrow> bool" where
  "good_slug s \<longleftrightarrow> slug_ok s \<and> length s \<le> 60 \<and> s \<notin> set SLUG_RESERVED"

definition tenancy :: "db \<Rightarrow> bool" where
  "tenancy d \<longleftrightarrow> primary_keys d \<and> distinct (map (fst \<circ> snd) (sites d)) \<and>
     (\<forall>(i, s, org) \<in> set (sites d). good_slug s \<and> owned i d \<and> org \<in> og_id ` set (db_organizations d))"

lemma tenancy_kept:
  assumes "tenancy d" "sites d' = sites d" "set (db_organizations d) \<subseteq> set (db_organizations d')"
    and "\<And>i. owned i d \<Longrightarrow> owned i d'" "primary_keys d'"
  shows "tenancy d'"
  using assms unfolding tenancy_def by fastforce

lemma tenancy_added:
  assumes "tenancy d" "sites d' = sites d @ [(i, s, org)]" "good_slug s" "s \<notin> ws_slug ` set (db_workspaces d)"
    and "set (db_organizations d) \<subseteq> set (db_organizations d')" "org \<in> og_id ` set (db_organizations d')"
    and "\<And>j. owned j d \<Longrightarrow> owned j d'" "owned i d'" "primary_keys d'"
  shows "tenancy d'"
proof -
  have "s \<notin> (fst \<circ> snd) ` set (sites d)" using assms(4) by (force simp: sites_def)
  then show ?thesis using assms unfolding tenancy_def by fastforce
qed

lemma put_workspace_sites:
  assumes "distinct (map ws_id (db_workspaces d))" "get_workspace d wid = Some w"
    and "ws_id w' = ws_id w" "ws_slug w' = ws_slug w" "ws_organization_id w' = ws_organization_id w"
  shows "sites (put_workspace w' d) = sites d"
proof -
  have "r = w" if "r \<in> set (db_workspaces d)" "ws_id r = ws_id w" for r
    using distinct_key_eq [OF assms(1) that(1) _ that(2)] get_workspace_in [OF assms(2)] by blast
  then show ?thesis using assms(3-5) by (auto simp: sites_def put_workspace_def update_where_def)
qed

lemma put_workspace_frame [simp]:
  "db_memberships (put_workspace w d) = db_memberships d" "db_organizations (put_workspace w d) = db_organizations d"
  by (simp_all add: put_workspace_def)

lemma audit_sites [simp]: "sites (audit_record env ctx a d) = sites d"
  by (simp add: sites_def)

lemma owned_cong: "db_memberships d' = db_memberships d \<Longrightarrow> owned i d' = owned i d"
  by (simp add: owned_def)


lemma member_tenancy:
  assumes "tenancy d" "primary_keys (member_request d c)"
  shows "tenancy (member_request d c)"
proof (rule tenancy_kept [OF assms(1) _ _ _ assms(2)])
  have keys: "seat_ids_ok d" "distinct (map ws_id (db_workspaces d))" using assms(1) by (simp_all add: tenancy_def primary_keys_def)
  show "owned i d \<Longrightarrow> owned i (member_request d c)" for i
    using seat_change_top [OF request_change, of d i c] keys(1) by (simp add: seat_ids_ok_def owned_def)
  have account: "db_workspaces (snd (ensure_account cx env email name p d)) = db_workspaces d \<and>
      db_organizations (snd (ensure_account cx env email name p d)) = db_organizations d" for cx env email name p
    by (simp add: ensure_account_def Let_def split: option.split sum.split)
  show "sites (member_request d c) = sites d"
  proof (cases c)
    case (Invite cx env ctx email name r p)
    have "db_workspaces (snd (invite_member cx env ctx email name r p d)) = db_workspaces d"
      using account [of cx env email name p]
      by (auto simp: invite_member_def guarded_def Let_def split: sum.split prod.split)
    then show ?thesis by (auto simp: Invite sites_def committed_def case_prod_beta split: sum.split)
  next
    case (Configure env ctx name tz n)
    have "sites (snd (update_workspace env ctx name tz n d)) = sites d"
      using put_workspace_sites [OF keys(2)]
      by (auto simp: update_workspace_def guarded_def renamed_def in_zone_def with_ceiling_def Let_def
          split: sum.split option.split if_splits)
    then show ?thesis by (auto simp: Configure committed_def case_prod_beta split: sum.split)
  qed (auto simp: sites_def committed_def update_role_def update_role_write_def update_permissions_def remove_member_def
      put_membership_def guarded_def Let_def split: sum.split prod.split option.split)
  have "db_organizations (member_request d c) = db_organizations d"
  proof (cases c)
    case (Invite cx env ctx email name r p)
    have "db_organizations (snd (invite_member cx env ctx email name r p d)) = db_organizations d"
      using account [of cx env email name p]
      by (auto simp: invite_member_def guarded_def Let_def split: sum.split prod.split)
    then show ?thesis by (auto simp: Invite committed_def case_prod_beta split: sum.split)
  qed (auto simp: committed_def update_role_def update_role_write_def update_permissions_def remove_member_def update_workspace_def
      put_membership_def guarded_def Let_def split: sum.split prod.split option.split)
  then show "set (db_organizations d) \<subseteq> set (db_organizations (member_request d c))" by simp
qed

lemma org_request_frame:
  "db_workspaces (org_request d c) = db_workspaces d \<and> db_organizations (org_request d c) = db_organizations d \<and>
   db_memberships (org_request d c) = db_memberships d"
proof (cases c)
  case (OrgInvite cx env ctx email name r p)
  obtain u d1 where e: "ensure_account cx env email name p d = (u, d1)" by fastforce
  then have "db_workspaces d1 = db_workspaces d" "db_organizations d1 = db_organizations d" "db_memberships d1 = db_memberships d"
    by (auto simp: ensure_account_def Let_def split: option.splits sum.splits)
  then show ?thesis
    by (auto simp: OrgInvite committed_def org_invite_member_def guarded_def e Let_def split: sum.split)
qed (auto simp: committed_def org_update_role_def org_remove_member_def guarded_def split: sum.split option.split)

lemma admin_put_frame:
  assumes "distinct (map ws_id (db_workspaces d))"
  shows "sites (committed d (set_quota env ctx wid n d)) = sites d"
    "sites (committed d (set_engine env ctx wid e d)) = sites d"
    "sites (committed d (set_status env ctx wid s d)) = sites d"
    "db_memberships (committed d (set_quota env ctx wid n d)) = db_memberships d"
    "db_memberships (committed d (set_engine env ctx wid e d)) = db_memberships d"
    "db_memberships (committed d (set_status env ctx wid s d)) = db_memberships d"
    "db_organizations (committed d (set_quota env ctx wid n d)) = db_organizations d"
    "db_organizations (committed d (set_engine env ctx wid e d)) = db_organizations d"
    "db_organizations (committed d (set_status env ctx wid s d)) = db_organizations d"
  using put_workspace_sites [OF assms, of wid]
  by (auto simp: committed_def set_quota_def set_engine_def set_status_def tenant_row_def guarded_def Let_def
      split: sum.split option.split)

lemma department_effect:
  assumes "provision_department_workspace f env ctx a d = (Inr w, d')"
  shows "(\<exists>m. db_memberships d' = db_memberships d @ [m] \<and> me_workspace_id m = ws_id w \<and> me_role m = R_OWNER) \<and>
    db_workspaces d' = db_workspaces d @ [w] \<and> db_organizations d' = db_organizations d \<and> good_slug (ws_slug w) \<and>
    ws_slug w \<notin> ws_slug ` set (db_workspaces d) \<and> ws_organization_id w \<in> og_id ` set (db_organizations d)"
proof -
  obtain org where org: "ctx_organization_id ctx = Some org"
    using assms by (auto simp: provision_department_workspace_def split: sum.splits)
  obtain name slug engine where c: "check_tenant f env False a d = Inr (name, slug, engine)"
    using assms org by (auto simp: provision_department_workspace_def org_id_of_def guarded_def split: sum.splits)
  have o1: "get_organization d org \<noteq> None"
    and w: "w = new_workspace (fresh_id env d) org name slug a engine"
    and d': "\<exists>m. db_memberships d' = db_memberships d @ [m] \<and> me_workspace_id m = ws_id w \<and> me_role m = R_OWNER"
      "db_workspaces d' = db_workspaces d @ [w]" "db_organizations d' = db_organizations d"
    using assms
    by (auto simp: provision_department_workspace_def org_id_of_def org c guarded_def Let_def split: sum.splits if_splits option.splits)
  have "org \<in> og_id ` set (db_organizations d)"
    using o1 by (auto simp: get_organization_def dest: find_SomeD)
  then show ?thesis using check_tenant_Inr [OF c] d' by (simp add: w new_workspace_def good_slug_def)
qed

lemma tenant_step_tenancy:
  assumes "tenancy d"
  shows "tenancy (tenant_step d c)"
proof (cases "primary_keys (tenant_request d c)")
  case True
  have keys: "distinct (map ws_id (db_workspaces d))" using assms by (simp add: tenancy_def primary_keys_def)
  have "tenancy (tenant_request d c)"
  proof (cases c)
    case (Provision cx f env ctx a email name p)
    obtain r d' where e: "provision_workspace cx f env ctx a email name p d = (r, d')" by fastforce
    show ?thesis
    proof (cases r)
      case (Inr x)
      obtain w u g where x: "x = (w, u, g)" by (cases x)
      note effect = provision_effect [OF e [unfolded Inr x]]
      have "good_slug (ws_slug w)" using e Inr x check_tenant_Inr [of f env True a d]
        by (auto simp: good_slug_def provision_workspace_def guarded_def Let_def new_workspace_def split: sum.splits if_splits prod.splits)
      then have "tenancy d'"
        using effect True e Inr Provision
        by (intro tenancy_added [OF assms, of d' "ws_id w" "ws_slug w" "ws_organization_id w"])
          (auto simp: sites_def owned_def committed_def)
      then show ?thesis using e Inr Provision by (simp add: committed_def)
    qed (use e assms Provision in \<open>simp add: committed_def\<close>)
  next
    case (Department f env ctx a)
    obtain r d' where e: "provision_department_workspace f env ctx a d = (r, d')" by fastforce
    show ?thesis
    proof (cases r)
      case (Inr w)
      note effect = department_effect [OF e [unfolded Inr]]
      then have "tenancy d'"
        using True e Inr Department
        by (intro tenancy_added [OF assms, of d' "ws_id w" "ws_slug w" "ws_organization_id w"])
          (auto simp: sites_def owned_def committed_def)
      then show ?thesis using e Inr Department by (simp add: committed_def)
    qed (use e assms Department in \<open>simp add: committed_def\<close>)
  next
    case (OfMembers mc)
    then show ?thesis using member_tenancy [OF assms, of mc] True by simp
  next
    case (OfOrganization oc)
    then show ?thesis
      using org_request_frame [of d oc] True by (intro tenancy_kept [OF assms]) (auto simp: sites_def owned_def)
  qed (use True admin_put_frame [OF keys] in \<open>auto intro!: tenancy_kept [OF assms] simp: owned_def\<close>)
  then show ?thesis by (simp add: tenant_step_def True)
qed (simp add: tenant_step_def assms)

interpretation tenants: invariant_machine tenant_step tenancy
  by unfold_locales (rule tenant_step_tenancy)

text \<open>
  C25: tenancy stays sound. From a state in which slugs are unique and well-formed and every workspace has
  an organisation and an owner, in particular from an empty deployment, every sequence of platform,
  organisation and member requests, whoever sends them and whether they succeed or not, leads to such a
  state again.
\<close>

theorem tenancy_stays_sound:
  assumes "tenancy d"
  shows "distinct (map ws_slug (db_workspaces (run tenant_step d calls))) \<and>
    (\<forall>w \<in> set (db_workspaces (run tenant_step d calls)). slug_ok (ws_slug w) \<and> length (ws_slug w) \<le> 60 \<and>
       ws_slug w \<notin> set SLUG_RESERVED \<and> owned (ws_id w) (run tenant_step d calls) \<and>
       ws_organization_id w \<in> og_id ` set (db_organizations (run tenant_step d calls)))"
proof -
  have "tenancy (run tenant_step d calls)" by (rule tenants.run_inv [OF assms])
  then show ?thesis by (auto simp: tenancy_def sites_def good_slug_def comp_def)
qed

theorem tenancy_stays_sound_witness:
  "\<exists>w. db_workspaces (run tenant_step platform_db
     [Provision demo_crypto id (demo_env\<lparr>env_id := (\<lambda>n. [char_of n])\<rparr>) admin_ctx acme_args ''a@b'' None None]) = [w] \<and>
     owned (ws_id w) (run tenant_step platform_db
     [Provision demo_crypto id (demo_env\<lparr>env_id := (\<lambda>n. [char_of n])\<rparr>) admin_ctx acme_args ''a@b'' None None])"
proof -
  let ?env = "demo_env\<lparr>env_id := (\<lambda>n. [char_of n])\<rparr>"
  let ?r = "provision_workspace demo_crypto id ?env admin_ctx acme_args ''a@b'' None None platform_db"
  obtain engine where c: "check_tenant id ?env True acme_args platform_db = Inr (''Acme Corp'', ''acme-corp'', engine)"
    using acme_checked [of ?env True] by auto
  have "normalized_email ''a@b'' = ''a@b''" by code_simp
  moreover have "ctx_is_platform_admin admin_ctx" by (simp add: admin_ctx_def system_context_def)
  moreover have "user_by_email d ''a@b'' = None" if "db_users d = []" for d using that by (simp add: user_by_email_def)
  moreover have "hash_password demo_crypto p = Inr (''#'' @ p)" for p by (simp add: hash_password_def demo_crypto_def)
  moreover have users: "db_users platform_db = []" "db_workspaces platform_db = []" "db_memberships platform_db = []"
    by (simp_all add: platform_db_def empty_db_def)
  ultimately obtain w m d' where r: "committed platform_db ?r = d'" "db_workspaces d' = [w]" "db_memberships d' = [m]"
    by (auto simp: provision_workspace_def require_platform_admin_def c Let_def ensure_owner_def text_or_empty_def committed_def)
  have "tenancy platform_db" by (simp add: tenancy_def primary_keys_def sites_def users seat_ids_ok_def)
  from tenancy_stays_sound [OF this, of "[Provision demo_crypto id ?env admin_ctx acme_args ''a@b'' None None]"] r
  show ?thesis by (simp add: tenant_step_def primary_keys_def seat_ids_ok_def)
qed

section \<open>Suspension\<close>

text \<open>A suspended workspace refuses the requests of its members; its hooks are still resolved and its
  schedules still fire, since neither looks at the status.\<close>

lemma suspended_workspace_is_unreachable:
  assumes "keys_ok d" "a \<in> set (user_reachable d u)"
  shows "ws_status (wa_workspace a) = WS_ACTIVE"
  using reachable_cases [OF assms] by (simp add: ws_active_def)

lemma suspended_workspace_still_takes_hooks:
  assumes "resolve_webhook key d = Inr (b, w, ws)"
  shows "\<exists>ws'. resolve_webhook key (put_workspace (ws\<lparr>ws_status := WS_SUSPENDED\<rparr>) d) = Inr (b, w, ws')"
proof -
  have f: "hook_binding key (put_workspace x d) = hook_binding key d" "get_workflow_row (put_workspace x d) i = get_workflow_row d i" for x i
    by (simp_all add: hook_binding_def put_workspace_def get_workflow_row_def)
  have "get_workspace d (tb_workspace_id b) = Some ws"
    using assms by (auto simp: resolve_webhook_def split: option.splits if_splits)
  then have "\<exists>y. get_workspace (put_workspace (ws\<lparr>ws_status := WS_SUSPENDED\<rparr>) d) (tb_workspace_id b) = Some y"
    using find_put_same [of ws_id "tb_workspace_id b" "db_workspaces d" ws "ws\<lparr>ws_status := WS_SUSPENDED\<rparr>"]
    by (auto simp: get_workspace_def put_workspace_def dest: find_SomeD)
  then show ?thesis using assms by (auto simp: resolve_webhook_def f split: option.splits if_splits)
qed

end
