(* ===== verification/Catalog.thy ===== *)
theory Catalog
  imports Sessions
begin

text \<open>
  The node catalogue, \<open>app/services/catalog.py\<close>, with the guards of its routes (\<open>app/api/v1/nodes.py\<close>).
  The table \<open>node_definitions\<close> is a state of its own, in insertion order. The bundled catalogue
  (\<open>app/resources/node_registry.json\<close>) is a list of entries in the shape that file has; a key that the
  code reads with a default is optional. Texts compare by their bytes.
\<close>

record node_row =
  nt_node_key :: string
  nt_display_name :: string
  nt_category :: node_category
  nt_description :: "string option"
  nt_icon :: "string option"
  nt_schema_version :: int
  nt_config_schema :: dict
  nt_capability :: dict
  nt_certification :: certification
  nt_status :: node_status
  nt_engine_binding :: dict
  nt_security_profile :: dict
  nt_docs_ref :: "string option"
  nt_spec_hash :: string
  nt_last_certified_at :: "int option"
  nt_known_issues :: "string option"

record bundle_entry =
  be_node_key :: string
  be_display_name :: string
  be_category :: string
  be_description :: "string option"
  be_icon :: "string option"
  be_schema_version :: "int option"
  be_config_schema :: "dict option"
  be_capability :: "dict option"
  be_certification :: "string option"
  be_status :: "string option"
  be_engine_binding :: "dict option"
  be_security_profile :: "dict option"
  be_docs_ref :: "string option"

section \<open>Seeding\<close>

definition or_empty :: "dict option \<Rightarrow> dict" where
  "or_empty v = (case v of None \<Rightarrow> [] | Some d \<Rightarrow> d)"

definition spec_hash :: "(string \<Rightarrow> string) \<Rightarrow> dict \<Rightarrow> string" where
  "spec_hash sha256 schema = take 32 (sha256 (dumps True True '','' '':'' (JObj schema)))"

definition entry_digest :: "(string \<Rightarrow> string) \<Rightarrow> bundle_entry \<Rightarrow> string" where
  "entry_digest sha256 e =
     spec_hash sha256 [(''config_schema'', JObj (or_empty (be_config_schema e))), (''capability'', JObj (or_empty (be_capability e))),
       (''engine_binding'', JObj (or_empty (be_engine_binding e)))]"

definition enum_or_crash :: "'e option \<Rightarrow> py_exc + 'e" where
  "enum_or_crash v = (case v of None \<Rightarrow> Inl ValueErr | Some x \<Rightarrow> Inr x)"

definition or_default :: "'a option \<Rightarrow> 'a \<Rightarrow> 'a" where
  "or_default v x = (case v of None \<Rightarrow> x | Some y \<Rightarrow> y)"

definition new_row :: "(string \<Rightarrow> string) \<Rightarrow> int \<Rightarrow> bundle_entry \<Rightarrow> py_exc + node_row" where
  "new_row sha256 now e =
     (case enum_or_crash (node_category_of (be_category e)) of
        Inl x \<Rightarrow> Inl x
      | Inr cat \<Rightarrow>
          (case enum_or_crash (certification_of (or_default (be_certification e) ''BETA'')) of
             Inl x \<Rightarrow> Inl x
           | Inr cert \<Rightarrow>
               (case enum_or_crash (node_status_of (or_default (be_status e) ''ACTIVE'')) of
                  Inl x \<Rightarrow> Inl x
                | Inr st \<Rightarrow>
                    Inr \<lparr>nt_node_key = be_node_key e, nt_display_name = be_display_name e, nt_category = cat,
                      nt_description = be_description e, nt_icon = be_icon e,
                      nt_schema_version = or_default (be_schema_version e) 1,
                      nt_config_schema = or_empty (be_config_schema e), nt_capability = or_empty (be_capability e),
                      nt_certification = cert, nt_status = st, nt_engine_binding = or_empty (be_engine_binding e),
                      nt_security_profile = or_empty (be_security_profile e), nt_docs_ref = be_docs_ref e,
                      nt_spec_hash = entry_digest sha256 e,
                      nt_last_certified_at = (if be_certification e = Some ''SUPPORTED'' then Some now else None),
                      nt_known_issues = None\<rparr>)))"

definition refreshed :: "(string \<Rightarrow> string) \<Rightarrow> bundle_entry \<Rightarrow> node_category \<Rightarrow> node_row \<Rightarrow> node_row" where
  "refreshed sha256 e cat r = r\<lparr>nt_display_name := be_display_name e, nt_category := cat,
     nt_description := be_description e, nt_icon := be_icon e, nt_config_schema := or_empty (be_config_schema e),
     nt_capability := or_empty (be_capability e), nt_engine_binding := or_empty (be_engine_binding e),
     nt_security_profile := or_empty (be_security_profile e), nt_docs_ref := be_docs_ref e,
     nt_spec_hash := entry_digest sha256 e\<rparr>"

definition node_named :: "string \<Rightarrow> node_row list \<Rightarrow> node_row option" where
  "node_named key rows = find (\<lambda>r. nt_node_key r = key) rows"

definition up_to_date :: "(string \<Rightarrow> string) \<Rightarrow> bundle_entry \<Rightarrow> node_row \<Rightarrow> bool" where
  "up_to_date sha256 e r = (nt_spec_hash r = entry_digest sha256 e \<and> nt_display_name r = be_display_name e)"

text \<open>\<open>known\<close>: the keys that were in the table when the seeding began.\<close>

fun seed_entries :: "(string \<Rightarrow> string) \<Rightarrow> int \<Rightarrow> string list \<Rightarrow> bundle_entry list \<Rightarrow> node_row list \<times> nat \<times> nat
    \<Rightarrow> py_exc + node_row list \<times> nat \<times> nat" where
  "seed_entries sha256 now known [] st = Inr st"
| "seed_entries sha256 now known (e # es) (rows, created, updated) =
     (case (if be_node_key e \<in> set known then node_named (be_node_key e) rows else None) of
        None \<Rightarrow>
          (case new_row sha256 now e of
             Inl x \<Rightarrow> Inl x
           | Inr r \<Rightarrow> seed_entries sha256 now known es (rows @ [r], created + 1, updated))
      | Some r \<Rightarrow>
          if up_to_date sha256 e r then seed_entries sha256 now known es (rows, created, updated)
          else
            (case enum_or_crash (node_category_of (be_category e)) of
               Inl x \<Rightarrow> Inl x
             | Inr cat \<Rightarrow>
                 seed_entries sha256 now known es
                   (update_where (\<lambda>q. nt_node_key q = be_node_key e) (refreshed sha256 e cat) rows, created, updated + 1)))"

definition seed :: "(string \<Rightarrow> string) \<Rightarrow> int \<Rightarrow> bundle_entry list \<Rightarrow> node_row list \<Rightarrow> py_exc + node_row list \<times> nat \<times> nat" where
  "seed sha256 now entries rows =
     (case seed_entries sha256 now (map nt_node_key rows) entries (rows, 0, 0) of
        Inl x \<Rightarrow> Inl x
      | Inr (rows', created, updated) \<Rightarrow>
          if distinct (map nt_node_key rows') then Inr (rows', created, updated) else Inl IntegrityErr)"

section \<open>Projections\<close>

definition definitions_map :: "node_row list \<Rightarrow> (string \<times> dict) list" where
  "definitions_map rows = map (\<lambda>r. (nt_node_key r,
     [(''node_key'', JStr (nt_node_key r)), (''display_name'', JStr (nt_display_name r)),
      (''category'', JStr (node_category_value (nt_category r))), (''config_schema'', JObj (nt_config_schema r)),
      (''capability'', JObj (nt_capability r)), (''certification'', JStr (certification_value (nt_certification r))),
      (''status'', JStr (node_status_value (nt_status r))), (''product_schema_version'', JInt (nt_schema_version r)),
      (''engine_binding'', JObj (nt_engine_binding r)), (''security_profile'', JObj (nt_security_profile r))])) rows"

definition snapshot_entry :: "string \<Rightarrow> dict \<Rightarrow> dict" where
  "snapshot_entry key e =
     [(''node_key'', JStr key), (''engine_binding'', or_else (dget e ''engine_binding'') (JObj [])),
      (''capability'', or_else (dget e ''capability'') (JObj [])),
      (''product_schema_version'', case map_of e ''product_schema_version'' of None \<Rightarrow> JInt 1 | Some v \<Rightarrow> v),
      (''certification'', dget e ''certification''), (''status'', dget e ''status'')]"

definition registry_snapshot :: "(string \<times> dict) list \<Rightarrow> (string \<times> dict) list" where
  "registry_snapshot defs = map (\<lambda>(key, e). (key, snapshot_entry key e)) defs"

definition text_json :: "string option \<Rightarrow> json" where
  "text_json v = (case v of None \<Rightarrow> JNull | Some s \<Rightarrow> JStr s)"

definition public_view :: "bool \<Rightarrow> node_row \<Rightarrow> dict" where
  "public_view include_binding r =
     [(''node_key'', JStr (nt_node_key r)), (''display_name'', JStr (nt_display_name r)),
      (''category'', JStr (node_category_value (nt_category r))), (''description'', text_json (nt_description r)),
      (''icon'', text_json (nt_icon r)), (''certification'', JStr (certification_value (nt_certification r))),
      (''status'', JStr (node_status_value (nt_status r))), (''product_schema_version'', JInt (nt_schema_version r)),
      (''config_schema'', JObj (nt_config_schema r)), (''capability'', JObj (nt_capability r)),
      (''credential_types'', or_else (dget (nt_capability r) ''credential_types'') (JArr [])),
      (''security_profile'', JObj (nt_security_profile r)), (''docs_ref'', text_json (nt_docs_ref r)),
      (''spec_hash'', JStr (nt_spec_hash r)),
      (''last_certified_at'', case nt_last_certified_at r of None \<Rightarrow> JNull | Some t \<Rightarrow> JInt t),
      (''known_issues'', text_json (nt_known_issues r))]
     @ (if include_binding then [(''engine_binding'', JObj (nt_engine_binding r))] else [])"

section \<open>Queries\<close>

definition category_rank :: "node_category \<Rightarrow> nat" where
  "category_rank c = length (takeWhile (\<lambda>x. x \<noteq> c) node_category_members)"

definition node_visible :: "bool \<Rightarrow> node_row \<Rightarrow> bool" where
  "node_visible include_hidden r = (include_hidden \<or> nt_certification r \<notin> {CF_HIDDEN, CF_BLOCKED})"

definition node_matches :: "string \<Rightarrow> node_row \<Rightarrow> bool" where
  "node_matches needle r =
     (str_contains needle (str_lower (nt_display_name r)) \<or>
      str_contains needle (str_lower (text_or_empty (nt_description r))) \<or> str_contains needle (nt_node_key r))"

definition list_nodes :: "string option \<Rightarrow> string option \<Rightarrow> bool \<Rightarrow> bool \<Rightarrow> node_row list \<Rightarrow> dict list" where
  "list_nodes query category include_hidden include_binding rows =
     (let sorted = sort_key (\<lambda>r. category_rank (nt_category r)) (sort_key nt_display_name rows);
          out = filter (node_visible include_hidden) sorted;
          out = (if text_or_empty category = [] then out
                 else filter (\<lambda>r. node_category_value (nt_category r) = str_upper (text_or_empty category)) out);
          out = (if text_or_empty query = [] then out
                 else filter (node_matches (str_lower (str_strip (text_or_empty query)))) out)
      in map (public_view include_binding) out)"

definition get_node :: "string \<Rightarrow> bool \<Rightarrow> node_row list \<Rightarrow> service_error + dict" where
  "get_node key include_binding rows =
     (case node_named key rows of
        None \<Rightarrow> Inl (App (raise_class NotFoundError))
      | Some r \<Rightarrow> Inr (public_view include_binding r))"

definition put_node :: "node_row \<Rightarrow> node_row list \<Rightarrow> node_row list" where
  "put_node r rows = update_where (\<lambda>q. nt_node_key q = nt_node_key r) (\<lambda>_. r) rows"

definition set_certification :: "int \<Rightarrow> string \<Rightarrow> string \<Rightarrow> node_row list \<Rightarrow> (service_error + dict) \<times> node_row list" where
  "set_certification now key raw rows =
     (case node_named key rows of
        None \<Rightarrow> (Inl (App (raise_class NotFoundError)), rows)
      | Some r \<Rightarrow>
          (case certification_of raw of
             None \<Rightarrow> (Inl (Crash ValueErr), rows)
           | Some c \<Rightarrow>
               (let r' = r\<lparr>nt_certification := c, nt_last_certified_at := (if c = CF_SUPPORTED then Some now else nt_last_certified_at r)\<rparr>
                in (Inr (public_view True r'), put_node r' rows))))"

definition set_node_status :: "string \<Rightarrow> string \<Rightarrow> node_row list \<Rightarrow> (service_error + dict) \<times> node_row list" where
  "set_node_status key raw rows =
     (case node_named key rows of
        None \<Rightarrow> (Inl (App (raise_class NotFoundError)), rows)
      | Some r \<Rightarrow>
          (case node_status_of raw of
             None \<Rightarrow> (Inl (Crash ValueErr), rows)
           | Some s \<Rightarrow> (let r' = r\<lparr>nt_status := s\<rparr> in (Inr (public_view True r'), put_node r' rows))))"

section \<open>Routes\<close>

definition nodes_route :: "request_context \<Rightarrow> string option \<Rightarrow> string option \<Rightarrow> node_row list \<Rightarrow> service_error + dict list" where
  "nodes_route ctx query category rows =
     (case ctx_require ctx M_NODES A_VIEW of
        Inl e \<Rightarrow> Inl e
      | Inr _ \<Rightarrow> Inr (list_nodes query category (ctx_is_platform_admin ctx) False rows))"

definition node_route :: "request_context \<Rightarrow> string \<Rightarrow> node_row list \<Rightarrow> service_error + dict" where
  "node_route ctx key rows =
     (case ctx_require ctx M_NODES A_VIEW of Inl e \<Rightarrow> Inl e | Inr _ \<Rightarrow> get_node key False rows)"

definition config_schema_route :: "request_context \<Rightarrow> string \<Rightarrow> node_row list \<Rightarrow> service_error + dict" where
  "config_schema_route ctx key rows =
     (case node_route ctx key rows of
        Inl e \<Rightarrow> Inl e
      | Inr node \<Rightarrow> Inr (map (\<lambda>k. (k, dget node k))
          [''node_key'', ''product_schema_version'', ''config_schema'', ''capability'', ''spec_hash'']))"


definition admin_nodes_route :: "request_context \<Rightarrow> node_row list \<Rightarrow> service_error + dict list" where
  "admin_nodes_route ctx rows =
     (case platform_admin ctx of Inl e \<Rightarrow> Inl e | Inr _ \<Rightarrow> Inr (list_nodes None None True True rows))"

definition node_entry :: "string \<Rightarrow> string \<Rightarrow> dict \<Rightarrow> audit_entry" where
  "node_entry act key after = (entry act ''NODE'' [] key)\<lparr>aa_resource := NoResource, aa_after := after\<rparr>"

definition certify_route :: "env \<Rightarrow> request_context \<Rightarrow> string \<Rightarrow> string \<Rightarrow> node_row list \<Rightarrow> db
    \<Rightarrow> (service_error + dict) \<times> node_row list \<times> db" where
  "certify_route env ctx key raw rows d =
     (case platform_admin ctx of
        Inl e \<Rightarrow> (Inl e, rows, d)
      | Inr _ \<Rightarrow>
          (case set_certification (env_now env) key raw rows of
             (Inl e, _) \<Rightarrow> (Inl e, rows, d)
           | (Inr view, rows') \<Rightarrow>
               (Inr view, rows', audit_record env ctx
                  (node_entry ''node.certification_changed'' key [(''certification'', JStr raw)]) d)))"

definition node_status_route :: "env \<Rightarrow> request_context \<Rightarrow> string \<Rightarrow> string \<Rightarrow> node_row list \<Rightarrow> db
    \<Rightarrow> (service_error + dict) \<times> node_row list \<times> db" where
  "node_status_route env ctx key raw rows d =
     (case platform_admin ctx of
        Inl e \<Rightarrow> (Inl e, rows, d)
      | Inr _ \<Rightarrow>
          (case set_node_status key raw rows of
             (Inl e, _) \<Rightarrow> (Inl e, rows, d)
           | (Inr view, rows') \<Rightarrow>
               (Inr view, rows', audit_record env ctx (node_entry ''node.status_changed'' key [(''status'', JStr raw)]) d)))"

section \<open>Seeding settles\<close>

definition admin_choice :: "node_row \<Rightarrow> certification \<times> node_status \<times> int option \<times> int" where
  "admin_choice r = (nt_certification r, nt_status r, nt_last_certified_at r, nt_schema_version r)"

lemma node_named_append: "node_named k (rows @ [r]) =
    (case node_named k rows of Some q \<Rightarrow> Some q | None \<Rightarrow> if nt_node_key r = k then Some r else None)"
  by (simp add: node_named_def find_append split: option.splits)

lemma node_named_update:
  "(\<And>r. nt_node_key (f r) = nt_node_key r) \<Longrightarrow>
   node_named k (update_where (\<lambda>q. nt_node_key q = k') f rows) =
     (if k = k' then map_option f (node_named k rows) else node_named k rows)"
  by (induction rows) (auto simp: node_named_def)

lemma refreshed_simps [simp]:
  "nt_node_key (refreshed sha e cat r) = nt_node_key r"
  "admin_choice (refreshed sha e cat r) = admin_choice r"
  "up_to_date sha e (refreshed sha e cat r)"
  by (simp_all add: refreshed_def admin_choice_def up_to_date_def)

lemma new_row_facts: "new_row sha now e = Inr r \<Longrightarrow> nt_node_key r = be_node_key e \<and> up_to_date sha e r"
  by (auto simp: new_row_def up_to_date_def split: sum.splits)

lemma seed_entries_effect:
  assumes "seed_entries sha now known es (rows, c, u) = Inr (rows', c', u')"
    and "distinct (map be_node_key es)"
    and "\<forall>e \<in> set es. (be_node_key e \<in> set known) = (node_named (be_node_key e) rows \<noteq> None)"
  shows "(\<forall>e \<in> set es. \<exists>r. node_named (be_node_key e) rows' = Some r \<and> up_to_date sha e r) \<and>
    (\<forall>k. k \<notin> be_node_key ` set es \<longrightarrow> node_named k rows' = node_named k rows) \<and>
    (\<forall>k r. node_named k rows = Some r \<longrightarrow> (\<exists>r'. node_named k rows' = Some r' \<and> admin_choice r' = admin_choice r))"
  using assms
proof (induction es arbitrary: rows c u)
  case (Cons e es)
  have fresh: "be_node_key e \<notin> be_node_key ` set es" using Cons.prems(2) by auto
  have tail: "distinct (map be_node_key es)" using Cons.prems(2) by simp
  show ?case
  proof (cases "if be_node_key e \<in> set known then node_named (be_node_key e) rows else None")
    case None
    then have none: "node_named (be_node_key e) rows = None" using Cons.prems(3) by (auto split: if_splits)
    with None Cons.prems(1) obtain r where r: "new_row sha now e = Inr r"
      and rest: "seed_entries sha now known es (rows @ [r], c + 1, u) = Inr (rows', c', u')"
      by (auto split: sum.splits)
    have "\<forall>q \<in> set es. (be_node_key q \<in> set known) = (node_named (be_node_key q) (rows @ [r]) \<noteq> None)"
      using Cons.prems(3) new_row_facts [OF r] fresh by (auto simp: node_named_append split: option.splits)
    from Cons.IH [OF rest tail this] new_row_facts [OF r] none fresh show ?thesis
      by (fastforce simp: node_named_append split: option.splits)
  next
    case (Some r)
    then have named: "node_named (be_node_key e) rows = Some r" by (auto split: if_splits)
    show ?thesis
    proof (cases "up_to_date sha e r")
      case True
      with Some Cons.prems(1) have "seed_entries sha now known es (rows, c, u) = Inr (rows', c', u')" by simp
      from Cons.IH [OF this tail] Cons.prems(3) named fresh True show ?thesis by auto
    next
      case False
      with Some Cons.prems(1) obtain cat where
        rest: "seed_entries sha now known es (update_where (\<lambda>q. nt_node_key q = be_node_key e) (refreshed sha e cat) rows, c, u + 1)
          = Inr (rows', c', u')"
        by (auto split: sum.splits)
      have "\<forall>q \<in> set es. (be_node_key q \<in> set known) =
          (node_named (be_node_key q) (update_where (\<lambda>q. nt_node_key q = be_node_key e) (refreshed sha e cat) rows) \<noteq> None)"
        using Cons.prems(3) by (auto simp: node_named_update)
      from Cons.IH [OF rest tail this] named fresh show ?thesis
        by (auto simp: node_named_update split: if_splits) (metis option.inject refreshed_simps(2))+
    qed
  qed
qed auto

lemma seed_entries_settled:
  "\<forall>e \<in> set es. be_node_key e \<in> set known \<and> (\<exists>r. node_named (be_node_key e) rows = Some r \<and> up_to_date sha e r) \<Longrightarrow>
   seed_entries sha now known es (rows, c, u) = Inr (rows, c, u)"
  by (induction es) auto

lemma node_named_key: "node_named k rows \<noteq> None \<longleftrightarrow> k \<in> nt_node_key ` set rows"
  by (induction rows) (auto simp: node_named_def)

text \<open>
  Seeding settles. After an accepted seeding of a catalogue whose keys are distinct, seeding the same
  catalogue again at any later moment creates nothing, updates nothing and leaves the table as it is; and what
  an administrator has set on an existing node type -- certification, status, the time of certification --
  survives every seeding. So does the schema version, also where the configuration schema was replaced.
\<close>

lemma seeding_settles:
  assumes "seed sha now entries rows = Inr (rows', created, updated)"
    and "distinct (map be_node_key entries)"
  shows "seed sha later entries rows' = Inr (rows', 0, 0)"
    and "node_named k rows = Some r \<Longrightarrow> \<exists>r'. node_named k rows' = Some r' \<and> nt_certification r' = nt_certification r \<and>
      nt_status r' = nt_status r \<and> nt_last_certified_at r' = nt_last_certified_at r \<and> nt_schema_version r' = nt_schema_version r"
proof -
  from assms(1) have run: "seed_entries sha now (map nt_node_key rows) entries (rows, 0, 0) = Inr (rows', created, updated)"
    and d: "distinct (map nt_node_key rows')"
    by (auto simp: seed_def split: sum.splits if_splits)
  have "\<forall>e \<in> set entries. (be_node_key e \<in> set (map nt_node_key rows)) = (node_named (be_node_key e) rows \<noteq> None)"
    by (simp add: node_named_key del: not_None_eq)
  note effect = seed_entries_effect [OF run assms(2) this]
  then have "\<forall>e \<in> set entries. be_node_key e \<in> set (map nt_node_key rows') \<and>
      (\<exists>r. node_named (be_node_key e) rows' = Some r \<and> up_to_date sha e r)"
    using node_named_key by fastforce
  from seed_entries_settled [OF this] d show "seed sha later entries rows' = Inr (rows', 0, 0)"
    by (simp add: seed_def)
  show "node_named k rows = Some r \<Longrightarrow> \<exists>r'. node_named k rows' = Some r' \<and> nt_certification r' = nt_certification r \<and>
      nt_status r' = nt_status r \<and> nt_last_certified_at r' = nt_last_certified_at r \<and> nt_schema_version r' = nt_schema_version r"
    using effect by (fastforce simp: admin_choice_def)
qed

definition manual_entry :: bundle_entry where
  "manual_entry = \<lparr>be_node_key = ''manual'', be_display_name = ''Manual'', be_category = ''TRIGGER'', be_description = None,
     be_icon = None, be_schema_version = Some 2, be_config_schema = None, be_capability = None,
     be_certification = Some ''SUPPORTED'', be_status = None, be_engine_binding = None, be_security_profile = None, be_docs_ref = None\<rparr>"

definition disabled_row :: node_row where
  "disabled_row = \<lparr>nt_node_key = ''manual'', nt_display_name = ''Run'', nt_category = NC_TRIGGER, nt_description = None,
     nt_icon = None, nt_schema_version = 1, nt_config_schema = [], nt_capability = [], nt_certification = CF_BLOCKED,
     nt_status = NS_DISABLED, nt_engine_binding = [], nt_security_profile = [], nt_docs_ref = None, nt_spec_hash = [],
     nt_last_certified_at = None, nt_known_issues = None\<rparr>"

lemma seeding_settles_example:
  "\<exists>rows'. seed id 0 [manual_entry] [disabled_row] = Inr (rows', 0, 1) \<and>
     seed id 7 [manual_entry] rows' = Inr (rows', 0, 0) \<and> map nt_status rows' = [NS_DISABLED] \<and> map nt_schema_version rows' = [1]"
proof -
  let ?rows = "[refreshed id manual_entry NC_TRIGGER disabled_row]"
  have cat: "node_category_of ''TRIGGER'' = Some NC_TRIGGER"
    using node_category_of_value [of NC_TRIGGER] by simp
  have run: "seed id 0 [manual_entry] [disabled_row] = Inr (?rows, 0, 1)"
    by (simp add: seed_def node_named_def up_to_date_def enum_or_crash_def manual_entry_def disabled_row_def cat)
  with seeding_settles(1) [OF run, of 7] show ?thesis
    by (simp add: refreshed_def disabled_row_def manual_entry_def)
qed

end
