(* ===== verification/Housekeeping.thy ===== *)
theory Housekeeping
  imports Gateway RateLimit
begin

text \<open>
  The slow loop of the worker, \<open>app/worker.py\<close>: the engine probe, alerts for late schedules, retention and
  the pruning of rate-limit buckets. What the engine answers (\<open>EngineHealth\<close>, \<open>app/engine/dto.py\<close>) is
  an argument. A query without an order returns the rows in the order of the table.
\<close>

section \<open>The engine's health\<close>

record engine_health =
  eh_reachable :: bool
  eh_status :: string
  eh_engine_version :: "string option"
  eh_adapter_contract_version :: "string option"
  eh_compiler_version :: "string option"
  eh_message :: "string option"
  eh_loaded_nodes :: "string list"
  eh_latency_ms :: "int option"

definition health_state :: "engine_health \<Rightarrow> engine_status" where
  "health_state h =
     (if eh_status h = ''HEALTHY'' then ES_HEALTHY else if eh_reachable h then ES_DEGRADED else ES_OFFLINE)"

definition default_engine :: "db \<Rightarrow> engine_instance option" where
  "default_engine d = find ei_is_default (db_engines d)"

definition put_engine :: "engine_instance \<Rightarrow> db \<Rightarrow> db" where
  "put_engine i d = d\<lparr>db_engines := update_where (\<lambda>r. ei_id r = ei_id i) (\<lambda>_. i) (db_engines d)\<rparr>"

text \<open>\<open>v or old\<close> on texts.\<close>

definition newer :: "string option \<Rightarrow> string option \<Rightarrow> string option" where
  "newer v old = (if text_or_empty v \<noteq> [] then v else old)"

definition probed :: "env \<Rightarrow> engine_health \<Rightarrow> engine_instance \<Rightarrow> engine_instance" where
  "probed env h i = i\<lparr>ei_status := health_state h, ei_engine_version := newer (eh_engine_version h) (ei_engine_version i),
     ei_last_probe_at := Some (env_now env), ei_last_worker_beat_at := Some (env_now env)\<rparr>"

definition outage_alert :: "engine_status \<Rightarrow> alert_args" where
  "outage_alert s = \<lparr>al_event = AE_ENGINE_DEGRADED, al_workflow_id = None, al_execution_id = None,
     al_severity = ''CRITICAL'', al_remediation = Some [(''action'', JStr ''CONTACT_ADMIN'')],
     al_parts = [engine_status_value s]\<rparr>"

definition announce_outage :: "env \<Rightarrow> engine_status \<Rightarrow> workspace list \<Rightarrow> db \<Rightarrow> db" where
  "announce_outage env s wss d = foldl (\<lambda>d w. snd (raise_alert env (ws_id w) (outage_alert s) d)) d wss"

definition probe_engine :: "env \<Rightarrow> engine_health \<Rightarrow> db \<Rightarrow> db" where
  "probe_engine env h d =
     (case default_engine d of
        None \<Rightarrow> d
      | Some i \<Rightarrow>
          (let i' = probed env h i; d' = put_engine i' d in
           if ei_status i' \<noteq> ES_HEALTHY \<and> ei_status i = ES_HEALTHY
           then announce_outage env (ei_status i') (db_workspaces d') d' else d'))"

section \<open>Late schedules\<close>

definition missed_alert :: "trigger_binding \<Rightarrow> alert_args" where
  "missed_alert b = \<lparr>al_event = AE_SCHEDULE_MISSED, al_workflow_id = Some (tb_workflow_id b), al_execution_id = None,
     al_severity = ''WARNING'',
     al_remediation = Some [(''action'', JStr ''OPEN_WORKFLOW''), (''resource_id'', JStr (show_uuid (tb_workflow_id b)))],
     al_parts = [show_uuid (tb_id b)]\<rparr>"

definition alert_missed_schedules :: "env \<Rightarrow> db \<Rightarrow> db" where
  "alert_missed_schedules env d =
     foldl (\<lambda>d b. snd (raise_alert env (tb_workspace_id b) (missed_alert b) d)) d (detect_missed (env_now env) d)"

section \<open>Retention\<close>

definition retention_cutoff :: "env \<Rightarrow> int" where
  "retention_cutoff env = env_now env - seconds (cfg_preview_retention_days (env_settings env) * 86400)"

definition expired :: "int \<Rightarrow> execution \<Rightarrow> bool" where
  "expired cutoff e = (case ex_ended_at e of None \<Rightarrow> False | Some t \<Rightarrow> t < cutoff)"

definition stale_ids :: "int \<Rightarrow> db \<Rightarrow> uuid list" where
  "stale_ids cutoff d = take 500 (map ex_id (filter (expired cutoff) (db_executions d)))"

definition prune_previews :: "env \<Rightarrow> db \<Rightarrow> db" where
  "prune_previews env d =
     (let stale = stale_ids (retention_cutoff env) d in
      if stale = [] then d
      else d\<lparr>db_node_results := delete_where (\<lambda>r. nr_execution_id r \<in> set stale) (db_node_results d),
             db_logs := delete_where (\<lambda>l. lg_execution_id l \<in> set stale) (db_logs d)\<rparr>)"

text \<open>One round; \<open>rate_limit.prune\<close> keeps an hour.\<close>

definition housekeeping :: "env \<Rightarrow> engine_health \<Rightarrow> db \<Rightarrow> db" where
  "housekeeping env h d =
     snd (rate_prune env 3600 (prune_previews env (alert_missed_schedules env (probe_engine env h d))))"

section \<open>What a round leaves alone\<close>

lemma raise_alert_keeps:
  "db_engines (snd (raise_alert env i a d)) = db_engines d"
  "db_executions (snd (raise_alert env i a d)) = db_executions d"
  "db_workspaces (snd (raise_alert env i a d)) = db_workspaces d"
  "db_rules (snd (raise_alert env i a d)) = db_rules d"
  "db_node_results (snd (raise_alert env i a d)) = db_node_results d"
  "db_logs (snd (raise_alert env i a d)) = db_logs d"
  by (simp_all add: raise_alert_def Let_def bump_def split: option.splits)

lemma announce_outage_keeps [simp]:
  "db_engines (announce_outage env s wss d) = db_engines d"
  "db_executions (announce_outage env s wss d) = db_executions d"
  "db_rules (announce_outage env s wss d) = db_rules d"
  by (induction wss arbitrary: d; simp add: announce_outage_def raise_alert_keeps)+

lemma default_engine_put: "default_engine d = Some i \<Longrightarrow> ei_is_default i' \<Longrightarrow> ei_id i' = ei_id i \<Longrightarrow>
    default_engine (put_engine i' d) = Some i'"
proof -
  have "find ei_is_default rows = Some i \<Longrightarrow> ei_is_default i' \<Longrightarrow> ei_id i' = ei_id i \<Longrightarrow>
      find ei_is_default (update_where (\<lambda>r. ei_id r = ei_id i') (\<lambda>_. i') rows) = Some i'" for rows
    by (induction rows) (auto split: if_splits)
  then show "default_engine d = Some i \<Longrightarrow> ei_is_default i' \<Longrightarrow> ei_id i' = ei_id i \<Longrightarrow>
      default_engine (put_engine i' d) = Some i'"
    by (simp add: default_engine_def put_engine_def)
qed


lemma rate_prune_keeps [simp]:
  "db_executions (snd (rate_prune env a d)) = db_executions d"
  "db_node_results (snd (rate_prune env a d)) = db_node_results d"
  "db_logs (snd (rate_prune env a d)) = db_logs d"
  by (simp_all add: rate_prune_def Let_def)

lemma alert_missed_keeps [simp]:
  "db_executions (alert_missed_schedules env d) = db_executions d"
  "db_node_results (alert_missed_schedules env d) = db_node_results d"
  "db_logs (alert_missed_schedules env d) = db_logs d"
proof -
  let ?step = "\<lambda>d b. snd (raise_alert env (tb_workspace_id b) (missed_alert b) d)"
  have "db_executions (foldl ?step d bs) = db_executions d \<and> db_node_results (foldl ?step d bs) = db_node_results d
      \<and> db_logs (foldl ?step d bs) = db_logs d" for bs
    by (induction bs arbitrary: d) (simp_all add: raise_alert_keeps)
  then show "db_executions (alert_missed_schedules env d) = db_executions d"
    "db_node_results (alert_missed_schedules env d) = db_node_results d"
    "db_logs (alert_missed_schedules env d) = db_logs d"
    by (simp_all add: alert_missed_schedules_def)
qed

lemma announce_outage_keeps_runs [simp]:
  "db_node_results (announce_outage env s wss d) = db_node_results d"
  "db_logs (announce_outage env s wss d) = db_logs d"
  by (induction wss arbitrary: d; simp add: announce_outage_def raise_alert_keeps)+

lemma probe_keeps [simp]:
  "db_executions (probe_engine env h d) = db_executions d"
  "db_node_results (probe_engine env h d) = db_node_results d"
  "db_logs (probe_engine env h d) = db_logs d"
  by (simp_all add: probe_engine_def put_engine_def Let_def split: option.splits)

lemma prune_previews_rows:
  "db_executions (prune_previews env d) = db_executions d"
  "db_node_results (prune_previews env d) =
     delete_where (\<lambda>r. nr_execution_id r \<in> set (stale_ids (retention_cutoff env) d)) (db_node_results d)"
  "db_logs (prune_previews env d) =
     delete_where (\<lambda>l. lg_execution_id l \<in> set (stale_ids (retention_cutoff env) d)) (db_logs d)"
  by (simp_all add: prune_previews_def Let_def delete_where_def)

lemma stale_ids_cong: "db_executions d' = db_executions d \<Longrightarrow> stale_ids c d' = stale_ids c d"
  by (simp add: stale_ids_def)

lemma housekeeping_rows:
  "db_executions (housekeeping env h d) = db_executions d"
  "db_node_results (housekeeping env h d) =
     delete_where (\<lambda>r. nr_execution_id r \<in> set (stale_ids (retention_cutoff env) d)) (db_node_results d)"
  "db_logs (housekeeping env h d) =
     delete_where (\<lambda>l. lg_execution_id l \<in> set (stale_ids (retention_cutoff env) d)) (db_logs d)"
  by (simp_all add: housekeeping_def prune_previews_rows
      stale_ids_cong [of "alert_missed_schedules env (probe_engine env h d)" d])

section \<open>Retention\<close>

lemma expired_mono: "expired c e \<Longrightarrow> c \<le> c' \<Longrightarrow> expired c' e"
  by (auto simp: expired_def split: option.splits)

lemma length_filter_mono: "(\<And>x. P x \<Longrightarrow> Q x) \<Longrightarrow> length (filter P xs) \<le> length (filter Q xs)"
  by (induction xs) auto

text \<open>A run that one pass does not take is not taken by any later pass: the runs before it in the table
  are still expired, and their rows are still there.\<close>

lemma never_among_stale:
  assumes ids: "distinct (map ex_id (db_executions d))"
    and e: "e \<in> set (db_executions d)" "expired c e" "ex_id e \<notin> set (stale_ids c d)"
    and c: "c \<le> c'"
  shows "ex_id e \<notin> set (stale_ids c' d)"
proof -
  obtain pre post where split: "db_executions d = pre @ e # post"
    using e(1) by (meson split_list)
  have "500 \<le> length (filter (expired c) pre)"
    using e by (auto simp: stale_ids_def split not_less_eq_eq take_Cons' split: if_splits)
  then have "500 \<le> length (filter (expired c') pre)"
    using length_filter_mono [of "expired c" "expired c'" pre] expired_mono [OF _ c] by fastforce
  then have "stale_ids c' d = take 500 (map ex_id (filter (expired c') pre))"
    by (simp add: stale_ids_def split)
  then have "set (stale_ids c' d) \<subseteq> ex_id ` set pre"
    using set_take_subset [of 500 "map ex_id (filter (expired c') pre)"] by auto
  then show ?thesis
    using ids by (auto simp: split)
qed

lemma filter_delete_where: "(\<And>x. P x \<Longrightarrow> \<not> D x) \<Longrightarrow> filter P (delete_where D xs) = filter P xs"
  by (induction xs) (auto simp: delete_where_def)

lemma clears_small_backlog:
  assumes "count_where (expired (retention_cutoff env)) (db_executions d) \<le> 500"
    and "e \<in> set (db_executions d)" "expired (retention_cutoff env) e"
  shows "r \<in> set (db_node_results (housekeeping env h d)) \<Longrightarrow> nr_execution_id r \<noteq> ex_id e"
    and "l \<in> set (db_logs (housekeeping env h d)) \<Longrightarrow> lg_execution_id l \<noteq> ex_id e"
proof -
  have "ex_id e \<in> set (stale_ids (retention_cutoff env) d)"
    using assms by (simp add: stale_ids_def count_where_def)
  then show "r \<in> set (db_node_results (housekeeping env h d)) \<Longrightarrow> nr_execution_id r \<noteq> ex_id e"
    and "l \<in> set (db_logs (housekeeping env h d)) \<Longrightarrow> lg_execution_id l \<noteq> ex_id e"
    by (auto simp: housekeeping_rows set_delete_where)
qed


text \<open>A run that one round does not take keeps its results and logs through all later rounds.\<close>

lemma left_behind:
  assumes "distinct (map ex_id (db_executions d))" "e \<in> set (db_executions d)" "expired (retention_cutoff env) e"
    and "ex_id e \<notin> set (stale_ids (retention_cutoff env) d)"
    and "\<forall>(v, _) \<in> set rounds. retention_cutoff env \<le> retention_cutoff v"
    and "d' = run (\<lambda>d (v, answer). housekeeping v answer d) d rounds"
  shows "filter (\<lambda>r. nr_execution_id r = ex_id e) (db_node_results d') = filter (\<lambda>r. nr_execution_id r = ex_id e) (db_node_results d) \<and>
      filter (\<lambda>l. lg_execution_id l = ex_id e) (db_logs d') = filter (\<lambda>l. lg_execution_id l = ex_id e) (db_logs d)"
  using assms(4-6,1-3)
  proof (induction rounds arbitrary: d)
    case (Cons round rounds)
    obtain v answer where round: "round = (v, answer)" by fastforce
    have out: "ex_id e \<notin> set (stale_ids (retention_cutoff v) d)"
      using never_among_stale [OF Cons.prems(4-6) Cons.prems(1)] Cons.prems(2) round by auto
    have kept: "filter (\<lambda>r. nr_execution_id r = ex_id e) (db_node_results (housekeeping v answer d)) =
          filter (\<lambda>r. nr_execution_id r = ex_id e) (db_node_results d)"
        "filter (\<lambda>l. lg_execution_id l = ex_id e) (db_logs (housekeeping v answer d)) =
          filter (\<lambda>l. lg_execution_id l = ex_id e) (db_logs d)"
      unfolding housekeeping_rows using out by (auto intro!: filter_delete_where)
    have "run (\<lambda>d (v, answer). housekeeping v answer d) (housekeeping v answer d) rounds = d'"
      using Cons.prems(3) round by simp
    moreover have "stale_ids c (housekeeping v answer d) = stale_ids c d" for c
      by (rule stale_ids_cong) (rule housekeeping_rows)
    ultimately show ?case
      using Cons.IH [of "housekeeping v answer d"] Cons.prems(1,2,4-) by (simp only: kept housekeeping_rows(1)) simp
  qed simp

text \<open>
  Retention takes at most five hundred runs and always the same ones. When no more than five hundred runs
  are past their retention window, one round of the housekeeping loop removes the node results and log lines
  of all of them. When there are more, the results and logs of a run that the first round does not take
  survive every number of further rounds: \<open>_prune_previews\<close> limits the runs, not the rows that are left to
  remove, and the runs it has cleared keep matching.
\<close>

lemma retention_starves_the_rest:
  assumes "distinct (map ex_id (db_executions d))" "e \<in> set (db_executions d)" "expired (retention_cutoff env) e"
    and "\<forall>(v, _) \<in> set rounds. retention_cutoff env \<le> retention_cutoff v"
    and "d' = run (\<lambda>d (v, answer). housekeeping v answer d) d rounds"
  shows "(count_where (expired (retention_cutoff env)) (db_executions d) \<le> 500 \<longrightarrow>
      (\<forall>r \<in> set (db_node_results (housekeeping env h d)). nr_execution_id r \<noteq> ex_id e) \<and>
      (\<forall>l \<in> set (db_logs (housekeeping env h d)). lg_execution_id l \<noteq> ex_id e)) \<and>
    (ex_id e \<notin> set (stale_ids (retention_cutoff env) d) \<longrightarrow>
      filter (\<lambda>r. nr_execution_id r = ex_id e) (db_node_results d') = filter (\<lambda>r. nr_execution_id r = ex_id e) (db_node_results d) \<and>
      filter (\<lambda>l. lg_execution_id l = ex_id e) (db_logs d') = filter (\<lambda>l. lg_execution_id l = ex_id e) (db_logs d))"
  using clears_small_backlog [OF _ assms(2,3)] left_behind [OF assms(1-3) _ assms(4,5)] by blast

definition old_run :: "nat \<Rightarrow> execution" where
  "old_run n = demo_execution\<lparr>ex_id := replicate n (CHR ''a''), ex_ended_at := Some (- seconds 86401)\<rparr>"

definition crowded_db :: db where
  "crowded_db = empty_db\<lparr>db_executions := map old_run [0..<501]\<rparr>"

lemma crowded_db_facts:
  assumes "cfg_preview_retention_days (env_settings env) = 1" "env_now env = 0"
  shows "distinct (map ex_id (db_executions crowded_db))" "expired (retention_cutoff env) (old_run n)"
    "stale_ids (retention_cutoff env) crowded_db = map (\<lambda>n. replicate n (CHR ''a'')) [0..<500]"
proof -
  have old: "expired (retention_cutoff env) (old_run n)" for n
    using assms by (simp add: expired_def retention_cutoff_def old_run_def seconds_def)
  then show "expired (retention_cutoff env) (old_run n)" .
  have "inj (\<lambda>n. replicate n (CHR ''a''))"
    by (rule injI) (metis length_replicate)
  then show "distinct (map ex_id (db_executions crowded_db))"
    by (simp add: crowded_db_def old_run_def distinct_map comp_def inj_on_subset [of _ UNIV])
  have "filter (expired (retention_cutoff env)) (map old_run ns) = map old_run ns" for ns
    using old by (induction ns) auto
  then show "stale_ids (retention_cutoff env) crowded_db = map (\<lambda>n. replicate n (CHR ''a'')) [0..<500]"
    by (simp add: stale_ids_def crowded_db_def take_map comp_def old_run_def del: upt_Suc)
qed


lemma retention_starves_the_rest_example:
  "let env = demo_env\<lparr>env_settings := (env_settings demo_env)\<lparr>cfg_preview_retention_days := 1\<rparr>\<rparr>; e = old_run 500
   in ex_id e \<notin> set (stale_ids (retention_cutoff env) crowded_db) \<and>
      (\<forall>health n. filter (\<lambda>l. lg_execution_id l = ex_id e)
         (db_logs (run (\<lambda>d (v, answer). housekeeping v answer d) crowded_db (replicate n (env, health)))) =
       filter (\<lambda>l. lg_execution_id l = ex_id e) (db_logs crowded_db))"
proof -
  define env where "env = demo_env\<lparr>env_settings := (env_settings demo_env)\<lparr>cfg_preview_retention_days := 1\<rparr>\<rparr>"
  have env: "cfg_preview_retention_days (env_settings env) = 1" "env_now env = 0"
    by (simp_all add: env_def demo_env_def)
  note facts = crowded_db_facts [OF env]
  have e: "old_run 500 \<in> set (db_executions crowded_db)"
    by (simp add: crowded_db_def)
  have out: "ex_id (old_run 500) \<notin> set (stale_ids (retention_cutoff env) crowded_db)"
    by (auto simp: facts(3) old_run_def replicate_eq_replicate)
  have "filter (\<lambda>l. lg_execution_id l = ex_id (old_run 500))
         (db_logs (run (\<lambda>d (v, answer). housekeeping v answer d) crowded_db (replicate n (env, health)))) =
       filter (\<lambda>l. lg_execution_id l = ex_id (old_run 500)) (db_logs crowded_db)" for health n
    using retention_starves_the_rest [OF facts(1) e facts(2), of "replicate n (env, health)" _ health] out by auto
  then show ?thesis
    using out by (simp add: Let_def flip: env_def)
qed

end
