(* ===== verification/Monitoring.thy ===== *)
theory Monitoring
  imports Catalog Housekeeping
begin

text \<open>
  Dashboards and engine status, \<open>app/services/monitoring.py\<close>. A success rate is the pair of counts that the
  code divides and rounds. The rank of a percentile, \<open>int(round(fraction * (n - 1)))\<close>, is float arithmetic and
  an argument. Groups of equal size come in the order of their first row. What the engine answers is an
  argument, \<^const>\<open>None\<close> where the call raises.
\<close>

section \<open>Aggregates\<close>

definition day :: int where "day = seconds 86400"

definition FINISHED_FOR_RATE :: "execution_status list" where
  "FINISHED_FOR_RATE = [EX_SUCCEEDED, EX_FAILED, EX_TIMED_OUT, EX_ENGINE_INTERRUPTED, EX_FAILED_TO_START]"

definition success_rate :: "int \<Rightarrow> uuid \<Rightarrow> int \<Rightarrow> db \<Rightarrow> (nat \<times> nat) option" where
  "success_rate now wid days d =
     (let rows = filter (\<lambda>e. ex_workspace_id e = wid \<and> ex_queued_at e \<ge> now - days * day \<and>
            ex_status e \<in> set FINISHED_FOR_RATE) (db_executions d);
          total = length rows; succeeded = count_where (\<lambda>e. ex_status e = EX_SUCCEEDED) rows
      in if total = 0 then None else Some (succeeded, total))"

definition percentile :: "(int \<Rightarrow> int) \<Rightarrow> int list \<Rightarrow> int option" where
  "percentile rank xs =
     (if xs = [] then None
      else
        (let last = int (length xs) - 1 in Some (xs ! nat (min last (rank last)))))"

text \<open>\<open>GROUP BY key ORDER BY count DESC\<close>.\<close>

definition group_counts :: "'k list \<Rightarrow> ('k \<times> nat) list" where
  "group_counts ks = sort_key (\<lambda>(_, n). - int n) (map (\<lambda>k. (k, count_where (\<lambda>x. x = k) ks)) (rev (remdups (rev ks))))"

definition workflow_names :: "uuid \<Rightarrow> uuid list \<Rightarrow> db \<Rightarrow> (uuid \<times> string) list" where
  "workflow_names wid ids d =
     (if ids = [] then []
      else map (\<lambda>w. (wf_id w, wf_name w)) (filter (\<lambda>w. wf_workspace_id w = wid \<and> wf_id w \<in> set ids) (db_workflows d)))"

text \<open>\<open>int()\<close> of the milliseconds between two moments: towards zero.\<close>

definition wait_ms :: "execution \<Rightarrow> int option" where
  "wait_ms e = map_option (\<lambda>s. let w = s - ex_queued_at e in sgn w * (\<bar>w\<bar> div 1000)) (ex_started_at e)"

section \<open>Overview\<close>

record overview_stats =
  ov_total_workflows :: nat
  ov_active_workflows :: nat
  ov_draft_only :: nat
  ov_running_now :: nat
  ov_failed_24h :: nat
  ov_success_rate_7d :: "(nat \<times> nat) option"
  ov_credentials_needing_attention :: nat
  ov_unread_alerts :: nat

record overview_view =
  ov_stats :: overview_stats
  ov_recent_failures :: "(execution \<times> string option) list"
  ov_running :: "(execution \<times> string option) list"
  ov_upcoming :: "(trigger_binding \<times> string option) list"

definition live_workflow :: "uuid \<Rightarrow> workflow \<Rightarrow> bool" where
  "live_workflow wid w = (wf_workspace_id w = wid \<and> wf_deleted_at w = None)"

definition overview_counts :: "int \<Rightarrow> uuid \<Rightarrow> db \<Rightarrow> overview_stats" where
  "overview_counts now wid d =
     \<lparr>ov_total_workflows = count_where (live_workflow wid) (db_workflows d),
      ov_active_workflows = count_where (\<lambda>w. live_workflow wid w \<and> wf_status w = WF_ACTIVE) (db_workflows d),
      ov_draft_only = count_where (\<lambda>w. live_workflow wid w \<and> wf_published_version_id w = None) (db_workflows d),
      ov_running_now = count_where (\<lambda>e. ex_workspace_id e = wid \<and> ex_status e \<in> ACTIVE_EXECUTION_STATUSES) (db_executions d),
      ov_failed_24h = count_where (\<lambda>e. ex_workspace_id e = wid \<and>
         ex_status e \<in> {EX_FAILED, EX_TIMED_OUT, EX_ENGINE_INTERRUPTED, EX_FAILED_TO_START} \<and> ex_queued_at e \<ge> now - day) (db_executions d),
      ov_success_rate_7d = success_rate now wid 7 d,
      ov_credentials_needing_attention = count_where (\<lambda>c. cr_workspace_id c = wid \<and> cr_deleted_at c = None \<and>
         cr_status c \<in> {CS_INVALID, CS_REVOKED}) (db_credentials d),
      ov_unread_alerts = count_where (\<lambda>n. no_workspace_id n = wid \<and> no_status n = NT_UNREAD) (db_notifications d)\<rparr>"

definition recent_failures :: "uuid \<Rightarrow> db \<Rightarrow> execution list" where
  "recent_failures wid d = take 5 (order_desc ex_queued_at
     (filter (\<lambda>e. ex_workspace_id e = wid \<and> ex_status e \<in> {EX_FAILED, EX_TIMED_OUT, EX_ENGINE_INTERRUPTED}) (db_executions d)))"

definition running_runs :: "uuid \<Rightarrow> db \<Rightarrow> execution list" where
  "running_runs wid d = take 5 (order_desc ex_queued_at
     (filter (\<lambda>e. ex_workspace_id e = wid \<and> ex_status e \<in> ACTIVE_EXECUTION_STATUSES) (db_executions d)))"

definition upcoming_schedules :: "uuid \<Rightarrow> db \<Rightarrow> trigger_binding list" where
  "upcoming_schedules wid d = take 5 (sort_key (\<lambda>b. case tb_next_run_at b of None \<Rightarrow> 0 | Some t \<Rightarrow> t)
     (filter (\<lambda>b. tb_workspace_id b = wid \<and> tb_enabled b \<and> tb_trigger_type b = TT_SCHEDULE \<and> tb_next_run_at b \<noteq> None) (db_triggers d)))"

definition overview :: "env \<Rightarrow> request_context \<Rightarrow> db \<Rightarrow> service_error + overview_view" where
  "overview env ctx d =
     (case ctx_require ctx M_MONITORING A_VIEW of
        Inl e \<Rightarrow> Inl e
      | Inr _ \<Rightarrow>
          (let wid = ctx_workspace_id ctx;
               failures = recent_failures wid d; running = running_runs wid d; upcoming = upcoming_schedules wid d;
               names = map_of (workflow_names wid (map ex_workflow_id failures @ map ex_workflow_id running @ map tb_workflow_id upcoming) d)
           in Inr \<lparr>ov_stats = overview_counts (env_now env) wid d,
                ov_recent_failures = map (\<lambda>e. (e, names (ex_workflow_id e))) failures,
                ov_running = map (\<lambda>e. (e, names (ex_workflow_id e))) running,
                ov_upcoming = map (\<lambda>b. (b, names (tb_workflow_id b))) upcoming\<rparr>))"

section \<open>Monitoring\<close>

record monitoring_view =
  mo_success_rate_7d :: "(nat \<times> nat) option"
  mo_duration_p50 :: "int option"
  mo_duration_p95 :: "int option"
  mo_duration_count :: nat
  mo_wait_p50 :: "int option"
  mo_wait_p95 :: "int option"
  mo_failures_by_category :: "(string \<times> nat) list"
  mo_failing_nodes :: "((string \<times> string) \<times> nat) list"
  mo_webhook_runs :: nat
  mo_schedule_runs :: nat
  mo_manual_runs :: nat
  mo_schedules_late :: nat

definition in_window :: "int \<Rightarrow> uuid \<Rightarrow> execution \<Rightarrow> bool" where
  "in_window start wid e = (ex_workspace_id e = wid \<and> ex_queued_at e \<ge> start)"

definition failing_nodes :: "int \<Rightarrow> uuid \<Rightarrow> db \<Rightarrow> ((string \<times> string) \<times> nat) list" where
  "failing_nodes start wid d =
     take 10 (group_counts (map (\<lambda>r. (nr_node_key r, nr_node_name r))
       (filter (\<lambda>r. nr_status r = NR_FAILED \<and>
          list_ex (\<lambda>e. ex_id e = nr_execution_id r \<and> in_window start wid e) (db_executions d)) (db_node_results d))))"

definition runs_of_trigger :: "int \<Rightarrow> uuid \<Rightarrow> trigger_type \<Rightarrow> db \<Rightarrow> nat" where
  "runs_of_trigger start wid t d = count_where (\<lambda>e. in_window start wid e \<and> ex_trigger_type e = t) (db_executions d)"

definition monitoring :: "(int \<Rightarrow> int) \<Rightarrow> (int \<Rightarrow> int) \<Rightarrow> env \<Rightarrow> request_context \<Rightarrow> db \<Rightarrow> service_error + monitoring_view" where
  "monitoring median ninety_five env ctx d =
     (case ctx_require ctx M_MONITORING A_VIEW of
        Inl e \<Rightarrow> Inl e
      | Inr _ \<Rightarrow>
          (let wid = ctx_workspace_id ctx; now = env_now env; start = now - 7 * day;
               recent = filter (in_window start wid) (db_executions d);
               durations = sort (List.map_filter ex_duration_ms recent);
               waits = sort (List.map_filter wait_ms recent)
           in Inr \<lparr>mo_success_rate_7d = success_rate now wid 7 d,
                mo_duration_p50 = percentile median durations, mo_duration_p95 = percentile ninety_five durations,
                mo_duration_count = length durations,
                mo_wait_p50 = percentile median waits, mo_wait_p95 = percentile ninety_five waits,
                mo_failures_by_category = group_counts (List.map_filter ex_error_category recent),
                mo_failing_nodes = failing_nodes start wid d,
                mo_webhook_runs = runs_of_trigger start wid TT_WEBHOOK d,
                mo_schedule_runs = runs_of_trigger start wid TT_SCHEDULE d,
                mo_manual_runs = runs_of_trigger start wid TT_MANUAL d,
                mo_schedules_late = count_where (\<lambda>b. tb_workspace_id b = wid \<and> tb_enabled b \<and>
                  (case tb_next_run_at b of None \<Rightarrow> False | Some t \<Rightarrow> t < now - seconds 300)) (db_triggers d)\<rparr>))"

section \<open>Engine status and compatibility\<close>

record engine_view =
  ev_operational :: bool
  ev_status :: string
  ev_message :: "string option"
  ev_engine_version :: "string option"
  ev_adapter_contract_version :: string
  ev_compiler_version :: "string option"
  ev_product_version :: string
  ev_latency_ms :: "int option"
  ev_loaded_nodes :: "string list"

definition newer_text :: "string option \<Rightarrow> string \<Rightarrow> string" where
  "newer_text v old = (if text_or_empty v \<noteq> [] then text_or_empty v else old)"

definition polled :: "env \<Rightarrow> engine_health \<Rightarrow> engine_instance \<Rightarrow> engine_instance" where
  "polled env h i = i\<lparr>ei_status := health_state h, ei_engine_version := newer (eh_engine_version h) (ei_engine_version i),
     ei_adapter_contract_version := newer_text (eh_adapter_contract_version h) (ei_adapter_contract_version i),
     ei_compiler_version := newer_text (eh_compiler_version h) (ei_compiler_version i),
     ei_last_probe_at := Some (env_now env)\<rparr>"

definition engine_status_page :: "env \<Rightarrow> request_context \<Rightarrow> engine_health \<Rightarrow> db \<Rightarrow> (service_error + engine_view) \<times> db" where
  "engine_status_page env ctx h d =
     guarded (ctx_require ctx M_SETTINGS A_VIEW) d
       (Inr \<lparr>ev_operational = (eh_reachable h \<and> eh_status h = ''HEALTHY''), ev_status = eh_status h, ev_message = eh_message h,
          ev_engine_version = eh_engine_version h,
          ev_adapter_contract_version = newer_text (eh_adapter_contract_version h) (cfg_adapter_contract_version (env_settings env)),
          ev_compiler_version = eh_compiler_version h, ev_product_version = cfg_product_version (env_settings env),
          ev_latency_ms = eh_latency_ms h,
          ev_loaded_nodes = (if ctx_is_platform_admin ctx then eh_loaded_nodes h else [])\<rparr>,
        case default_engine d of None \<Rightarrow> d | Some i \<Rightarrow> put_engine (polled env h i) d)"

record engine_capabilities =
  ec_contract_version :: string
  ec_compiler_version :: string
  ec_engine_version :: string
  ec_supported_node_keys :: "string list"
  ec_features :: "(string \<times> bool) list"

record compatibility_node =
  cn_node_key :: string
  cn_entry :: dict
  cn_engine_supported :: bool
  cn_engine_binding :: json

record compatibility_view =
  cv_engine :: "engine_capabilities option"
  cv_nodes :: "compatibility_node list"
  cv_product_only :: "string list"
  cv_engine_only :: "string list"

definition compatibility :: "request_context \<Rightarrow> engine_capabilities option \<Rightarrow> node_row list \<Rightarrow> service_error + compatibility_view" where
  "compatibility ctx answer rows =
     (case ctx_require ctx M_SETTINGS A_VIEW of
        Inl e \<Rightarrow> Inl e
      | Inr _ \<Rightarrow>
          (let defs = definitions_map rows;
               product_keys = sort (map fst defs);
               engine_keys = (case answer of None \<Rightarrow> [] | Some c \<Rightarrow> sort (ec_supported_node_keys c))
           in Inr \<lparr>cv_engine = answer,
                cv_nodes = map (\<lambda>k. let e = or_default (map_of defs k) [] in
                  \<lparr>cn_node_key = k, cn_entry = map (\<lambda>f. (f, dget e f)) [''display_name'', ''certification'', ''status''],
                   cn_engine_supported = (answer = None \<or> k \<in> set engine_keys),
                   cn_engine_binding = (if ctx_is_platform_admin ctx then dget e ''engine_binding'' else JNull)\<rparr>) product_keys,
                cv_product_only = filter (\<lambda>k. answer \<noteq> None \<and> k \<notin> set engine_keys) product_keys,
                cv_engine_only = filter (\<lambda>k. k \<notin> set product_keys) engine_keys\<rparr>))"

section \<open>Dashboards read the workspace's own rows\<close>

definition own_rows :: "uuid \<Rightarrow> db \<Rightarrow> execution list \<times> node_result list \<times> workflow list \<times> credential list \<times> notification list \<times> trigger_binding list" where
  "own_rows wid d =
     (filter (\<lambda>e. ex_workspace_id e = wid) (db_executions d),
      filter (\<lambda>r. list_ex (\<lambda>e. ex_id e = nr_execution_id r \<and> ex_workspace_id e = wid) (db_executions d)) (db_node_results d),
      filter (\<lambda>w. wf_workspace_id w = wid) (db_workflows d), filter (\<lambda>c. cr_workspace_id c = wid) (db_credentials d),
      filter (\<lambda>n. no_workspace_id n = wid) (db_notifications d), filter (\<lambda>b. tb_workspace_id b = wid) (db_triggers d))"

lemma same_filter: "filter P xs = filter P ys \<Longrightarrow> (\<And>x. Q x \<Longrightarrow> P x) \<Longrightarrow> filter Q xs = filter Q ys"
proof -
  assume same: "filter P xs = filter P ys" and imp: "\<And>x. Q x \<Longrightarrow> P x"
  have "filter Q zs = filter Q (filter P zs)" for zs
    by (induction zs) (use imp in auto)
  then show ?thesis using same by metis
qed

lemma own_rows_agree:
  assumes "own_rows wid d = own_rows wid d'"
  shows "(\<And>e. Q e \<Longrightarrow> ex_workspace_id e = wid) \<Longrightarrow> filter Q (db_executions d) = filter Q (db_executions d')"
    and "(\<And>w. W w \<Longrightarrow> wf_workspace_id w = wid) \<Longrightarrow> filter W (db_workflows d) = filter W (db_workflows d')"
    and "(\<And>c. C c \<Longrightarrow> cr_workspace_id c = wid) \<Longrightarrow> filter C (db_credentials d) = filter C (db_credentials d')"
    and "(\<And>n. N n \<Longrightarrow> no_workspace_id n = wid) \<Longrightarrow> filter N (db_notifications d) = filter N (db_notifications d')"
    and "(\<And>b. B b \<Longrightarrow> tb_workspace_id b = wid) \<Longrightarrow> filter B (db_triggers d) = filter B (db_triggers d')"
  using assms by (auto simp: own_rows_def intro: same_filter)

lemma list_ex_filter: "list_ex P xs \<longleftrightarrow> filter P xs \<noteq> []"
  by (induction xs) auto

lemma success_rate_own: "own_rows wid d = own_rows wid d' \<Longrightarrow> success_rate now wid n d = success_rate now wid n d'"
  unfolding success_rate_def by (subst own_rows_agree(1)) auto

lemma overview_counts_own:
  assumes "own_rows wid d = own_rows wid d'"
  shows "overview_counts now wid d = overview_counts now wid d'"
  unfolding overview_counts_def count_where_def success_rate_own [OF assms]
  using own_rows_agree(1) [OF assms, of "\<lambda>e. ex_workspace_id e = wid \<and> P e" for P]
    own_rows_agree(2) [OF assms, of "\<lambda>w. live_workflow wid w \<and> P w" for P]
    own_rows_agree(2) [OF assms, of "live_workflow wid"]
    own_rows_agree(3) [OF assms, of "\<lambda>c. cr_workspace_id c = wid \<and> P c" for P]
    own_rows_agree(4) [OF assms, of "\<lambda>n. no_workspace_id n = wid \<and> P n" for P]
  by (simp add: live_workflow_def)

lemma failing_nodes_own:
  assumes "own_rows wid d = own_rows wid d'"
  shows "failing_nodes start wid d = failing_nodes start wid d'"
proof -
  let ?joined = "\<lambda>d r. list_ex (\<lambda>e. ex_id e = nr_execution_id r \<and> in_window start wid e) (db_executions d)"
  let ?own = "\<lambda>d r. list_ex (\<lambda>e. ex_id e = nr_execution_id r \<and> ex_workspace_id e = wid) (db_executions d)"
  have joined: "?joined d r = ?joined d' r" for r
    unfolding list_ex_filter by (subst own_rows_agree(1) [OF assms]) (auto simp: in_window_def)
  have own: "?own d = ?own d'"
    unfolding list_ex_filter by (rule ext, subst own_rows_agree(1) [OF assms]) auto
  have "filter (?own d) (db_node_results d) = filter (?own d') (db_node_results d')"
    using assms unfolding own_rows_def by blast
  then have "filter (?own d) (db_node_results d) = filter (?own d) (db_node_results d')"
    by (subst (2) own)
  then have "filter (\<lambda>r. nr_status r = NR_FAILED \<and> ?joined d r) (db_node_results d) =
      filter (\<lambda>r. nr_status r = NR_FAILED \<and> ?joined d r) (db_node_results d')"
    by (rule same_filter) (auto simp: in_window_def list_ex_iff)
  then show ?thesis
    by (simp add: failing_nodes_def joined)
qed

lemma dashboard_queries_own:
  assumes "own_rows wid d = own_rows wid d'"
  shows "recent_failures wid d = recent_failures wid d'" "running_runs wid d = running_runs wid d'"
    "upcoming_schedules wid d = upcoming_schedules wid d'" "workflow_names wid ids d = workflow_names wid ids d'"
    "runs_of_trigger start wid t d = runs_of_trigger start wid t d'"
    "filter (in_window start wid) (db_executions d) = filter (in_window start wid) (db_executions d')"
    "count_where (\<lambda>b. tb_workspace_id b = wid \<and> P b) (db_triggers d) = count_where (\<lambda>b. tb_workspace_id b = wid \<and> P b) (db_triggers d')"
  unfolding recent_failures_def running_runs_def upcoming_schedules_def workflow_names_def runs_of_trigger_def count_where_def
  by (auto intro!: arg_cong [where f = "take 5"] arg_cong [where f = "order_desc ex_queued_at"] arg_cong [where f = "sort_key k" for k]
      arg_cong [where f = length] arg_cong [where f = "map h" for h] own_rows_agree [OF assms] simp: in_window_def)

text \<open>
  Dashboards are local to the tenant. The overview and the monitoring page of a workspace are the same in any
  two databases that agree on that workspace's own runs, their node results, workflows, credentials,
  notifications and triggers, whatever the other workspaces hold.
\<close>

lemma dashboards_read_own_rows:
  assumes "own_rows (ctx_workspace_id ctx) d = own_rows (ctx_workspace_id ctx) d'"
  shows "overview env ctx d = overview env ctx d' \<and>
    monitoring median ninety_five env ctx d = monitoring median ninety_five env ctx d'"
  unfolding overview_def monitoring_def Let_def dashboard_queries_own [OF assms] overview_counts_own [OF assms]
    success_rate_own [OF assms] failing_nodes_own [OF assms]
  by (intro conjI refl)


lemma dashboards_read_own_rows_example:
  "overview demo_env admin_ctx (empty_db\<lparr>db_executions := [demo_execution\<lparr>ex_workspace_id := ''elsewhere''\<rparr>]\<rparr>) =
     overview demo_env admin_ctx empty_db"
  by (rule dashboards_read_own_rows [THEN conjunct1]) (simp add: own_rows_def empty_db_def)

section \<open>The outage alert\<close>

lemma raise_alert_engine:
  assumes "rule_for d i AE_ENGINE_DEGRADED = Some r" "ru_workflow_id r = None"
    and "\<forall>n \<in> set (db_notifications d). no_workspace_id n \<noteq> i"
  shows "\<exists>n \<in> set (db_notifications (snd (raise_alert env i (outage_alert s) d))). no_workspace_id n = i \<and> no_event_type n = AE_ENGINE_DEGRADED"
proof -
  have "recent_alert d i key since = None" for key since
    using assms(3) by (auto simp: recent_alert_def find_None_iff_all)
  then show ?thesis
    using assms(1,2) by (simp add: raise_alert_def outage_alert_def Let_def)
qed

lemma raise_alert_adds:
  "set (db_notifications d) \<subseteq> set (db_notifications (snd (raise_alert env i a d)))"
  "n \<in> set (db_notifications (snd (raise_alert env i a d))) \<Longrightarrow> n \<in> set (db_notifications d) \<or> no_workspace_id n = i"
  by (auto simp: raise_alert_def Let_def split: if_splits option.splits)

lemma announce_outage_adds: "set (db_notifications d) \<subseteq> set (db_notifications (announce_outage env s wss d))"
  unfolding announce_outage_def by (induction wss arbitrary: d) (auto dest: raise_alert_adds(1) [THEN subsetD])

lemma announce_outage_reaches:
  assumes "i \<in> ws_id ` set wss" "rule_for d i AE_ENGINE_DEGRADED = Some r" "ru_workflow_id r = None"
    and "\<forall>n \<in> set (db_notifications d). no_workspace_id n \<noteq> i"
  shows "\<exists>n \<in> set (db_notifications (announce_outage env s wss d)). no_workspace_id n = i \<and> no_event_type n = AE_ENGINE_DEGRADED"
  using assms
proof (induction wss arbitrary: d)
  case (Cons w wss)
  let ?d = "snd (raise_alert env (ws_id w) (outage_alert s) d)"
  have step: "announce_outage env s (w # wss) d = announce_outage env s wss ?d"
    by (simp add: announce_outage_def)
  show ?case
  proof (cases "ws_id w = i")
    case True
    then show ?thesis
      using raise_alert_engine [OF Cons.prems(2-4), of env s] announce_outage_adds [of ?d env s wss] step by auto
  next
    case False
    have "rule_for ?d i AE_ENGINE_DEGRADED = Some r"
      using Cons.prems(2) by (simp add: rule_for_def raise_alert_keeps)
    moreover have "\<forall>n \<in> set (db_notifications ?d). no_workspace_id n \<noteq> i"
      using Cons.prems(4) False raise_alert_adds(2) by metis
    ultimately show ?thesis
      using Cons.IH [of ?d] Cons.prems(1,3) False step by auto
  qed
qed simp

text \<open>
  Who notices an outage first decides whether anybody is told. When the worker's probe finds the default engine
  no longer healthy, every workspace with a workspace-wide rule for it and no notification yet gets an alert.
  When the status page of any user is served first, it stores the new status itself, and the worker's probe,
  whatever it finds, adds no notification in any workspace: it looks for a change from HEALTHY that is no longer there.
\<close>

lemma status_poll_swallows_outage:
  assumes "default_engine d = Some i" "ei_status i = ES_HEALTHY" "health_state h \<noteq> ES_HEALTHY"
  shows "w \<in> set (db_workspaces d) \<Longrightarrow> rule_for d (ws_id w) AE_ENGINE_DEGRADED = Some r \<Longrightarrow> ru_workflow_id r = None \<Longrightarrow>
      \<forall>n \<in> set (db_notifications d). no_workspace_id n \<noteq> ws_id w \<Longrightarrow>
      \<exists>n \<in> set (db_notifications (probe_engine env h d)). no_workspace_id n = ws_id w \<and> no_event_type n = AE_ENGINE_DEGRADED"
    and "ctx_require ctx M_SETTINGS A_VIEW = Inr u \<Longrightarrow>
      db_notifications (probe_engine env h' (snd (engine_status_page env0 ctx h d))) = db_notifications d"
proof -
  assume w: "w \<in> set (db_workspaces d)" "rule_for d (ws_id w) AE_ENGINE_DEGRADED = Some r" "ru_workflow_id r = None"
    "\<forall>n \<in> set (db_notifications d). no_workspace_id n \<noteq> ws_id w"
  let ?d = "put_engine (probed env h i) d"
  have "probe_engine env h d = announce_outage env (health_state h) (db_workspaces ?d) ?d"
    using assms by (simp add: probe_engine_def probed_def Let_def)
  then show "\<exists>n \<in> set (db_notifications (probe_engine env h d)). no_workspace_id n = ws_id w \<and> no_event_type n = AE_ENGINE_DEGRADED"
    using announce_outage_reaches [of "ws_id w" "db_workspaces ?d" ?d r env "health_state h"] w
    by (simp add: put_engine_def rule_for_def)
next
  assume "ctx_require ctx M_SETTINGS A_VIEW = Inr u"
  then have d': "snd (engine_status_page env0 ctx h d) = put_engine (polled env0 h i) d"
    using assms(1) by (simp add: engine_status_page_def guarded_def)
  have "ei_is_default i" using assms(1) by (auto simp: default_engine_def dest: find_SomeD)
  then have "default_engine (put_engine (polled env0 h i) d) = Some (polled env0 h i)"
    using assms(1) by (intro default_engine_put) (auto simp: polled_def)
  then show "db_notifications (probe_engine env h' (snd (engine_status_page env0 ctx h d))) = db_notifications d"
    using assms(3) unfolding d' by (simp add: probe_engine_def Let_def) (simp add: polled_def put_engine_def)
qed

definition outage_db :: db where
  "outage_db = empty_db\<lparr>db_engines := [\<lparr>ei_id = ''n8n'', ei_name = ''default'', ei_engine_version = None,
     ei_adapter_contract_version = ''1'', ei_compiler_version = ''1'', ei_status = ES_HEALTHY, ei_is_default = True,
     ei_last_probe_at = None, ei_last_worker_beat_at = None\<rparr>],
     db_workspaces := [\<lparr>ws_id = ''w'', ws_organization_id = ''o'', ws_name = ''w'', ws_slug = ''w'', ws_status = WS_ACTIVE,
       ws_timezone = ''UTC'', ws_engine_instance_id = None, ws_max_concurrent_executions = None\<rparr>],
     db_rules := [\<lparr>ru_id = ''r'', ru_workspace_id = ''w'', ru_event_type = AE_ENGINE_DEGRADED, ru_workflow_id = None,
       ru_threshold = 1, ru_cooldown_seconds = 900, ru_enabled = True\<rparr>]\<rparr>"

definition offline :: engine_health where
  "offline = \<lparr>eh_reachable = False, eh_status = ''OFFLINE'', eh_engine_version = None, eh_adapter_contract_version = None,
     eh_compiler_version = None, eh_message = None, eh_loaded_nodes = [], eh_latency_ms = None\<rparr>"


lemma status_poll_swallows_outage_example:
  "db_notifications (probe_engine demo_env offline outage_db) \<noteq> [] \<and>
   db_notifications (probe_engine demo_env offline (snd (engine_status_page demo_env admin_ctx offline outage_db))) = []"
proof -
  have start: "default_engine outage_db = Some (hd (db_engines outage_db))" "ei_status (hd (db_engines outage_db)) = ES_HEALTHY"
      "health_state offline \<noteq> ES_HEALTHY"
    by (simp_all add: default_engine_def outage_db_def health_state_def offline_def)
  have "\<exists>n \<in> set (db_notifications (probe_engine demo_env offline outage_db)). no_workspace_id n = ws_id (hd (db_workspaces outage_db)) \<and> no_event_type n = AE_ENGINE_DEGRADED"
    by (rule status_poll_swallows_outage(1) [OF start, of _ "hd (db_rules outage_db)"])
      (simp_all add: outage_db_def rule_for_def empty_db_def)
  moreover have "db_notifications (probe_engine demo_env offline (snd (engine_status_page demo_env admin_ctx offline outage_db))) = []"
    using status_poll_swallows_outage(2) [OF start, of admin_ctx "()" demo_env offline demo_env] by (simp add: outage_db_def empty_db_def)
  ultimately show ?thesis by auto
qed

end
