(* ===== verification/Recovery.thy ===== *)
theory Recovery
  imports Runs
begin

text \<open>
  Runs and the engine: what a report writes, that a run the engine has lost ends, and two places
  where the code breaks a promise: an answer of the engine that arrives after a cancellation, and
  a failed authentication that reaches into another workspace.
\<close>

section \<open>Reports\<close>

lemma ingest_results_ids: "ingest_results env e rs = Inr out \<Longrightarrow> \<forall>n \<in> set out. nr_execution_id n = ex_id e"
  by (induction rs arbitrary: out) (auto split: sum.splits option.splits)

lemma ingest_results_length: "ingest_results env e rs = Inr out \<Longrightarrow> length out = length rs"
  by (induction rs arbitrary: out) (auto split: sum.splits option.splits)

lemma ingest_results_cong:
  "ex_id e' = ex_id e \<Longrightarrow> ex_graph e' = ex_graph e \<Longrightarrow> ingest_results env e' rs = ingest_results env e rs"
proof -
  assume same: "ex_id e' = ex_id e" "ex_graph e' = ex_graph e"
  then have "node_key_for e' = node_key_for e" by (simp add: node_key_for_def fun_eq_iff)
  then show ?thesis by (induction rs) (auto simp: same split: sum.splits option.splits)
qed

lemma map_numbered: "map (\<lambda>p. f (snd p)) (zip [0..<length ys] ys) = map f ys"
proof -
  have "map f (map snd (zip [0..<length ys] ys)) = map f ys" by simp
  then show ?thesis by (simp only: map_map comp_def)
qed

lemma ingest_tables:
  assumes "ingest env e r d = Inr d'" "er_status r \<noteq> execution_status_value EX_RUNNING"
  obtains results where "ingest_results env e (er_node_results r) = Inr results"
    "db_node_results d' = delete_where (\<lambda>n. nr_execution_id n = ex_id e) (db_node_results d) @ results"
    "db_logs d' = delete_where (\<lambda>l. lg_execution_id l = ex_id e) (db_logs d)
       @ map (ingest_log env e) (zip [0..<length (er_logs r)] (er_logs r))"
  using assms by (auto simp: ingest_def Let_def split: sum.splits option.splits dest!: on_terminal_frame)

lemma delete_filter [simp]:
  "filter P (delete_where P xs) = []" "filter (\<lambda>x. \<not> P x) (delete_where P xs) = filter (\<lambda>x. \<not> P x) xs"
  by (simp_all add: delete_where_def)


definition done_report :: engine_report where
  "done_report = \<lparr>er_status = ''SUCCEEDED'', er_started_at = None, er_ended_at = None, er_duration_ms = Some 5,
     er_error_code = None, er_error_category = None, er_failed_node_name = None, er_node_results = [],
     er_logs = [\<lparr>el_at = [], el_level = ''INFO'', el_message = ''done'', el_node_name = None\<rparr>],
     er_output_summary = [], er_technical = []\<rparr>"

lemma done_report_ingested: "\<exists>d'. ingest run_env (run_one None) done_report d = Inr d'"
proof -
  have "execution_status_of ''SUCCEEDED'' = Some EX_SUCCEEDED" by code_simp
  moreover have "(None :: string option) \<notin> set AUTH_FAILURES" by (simp add: AUTH_FAILURES_def)
  ultimately show ?thesis
    by (simp add: ingest_def done_report_def on_terminal_def reported_def Let_def)
qed


section \<open>Runs the engine has lost\<close>

lemma row_by_table: "db_executions d = db_executions d' \<Longrightarrow> get_execution_row d eid = get_execution_row d' eid"
  by (simp add: get_execution_row_def)

lemma find_conj: "find P rows = Some r \<Longrightarrow> Q r \<Longrightarrow> find (\<lambda>x. P x \<and> Q x) rows = Some r"
  by (induction rows) (auto split: if_splits)



section \<open>An answer after a cancellation\<close>

text \<open>
  a cancelled run comes back. The worker commits the row as \<open>DISPATCHING\<close> and calls the engine;
  a cancellation that arrives before the engine has answered finds no engine reference and ends the
  run as \<open>CANCELLED\<close>. When the engine then accepts the run, the worker writes \<open>RUNNING\<close> over the
  finished row, whose end time stays.
\<close>

lemma cancelled_run_is_resurrected:
  assumes "dispatch_begin env e d = Inr (request, d1)" "get_execution_row d eid = Some e"
    and "is_active (ex_status e)" "text_or_empty (ex_engine_ref e) = []"
    and "ctx_require ctx M_EXECUTIONS A_EXECUTE = Inr ()" "ex_workspace_id e = ctx_workspace_id ctx"
  shows "\<exists>c d3 r. get_execution_row (snd (cancel env' ctx ask eid d1)) eid = Some c \<and> ex_status c = EX_CANCELLED \<and>
    dispatch_finish env'' eid (Answer ref) (snd (cancel env' ctx ask eid d1)) = Inr d3 \<and>
    get_execution_row d3 eid = Some r \<and> ex_status r = EX_RUNNING \<and> ex_ended_at r = Some (env_now env')"
proof -
  define e1 where "e1 = e\<lparr>ex_status := EX_DISPATCHING, ex_last_seen_at := Some (env_now env)\<rparr>"
  define c where "c = e1\<lparr>ex_status := EX_CANCELLED, ex_ended_at := Some (env_now env')\<rparr>"
  define c1 where "c1 = e1\<lparr>ex_status := EX_CANCEL_REQUESTED\<rparr>"
  define d2 where "d2 = snd (cancel env' ctx ask eid d1)"
  have id: "ex_id e = eid" using row_in [OF assms(2)] by simp
  have d1: "d1 = put_execution e1 d"
    using assms(1) by (auto simp: dispatch_begin_def e1_def Let_def split: sum.splits)
  have row1: "get_execution_row d1 eid = Some e1"
    unfolding d1 by (rule get_put_row [OF assms(2)]) (simp add: e1_def id)
  have got: "execution_get ctx eid d1 = Inr e1"
    using find_conj [OF row1 [unfolded get_execution_row_def], of "\<lambda>x. ex_workspace_id x = ctx_workspace_id ctx"] assms(6)
    by (simp add: execution_get_def e1_def)
  have "db_executions d2 = db_executions (put_execution c (put_execution c1 d1))"
    using assms(4,5) got
    by (simp add: d2_def cancel_def c_def c1_def e1_def text_or_empty_def Let_def)
  moreover have ids: "ex_id c = ex_id c1" "ex_id c = eid" by (simp_all add: c_def c1_def e1_def id)
  ultimately have "db_executions d2 = db_executions (put_execution c d1)" by simp
  then have row2: "get_execution_row d2 eid = Some c"
    using get_put_row [OF row1 ids(2)] row_by_table [of d2 "put_execution c d1" eid] by simp
  define r where "r = c\<lparr>ex_engine_ref := Some ref, ex_status := EX_RUNNING,
     ex_started_at := (case ex_started_at c of Some t \<Rightarrow> Some t | None \<Rightarrow> Some (env_now env'')), ex_last_seen_at := Some (env_now env'')\<rparr>"
  have "dispatch_finish env'' eid (Answer ref) d2 = Inr (put_execution r d2)"
    by (simp add: dispatch_finish_def row2 r_def)
  moreover have "get_execution_row (put_execution r d2) eid = Some r"
    by (rule get_put_row [OF row2]) (simp add: r_def ids(2))
  ultimately show ?thesis using row2 by (auto simp: d2_def [symmetric] r_def c_def)
qed

lemma cancelled_run_is_resurrected_example:
  "\<exists>(d1 :: db) d3 r. get_execution_row d1 (ex_id (run_one None)) \<noteq> None \<and>
    dispatch_finish run_env (ex_id (run_one None)) (Answer ''ref'')
      (snd (cancel run_env admin_ctx (\<lambda>_. Answer done_report) (ex_id (run_one None)) d1)) = Inr d3 \<and>
    get_execution_row d3 (ex_id (run_one None)) = Some r \<and> ex_status r = EX_RUNNING"
proof -
  let ?d = "run_db\<lparr>db_executions := [run_one None]\<rparr>"
  have row: "get_execution_row ?d (ex_id (run_one None)) = Some (run_one None)" by (simp add: get_execution_row_def)
  have ids: "collect_credential_ids demo_graph demo_registry = Inr {''c1''}" by code_simp
  have reg: "env_registry run_env = demo_registry" by (simp add: run_env_def)
  have "resolve_for_execution run_env ''w'' {''c1''} ?d = Inr []"
    by (simp add: resolve_for_execution_def run_db_def empty_db_def)
  then obtain request d1 where b: "dispatch_begin run_env (run_one None) ?d = Inr (request, d1)"
    by (simp add: dispatch_begin_def ids reg Let_def)
  then have "get_execution_row d1 (ex_id (run_one None)) \<noteq> None"
    by (auto simp: dispatch_begin_def ids reg Let_def get_execution_row_def put_execution_def split: sum.splits)
  with cancelled_run_is_resurrected [OF b row, of admin_ctx run_env "\<lambda>_. Answer done_report" run_env "''ref''"]
  show ?thesis by (auto simp: text_or_empty_def)
qed

section \<open>A failed authentication\<close>

lemma mark_invalid_status:
  assumes "get_credential_row d cid = Some c" "cr_status c \<noteq> CS_REVOKED"
  shows "\<exists>c'. get_credential_row (mark_invalid env k m d) cid = Some c' \<and> cr_status c' \<noteq> CS_REVOKED \<and>
    cr_workspace_id c' = cr_workspace_id c \<and> (k = cid \<or> cr_status c = CS_INVALID \<longrightarrow> cr_status c' = CS_INVALID)"
proof (cases "get_credential_row d k")
  case (Some row)
  then have k: "cr_id row = k" by (auto simp: get_credential_row_def dest: find_SomeD)
  define row' where "row' = row\<lparr>cr_status := CS_INVALID, cr_last_test_ok := Some False,
            cr_last_test_message := Some (take 500 m), cr_last_test_at := Some (env_now env)\<rparr>"
  show ?thesis
  proof (cases "k = cid")
    case True
    then have "get_credential_row (put_credential row' d) cid = Some row'"
      using find_put_same [of cr_id cid "db_credentials d" c row'] assms(1) k
      by (simp add: get_credential_row_def put_credential_def row'_def)
    then show ?thesis using Some True assms by (simp add: mark_invalid_def row'_def)
  next
    case False
    then have "get_credential_row (put_credential row' d) cid = Some c"
      using find_put_other [of cr_id row' k cid "db_credentials d"] assms(1) k
      by (simp add: get_credential_row_def put_credential_def row'_def)
    then show ?thesis using Some False assms by (simp add: mark_invalid_def row'_def)
  qed
qed (use assms in \<open>auto simp: mark_invalid_def\<close>)

lemma mark_all_status:
  assumes "get_credential_row d cid = Some c" "cr_status c \<noteq> CS_REVOKED"
  shows "\<exists>c'. get_credential_row (mark_all env raws d) cid = Some c' \<and>
    cr_workspace_id c' = cr_workspace_id c \<and>
    (cr_status c = CS_INVALID \<or> Some cid \<in> parse_uuid ` set raws \<longrightarrow> cr_status c' = CS_INVALID)"
  using assms
proof (induction raws arbitrary: d c)
  case (Cons raw raws)
  let ?d1 = "case parse_uuid raw of None \<Rightarrow> d | Some k \<Rightarrow> mark_invalid env k [] d"
  have "\<exists>c1. get_credential_row ?d1 cid = Some c1 \<and> cr_status c1 \<noteq> CS_REVOKED \<and>
    cr_workspace_id c1 = cr_workspace_id c \<and>
    (parse_uuid raw = Some cid \<or> cr_status c = CS_INVALID \<longrightarrow> cr_status c1 = CS_INVALID)"
  proof (cases "parse_uuid raw")
    case (Some k)
    then show ?thesis using mark_invalid_status [OF Cons.prems, of env k "[]"] by simp
  qed (use Cons.prems in simp)
  then obtain c1 where c1: "get_credential_row ?d1 cid = Some c1" "cr_status c1 \<noteq> CS_REVOKED"
    "cr_workspace_id c1 = cr_workspace_id c"
    "parse_uuid raw = Some cid \<or> cr_status c = CS_INVALID \<longrightarrow> cr_status c1 = CS_INVALID" by blast
  have "mark_all env (raw # raws) d = mark_all env raws ?d1" by (simp add: mark_all_def)
  with Cons.IH [OF c1(1,2)] c1(3,4) show ?case by auto
qed (simp add: mark_all_def)

text \<open>
  a run's authentication failure marks any credential its graph names, of whatever workspace.
  When a run ends with an authentication error, a credential of another workspace that is not
  revoked and whose identifier occurs in the run's graph is set to \<open>INVALID\<close>.
\<close>

lemma failed_run_invalidates_foreign_credential:
  assumes "ex_error_code e \<in> set AUTH_FAILURES" "collect_credential_ids (ex_graph e) (env_registry env) = Inr ids"
    and "finite ids" "raw \<in> ids" "parse_uuid raw = Some cid"
    and "get_credential_row d cid = Some c" "cr_status c \<noteq> CS_REVOKED" "cr_workspace_id c \<noteq> ex_workspace_id e"
  shows "\<exists>d' c'. on_terminal env e d = Inr d' \<and> get_credential_row d' cid = Some c' \<and>
    cr_workspace_id c' \<noteq> ex_workspace_id e \<and> cr_status c' = CS_INVALID"
proof -
  have "Some cid \<in> parse_uuid ` set (sorted_list_of_set ids)" using assms(3-5) by force
  then obtain c' where "get_credential_row (mark_all env (sorted_list_of_set ids) d) cid = Some c'"
    "cr_workspace_id c' = cr_workspace_id c" "cr_status c' = CS_INVALID"
    using mark_all_status [OF assms(6,7)] by metis
  then show ?thesis using assms(1,2,8) by (simp add: on_terminal_def get_credential_row_def)
qed

lemma failed_run_invalidates_foreign_credential_example:
  "\<exists>d' c'. on_terminal run_env ((run_one None)\<lparr>ex_error_code := Some ''NODE_AUTHENTICATION_FAILED'',
        ex_graph := wv_graph (demo_version (replicate 32 (CHR ''A'')))\<rparr>)
      (empty_db\<lparr>db_credentials := [demo_credential\<lparr>cr_workspace_id := ''other''\<rparr>]\<rparr>) = Inr d' \<and>
    get_credential_row d' demo_cid = Some c' \<and> cr_workspace_id c' \<noteq> ''w'' \<and> cr_status c' = CS_INVALID"
proof -
  let ?e = "(run_one None)\<lparr>ex_error_code := Some ''NODE_AUTHENTICATION_FAILED'',
        ex_graph := wv_graph (demo_version (replicate 32 (CHR ''A'')))\<rparr>"
  have ids: "collect_credential_ids (wv_graph (demo_version (replicate 32 (CHR ''A'')))) demo_registry = Inr {replicate 32 (CHR ''A'')}"
    by code_simp
  have p: "parse_uuid (replicate 32 (CHR ''A'')) = Some demo_cid" by code_simp
  have "\<exists>d' c'. on_terminal run_env ?e (empty_db\<lparr>db_credentials := [demo_credential\<lparr>cr_workspace_id := ''other''\<rparr>]\<rparr>) = Inr d' \<and>
    get_credential_row d' demo_cid = Some c' \<and> cr_workspace_id c' \<noteq> ex_workspace_id ?e \<and> cr_status c' = CS_INVALID"
    by (rule failed_run_invalidates_foreign_credential [OF _ _ _ _ p, of _ _ "{replicate 32 (CHR ''A'')}" _
          "demo_credential\<lparr>cr_workspace_id := ''other''\<rparr>"])
      (use ids in \<open>simp_all add: AUTH_FAILURES_def run_env_def get_credential_row_def demo_credential_def\<close>)
  then show ?thesis by simp
qed

end
