(* ===== verification/Routes.thy ===== *)
theory Routes
  imports Tenants Monitoring Recovery
begin

text \<open>
  The routes of the services, \<open>app/api/v1\<close>: the constraints of a request body, the calls of a service, the commit,
  and what is read for the answer after it. A route that raises before its commit leaves the database as it was
  (\<open>get_session\<close> rolls back). Bodies arrive typed: a value of another type, like one that breaks a constraint, is
  refused by pydantic, whose refusal \<open>app/main.py\<close> answers with a 422. \<open>EmailStr\<close> is an argument: the address as
  normalised, \<^const>\<open>None\<close> where it is refused.
\<close>

section \<open>Bodies and commits\<close>

definition schema_error :: service_error where
  "schema_error = App (AppError_init AppError (no_args\<lparr>arg_code := Some ''VALIDATION_FAILED'', arg_category := Some EC_VALIDATION,
     arg_status := Some 422\<rparr>))"

definition checked :: "bool \<Rightarrow> db \<Rightarrow> (service_error + 'a) \<times> db \<Rightarrow> (service_error + 'a) \<times> db" where
  "checked fits d rest = (if fits then rest else (Inl schema_error, d))"

definition commit :: "db \<Rightarrow> (service_error + 'a) \<times> db \<Rightarrow> (service_error + 'a) \<times> db" where
  "commit d r = (fst r, committed d r)"

text \<open>What is computed from the result after the commit; it may raise, but nothing is taken back.\<close>

definition viewed :: "(service_error + 'a) \<times> db \<Rightarrow> ('a \<Rightarrow> db \<Rightarrow> service_error + 'b) \<Rightarrow> (service_error + 'b) \<times> db" where
  "viewed r f = (case r of (Inl e, d) \<Rightarrow> (Inl e, d) | (Inr x, d) \<Rightarrow> (f x d, d))"

definition text_within :: "nat \<Rightarrow> nat \<Rightarrow> string \<Rightarrow> bool" where
  "text_within lo hi s \<longleftrightarrow> lo \<le> length s \<and> length s \<le> hi"

definition optional :: "('a \<Rightarrow> bool) \<Rightarrow> 'a option \<Rightarrow> bool" where
  "optional P x = (case x of None \<Rightarrow> True | Some v \<Rightarrow> P v)"

definition between :: "int \<Rightarrow> int \<Rightarrow> int \<Rightarrow> bool" where
  "between lo hi n \<longleftrightarrow> lo \<le> n \<and> n \<le> hi"

definition page_fits :: "int \<Rightarrow> int \<Rightarrow> bool" where
  "page_fits lim off \<longleftrightarrow> between 1 200 lim \<and> off \<ge> 0"

section \<open>Workflows\<close>

definition list_workflows_route :: "env \<Rightarrow> request_context \<Rightarrow> (workflow \<Rightarrow> int) \<Rightarrow> string option \<Rightarrow> string option \<Rightarrow> string option
    \<Rightarrow> int \<Rightarrow> int \<Rightarrow> db \<Rightarrow> (service_error + workflow_page) \<times> db" where
  "list_workflows_route env ctx updated_at q status trigger lim off d =
     checked (page_fits lim off) d
       (list_workflows env ctx updated_at (text_or_empty q) (text_or_empty status) (text_or_empty trigger) (nat lim) (nat off) d, d)"

definition create_workflow_route :: "env \<Rightarrow> request_context \<Rightarrow> string \<Rightarrow> string option \<Rightarrow> string \<Rightarrow> db
    \<Rightarrow> (service_error + workflow_summary) \<times> db" where
  "create_workflow_route env ctx name description trigger_node_key d =
     checked (text_within 1 200 name) d
       (viewed (commit d (workflow_create env ctx name description trigger_node_key d)) (summary_view env ctx))"

definition get_workflow_route :: "env \<Rightarrow> request_context \<Rightarrow> uuid \<Rightarrow> db
    \<Rightarrow> (service_error + workflow_summary \<times> trigger_summary option) \<times> db" where
  "get_workflow_route env ctx wfid d =
     (case get_workflow ctx wfid d of
        Inl e \<Rightarrow> Inl e
      | Inr w \<Rightarrow>
          (case summary_view env ctx w d of
             Inl e \<Rightarrow> Inl e
           | Inr s \<Rightarrow>
               (case first_trigger_of d (wf_id w) of
                  None \<Rightarrow> Inr (s, None)
                | Some b \<Rightarrow> (case trigger_view env b of Inl e \<Rightarrow> Inl e | Inr t \<Rightarrow> Inr (s, Some t)))), d)"

definition update_workflow_route :: "env \<Rightarrow> request_context \<Rightarrow> uuid \<Rightarrow> string option \<Rightarrow> string option \<Rightarrow> db
    \<Rightarrow> (service_error + workflow_summary) \<times> db" where
  "update_workflow_route env ctx wfid name description d =
     checked (optional (text_within 0 200) name) d
       (viewed (commit d (rename env ctx wfid name description d)) (summary_view env ctx))"

definition delete_workflow_route :: "env \<Rightarrow> request_context \<Rightarrow> uuid \<Rightarrow> db \<Rightarrow> (service_error + unit) \<times> db" where
  "delete_workflow_route env ctx wfid d = commit d (workflow_delete env ctx wfid d)"

definition duplicate_workflow_route :: "env \<Rightarrow> request_context \<Rightarrow> uuid \<Rightarrow> db \<Rightarrow> (service_error + workflow_summary) \<times> db" where
  "duplicate_workflow_route env ctx wfid d = viewed (commit d (duplicate env ctx wfid d)) (summary_view env ctx)"

definition get_draft_route :: "request_context \<Rightarrow> uuid \<Rightarrow> db \<Rightarrow> (service_error + workflow \<times> workflow_draft) \<times> db" where
  "get_draft_route ctx wfid d = (get_draft ctx wfid d, d)"

definition save_draft_route :: "env \<Rightarrow> request_context \<Rightarrow> uuid \<Rightarrow> dict \<Rightarrow> int \<Rightarrow> db \<Rightarrow> (service_error + workflow_draft) \<times> db" where
  "save_draft_route env ctx wfid graph expected_revision d = commit d (save_draft env ctx wfid graph expected_revision d)"

definition validate_workflow_route :: "env \<Rightarrow> compiler \<Rightarrow> request_context \<Rightarrow> uuid \<Rightarrow> bool \<Rightarrow> db
    \<Rightarrow> (service_error + validation_payload) \<times> db" where
  "validate_workflow_route env compile ctx wfid with_engine d = commit d (workflow_validate env compile ctx wfid with_engine d)"

definition list_versions_route :: "request_context \<Rightarrow> uuid \<Rightarrow> db
    \<Rightarrow> (service_error + (workflow_version \<times> bool \<times> bool) list) \<times> db" where
  "list_versions_route ctx wfid d = (list_versions ctx wfid d, d)"

definition get_version_route :: "request_context \<Rightarrow> uuid \<Rightarrow> int \<Rightarrow> db \<Rightarrow> (service_error + workflow_version \<times> bool) \<times> db" where
  "get_version_route ctx wfid n d = (get_version ctx wfid n d, d)"

definition publish_workflow_route :: "env \<Rightarrow> compiler \<Rightarrow> request_context \<Rightarrow> uuid \<Rightarrow> int option \<Rightarrow> string option \<Rightarrow> db
    \<Rightarrow> (service_error + workflow_version) \<times> db" where
  "publish_workflow_route env compile ctx wfid expected_revision change_note d =
     checked (optional (text_within 0 1000) change_note) d
       (commit d (publish env compile ctx wfid expected_revision change_note d))"

definition activate_workflow_route :: "env \<Rightarrow> request_context \<Rightarrow> uuid \<Rightarrow> int option \<Rightarrow> db
    \<Rightarrow> (service_error + workflow_summary) \<times> db" where
  "activate_workflow_route env ctx wfid number d = commit d (activate env ctx wfid number d)"

definition deactivate_workflow_route :: "env \<Rightarrow> request_context \<Rightarrow> uuid \<Rightarrow> db \<Rightarrow> (service_error + workflow_summary) \<times> db" where
  "deactivate_workflow_route env ctx wfid d = commit d (deactivate env ctx wfid d)"

text \<open>\<^const>\<open>None\<close>: the workflow has no binding and counts as started by hand.\<close>

definition get_trigger_route :: "env \<Rightarrow> request_context \<Rightarrow> uuid \<Rightarrow> db \<Rightarrow> (service_error + trigger_summary option) \<times> db" where
  "get_trigger_route env ctx wfid d =
     (case get_workflow ctx wfid d of
        Inl e \<Rightarrow> Inl e
      | Inr w \<Rightarrow>
          (case first_trigger_of d (wf_id w) of
             None \<Rightarrow> Inr None
           | Some b \<Rightarrow> (case trigger_view env b of Inl e \<Rightarrow> Inl e | Inr t \<Rightarrow> Inr (Some t))), d)"

definition rotate_webhook_secret_route :: "env \<Rightarrow> request_context \<Rightarrow> uuid \<Rightarrow> db \<Rightarrow> (service_error + string) \<times> db" where
  "rotate_webhook_secret_route env ctx wfid d = commit d (rotate_webhook_secret env ctx wfid d)"

text \<open>\<open>VersionKind(payload.kind.upper())\<close> raises \<open>ValueError\<close> on a text that names no kind.\<close>

definition run_workflow_route :: "env \<Rightarrow> request_context \<Rightarrow> uuid \<Rightarrow> string \<Rightarrow> json \<Rightarrow> string option \<Rightarrow> db
    \<Rightarrow> (service_error + execution_view) \<times> db" where
  "run_workflow_route env ctx wfid kind payload idempotency_key d =
     (case version_kind_of (str_upper kind) of
        None \<Rightarrow> (Inl (Crash ValueErr), d)
      | Some k \<Rightarrow>
          viewed (commit d (execution_create env ctx wfid
              \<lparr>ca_kind = k, ca_trigger = TT_MANUAL, ca_payload = payload, ca_key = idempotency_key, ca_retry_of = None,
               ca_version_id = None\<rparr> d))
            (\<lambda>e _. Inr (execution_summary e None)))"

section \<open>Executions\<close>

definition list_executions_route :: "env \<Rightarrow> request_context \<Rightarrow> execution_filter \<Rightarrow> int \<Rightarrow> int \<Rightarrow> db
    \<Rightarrow> (service_error + execution_view page \<times> nat \<times> nat) \<times> db" where
  "list_executions_route env ctx f lim off d =
     checked (page_fits lim off) d (list_executions env ctx f (nat lim) (nat off) d, d)"

definition get_execution_route :: "request_context \<Rightarrow> uuid \<Rightarrow> db \<Rightarrow> (service_error + execution_detail) \<times> db" where
  "get_execution_route ctx eid d =
     (case execution_get ctx eid d of Inl x \<Rightarrow> Inl x | Inr e \<Rightarrow> detail_view ctx e d, d)"

definition list_node_results_route :: "request_context \<Rightarrow> uuid \<Rightarrow> db \<Rightarrow> (service_error + node_result list) \<times> db" where
  "list_node_results_route ctx eid d =
     (case execution_get ctx eid d of
        Inl x \<Rightarrow> Inl x
      | Inr e \<Rightarrow> (case detail_view ctx e d of Inl x \<Rightarrow> Inl x | Inr body \<Rightarrow> Inr (xd_nodes body)), d)"

definition node_input_route :: "request_context \<Rightarrow> uuid \<Rightarrow> string \<Rightarrow> db \<Rightarrow> (service_error + dict) \<times> db" where
  "node_input_route ctx eid nid d = (node_payload ctx eid nid ''input'' d, d)"

definition node_output_route :: "request_context \<Rightarrow> uuid \<Rightarrow> string \<Rightarrow> db \<Rightarrow> (service_error + dict) \<times> db" where
  "node_output_route ctx eid nid d = (node_payload ctx eid nid ''output'' d, d)"

definition execution_logs_route :: "request_context \<Rightarrow> uuid \<Rightarrow> int \<Rightarrow> int \<Rightarrow> db
    \<Rightarrow> (service_error + log_line list \<times> nat \<times> bool) \<times> db" where
  "execution_logs_route ctx eid cursor lim d =
     checked (cursor \<ge> 0 \<and> between 1 1000 lim) d (execution_logs ctx eid (nat cursor) (nat lim) d, d)"

definition cancel_execution_route :: "env \<Rightarrow> request_context \<Rightarrow> (string \<Rightarrow> engine_report engine_answer) \<Rightarrow> uuid \<Rightarrow> db
    \<Rightarrow> (service_error + execution_view) \<times> db" where
  "cancel_execution_route env ctx ask eid d =
     viewed (commit d (cancel env ctx ask eid d))
       (\<lambda>_ d'. case execution_get ctx eid d' of Inl x \<Rightarrow> Inl x | Inr e \<Rightarrow> Inr (execution_summary e None))"

definition retry_execution_route :: "env \<Rightarrow> request_context \<Rightarrow> uuid \<Rightarrow> db \<Rightarrow> (service_error + execution_view) \<times> db" where
  "retry_execution_route env ctx eid d =
     viewed (commit d (retry env ctx eid d)) (\<lambda>e _. Inr (execution_summary e None))"

section \<open>Credentials\<close>

definition list_credentials_route :: "request_context \<Rightarrow> string option \<Rightarrow> db \<Rightarrow> (service_error + credential_view list) \<times> db" where
  "list_credentials_route ctx q d = (list_credentials ctx (text_or_empty q) d, d)"

definition create_credential_route :: "env \<Rightarrow> request_context \<Rightarrow> string \<Rightarrow> string \<Rightarrow> dict \<Rightarrow> db
    \<Rightarrow> (service_error + credential_view) \<times> db" where
  "create_credential_route env ctx name ctype form d =
     checked (text_within 1 160 name) d (commit d (credential_create env ctx name ctype form d))"

definition get_credential_route :: "env \<Rightarrow> request_context \<Rightarrow> uuid \<Rightarrow> db
    \<Rightarrow> (service_error + credential_view \<times> dependent list) \<times> db" where
  "get_credential_route env ctx cid d =
     (case credential_get ctx cid d of
        Inl e \<Rightarrow> Inl e
      | Inr row \<Rightarrow>
          (case dependents_of env ctx cid d of
             Inl e \<Rightarrow> Inl (Crash e) | Inr uses \<Rightarrow> Inr (credential_public_view row, uses)), d)"

definition update_credential_route :: "env \<Rightarrow> request_context \<Rightarrow> uuid \<Rightarrow> string option \<Rightarrow> dict option \<Rightarrow> db
    \<Rightarrow> (service_error + credential_view) \<times> db" where
  "update_credential_route env ctx cid name form d =
     checked (optional (text_within 0 160) name) d
       (commit d (credential_update env ctx cid name (case form of None \<Rightarrow> [] | Some f \<Rightarrow> f) d))"

text \<open>The message of a test without a secret, in UTF-8.\<close>

definition NO_SECRET_STORED :: string where
  "NO_SECRET_STORED = map char_of [67, 104, 198, 176, 97, 32, 99, 195, 179, 32, 103, 105, 195, 161, 32, 116, 114, 225, 187, 139,
     32, 98, 195, 173, 32, 109, 225, 186, 173, 116, 32, 110, 195, 160, 111, 32, 196, 145, 198, 176, 225, 187, 163, 99, 32, 108,
     198, 176, 117, 46 :: nat]"

definition test_credential_route :: "env \<Rightarrow> request_context \<Rightarrow> uuid \<Rightarrow> db \<Rightarrow> (service_error + credential_view) \<times> db" where
  "test_credential_route env ctx cid d =
     (case credential_get ctx cid d of
        Inl e \<Rightarrow> (Inl e, d)
      | Inr row \<Rightarrow>
          (let configured = (text_or_empty (cr_secret_ref row) \<noteq> []) in
           commit d (record_test env ctx cid configured (if configured then None else Some NO_SECRET_STORED) d)))"

definition delete_credential_route :: "env \<Rightarrow> request_context \<Rightarrow> uuid \<Rightarrow> db \<Rightarrow> (service_error + unit) \<times> db" where
  "delete_credential_route env ctx cid d = commit d (credential_delete env ctx cid d)"

section \<open>Operations\<close>

definition overview_route :: "env \<Rightarrow> request_context \<Rightarrow> db \<Rightarrow> (service_error + overview_view) \<times> db" where
  "overview_route env ctx d = (overview env ctx d, d)"

definition monitoring_route :: "(int \<Rightarrow> int) \<Rightarrow> (int \<Rightarrow> int) \<Rightarrow> env \<Rightarrow> request_context \<Rightarrow> db \<Rightarrow> (service_error + monitoring_view) \<times> db" where
  "monitoring_route median ninety_five env ctx d = (monitoring median ninety_five env ctx d, d)"

definition engine_status_route :: "env \<Rightarrow> request_context \<Rightarrow> engine_health \<Rightarrow> db \<Rightarrow> (service_error + engine_view) \<times> db" where
  "engine_status_route env ctx h d = commit d (engine_status_page env ctx h d)"

definition compatibility_route :: "request_context \<Rightarrow> engine_capabilities option \<Rightarrow> node_row list \<Rightarrow> db
    \<Rightarrow> (service_error + compatibility_view) \<times> db" where
  "compatibility_route ctx answer rows d = (compatibility ctx answer rows, d)"

definition list_alert_rules_route :: "request_context \<Rightarrow> db \<Rightarrow> (service_error + alert_rule list) \<times> db" where
  "list_alert_rules_route ctx d = (list_rules ctx d, d)"

record alert_rule_body =
  ab_event_type :: string
  ab_workflow_id :: "uuid option"
  ab_threshold :: int
  ab_cooldown_seconds :: int
  ab_enabled :: bool

definition upsert_alert_rule_route :: "env \<Rightarrow> request_context \<Rightarrow> alert_rule_body \<Rightarrow> db \<Rightarrow> (service_error + alert_rule) \<times> db" where
  "upsert_alert_rule_route env ctx b d =
     checked (between 1 100 (ab_threshold b) \<and> between 60 86400 (ab_cooldown_seconds b)) d
       (commit d (upsert_rule env ctx (ab_event_type b) (ab_workflow_id b) (ab_threshold b) (ab_cooldown_seconds b) (ab_enabled b) d))"

definition delete_alert_rule_route :: "request_context \<Rightarrow> uuid \<Rightarrow> db \<Rightarrow> (service_error + unit) \<times> db" where
  "delete_alert_rule_route ctx rid d = commit d (delete_rule ctx rid d)"

definition list_notifications_route :: "request_context \<Rightarrow> string option \<Rightarrow> int \<Rightarrow> int \<Rightarrow> db
    \<Rightarrow> (service_error + notification page) \<times> db" where
  "list_notifications_route ctx status lim off d =
     checked (page_fits lim off) d (list_notifications ctx (text_or_empty status) (nat lim) (nat off) d, d)"

definition unread_count_route :: "request_context \<Rightarrow> db \<Rightarrow> (service_error + nat) \<times> db" where
  "unread_count_route ctx d = (unread_count ctx d, d)"

definition acknowledge_route :: "env \<Rightarrow> request_context \<Rightarrow> uuid \<Rightarrow> db \<Rightarrow> (service_error + unit) \<times> db" where
  "acknowledge_route env ctx nid d = commit d (acknowledge env ctx nid d)"

definition acknowledge_all_route :: "env \<Rightarrow> request_context \<Rightarrow> db \<Rightarrow> (service_error + nat) \<times> db" where
  "acknowledge_all_route env ctx d = commit d (acknowledge_all env ctx d)"

definition audit_log_route :: "request_context \<Rightarrow> string option \<Rightarrow> string option \<Rightarrow> int \<Rightarrow> int \<Rightarrow> db
    \<Rightarrow> (service_error + audit_event page) \<times> db" where
  "audit_log_route ctx act resource_type lim off d =
     checked (page_fits lim off) d
       (audit_log ctx (text_or_empty act) (text_or_empty resource_type) (nat lim) (nat off) d, d)"

definition workspace_settings_route :: "env \<Rightarrow> request_context \<Rightarrow> db \<Rightarrow> (service_error + workspace \<times> int) \<times> db" where
  "workspace_settings_route env ctx d = (workspace_settings env ctx d, d)"

definition update_workspace_route :: "env \<Rightarrow> request_context \<Rightarrow> string option \<Rightarrow> string option \<Rightarrow> int option \<Rightarrow> db
    \<Rightarrow> (service_error + workspace \<times> int) \<times> db" where
  "update_workspace_route env ctx name timezone ceiling d =
     checked (optional (text_within 0 100) name \<and> optional (between 1 100) ceiling) d
       (commit d (update_workspace env ctx name timezone ceiling d))"

definition list_members_route :: "request_context \<Rightarrow> db \<Rightarrow> (service_error + (membership \<times> user) list) \<times> db" where
  "list_members_route ctx d = (list_members ctx d, d)"

record invite_body =
  ib_email :: string
  ib_full_name :: string
  ib_role :: string
  ib_password :: string

definition invite_fits :: "(string \<Rightarrow> string option) \<Rightarrow> invite_body \<Rightarrow> bool" where
  "invite_fits email_str b \<longleftrightarrow> email_str (ib_email b) \<noteq> None \<and> text_within 1 255 (ib_full_name b) \<and> text_within 0 200 (ib_password b)"

definition invite_member_route :: "crypto \<Rightarrow> (string \<Rightarrow> string option) \<Rightarrow> env \<Rightarrow> request_context \<Rightarrow> invite_body \<Rightarrow> db
    \<Rightarrow> (service_error + membership \<times> user) \<times> db" where
  "invite_member_route cx email_str env ctx b d =
     checked (invite_fits email_str b) d
       (commit d (invite_member cx env ctx (text_or_empty (email_str (ib_email b))) (ib_full_name b) (ib_role b) (ib_password b) d))"

definition update_member_role_route :: "env \<Rightarrow> request_context \<Rightarrow> uuid \<Rightarrow> string \<Rightarrow> db \<Rightarrow> (service_error + membership) \<times> db" where
  "update_member_role_route env ctx mid r d = commit d (update_role env ctx mid r d)"

text \<open>\<open>dict[str, list[str]]\<close>\<close>

definition lists_of_texts :: "dict \<Rightarrow> bool" where
  "lists_of_texts m \<longleftrightarrow> list_all (\<lambda>(_, v). case v of JArr vs \<Rightarrow> list_all (\<lambda>x. case x of JStr _ \<Rightarrow> True | _ \<Rightarrow> False) vs | _ \<Rightarrow> False) m"

definition update_member_permissions_route :: "env \<Rightarrow> request_context \<Rightarrow> uuid \<Rightarrow> dict option \<Rightarrow> db
    \<Rightarrow> (service_error + membership \<times> dict) \<times> db" where
  "update_member_permissions_route env ctx mid overrides d =
     checked (optional lists_of_texts overrides) d (commit d (update_permissions env ctx mid overrides d))"

definition remove_member_route :: "env \<Rightarrow> request_context \<Rightarrow> uuid \<Rightarrow> db \<Rightarrow> (service_error + unit) \<times> db" where
  "remove_member_route env ctx mid d = commit d (remove_member env ctx mid d)"

subsection \<open>Platform diagnostics\<close>

text \<open>The engine reference is masked in the answer, which is this row and the mask; the look is audited.\<close>

definition masked_ref :: "execution \<Rightarrow> string option" where
  "masked_ref e = (if text_or_empty (ex_engine_ref e) \<noteq> [] then Some (take 8 (text_or_empty (ex_engine_ref e)) @ map char_of [226, 128, 166 :: nat])
     else None)"

definition engine_debug_route :: "env \<Rightarrow> request_context \<Rightarrow> uuid \<Rightarrow> db \<Rightarrow> (service_error + execution \<times> string option) \<times> db" where
  "engine_debug_route env ctx eid d =
     (case platform_admin ctx of
        Inl e \<Rightarrow> (Inl e, d)
      | Inr ctx \<Rightarrow>
          (case execution_get ctx eid d of
             Inl e \<Rightarrow> (Inl e, d)
           | Inr e \<Rightarrow> (Inr (e, masked_ref e),
               audit_record env ctx (entry ''admin.engine_debug_viewed'' ''EXECUTION'' (ex_id e) (ex_short_id e)) d)))"

definition admin_compatibility_route :: "request_context \<Rightarrow> engine_capabilities option \<Rightarrow> node_row list \<Rightarrow> db
    \<Rightarrow> (service_error + compatibility_view) \<times> db" where
  "admin_compatibility_route ctx answer rows d =
     (case platform_admin ctx of Inl e \<Rightarrow> (Inl e, d) | Inr ctx \<Rightarrow> (compatibility ctx answer rows, d))"

section \<open>The organisation\<close>

definition get_organization_route :: "request_context \<Rightarrow> db \<Rightarrow> (service_error + org_overview) \<times> db" where
  "get_organization_route ctx d = (org_summary ctx d, d)"

definition org_list_members_route :: "request_context \<Rightarrow> db \<Rightarrow> (service_error + (organization_membership \<times> user) list) \<times> db" where
  "org_list_members_route ctx d = (org_list_members ctx d, d)"

definition org_invite_member_route :: "crypto \<Rightarrow> (string \<Rightarrow> string option) \<Rightarrow> env \<Rightarrow> request_context \<Rightarrow> invite_body \<Rightarrow> db
    \<Rightarrow> (service_error + organization_membership \<times> user) \<times> db" where
  "org_invite_member_route cx email_str env ctx b d =
     checked (invite_fits email_str b) d
       (commit d (org_invite_member cx env ctx (text_or_empty (email_str (ib_email b))) (ib_full_name b) (ib_role b) (ib_password b) d))"

definition org_update_member_role_route :: "env \<Rightarrow> request_context \<Rightarrow> uuid \<Rightarrow> string \<Rightarrow> db
    \<Rightarrow> (service_error + organization_membership) \<times> db" where
  "org_update_member_role_route env ctx mid r d = commit d (org_update_role env ctx mid r d)"

definition org_remove_member_route :: "env \<Rightarrow> request_context \<Rightarrow> uuid \<Rightarrow> db \<Rightarrow> (service_error + unit) \<times> db" where
  "org_remove_member_route env ctx mid d = commit d (org_remove_member env ctx mid d)"

definition list_departments_route :: "request_context \<Rightarrow> db \<Rightarrow> (service_error + workspace list) \<times> db" where
  "list_departments_route ctx d = (list_department_workspaces ctx d, d)"

definition tenant_fits :: "tenant_args \<Rightarrow> bool" where
  "tenant_fits a \<longleftrightarrow> text_within 1 100 (ta_name a) \<and> optional (text_within 0 60) (ta_slug a) \<and> text_within 0 64 (ta_timezone a) \<and>
     optional (between 1 1000) (ta_quota a) \<and> optional (text_within 0 80) (ta_engine a)"

definition create_department_route :: "(string \<Rightarrow> string) \<Rightarrow> env \<Rightarrow> request_context \<Rightarrow> tenant_args \<Rightarrow> db
    \<Rightarrow> (service_error + workspace) \<times> db" where
  "create_department_route marks env ctx a d =
     checked (tenant_fits a) d (commit d (provision_department_workspace marks env ctx a d))"

section \<open>The platform\<close>

definition list_workspaces_route :: "request_context \<Rightarrow> db \<Rightarrow> (service_error + (workspace \<times> string list) list) \<times> db" where
  "list_workspaces_route ctx d = (list_workspaces ctx d, d)"

record owner_body =
  ow_email :: string
  ow_full_name :: "string option"
  ow_password :: "string option"

definition owner_fits :: "(string \<Rightarrow> string option) \<Rightarrow> owner_body \<Rightarrow> bool" where
  "owner_fits email_str b \<longleftrightarrow> email_str (ow_email b) \<noteq> None \<and> optional (text_within 0 255) (ow_full_name b) \<and>
     optional (text_within 0 200) (ow_password b)"

definition provision_workspace_route :: "crypto \<Rightarrow> (string \<Rightarrow> string) \<Rightarrow> (string \<Rightarrow> string option) \<Rightarrow> env \<Rightarrow> request_context
    \<Rightarrow> tenant_args \<Rightarrow> owner_body \<Rightarrow> db \<Rightarrow> (service_error + workspace \<times> user \<times> string option) \<times> db" where
  "provision_workspace_route cx marks email_str env ctx a b d =
     checked (tenant_fits a \<and> owner_fits email_str b) d
       (commit d (provision_workspace cx marks env ctx a (text_or_empty (email_str (ow_email b))) (ow_full_name b) (ow_password b) d))"

definition set_quota_route :: "env \<Rightarrow> request_context \<Rightarrow> uuid \<Rightarrow> int option \<Rightarrow> db \<Rightarrow> (service_error + workspace) \<times> db" where
  "set_quota_route env ctx wid n d = checked (optional (between 1 1000) n) d (commit d (set_quota env ctx wid n d))"

definition set_engine_route :: "env \<Rightarrow> request_context \<Rightarrow> uuid \<Rightarrow> string \<Rightarrow> db \<Rightarrow> (service_error + workspace) \<times> db" where
  "set_engine_route env ctx wid name d = checked (text_within 1 80 name) d (commit d (set_engine env ctx wid name d))"

definition set_status_route :: "env \<Rightarrow> request_context \<Rightarrow> uuid \<Rightarrow> string \<Rightarrow> db \<Rightarrow> (service_error + workspace) \<times> db" where
  "set_status_route env ctx wid status d =
     checked (status \<in> set [''ACTIVE'', ''SUSPENDED'', ''ARCHIVED'']) d (commit d (set_status env ctx wid status d))"

section \<open>All routes\<close>

text \<open>What a request meets besides its context: the environment, the libraries, and what the engine answers.\<close>

record world =
  wd_env :: env
  wd_crypto :: crypto
  wd_compile :: compiler
  wd_ask :: "string \<Rightarrow> engine_report engine_answer"
  wd_health :: engine_health
  wd_capabilities :: "engine_capabilities option"
  wd_nodes :: "node_row list"
  wd_updated_at :: "workflow \<Rightarrow> int"
  wd_median :: "int \<Rightarrow> int"
  wd_ninety_five :: "int \<Rightarrow> int"
  wd_fold_marks :: "string \<Rightarrow> string"
  wd_email_str :: "string \<Rightarrow> string option"

text \<open>The answer without its body.\<close>

definition done_with :: "(service_error + 'a) \<times> db \<Rightarrow> (service_error + unit) \<times> db" where
  "done_with r = (map_sum id (\<lambda>_. ()) (fst r), snd r)"

text \<open>The authority a route asks for. \<open>NoAuthority\<close> marks the routes that ask for none beyond a context.\<close>

datatype authority = InWorkspace perm_module action | InOrganization action | AsPlatform | NoAuthority

definition has_authority :: "request_context \<Rightarrow> authority \<Rightarrow> bool" where
  "has_authority ctx a =
     (case a of
        InWorkspace m x \<Rightarrow> ctx_can ctx m x
      | InOrganization x \<Rightarrow> org_require (ctx_org_role ctx) x = Inr ()
      | AsPlatform \<Rightarrow> ctx_is_platform_admin ctx
      | NoAuthority \<Rightarrow> True)"

datatype workflow_call =
    ListWorkflows "string option" "string option" "string option" int int
  | CreateWorkflow string "string option" string
  | GetWorkflow uuid
  | UpdateWorkflow uuid "string option" "string option"
  | DeleteWorkflow uuid
  | DuplicateWorkflow uuid
  | GetDraft uuid
  | SaveDraft uuid dict int
  | ValidateWorkflow uuid bool
  | ListVersions uuid
  | GetVersion uuid int
  | PublishWorkflow uuid "int option" "string option"
  | ActivateWorkflow uuid "int option"
  | DeactivateWorkflow uuid
  | GetTrigger uuid
  | RotateWebhookSecret uuid
  | RunWorkflow uuid string json "string option"

fun handle_workflow :: "world \<Rightarrow> request_context \<Rightarrow> workflow_call \<Rightarrow> db \<Rightarrow> (service_error + unit) \<times> db" where
  "handle_workflow wd ctx (ListWorkflows x y z u v) d = done_with (list_workflows_route (wd_env wd) ctx (wd_updated_at wd) x y z u v d)"
| "handle_workflow wd ctx (CreateWorkflow x y z) d = done_with (create_workflow_route (wd_env wd) ctx x y z d)"
| "handle_workflow wd ctx (GetWorkflow x) d = done_with (get_workflow_route (wd_env wd) ctx x d)"
| "handle_workflow wd ctx (UpdateWorkflow x y z) d = done_with (update_workflow_route (wd_env wd) ctx x y z d)"
| "handle_workflow wd ctx (DeleteWorkflow x) d = done_with (delete_workflow_route (wd_env wd) ctx x d)"
| "handle_workflow wd ctx (DuplicateWorkflow x) d = done_with (duplicate_workflow_route (wd_env wd) ctx x d)"
| "handle_workflow wd ctx (GetDraft x) d = done_with (get_draft_route ctx x d)"
| "handle_workflow wd ctx (SaveDraft x y z) d = done_with (save_draft_route (wd_env wd) ctx x y z d)"
| "handle_workflow wd ctx (ValidateWorkflow x y) d = done_with (validate_workflow_route (wd_env wd) (wd_compile wd) ctx x y d)"
| "handle_workflow wd ctx (ListVersions x) d = done_with (list_versions_route ctx x d)"
| "handle_workflow wd ctx (GetVersion x y) d = done_with (get_version_route ctx x y d)"
| "handle_workflow wd ctx (PublishWorkflow x y z) d = done_with (publish_workflow_route (wd_env wd) (wd_compile wd) ctx x y z d)"
| "handle_workflow wd ctx (ActivateWorkflow x y) d = done_with (activate_workflow_route (wd_env wd) ctx x y d)"
| "handle_workflow wd ctx (DeactivateWorkflow x) d = done_with (deactivate_workflow_route (wd_env wd) ctx x d)"
| "handle_workflow wd ctx (GetTrigger x) d = done_with (get_trigger_route (wd_env wd) ctx x d)"
| "handle_workflow wd ctx (RotateWebhookSecret x) d = done_with (rotate_webhook_secret_route (wd_env wd) ctx x d)"
| "handle_workflow wd ctx (RunWorkflow x y z u) d = done_with (run_workflow_route (wd_env wd) ctx x y z u d)"

fun workflow_asks :: "workflow_call \<Rightarrow> authority" where
  "workflow_asks (ListWorkflows _ _ _ _ _) = InWorkspace M_WORKFLOWS A_VIEW"
| "workflow_asks (CreateWorkflow _ _ _) = InWorkspace M_WORKFLOWS A_CREATE"
| "workflow_asks (GetWorkflow _) = NoAuthority"
| "workflow_asks (UpdateWorkflow _ _ _) = InWorkspace M_WORKFLOWS A_EDIT"
| "workflow_asks (DeleteWorkflow _) = InWorkspace M_WORKFLOWS A_DELETE"
| "workflow_asks (DuplicateWorkflow _) = InWorkspace M_WORKFLOWS A_CREATE"
| "workflow_asks (GetDraft _) = InWorkspace M_WORKFLOWS A_VIEW"
| "workflow_asks (SaveDraft _ _ _) = InWorkspace M_WORKFLOWS A_EDIT"
| "workflow_asks (ValidateWorkflow _ _) = InWorkspace M_WORKFLOWS A_VIEW"
| "workflow_asks (ListVersions _) = InWorkspace M_WORKFLOWS A_VIEW"
| "workflow_asks (GetVersion _ _) = InWorkspace M_WORKFLOWS A_VIEW"
| "workflow_asks (PublishWorkflow _ _ _) = InWorkspace M_WORKFLOWS A_PUBLISH"
| "workflow_asks (ActivateWorkflow _ _) = InWorkspace M_WORKFLOWS A_PUBLISH"
| "workflow_asks (DeactivateWorkflow _) = InWorkspace M_WORKFLOWS A_PUBLISH"
| "workflow_asks (GetTrigger _) = NoAuthority"
| "workflow_asks (RotateWebhookSecret _) = InWorkspace M_WORKFLOWS A_PUBLISH"
| "workflow_asks (RunWorkflow _ _ _ _) = InWorkspace M_WORKFLOWS A_EXECUTE"

datatype execution_call =
    ListExecutions execution_filter int int
  | GetExecution uuid
  | ListNodeResults uuid
  | NodeInput uuid string
  | NodeOutput uuid string
  | ExecutionLogs uuid int int
  | CancelExecution uuid
  | RetryExecution uuid

fun handle_execution :: "world \<Rightarrow> request_context \<Rightarrow> execution_call \<Rightarrow> db \<Rightarrow> (service_error + unit) \<times> db" where
  "handle_execution wd ctx (ListExecutions x y z) d = done_with (list_executions_route (wd_env wd) ctx x y z d)"
| "handle_execution wd ctx (GetExecution x) d = done_with (get_execution_route ctx x d)"
| "handle_execution wd ctx (ListNodeResults x) d = done_with (list_node_results_route ctx x d)"
| "handle_execution wd ctx (NodeInput x y) d = done_with (node_input_route ctx x y d)"
| "handle_execution wd ctx (NodeOutput x y) d = done_with (node_output_route ctx x y d)"
| "handle_execution wd ctx (ExecutionLogs x y z) d = done_with (execution_logs_route ctx x y z d)"
| "handle_execution wd ctx (CancelExecution x) d = done_with (cancel_execution_route (wd_env wd) ctx (wd_ask wd) x d)"
| "handle_execution wd ctx (RetryExecution x) d = done_with (retry_execution_route (wd_env wd) ctx x d)"

fun execution_asks :: "execution_call \<Rightarrow> authority" where
  "execution_asks (ListExecutions _ _ _) = InWorkspace M_EXECUTIONS A_VIEW"
| "execution_asks (GetExecution _) = NoAuthority"
| "execution_asks (ListNodeResults _) = NoAuthority"
| "execution_asks (NodeInput _ _) = InWorkspace M_EXECUTIONS A_VIEW_DATA"
| "execution_asks (NodeOutput _ _) = InWorkspace M_EXECUTIONS A_VIEW_DATA"
| "execution_asks (ExecutionLogs _ _ _) = InWorkspace M_EXECUTIONS A_VIEW"
| "execution_asks (CancelExecution _) = InWorkspace M_EXECUTIONS A_EXECUTE"
| "execution_asks (RetryExecution _) = InWorkspace M_EXECUTIONS A_EXECUTE"

datatype credential_call =
    ListCredentials "string option"
  | CreateCredential string string dict
  | GetCredential uuid
  | UpdateCredential uuid "string option" "dict option"
  | TestCredential uuid
  | DeleteCredential uuid

fun handle_credential :: "world \<Rightarrow> request_context \<Rightarrow> credential_call \<Rightarrow> db \<Rightarrow> (service_error + unit) \<times> db" where
  "handle_credential wd ctx (ListCredentials x) d = done_with (list_credentials_route ctx x d)"
| "handle_credential wd ctx (CreateCredential x y z) d = done_with (create_credential_route (wd_env wd) ctx x y z d)"
| "handle_credential wd ctx (GetCredential x) d = done_with (get_credential_route (wd_env wd) ctx x d)"
| "handle_credential wd ctx (UpdateCredential x y z) d = done_with (update_credential_route (wd_env wd) ctx x y z d)"
| "handle_credential wd ctx (TestCredential x) d = done_with (test_credential_route (wd_env wd) ctx x d)"
| "handle_credential wd ctx (DeleteCredential x) d = done_with (delete_credential_route (wd_env wd) ctx x d)"

fun credential_asks :: "credential_call \<Rightarrow> authority" where
  "credential_asks (ListCredentials _) = InWorkspace M_CREDENTIALS A_VIEW"
| "credential_asks (CreateCredential _ _ _) = InWorkspace M_CREDENTIALS A_CREATE"
| "credential_asks (GetCredential _) = NoAuthority"
| "credential_asks (UpdateCredential _ _ _) = InWorkspace M_CREDENTIALS A_EDIT"
| "credential_asks (TestCredential _) = NoAuthority"
| "credential_asks (DeleteCredential _) = InWorkspace M_CREDENTIALS A_DELETE"

datatype ops_call =
    Overview
  | MonitoringDashboard
  | EngineStatusPage
  | Compatibility
  | ListAlertRules
  | UpsertAlertRule alert_rule_body
  | DeleteAlertRule uuid
  | ListNotifications "string option" int int
  | UnreadCount
  | Acknowledge uuid
  | AcknowledgeAll
  | AuditLog "string option" "string option" int int
  | WorkspaceSettings
  | UpdateWorkspace "string option" "string option" "int option"
  | ListMembers
  | InviteMember invite_body
  | UpdateMemberRole uuid string
  | UpdateMemberPermissions uuid "dict option"
  | RemoveMember uuid

fun handle_ops :: "world \<Rightarrow> request_context \<Rightarrow> ops_call \<Rightarrow> db \<Rightarrow> (service_error + unit) \<times> db" where
  "handle_ops wd ctx Overview d = done_with (overview_route (wd_env wd) ctx d)"
| "handle_ops wd ctx MonitoringDashboard d = done_with (monitoring_route (wd_median wd) (wd_ninety_five wd) (wd_env wd) ctx d)"
| "handle_ops wd ctx EngineStatusPage d = done_with (engine_status_route (wd_env wd) ctx (wd_health wd) d)"
| "handle_ops wd ctx Compatibility d = done_with (compatibility_route ctx (wd_capabilities wd) (wd_nodes wd) d)"
| "handle_ops wd ctx ListAlertRules d = done_with (list_alert_rules_route ctx d)"
| "handle_ops wd ctx (UpsertAlertRule x) d = done_with (upsert_alert_rule_route (wd_env wd) ctx x d)"
| "handle_ops wd ctx (DeleteAlertRule x) d = done_with (delete_alert_rule_route ctx x d)"
| "handle_ops wd ctx (ListNotifications x y z) d = done_with (list_notifications_route ctx x y z d)"
| "handle_ops wd ctx UnreadCount d = done_with (unread_count_route ctx d)"
| "handle_ops wd ctx (Acknowledge x) d = done_with (acknowledge_route (wd_env wd) ctx x d)"
| "handle_ops wd ctx AcknowledgeAll d = done_with (acknowledge_all_route (wd_env wd) ctx d)"
| "handle_ops wd ctx (AuditLog x y z u) d = done_with (audit_log_route ctx x y z u d)"
| "handle_ops wd ctx WorkspaceSettings d = done_with (workspace_settings_route (wd_env wd) ctx d)"
| "handle_ops wd ctx (UpdateWorkspace x y z) d = done_with (update_workspace_route (wd_env wd) ctx x y z d)"
| "handle_ops wd ctx ListMembers d = done_with (list_members_route ctx d)"
| "handle_ops wd ctx (InviteMember x) d = done_with (invite_member_route (wd_crypto wd) (wd_email_str wd) (wd_env wd) ctx x d)"
| "handle_ops wd ctx (UpdateMemberRole x y) d = done_with (update_member_role_route (wd_env wd) ctx x y d)"
| "handle_ops wd ctx (UpdateMemberPermissions x y) d = done_with (update_member_permissions_route (wd_env wd) ctx x y d)"
| "handle_ops wd ctx (RemoveMember x) d = done_with (remove_member_route (wd_env wd) ctx x d)"

fun ops_asks :: "ops_call \<Rightarrow> authority" where
  "ops_asks Overview = InWorkspace M_MONITORING A_VIEW"
| "ops_asks MonitoringDashboard = InWorkspace M_MONITORING A_VIEW"
| "ops_asks EngineStatusPage = InWorkspace M_SETTINGS A_VIEW"
| "ops_asks Compatibility = InWorkspace M_SETTINGS A_VIEW"
| "ops_asks ListAlertRules = InWorkspace M_ALERTS A_VIEW"
| "ops_asks (UpsertAlertRule _) = InWorkspace M_ALERTS A_CREATE"
| "ops_asks (DeleteAlertRule _) = InWorkspace M_ALERTS A_DELETE"
| "ops_asks (ListNotifications _ _ _) = InWorkspace M_ALERTS A_VIEW"
| "ops_asks UnreadCount = InWorkspace M_ALERTS A_VIEW"
| "ops_asks (Acknowledge _) = InWorkspace M_ALERTS A_EXECUTE"
| "ops_asks AcknowledgeAll = InWorkspace M_ALERTS A_EXECUTE"
| "ops_asks (AuditLog _ _ _ _) = InWorkspace M_AUDIT A_VIEW"
| "ops_asks WorkspaceSettings = InWorkspace M_SETTINGS A_VIEW"
| "ops_asks (UpdateWorkspace _ _ _) = InWorkspace M_SETTINGS A_EDIT"
| "ops_asks ListMembers = InWorkspace M_MEMBERS A_VIEW"
| "ops_asks (InviteMember _) = InWorkspace M_MEMBERS A_CREATE"
| "ops_asks (UpdateMemberRole _ _) = InWorkspace M_MEMBERS A_EDIT"
| "ops_asks (UpdateMemberPermissions _ _) = InWorkspace M_MEMBERS A_ADMIN"
| "ops_asks (RemoveMember _) = InWorkspace M_MEMBERS A_DELETE"

datatype admin_call =
    EngineDebug uuid
  | AdminCompatibility

fun handle_admin :: "world \<Rightarrow> request_context \<Rightarrow> admin_call \<Rightarrow> db \<Rightarrow> (service_error + unit) \<times> db" where
  "handle_admin wd ctx (EngineDebug x) d = done_with (engine_debug_route (wd_env wd) ctx x d)"
| "handle_admin wd ctx AdminCompatibility d = done_with (admin_compatibility_route ctx (wd_capabilities wd) (wd_nodes wd) d)"

fun admin_asks :: "admin_call \<Rightarrow> authority" where
  "admin_asks (EngineDebug _) = AsPlatform"
| "admin_asks AdminCompatibility = AsPlatform"

datatype organization_call =
    GetOrganization
  | OrgListMembers
  | OrgInviteMember invite_body
  | OrgUpdateMemberRole uuid string
  | OrgRemoveMember uuid
  | ListDepartments
  | CreateDepartment tenant_args

fun handle_organization :: "world \<Rightarrow> request_context \<Rightarrow> organization_call \<Rightarrow> db \<Rightarrow> (service_error + unit) \<times> db" where
  "handle_organization wd ctx GetOrganization d = done_with (get_organization_route ctx d)"
| "handle_organization wd ctx OrgListMembers d = done_with (org_list_members_route ctx d)"
| "handle_organization wd ctx (OrgInviteMember x) d = done_with (org_invite_member_route (wd_crypto wd) (wd_email_str wd) (wd_env wd) ctx x d)"
| "handle_organization wd ctx (OrgUpdateMemberRole x y) d = done_with (org_update_member_role_route (wd_env wd) ctx x y d)"
| "handle_organization wd ctx (OrgRemoveMember x) d = done_with (org_remove_member_route (wd_env wd) ctx x d)"
| "handle_organization wd ctx ListDepartments d = done_with (list_departments_route ctx d)"
| "handle_organization wd ctx (CreateDepartment x) d = done_with (create_department_route (wd_fold_marks wd) (wd_env wd) ctx x d)"

fun organization_asks :: "organization_call \<Rightarrow> authority" where
  "organization_asks GetOrganization = InOrganization A_VIEW"
| "organization_asks OrgListMembers = InOrganization A_VIEW"
| "organization_asks (OrgInviteMember _) = InOrganization A_ADMIN"
| "organization_asks (OrgUpdateMemberRole _ _) = InOrganization A_ADMIN"
| "organization_asks (OrgRemoveMember _) = InOrganization A_ADMIN"
| "organization_asks ListDepartments = InOrganization A_VIEW"
| "organization_asks (CreateDepartment _) = InOrganization A_CREATE"

datatype platform_call =
    ListWorkspaces
  | ProvisionWorkspace tenant_args owner_body
  | SetQuota uuid "int option"
  | SetEngine uuid string
  | SetStatus uuid string

fun handle_platform :: "world \<Rightarrow> request_context \<Rightarrow> platform_call \<Rightarrow> db \<Rightarrow> (service_error + unit) \<times> db" where
  "handle_platform wd ctx ListWorkspaces d = done_with (list_workspaces_route ctx d)"
| "handle_platform wd ctx (ProvisionWorkspace x y) d = done_with (provision_workspace_route (wd_crypto wd) (wd_fold_marks wd) (wd_email_str wd) (wd_env wd) ctx x y d)"
| "handle_platform wd ctx (SetQuota x y) d = done_with (set_quota_route (wd_env wd) ctx x y d)"
| "handle_platform wd ctx (SetEngine x y) d = done_with (set_engine_route (wd_env wd) ctx x y d)"
| "handle_platform wd ctx (SetStatus x y) d = done_with (set_status_route (wd_env wd) ctx x y d)"

fun platform_asks :: "platform_call \<Rightarrow> authority" where
  "platform_asks ListWorkspaces = AsPlatform"
| "platform_asks (ProvisionWorkspace _ _) = AsPlatform"
| "platform_asks (SetQuota _ _) = AsPlatform"
| "platform_asks (SetEngine _ _) = AsPlatform"
| "platform_asks (SetStatus _ _) = AsPlatform"

text \<open>The routers of the product API.\<close>

datatype api_call =
    WorkflowsCall workflow_call
  | ExecutionsCall execution_call
  | CredentialsCall credential_call
  | OpsCall ops_call
  | AdminCall admin_call
  | OrganizationCall organization_call
  | PlatformCall platform_call

fun handle :: "world \<Rightarrow> request_context \<Rightarrow> api_call \<Rightarrow> db \<Rightarrow> (service_error + unit) \<times> db" where
  "handle wd ctx (WorkflowsCall c) d = handle_workflow wd ctx c d"
| "handle wd ctx (ExecutionsCall c) d = handle_execution wd ctx c d"
| "handle wd ctx (CredentialsCall c) d = handle_credential wd ctx c d"
| "handle wd ctx (OpsCall c) d = handle_ops wd ctx c d"
| "handle wd ctx (AdminCall c) d = handle_admin wd ctx c d"
| "handle wd ctx (OrganizationCall c) d = handle_organization wd ctx c d"
| "handle wd ctx (PlatformCall c) d = handle_platform wd ctx c d"

fun asks :: "api_call \<Rightarrow> authority" where
  "asks (WorkflowsCall c) = workflow_asks c"
| "asks (ExecutionsCall c) = execution_asks c"
| "asks (CredentialsCall c) = credential_asks c"
| "asks (OpsCall c) = ops_asks c"
| "asks (AdminCall c) = admin_asks c"
| "asks (OrganizationCall c) = organization_asks c"
| "asks (PlatformCall c) = platform_asks c"

text \<open>A request of the product API: its context, then its route.\<close>

definition serve :: "world \<Rightarrow> request_meta \<Rightarrow> api_call \<Rightarrow> db \<Rightarrow> (service_error + unit) \<times> db" where
  "serve wd q c d =
     (case request_context_of (wd_crypto wd) (wd_env wd) q d of Inl e \<Rightarrow> (Inl e, d) | Inr ctx \<Rightarrow> handle wd ctx c d)"

end
