(* ===== verification/Ownership.thy ===== *)
theory Ownership
  imports Tenants Monitoring Recovery
begin

text \<open>
  Which workspace a row belongs to. Every identifier and every secret reference of a sound database belongs to
  one workspace. A request acts in one workspace: \<open>moves\<close> says that it keeps the database sound and leaves
  what other workspaces see alone. The tables of the database are instances of one interface, a table whose
  rows name their workspace.
\<close>

section \<open>What a workspace sees\<close>

text \<open>The marks of a test on a credential are left out: a run may mark a credential of another workspace.\<close>

definition unmarked :: "credential \<Rightarrow> credential" where
  "unmarked c = c\<lparr>cr_status := CS_ACTIVE, cr_last_test_at := None, cr_last_test_ok := None, cr_last_test_message := None\<rparr>"

record tenant_data =
  td_workspace :: "workspace list"
  td_members :: "membership list"
  td_workflows :: "workflow list"
  td_drafts :: "workflow_draft list"
  td_versions :: "workflow_version list"
  td_triggers :: "trigger_binding list"
  td_credentials :: "credential list"
  td_secrets :: "secret_record list"
  td_executions :: "execution list"
  td_node_results :: "node_result list"
  td_logs :: "log_line list"
  td_audit :: "audit_event list"
  td_rules :: "alert_rule list"
  td_notifications :: "notification list"

definition run_ids :: "uuid \<Rightarrow> db \<Rightarrow> uuid set" where
  "run_ids v d = ex_id ` set (filter (\<lambda>e. ex_workspace_id e = v) (db_executions d))"

definition data_of :: "uuid \<Rightarrow> db \<Rightarrow> tenant_data" where
  "data_of v d =
     \<lparr>td_workspace = filter (\<lambda>r. ws_id r = v) (db_workspaces d),
      td_members = filter (\<lambda>r. me_workspace_id r = v) (db_memberships d),
      td_workflows = filter (\<lambda>r. wf_workspace_id r = v) (db_workflows d),
      td_drafts = filter (\<lambda>r. dr_workspace_id r = v) (db_drafts d),
      td_versions = filter (\<lambda>r. wv_workspace_id r = v) (db_versions d),
      td_triggers = filter (\<lambda>r. tb_workspace_id r = v) (db_triggers d),
      td_credentials = map unmarked (filter (\<lambda>r. cr_workspace_id r = v) (db_credentials d)),
      td_secrets = filter (\<lambda>r. sr_workspace_id r = v) (db_secrets d),
      td_executions = filter (\<lambda>r. ex_workspace_id r = v) (db_executions d),
      td_node_results = filter (\<lambda>r. nr_execution_id r \<in> run_ids v d) (db_node_results d),
      td_logs = filter (\<lambda>r. lg_execution_id r \<in> run_ids v d) (db_logs d),
      td_audit = filter (\<lambda>r. au_workspace_id r = v) (db_audit d),
      td_rules = filter (\<lambda>r. ru_workspace_id r = v) (db_rules d),
      td_notifications = filter (\<lambda>r. no_workspace_id r = v) (db_notifications d)\<rparr>"

section \<open>Who owns an identifier\<close>

definition claims :: "('r \<Rightarrow> string set) \<Rightarrow> ('r \<Rightarrow> uuid) \<Rightarrow> 'r list \<Rightarrow> (string \<times> uuid) set" where
  "claims ks sc rows = (\<Union>r \<in> set rows. ks r \<times> {sc r})"

definition trigger_keys :: "trigger_binding \<Rightarrow> string set" where
  "trigger_keys b = {tb_id b, tb_workflow_id b} \<union> set_option (tb_secret_ref b)"

definition credential_keys :: "credential \<Rightarrow> string set" where
  "credential_keys c = {cr_id c} \<union> set_option (cr_secret_ref c)"

definition owns :: "db \<Rightarrow> (string \<times> uuid) set" where
  "owns d =
     claims (\<lambda>r. {ws_id r}) ws_id (db_workspaces d) \<union> claims (\<lambda>r. {me_id r}) me_workspace_id (db_memberships d) \<union>
     claims (\<lambda>r. {wf_id r}) wf_workspace_id (db_workflows d) \<union> claims (\<lambda>r. {dr_workflow_id r}) dr_workspace_id (db_drafts d) \<union>
     claims (\<lambda>r. {wv_id r}) wv_workspace_id (db_versions d) \<union> claims trigger_keys tb_workspace_id (db_triggers d) \<union>
     claims credential_keys cr_workspace_id (db_credentials d) \<union> claims (\<lambda>r. {sr_ref r}) sr_workspace_id (db_secrets d) \<union>
     claims (\<lambda>r. {ex_id r}) ex_workspace_id (db_executions d) \<union> claims (\<lambda>r. {ru_id r}) ru_workspace_id (db_rules d) \<union>
     claims (\<lambda>r. {no_id r}) no_workspace_id (db_notifications d)"

text \<open>Primary keys are distinct.\<close>

definition unique :: "db \<Rightarrow> bool" where
  "unique d \<longleftrightarrow>
     distinct (map ws_id (db_workspaces d)) \<and> distinct (map me_id (db_memberships d)) \<and>
     distinct (map wf_id (db_workflows d)) \<and> distinct (map dr_workflow_id (db_drafts d)) \<and>
     distinct (map wv_id (db_versions d)) \<and> distinct (map tb_id (db_triggers d)) \<and>
     distinct (map cr_id (db_credentials d)) \<and> distinct (map sr_ref (db_secrets d)) \<and>
     distinct (map ex_id (db_executions d)) \<and> distinct (map ru_id (db_rules d)) \<and>
     distinct (map no_id (db_notifications d))"

text \<open>The identifiers still to be drawn, and the secret references made of them, are all different. Their supply is
  unlimited here, so an identifier may be a hexadecimal text of any length.\<close>

definition secret_ref :: "env \<Rightarrow> nat \<Rightarrow> string" where
  "secret_ref env n = ''secret://'' @ cfg_app_env (env_settings env) @ ''/'' @ env_id env n"

definition well_drawn :: "env \<Rightarrow> bool" where
  "well_drawn env \<longleftrightarrow> inj (env_id env) \<and> (\<forall>n. list_all is_hex (env_id env n))"

definition undrawn :: "env \<Rightarrow> db \<Rightarrow> string set" where
  "undrawn env d = env_id env ` {db_drawn d..} \<union> secret_ref env ` {db_drawn d..}"

text \<open>Workspace \<open>w\<close> may use an identifier that is drawn already and that nobody else owns.\<close>

definition safe :: "env \<Rightarrow> uuid \<Rightarrow> db \<Rightarrow> string \<Rightarrow> bool" where
  "safe env w d i \<longleftrightarrow> (\<forall>v. (i, v) \<in> owns d \<longrightarrow> v = w) \<and> i \<notin> undrawn env d"

definition sound :: "env \<Rightarrow> db \<Rightarrow> bool" where
  "sound env d \<longleftrightarrow> well_drawn env \<and> unique d \<and> (\<forall>(i, v) \<in> owns d. safe env v d i)"

definition moves :: "env \<Rightarrow> uuid \<Rightarrow> db \<Rightarrow> db \<Rightarrow> bool" where
  "moves env w d d' \<longleftrightarrow> (sound env d \<longrightarrow>
     sound env d' \<and> (\<forall>i v. (i, v) \<in> owns d' \<longrightarrow> (i, v) \<in> owns d \<or> v = w) \<and> db_drawn d \<le> db_drawn d' \<and>
     (\<forall>v. v \<noteq> w \<longrightarrow> data_of v d' = data_of v d))"

named_theorems moving \<open>writes and operations that act in one workspace\<close>

lemma moves_refl [moving]: "moves env w d d"
  by (auto simp: moves_def)

lemma moves_trans: "moves env w d d1 \<Longrightarrow> moves env w d1 d2 \<Longrightarrow> moves env w d d2"
  unfolding moves_def by (metis order_trans)

lemma moves_assume: "(sound env d \<Longrightarrow> moves env w d d') \<Longrightarrow> moves env w d d'"
  by (auto simp: moves_def)

lemma undrawn_mono: "db_drawn d \<le> db_drawn d' \<Longrightarrow> undrawn env d' \<subseteq> undrawn env d"
  by (auto simp: undrawn_def)

lemma safe_moves: "moves env w d d' \<Longrightarrow> sound env d \<Longrightarrow> safe env w d i \<Longrightarrow> safe env w d' i"
  unfolding moves_def safe_def using undrawn_mono [of d d' env] by blast

lemma sound_moves: "moves env w d d' \<Longrightarrow> sound env d \<Longrightarrow> sound env d'"
  by (simp add: moves_def)

lemma sound_owned: "sound env d \<Longrightarrow> (i, v) \<in> owns d \<Longrightarrow> safe env v d i"
  by (auto simp: sound_def)

text \<open>The one way to show that a write is a move.\<close>

lemma write_moves:
  assumes "owns d' \<subseteq> owns d \<union> {i. safe env w d i} \<times> {w}" "db_drawn d \<le> db_drawn d'"
    "sound env d \<Longrightarrow> unique d'" "\<And>v. v \<noteq> w \<Longrightarrow> data_of v d' = data_of v d"
  shows "moves env w d d'"
proof (rule moves_assume)
  assume s: "sound env d"
  have here: "safe env v d i" if "(i, v) \<in> owns d'" for i v
    using subsetD [OF assms(1) that] sound_owned [OF s] by auto
  have "u = v" if "(i, v) \<in> owns d'" "(i, u) \<in> owns d'" for i u v
    using subsetD [OF assms(1) that(2)] here [OF that(1)] here [OF that(2)] subsetD [OF assms(1) that(1)]
    by (auto simp: safe_def)
  then have "safe env v d' i" if "(i, v) \<in> owns d'" for i v
    using here [OF that] that undrawn_mono [OF assms(2), of env] by (auto simp: safe_def)
  then have "sound env d'" using s assms(3) by (auto simp: sound_def)
  moreover have "(i, v) \<in> owns d \<or> v = w" if "(i, v) \<in> owns d'" for i v using subsetD [OF assms(1) that] by auto
  ultimately show "moves env w d d'" using assms(2,4) by (simp add: moves_def)
qed

lemmas sight_simps = owns_def unique_def data_of_def run_ids_def

text \<open>What no workspace sees, or sees as it was.\<close>

lemma frame_moves:
  assumes "owns d' = owns d" "unique d' = unique d" "db_drawn d \<le> db_drawn d'" "\<And>v. data_of v d' = data_of v d"
  shows "moves env w d d'"
  using assms by (intro write_moves) (auto simp: sound_def)

lemma bump_moves [moving]: "moves env w d (bump d)"
  by (rule frame_moves) (simp_all add: sight_simps bump_def)

text \<open>A fresh identifier is nobody's, and belongs to the workspace once it is drawn.\<close>

lemma fresh_unowned: "sound env d \<Longrightarrow> fresh_id env d \<notin> Domain (owns d)"
  by (auto simp: fresh_id_def undrawn_def safe_def dest: sound_owned)

lemma secret_ref_unowned: "sound env d \<Longrightarrow> secret_ref env (db_drawn d) \<notin> Domain (owns d)"
  by (auto simp: undrawn_def safe_def dest: sound_owned)

lemma drawn_bump [simp]: "db_drawn (bump d) = Suc (db_drawn d)"
  by (simp add: bump_def)

lemma owns_bump [simp]: "owns (bump d) = owns d"
  by (simp add: owns_def bump_def)

lemma drawn_apart:
  assumes "well_drawn env"
  shows "env_id env n \<notin> undrawn env d \<longleftrightarrow> n < db_drawn d" "secret_ref env n \<notin> undrawn env d \<longleftrightarrow> n < db_drawn d"
proof -
  have ids: "env_id env n = env_id env m \<longleftrightarrow> n = m" for n m
    using assms by (auto simp: well_drawn_def dest: injD)
  have refs: "secret_ref env n = secret_ref env m \<longleftrightarrow> n = m" for n m
    using ids by (simp add: secret_ref_def)
  have apart: "env_id env n \<noteq> secret_ref env m" for n m
  proof
    assume "env_id env n = secret_ref env m"
    then have "CHR '':'' \<in> set (env_id env n)" by (simp add: secret_ref_def)
    then have "is_hex (CHR '':'')" using assms by (auto simp: well_drawn_def list_all_iff)
    then show False by (simp add: is_hex_def is_digit_def)
  qed
  show "env_id env n \<notin> undrawn env d \<longleftrightarrow> n < db_drawn d" "secret_ref env n \<notin> undrawn env d \<longleftrightarrow> n < db_drawn d"
    by (auto simp: undrawn_def image_iff ids refs apart apart [symmetric])
qed

lemma fresh_safe: "sound env d \<Longrightarrow> safe env w (bump d) (fresh_id env d)"
  using fresh_unowned [of env d] drawn_apart(1) [of env "db_drawn d" "bump d"]
  by (auto simp: safe_def fresh_id_def sound_def)

lemma secret_ref_safe: "sound env d \<Longrightarrow> safe env w (bump d) (secret_ref env (db_drawn d))"
  using secret_ref_unowned [of env d] drawn_apart(2) [of env "db_drawn d" "bump d"]
  by (auto simp: safe_def sound_def)

section \<open>Tables whose rows name their workspace\<close>

lemma claims_append: "claims ks sc (xs @ [x]) = claims ks sc xs \<union> ks x \<times> {sc x}"
  by (auto simp: claims_def)

lemma claims_mono: "set xs \<subseteq> set ys \<Longrightarrow> claims ks sc xs \<subseteq> claims ks sc ys"
  by (auto simp: claims_def)

lemma claims_update:
  assumes "\<And>r. r \<in> set rows \<Longrightarrow> P r \<Longrightarrow> sc (f r) = w \<and> ks (f r) \<subseteq> K"
  shows "claims ks sc (update_where P f rows) \<subseteq> claims ks sc rows \<union> K \<times> {w}"
  using assms by (fastforce simp: claims_def table_simps)

lemma claimI: "r \<in> set rows \<Longrightarrow> i \<in> ks r \<Longrightarrow> (i, sc r) \<in> claims ks sc rows"
  by (auto simp: claims_def)

lemma filter_update_elsewhere:
  assumes "\<And>r. r \<in> set rows \<Longrightarrow> P r \<Longrightarrow> \<not> Q r \<and> \<not> Q (f r)"
  shows "filter Q (update_where P f rows) = filter Q rows"
  using assms by (induction rows) auto

lemma filter_delete_elsewhere:
  assumes "\<And>r. r \<in> set rows \<Longrightarrow> P r \<Longrightarrow> \<not> Q r"
  shows "filter Q (delete_where P rows) = filter Q rows"
  using assms by (induction rows) (auto simp: delete_where_def)

locale owned_table =
  fixes rows :: "db \<Rightarrow> 'r list"
    and put :: "'r list \<Rightarrow> db \<Rightarrow> db"
    and ks :: "'r \<Rightarrow> string set"
    and sc :: "'r \<Rightarrow> uuid"
    and ok :: "'r list \<Rightarrow> bool"
  assumes held: "claims ks sc (rows d) \<subseteq> owns d"
    and owns_put: "owns (put xs d) \<subseteq> owns d \<union> claims ks sc xs"
    and data_put: "filter (\<lambda>r. sc r = v) xs = filter (\<lambda>r. sc r = v) (rows d) \<Longrightarrow> data_of v (put xs d) = data_of v d"
    and drawn_put: "db_drawn (put xs d) = db_drawn d"
    and unique_put: "unique d \<Longrightarrow> ok xs \<Longrightarrow> unique (put xs d)"
    and unique_ok: "unique d \<Longrightarrow> ok (rows d)"
begin

lemma owner: "sound env d \<Longrightarrow> r \<in> set (rows d) \<Longrightarrow> i \<in> ks r \<Longrightarrow> safe env (sc r) d i"
  using held [of d] by (fastforce simp: claims_def intro: sound_owned)

lemma found: "sound env d \<Longrightarrow> find P (rows d) = Some r \<Longrightarrow> sc r = w \<Longrightarrow> i \<in> ks r \<Longrightarrow> safe env w d i"
  using owner [of env d r i] find_SomeD [of P "rows d" r] by auto

lemma mine: "safe env w d i \<Longrightarrow> r \<in> set (rows d) \<Longrightarrow> i \<in> ks r \<Longrightarrow> sc r = w"
  using held [of d] by (fastforce simp: claims_def safe_def)

lemma put_moves:
  assumes "claims ks sc xs \<subseteq> claims ks sc (rows d) \<union> {i. safe env w d i} \<times> {w}" "ok (rows d) \<Longrightarrow> ok xs"
    "\<And>v. v \<noteq> w \<Longrightarrow> filter (\<lambda>r. sc r = v) xs = filter (\<lambda>r. sc r = v) (rows d)"
  shows "moves env w d (put xs d)"
proof (rule write_moves)
  show "owns (put xs d) \<subseteq> owns d \<union> {i. safe env w d i} \<times> {w}" using owns_put [of xs d] held [of d] assms(1) by blast
qed (simp_all add: drawn_put unique_put unique_ok sound_def assms data_put)

lemma insert_moves:
  assumes "sc x = w" "\<And>i. i \<in> ks x \<Longrightarrow> safe env w d i" "ok (rows d) \<Longrightarrow> ok (rows d @ [x])"
  shows "moves env w d (put (rows d @ [x]) d)"
  using assms by (intro put_moves) (auto simp: claims_append)

lemma update_moves:
  assumes "\<And>r. r \<in> set (rows d) \<Longrightarrow> P r \<Longrightarrow> sc r = w \<and> sc (f r) = w \<and> (\<forall>i \<in> ks (f r). safe env w d i)"
    "ok (rows d) \<Longrightarrow> ok (update_where P f (rows d))"
  shows "moves env w d (put (update_where P f (rows d)) d)"
proof (rule put_moves)
  show "claims ks sc (update_where P f (rows d)) \<subseteq> claims ks sc (rows d) \<union> {i. safe env w d i} \<times> {w}"
    using assms(1) by (intro claims_update) blast
  show "filter (\<lambda>r. sc r = v) (update_where P f (rows d)) = filter (\<lambda>r. sc r = v) (rows d)" if "v \<noteq> w" for v
    using assms(1) that by (intro filter_update_elsewhere) auto
qed (rule assms(2))

lemma delete_moves:
  assumes "\<And>r. r \<in> set (rows d) \<Longrightarrow> P r \<Longrightarrow> sc r = w" "ok (rows d) \<Longrightarrow> ok (delete_where P (rows d))"
  shows "moves env w d (put (delete_where P (rows d)) d)"
proof (rule put_moves)
  show "claims ks sc (delete_where P (rows d)) \<subseteq> claims ks sc (rows d) \<union> {i. safe env w d i} \<times> {w}"
    using claims_mono [of "delete_where P (rows d)" "rows d" ks sc] by (auto simp: table_simps)
  show "filter (\<lambda>r. sc r = v) (delete_where P (rows d)) = filter (\<lambda>r. sc r = v) (rows d)" if "v \<noteq> w" for v
    using assms(1) that by (intro filter_delete_elsewhere) auto
qed (rule assms(2))

end

text \<open>A table with a primary key among the identifiers.\<close>

locale keyed_table = owned_table rows put ks sc "\<lambda>xs. distinct (map pk xs)"
  for rows :: "db \<Rightarrow> 'r list" and put :: "'r list \<Rightarrow> db \<Rightarrow> db" and ks :: "'r \<Rightarrow> string set" and sc :: "'r \<Rightarrow> uuid"
    and pk :: "'r \<Rightarrow> string" +
  assumes pk_key: "pk r \<in> ks r"
    and rows_bump: "rows (bump d) = rows d"
begin

lemma insert_new:
  assumes "sc x = w" "\<And>i. i \<in> ks x \<Longrightarrow> safe env w d i" "pk x \<notin> pk ` set (rows d)"
  shows "moves env w d (put (rows d @ [x]) d)"
  by (rule insert_moves) (use assms in auto)

lemma unowned: "pk x \<notin> Domain (owns d) \<Longrightarrow> pk x \<notin> pk ` set (rows d)"
  using held [of d] pk_key by (fastforce simp: claims_def)

lemma distinct_update: "(\<And>r. P r \<Longrightarrow> pk (f r) = pk r) \<Longrightarrow> distinct (map pk xs) \<Longrightarrow> distinct (map pk (update_where P f xs))"
proof -
  assume "\<And>r. P r \<Longrightarrow> pk (f r) = pk r"
  then have "map pk (update_where P f xs) = map pk xs" by (induction xs) auto
  then show "distinct (map pk xs) \<Longrightarrow> ?thesis" by simp
qed

lemma insert_fresh:
  assumes "sc x = w" "pk x = fresh_id env d" "\<And>i. i \<in> ks x \<Longrightarrow> i \<noteq> pk x \<Longrightarrow> safe env w d i"
  shows "moves env w d (put (rows d @ [x]) (bump d))"
proof (rule moves_assume)
  assume s: "sound env d"
  have "moves env w (bump d) (put (rows (bump d) @ [x]) (bump d))"
  proof (rule insert_new)
    show "safe env w (bump d) i" if "i \<in> ks x" for i
      using that assms(2,3) fresh_safe [OF s] safe_moves [OF bump_moves s] by (cases "i = pk x") auto
    show "pk x \<notin> pk ` set (rows (bump d))" using unowned [of x d] fresh_unowned [OF s] assms(2) by (simp add: rows_bump)
  qed (rule assms(1))
  then show "moves env w d (put (rows d @ [x]) (bump d))" using moves_trans [OF bump_moves] by (simp add: rows_bump)
qed

text \<open>A row is rewritten in place.\<close>

lemma rewrite_moves:
  assumes "safe env w d i" "\<And>r. pk r = i \<Longrightarrow> pk (f r) = i"
    "\<And>r. r \<in> set (rows d) \<Longrightarrow> pk r = i \<Longrightarrow> sc (f r) = w \<and> (\<forall>j \<in> ks (f r). safe env w d j)"
  shows "moves env w d (put (update_where (\<lambda>r. pk r = i) f (rows d)) d)"
proof (rule update_moves)
  show "sc r = w \<and> sc (f r) = w \<and> (\<forall>i \<in> ks (f r). safe env w d i)" if "r \<in> set (rows d)" "pk r = i" for r
    using that assms pk_key mine by blast
qed (use assms(2) distinct_update [of "\<lambda>r. pk r = i"] in auto)

lemma remove_moves:
  assumes "safe env w d i"
  shows "moves env w d (put (delete_where (\<lambda>r. pk r = i) (rows d)) d)"
  by (rule delete_moves) (use assms pk_key mine in \<open>auto simp: delete_where_def distinct_map intro: inj_on_subset\<close>)

end

section \<open>The tables\<close>

interpretation workflows: keyed_table db_workflows "\<lambda>xs d. d\<lparr>db_workflows := xs\<rparr>" "\<lambda>r. {wf_id r}" wf_workspace_id wf_id
  by unfold_locales (auto simp: sight_simps bump_def)

interpretation workspaces: keyed_table db_workspaces "\<lambda>xs d. d\<lparr>db_workspaces := xs\<rparr>" "\<lambda>r. {ws_id r}" ws_id ws_id
  by unfold_locales (auto simp: sight_simps bump_def)

interpretation memberships: keyed_table db_memberships "\<lambda>xs d. d\<lparr>db_memberships := xs\<rparr>" "\<lambda>r. {me_id r}" me_workspace_id me_id
  by unfold_locales (auto simp: sight_simps bump_def)

interpretation drafts: keyed_table db_drafts "\<lambda>xs d. d\<lparr>db_drafts := xs\<rparr>" "\<lambda>r. {dr_workflow_id r}" dr_workspace_id dr_workflow_id
  by unfold_locales (auto simp: sight_simps bump_def)

interpretation versions: keyed_table db_versions "\<lambda>xs d. d\<lparr>db_versions := xs\<rparr>" "\<lambda>r. {wv_id r}" wv_workspace_id wv_id
  by unfold_locales (auto simp: sight_simps bump_def)

interpretation triggers: keyed_table db_triggers "\<lambda>xs d. d\<lparr>db_triggers := xs\<rparr>" trigger_keys tb_workspace_id tb_id
  by unfold_locales (auto simp: sight_simps trigger_keys_def bump_def)

interpretation credentials: keyed_table db_credentials "\<lambda>xs d. d\<lparr>db_credentials := xs\<rparr>" credential_keys cr_workspace_id cr_id
  by unfold_locales (auto simp: sight_simps credential_keys_def bump_def)

interpretation secrets: keyed_table db_secrets "\<lambda>xs d. d\<lparr>db_secrets := xs\<rparr>" "\<lambda>r. {sr_ref r}" sr_workspace_id sr_ref
  by unfold_locales (auto simp: sight_simps bump_def)

interpretation runs: keyed_table db_executions "\<lambda>xs d. d\<lparr>db_executions := xs\<rparr>" "\<lambda>r. {ex_id r}" ex_workspace_id ex_id
  by unfold_locales (auto simp: sight_simps bump_def)

interpretation rules: keyed_table db_rules "\<lambda>xs d. d\<lparr>db_rules := xs\<rparr>" "\<lambda>r. {ru_id r}" ru_workspace_id ru_id
  by unfold_locales (auto simp: sight_simps bump_def)

interpretation notices: keyed_table db_notifications "\<lambda>xs d. d\<lparr>db_notifications := xs\<rparr>" "\<lambda>r. {no_id r}" no_workspace_id no_id
  by unfold_locales (auto simp: sight_simps bump_def)

interpretation trail: owned_table db_audit "\<lambda>xs d. d\<lparr>db_audit := xs\<rparr>" "\<lambda>_. {}" au_workspace_id "\<lambda>_. True"
  by unfold_locales (auto simp: sight_simps claims_def)

section \<open>Writes\<close>

lemma users_moves [moving]: "moves env w d (d\<lparr>db_users := xs\<rparr>)"
  by (rule frame_moves) (simp_all add: sight_simps)

lemma org_members_moves [moving]: "moves env w d (d\<lparr>db_org_memberships := xs\<rparr>)"
  by (rule frame_moves) (simp_all add: sight_simps)

lemma engines_moves [moving]: "moves env w d (put_engine i d)"
  by (rule frame_moves) (simp_all add: sight_simps put_engine_def)

lemma audit_moves [moving]: "ctx_workspace_id ctx = w \<Longrightarrow> moves env w d (audit_record env' ctx a d)"
proof -
  assume "ctx_workspace_id ctx = w"
  moreover have "\<exists>x. audit_record env' ctx a d = d\<lparr>db_audit := db_audit d @ [x]\<rparr> \<and> au_workspace_id x = ctx_workspace_id ctx"
    unfolding audit_record_def Let_def case_prod_beta
    by (rule exI, rule conjI, rule refl) simp
  ultimately show ?thesis using trail.insert_moves [of _ w env d] by fastforce
qed

end
