(* ===== verification/Isolation.thy ===== *)
theory Isolation
  imports Ownership
begin

text \<open>
  Every operation of the services acts in the workspace of its context.
\<close>

section \<open>Rows\<close>

lemma put_workflow_moves: "safe env w d (wf_id x) \<Longrightarrow> wf_workspace_id x = w \<Longrightarrow> moves env w d (put_workflow x d)"
  unfolding put_workflow_def by (rule workflows.rewrite_moves) auto

lemma put_draft_moves: "safe env w d (dr_workflow_id x) \<Longrightarrow> dr_workspace_id x = w \<Longrightarrow> moves env w d (put_draft x d)"
  unfolding put_draft_def by (rule drafts.rewrite_moves) auto

lemma put_execution_moves: "safe env w d (ex_id x) \<Longrightarrow> ex_workspace_id x = w \<Longrightarrow> moves env w d (put_execution x d)"
  unfolding put_execution_def by (rule runs.rewrite_moves) auto

lemma put_membership_moves: "safe env w d (me_id x) \<Longrightarrow> me_workspace_id x = w \<Longrightarrow> moves env w d (put_membership x d)"
  unfolding put_membership_def by (rule memberships.rewrite_moves) auto

lemma put_workspace_moves: "safe env w d (ws_id x) \<Longrightarrow> ws_id x = w \<Longrightarrow> moves env w d (put_workspace x d)"
  unfolding put_workspace_def by (rule workspaces.rewrite_moves) auto

text \<open>A binding, or a credential, whose identifiers the workspace may use.\<close>

definition own_binding :: "env \<Rightarrow> uuid \<Rightarrow> db \<Rightarrow> trigger_binding \<Rightarrow> bool" where
  "own_binding env w d b \<longleftrightarrow> tb_workspace_id b = w \<and> (\<forall>i \<in> trigger_keys b. safe env w d i)"

definition own_credential :: "env \<Rightarrow> uuid \<Rightarrow> db \<Rightarrow> credential \<Rightarrow> bool" where
  "own_credential env w d c \<longleftrightarrow> cr_workspace_id c = w \<and> (\<forall>i \<in> credential_keys c. safe env w d i)"

lemma put_trigger_moves: "own_binding env w d x \<Longrightarrow> moves env w d (put_trigger x d)"
  unfolding put_trigger_def own_binding_def by (rule triggers.rewrite_moves) (auto simp: trigger_keys_def)

lemma put_credential_moves: "own_credential env w d x \<Longrightarrow> moves env w d (put_credential x d)"
  unfolding put_credential_def own_credential_def by (rule credentials.rewrite_moves) (auto simp: credential_keys_def)

lemma own_binding_moves: "moves env w d d' \<Longrightarrow> sound env d \<Longrightarrow> own_binding env w d b \<Longrightarrow> own_binding env w d' b"
  by (auto simp: own_binding_def intro: safe_moves)

lemma own_credential_moves: "moves env w d d' \<Longrightarrow> sound env d \<Longrightarrow> own_credential env w d c \<Longrightarrow> own_credential env w d' c"
  by (auto simp: own_credential_def intro: safe_moves)

lemma stored_binding: "sound env d \<Longrightarrow> b \<in> set (db_triggers d) \<Longrightarrow> own_binding env (tb_workspace_id b) d b"
  by (auto simp: own_binding_def intro: triggers.owner)

lemma stored_credential: "sound env d \<Longrightarrow> c \<in> set (db_credentials d) \<Longrightarrow> own_credential env (cr_workspace_id c) d c"
  by (auto simp: own_credential_def intro: credentials.owner)

lemma credential_getD: "credential_get ctx cid d = Inr c \<Longrightarrow>
    c \<in> set (db_credentials d) \<and> cr_id c = cid \<and> cr_workspace_id c = ctx_workspace_id ctx"
  by (auto simp: credential_get_def split: option.splits dest: find_SomeD)

lemma workflow_getD: "get_workflow ctx wfid d = Inr x \<Longrightarrow>
    x \<in> set (db_workflows d) \<and> wf_id x = wfid \<and> wf_workspace_id x = ctx_workspace_id ctx"
  by (auto simp: get_workflow_def split: option.splits dest: find_SomeD)

text \<open>Committing only what did not raise.\<close>

lemma committed_moves: "(\<And>x. fst r = Inr x \<Longrightarrow> moves env w d (snd r)) \<Longrightarrow> moves env w d (committed d r)"
  by (auto simp: committed_def moves_refl split: prod.split sum.split)

lemma guarded_moves: "(c = Inr () \<Longrightarrow> moves env w d (snd rest)) \<Longrightarrow> moves env w d (snd (guarded c d rest))"
  by (auto simp: guarded_def moves_refl split: sum.split)

section \<open>Secrets\<close>

lemma secret_write_moves:
  assumes "secret_write env w payload ref d = (r, d')" "\<And>x. ref = Some x \<Longrightarrow> safe env w d x" "sound env d"
  shows "moves env w d d' \<and> safe env w d' r"
proof (cases "case ref of None \<Rightarrow> None | Some r \<Rightarrow> if r = [] then None else find_secret d r")
  case None
  define new where "new = (case ref of Some (c # cs) \<Rightarrow> c # cs | _ \<Rightarrow> secret_ref env (db_drawn d))"
  define row where "row = last (db_secrets d')"
  have row: "d' = (bump d)\<lparr>db_secrets := db_secrets (bump d) @ [row]\<rparr>" "sr_ref row = new" "sr_workspace_id row = w" "r = new"
    using assms(1) None by (auto simp: secret_write_def Let_def new_def row_def secret_ref_def fresh_id_def bump_def split: option.splits list.splits)
  have s: "safe env w (bump d) new"
    using assms(2,3) secret_ref_safe [OF assms(3)] safe_moves [OF bump_moves assms(3)]
    by (auto simp: new_def split: option.split list.split)
  have "new \<notin> sr_ref ` set (db_secrets d)"
    using None secret_ref_unowned [OF assms(3)] secrets.held [of d]
    by (force simp: new_def find_secret_def find_None_iff_all claims_def split: option.splits list.splits if_splits)
  then have "moves env w (bump d) d'"
    unfolding row(1) using row(2,3) s by (intro secrets.insert_new) (auto simp: bump_def)
  then have "moves env w d d'" "safe env w d' new"
    using moves_trans [OF bump_moves] safe_moves [OF _ sound_moves [OF bump_moves assms(3)] s] by auto
  then show ?thesis using row(4) by simp
next
  case (Some rec)
  then have rec: "rec \<in> set (db_secrets d)" "ref = Some (sr_ref rec)"
    by (auto simp: find_secret_def split: option.splits if_splits dest: find_SomeD)
  then have s: "safe env w d (sr_ref rec)" "sr_workspace_id rec = w" using assms(2) secrets.mine by auto
  have "moves env w d d'" "r = sr_ref rec"
    using assms(1) Some s rec(1) secrets.mine [OF s(1)]
    by (auto simp: secret_write_def Let_def intro!: secrets.rewrite_moves)
  then show ?thesis using safe_moves [OF _ assms(3) s(1)] by simp
qed

lemma secret_delete_moves: "safe env w d ref \<Longrightarrow> moves env w d (secret_delete ref d)"
  unfolding secret_delete_def by (rule secrets.remove_moves)

section \<open>Alerts\<close>

lemma raise_alert_moves [moving]: "moves env w d (snd (raise_alert env w a d))"
  by (auto simp: raise_alert_def Let_def moving intro!: notices.insert_fresh)

lemma evaluate_execution_moves: "ex_workspace_id e = w \<Longrightarrow> moves env w d (evaluate_execution env e d)"
  by (auto simp: evaluate_execution_def Let_def moving intro: moves_trans raise_alert_moves
      moves_trans [OF raise_alert_moves moves_trans [OF raise_alert_moves raise_alert_moves]])

lemma upsert_rule_moves [moving]: "ctx_workspace_id ctx = w \<Longrightarrow> moves env w d (snd (upsert_rule env ctx ev wfid n c b d))"
proof (rule moves_assume)
  assume c: "ctx_workspace_id ctx = w" and s: "sound env d"
  have old: "moves env w d (d\<lparr>db_rules := update_where (\<lambda>x. ru_id x = ru_id r) (\<lambda>_. r') (db_rules d)\<rparr>)"
    if "find P (db_rules d) = Some r" "P r \<Longrightarrow> ru_workspace_id r = w" "ru_id r' = ru_id r" "ru_workspace_id r' = ru_workspace_id r" for P r r'
    using rules.found [OF s that(1)] find_SomeD [OF that(1)] that by (intro rules.rewrite_moves) auto
  show "moves env w d (snd (upsert_rule env ctx ev wfid n c b d))"
    unfolding upsert_rule_def Let_def
    by (intro guarded_moves) (auto simp: moving c split: option.split intro!: rules.insert_fresh old)
qed

lemma delete_rule_moves [moving]: "ctx_workspace_id ctx = w \<Longrightarrow> moves env w d (snd (delete_rule ctx rid d))"
proof (rule moves_assume)
  assume c: "ctx_workspace_id ctx = w" and s: "sound env d"
  have "moves env w d (d\<lparr>db_rules := delete_where (\<lambda>x. ru_id x = ru_id r) (db_rules d)\<rparr>)"
    if "find (\<lambda>r. ru_id r = rid \<and> ru_workspace_id r = w) (db_rules d) = Some r" for r
    using rules.found [OF s that] find_SomeD [OF that] by (intro rules.remove_moves) auto
  then show "moves env w d (snd (delete_rule ctx rid d))"
    unfolding delete_rule_def by (intro guarded_moves) (auto simp: moving c split: option.split)
qed

text \<open>Acknowledging rewrites notifications of the workspace by a condition that names it.\<close>

lemma read_moves: "(\<And>n. P n \<Longrightarrow> no_workspace_id n = w) \<Longrightarrow>
    moves env w d (d\<lparr>db_notifications := update_where P (mark_read env') (db_notifications d)\<rparr>)"
  by (rule moves_assume, rule notices.update_moves)
    (auto simp: mark_read_def intro: notices.owner intro!: notices.distinct_update)

lemma acknowledge_moves [moving]: "ctx_workspace_id ctx = w \<Longrightarrow> moves env w d (snd (acknowledge env' ctx nid d))"
  unfolding acknowledge_def Let_def
  by (intro guarded_moves) (auto simp: moving split: option.split intro!: read_moves)

lemma acknowledge_all_moves [moving]: "ctx_workspace_id ctx = w \<Longrightarrow> moves env w d (snd (acknowledge_all env' ctx d))"
  unfolding acknowledge_all_def by (intro guarded_moves) (auto simp: unread_in_def intro!: read_moves)

section \<open>Credentials\<close>

lemma stored_secret_moves:
  assumes "own_credential env w d c" "secret_write env w payload (cr_secret_ref c) d = (r, d')" "sound env d"
    "cr_id c' = cr_id c" "cr_workspace_id c' = w" "cr_secret_ref c' = Some r"
  shows "moves env w d (put_credential c' d')"
proof -
  have "moves env w d d' \<and> safe env w d' r"
    using assms(1,3) by (intro secret_write_moves [OF assms(2)]) (auto simp: own_credential_def credential_keys_def)
  moreover have "own_credential env w d' c" using calculation own_credential_moves assms(1,3) by blast
  ultimately have "moves env w d d'" "own_credential env w d' c'" using assms(4-6) by (auto simp: own_credential_def credential_keys_def)
  then show ?thesis by (blast intro: moves_trans put_credential_moves)
qed

lemma credential_create_moves [moving]:
  assumes c: "ctx_workspace_id ctx = w"
  shows "moves env w d (snd (credential_create env ctx name ty form d))"
proof (rule moves_assume)
  assume s: "sound env d"
  have new: "moves env w d ((bump d)\<lparr>db_credentials := db_credentials d @ [row]\<rparr>)"
    if "cr_id row = fresh_id env d" "cr_workspace_id row = w" "cr_secret_ref row = None" for row
    using that by (intro credentials.insert_fresh) (auto simp: credential_keys_def)
  have sealed: "moves env w d (put_credential row' d')"
    if "secret_write env w payload None ((bump d)\<lparr>db_credentials := db_credentials d @ [row]\<rparr>) = (r, d')"
      "cr_id row = fresh_id env d" "cr_workspace_id row = w" "cr_secret_ref row = None"
      "cr_id row' = cr_id row" "cr_workspace_id row' = w" "cr_secret_ref row' = Some r" for row row' payload r d'
  proof -
    note m = new [OF that(2-4)]
    have "own_credential env w ((bump d)\<lparr>db_credentials := db_credentials d @ [row]\<rparr>) row"
      using stored_credential [OF sound_moves [OF m s], of row] that(3) by simp
    from moves_trans [OF m stored_secret_moves [OF this _ sound_moves [OF m s] that(5-7)]] that(1,4) show ?thesis by simp
  qed
  show "moves env w d (snd (credential_create env ctx name ty form d))"
    unfolding credential_create_def Let_def
    by (intro guarded_moves)
      (auto simp: moving c split: option.split sum.split prod.split if_split
        intro!: moves_trans [OF _ audit_moves [OF c]] new intro: sealed)
qed

lemma credential_update_moves [moving]:
  assumes c: "ctx_workspace_id ctx = w"
  shows "moves env w d (snd (credential_update env ctx cid name form d))"
proof (rule moves_assume)
  assume s: "sound env d"
  have own: "own_credential env w d row" if "credential_get ctx cid d = Inr row" for row
    using stored_credential [OF s, of row] credential_getD [OF that] c by simp
  have plain: "moves env w d (put_credential row' d)"
    if "credential_get ctx cid d = Inr row" "cr_id row' = cr_id row" "cr_workspace_id row' = cr_workspace_id row"
      "cr_secret_ref row' = cr_secret_ref row" for row row'
    using own [OF that(1)] that by (intro put_credential_moves) (simp add: own_credential_def credential_keys_def)
  have sealed: "moves env w d (put_credential row' d')"
    if "credential_get ctx cid d = Inr row" "secret_write env w payload (cr_secret_ref row) d = (r, d')"
      "cr_id row' = cr_id row" "cr_workspace_id row' = cr_workspace_id row" "cr_secret_ref row' = Some r" for row row' payload r d'
    using own [OF that(1)] that by (intro stored_secret_moves [OF _ that(2) s that(3)]) (auto simp: own_credential_def)
  show "moves env w d (snd (credential_update env ctx cid name form d))"
    unfolding credential_update_def Let_def
    by (intro guarded_moves)
      (auto simp: moving c split: option.split sum.split prod.split if_split
        intro!: moves_trans [OF _ audit_moves [OF c]] intro: plain sealed)
qed

lemma credential_delete_moves [moving]:
  assumes c: "ctx_workspace_id ctx = w"
  shows "moves env w d (snd (credential_delete env ctx cid d))"
proof (rule moves_assume)
  assume s: "sound env d"
  have gone: "moves env w d (put_credential row' d)" "r \<noteq> [] \<Longrightarrow> r = text_or_empty (cr_secret_ref row) \<Longrightarrow> moves env w d (put_credential row' (secret_delete r d))"
    if "credential_get ctx cid d = Inr row" "cr_id row' = cr_id row" "cr_workspace_id row' = cr_workspace_id row" "cr_secret_ref row' = None"
    for row row' r
  proof -
    have own: "own_credential env w d row" using stored_credential [OF s, of row] credential_getD [OF that(1)] c by simp
    then have own': "own_credential env w d row'" using that by (simp add: own_credential_def credential_keys_def)
    then show "moves env w d (put_credential row' d)" by (rule put_credential_moves)
    assume "r \<noteq> []" "r = text_or_empty (cr_secret_ref row)"
    then have "safe env w d r" using own by (auto simp: own_credential_def credential_keys_def text_or_empty_def split: option.splits)
    then have m: "moves env w d (secret_delete r d)" by (rule secret_delete_moves)
    show "moves env w d (put_credential row' (secret_delete r d))"
      by (rule moves_trans [OF m put_credential_moves [OF own_credential_moves [OF m s own']]])
  qed
  show "moves env w d (snd (credential_delete env ctx cid d))"
    unfolding credential_delete_def Let_def
    by (intro guarded_moves)
      (auto simp: moving c split: sum.split if_split intro!: moves_trans [OF _ audit_moves [OF c]] intro: gone)
qed

lemma record_test_moves [moving]:
  assumes c: "ctx_workspace_id ctx = w"
  shows "moves env w d (snd (record_test env ctx cid good msg d))"
proof (rule moves_assume)
  assume s: "sound env d"
  show "moves env w d (snd (record_test env ctx cid good msg d))"
    unfolding record_test_def Let_def
    by (auto simp: moving c split: sum.split intro!: moves_trans [OF _ audit_moves [OF c]] put_credential_moves
        dest!: credential_getD dest: stored_credential [OF s]) (auto simp: own_credential_def credential_keys_def c dest: stored_credential [OF s])
qed

section \<open>Runs\<close>

lemma same_credential: "unique d \<Longrightarrow> c \<in> set (db_credentials d) \<Longrightarrow> c' \<in> set (db_credentials d) \<Longrightarrow> cr_id c = cr_id c' \<Longrightarrow> c = c'"
  by (auto simp: unique_def distinct_map dest: inj_onD)

text \<open>A credential may be marked from another workspace; only its marks change.\<close>

lemma mark_invalid_moves: "moves env w d (mark_invalid env' cid msg d)"
proof (cases "get_credential_row d cid")
  case (Some row)
  then have row: "row \<in> set (db_credentials d)" by (auto simp: get_credential_row_def dest: find_SomeD)
  define mark where "mark c = c\<lparr>cr_status := CS_INVALID, cr_last_test_ok := Some False,
    cr_last_test_message := Some (take 500 msg), cr_last_test_at := Some (env_now env')\<rparr>" for c :: credential
  have keep: "cr_id (mark c) = cr_id c" "cr_workspace_id (mark c) = cr_workspace_id c"
    "credential_keys (mark c) = credential_keys c" "unmarked (mark c) = unmarked c" for c
    by (simp_all add: mark_def credential_keys_def unmarked_def)
  have marked: "moves env w d (d\<lparr>db_credentials := update_where (\<lambda>c. cr_id c = cr_id row) mark (db_credentials d)\<rparr>)"
  proof (rule write_moves)
    let ?rows = "update_where (\<lambda>c. cr_id c = cr_id row) mark (db_credentials d)"
    have "claims credential_keys cr_workspace_id ?rows = claims credential_keys cr_workspace_id (db_credentials d)"
      by (auto simp: claims_def update_where_def keep)
    then show "owns (d\<lparr>db_credentials := ?rows\<rparr>) \<subseteq> owns d \<union> {i. safe env w d i} \<times> {w}" by (simp add: owns_def)
    have "map cr_id ?rows = map cr_id (db_credentials d)" by (rule map_update_where) (rule keep)
    then show "sound env d \<Longrightarrow> unique (d\<lparr>db_credentials := ?rows\<rparr>)" by (simp add: sound_def unique_def)
    have "map unmarked (filter (\<lambda>c. cr_workspace_id c = v) (update_where P mark rows)) =
        map unmarked (filter (\<lambda>c. cr_workspace_id c = v) rows)" for P rows v
      by (induction rows) (auto simp: keep)
    then show "data_of v (d\<lparr>db_credentials := ?rows\<rparr>) = data_of v d" for v by (simp add: data_of_def run_ids_def)
  qed simp
  show ?thesis
  proof (rule moves_assume)
    assume "sound env d"
    then have "update_where (\<lambda>c. cr_id c = cr_id row) (\<lambda>_. mark row) (db_credentials d) =
        update_where (\<lambda>c. cr_id c = cr_id row) mark (db_credentials d)"
      using same_credential [OF _ _ row] by (auto simp: update_where_def sound_def)
    then show "moves env w d (mark_invalid env' cid msg d)"
      using marked by (auto simp: mark_invalid_def Some put_credential_def mark_def moves_refl)
  qed
qed (simp add: mark_invalid_def moves_refl)

lemma mark_all_moves: "moves env w d (mark_all env' raws d)"
proof -
  have "moves env w d0 d \<Longrightarrow> moves env w d0 (mark_all env' raws d)" for d0 d
    by (induction raws arbitrary: d) (auto simp: mark_all_def split: option.split intro: moves_trans [OF _ mark_invalid_moves])
  from this [OF moves_refl] show ?thesis .
qed

lemma on_terminal_moves: "on_terminal env e d = Inr d' \<Longrightarrow> ex_workspace_id e = w \<Longrightarrow> moves env w d d'"
  by (auto simp: on_terminal_def split: if_splits sum.splits
      intro: evaluate_execution_moves moves_trans [OF mark_all_moves])

lemma run_rows_moves:
  assumes "safe env w d eid" "\<And>r. r \<in> set results \<Longrightarrow> nr_execution_id r = eid" "\<And>l. l \<in> set lines \<Longrightarrow> lg_execution_id l = eid"
  shows "moves env w d (d\<lparr>db_node_results := delete_where (\<lambda>n. nr_execution_id n = eid) (db_node_results d) @ results,
    db_logs := delete_where (\<lambda>l. lg_execution_id l = eid) (db_logs d) @ lines\<rparr>)" (is "moves env w d ?d")
proof (rule write_moves)
  have run_ids: "run_ids v ?d = run_ids v d" for v by (simp add: run_ids_def)
  fix v assume "v \<noteq> w"
  then have out: "eid \<notin> run_ids v d" using runs.mine [OF assms(1)] by (auto simp: run_ids_def)
  have "filter (\<lambda>r. nr_execution_id r \<in> run_ids v d) (db_node_results ?d) = filter (\<lambda>r. nr_execution_id r \<in> run_ids v d) (db_node_results d)"
    using assms(2) out by (auto simp: filter_empty_conv intro!: filter_delete_elsewhere)
  moreover have "filter (\<lambda>r. lg_execution_id r \<in> run_ids v d) (db_logs ?d) = filter (\<lambda>r. lg_execution_id r \<in> run_ids v d) (db_logs d)"
    using assms(3) out by (auto simp: filter_empty_conv intro!: filter_delete_elsewhere)
  ultimately show "data_of v ?d = data_of v d" unfolding data_of_def run_ids by simp
qed (auto simp: owns_def unique_def sound_def)

lemma ingest_moves:
  assumes "ingest env e r d = Inr d'" "safe env w d (ex_id e)" "ex_workspace_id e = w" "sound env d"
  shows "moves env w d d'"
proof (cases "er_status r = execution_status_value EX_RUNNING")
  case True
  then show ?thesis using assms by (auto simp: ingest_def still_running_def Let_def intro!: put_execution_moves)
next
  case False
  then obtain results st where rs: "ingest_results env e (er_node_results r) = Inr results"
    and d': "on_terminal env (reported env r st e) (put_execution (reported env r st e)
      (d\<lparr>db_node_results := delete_where (\<lambda>n. nr_execution_id n = ex_id e) (db_node_results d) @ results,
         db_logs := delete_where (\<lambda>l. lg_execution_id l = ex_id e) (db_logs d)
           @ map (ingest_log env e) (zip [0..<length (er_logs r)] (er_logs r))\<rparr>)) = Inr d'" (is "on_terminal _ _ (put_execution _ ?d) = _")
    using assms(1) by (auto simp: ingest_def Let_def split: sum.splits option.splits)
  have m: "moves env w d ?d"
    by (rule run_rows_moves [OF assms(2)]) (use ingest_results_ids [OF rs] in \<open>auto simp: ingest_log_def\<close>)
  have "ex_id (reported env r st e) = ex_id e" "ex_workspace_id (reported env r st e) = w"
    using assms(3) by (simp_all add: reported_def)
  then show ?thesis
    using moves_trans [OF m moves_trans [OF put_execution_moves on_terminal_moves [OF d']]] safe_moves [OF m assms(4,2)] by simp
qed

lemma create_moves [moving]: "ctx_workspace_id ctx = w \<Longrightarrow> moves env w d (snd (execution_create env ctx wfid a d))"
proof -
  assume c: "ctx_workspace_id ctx = w"
  have "moves env w d (snd (create_locked env ctx x a d))" for x
    unfolding create_locked_def Let_def
    by (auto simp: moving c new_execution_def split: option.split sum.split prod.split
        intro!: moves_trans [OF _ audit_moves [OF c]] runs.insert_fresh)
  then show ?thesis unfolding execution_create_def by (intro guarded_moves) (auto simp: moving split: option.split sum.split)
qed

lemma execution_getD: "execution_get ctx eid d = Inr e \<Longrightarrow> e \<in> set (db_executions d) \<and> ex_workspace_id e = ctx_workspace_id ctx"
  by (auto simp: execution_get_def split: option.splits dest: find_SomeD)

lemma retry_moves [moving]: "ctx_workspace_id ctx = w \<Longrightarrow> moves env w d (snd (retry env ctx eid d))"
  unfolding retry_def by (intro guarded_moves) (auto simp: moving split: sum.split)

lemma cancel_moves [moving]:
  assumes c: "ctx_workspace_id ctx = w"
  shows "moves env w d (snd (cancel env ctx ask eid d))"
proof (rule moves_assume)
  assume s: "sound env d"
  have steps: "moves env w d (put_execution e' d)" "ingest env e' r (put_execution e' d) = Inr d' \<Longrightarrow> moves env w d d'"
    "ex_id e'' = ex_id e' \<Longrightarrow> ex_workspace_id e'' = ex_workspace_id e' \<Longrightarrow> moves env w d (put_execution e'' (put_execution e' d))"
    if "execution_get ctx eid d = Inr e" "ex_id e' = ex_id e" "ex_workspace_id e' = ex_workspace_id e" for e e' e'' r d'
  proof -
    have i: "safe env w d (ex_id e')" "ex_workspace_id e' = w"
      using execution_getD [OF that(1)] runs.owner [OF s, of e] that(2,3) c by auto
    then show m: "moves env w d (put_execution e' d)" by (rule put_execution_moves)
    note i' = safe_moves [OF m s i(1)]
    show "ingest env e' r (put_execution e' d) = Inr d' \<Longrightarrow> moves env w d d'"
      using ingest_moves [OF _ i' i(2) sound_moves [OF m s]] moves_trans [OF m] by blast
    show "ex_id e'' = ex_id e' \<Longrightarrow> ex_workspace_id e'' = ex_workspace_id e' \<Longrightarrow> moves env w d (put_execution e'' (put_execution e' d))"
      using moves_trans [OF m put_execution_moves] i' i(2) by metis
  qed
  have told: "ingest env (e\<lparr>ex_status := st\<rparr>) r (put_execution (e\<lparr>ex_status := st\<rparr>) d) = Inr d' \<Longrightarrow>
      execution_get ctx eid d = Inr e \<Longrightarrow> moves env w d d'" for e st r d'
    by (rule steps(2)) auto
  show "moves env w d (snd (cancel env ctx ask eid d))"
    unfolding cancel_def Let_def
    by (intro guarded_moves)
      (auto simp: moving c split: sum.split if_split engine_answer.split intro!: moves_trans [OF _ audit_moves [OF c]]
        intro: steps(1,3) told)
qed

section \<open>Workflows\<close>

lemma webhook_binding_moves:
  assumes "webhook_binding env w config b d = Inr (b', d')" "own_binding env w d b" "sound env d"
  shows "moves env w d d' \<and> own_binding env w d' b'"
proof -
  obtain cfg where cfg: "webhook_config env config = Inr cfg"
    using assms(1) by (auto simp: webhook_binding_def split: sum.splits)
  obtain b1 d1 where one: "(if text_or_empty (tb_public_key b) = []
      then (b\<lparr>tb_public_key := Some (env_token env (db_drawn d))\<rparr>, bump d) else (b, d)) = (b1, d1)" by force
  then have m1: "moves env w d d1" and "trigger_keys b1 = trigger_keys b" "tb_workspace_id b1 = tb_workspace_id b"
    by (auto simp: moving trigger_keys_def split: if_splits)
  then have b1: "own_binding env w d1 b1" using own_binding_moves [OF m1 assms(3,2)] by (simp add: own_binding_def)
  note s1 = sound_moves [OF m1 assms(3)]
  show ?thesis
  proof (cases "dget cfg ''auth_mode'' \<noteq> JStr (webhook_auth_mode_value WA_NONE) \<and> text_or_empty (tb_secret_ref b1) = []")
    case True
    obtain ref d2 where sec: "secret_write env w [(''secret'', JStr (env_token env (db_drawn d1)))] None (bump d1) = (ref, d2)" by force
    have "moves env w (bump d1) d2 \<and> safe env w d2 ref"
      by (rule secret_write_moves [OF sec _ sound_moves [OF bump_moves s1]]) simp
    then have m2: "moves env w d1 d2" "safe env w d2 ref" using moves_trans [OF bump_moves] by blast+
    have "d' = d2" "b' = b1\<lparr>tb_secret_ref := Some ref, tb_config := cfg, tb_next_run_at := None\<rparr>"
      using assms(1) cfg one sec True by (auto simp: webhook_binding_def Let_def)
    then show ?thesis
      using moves_trans [OF m1 m2(1)] m2(2) own_binding_moves [OF m2(1) s1 b1] by (auto simp: own_binding_def trigger_keys_def)
  next
    case False
    then have "d' = d1" "b' = b1\<lparr>tb_config := cfg, tb_next_run_at := None\<rparr>"
      using assms(1) cfg one by (auto simp: webhook_binding_def Let_def)
    then show ?thesis using m1 b1 by (simp add: own_binding_def trigger_keys_def)
  qed
qed

lemma schedule_binding_keys:
  "schedule_binding env ctx config b = Inr b' \<Longrightarrow> trigger_keys b' = trigger_keys b \<and> tb_workspace_id b' = tb_workspace_id b"
  by (auto simp: schedule_binding_def trigger_keys_def Let_def split: sum.splits option.splits if_splits)

lemma shape_binding_moves:
  assumes "shape_binding env ctx x ty config b d = Inr (b', d')" "own_binding env w d b" "sound env d" "wf_workspace_id x = w"
  shows "moves env w d d' \<and> own_binding env w d' b'"
proof (cases ty)
  case TT_WEBHOOK
  then show ?thesis using assms webhook_binding_moves [OF _ assms(2,3)] by (auto simp: shape_binding_def split: sum.splits)
next
  case TT_SCHEDULE
  then show ?thesis
    using assms by (auto simp: shape_binding_def moves_refl own_binding_def split: sum.splits dest: schedule_binding_keys)
next
  case TT_MANUAL
  then show ?thesis using assms by (auto simp: shape_binding_def moves_refl own_binding_def trigger_keys_def)
qed

lemma ensure_binding_moves:
  assumes "ensure_binding env x d = (b, d')" "safe env w d (wf_id x)" "wf_workspace_id x = w" "sound env d"
  shows "moves env w d d' \<and> own_binding env w d' b"
proof (cases "first_trigger_of d (wf_id x)")
  case None
  then have b: "b = new_binding (fresh_id env d) (wf_id x) w TT_MANUAL []" and d': "d' = (bump d)\<lparr>db_triggers := db_triggers d @ [b]\<rparr>"
    using assms(1,3) by (auto simp: ensure_binding_def Let_def)
  have m: "moves env w d d'"
    unfolding d' using assms(2) by (intro triggers.insert_fresh) (auto simp: b new_binding_def trigger_keys_def)
  moreover have "own_binding env (tb_workspace_id b) d' b"
    by (rule stored_binding [OF sound_moves [OF m assms(4)]]) (simp add: d')
  ultimately show ?thesis by (simp add: b new_binding_def)
next
  case (Some b')
  then have "b = b'" "d' = d" "b' \<in> set (db_triggers d)" "tb_workflow_id b' = wf_id x"
    using assms(1) by (auto simp: ensure_binding_def first_trigger_of_def dest: find_SomeD)
  then show ?thesis
    using stored_binding [OF assms(4)] triggers.mine [OF assms(2), of b'] by (auto simp: moves_refl trigger_keys_def)
qed

lemma sync_trigger_moves:
  assumes "sync_trigger_from_graph env ctx x graph d = Inr (x', d')" "safe env w d (wf_id x)" "wf_workspace_id x = w"
    "sound env d" "ctx_workspace_id ctx = w"
  shows "moves env w d d' \<and> wf_id x' = wf_id x \<and> wf_workspace_id x' = w"
proof -
  obtain b d1 where b: "ensure_binding env x d = (b, d1)" by force
  then have m1: "moves env w d d1" and own: "own_binding env w d1 b"
    using ensure_binding_moves [OF _ assms(2-4)] by auto
  note s1 = sound_moves [OF m1 assms(4)]
  have kept: "moves env w d (put_trigger b2 (put_workflow y d2))"
    if sh: "shape_binding env ctx x ty config (b\<lparr>tb_trigger_type := ty\<rparr>) d1 = Inr (b', d2)"
      and "trigger_keys b2 = trigger_keys b'" "tb_workspace_id b2 = tb_workspace_id b'"
      and "wf_id y = wf_id x" "wf_workspace_id y = wf_workspace_id x" for ty config b' d2 b2 y
  proof -
    have "own_binding env w d1 (b\<lparr>tb_trigger_type := ty\<rparr>)" using own by (simp add: own_binding_def trigger_keys_def)
    from shape_binding_moves [OF sh this s1 assms(3)] have m2: "moves env w d1 d2" and b': "own_binding env w d2 b'" by auto
    note s2 = sound_moves [OF m2 s1]
    have m3: "moves env w d2 (put_workflow y d2)"
      using safe_moves [OF moves_trans [OF m1 m2] assms(4,2)] that(4,5) assms(3) by (intro put_workflow_moves) simp_all
    have "own_binding env w (put_workflow y d2) b2"
      using own_binding_moves [OF m3 s2 b'] that(2,3) by (simp add: own_binding_def)
    from moves_trans [OF moves_trans [OF m1 m2] moves_trans [OF m3 put_trigger_moves [OF this]]] show ?thesis .
  qed
  have "wf_id x' = wf_id x \<and> wf_workspace_id x' = wf_workspace_id x"
    using assms(1) b unfolding sync_trigger_from_graph_def Let_def by (auto split: sum.splits option.splits if_splits)
  moreover have "moves env w d d'"
    using assms(1) b m1 unfolding sync_trigger_from_graph_def Let_def
    by (auto split: sum.splits option.splits if_splits simp: trigger_keys_def
        intro!: moves_trans [OF _ audit_moves [OF assms(5)]] kept)
  ultimately show ?thesis using assms(3) by simp
qed

text \<open>The handlers. A workflow that a request finds, its draft and its binding belong to the workspace.\<close>

lemma found_workflow:
  assumes "get_workflow ctx wfid d = Inr x" "sound env d" "ctx_workspace_id ctx = w"
  shows "safe env w d (wf_id x)" "wf_workspace_id x = w"
  using workflow_getD [OF assms(1)] workflows.owner [OF assms(2), of x] assms(3) by auto

lemma found_draft:
  assumes "get_draft_row d i = Some dr" "safe env w d i"
  shows "dr_workflow_id dr = i" "dr_workspace_id dr = w"
  using assms drafts.mine [of env w d i dr] by (auto simp: get_draft_row_def dest!: find_SomeD)

lemma found_trigger:
  assumes "first_trigger_of d i = Some b" "safe env w d i" "sound env d"
  shows "own_binding env w d b"
proof -
  have "b \<in> set (db_triggers d)" "tb_workflow_id b = i" using assms(1) by (auto simp: first_trigger_of_def dest: find_SomeD)
  then show ?thesis using triggers.mine [OF assms(2), of b] stored_binding [OF assms(3), of b] by (simp add: trigger_keys_def)
qed

lemma rename_moves [moving]: "ctx_workspace_id ctx = w \<Longrightarrow> moves env w d (snd (rename env ctx wfid name desc d))"
proof (rule moves_assume)
  assume c: "ctx_workspace_id ctx = w" and s: "sound env d"
  have kept: "moves env w d (put_workflow y d)"
    if "get_workflow ctx wfid d = Inr x" "wf_id y = wf_id x" "wf_workspace_id y = wf_workspace_id x" for x y
    using found_workflow [OF that(1) s c] that(2,3) by (intro put_workflow_moves) simp_all
  show "moves env w d (snd (rename env ctx wfid name desc d))"
    unfolding rename_def Let_def
    by (intro guarded_moves)
      (auto simp: moving c split: sum.split option.split intro!: moves_trans [OF _ audit_moves [OF c]] intro: kept)
qed

lemma save_draft_moves [moving]: "ctx_workspace_id ctx = w \<Longrightarrow> moves env w d (snd (save_draft env ctx wfid graph n d))"
proof (rule moves_assume)
  assume c: "ctx_workspace_id ctx = w" and s: "sound env d"
  have kept: "moves env w d (put_workflow y d')"
    if "sync_trigger_from_graph env ctx x graph (put_draft dr' d) = Inr (x', d')" "get_workflow ctx wfid d = Inr x"
      "get_draft_row d (wf_id x) = Some dr" "dr_workflow_id dr' = dr_workflow_id dr" "dr_workspace_id dr' = dr_workspace_id dr"
      "wf_id y = wf_id x'" "wf_workspace_id y = wf_workspace_id x'" for x dr dr' x' d' y
  proof -
    note x = found_workflow [OF that(2) s c]
    have m: "moves env w d (put_draft dr' d)"
      using found_draft [OF that(3) x(1)] that(4,5) x(1) by (intro put_draft_moves) simp_all
    from sync_trigger_moves [OF that(1) safe_moves [OF m s x(1)] x(2) sound_moves [OF m s] c]
    have m': "moves env w d d'" "wf_id x' = wf_id x" "wf_workspace_id x' = w" using moves_trans [OF m] by auto
    show ?thesis
      using moves_trans [OF m'(1) put_workflow_moves [of env w d' y]] safe_moves [OF m'(1) s x(1)] that(6,7) m'(2,3) by simp
  qed
  show "moves env w d (snd (save_draft env ctx wfid graph n d))"
    unfolding save_draft_def Let_def
    by (intro guarded_moves) (auto simp: moving split: sum.split option.split prod.split intro: kept)
qed

lemma validate_moves [moving]: "ctx_workspace_id ctx = w \<Longrightarrow> moves env w d (snd (workflow_validate env compile ctx wfid b d))"
proof (rule moves_assume)
  assume c: "ctx_workspace_id ctx = w" and s: "sound env d"
  have kept: "moves env w d (put_draft dr' d)"
    if "get_workflow ctx wfid d = Inr x" "get_draft_row d (wf_id x) = Some dr" "dr_workflow_id dr' = dr_workflow_id dr"
      "dr_workspace_id dr' = dr_workspace_id dr" for x dr dr'
    using found_workflow [OF that(1) s c] found_draft [OF that(2)] that(3,4) by (intro put_draft_moves) simp_all
  show "moves env w d (snd (workflow_validate env compile ctx wfid b d))"
    unfolding workflow_validate_def Let_def
    by (intro guarded_moves) (auto simp: moving split: sum.split option.split prod.split intro: kept)
qed

lemma publish_moves [moving]: "ctx_workspace_id ctx = w \<Longrightarrow> moves env w d (snd (publish env compile ctx wfid n note d))"
proof (rule moves_assume)
  assume c: "ctx_workspace_id ctx = w" and s: "sound env d"
  have kept: "moves env w d (put_workflow y ((bump d1)\<lparr>db_versions := db_versions d1 @ [v]\<rparr>))"
    if "get_workflow ctx wfid d = Inr x" "workflow_validate env compile ctx wfid True d = (r, d1)"
      "wv_id v = fresh_id env d1" "wv_workspace_id v = w" "wf_id y = wf_id x" "wf_workspace_id y = wf_workspace_id x" for x r d1 v y
  proof -
    note x = found_workflow [OF that(1) s c]
    have "moves env w d d1" using validate_moves [OF c, of env d compile wfid True] that(2) by simp
    moreover have "moves env w d1 ((bump d1)\<lparr>db_versions := db_versions d1 @ [v]\<rparr>)" using that(3,4) by (intro versions.insert_fresh) auto
    ultimately have m: "moves env w d ((bump d1)\<lparr>db_versions := db_versions d1 @ [v]\<rparr>)" by (rule moves_trans)
    show ?thesis
      using moves_trans [OF m put_workflow_moves [of env w _ y]] safe_moves [OF m s x(1)] that(5,6) x(2) by simp
  qed
  show "moves env w d (snd (publish env compile ctx wfid n note d))"
    unfolding publish_def Let_def
    by (intro guarded_moves)
      (auto simp: moving c split: sum.split option.split prod.split intro!: moves_trans [OF _ audit_moves [OF c]] intro: kept)
qed

lemma activate_moves [moving]: "ctx_workspace_id ctx = w \<Longrightarrow> moves env w d (snd (activate env ctx wfid n d))"
proof (rule moves_assume)
  assume c: "ctx_workspace_id ctx = w" and s: "sound env d"
  have keys: "trigger_keys b' = trigger_keys b \<and> tb_workspace_id b' = tb_workspace_id b" if "armed_binding env ctx v b = Inr b'" for v b b'
    using that by (auto simp: armed_binding_def trigger_keys_def Let_def split: if_splits sum.splits)
  have kept: "moves env w d (put_workflow y (put_trigger b' d))"
    if "armed_binding env ctx v b = Inr b'" "get_workflow ctx wfid d = Inr x" "first_trigger_of d (wf_id x) = Some b"
      "wf_id y = wf_id x" "wf_workspace_id y = wf_workspace_id x" for x y v b b'
  proof -
    note x = found_workflow [OF that(2) s c]
    have "own_binding env w d b'"
      using found_trigger [OF that(3) x(1) s] keys [OF that(1)] by (simp add: own_binding_def)
    then have m: "moves env w d (put_trigger b' d)" by (rule put_trigger_moves)
    show ?thesis
      using moves_trans [OF m put_workflow_moves [of env w _ y]] safe_moves [OF m s x(1)] x(2) that(4,5) by simp
  qed
  show "moves env w d (snd (activate env ctx wfid n d))"
    unfolding activate_def Let_def
    by (intro guarded_moves)
      (auto simp: moving c split: sum.split option.split intro!: moves_trans [OF _ audit_moves [OF c]] kept)
qed

lemma deactivate_moves [moving]: "ctx_workspace_id ctx = w \<Longrightarrow> moves env w d (snd (deactivate env ctx wfid d))"
proof (rule moves_assume)
  assume c: "ctx_workspace_id ctx = w" and s: "sound env d"
  have kept: "moves env w d (put_workflow y d)"
      "first_trigger_of d (wf_id x) = Some b \<Longrightarrow> trigger_keys b' = trigger_keys b \<Longrightarrow> tb_workspace_id b' = tb_workspace_id b \<Longrightarrow>
        moves env w d (put_workflow y (put_trigger b' d))"
    if "get_workflow ctx wfid d = Inr x" "wf_id y = wf_id x" "wf_workspace_id y = wf_workspace_id x" for x y b b'
  proof -
    note x = found_workflow [OF that(1) s c]
    show "moves env w d (put_workflow y d)" using x that(2,3) by (intro put_workflow_moves) simp_all
    assume b: "first_trigger_of d (wf_id x) = Some b" "trigger_keys b' = trigger_keys b" "tb_workspace_id b' = tb_workspace_id b"
    then have "own_binding env w d b'" using found_trigger [OF b(1) x(1) s] by (simp add: own_binding_def)
    then have m: "moves env w d (put_trigger b' d)" by (rule put_trigger_moves)
    show "moves env w d (put_workflow y (put_trigger b' d))"
      using moves_trans [OF m put_workflow_moves [of env w _ y]] safe_moves [OF m s x(1)] x(2) that(2,3) by simp
  qed
  show "moves env w d (snd (deactivate env ctx wfid d))"
    unfolding deactivate_def Let_def
    by (intro guarded_moves)
      (auto simp: moving c trigger_keys_def split: sum.split option.split intro!: moves_trans [OF _ audit_moves [OF c]] kept)
qed

lemma workflow_delete_moves [moving]: "ctx_workspace_id ctx = w \<Longrightarrow> moves env w d (snd (workflow_delete env ctx wfid d))"
proof (rule moves_assume)
  assume c: "ctx_workspace_id ctx = w" and s: "sound env d"
  have kept: "moves env w d (d1\<lparr>db_triggers := update_where (\<lambda>b. tb_workflow_id b = wf_id x) released (db_triggers d)\<rparr>)"
    if "get_workflow ctx wfid d = Inr x" "d1 = put_workflow y d" "wf_id y = wf_id x" "wf_workspace_id y = wf_workspace_id x" for x y d1
  proof -
    note x = found_workflow [OF that(1) s c]
    have m: "moves env w d d1" unfolding that(2) using x that(3,4) by (intro put_workflow_moves) simp_all
    note s1 = sound_moves [OF m s] and x1 = safe_moves [OF m s x(1)]
    have "moves env w d1 (d1\<lparr>db_triggers := update_where (\<lambda>b. tb_workflow_id b = wf_id x) released (db_triggers d1)\<rparr>)"
    proof (rule triggers.update_moves)
      show "tb_workspace_id r = w \<and> tb_workspace_id (released r) = w \<and> (\<forall>i \<in> trigger_keys (released r). safe env w d1 i)"
        if "r \<in> set (db_triggers d1)" "tb_workflow_id r = wf_id x" for r
        using stored_binding [OF s1 that(1)] triggers.mine [OF x1 that(1)] that(2) by (simp add: own_binding_def released_def trigger_keys_def)
    qed (rule triggers.distinct_update, simp add: released_def)
    from moves_trans [OF m this] show ?thesis by (simp add: that(2) put_workflow_def)
  qed
  show "moves env w d (snd (workflow_delete env ctx wfid d))"
    unfolding workflow_delete_def Let_def
    by (intro guarded_moves)
      (auto simp: moving c split: sum.split if_split intro!: moves_trans [OF _ audit_moves [OF c]] intro: kept)
qed

text \<open>A workflow that is new comes with its draft and its binding.\<close>

lemma new_workflow_moves:
  assumes "wf_id x = fresh_id env d" "wf_workspace_id x = w" "dr_workflow_id dr = fresh_id env d" "dr_workspace_id dr = w" "sound env d"
    and d1: "d1 = (bump d)\<lparr>db_workflows := db_workflows d @ [x], db_drafts := db_drafts d @ [dr]\<rparr>"
    and d2: "d2 = (bump d1)\<lparr>db_triggers := db_triggers d1 @ [new_binding (fresh_id env d1) (fresh_id env d) w ty config]\<rparr>"
  shows "moves env w d d2 \<and> safe env w d2 (wf_id x)"
proof -
  define d0 where "d0 = (bump d)\<lparr>db_workflows := db_workflows d @ [x]\<rparr>"
  have m0: "moves env w d d0" unfolding d0_def using assms(1,2) by (intro workflows.insert_fresh) auto
  have s0: "safe env w d0 (wf_id x)"
    using sound_owned [OF sound_moves [OF m0 assms(5)], of "wf_id x" w] assms(2) by (simp add: owns_def claims_def d0_def)
  have d1': "d1 = d0\<lparr>db_drafts := db_drafts d0 @ [dr]\<rparr>" by (simp add: d0_def d1 bump_def)
  have "moves env w d0 d1"
    unfolding d1'
  proof (rule drafts.insert_new)
    show "dr_workflow_id dr \<notin> dr_workflow_id ` set (db_drafts d0)"
      using drafts.unowned [of dr d] fresh_unowned [OF assms(5)] assms(3) by (simp add: d0_def bump_def)
  qed (use assms(1,3,4) s0 in simp_all)
  then have m1: "moves env w d d1" by (rule moves_trans [OF m0])
  have s1: "safe env w d1 (fresh_id env d)"
    using safe_moves [OF \<open>moves env w d0 d1\<close> sound_moves [OF m0 assms(5)] s0] assms(1) by simp
  have "moves env w d1 d2"
    unfolding d2 using s1 by (intro triggers.insert_fresh) (auto simp: new_binding_def trigger_keys_def)
  then have m2: "moves env w d d2" "safe env w d2 (fresh_id env d)"
    using moves_trans [OF m1] safe_moves [OF _ sound_moves [OF m1 assms(5)] s1] by auto
  then show ?thesis using assms(1) by simp
qed

lemma workflow_create_moves [moving]: "ctx_workspace_id ctx = w \<Longrightarrow> moves env w d (snd (workflow_create env ctx name desc key d))"
proof (rule moves_assume)
  assume c: "ctx_workspace_id ctx = w" and s: "sound env d"
  have kept: "moves env w d d'"
    if "sync_trigger_from_graph env ctx x graph ((bump d1)\<lparr>db_triggers := db_triggers d @
        [new_binding (fresh_id env d1) (fresh_id env d) w TT_MANUAL []]\<rparr>) = Inr (x', d')"
      "d1 = (bump d)\<lparr>db_workflows := db_workflows d @ [x], db_drafts := db_drafts d @ [dr]\<rparr>"
      "wf_id x = fresh_id env d" "wf_workspace_id x = w" "dr_workflow_id dr = fresh_id env d" "dr_workspace_id dr = w" for x graph d1 x' d' dr
  proof -
    have "db_triggers d = db_triggers d1" using that(2) by (simp add: bump_def)
    note n = new_workflow_moves [OF that(3-6) s that(2) refl, of TT_MANUAL "[]"]
    then show ?thesis
      using sync_trigger_moves [OF that(1) [unfolded \<open>db_triggers d = db_triggers d1\<close>] _ that(4) _ c]
        sound_moves [OF conjunct1 [OF n] s] moves_trans by blast
  qed
  show "moves env w d (snd (workflow_create env ctx name desc key d))"
    unfolding workflow_create_def Let_def
    by (intro guarded_moves)
      (auto simp: moving c split: sum.split option.split prod.split if_split intro!: moves_trans [OF _ audit_moves [OF c]] intro: kept)
qed

lemma duplicate_moves [moving]: "ctx_workspace_id ctx = w \<Longrightarrow> moves env w d (snd (duplicate env ctx wfid d))"
proof (rule moves_assume)
  assume c: "ctx_workspace_id ctx = w" and s: "sound env d"
  have kept: "moves env w d d'"
    if "sync_trigger_from_graph env ctx x graph ((bump d1)\<lparr>db_triggers := db_triggers d @
        [new_binding (fresh_id env d1) (fresh_id env d) w ty config]\<rparr>) = Inr (x', d')"
      "d1 = (bump d)\<lparr>db_workflows := db_workflows d @ [x], db_drafts := db_drafts d @ [dr]\<rparr>"
      "wf_id x = fresh_id env d" "wf_workspace_id x = w" "dr_workflow_id dr = fresh_id env d" "dr_workspace_id dr = w"
    for x graph d1 x' d' dr ty config
  proof -
    have "db_triggers d = db_triggers d1" using that(2) by (simp add: bump_def)
    note n = new_workflow_moves [OF that(3-6) s that(2) refl, of ty config]
    then show ?thesis
      using sync_trigger_moves [OF that(1) [unfolded \<open>db_triggers d = db_triggers d1\<close>] _ that(4) _ c]
        sound_moves [OF conjunct1 [OF n] s] moves_trans by blast
  qed
  show "moves env w d (snd (duplicate env ctx wfid d))"
    unfolding duplicate_def Let_def
    by (intro guarded_moves)
      (auto simp: moving c split: sum.split option.split prod.split intro!: moves_trans [OF _ audit_moves [OF c]] intro: kept)
qed

lemma rotate_secret_moves [moving]: "ctx_workspace_id ctx = w \<Longrightarrow> moves env w d (snd (rotate_webhook_secret env ctx wfid d))"
proof (rule moves_assume)
  assume c: "ctx_workspace_id ctx = w" and s: "sound env d"
  have kept: "moves env w d (put_trigger (b\<lparr>tb_secret_ref := Some r\<rparr>) d')"
    if "secret_write env w payload (tb_secret_ref b) (bump d) = (r, d')"
      "find (\<lambda>b. tb_workflow_id b = wfid \<and> tb_workspace_id b = w) (db_triggers d) = Some b" for b r d' payload
  proof -
    have own: "own_binding env w (bump d) b"
      using stored_binding [OF s, of b] find_SomeD [OF that(2)] own_binding_moves [OF bump_moves s] by auto
    have m: "moves env w (bump d) d' \<and> safe env w d' r"
      using own by (intro secret_write_moves [OF that(1) _ sound_moves [OF bump_moves s]]) (auto simp: own_binding_def trigger_keys_def)
    then have "own_binding env w d' (b\<lparr>tb_secret_ref := Some r\<rparr>)"
      using own_binding_moves [OF _ sound_moves [OF bump_moves s] own] by (auto simp: own_binding_def trigger_keys_def)
    then show ?thesis using m by (blast intro: moves_trans [OF bump_moves] moves_trans put_trigger_moves)
  qed
  show "moves env w d (snd (rotate_webhook_secret env ctx wfid d))"
    unfolding rotate_webhook_secret_def Let_def
    by (intro guarded_moves)
      (auto simp: moving c split: option.split prod.split if_split intro!: moves_trans [OF _ audit_moves [OF c]] intro: kept)
qed

section \<open>Members and the workspace\<close>

lemma ensure_account_moves: "ensure_account cx env email name p d = (r, d') \<Longrightarrow> moves env' w d d'"
  by (auto simp: ensure_account_def Let_def moving split: option.splits sum.splits intro: moves_trans [OF bump_moves users_moves])

lemma invite_member_moves [moving]: "ctx_workspace_id ctx = w \<Longrightarrow> moves env w d (snd (invite_member cx env ctx email name r p d))"
proof -
  assume c: "ctx_workspace_id ctx = w"
  have new: "moves env w d ((bump d1)\<lparr>db_memberships := db_memberships d1 @ [m]\<rparr>)"
    if "ensure_account cx env email name p d = (u, d1)" "me_id m = fresh_id env d1" "me_workspace_id m = w" for u d1 m
    using that(2,3) by (intro moves_trans [OF ensure_account_moves [OF that(1)] memberships.insert_fresh]) auto
  show ?thesis
    unfolding invite_member_def Let_def
    by (intro guarded_moves)
      (auto simp: moving c split: sum.split prod.split if_split intro!: moves_trans [OF _ audit_moves [OF c]] new
        intro: ensure_account_moves)
qed

lemma found_member:
  assumes "member_row ctx mid d = Some m" "sound env d" "ctx_workspace_id ctx = w"
  shows "safe env w d (me_id m)" "me_workspace_id m = w"
proof -
  have "m \<in> set (db_memberships d)" "me_workspace_id m = w" using assms(1,3) by (auto simp: member_row_def dest: find_SomeD)
  then show "safe env w d (me_id m)" "me_workspace_id m = w" using memberships.owner [OF assms(2), of m] by auto
qed

lemma update_role_moves [moving]: "ctx_workspace_id ctx = w \<Longrightarrow> moves env w d (snd (update_role env ctx mid r d))"
proof (rule moves_assume)
  assume c: "ctx_workspace_id ctx = w" and s: "sound env d"
  have kept: "moves env w d (d\<lparr>db_memberships := update_where (\<lambda>x. me_id x = me_id m) (\<lambda>x. x\<lparr>me_role := r'\<rparr>) (db_memberships d)\<rparr>)"
    if "update_role_read ctx mid r d = Inr (m, r')" for m r'
  proof -
    have "member_row ctx mid d = Some m" using that by (auto simp: update_role_read_def split: sum.splits option.splits if_splits)
    note m = found_member [OF this s c]
    show ?thesis using m memberships.mine [OF m(1)] by (intro memberships.rewrite_moves) auto
  qed
  show "moves env w d (snd (update_role env ctx mid r d))"
    by (auto simp: update_role_def update_role_write_def moving split: sum.split prod.split
        intro!: moves_trans [OF _ audit_moves [OF c]] intro: kept)
qed

lemma update_permissions_moves [moving]: "ctx_workspace_id ctx = w \<Longrightarrow> moves env w d (snd (update_permissions env ctx mid ov d))"
proof (rule moves_assume)
  assume c: "ctx_workspace_id ctx = w" and s: "sound env d"
  have kept: "moves env w d (put_membership (m\<lparr>me_permissions := st\<rparr>) d)" if "member_row ctx mid d = Some m" for m st
    using found_member [OF that s c] by (intro put_membership_moves) simp_all
  show "moves env w d (snd (update_permissions env ctx mid ov d))"
    unfolding update_permissions_def Let_def
    by (intro guarded_moves) (auto simp: moving split: sum.split option.split intro!: moves_trans [OF _ audit_moves [OF c]] intro: kept)
qed

lemma remove_member_moves [moving]: "ctx_workspace_id ctx = w \<Longrightarrow> moves env w d (snd (remove_member env ctx mid d))"
proof (rule moves_assume)
  assume c: "ctx_workspace_id ctx = w" and s: "sound env d"
  have kept: "moves env w d (d\<lparr>db_memberships := delete_where (\<lambda>x. me_id x = me_id m) (db_memberships d)\<rparr>)"
    if "member_row ctx mid d = Some m" for m
    by (rule memberships.remove_moves [OF found_member(1) [OF that s c]])
  show "moves env w d (snd (remove_member env ctx mid d))"
    unfolding remove_member_def
    by (intro guarded_moves) (auto simp: moving split: sum.split option.split intro!: moves_trans [OF _ audit_moves [OF c]] intro: kept)
qed

lemma update_workspace_moves [moving]: "ctx_workspace_id ctx = w \<Longrightarrow> moves env w d (snd (update_workspace env ctx name tz n d))"
proof (rule moves_assume)
  assume c: "ctx_workspace_id ctx = w" and s: "sound env d"
  have kept: "moves env w d (put_workspace x' d)" if "get_workspace d w = Some x" "ws_id x' = ws_id x" for x x'
  proof -
    have x: "x \<in> set (db_workspaces d)" "ws_id x = w" using that(1) by (auto simp: get_workspace_def dest: find_SomeD)
    then have "safe env w d (ws_id x')" using workspaces.owner [OF s x(1)] that(2) by simp
    then show ?thesis using x(2) that(2) by (intro put_workspace_moves) simp_all
  qed
  have same: "renamed name x = Inr x1 \<Longrightarrow> ws_id x1 = ws_id x" "in_zone cal tz x1 = Inr x2 \<Longrightarrow> ws_id x2 = ws_id x1"
    "ws_id (with_ceiling n x2) = ws_id x2" for x x1 x2 cal
    by (auto simp: renamed_def in_zone_def with_ceiling_def split: option.splits if_splits sum.splits)
  show "moves env w d (snd (update_workspace env ctx name tz n d))"
    unfolding update_workspace_def Let_def
    by (intro guarded_moves) (auto simp: moving c same split: sum.split option.split
        intro!: moves_trans [OF _ audit_moves [OF c]] intro: kept dest: same(1,2))
qed

section \<open>The organisation\<close>

lemma org_invite_moves [moving]: "ctx_workspace_id ctx = w \<Longrightarrow> moves env w d (snd (org_invite_member cx env ctx email name r p d))"
proof -
  assume c: "ctx_workspace_id ctx = w"
  have new: "moves env w d ((bump d1)\<lparr>db_org_memberships := xs\<rparr>)" if "ensure_account cx env email name p d = (u, d1)" for u d1 xs
    by (rule moves_trans [OF ensure_account_moves [OF that] moves_trans [OF bump_moves org_members_moves]])
  show ?thesis
    unfolding org_invite_member_def Let_def
    by (intro guarded_moves)
      (auto simp: moving split: sum.split prod.split if_split intro!: moves_trans [OF _ audit_moves [OF c]]
        intro: ensure_account_moves new)
qed

lemma org_update_role_moves [moving]: "ctx_workspace_id ctx = w \<Longrightarrow> moves env w d (snd (org_update_role env ctx mid r d))"
  unfolding org_update_role_def
  by (intro guarded_moves) (auto simp: moving split: sum.split option.split intro!: moves_trans [OF _ audit_moves])

lemma org_remove_moves [moving]: "ctx_workspace_id ctx = w \<Longrightarrow> moves env w d (snd (org_remove_member env ctx mid d))"
  unfolding org_remove_member_def
  by (auto simp: moving split: sum.split option.split intro!: moves_trans [OF _ audit_moves])

lemma engine_page_moves [moving]: "moves env w d (snd (engine_status_page env' ctx h d))"
  unfolding engine_status_page_def by (intro guarded_moves) (auto simp: moving split: option.split)

text \<open>A new department is a workspace of its own: what the request writes belongs to it, its audit entry too.\<close>

lemma department_moves:
  "moves env (fresh_id env d) d (snd (provision_department_workspace marks env ctx a d))"
proof -
  let ?w = "fresh_id env d"
  have new: "moves env ?w d (audit_record env (for_workspace ctx ?w) e ((bump d1)\<lparr>db_memberships := db_memberships d @ [m]\<rparr>))"
    if "d1 = (bump d)\<lparr>db_workspaces := db_workspaces d @ [x]\<rparr>" "ws_id x = ?w" "me_id m = fresh_id env d1" "me_workspace_id m = ?w" for x d1 m e
  proof -
    have same: "db_memberships d = db_memberships d1" by (simp add: that(1) bump_def)
    have "moves env ?w d d1" unfolding that(1) using that(2) by (intro workspaces.insert_fresh) auto
    moreover have "moves env ?w d1 ((bump d1)\<lparr>db_memberships := db_memberships d1 @ [m]\<rparr>)"
      using that(3,4) by (intro memberships.insert_fresh) auto
    ultimately show ?thesis
      unfolding same by (intro moves_trans [OF moves_trans audit_moves]) (auto simp: for_workspace_def)
  qed
  show ?thesis
    unfolding provision_department_workspace_def Let_def guarded_def
    by (auto simp: moving new_workspace_def split: sum.split option.split prod.split intro: new)
qed

end
