(* ===== verification/Boundary.thy ===== *)
theory Boundary
  imports Routes Isolation
begin

text \<open>
  What the product API promises as a whole: a request changes nothing in a workspace that its account does not
  reach, whatever the route and its arguments; a route refuses who lacks the authority it asks for. And the
  routes that ask for none, one of which writes.
\<close>

section \<open>Routes act in the workspace of their context\<close>

lemma checked_moves: "(fits \<Longrightarrow> moves env w d (snd rest)) \<Longrightarrow> moves env w d (snd (checked fits d rest))"
  by (simp add: checked_def moves_refl)

lemma commit_moves: "moves env w d (snd r) \<Longrightarrow> moves env w d (snd (commit d r))"
  by (simp add: commit_def committed_moves)

lemma snd_viewed [simp]: "snd (viewed r f) = snd r"
  by (simp add: viewed_def split: prod.split sum.split)

lemma snd_done [simp]: "snd (done_with r) = snd r"
  by (simp add: done_with_def)

lemmas workflow_routes = list_workflows_route_def create_workflow_route_def get_workflow_route_def update_workflow_route_def
  delete_workflow_route_def duplicate_workflow_route_def get_draft_route_def save_draft_route_def validate_workflow_route_def
  list_versions_route_def get_version_route_def publish_workflow_route_def activate_workflow_route_def
  deactivate_workflow_route_def get_trigger_route_def rotate_webhook_secret_route_def run_workflow_route_def

lemmas execution_routes = list_executions_route_def get_execution_route_def list_node_results_route_def node_input_route_def
  node_output_route_def execution_logs_route_def cancel_execution_route_def retry_execution_route_def

lemmas credential_routes = list_credentials_route_def create_credential_route_def get_credential_route_def
  update_credential_route_def test_credential_route_def delete_credential_route_def

lemmas ops_routes = overview_route_def monitoring_route_def engine_status_route_def compatibility_route_def
  list_alert_rules_route_def upsert_alert_rule_route_def delete_alert_rule_route_def list_notifications_route_def
  unread_count_route_def acknowledge_route_def acknowledge_all_route_def audit_log_route_def workspace_settings_route_def
  update_workspace_route_def list_members_route_def invite_member_route_def update_member_role_route_def
  update_member_permissions_route_def remove_member_route_def

lemmas organization_routes = get_organization_route_def org_list_members_route_def org_invite_member_route_def
  org_update_member_role_route_def org_remove_member_route_def list_departments_route_def create_department_route_def

lemmas platform_routes = engine_debug_route_def admin_compatibility_route_def list_workspaces_route_def
  provision_workspace_route_def set_quota_route_def set_engine_route_def set_status_route_def

lemmas route_moves = checked_moves commit_moves moving

lemma workflow_calls_move: "ctx_workspace_id ctx = w \<Longrightarrow> moves (wd_env wd) w d (snd (handle_workflow wd ctx c d))"
  by (cases c) (auto simp: workflow_routes split: option.split intro!: route_moves)

lemma execution_calls_move: "ctx_workspace_id ctx = w \<Longrightarrow> moves (wd_env wd) w d (snd (handle_execution wd ctx c d))"
  by (cases c) (auto simp: execution_routes intro!: route_moves)

lemma credential_calls_move: "ctx_workspace_id ctx = w \<Longrightarrow> moves (wd_env wd) w d (snd (handle_credential wd ctx c d))"
  by (cases c) (auto simp: credential_routes Let_def split: sum.split intro!: route_moves)

lemma ops_calls_move: "ctx_workspace_id ctx = w \<Longrightarrow> moves (wd_env wd) w d (snd (handle_ops wd ctx c d))"
  by (cases c) (auto simp: ops_routes intro!: route_moves)

text \<open>A new department is the one workspace that an organisation request writes into besides its own.\<close>

lemma organization_calls_move:
  "\<exists>v \<in> {ctx_workspace_id ctx, fresh_id (wd_env wd) d}. moves (wd_env wd) v d (snd (handle_organization wd ctx c d))"
proof (cases c)
  case (CreateDepartment a)
  then have "moves (wd_env wd) (fresh_id (wd_env wd) d) d (snd (handle_organization wd ctx c d))"
    by (auto simp: organization_routes intro!: checked_moves commit_moves department_moves)
  then show ?thesis by blast
qed (auto simp: organization_routes intro!: route_moves)

lemma refused_platform: "\<not> ctx_is_platform_admin ctx \<Longrightarrow> snd (handle_platform wd ctx c d) = d \<and> snd (handle_admin wd ctx c' d) = d"
  by (cases c; cases c') (simp_all add: platform_routes checked_def commit_def committed_def require_platform_admin_def platform_admin_def
      provision_workspace_def set_quota_def set_engine_def set_status_def)

lemma calls_move:
  assumes "\<not> ctx_is_platform_admin ctx"
  shows "\<exists>v \<in> {ctx_workspace_id ctx, fresh_id (wd_env wd) d}. moves (wd_env wd) v d (snd (handle wd ctx c d))"
  using workflow_calls_move [OF refl] execution_calls_move [OF refl] credential_calls_move [OF refl] ops_calls_move [OF refl]
    organization_calls_move refused_platform [OF assms] moves_refl
  by (cases c) auto


section \<open>Authority\<close>

text \<open>A refusal: 403, 422 for a body that pydantic refuses first, or the \<open>ValueError\<close> of a run kind; nothing is
  written.\<close>

definition refuses :: "(service_error + unit) \<times> db \<Rightarrow> db \<Rightarrow> bool" where
  "refuses r d \<longleftrightarrow> snd r = d \<and>
     (case fst r of Inl (App e) \<Rightarrow> ae_status e = 403 \<or> ae_status e = 422 | Inl (Crash x) \<Rightarrow> x = ValueErr | Inr _ \<Rightarrow> False)"

lemma denied: "\<not> ctx_can ctx m a \<Longrightarrow> \<exists>e. ctx_require ctx m a = Inl (App e) \<and> ae_status e = 403"
  using ctx_require_cases [of ctx m a] ctx_require_iff [of ctx m a] by auto

lemma denied_org: "org_require r a \<noteq> Inr () \<Longrightarrow> \<exists>e. org_require r a = Inl (App e) \<and> ae_status e = 403"
  by (auto simp: org_require_def AppError_init_def no_args_def ForbiddenError_def)

lemma guarded_weak_cong: "c = c' \<Longrightarrow> guarded c d rest = guarded c' d rest"
  by simp

text \<open>A refusal of the service passes through the commit and the view.\<close>

lemma refused_simps [simp]:
  "commit d (Inl e, d) = (Inl e, d)" "viewed (Inl e, d) f = (Inl e, d)" "done_with (Inl e, d) = (Inl e, d)"
  by (simp_all add: commit_def committed_def viewed_def done_with_def)

lemma refuses_error [simp]: "refuses (Inl (App e), d) d \<longleftrightarrow> ae_status e = 403 \<or> ae_status e = 422"
  by (simp add: refuses_def)

lemma refuses_checked: "refuses (done_with r) d \<Longrightarrow> refuses (done_with (checked fits d r)) d"
  by (auto simp: checked_def schema_error_def AppError_init_def no_args_def)

lemma refuses_kind: "refuses (Inl (Crash ValueErr), d) d"
  by (simp add: refuses_def)

lemmas refusal_simps = has_authority_def refuses_checked refuses_kind

lemmas workflow_services = list_workflows_def workflow_create_def rename_def workflow_delete_def duplicate_def get_draft_def
  save_draft_def workflow_validate_def list_versions_def get_version_def publish_def activate_def deactivate_def
  rotate_webhook_secret_def execution_create_def

lemmas other_services = list_executions_def node_payload_def execution_logs_def cancel_def retry_def list_credentials_def
  credential_create_def credential_update_def credential_delete_def overview_def monitoring_def engine_status_page_def
  compatibility_def list_rules_def upsert_rule_def delete_rule_def list_notifications_def unread_count_def acknowledge_def
  acknowledge_all_def audit_log_def workspace_settings_def update_workspace_def list_members_def invite_member_def
  update_role_def update_role_read_def update_permissions_def remove_member_def

lemma workflow_calls_refuse: "\<not> has_authority ctx (workflow_asks c) \<Longrightarrow> refuses (handle_workflow wd ctx c d) d"
  by (cases c)
    (auto simp: refusal_simps workflow_routes workflow_services dest!: denied split: option.split cong: guarded_weak_cong)

lemma execution_calls_refuse: "\<not> has_authority ctx (execution_asks c) \<Longrightarrow> refuses (handle_execution wd ctx c d) d"
  by (cases c) (auto simp: refusal_simps execution_routes other_services dest!: denied cong: guarded_weak_cong)

lemma credential_calls_refuse: "\<not> has_authority ctx (credential_asks c) \<Longrightarrow> refuses (handle_credential wd ctx c d) d"
  by (cases c) (auto simp: refusal_simps credential_routes other_services dest!: denied cong: guarded_weak_cong)

lemma ops_calls_refuse: "\<not> has_authority ctx (ops_asks c) \<Longrightarrow> refuses (handle_ops wd ctx c d) d"
  by (cases c) (auto simp: refusal_simps ops_routes other_services dest!: denied cong: guarded_weak_cong)

lemma organization_calls_refuse: "\<not> has_authority ctx (organization_asks c) \<Longrightarrow> refuses (handle_organization wd ctx c d) d"
  by (cases c)
    (auto simp: refusal_simps organization_routes org_summary_def org_list_members_def org_invite_member_def org_update_role_def
      org_remove_member_def list_department_workspaces_def provision_department_workspace_def within_org_def org_id_of_def ForbiddenError_def
      dest!: denied_org split: option.split cong: guarded_weak_cong)

lemma platform_calls_refuse:
  "\<not> has_authority ctx (platform_asks c) \<Longrightarrow> refuses (handle_platform wd ctx c d) d"
  "\<not> has_authority ctx (admin_asks c') \<Longrightarrow> refuses (handle_admin wd ctx c' d) d"
  by (cases c; cases c'; auto simp: refusal_simps platform_routes require_platform_admin_def platform_admin_def list_workspaces_def
      provision_workspace_def set_quota_def set_engine_def set_status_def ForbiddenError_def cong: guarded_weak_cong)+

text \<open>
  C3: a route does nothing for who lacks its authority. Take any route of the product API that asks for a permission, an
  organisation right or the platform role, and any context that does not have it. The request is refused, whatever
  its arguments and the database: with a 403, or with a 422 where pydantic refuses the body first (or with the
  \<open>ValueError\<close> of a run kind that does not exist), and the database is the same afterwards.
\<close>

theorem routes_refuse_without_authority:
  assumes "\<not> has_authority ctx (asks c)"
  shows "refuses (handle wd ctx c d) d"
  using assms workflow_calls_refuse execution_calls_refuse credential_calls_refuse ops_calls_refuse organization_calls_refuse
    platform_calls_refuse
  by (cases c) auto

section \<open>A small deployment of three workspaces\<close>

definition demo_world :: world where
  "demo_world = \<lparr>wd_env = demo_env\<lparr>env_id := \<lambda>n. replicate n (CHR ''a'')\<rparr>, wd_crypto = demo_crypto,
     wd_compile = (\<lambda>_ _. Answer (True, [])), wd_ask = (\<lambda>_. EngineDown (raise_class EngineUnavailableError)), wd_health = offline,
     wd_capabilities = None, wd_nodes = [], wd_updated_at = (\<lambda>_. 0), wd_median = id, wd_ninety_five = id, wd_fold_marks = id,
     wd_email_str = Some\<rparr>"

text \<open>The account is an owner in \<open>w1\<close> through its organisation and an analyst in \<open>w2\<close>; \<open>w3\<close> is another organisation's.\<close>

definition boundary_db :: db where
  "boundary_db = account_db\<lparr>
     db_workspaces := [reach_workspace ''w1'', reach_workspace ''w2'', reach_workspace ''w3''\<lparr>ws_organization_id := ''p''\<rparr>],
     db_workflows := [demo_workflow\<lparr>wf_id := ''f3'', wf_workspace_id := ''w3''\<rparr>]\<rparr>"

definition demo_request :: request_meta where
  "demo_request = bearing (issue_session_token demo_crypto demo_env demo_cid None 0 empty_db)"

lemma replicate_a: "replicate n (CHR ''a'') = x # xs \<Longrightarrow> x = CHR ''a''"
  by (cases n) auto

lemma boundary_sound: "sound (wd_env demo_world) boundary_db" "keys_ok boundary_db"
proof -
  have "well_drawn (wd_env demo_world)"
    by (auto simp: well_drawn_def demo_world_def inj_def replicate_eq_replicate list_all_iff is_hex_def)
  then show "sound (wd_env demo_world) boundary_db"
    by (auto simp: sound_def unique_def owns_def claims_def safe_def undrawn_def secret_ref_def boundary_db_def account_db_def reach_db_def
        empty_db_def reach_workspace_def seat_def demo_workflow_def demo_world_def dest!: sym [of _ "replicate _ _"] replicate_a)
  show "keys_ok boundary_db"
    using reach_demo(1) by (simp add: keys_ok_def boundary_db_def account_db_def reach_workspace_def)
qed

lemma boundary_user: "current_user demo_crypto (wd_env demo_world) demo_request boundary_db = Inr demo_account"
proof -
  have s: "clock_seconds (wd_env demo_world) = clock_seconds demo_env" by (simp add: clock_seconds_def demo_world_def)
  have n: "token_of demo_request \<noteq> []"
    by (simp add: demo_request_def issue_session_token_def demo_crypto_def put_claims_nonempty)
  have "get_user boundary_db demo_cid = Some demo_account"
    using account_facts(1,3) by (simp add: boundary_db_def get_user_def account_db_def)
  from current_user_issued [OF demo_crypto_ok(1) demo_cid_valid, of demo_request demo_env None 0 empty_db, OF _ n _ _ this account_facts(2)]
  show ?thesis by (simp add: s account_facts demo_request_def CLOCK_SKEW_LEEWAY_SECONDS_def)
qed


section \<open>What asks for no authority\<close>

text \<open>A member whose override map takes away every permission of every module.\<close>

definition stripped_ctx :: request_context where
  "stripped_ctx = admin_ctx\<lparr>ctx_is_platform_admin := False, ctx_role := R_ANALYST,
     ctx_permission_overrides := Some (map (\<lambda>m. (perm_module_value m, JArr [])) perm_module_members)\<rparr>"

lemma stripped_can_nothing: "\<not> ctx_can stripped_ctx m a"
  by (cases m) (simp_all add: stripped_ctx_def ctx_can_def allowed_effective_def effective_permissions_def effective_def
      perm_module_members_def as_module_inj [THEN iffD2, OF refl] List.map_filter_simps del: perm_module_value.simps)

theorem routes_refuse_without_authority_witness:
  "\<not> ctx_can stripped_ctx M_WORKFLOWS A_DELETE \<and>
   refuses (handle demo_world stripped_ctx (WorkflowsCall (DeleteWorkflow ''f3'')) boundary_db) boundary_db"
  using stripped_can_nothing routes_refuse_without_authority [of stripped_ctx "WorkflowsCall (DeleteWorkflow ''f3'')"]
  by (simp add: has_authority_def)

text \<open>
  \<open>POST /credentials/{id}/test\<close> checks no permission, though it writes: a member who may do nothing at all makes an
  invalid credential active and leaves a row in the audit trail.
\<close>

lemma test_needs_no_permission:
  fixes wd :: world
  assumes "\<And>m a. \<not> ctx_can ctx m a" "credential_get ctx cid d = Inr row" "cr_status row = CS_INVALID" "text_or_empty (cr_secret_ref row) \<noteq> []"
  defines "answer \<equiv> handle wd ctx (CredentialsCall (TestCredential cid)) d"
  shows "asks (CredentialsCall (TestCredential cid)) = NoAuthority" "fst answer = Inr ()"
    and "\<exists>row' \<in> set (db_credentials (snd answer)). cr_id row' = cid \<and> cr_status row' = CS_ACTIVE"
    and "length (db_audit (snd answer)) = Suc (length (db_audit d))"
proof -
  have row: "row \<in> set (db_credentials d)" "cr_id row = cid"
    using assms(2) by (auto simp: credential_get_def split: option.splits dest!: find_SomeD)
  note route = answer_def test_credential_route_def record_test_def assms(2-4) Let_def done_with_def commit_def committed_def
    audit_record_def put_credential_def
  show "asks (CredentialsCall (TestCredential cid)) = NoAuthority" by simp
  show "fst answer = Inr ()" by (simp add: route split: prod.split)
  show "\<exists>row' \<in> set (db_credentials (snd answer)). cr_id row' = cid \<and> cr_status row' = CS_ACTIVE"
    using row by (auto simp: route set_update_where bex_Un split: prod.split)
  show "length (db_audit (snd answer)) = Suc (length (db_audit d))" by (simp add: route split: prod.split)
qed

end
