(* ===== verification/Adapter.thy ===== *)
theory Adapter
  imports Monitoring Recovery
begin

text \<open>
  The engine adapter, \<open>app/engine/n8n_service_adapter.py\<close>: how an HTTP exchange with the engine service becomes
  an answer in the product's own terms. The HTTP client is the argument of each operation: what came of the
  exchange. A body that is no JSON is \<^const>\<open>None\<close>. Fields that the adapter passes on untouched have the type the
  DTOs declare; a value of another type is left out. An exception that is no \<open>AppError\<close> is a \<^typ>\<open>py_exc\<close>.
\<close>

datatype http_outcome = HttpTimeout string | HttpBroken string | HttpReply int string "json option"

section \<open>The call\<close>

definition safe_json :: "json option \<Rightarrow> dict" where
  "safe_json body = (case body of Some (JObj d) \<Rightarrow> d | _ \<Rightarrow> [])"

definition unavailable :: "string \<Rightarrow> 'a engine_answer" where
  "unavailable why = EngineDown (AppError_init EngineUnavailableError (no_args\<lparr>arg_technical := Some why\<rparr>))"

definition operation_failed :: "string option \<Rightarrow> string \<Rightarrow> 'a engine_answer" where
  "operation_failed code why = EngineRefused (AppError_init EngineOperationError (no_args\<lparr>arg_code := code, arg_technical := Some why\<rparr>))"

definition opt_str :: "json \<Rightarrow> string option" where
  "opt_str v = (case v of JStr s \<Rightarrow> Some s | _ \<Rightarrow> None)"

definition opt_int :: "json \<Rightarrow> int option" where
  "opt_int v = (case v of JInt i \<Rightarrow> Some i | _ \<Rightarrow> None)"

definition obj_or_empty :: "json \<Rightarrow> dict" where
  "obj_or_empty v = (case v of JObj d \<Rightarrow> d | _ \<Rightarrow> [])"

text \<open>A 4xx whose body names a code keeps it.\<close>

definition refused :: "string \<Rightarrow> dict \<Rightarrow> py_exc + 'a engine_answer" where
  "refused body_text payload =
     (case as_dict (or_else (dget payload ''error'') (JObj [])) of
        Inl x \<Rightarrow> Inl x
      | Inr problem \<Rightarrow>
          if str_or_empty (dget problem ''code'') \<noteq> []
          then Inr (EngineRefused (error_from_matrix_with (str_or_empty (dget problem ''code'')) None
                 (no_args\<lparr>arg_technical := opt_str (dget problem ''technical_message'')\<rparr>)))
          else Inr (operation_failed None (take 500 body_text)))"

definition adapter_call :: "http_outcome \<Rightarrow> py_exc + dict engine_answer" where
  "adapter_call outcome =
     (case outcome of
        HttpTimeout why \<Rightarrow> Inr (unavailable why)
      | HttpBroken why \<Rightarrow> Inr (unavailable why)
      | HttpReply status body_text body \<Rightarrow>
          if status = 404 then Inr (operation_failed (Some ''ENGINE_EXECUTION_UNKNOWN'') (take 500 body_text))
          else if status \<ge> 500 then Inr (unavailable (take 500 body_text))
          else if status \<ge> 400 then refused body_text (safe_json body)
          else Inr (Answer (safe_json body)))"

text \<open>What an operation makes of the payload of a successful call.\<close>

definition and_then :: "py_exc + 'a engine_answer \<Rightarrow> ('a \<Rightarrow> py_exc + 'b engine_answer) \<Rightarrow> py_exc + 'b engine_answer" where
  "and_then m f =
     (case m of
        Inl x \<Rightarrow> Inl x
      | Inr (EngineDown e) \<Rightarrow> Inr (EngineDown e)
      | Inr (EngineRefused e) \<Rightarrow> Inr (EngineRefused e)
      | Inr (Answer a) \<Rightarrow> f a)"

section \<open>Conversions\<close>

text \<open>\<open>dict(v)\<close>, which also takes a list of pairs; \<open>list(v)\<close> is \<^const>\<open>iterate\<close>.\<close>

fun py_pair :: "json \<Rightarrow> py_exc + string \<times> json" where
  "py_pair (JArr [JStr k, v]) = Inr (k, v)"
| "py_pair (JStr [a, b]) = Inr ([a], JStr [b])"
| "py_pair (JArr _) = Inl ValueErr"
| "py_pair (JStr _) = Inl ValueErr"
| "py_pair _ = Inl TypeErr"

fun py_pairs :: "json list \<Rightarrow> dict \<Rightarrow> py_exc + dict" where
  "py_pairs [] acc = Inr acc"
| "py_pairs (x # xs) acc = (case py_pair x of Inl e \<Rightarrow> Inl e | Inr (k, v) \<Rightarrow> py_pairs xs (dput acc k v))"

fun py_dict :: "json \<Rightarrow> py_exc + dict" where
  "py_dict (JObj d) = Inr d"
| "py_dict (JArr xs) = py_pairs xs []"
| "py_dict (JStr s) = py_pairs (map (\<lambda>c. JStr [c]) s) []"
| "py_dict _ = Inl TypeErr"

section \<open>Health and capabilities\<close>

definition offline_health :: "app_error \<Rightarrow> engine_health" where
  "offline_health e = \<lparr>eh_reachable = False, eh_status = ''OFFLINE'', eh_engine_version = None, eh_adapter_contract_version = None,
     eh_compiler_version = None, eh_message = ae_technical e, eh_loaded_nodes = [], eh_latency_ms = None\<rparr>"

definition adapter_health :: "http_outcome \<Rightarrow> py_exc + engine_health" where
  "adapter_health outcome =
     (case adapter_call outcome of
        Inl x \<Rightarrow> Inl x
      | Inr (EngineDown e) \<Rightarrow> Inr (offline_health e)
      | Inr (EngineRefused e) \<Rightarrow> Inr (offline_health e)
      | Inr (Answer p) \<Rightarrow>
          (case iterate (or_else (dget p ''loaded_nodes'') (JArr [])) of
             Inl x \<Rightarrow> Inl x
           | Inr nodes \<Rightarrow>
               Inr \<lparr>eh_reachable = True, eh_status = py_str (or_else (dget p ''status'') (JStr ''HEALTHY'')),
                 eh_engine_version = opt_str (dget p ''engine_version''),
                 eh_adapter_contract_version = opt_str (dget p ''contract_version''),
                 eh_compiler_version = opt_str (dget p ''compiler_version''), eh_message = opt_str (dget p ''message''),
                 eh_loaded_nodes = map py_str nodes, eh_latency_ms = opt_int (dget p ''latency_ms'')\<rparr>))"

definition feature_flags :: "dict \<Rightarrow> (string \<times> bool) list" where
  "feature_flags d = map (\<lambda>(k, v). (k, truthy v)) d"

definition adapter_capabilities :: "http_outcome \<Rightarrow> py_exc + engine_capabilities engine_answer" where
  "adapter_capabilities outcome =
     and_then (adapter_call outcome) (\<lambda>p.
       case iterate (or_else (dget p ''supported_node_keys'') (JArr [])) of
         Inl x \<Rightarrow> Inl x
       | Inr keys \<Rightarrow>
           (case py_dict (or_else (dget p ''features'') (JObj [])) of
              Inl x \<Rightarrow> Inl x
            | Inr features \<Rightarrow>
                Inr (Answer \<lparr>ec_contract_version = py_str (or_else (dget p ''contract_version'') (JStr ''1'')),
                  ec_compiler_version = py_str (or_else (dget p ''compiler_version'') (JStr ''1'')),
                  ec_engine_version = str_or_empty (dget p ''engine_version''),
                  ec_supported_node_keys = map py_str keys, ec_features = feature_flags features\<rparr>)))"

section \<open>Requests\<close>

definition credential_json :: "bool \<Rightarrow> runtime_credential \<Rightarrow> json" where
  "credential_json include_credentials c =
     JObj [(''credential_id'', JStr (rc_id c)), (''credential_type'', JStr (rc_type c)),
       (''data'', JObj (if include_credentials then rc_data c else []))]"

text \<open>The wire form, without the registry snapshot and the run limits, which are no part of the model's request.\<close>

definition serialise_request :: "bool \<Rightarrow> engine_request \<Rightarrow> dict" where
  "serialise_request include_credentials q =
     [(''execution_id'', JStr (rq_execution_id q)), (''workspace_ref'', JStr (rq_workspace_ref q)),
      (''graph'', JObj (rq_graph q)), (''start_payload'', rq_start_payload q),
      (''credentials'', JArr (map (credential_json include_credentials) (rq_credentials q))),
      (''trace_id'', JStr (rq_trace_id q)), (''idempotency_key'', JStr (rq_idempotency_key q))]"

definition adapter_execute :: "http_outcome \<Rightarrow> py_exc + string engine_answer" where
  "adapter_execute outcome =
     and_then (adapter_call outcome) (\<lambda>p.
       if str_or_empty (dget p ''ref'') = []
       then Inr (operation_failed None ''engine accepted the execution without returning a ref'')
       else Inr (Answer (str_or_empty (dget p ''ref''))))"

section \<open>Run reports\<close>

definition contract_violation :: "string \<Rightarrow> 'a engine_answer" where
  "contract_violation why = operation_failed (Some ''ENGINE_CONTRACT_VIOLATION'') why"

fun parse_node_results :: "json list \<Rightarrow> py_exc + engine_node_result list engine_answer" where
  "parse_node_results [] = Inr (Answer [])"
| "parse_node_results (x # xs) =
     (case as_dict x of
        Inl e \<Rightarrow> Inl e
      | Inr raw \<Rightarrow>
          (let st = str_or_empty (dget raw ''status'') in
           if node_run_status_of st = None
           then Inr (contract_violation (''engine reported unknown node status '' @ repr_str st))
           else
             (case py_int (or_else (dget raw ''execution_index'') (JInt 0)) of
                Inl e \<Rightarrow> Inl e
              | Inr idx \<Rightarrow>
                  (case py_dict (or_else (dget raw ''branch_metadata'') (JObj [])) of
                     Inl e \<Rightarrow> Inl e
                   | Inr branch \<Rightarrow>
                       and_then (parse_node_results xs) (\<lambda>rest. Inr (Answer (
                         \<lparr>en_node_id = str_or_empty (dget raw ''node_id''), en_node_name = str_or_empty (dget raw ''node_name''),
                          en_status = st, en_index = idx, en_started_at = opt_str (dget raw ''started_at''),
                          en_ended_at = opt_str (dget raw ''ended_at''), en_duration_ms = opt_int (dget raw ''duration_ms''),
                          en_item_count = opt_int (dget raw ''item_count''), en_input_preview = obj_or_empty (dget raw ''input_preview''),
                          en_output_preview = obj_or_empty (dget raw ''output_preview''), en_truncated = truthy (dget raw ''truncated''),
                          en_error = obj_or_empty (dget raw ''error''), en_branch_metadata = branch\<rparr> # rest)))))))"

fun parse_log_lines :: "json list \<Rightarrow> py_exc + engine_log_line list" where
  "parse_log_lines [] = Inr []"
| "parse_log_lines (x # xs) =
     (case as_dict x of
        Inl e \<Rightarrow> Inl e
      | Inr line \<Rightarrow>
          (case parse_log_lines xs of
             Inl e \<Rightarrow> Inl e
           | Inr rest \<Rightarrow>
               Inr (\<lparr>el_at = str_or_empty (dget line ''at''), el_level = py_str (or_else (dget line ''level'') (JStr ''INFO'')),
                  el_message = str_or_empty (dget line ''message''), el_node_name = opt_str (dget line ''node_name'')\<rparr> # rest)))"

definition report_of :: "string \<Rightarrow> dict \<Rightarrow> engine_node_result list \<Rightarrow> py_exc + engine_report engine_answer" where
  "report_of st p results =
     (case iterate (or_else (dget p ''logs'') (JArr [])) of
        Inl x \<Rightarrow> Inl x
      | Inr lines \<Rightarrow>
          (case parse_log_lines lines of
             Inl x \<Rightarrow> Inl x
           | Inr logs \<Rightarrow>
               (case py_dict (or_else (dget p ''output_summary'') (JObj [])) of
                  Inl x \<Rightarrow> Inl x
                | Inr out \<Rightarrow>
                    (case py_dict (or_else (dget p ''technical'') (JObj [])) of
                       Inl x \<Rightarrow> Inl x
                     | Inr technical \<Rightarrow>
                         Inr (Answer \<lparr>er_status = st, er_started_at = opt_str (dget p ''started_at''),
                           er_ended_at = opt_str (dget p ''ended_at''), er_duration_ms = opt_int (dget p ''duration_ms''),
                           er_error_code = opt_str (dget p ''error_code''), er_error_category = opt_str (dget p ''error_category''),
                           er_failed_node_name = opt_str (dget p ''failed_node_name''), er_node_results = results,
                           er_logs = logs, er_output_summary = out, er_technical = technical\<rparr>)))))"

definition parse_status :: "dict \<Rightarrow> py_exc + engine_report engine_answer" where
  "parse_status p =
     (let st = str_or_empty (dget p ''status'') in
      if execution_status_of st = None then Inr (contract_violation (''engine reported unknown status '' @ repr_str st))
      else
        (case iterate (or_else (dget p ''node_results'') (JArr [])) of
           Inl x \<Rightarrow> Inl x
         | Inr raws \<Rightarrow> and_then (parse_node_results raws) (report_of st p)))"

definition adapter_get_execution :: "http_outcome \<Rightarrow> py_exc + engine_report engine_answer" where
  "adapter_get_execution outcome = and_then (adapter_call outcome) parse_status"

definition adapter_cancel :: "http_outcome \<Rightarrow> py_exc + engine_report engine_answer" where
  "adapter_cancel outcome = and_then (adapter_call outcome) parse_status"

section \<open>The dry run of the compiler\<close>

fun parse_diagnostics :: "json list \<Rightarrow> py_exc + issue list" where
  "parse_diagnostics [] = Inr []"
| "parse_diagnostics (x # xs) =
     (case as_dict x of
        Inl e \<Rightarrow> Inl e
      | Inr d \<Rightarrow>
          map_sum id (\<lambda>rest.
            \<lparr>iss_code = py_str (or_else (dget d ''code'') (JStr ''WORKFLOW_INVALID'')), iss_node_id = opt_str (dget d ''node_id''),
             iss_field = opt_str (dget d ''field''), iss_severity = py_str (or_else (dget d ''severity'') (JStr ''ERROR''))\<rparr> # rest)
            (parse_diagnostics xs))"

definition adapter_validate :: "http_outcome \<Rightarrow> py_exc + (bool \<times> issue list) engine_answer" where
  "adapter_validate outcome =
     and_then (adapter_call outcome) (\<lambda>p.
       case iterate (or_else (dget p ''diagnostics'') (JArr [])) of
         Inl x \<Rightarrow> Inl x
       | Inr ds \<Rightarrow>
           (case parse_diagnostics ds of Inl x \<Rightarrow> Inl x | Inr diagnostics \<Rightarrow> Inr (Answer (truthy (dget p ''ok''), diagnostics))))"

section \<open>The boundary as the services see it\<close>

text \<open>\<open>executions.poll\<close> and the end of \<open>executions.dispatch\<close> over the wire.\<close>

definition wire_poll :: "env \<Rightarrow> execution \<Rightarrow> http_outcome \<Rightarrow> db \<Rightarrow> service_error + db" where
  "wire_poll env e outcome d =
     (case adapter_get_execution outcome of Inl x \<Rightarrow> Inl (Crash x) | Inr answer \<Rightarrow> poll env e answer d)"

definition wire_dispatch :: "env \<Rightarrow> uuid \<Rightarrow> http_outcome \<Rightarrow> db \<Rightarrow> service_error + db" where
  "wire_dispatch env eid outcome d =
     (case adapter_execute outcome of Inl x \<Rightarrow> Inl (Crash x) | Inr answer \<Rightarrow> dispatch_finish env eid answer d)"

definition wire_validate :: "http_outcome \<Rightarrow> py_exc + engine_state \<times> issue list" where
  "wire_validate outcome = map_sum id (\<lambda>answer. engine_validate (\<lambda>_ _. answer) [] []) (adapter_validate outcome)"

fun no_answer :: "http_outcome \<Rightarrow> bool" where
  "no_answer (HttpReply status _ _) = (status \<ge> 500)"
| "no_answer _ = True"

lemma and_then_simps [simp]:
  "and_then (Inl x) f = Inl x" "and_then (Inr (EngineDown e)) f = Inr (EngineDown e)"
  "and_then (Inr (EngineRefused e)) f = Inr (EngineRefused e)" "and_then (Inr (Answer a)) f = f a"
  by (simp_all add: and_then_def)

lemma and_then_Answer: "and_then m f = Inr (Answer b) \<longleftrightarrow> (\<exists>a. m = Inr (Answer a) \<and> f a = Inr (Answer b))"
  by (auto simp: and_then_def split: sum.splits engine_answer.splits)

lemma no_answer_down: "no_answer outcome \<Longrightarrow> \<exists>e. adapter_call outcome = Inr (EngineDown e)"
  by (cases outcome) (auto simp: adapter_call_def unavailable_def)

lemma parsed_node_statuses: "parse_node_results xs = Inr (Answer rs) \<Longrightarrow> \<forall>n \<in> set rs. node_run_status_of (en_status n) \<noteq> None"
  by (induction xs arbitrary: rs) (auto simp: Let_def contract_violation_def operation_failed_def and_then_Answer split: sum.splits if_splits)

lemma report_of_facts: "report_of st p results = Inr (Answer r) \<Longrightarrow> er_status r = st \<and> er_node_results r = results"
  by (auto simp: report_of_def split: sum.splits)

lemma parsed_statuses: "parse_status p = Inr (Answer r) \<Longrightarrow>
    execution_status_of (er_status r) \<noteq> None \<and> (\<forall>n \<in> set (er_node_results r). node_run_status_of (en_status n) \<noteq> None)"
  by (auto simp: parse_status_def Let_def contract_violation_def operation_failed_def and_then_Answer
      dest!: parsed_node_statuses report_of_facts split: sum.splits if_splits)

lemma unknown_status_refused:
  "execution_status_of (str_or_empty (dget p ''status'')) = None \<Longrightarrow>
   \<exists>x. parse_status p = Inr (EngineRefused x) \<and> ae_code x = ''ENGINE_CONTRACT_VIOLATION''"
  by (simp add: parse_status_def Let_def contract_violation_def operation_failed_def AppError_init_def)

lemma ingest_keeps_status_known:
  "execution_status_of (er_status r) \<noteq> None \<Longrightarrow> \<forall>n \<in> set (er_node_results r). node_run_status_of (en_status n) \<noteq> None \<Longrightarrow>
   ingest_results env e (er_node_results r) = Inl x \<Longrightarrow> \<exists>n \<in> set (er_node_results r). node_key_for e (en_node_id n) = Inl x"
proof -
  have "\<forall>n \<in> set ns. node_run_status_of (en_status n) \<noteq> None \<Longrightarrow> ingest_results env e ns = Inl x \<Longrightarrow>
      \<exists>n \<in> set ns. node_key_for e (en_node_id n) = Inl x" for ns
    by (induction ns) (auto split: sum.splits option.splits)
  then show "\<forall>n \<in> set (er_node_results r). node_run_status_of (en_status n) \<noteq> None \<Longrightarrow>
      ingest_results env e (er_node_results r) = Inl x \<Longrightarrow> \<exists>n \<in> set (er_node_results r). node_key_for e (en_node_id n) = Inl x"
    by blast
qed

lemma engine_answer_cases:
  assumes "text_or_empty (ex_engine_ref e) \<noteq> []"
  shows "no_answer outcome \<Longrightarrow> wire_poll env e outcome d = Inr d"
    and "no_answer outcome \<Longrightarrow> get_execution_row d eid = Some q \<Longrightarrow> wire_dispatch env eid outcome d =
      Inr (put_execution (q\<lparr>ex_status := EX_QUEUED, ex_error_code := Some ''ENGINE_UNAVAILABLE''\<rparr>) d)"
    and "wire_poll env e (HttpReply 404 body_text body) d = mark_interrupted env e d"
    and "status < 400 \<Longrightarrow> execution_status_of (str_or_empty (dget (safe_json body) ''status'')) = None \<Longrightarrow>
      \<exists>x. wire_poll env e (HttpReply status body_text body) d = Inl (App x) \<and> ae_code x = ''ENGINE_CONTRACT_VIOLATION''"
    and "adapter_get_execution outcome = Inr (Answer r) \<Longrightarrow>
      execution_status_of (er_status r) \<noteq> None \<and> (\<forall>n \<in> set (er_node_results r). node_run_status_of (en_status n) \<noteq> None)"
proof -
  show "wire_poll env e outcome d = Inr d" if "no_answer outcome"
    using no_answer_down [OF that] by (auto simp: wire_poll_def adapter_get_execution_def poll_def)
  show "wire_dispatch env eid outcome d = Inr (put_execution (q\<lparr>ex_status := EX_QUEUED, ex_error_code := Some ''ENGINE_UNAVAILABLE''\<rparr>) d)"
    if "no_answer outcome" "get_execution_row d eid = Some q"
    using no_answer_down [OF that(1)] that(2) by (auto simp: wire_dispatch_def adapter_execute_def dispatch_finish_def)
  show "wire_poll env e (HttpReply 404 body_text body) d = mark_interrupted env e d"
    using assms by (simp add: wire_poll_def adapter_get_execution_def adapter_call_def operation_failed_def poll_def AppError_init_def)
  show "\<exists>x. wire_poll env e (HttpReply status body_text body) d = Inl (App x) \<and> ae_code x = ''ENGINE_CONTRACT_VIOLATION''"
    if low: "status < 400" and unknown: "execution_status_of (str_or_empty (dget (safe_json body) ''status'')) = None"
  proof -
    obtain x where x: "parse_status (safe_json body) = Inr (EngineRefused x)" "ae_code x = ''ENGINE_CONTRACT_VIOLATION''"
      using unknown_status_refused [OF unknown] by blast
    then show ?thesis
      using low assms by (simp add: wire_poll_def adapter_get_execution_def adapter_call_def poll_def)
  qed
  show "execution_status_of (er_status r) \<noteq> None \<and> (\<forall>n \<in> set (er_node_results r). node_run_status_of (en_status n) \<noteq> None)"
    if "adapter_get_execution outcome = Inr (Answer r)"
    using that parsed_statuses by (auto simp: adapter_get_execution_def and_then_Answer)
qed

text \<open>
  C26: What the wire can do to a run. When no answer comes -- a timeout, a broken connection, a 5xx -- polling leaves the
  database as it is and dispatching puts the run back into the queue; a 404 is the engine's word that it does not have the run,
  which interrupts it; a successful reply with a status outside the product's vocabulary is refused as a contract
  violation and writes nothing; and whatever report does get through has a known status on the run and on every node.
\<close>

theorem engine_answers_classified:
  assumes "text_or_empty (ex_engine_ref e) \<noteq> []"
  shows "(no_answer outcome \<longrightarrow> wire_poll env e outcome d = Inr d) \<and>
    (no_answer outcome \<longrightarrow> get_execution_row d eid = Some q \<longrightarrow> wire_dispatch env eid outcome d =
      Inr (put_execution (q\<lparr>ex_status := EX_QUEUED, ex_error_code := Some ''ENGINE_UNAVAILABLE''\<rparr>) d)) \<and>
    wire_poll env e (HttpReply 404 body_text body) d = mark_interrupted env e d \<and>
    (status < 400 \<longrightarrow> execution_status_of (str_or_empty (dget (safe_json body) ''status'')) = None \<longrightarrow>
      (\<exists>x. wire_poll env e (HttpReply status body_text body) d = Inl (App x) \<and> ae_code x = ''ENGINE_CONTRACT_VIOLATION'')) \<and>
    (adapter_get_execution outcome = Inr (Answer r) \<longrightarrow>
      execution_status_of (er_status r) \<noteq> None \<and> (\<forall>n \<in> set (er_node_results r). node_run_status_of (en_status n) \<noteq> None))"
  by (intro conjI impI)
    (rule engine_answer_cases(1-4) [OF assms] engine_answer_cases(5) [OF assms, THEN conjunct1]
      engine_answer_cases(5) [OF assms, THEN conjunct2]; assumption)+

theorem engine_answers_classified_witness:
  "let e = demo_execution\<lparr>ex_engine_ref := Some ''r1''\<rparr>; d = empty_db\<lparr>db_executions := [e]\<rparr> in
   wire_poll demo_env e (HttpReply 502 ''Bad Gateway'' None) d = Inr d \<and>
   (\<exists>x. wire_poll demo_env e (HttpReply 200 ''ok'' (Some (JObj [(''status'', JStr ''PAUSED'')]))) d = Inl (App x) \<and>
      ae_code x = ''ENGINE_CONTRACT_VIOLATION'')"
proof -
  let ?e = "demo_execution\<lparr>ex_engine_ref := Some ''r1''\<rparr>"
  have r: "text_or_empty (ex_engine_ref ?e) \<noteq> []" by (simp add: text_or_empty_def)
  have "execution_status_of ''PAUSED'' = None"
    by (simp add: execution_status_of_def enum_parse_def execution_status_members_def)
  then show ?thesis
    using engine_answers_classified [OF r, where outcome = "HttpReply 502 ''Bad Gateway'' None" and env = demo_env]
      engine_answers_classified [OF r, where env = demo_env and status = 200 and body = "Some (JObj [(''status'', JStr ''PAUSED'')])"]
    by (simp add: safe_json_def)
qed

text \<open>A compile dry-run carries no plaintext: what goes over the wire does not depend on the payloads.\<close>

lemma validation_hides_payloads:
  "map (\<lambda>c. (rc_id c, rc_type c)) (rq_credentials q) = map (\<lambda>c. (rc_id c, rc_type c)) cs \<Longrightarrow>
   serialise_request False (q\<lparr>rq_credentials := cs\<rparr>) = serialise_request False q"
proof -
  assume same: "map (\<lambda>c. (rc_id c, rc_type c)) (rq_credentials q) = map (\<lambda>c. (rc_id c, rc_type c)) cs"
  have form: "map (credential_json False) xs =
      map (\<lambda>(i, t). JObj [(''credential_id'', JStr i), (''credential_type'', JStr t), (''data'', JObj [])])
      (map (\<lambda>c. (rc_id c, rc_type c)) xs)" for xs
    by (simp add: credential_json_def)
  have "map (credential_json False) cs = map (credential_json False) (rq_credentials q)"
    by (simp only: form same)
  then show ?thesis
    by (simp add: serialise_request_def)
qed

text \<open>\<open>health\<close> is to answer and never to raise; an error body whose \<open>error\<close> is a text makes it raise.\<close>

lemma health_raises_on_text_error:
  "adapter_health (HttpReply 401 ''{}'' (Some (JObj [(''error'', JStr ''Unauthorized'')]))) = Inl AttributeError"
  by (simp add: adapter_health_def adapter_call_def refused_def safe_json_def or_else_def)

text \<open>A graph counts as compiled only where the engine answered, below 400, and said so; anything else but an answer is no verdict.\<close>

lemma compiled_only_on_the_engines_word:
  assumes "wire_validate outcome = Inr (ENGINE_OK, diagnostics)"
  shows "\<exists>status body_text body. outcome = HttpReply status body_text body \<and> status < 400 \<and> truthy (dget (safe_json body) ''ok'')"
proof -
  obtain answer where a: "adapter_validate outcome = Inr answer" "engine_validate (\<lambda>_ _. answer) [] [] = (ENGINE_OK, diagnostics)"
    using assms by (cases "adapter_validate outcome") (auto simp: wire_validate_def)
  then have ans: "answer = Answer (True, diagnostics)"
    by (auto simp: engine_validate_def Let_def split: engine_answer.splits if_splits)
  from a(1) [unfolded ans adapter_validate_def and_then_Answer]
  obtain p where p: "adapter_call outcome = Inr (Answer p)"
    and f: "(case iterate (or_else (dget p ''diagnostics'') (JArr [])) of
        Inl x \<Rightarrow> Inl x
      | Inr ds \<Rightarrow> (case parse_diagnostics ds of Inl x \<Rightarrow> Inl x | Inr found \<Rightarrow> Inr (Answer (truthy (dget p ''ok''), found))))
      = Inr (Answer (True, diagnostics))"
    by blast
  have "truthy (dget p ''ok'')"
  proof (cases "iterate (or_else (dget p ''diagnostics'') (JArr []))")
    case (Inr ds)
    then show ?thesis
      using f by (cases "parse_diagnostics ds") simp_all
  qed (use f in simp)
  with p show ?thesis
    by (cases outcome) (auto simp: adapter_call_def unavailable_def operation_failed_def refused_def split: if_splits sum.splits)
qed

lemma outage_is_no_verdict: "no_answer outcome \<Longrightarrow> \<exists>w. wire_validate outcome = Inr (ENGINE_UNAVAILABLE, [w]) \<and> iss_severity w = ''WARNING''"
  using no_answer_down [of outcome]
  by (auto simp: wire_validate_def adapter_validate_def and_then_def engine_validate_def Let_def)

end
