(* ===== verification/Hooks.thy ===== *)
theory Hooks
  imports Gateway RateLimit
begin

text \<open>
  The public route of the webhook gateway, \<open>app/api/hooks.py\<close>: rate limit, body cap, body decoding, and what is
  committed. The body is a list of chunks. \<open>loads\<close> is \<open>json.loads\<close> of the UTF-8 body, \<^const>\<open>None\<close> where
  either raises; \<open>as_text\<close> decodes with replacement. The trace id is an argument, as the route takes it from the
  header or draws one. Responses carry their error code and body without the message texts.
\<close>

record hook_call =
  hc_key :: string
  hc_method :: string
  hc_headers :: "(string \<times> string) list"
  hc_chunks :: "string list"
  hc_content_type :: "string option"
  hc_idempotency_key :: "string option"
  hc_ip :: "string option"
  hc_trace_id :: string

datatype hook_answer = Accepted dict | Refused int json

definition plain_error :: "string \<Rightarrow> string \<Rightarrow> string \<Rightarrow> json" where
  "plain_error code category trace_id =
     JObj [(''error'', JObj [(''code'', JStr code), (''category'', JStr category), (''trace_id'', JStr trace_id)])]"

definition hook_limited :: "env \<Rightarrow> bool \<Rightarrow> string \<Rightarrow> db \<Rightarrow> bool \<times> db" where
  "hook_limited env answers public_key d =
     (let ((ok, n), d') = rate_check env answers (''webhook:'' @ public_key) (cfg_webhook_rate_limit_per_minute (env_settings env)) 60 d
      in (\<not> ok, d'))"

text \<open>The body, unless it grows past the limit; the rest of the stream is not read then.\<close>

fun read_body :: "int \<Rightarrow> string \<Rightarrow> string list \<Rightarrow> string option" where
  "read_body lim raw [] = Some raw"
| "read_body lim raw (c # cs) = (if int (length (raw @ c)) > lim then None else read_body lim (raw @ c) cs)"

definition parse_body :: "(string \<Rightarrow> json option) \<Rightarrow> (string \<Rightarrow> string) \<Rightarrow> string option \<Rightarrow> string \<Rightarrow> json option" where
  "parse_body loads as_text content_type raw =
     (if raw \<noteq> [] \<and> starts_with (str_lower (text_or_empty content_type)) ''application/json'' then loads raw
      else if raw \<noteq> [] then Some (JObj [(''body'', JStr (as_text raw))])
      else Some (JObj []))"

definition reference_of :: "execution \<Rightarrow> dict" where
  "reference_of e = [(''accepted'', JBool True), (''reference'', JStr (ex_short_id e)),
     (''status'', JStr (execution_status_value (ex_status e)))]"

definition receive :: "env \<Rightarrow> bool \<Rightarrow> (string \<Rightarrow> json option) \<Rightarrow> (string \<Rightarrow> string) \<Rightarrow> hook_call \<Rightarrow> db \<Rightarrow> hook_answer \<times> db" where
  "receive env answers loads as_text q d =
     (let (limited, d1) = hook_limited env answers (hc_key q) d in
      if limited then (Refused 429 (plain_error ''WEBHOOK_RATE_LIMITED'' ''RATE_LIMIT'' (hc_trace_id q)), d1)
      else
        (case read_body (cfg_webhook_max_body_bytes (env_settings env)) [] (hc_chunks q) of
           None \<Rightarrow> (Refused 413 (plain_error ''WEBHOOK_BODY_TOO_LARGE'' ''VALIDATION'' (hc_trace_id q)), d1)
         | Some raw \<Rightarrow>
             (case parse_body loads as_text (hc_content_type q) raw of
                None \<Rightarrow> (Refused 400 (plain_error ''WEBHOOK_BODY_INVALID'' ''VALIDATION'' (hc_trace_id q)), d1)
              | Some parsed \<Rightarrow>
                  (case handle_webhook env (hc_key q)
                     \<lparr>hk_method = hc_method q, hk_headers = hc_headers q, hk_body = raw, hk_content_type = hc_content_type q\<rparr>
                     parsed (hc_ip q) (hc_trace_id q) (hc_idempotency_key q) d1 of
                     (Inr e, d2) \<Rightarrow> (Accepted (reference_of e), d2)
                   | (Inl (App x), d2) \<Rightarrow> (Refused (ae_status x) (to_envelope x (hc_trace_id q)), d2)
                   | (Inl (Crash x), d2) \<Rightarrow> (Refused 500 (plain_error ''INTERNAL_ERROR'' ''UNKNOWN'' (hc_trace_id q)), d1)))))"

section \<open>What a refusal leaves behind\<close>

lemma upsert_hit_buckets: "\<exists>bs. snd (upsert_hit key w now d) = d\<lparr>db_buckets := bs\<rparr>"
  unfolding upsert_hit_def by (auto simp: Let_def split: option.split)

lemma hook_limited_buckets: "\<exists>bs. snd (hook_limited env answers key d) = d\<lparr>db_buckets := bs\<rparr>"
proof (cases answers)
  case True
  have "snd (hook_limited env answers key d) =
      snd (upsert_hit (take 200 (''webhook:'' @ key)) (window_start 60 (clock_seconds env)) (env_now env) d)"
    using True by (simp add: hook_limited_def rate_check_def rate_hit_def case_prod_beta Let_def)
  then show ?thesis using upsert_hit_buckets by metis
next
  case False
  then have "snd (hook_limited env answers key d) = d\<lparr>db_buckets := db_buckets d\<rparr>"
    by (simp add: hook_limited_def rate_check_def)
  then show ?thesis by blast
qed

lemma failed_create_writes_nothing: "execution_create env ctx wfid a d = (Inl e, d') \<Longrightarrow> d' = d"
  by (auto simp: execution_create_def guarded_def create_locked_def Let_def split: sum.splits option.splits prod.splits if_splits)

definition rejection :: "db \<Rightarrow> db \<Rightarrow> bool" where
  "rejection d d' = (d' = d \<or> (\<exists>ev. d' = d\<lparr>db_audit := db_audit d @ [ev]\<rparr> \<and> au_action ev = ''webhook.rejected'' \<and> au_result ev = AR_FAILURE))"

lemma refused_hook_writes: "handle_webhook env key r body ip tr k d = (Inl e, d') \<Longrightarrow> rejection d d'"
  by (auto simp: rejection_def handle_webhook_def audit_record_def Let_def hook_entry_def entry_def
      dest: failed_create_writes_nothing split: sum.splits service_error.splits prod.splits if_splits)

lemma read_body_total: "read_body lim raw cs = Some body \<Longrightarrow>
    body = raw @ concat cs \<and> int (length body) \<le> max (int (length raw)) lim"
  by (induction cs arbitrary: raw) (force split: if_splits)+

lemma gateway_buckets [simp]:
  "resolve_webhook key (d\<lparr>db_buckets := bs\<rparr>) = resolve_webhook key d"
  "authenticate_webhook env b r (d\<lparr>db_buckets := bs\<rparr>) = authenticate_webhook env b r d"
proof -
  have same: "get_workflow_row (d\<lparr>db_buckets := bs\<rparr>) = get_workflow_row d" "get_workspace (d\<lparr>db_buckets := bs\<rparr>) = get_workspace d"
    "hook_binding key (d\<lparr>db_buckets := bs\<rparr>) = hook_binding key d" "stored_secret env b (d\<lparr>db_buckets := bs\<rparr>) = stored_secret env b d"
    by (simp_all add: fun_eq_iff get_workflow_row_def get_workspace_def hook_binding_def stored_secret_def secret_read_def find_secret_def)
  show "resolve_webhook key (d\<lparr>db_buckets := bs\<rparr>) = resolve_webhook key d"
    "authenticate_webhook env b r (d\<lparr>db_buckets := bs\<rparr>) = authenticate_webhook env b r d"
    unfolding resolve_webhook_def authenticate_webhook_def same by (rule refl)+
qed


lemma accepted_hook:
  assumes "handle_webhook env key r body ip tr k d = (Inr e, d')"
  shows "\<exists>b w ws. resolve_webhook key d = Inr (b, w, ws) \<and> authenticate_webhook env b r d = Inr () \<and>
    ex_workspace_id e = tb_workspace_id b \<and> ex_workflow_id e = tb_workflow_id b"
proof -
  obtain b w ws where res: "resolve_webhook key d = Inr (b, w, ws)"
    using assms by (auto simp: handle_webhook_def split: sum.splits)
  then obtain a e0 d1 where auth: "authenticate_webhook env b r d = Inr ()"
    and create: "execution_create env (hook_context ws tr ip) (wf_id w) a d = (Inr e0, d1)"
    and e: "ex_workspace_id e = ex_workspace_id e0" "ex_workflow_id e = ex_workflow_id e0"
    using assms by (auto simp: handle_webhook_def Let_def split: sum.splits service_error.splits if_splits prod.splits)
  show ?thesis
    using res auth create_answer [OF create] resolve_facts [OF res] e by auto
qed

lemma hook_answer_cases:
  assumes "receive env answers loads as_text q d = (answer, d')"
  shows "answer = Refused status body \<Longrightarrow> \<exists>bs. rejection (d\<lparr>db_buckets := bs\<rparr>) d'"
    and "answer = Accepted reference \<Longrightarrow>
      int (length (concat (hc_chunks q))) \<le> max 0 (cfg_webhook_max_body_bytes (env_settings env)) \<and>
      (\<exists>b w ws e. resolve_webhook (hc_key q) d = Inr (b, w, ws) \<and>
        authenticate_webhook env b \<lparr>hk_method = hc_method q, hk_headers = hc_headers q, hk_body = concat (hc_chunks q),
          hk_content_type = hc_content_type q\<rparr> d = Inr () \<and>
        ex_workspace_id e = tb_workspace_id b \<and> ex_workflow_id e = tb_workflow_id b \<and> reference = reference_of e)"
proof -
  obtain limited bs where lim: "hook_limited env answers (hc_key q) d = (limited, d\<lparr>db_buckets := bs\<rparr>)"
    using hook_limited_buckets [of env answers "hc_key q" d] by (metis prod.collapse)
  show "answer = Refused status body \<Longrightarrow> \<exists>bs. rejection (d\<lparr>db_buckets := bs\<rparr>) d'"
  proof -
    assume "answer = Refused status body"
    then have "rejection (d\<lparr>db_buckets := bs\<rparr>) d'"
      using assms by (auto simp: receive_def lim rejection_def split: if_splits option.splits prod.splits sum.splits service_error.splits
          dest: refused_hook_writes [unfolded rejection_def])
    then show ?thesis by blast
  qed
  assume acc: "answer = Accepted reference"
  then obtain raw parsed e where raw: "read_body (cfg_webhook_max_body_bytes (env_settings env)) [] (hc_chunks q) = Some raw"
    and run: "handle_webhook env (hc_key q)
       \<lparr>hk_method = hc_method q, hk_headers = hc_headers q, hk_body = raw, hk_content_type = hc_content_type q\<rparr>
       parsed (hc_ip q) (hc_trace_id q) (hc_idempotency_key q) (d\<lparr>db_buckets := bs\<rparr>) = (Inr e, d')"
    and e: "reference = reference_of e"
    using assms by (auto simp: receive_def lim split: if_splits option.splits prod.splits sum.splits service_error.splits)
  have total: "raw = concat (hc_chunks q)" and bound: "int (length raw) \<le> max 0 (cfg_webhook_max_body_bytes (env_settings env))"
    using read_body_total [OF raw] by (simp, force)
  show "int (length (concat (hc_chunks q))) \<le> max 0 (cfg_webhook_max_body_bytes (env_settings env)) \<and>
      (\<exists>b w ws e. resolve_webhook (hc_key q) d = Inr (b, w, ws) \<and>
        authenticate_webhook env b \<lparr>hk_method = hc_method q, hk_headers = hc_headers q, hk_body = concat (hc_chunks q),
          hk_content_type = hc_content_type q\<rparr> d = Inr () \<and>
        ex_workspace_id e = tb_workspace_id b \<and> ex_workflow_id e = tb_workflow_id b \<and> reference = reference_of e)"
    using accepted_hook [OF run] e bound by (simp only: total gateway_buckets) blast
qed


definition demo_call :: "string \<Rightarrow> hook_call" where
  "demo_call body = \<lparr>hc_key = ''key'', hc_method = ''POST'', hc_headers = [], hc_chunks = [body], hc_content_type = None,
     hc_idempotency_key = None, hc_ip = None, hc_trace_id = ''t''\<rparr>"


end
