(* ===== verification/Console.thy ===== *)
theory Console
  imports Tenants
begin

text \<open>
  Tenants from a shell: \<open>app/provision.py\<close>. A command resolves the account it acts as, calls the service that the platform
  route calls, and commits; what it prints is not represented. Arguments arrive as \<open>argparse\<close> leaves them. It writes
  what a platform request of that account would write.
\<close>

section \<open>Commands\<close>

text \<open>How a command ends: an exit code, one of the messages of \<open>SystemExit\<close>, a usage error, or a traceback.\<close>

datatype console_exit = Exit int | NoSuchAccount string | NotAPlatformAdmin string | NoPlatformAdmin | Usage | Raised py_exc

text \<open>The user table is in the order of creation.\<close>

definition acting_user :: "string option \<Rightarrow> db \<Rightarrow> console_exit + user" where
  "acting_user email d =
     (if text_or_empty email \<noteq> [] then
        (case find (\<lambda>u. us_email u = normalized_email (text_or_empty email)) (db_users d) of
           None \<Rightarrow> Inl (NoSuchAccount (text_or_empty email))
         | Some u \<Rightarrow> if us_is_platform_admin u then Inr u else Inl (NotAPlatformAdmin (us_email u)))
      else
        (case find (\<lambda>u. us_is_platform_admin u \<and> us_is_active u) (db_users d) of
           None \<Rightarrow> Inl NoPlatformAdmin
         | Some u \<Rightarrow> Inr u))"

definition console_context :: "string \<Rightarrow> user \<Rightarrow> request_context" where
  "console_context trace_id u =
     \<lparr>ctx_user_id = Some (us_id u), ctx_workspace_id = replicate 32 (CHR ''0''), ctx_role = R_PLATFORM_ADMIN,
      ctx_trace_id = trace_id, ctx_email = Some (us_email u), ctx_full_name = Some (us_full_name u), ctx_is_platform_admin = True,
      ctx_ip_address = None, ctx_user_agent = None, ctx_timezone = ''Asia/Bangkok'', ctx_organization_id = None, ctx_org_role = None,
      ctx_permission_overrides = None\<rparr>"

definition acting_context :: "string \<Rightarrow> string option \<Rightarrow> db \<Rightarrow> console_exit + request_context" where
  "acting_context trace_id email d = map_sum id (console_context trace_id) (acting_user email d)"

text \<open>The commit, or the \<open>except\<close> of \<open>main\<close>; a session that is closed without a commit takes its writes back.\<close>

definition finish :: "db \<Rightarrow> (service_error + 'a) \<times> db \<Rightarrow> console_exit \<times> db" where
  "finish d r =
     (case r of
        (Inr _, d') \<Rightarrow> (Exit 0, d')
      | (Inl (App _), _) \<Rightarrow> (Exit 1, d)
      | (Inl (Crash x), _) \<Rightarrow> (Raised x, d))"

definition create_command :: "crypto \<Rightarrow> (string \<Rightarrow> string) \<Rightarrow> env \<Rightarrow> string \<Rightarrow> string option \<Rightarrow> tenant_args \<Rightarrow> string
    \<Rightarrow> string option \<Rightarrow> string option \<Rightarrow> db \<Rightarrow> console_exit \<times> db" where
  "create_command cx marks env trace_id acting a owner owner_name owner_password d =
     (case acting_context trace_id acting d of
        Inl x \<Rightarrow> (x, d)
      | Inr ctx \<Rightarrow> finish d (provision_workspace cx marks env ctx a owner owner_name owner_password d))"

definition list_command :: "string \<Rightarrow> string option \<Rightarrow> db \<Rightarrow> console_exit \<times> db" where
  "list_command trace_id acting d =
     (case acting_context trace_id acting d of
        Inl x \<Rightarrow> (x, d)
      | Inr ctx \<Rightarrow> (case list_workspaces ctx d of Inl e \<Rightarrow> finish d (Inl e :: service_error + unit, d) | Inr _ \<Rightarrow> (Exit 0, d)))"

definition addressed :: "string \<Rightarrow> string option \<Rightarrow> string \<Rightarrow> db \<Rightarrow> console_exit + request_context \<times> uuid" where
  "addressed trace_id acting raw d =
     (case acting_context trace_id acting d of
        Inl x \<Rightarrow> Inl x
      | Inr ctx \<Rightarrow> (case parse_uuid raw of None \<Rightarrow> Inl (Raised ValueErr) | Some wid \<Rightarrow> Inr (ctx, wid)))"

definition quota_command :: "env \<Rightarrow> string \<Rightarrow> string option \<Rightarrow> string \<Rightarrow> int option \<Rightarrow> db \<Rightarrow> console_exit \<times> db" where
  "quota_command env trace_id acting raw n d =
     (case addressed trace_id acting raw d of Inl x \<Rightarrow> (x, d) | Inr (ctx, wid) \<Rightarrow> finish d (set_quota env ctx wid n d))"

definition engine_command :: "env \<Rightarrow> string \<Rightarrow> string option \<Rightarrow> string \<Rightarrow> string \<Rightarrow> db \<Rightarrow> console_exit \<times> db" where
  "engine_command env trace_id acting raw name d =
     (case addressed trace_id acting raw d of Inl x \<Rightarrow> (x, d) | Inr (ctx, wid) \<Rightarrow> finish d (set_engine env ctx wid name d))"

text \<open>\<open>choices\<close> of the parser.\<close>

definition status_command :: "env \<Rightarrow> string \<Rightarrow> string option \<Rightarrow> string \<Rightarrow> string \<Rightarrow> db \<Rightarrow> console_exit \<times> db" where
  "status_command env trace_id acting raw status d =
     (if status \<notin> {''ACTIVE'', ''SUSPENDED'', ''ARCHIVED''} then (Usage, d)
      else
        (case addressed trace_id acting raw d of Inl x \<Rightarrow> (x, d) | Inr (ctx, wid) \<Rightarrow> finish d (set_status env ctx wid status d)))"

datatype console_call =
    CreateTenant tenant_args string "string option" "string option"
  | ListTenants
  | TenantQuota string "int option"
  | TenantEngine string string
  | TenantStatus string string

fun console :: "crypto \<Rightarrow> (string \<Rightarrow> string) \<Rightarrow> env \<Rightarrow> string \<Rightarrow> string option \<Rightarrow> console_call \<Rightarrow> db \<Rightarrow> console_exit \<times> db" where
  "console cx marks env trace_id acting (CreateTenant a owner name p) d = create_command cx marks env trace_id acting a owner name p d"
| "console cx marks env trace_id acting ListTenants d = list_command trace_id acting d"
| "console cx marks env trace_id acting (TenantQuota raw n) d = quota_command env trace_id acting raw n d"
| "console cx marks env trace_id acting (TenantEngine raw name) d = engine_command env trace_id acting raw name d"
| "console cx marks env trace_id acting (TenantStatus raw status) d = status_command env trace_id acting raw status d"

section \<open>Properties\<close>

lemma acting_userD: "acting_user email d = Inr u \<Longrightarrow> u \<in> set (db_users d) \<and> us_is_platform_admin u"
  by (auto simp: acting_user_def split: if_splits option.splits dest: find_SomeD)

lemma acting_contextD:
  "acting_context trace_id email d = Inr ctx \<Longrightarrow> \<exists>u. ctx = console_context trace_id u \<and> u \<in> set (db_users d) \<and> us_is_platform_admin u"
  using acting_userD by (cases "acting_user email d") (auto simp: acting_context_def)

lemma addressedD:
  "addressed trace_id email raw d = Inr (ctx, wid) \<Longrightarrow>
     \<exists>u. ctx = console_context trace_id u \<and> u \<in> set (db_users d) \<and> us_is_platform_admin u"
  using acting_contextD by (auto simp: addressed_def split: sum.splits option.splits)

lemma finish_committed: "snd (finish d r) = committed d r \<and> (fst (finish d r) = Exit 0 \<or> snd (finish d r) = d)"
  by (auto simp: finish_def committed_def split: prod.split sum.split service_error.split)

text \<open>The platform requests that a command stands for.\<close>

fun issued_by :: "request_context \<Rightarrow> tenant_call \<Rightarrow> bool" where
  "issued_by ctx (Provision _ _ _ c _ _ _ _) = (c = ctx)"
| "issued_by ctx (SetQuota _ c _ _) = (c = ctx)"
| "issued_by ctx (SetEngine _ c _ _) = (c = ctx)"
| "issued_by ctx (SetStatus _ c _ _) = (c = ctx)"
| "issued_by ctx _ = False"

lemma console_cases:
  "snd (console cx marks env trace_id acting c d) = d \<or>
   (\<exists>u r. u \<in> set (db_users d) \<and> us_is_platform_admin u \<and> issued_by (console_context trace_id u) r \<and>
      snd (console cx marks env trace_id acting c d) = tenant_request d r)"
proof (cases c)
  case (CreateTenant a owner name p)
  show ?thesis
  proof (cases "acting_context trace_id acting d")
    case (Inr ctx)
    then show ?thesis
      using acting_contextD [OF Inr] CreateTenant finish_committed [of d "provision_workspace cx marks env ctx a owner name p d"]
      by (auto simp: create_command_def intro!: exI [of _ "Provision cx marks env ctx a owner name p"])
  qed (simp add: CreateTenant create_command_def)
next
  case ListTenants
  then show ?thesis by (auto simp: list_command_def finish_def split: sum.split service_error.split)
next
  case (TenantQuota raw n)
  show ?thesis
  proof (cases "addressed trace_id acting raw d")
    case (Inr t)
    obtain ctx wid where t: "t = (ctx, wid)" by (cases t)
    then show ?thesis
      using addressedD [OF Inr [unfolded t]] TenantQuota Inr finish_committed [of d "set_quota env ctx wid n d"]
      by (auto simp: quota_command_def intro!: exI [of _ "SetQuota env ctx wid n"])
  qed (simp add: TenantQuota quota_command_def)
next
  case (TenantEngine raw name)
  show ?thesis
  proof (cases "addressed trace_id acting raw d")
    case (Inr t)
    obtain ctx wid where t: "t = (ctx, wid)" by (cases t)
    then show ?thesis
      using addressedD [OF Inr [unfolded t]] TenantEngine Inr finish_committed [of d "set_engine env ctx wid name d"]
      by (auto simp: engine_command_def intro!: exI [of _ "SetEngine env ctx wid name"])
  qed (simp add: TenantEngine engine_command_def)
next
  case (TenantStatus raw status)
  show ?thesis
  proof (cases "addressed trace_id acting raw d")
    case (Inr t)
    obtain ctx wid where t: "t = (ctx, wid)" by (cases t)
    then show ?thesis
      using addressedD [OF Inr [unfolded t]] TenantStatus Inr finish_committed [of d "set_status env ctx wid status d"]
      by (auto simp: status_command_def intro!: exI [of _ "SetStatus env ctx wid status"])
  qed (simp add: TenantStatus status_command_def)
qed

lemma console_frame: "fst (console cx marks env trace_id acting c d) = Exit 0 \<or> snd (console cx marks env trace_id acting c d) = d"
  using finish_committed [of d]
  by (cases c) (auto simp: create_command_def list_command_def quota_command_def engine_command_def status_command_def finish_def
      split: sum.split prod.split service_error.split)

text \<open>
  the shell is no way around the platform. Whatever a command is given, it ends with exit code 0 or leaves the database
  as it was; and what it leaves is the database as it was, or what one platform request leaves, sent under the
  identity of an account of the user table that is a platform administrator. So tenancy stays sound under
  commands as it does under requests: slugs unique and well-formed, every workspace with its organisation and an owner.
\<close>

lemma console_acts_as_an_administrator:
  "(fst (console cx marks env trace_id acting c d) = Exit 0 \<or> snd (console cx marks env trace_id acting c d) = d) \<and>
   (snd (console cx marks env trace_id acting c d) = d \<or>
    (\<exists>u r. u \<in> set (db_users d) \<and> us_is_platform_admin u \<and> issued_by (console_context trace_id u) r \<and>
       snd (console cx marks env trace_id acting c d) = tenant_request d r)) \<and>
   (tenancy d \<longrightarrow> primary_keys (snd (console cx marks env trace_id acting c d)) \<longrightarrow> tenancy (snd (console cx marks env trace_id acting c d)))"
proof -
  have "tenancy (tenant_request d r)" if "tenancy d" "primary_keys (tenant_request d r)" for r
    using tenant_step_tenancy [OF that(1), of r] that(2) by (simp add: tenant_step_def)
  then show ?thesis using console_cases [of cx marks env trace_id acting c d] console_frame [of cx marks env trace_id acting c d] by auto
qed

lemma check_tenant_users: "check_tenant f env orgs a (d\<lparr>db_users := us\<rparr>) = check_tenant f env orgs a d"
proof -
  have "resolve_engine (d\<lparr>db_users := us\<rparr>) n = resolve_engine d n" for n
    by (simp add: resolve_engine_def)
  then show ?thesis by (simp add: check_tenant_def Let_def cong: sum.case_cong if_cong)
qed

definition shell_db :: db where
  "shell_db = platform_db\<lparr>db_users := [demo_account\<lparr>us_is_platform_admin := True\<rparr>]\<rparr>"

lemma console_acts_as_an_administrator_example:
  "let env = demo_env\<lparr>env_id := \<lambda>n. [char_of n]\<rparr>; r = console demo_crypto id env ''t'' None (CreateTenant acme_args ''a@x'' None None) shell_db
   in fst r = Exit 0 \<and> tenancy (snd r) \<and> length (db_workspaces (snd r)) = 1"
proof -
  let ?env = "demo_env\<lparr>env_id := \<lambda>n. [char_of n]\<rparr>"
  let ?u = "demo_account\<lparr>us_is_platform_admin := True\<rparr>"
  let ?r = "console demo_crypto id ?env ''t'' None (CreateTenant acme_args ''a@x'' None None) shell_db"
  obtain engine where "check_tenant id ?env True acme_args platform_db = Inr (''Acme Corp'', ''acme-corp'', engine)"
    using acme_checked [of ?env True] by auto
  then have c: "check_tenant id ?env True acme_args shell_db = Inr (''Acme Corp'', ''acme-corp'', engine)"
    by (simp add: shell_db_def check_tenant_users)
  have e: "normalized_email ''a@x'' = ''a@x''" by code_simp
  have u: "user_by_email d ''a@x'' = Some ?u" if "db_users d = [?u]" for d
    using that by (simp add: user_by_email_def demo_account_def demo_user_def invited_user_def str_lower_def) code_simp
  have rows: "db_users shell_db = [?u]" "db_workspaces shell_db = []" "db_memberships shell_db = []"
    by (simp_all add: shell_db_def platform_db_def empty_db_def)
  have a: "acting_context ''t'' None shell_db = Inr (console_context ''t'' ?u)"
    by (simp add: acting_context_def acting_user_def text_or_empty_def rows demo_account_def demo_user_def invited_user_def)
  obtain w m d' where r: "?r = (Exit 0, d')" "db_workspaces d' = [w]" "db_memberships d' = [m]"
    using c rows
    by (auto simp: create_command_def a finish_def provision_workspace_def require_platform_admin_def console_context_def Let_def
        ensure_owner_def text_or_empty_def e u)
  have "tenancy shell_db" by (simp add: tenancy_def primary_keys_def sites_def rows seat_ids_ok_def)
  then have "tenancy (snd ?r)"
    using console_acts_as_an_administrator [of demo_crypto id ?env "''t''" None "CreateTenant acme_args ''a@x'' None None" shell_db] r
    by (simp add: primary_keys_def seat_ids_ok_def)
  then show ?thesis using r by (simp add: Let_def)
qed

text \<open>An account named with \<open>--as\<close> need not be active.\<close>

lemma inactive_administrator_acts:
  assumes "us_is_platform_admin u" "\<not> us_is_active u" "normalized_email (us_email u) = us_email u" "us_email u \<noteq> []"
  shows "acting_user (Some (us_email u)) (empty_db\<lparr>db_users := [u]\<rparr>) = Inr u" "acting_user None (empty_db\<lparr>db_users := [u]\<rparr>) = Inl NoPlatformAdmin"
  using assms by (simp_all add: acting_user_def text_or_empty_def)

end
