(* ===== verification/Deployment.thy ===== *)
theory Deployment
  imports Provisioning Monitoring
begin

text \<open>
  What surrounds the services: start-up checks and readiness (\<open>app/core/readiness.py\<close>, \<open>app/engine/registry.py\<close>), the
  exception handlers of the application (\<open>app/main.py\<close>), the metrics page (\<open>app/api/metrics.py\<close>) and the bootstrap
  of an empty installation (\<open>app/bootstrap.py\<close>). Ages are in microseconds; the page prints seconds with one decimal.
\<close>

section \<open>Configuration\<close>

record deployment =
  dp_app_env :: string
  dp_service_name :: string
  dp_product_version :: string
  dp_engine_type :: string
  dp_jwt_secret :: string
  dp_secret_encryption_key :: string
  dp_engine_internal_token :: string
  dp_allow_derived_encryption_key :: bool
  dp_session_cookie_secure :: bool
  dp_public_base_url :: string
  dp_egress_allow_private_networks :: bool
  dp_startup_require_engine :: bool

datatype config_problem =
    JWT_PLACEHOLDER | JWT_SHORT | KEY_UNSET | ENGINE_TOKEN_PLACEHOLDER
  | DERIVED_KEY_ALLOWED | COOKIE_INSECURE | BASE_URL_HTTP | EGRESS_PRIVATE

definition DEV_PLACEHOLDERS :: "string list" where
  "DEV_PLACEHOLDERS = [''dev-only-change-me'', ''dev-engine-token'', ''change-me'', '''']"

definition is_production :: "deployment \<Rightarrow> bool" where
  "is_production dp = (str_lower (dp_app_env dp) \<in> {''production'', ''prod''})"

definition production_problems :: "deployment \<Rightarrow> config_problem list" where
  "production_problems dp =
     (if dp_allow_derived_encryption_key dp then [DERIVED_KEY_ALLOWED] else []) @
     (if \<not> dp_session_cookie_secure dp then [COOKIE_INSECURE] else []) @
     (if starts_with (dp_public_base_url dp) ''http://'' then [BASE_URL_HTTP] else []) @
     (if dp_egress_allow_private_networks dp then [EGRESS_PRIVATE] else [])"

definition configuration_problems :: "deployment \<Rightarrow> config_problem list" where
  "configuration_problems dp =
     (if str_strip (dp_jwt_secret dp) \<in> set DEV_PLACEHOLDERS then [JWT_PLACEHOLDER] else []) @
     (if length (dp_jwt_secret dp) < 32 then [JWT_SHORT] else []) @
     (if str_strip (dp_secret_encryption_key dp) = [] then [KEY_UNSET] else []) @
     (if str_strip (dp_engine_internal_token dp) \<in> set DEV_PLACEHOLDERS then [ENGINE_TOKEN_PLACEHOLDER] else []) @
     (if is_production dp then production_problems dp else [])"

text \<open>A \<open>RuntimeError\<close> at start-up: for the configuration, the unknown engine type, or the engine that does not answer.\<close>

datatype startup_error = UnsafeConfiguration "config_problem list" | UnknownEngine string | EngineUnreachable "string option"

definition enforce_at_startup :: "deployment \<Rightarrow> startup_error + unit" where
  "enforce_at_startup dp =
     (if configuration_problems dp \<noteq> [] \<and> is_production dp then Inl (UnsafeConfiguration (configuration_problems dp)) else Inr ())"

definition get_adapter :: "deployment \<Rightarrow> startup_error + unit" where
  "get_adapter dp = (if str_upper (dp_engine_type dp) = ''N8N_CORE'' then Inr () else Inl (UnknownEngine (dp_engine_type dp)))"

definition probe_engine_at_startup :: "deployment \<Rightarrow> engine_health \<Rightarrow> startup_error + unit" where
  "probe_engine_at_startup dp h =
     (case get_adapter dp of
        Inl e \<Rightarrow> Inl e
      | Inr _ \<Rightarrow> if \<not> eh_reachable h \<and> dp_startup_require_engine dp then Inl (EngineUnreachable (eh_message h)) else Inr ())"

text \<open>\<open>lifespan\<close>, up to its \<open>yield\<close>.\<close>

definition lifespan :: "deployment \<Rightarrow> engine_health \<Rightarrow> startup_error + unit" where
  "lifespan dp h = (case enforce_at_startup dp of Inl e \<Rightarrow> Inl e | Inr _ \<Rightarrow> probe_engine_at_startup dp h)"

section \<open>Readiness\<close>

record readiness =
  rd_ready :: bool
  rd_database :: bool
  rd_problems :: "config_problem list"
  rd_engine_ok :: bool
  rd_engine_status :: string

definition probe :: "deployment \<Rightarrow> bool \<Rightarrow> engine_health \<Rightarrow> bool \<Rightarrow> readiness" where
  "probe dp database h deep =
     (let engine_ok = (eh_reachable h \<and> eh_status h = ''HEALTHY''); problems = configuration_problems dp
      in \<lparr>rd_ready = (database \<and> \<not> (problems \<noteq> [] \<and> is_production dp) \<and> \<not> (deep \<and> \<not> engine_ok)),
          rd_database = database, rd_problems = problems, rd_engine_ok = engine_ok, rd_engine_status = eh_status h\<rparr>)"

definition readyz :: "deployment \<Rightarrow> bool \<Rightarrow> engine_health \<Rightarrow> bool \<Rightarrow> int \<times> readiness" where
  "readyz dp database h deep = (let r = probe dp database h deep in (if rd_ready r then 200 else 503, r))"

section \<open>Exception handlers\<close>

text \<open>\<open>detail\<close> is the text of an exception that is no \<open>AppError\<close>; \<open>dup\<close> says that it names a duplicate key.\<close>

definition integrity_error :: "bool \<Rightarrow> bool \<Rightarrow> string \<Rightarrow> app_error" where
  "integrity_error production dup detail =
     AppError_init AppError (no_args\<lparr>arg_code := Some (if dup then ''RESOURCE_CONFLICT'' else ''INTEGRITY_ERROR''),
       arg_category := Some EC_CONFLICT, arg_status := Some 409,
       arg_technical := (if production then None else Some (take 1000 detail))\<rparr>)"

definition unhandled_error :: "bool \<Rightarrow> string \<Rightarrow> app_error" where
  "unhandled_error production detail =
     AppError_init AppError (no_args\<lparr>arg_code := Some ''INTERNAL_ERROR'', arg_category := Some EC_UNKNOWN, arg_status := Some 500,
       arg_technical := (if production then None else Some detail)\<rparr>)"

definition handled :: "bool \<Rightarrow> bool \<Rightarrow> string \<Rightarrow> service_error \<Rightarrow> app_error" where
  "handled production dup detail e =
     (case e of
        App x \<Rightarrow> x
      | Crash x \<Rightarrow> if x = IntegrityErr then integrity_error production dup detail else unhandled_error production detail)"

definition error_response :: "deployment \<Rightarrow> bool \<Rightarrow> string \<Rightarrow> string \<Rightarrow> service_error \<Rightarrow> int \<times> json" where
  "error_response dp dup detail trace_id e =
     (let x = handled (is_production dp) dup detail e in (ae_status x, to_envelope x trace_id))"

section \<open>Failed requests\<close>

text \<open>
  What can end a request other than a response: a body that does not validate (the location and the message of each
  finding, as the framework gives them), an exception of the framework with its status, or an exception of the services.
\<close>

datatype request_failure =
    InvalidBody "(string list \<times> json) list"
  | HttpFailure int
  | ServiceFailure service_error

text \<open>\<open>validation_handler\<close>: the first element of a location, which says where the value came from, is left out.\<close>

definition invalid_body_error :: "(string list \<times> json) list \<Rightarrow> app_error" where
  "invalid_body_error findings =
     AppError_init AppError (no_args\<lparr>arg_code := Some ''VALIDATION_FAILED'', arg_category := Some EC_VALIDATION, arg_status := Some 422,
       arg_details := Some [(''fields'', JArr (map (\<lambda>(loc, msg).
         JObj [(''field'', JStr (join ''.'' (drop 1 loc))), (''message'', msg)]) findings))]\<rparr>)"

definition http_error :: "int \<Rightarrow> app_error" where
  "http_error status =
     AppError_init AppError (no_args\<lparr>arg_code := Some
         (if status = 401 then ''UNAUTHENTICATED''
          else if status = 403 then ''PERMISSION_DENIED''
          else if status = 404 then ''RESOURCE_NOT_FOUND''
          else if status = 405 then ''METHOD_NOT_ALLOWED'' else ''HTTP_ERROR''),
       arg_category := Some EC_UNKNOWN, arg_status := Some status\<rparr>)"

definition failure_error :: "bool \<Rightarrow> bool \<Rightarrow> string \<Rightarrow> request_failure \<Rightarrow> app_error" where
  "failure_error production dup detail f =
     (case f of
        InvalidBody findings \<Rightarrow> invalid_body_error findings
      | HttpFailure status \<Rightarrow> http_error status
      | ServiceFailure e \<Rightarrow> handled production dup detail e)"

text \<open>\<open>correlation_middleware\<close>: the caller's \<open>X-Trace-Id\<close>, or a fresh identifier when there is none.\<close>

definition trace_of_request :: "string option \<Rightarrow> string \<Rightarrow> string" where
  "trace_of_request sent fresh = (case sent of Some t \<Rightarrow> if t \<noteq> [] then t else fresh | None \<Rightarrow> fresh)"

definition failure_response :: "deployment \<Rightarrow> bool \<Rightarrow> string \<Rightarrow> string option \<Rightarrow> string \<Rightarrow> request_failure \<Rightarrow> int \<times> json" where
  "failure_response dp dup detail sent fresh f =
     (let x = failure_error (is_production dp) dup detail f
      in (ae_status x, to_envelope x (trace_of_request sent fresh)))"

text \<open>In production the answer to a failed request does not depend on the text of the exception behind it.\<close>

lemma production_hides_exceptions:
  assumes "is_production dp"
  shows "failure_response dp dup detail sent fresh f = failure_response dp dup detail' sent fresh f"
  using assms by (cases f) (auto simp: failure_response_def failure_error_def handled_def integrity_error_def unhandled_error_def
      split: service_error.splits)

lemma failure_status:
  "fst (failure_response dp dup detail sent fresh f) =
     (case f of
        InvalidBody _ \<Rightarrow> 422
      | HttpFailure s \<Rightarrow> if s \<noteq> 0 then s else 400
      | ServiceFailure (App x) \<Rightarrow> ae_status x
      | ServiceFailure (Crash x) \<Rightarrow> if x = IntegrityErr then 409 else 500)"
  by (auto simp: failure_response_def failure_error_def handled_def integrity_error_def unhandled_error_def
      invalid_body_error_def http_error_def AppError_init_def no_args_def AppError_def split: request_failure.splits service_error.splits)

section \<open>Metrics\<close>

type_synonym sample = "string \<times> (string \<times> string) list \<times> int"

definition status_samples :: "db \<Rightarrow> sample list" where
  "status_samples d =
     (let seen = rev (remdups (rev (map ex_status (db_executions d)))) in
      map (\<lambda>s. (''appbi_executions_total'', [(''status'', execution_status_value s)],
          int (count_where (\<lambda>e. ex_status e = s) (db_executions d)))) seen @
      map (\<lambda>s. (''appbi_executions_total'', [(''status'', execution_status_value s)], 0))
        (filter (\<lambda>s. s \<notin> set seen) execution_status_members))"

definition hour :: int where "hour = seconds 3600"

definition last_hour :: "int \<Rightarrow> execution_status list \<Rightarrow> db \<Rightarrow> int" where
  "last_hour now sts d = int (count_where (\<lambda>e. ex_status e \<in> set sts \<and> ex_queued_at e \<ge> now - hour) (db_executions d))"

definition queue_lag :: "int \<Rightarrow> db \<Rightarrow> int" where
  "queue_lag now d =
     (case map ex_queued_at (filter (\<lambda>e. ex_status e = EX_QUEUED) (db_executions d)) of
        [] \<Rightarrow> 0 | t # ts \<Rightarrow> now - foldl min t ts)"

definition age_of :: "int \<Rightarrow> int option \<Rightarrow> int" where
  "age_of now t = (case t of None \<Rightarrow> -1 | Some x \<Rightarrow> now - x)"

definition metrics :: "deployment \<Rightarrow> int \<Rightarrow> db \<Rightarrow> sample list" where
  "metrics dp now d =
     (let engine = default_engine d in
      [(''appbi_workflow_build_info'', [(''version'', dp_product_version dp), (''environment'', dp_app_env dp),
          (''engine_type'', dp_engine_type dp)], 1),
       (''appbi_workflows_total'', [], int (count_where (\<lambda>w. wf_deleted_at w = None) (db_workflows d))),
       (''appbi_workflows_active'', [], int (count_where (\<lambda>w. wf_deleted_at w = None \<and> wf_status w = WF_ACTIVE) (db_workflows d))),
       (''appbi_executions_in_flight'', [], int (count_where (\<lambda>e. ex_status e \<in> ACTIVE_EXECUTION_STATUSES) (db_executions d)))] @
      status_samples d @
      [(''appbi_execution_queue_lag_seconds'', [], queue_lag now d),
       (''appbi_schedules_overdue'', [], int (length (detect_missed now d))),
       (''appbi_executions_interrupted_1h'', [], last_hour now [EX_ENGINE_INTERRUPTED] d),
       (''appbi_executions_failed_1h'', [], last_hour now [EX_FAILED, EX_TIMED_OUT, EX_FAILED_TO_START] d),
       (''appbi_executions_succeeded_1h'', [], last_hour now [EX_SUCCEEDED] d),
       (''appbi_engine_healthy'', [], case engine of None \<Rightarrow> 0 | Some i \<Rightarrow> if ei_status i = ES_HEALTHY then 1 else 0),
       (''appbi_engine_probe_age_seconds'', [], case engine of None \<Rightarrow> -1 | Some i \<Rightarrow> age_of now (ei_last_probe_at i)),
       (''appbi_worker_beat_age_seconds'', [], case engine of None \<Rightarrow> -1 | Some i \<Rightarrow> age_of now (ei_last_worker_beat_at i))])"

section \<open>Bootstrap\<close>

definition DEFAULT_WORKSPACE_NAME :: string where "DEFAULT_WORKSPACE_NAME = ''AppBI Automation''"

definition DEFAULT_WORKSPACE_SLUG :: string where "DEFAULT_WORKSPACE_SLUG = ''appbi-automation''"

definition default_instance :: "env \<Rightarrow> db \<Rightarrow> engine_instance" where
  "default_instance env d = \<lparr>ei_id = fresh_id env d, ei_name = ''default'', ei_engine_version = None,
     ei_adapter_contract_version = cfg_adapter_contract_version (env_settings env), ei_compiler_version = ''1'',
     ei_status = ES_OFFLINE, ei_is_default = True, ei_last_probe_at = None, ei_last_worker_beat_at = None\<rparr>"

text \<open>The names of the instances are unique.\<close>

definition seed_engine_instance :: "env \<Rightarrow> db \<Rightarrow> service_error + db" where
  "seed_engine_instance env d =
     (case default_engine d of
        Some i \<Rightarrow> Inr d
      | None \<Rightarrow>
          if list_ex (\<lambda>i. ei_name i = ''default'') (db_engines d) then Inl (Crash IntegrityErr)
          else Inr ((bump d)\<lparr>db_engines := db_engines d @ [default_instance env d]\<rparr>))"

definition default_organization :: "env \<Rightarrow> db \<Rightarrow> organization \<times> db" where
  "default_organization env d =
     (case find (\<lambda>g. og_slug g = DEFAULT_WORKSPACE_SLUG) (db_organizations d) of
        Some g \<Rightarrow> (g, d)
      | None \<Rightarrow>
          (let g = \<lparr>og_id = fresh_id env d, og_name = DEFAULT_WORKSPACE_NAME, og_slug = DEFAULT_WORKSPACE_SLUG, og_status = WS_ACTIVE\<rparr>
           in (g, (bump d)\<lparr>db_organizations := db_organizations d @ [g]\<rparr>)))"

definition default_workspace :: "env \<Rightarrow> string \<Rightarrow> db \<Rightarrow> workspace \<times> db" where
  "default_workspace env timezone d =
     (case find (\<lambda>w. ws_slug w = DEFAULT_WORKSPACE_SLUG) (db_workspaces d) of
        Some w \<Rightarrow> (w, d)
      | None \<Rightarrow>
          (let (g, d1) = default_organization env d;
               w = \<lparr>ws_id = fresh_id env d1, ws_organization_id = og_id g, ws_name = DEFAULT_WORKSPACE_NAME,
                  ws_slug = DEFAULT_WORKSPACE_SLUG, ws_status = WS_ACTIVE, ws_timezone = timezone,
                  ws_engine_instance_id = None, ws_max_concurrent_executions = None\<rparr>
           in (w, (bump d1)\<lparr>db_workspaces := db_workspaces d1 @ [w]\<rparr>)))"

definition first_admin :: "uuid \<Rightarrow> string \<Rightarrow> string \<Rightarrow> user" where
  "first_admin i email h = (invited_user i email ''Platform Admin'' h)\<lparr>us_is_platform_admin := True\<rparr>"

text \<open>\<open>email\<close> and \<open>password\<close> are the arguments or else the environment variables. A crash rolls everything back.\<close>

definition seed_admin :: "crypto \<Rightarrow> env \<Rightarrow> string \<Rightarrow> string \<Rightarrow> string \<Rightarrow> db \<Rightarrow> service_error + db" where
  "seed_admin cx env timezone email password d =
     (let (w, d1) = default_workspace env timezone d in
      if db_users d1 \<noteq> [] then Inr d1
      else
        (let wanted = normalized_email email;
             admin_email = (if wanted = [] then ''admin@appbi.vn'' else wanted);
             secret = (if password = [] then env_token env (db_drawn d1) else password)
         in case hash_password cx secret of
              Inl e \<Rightarrow> Inl e
            | Inr h \<Rightarrow>
                (let u = first_admin (fresh_id env d1) admin_email h;
                     d2 = (bump d1)\<lparr>db_users := db_users d1 @ [u]\<rparr>;
                     seat = \<lparr>me_id = fresh_id env d2, me_workspace_id = ws_id w, me_user_id = us_id u, me_role = R_OWNER, me_permissions = None\<rparr>;
                     d3 = (bump d2)\<lparr>db_memberships := db_memberships d2 @ [seat]\<rparr>;
                     org_seat = \<lparr>om_id = fresh_id env d3, om_organization_id = ws_organization_id w, om_user_id = us_id u, om_role = OR_OWNER\<rparr>
                 in Inr ((bump d3)\<lparr>db_org_memberships := db_org_memberships d3 @ [org_seat]\<rparr>))))"

text \<open>The part of \<open>main\<close> that writes these tables; each step is a transaction of its own.\<close>

definition bootstrap :: "crypto \<Rightarrow> env \<Rightarrow> string \<Rightarrow> string \<Rightarrow> string \<Rightarrow> db \<Rightarrow> (service_error + unit) \<times> db" where
  "bootstrap cx env timezone email password d =
     (case seed_engine_instance env d of
        Inl e \<Rightarrow> (Inl e, d)
      | Inr d1 \<Rightarrow>
          (case seed_admin cx env timezone email password d1 of
             Inl e \<Rightarrow> (Inl e, d1)
           | Inr d2 \<Rightarrow> (Inr (), d2)))"

section \<open>Starting up\<close>

lemma no_problems_iff:
  "configuration_problems dp = [] \<longleftrightarrow>
     str_strip (dp_jwt_secret dp) \<notin> set DEV_PLACEHOLDERS \<and> 32 \<le> length (dp_jwt_secret dp) \<and>
     str_strip (dp_secret_encryption_key dp) \<noteq> [] \<and> str_strip (dp_engine_internal_token dp) \<notin> set DEV_PLACEHOLDERS \<and>
     (is_production dp \<longrightarrow> \<not> dp_allow_derived_encryption_key dp \<and> dp_session_cookie_secure dp \<and>
        \<not> starts_with (dp_public_base_url dp) ''http://'' \<and> \<not> dp_egress_allow_private_networks dp)"
  by (auto simp: configuration_problems_def production_problems_def)


definition demo_deployment :: deployment where
  "demo_deployment = \<lparr>dp_app_env = ''Production'', dp_service_name = ''api'', dp_product_version = ''1.0.0'', dp_engine_type = ''n8n_core'',
     dp_jwt_secret = replicate 32 (CHR ''x''), dp_secret_encryption_key = ''k'', dp_engine_internal_token = ''t'',
     dp_allow_derived_encryption_key = False, dp_session_cookie_secure = True, dp_public_base_url = ''https://a'',
     dp_egress_allow_private_networks = False, dp_startup_require_engine = False\<rparr>"



section \<open>Bootstrap\<close>

lemma default_workspace_facts:
  assumes "default_workspace env tz d = (w, d1)"
  shows "find (\<lambda>x. ws_slug x = DEFAULT_WORKSPACE_SLUG) (db_workspaces d1) = Some w"
    and "db_users d1 = db_users d" "db_memberships d1 = db_memberships d" "db_org_memberships d1 = db_org_memberships d"
    and "db_engines d1 = db_engines d"
  using assms by (auto simp: default_workspace_def default_organization_def Let_def find_append bump_def split: option.splits prod.splits)

lemma seed_engine_facts: "seed_engine_instance env d = Inr d1 \<Longrightarrow> default_engine d1 \<noteq> None \<and> db_users d1 = db_users d \<and>
    db_workspaces d1 = db_workspaces d \<and> db_memberships d1 = db_memberships d \<and> db_org_memberships d1 = db_org_memberships d"
  by (auto simp: seed_engine_instance_def default_engine_def find_append default_instance_def bump_def split: option.splits if_splits)

lemma seed_admin_facts:
  assumes "seed_admin cx env tz email password d = Inr d'"
  shows "db_users d' \<noteq> []" "\<exists>w. find (\<lambda>x. ws_slug x = DEFAULT_WORKSPACE_SLUG) (db_workspaces d') = Some w"
    and "db_engines d' = db_engines d"
    and "db_users d = [] \<Longrightarrow> \<exists>u w. db_users d' = [u] \<and> us_is_platform_admin u \<and> us_password_change_required u \<and>
      find (\<lambda>x. ws_slug x = DEFAULT_WORKSPACE_SLUG) (db_workspaces d') = Some w \<and>
      (\<exists>m. db_memberships d' = db_memberships d @ [m] \<and> me_user_id m = us_id u \<and> me_workspace_id m = ws_id w \<and> me_role m = R_OWNER)"
proof -
  obtain w d1 where w: "default_workspace env tz d = (w, d1)" by fastforce
  note facts = default_workspace_facts [OF w]
  show "db_users d' \<noteq> []" "\<exists>w. find (\<lambda>x. ws_slug x = DEFAULT_WORKSPACE_SLUG) (db_workspaces d') = Some w" "db_engines d' = db_engines d"
    using assms facts by (auto simp: seed_admin_def w Let_def bump_def split: if_splits sum.splits)
  show "\<exists>u w. db_users d' = [u] \<and> us_is_platform_admin u \<and> us_password_change_required u \<and>
      find (\<lambda>x. ws_slug x = DEFAULT_WORKSPACE_SLUG) (db_workspaces d') = Some w \<and>
      (\<exists>m. db_memberships d' = db_memberships d @ [m] \<and> me_user_id m = us_id u \<and> me_workspace_id m = ws_id w \<and> me_role m = R_OWNER)"
    if "db_users d = []"
    using assms facts that
    by (auto simp: seed_admin_def w Let_def bump_def first_admin_def invited_user_def split: if_splits sum.splits)
qed

text \<open>
  Bootstrapping an empty installation gives it exactly one account, a platform administrator who owns the default
  workspace and must change the password; and bootstrapping again, with whatever arguments, changes nothing.
\<close>

lemma bootstrap_once:
  assumes "bootstrap cx env tz email password d = (Inr u, d')"
  shows "bootstrap cx' env' tz' email' password' d' = (Inr (), d')"
    and "db_users d = [] \<Longrightarrow> \<exists>a w m. db_users d' = [a] \<and> us_is_platform_admin a \<and> us_password_change_required a \<and>
      w \<in> set (db_workspaces d') \<and> ws_slug w = DEFAULT_WORKSPACE_SLUG \<and>
      m \<in> set (db_memberships d') \<and> me_user_id m = us_id a \<and> me_workspace_id m = ws_id w \<and> me_role m = R_OWNER"
proof -
  from assms obtain d1 where engine: "seed_engine_instance env d = Inr d1" and admin: "seed_admin cx env tz email password d1 = Inr d'"
    by (auto simp: bootstrap_def split: sum.splits)
  note e = seed_engine_facts [OF engine]
  note a = seed_admin_facts [OF admin]
  have "seed_engine_instance env' d' = Inr d'"
    using e a(3) by (auto simp: seed_engine_instance_def default_engine_def split: option.splits)
  moreover have "seed_admin cx' env' tz' email' password' d' = Inr d'"
    using a(1,2) by (auto simp: seed_admin_def default_workspace_def Let_def)
  ultimately show "bootstrap cx' env' tz' email' password' d' = (Inr (), d')"
    by (simp add: bootstrap_def)
  show "\<exists>a w m. db_users d' = [a] \<and> us_is_platform_admin a \<and> us_password_change_required a \<and>
      w \<in> set (db_workspaces d') \<and> ws_slug w = DEFAULT_WORKSPACE_SLUG \<and>
      m \<in> set (db_memberships d') \<and> me_user_id m = us_id a \<and> me_workspace_id m = ws_id w \<and> me_role m = R_OWNER"
    if "db_users d = []"
    using a(4) e that by (fastforce dest: find_SomeD)
qed

lemma bootstrap_once_example:
  "\<exists>d'. bootstrap demo_crypto demo_env ''UTC'' '''' ''secret'' empty_db = (Inr (), d') \<and> length (db_users d') = 1 \<and>
     bootstrap demo_crypto demo_env ''UTC'' ''other'' ''other'' d' = (Inr (), d')"
proof -
  obtain d1 where d1: "seed_engine_instance demo_env empty_db = Inr d1"
    by (auto simp: seed_engine_instance_def default_engine_def empty_db_def)
  moreover have "\<exists>d'. seed_admin demo_crypto demo_env ''UTC'' '''' ''secret'' d1 = Inr d'"
    by (auto simp: seed_admin_def hash_password_def demo_crypto_def Let_def split: prod.splits)
  ultimately obtain d' where run: "bootstrap demo_crypto demo_env ''UTC'' '''' ''secret'' empty_db = (Inr (), d')"
    by (auto simp: bootstrap_def)
  from bootstrap_once(2) [OF run] have "length (db_users d') = 1" by (auto simp: empty_db_def)
  with run bootstrap_once(1) [OF run] show ?thesis by blast
qed

text \<open>An installation that has accounts but not the default workspace gets one that nobody owns.\<close>

lemma bootstrap_may_leave_no_owner:
  assumes "db_users d \<noteq> []" "seed_admin cx env tz email password d = Inr d'"
  shows "db_memberships d' = db_memberships d"
proof -
  obtain w d1 where w: "default_workspace env tz d = (w, d1)" by fastforce
  then show ?thesis
    using assms default_workspace_facts [OF w] by (auto simp: seed_admin_def)
qed

section \<open>Metrics\<close>

text \<open>A run that was queued more than an hour ago and is interrupted now is not among the runs that
  \<open>appbi_executions_interrupted_1h\<close> counts: the query looks at the time of queueing.\<close>

lemma late_interruption_uncounted:
  "ex_queued_at e < now - hour \<Longrightarrow> last_hour now sts (d\<lparr>db_executions := db_executions d @ [e]\<rparr>) = last_hour now sts d"
  by (simp add: last_hour_def)

text \<open>Every status has a sample, and a status without runs reads zero.\<close>

lemma every_status_sampled:
  "(''appbi_executions_total'', [(''status'', execution_status_value s)],
     int (count_where (\<lambda>e. ex_status e = s) (db_executions d))) \<in> set (status_samples d)"
proof (cases "s \<in> set (map ex_status (db_executions d))")
  case True
  then show ?thesis by (auto simp: status_samples_def Let_def)
next
  case False
  then have "count_where (\<lambda>e. ex_status e = s) (db_executions d) = 0"
    by (auto simp: count_where_0_iff)
  moreover have "s \<in> set execution_status_members"
    by (cases s) (simp_all add: execution_status_members_def)
  ultimately show ?thesis using False by (auto simp: status_samples_def Let_def)
qed

end
