(* ===== verification/Doctor.thy ===== *)
theory Doctor
  imports Deployment
begin

text \<open>
  How a deployment gets its configuration, and the check that is run on it before: \<open>app/core/config.py\<close> promotes secret
  files into the environment and builds the settings; \<open>scripts/doctor.py\<close> reads an environment file and lists what
  is not fit for production. A file system maps a path to the text of the file, \<^const>\<open>None\<close> where it cannot be
  read. The properties relate the two: what the check passes, the application starts with.
\<close>

section \<open>The settings of the application\<close>

type_synonym environ = "string \<Rightarrow> string option"

definition env_get :: "environ \<Rightarrow> string \<Rightarrow> string" where
  "env_get env key = text_or_empty (env key)"

definition FILE_BACKED :: "string list" where
  "FILE_BACKED = [''DATABASE_URL'', ''JWT_SECRET'', ''SECRET_ENCRYPTION_KEY'', ''ENGINE_INTERNAL_TOKEN'']"

datatype secret_file_error = SecretUnreadable string string | SecretEmpty string string

fun load_secrets :: "(string \<Rightarrow> string option) \<Rightarrow> string list \<Rightarrow> environ \<Rightarrow> secret_file_error + environ" where
  "load_secrets files [] env = Inr env"
| "load_secrets files (name # names) env =
     (let path = env_get env (name @ ''_FILE'') in
      if path = [] then load_secrets files names env
      else
        (case files path of
           None \<Rightarrow> Inl (SecretUnreadable name path)
         | Some content \<Rightarrow>
             (let v = str_strip content in
              if v = [] then Inl (SecretEmpty name path) else load_secrets files names (env(name \<mapsto> v)))))"

definition load_file_backed_secrets :: "(string \<Rightarrow> string option) \<Rightarrow> environ \<Rightarrow> secret_file_error + environ" where
  "load_file_backed_secrets files env = load_secrets files FILE_BACKED env"

text \<open>\<open>BaseSettings\<close> reads a field from the variable of its name and otherwise takes the default. \<open>bool_of\<close> is pydantic's reading of
  a truth value, \<^const>\<open>None\<close> where it refuses the text.\<close>

definition text_field :: "environ \<Rightarrow> string \<Rightarrow> string \<Rightarrow> string" where
  "text_field env name fallback = (case env name of None \<Rightarrow> fallback | Some v \<Rightarrow> v)"

definition bool_field :: "(string \<Rightarrow> bool option) \<Rightarrow> environ \<Rightarrow> string \<Rightarrow> bool \<Rightarrow> bool option" where
  "bool_field bool_of env name fallback = (case env name of None \<Rightarrow> Some fallback | Some v \<Rightarrow> bool_of v)"

definition settings_of :: "(string \<Rightarrow> bool option) \<Rightarrow> environ \<Rightarrow> deployment option" where
  "settings_of bool_of env =
     (case (bool_field bool_of env ''ALLOW_DERIVED_ENCRYPTION_KEY'' True, bool_field bool_of env ''SESSION_COOKIE_SECURE'' False,
            bool_field bool_of env ''EGRESS_ALLOW_PRIVATE_NETWORKS'' False, bool_field bool_of env ''STARTUP_REQUIRE_ENGINE'' False) of
        (Some derived, Some secure, Some egress, Some require_engine) \<Rightarrow>
          Some \<lparr>dp_app_env = text_field env ''APP_ENV'' ''development'',
            dp_service_name = text_field env ''SERVICE_NAME'' ''appbi-workflow-api'',
            dp_product_version = text_field env ''PRODUCT_VERSION'' ''1.0.0'',
            dp_engine_type = text_field env ''ENGINE_TYPE'' ''N8N_CORE'',
            dp_jwt_secret = text_field env ''JWT_SECRET'' ''dev-only-change-me'',
            dp_secret_encryption_key = text_field env ''SECRET_ENCRYPTION_KEY'' [],
            dp_engine_internal_token = text_field env ''ENGINE_INTERNAL_TOKEN'' ''dev-engine-token'',
            dp_allow_derived_encryption_key = derived, dp_session_cookie_secure = secure,
            dp_public_base_url = text_field env ''PUBLIC_BASE_URL'' ''http://localhost:8000'',
            dp_egress_allow_private_networks = egress, dp_startup_require_engine = require_engine\<rparr>
      | _ \<Rightarrow> None)"

section \<open>Environment files\<close>

definition line_break :: "char \<Rightarrow> bool" where
  "line_break c = (c \<in> {CHR 0x0A, CHR 0x0B, CHR 0x0C, CHR 0x0D, CHR 0x1C, CHR 0x1D, CHR 0x1E})"

text \<open>\<open>splitlines\<close>, up to empty lines, which the reader skips.\<close>

fun split_lines :: "string \<Rightarrow> string list" where
  "split_lines [] = [[]]"
| "split_lines (c # cs) =
     (if line_break c then [] # split_lines cs
      else (case split_lines cs of [] \<Rightarrow> [[c]] | l # ls \<Rightarrow> (c # l) # ls))"

text \<open>\<open>re.split(r"\s+#", value, maxsplit=1)[0]\<close>\<close>

fun cut_comment :: "string \<Rightarrow> string" where
  "cut_comment [] = []"
| "cut_comment (c # cs) =
     (if py_isspace c \<and> starts_with (dropWhile py_isspace cs) ''#'' then [] else c # cut_comment cs)"

definition unquoted :: "string \<Rightarrow> string" where
  "unquoted v =
     (if v \<noteq> [] \<and> hd v \<in> {CHR 0x22, CHR 0x27} \<and> hd v = last v \<and> length v > 1 then butlast (tl v)
      else str_strip (cut_comment v))"

definition parse_env_line :: "string \<Rightarrow> (string \<times> string) option" where
  "parse_env_line raw =
     (let line = str_strip raw in
      if line = [] \<or> starts_with line ''#'' then None
      else
        (let line = (if starts_with line ''export '' then dropWhile py_isspace (drop 7 line) else line) in
         case split_once (CHR ''='') line of
           None \<Rightarrow> None
         | Some (key, v) \<Rightarrow> Some (str_strip key, unquoted (str_strip v))))"

definition parse_env_file :: "string \<Rightarrow> environ" where
  "parse_env_file text =
     foldl (\<lambda>env raw. case parse_env_line raw of None \<Rightarrow> env | Some (k, v) \<Rightarrow> env(k \<mapsto> v)) (\<lambda>_. None) (split_lines text)"

section \<open>Findings\<close>

datatype severity = SEVERITY_ERROR | SEVERITY_WARNING

text \<open>One constructor for each message, with what the message quotes.\<close>

datatype doctor_message =
    NotProduction string | Placeholder | FromDevelopmentTemplate | TooShort nat nat
  | ContainerHost string | NoTls | SslMode | DevelopmentPassword
  | NotEncrypted | NotUrl string | PointsAtLocalhost | EngineLooksPublic string
  | CookieOverHttp | DerivedKeys | PrivateNetworks | AnyPublicHost | EngineOutageStopsApi
  | MovingTag string | TestPassword | BootstrapPasswordSet | BootstrapEmailUnset | NobodyOnCall | LocalBackups
  | BothSources | CannotRead string | EmptyFile string

record finding =
  fd_severity :: severity
  fd_key :: string
  fd_message :: doctor_message

definition error :: "string \<Rightarrow> doctor_message \<Rightarrow> finding" where
  "error key msg = \<lparr>fd_severity = SEVERITY_ERROR, fd_key = key, fd_message = msg\<rparr>"

definition warn :: "string \<Rightarrow> doctor_message \<Rightarrow> finding" where
  "warn key msg = \<lparr>fd_severity = SEVERITY_WARNING, fd_key = key, fd_message = msg\<rparr>"

definition report_errors :: "finding list \<Rightarrow> finding list" where
  "report_errors fs = filter (\<lambda>f. fd_severity f = SEVERITY_ERROR) fs"

definition report_warnings :: "finding list \<Rightarrow> finding list" where
  "report_warnings fs = filter (\<lambda>f. fd_severity f = SEVERITY_WARNING) fs"

definition report_ok :: "finding list \<Rightarrow> bool" where
  "report_ok fs = (report_errors fs = [])"

section \<open>Values\<close>

definition PLACEHOLDER_EXACT :: "string list" where
  "PLACEHOLDER_EXACT = [[], ''fill_me'', ''fillme'', ''changeme'', ''change-me'', ''change_me'', ''todo'', ''tbd'', ''xxx'', ''none'',
     ''null'', ''replace-me'', ''your-value-here'']"

definition PLACEHOLDER_SUBSTRINGS :: "string list" where
  "PLACEHOLDER_SUBSTRINGS = [''fill_me'', ''fill-me'', ''changeme'', ''change-me'', ''your-'', ''example-secret'', ''replace_me'']"

definition DEV_SECRETS :: "string list" where
  "DEV_SECRETS = [''dev-only-change-me'', ''dev-only-change-me-please-32-chars-min'', ''dev-engine-token'', ''smoketestpass123!'', ''appbi'']"

definition is_placeholder :: "string \<Rightarrow> bool" where
  "is_placeholder v =
     (let lowered = str_lower (str_strip v)
      in lowered \<in> set PLACEHOLDER_EXACT \<or> list_ex (\<lambda>marker. str_contains marker lowered) PLACEHOLDER_SUBSTRINGS)"

definition reads_true :: "string \<Rightarrow> bool" where
  "reads_true v = (str_lower (str_strip v) \<in> {''1'', ''true'', ''yes'', ''on''})"

definition ends_with :: "string \<Rightarrow> string \<Rightarrow> bool" where
  "ends_with s p = starts_with (rev s) (rev p)"

subsection \<open>\<open>urllib.parse\<close>\<close>

definition scheme_char :: "char \<Rightarrow> bool" where
  "scheme_char c = (lower_char c \<in> set ''abcdefghijklmnopqrstuvwxyz0123456789+-.'')"

definition after_scheme :: "string \<Rightarrow> string" where
  "after_scheme url =
     (case split_once (CHR '':'') url of
        None \<Rightarrow> url
      | Some (s, rest) \<Rightarrow>
          if s \<noteq> [] \<and> lower_char (hd s) \<in> set ''abcdefghijklmnopqrstuvwxyz'' \<and> list_all scheme_char s then rest else url)"

definition netloc_of :: "string \<Rightarrow> string" where
  "netloc_of url =
     (let u = after_scheme (filter (\<lambda>c. c \<notin> {CHR 0x09, CHR 0x0A, CHR 0x0D}) (dropWhile (\<lambda>c. of_char c \<le> (32 :: nat)) url))
      in if starts_with u ''//'' then takeWhile (\<lambda>c. c \<notin> set ''/?#'') (drop 2 u) else [])"

text \<open>\<open>literal_ok\<close> says whether the text between brackets is an IP literal; other brackets are refused.\<close>

definition urlparse :: "(string \<Rightarrow> bool) \<Rightarrow> string \<Rightarrow> py_exc + string" where
  "urlparse literal_ok url =
     (let n = netloc_of url in
      if (CHR ''['' \<in> set n) \<noteq> (CHR '']'' \<in> set n) \<or> CHR ''['' \<in> set n \<and> \<not> literal_ok n then Inl ValueErr else Inr n)"

definition userinfo_of :: "string \<Rightarrow> string" where
  "userinfo_of n = (if CHR ''@'' \<in> set n then rev (tl (dropWhile (\<lambda>c. c \<noteq> CHR ''@'') (rev n))) else [])"

definition hostinfo_of :: "string \<Rightarrow> string" where
  "hostinfo_of n = rev (takeWhile (\<lambda>c. c \<noteq> CHR ''@'') (rev n))"

text \<open>\<open>(parsed.hostname or "").lower()\<close> and \<open>parsed.password or ""\<close>\<close>

definition hostname_of :: "string \<Rightarrow> string" where
  "hostname_of n =
     (let h = hostinfo_of n in
      str_lower (case split_once (CHR ''['') h of
        Some (_, bracketed) \<Rightarrow> takeWhile (\<lambda>c. c \<noteq> CHR '']'') bracketed
      | None \<Rightarrow> takeWhile (\<lambda>c. c \<noteq> CHR '':'') h))"

definition password_of :: "string \<Rightarrow> string" where
  "password_of n = (case split_once (CHR '':'') (userinfo_of n) of None \<Rightarrow> [] | Some (_, p) \<Rightarrow> p)"

section \<open>The checks\<close>

definition check_environment_flag :: "environ \<Rightarrow> finding list" where
  "check_environment_flag env =
     (let v = str_lower (str_strip (env_get env ''APP_ENV'')) in
      if v \<notin> {''production'', ''prod''} then [error ''APP_ENV'' (NotProduction v)] else [])"

definition REQUIRED_SECRETS :: "(string \<times> nat) list" where
  "REQUIRED_SECRETS = [(''JWT_SECRET'', 48), (''SECRET_ENCRYPTION_KEY'', 43), (''ENGINE_INTERNAL_TOKEN'', 32)]"

definition check_secret :: "environ \<Rightarrow> string \<times> nat \<Rightarrow> finding list" where
  "check_secret env = (\<lambda>(key, min_length).
     (let v = env_get env key in
      if is_placeholder v then [error key Placeholder]
      else if str_lower (str_strip v) \<in> set DEV_SECRETS then [error key FromDevelopmentTemplate]
      else if length v < min_length then [error key (TooShort (length v) min_length)]
      else []))"

definition check_secrets :: "environ \<Rightarrow> finding list" where
  "check_secrets env = concat (map (check_secret env) REQUIRED_SECRETS)"

definition check_database :: "(string \<Rightarrow> bool) \<Rightarrow> environ \<Rightarrow> py_exc + finding list" where
  "check_database literal_ok env =
     (let url = env_get env ''DATABASE_URL''; key = ''DATABASE_URL'' in
      if is_placeholder url then Inr [error key Placeholder]
      else
        (case urlparse literal_ok url of
           Inl e \<Rightarrow> Inl e
         | Inr n \<Rightarrow>
             Inr ((if hostname_of n \<in> {''localhost'', ''127.0.0.1'', ''::1'', ''postgres'', ''db'', ''database''}
                   then [error key (ContainerHost (hostname_of n))] else []) @
                  (if \<not> str_contains ''ssl'' (str_lower url) then [error key NoTls]
                   else if str_contains ''sslmode'' (str_lower url) then [error key SslMode] else []) @
                  (if password_of n \<noteq> [] \<and> str_lower (password_of n) \<in> set DEV_SECRETS
                   then [error key DevelopmentPassword] else []))))"

definition check_public_url :: "environ \<Rightarrow> string \<Rightarrow> finding list" where
  "check_public_url env key =
     (let v = env_get env key in
      if is_placeholder v then [error key Placeholder]
      else
        (if starts_with v ''http://'' then [error key NotEncrypted]
         else if \<not> starts_with v ''https://'' then [error key (NotUrl v)] else []) @
        (if str_contains ''localhost'' v \<or> str_contains ''127.0.0.1'' v then [error key PointsAtLocalhost] else []))"

definition check_public_urls :: "environ \<Rightarrow> finding list" where
  "check_public_urls env = concat (map (check_public_url env) [''PUBLIC_BASE_URL'', ''NEXT_PUBLIC_API_BASE''])"

definition public_looking :: "string \<Rightarrow> bool" where
  "public_looking host =
     (CHR ''.'' \<in> set host \<and> \<not> list_ex (ends_with host) [''.local'', ''.internal'', ''.svc'', ''.cluster.local''] \<and>
      \<not> list_ex (starts_with host) [''10.'', ''127.'', ''192.168.''])"

definition check_internal_urls :: "(string \<Rightarrow> bool) \<Rightarrow> environ \<Rightarrow> py_exc + finding list" where
  "check_internal_urls literal_ok env =
     (let v = env_get env ''ENGINE_BASE_URL''; key = ''ENGINE_BASE_URL'' in
      if is_placeholder v then Inr [error key Placeholder]
      else
        (case urlparse literal_ok v of
           Inl e \<Rightarrow> Inl e
         | Inr n \<Rightarrow> Inr (if public_looking (hostname_of n) then [warn key (EngineLooksPublic (hostname_of n))] else [])))"

definition check_hardening :: "environ \<Rightarrow> finding list" where
  "check_hardening env =
     (if \<not> reads_true (env_get env ''SESSION_COOKIE_SECURE'') then [error ''SESSION_COOKIE_SECURE'' CookieOverHttp] else []) @
     (if reads_true (env_get env ''ALLOW_DERIVED_ENCRYPTION_KEY'') then [error ''ALLOW_DERIVED_ENCRYPTION_KEY'' DerivedKeys] else []) @
     (if reads_true (env_get env ''EGRESS_ALLOW_PRIVATE_NETWORKS'')
      then [error ''EGRESS_ALLOW_PRIVATE_NETWORKS'' PrivateNetworks] else []) @
     (if str_strip (env_get env ''EGRESS_ALLOWED_HOSTS'') = [] then [warn ''EGRESS_ALLOWED_HOSTS'' AnyPublicHost] else []) @
     (if reads_true (env_get env ''STARTUP_REQUIRE_ENGINE'') then [warn ''STARTUP_REQUIRE_ENGINE'' EngineOutageStopsApi] else [])"

definition check_images :: "environ \<Rightarrow> finding list" where
  "check_images env =
     (let tag = env_get env ''IMAGE_TAG'' in
      if is_placeholder tag then [error ''IMAGE_TAG'' Placeholder]
      else
        (if tag \<in> {''latest'', ''main'', ''master'', ''edge'', ''stable''} then [error ''IMAGE_TAG'' (MovingTag tag)] else []) @
        (if is_placeholder (env_get env ''IMAGE_REGISTRY'') then [error ''IMAGE_REGISTRY'' Placeholder] else []))"

definition check_bootstrap :: "environ \<Rightarrow> finding list" where
  "check_bootstrap env =
     (let raw = env_get env ''BOOTSTRAP_ADMIN_PASSWORD''; password = (if is_placeholder raw then [] else raw) in
      (if password \<noteq> [] \<and> str_lower (str_strip password) \<in> set DEV_SECRETS then [error ''BOOTSTRAP_ADMIN_PASSWORD'' TestPassword]
       else if password \<noteq> [] then [warn ''BOOTSTRAP_ADMIN_PASSWORD'' BootstrapPasswordSet] else []) @
      (if is_placeholder (env_get env ''BOOTSTRAP_ADMIN_EMAIL'') \<and> password \<noteq> []
       then [error ''BOOTSTRAP_ADMIN_EMAIL'' BootstrapEmailUnset] else []))"

definition check_ops :: "environ \<Rightarrow> finding list" where
  "check_ops env =
     (if is_placeholder (env_get env ''ONCALL_CONTACT'') then [error ''ONCALL_CONTACT'' NobodyOnCall] else []) @
     (if is_placeholder (env_get env ''BACKUP_S3_BUCKET'') then [warn ''BACKUP_S3_BUCKET'' LocalBackups] else [])"

section \<open>Secret files and the whole run\<close>

text \<open>One name of \<open>resolve_file_backed\<close>: the environment it leaves and the problem it names.\<close>

definition resolve_one :: "(string \<Rightarrow> string option) \<Rightarrow> environ \<Rightarrow> string \<Rightarrow> (string option) \<times> finding list" where
  "resolve_one files env name =
     (let path = str_strip (env_get env (name @ ''_FILE'')) in
      if path = [] then (None, [])
      else if str_strip (env_get env name) \<noteq> [] then (None, [error name BothSources])
      else
        (case files path of
           None \<Rightarrow> (None, [error (name @ ''_FILE'') (CannotRead path)])
         | Some content \<Rightarrow>
             if str_strip content = [] then (None, [error (name @ ''_FILE'') (EmptyFile path)])
             else (Some (str_strip content), [])))"

definition resolve_file_backed :: "(string \<Rightarrow> string option) \<Rightarrow> environ \<Rightarrow> environ \<times> finding list" where
  "resolve_file_backed files env =
     foldl (\<lambda>(resolved, problems) name.
         (case resolve_one files env name of
            (None, ps) \<Rightarrow> (resolved, problems @ ps)
          | (Some v, ps) \<Rightarrow> (resolved(name \<mapsto> v), problems @ ps))) (env, []) FILE_BACKED"

definition doctor_run :: "(string \<Rightarrow> bool) \<Rightarrow> (string \<Rightarrow> string option) \<Rightarrow> environ \<Rightarrow> py_exc + finding list" where
  "doctor_run literal_ok files env =
     (let (resolved, problems) = resolve_file_backed files env in
      case check_database literal_ok resolved of
        Inl e \<Rightarrow> Inl e
      | Inr database \<Rightarrow>
          (case check_internal_urls literal_ok resolved of
             Inl e \<Rightarrow> Inl e
           | Inr engine \<Rightarrow>
               Inr (problems @ check_environment_flag resolved @ check_secrets resolved @ database @ check_public_urls resolved @
                 engine @ check_hardening resolved @ check_images resolved @ check_bootstrap resolved @ check_ops resolved)))"

text \<open>The exit code; \<open>process\<close> is the environment of the process, taken when no file is named.\<close>

definition doctor_main :: "(string \<Rightarrow> bool) \<Rightarrow> (string \<Rightarrow> string option) \<Rightarrow> environ \<Rightarrow> string option \<Rightarrow> bool \<Rightarrow> py_exc + int" where
  "doctor_main literal_ok files process env_file warnings_as_errors =
     (let exit_code = (\<lambda>r. case r of
          Inl e \<Rightarrow> Inl e
        | Inr fs \<Rightarrow> Inr (if \<not> report_ok fs then 1 else if warnings_as_errors \<and> report_warnings fs \<noteq> [] then 1 else 0))
      in if text_or_empty env_file = [] then exit_code (doctor_run literal_ok files process)
         else
           (case files (text_or_empty env_file) of
              None \<Rightarrow> Inr 2
            | Some text \<Rightarrow> exit_code (doctor_run literal_ok files (parse_env_file text))))"

section \<open>Reading back an environment file\<close>

text \<open>A file of quoted values, one per line.\<close>

definition env_line :: "string \<times> string \<Rightarrow> string" where
  "env_line = (\<lambda>(k, v). k @ ''='' @ [CHR 0x22] @ v @ [CHR 0x22])"

definition clean_entry :: "string \<times> string \<Rightarrow> bool" where
  "clean_entry = (\<lambda>(k, v). k \<noteq> [] \<and> hd k \<noteq> CHR ''#'' \<and> list_all (\<lambda>c. \<not> py_isspace c \<and> c \<noteq> CHR ''='') k \<and> list_all (\<lambda>c. \<not> line_break c) v)"

lemma split_lines_line: "list_all (\<lambda>c. \<not> line_break c) l \<Longrightarrow> split_lines (l @ CHR 0x0A # rest) = l # split_lines rest"
  by (induction l) (simp_all add: line_break_def)

lemma dropWhile_kept: "xs \<noteq> [] \<Longrightarrow> \<not> P (hd xs) \<Longrightarrow> dropWhile P xs = xs"
  by (cases xs) auto

lemma strip_tight: "s \<noteq> [] \<Longrightarrow> \<not> py_isspace (hd s) \<Longrightarrow> \<not> py_isspace (last s) \<Longrightarrow> str_strip s = s"
  by (simp add: str_strip_def dropWhile_kept hd_rev)

lemma split_once_key: "CHR ''='' \<notin> set k \<Longrightarrow> split_once (CHR ''='') (k @ CHR ''='' # v) = Some (k, v)"
  by (induction k) auto

lemma line_break_facts: "\<not> py_isspace c \<Longrightarrow> \<not> line_break c" "\<not> line_break (CHR ''='')" "\<not> line_break (CHR 0x22)"
proof -
  have "\<forall>c \<in> {CHR 0x0A, CHR 0x0B, CHR 0x0C, CHR 0x0D, CHR 0x1C, CHR 0x1D, CHR 0x1E}. py_isspace c" by code_simp
  then show "\<not> py_isspace c \<Longrightarrow> \<not> line_break c" unfolding line_break_def by blast
  show "\<not> line_break (CHR ''='')" "\<not> line_break (CHR 0x22)" by code_simp+
qed

lemma no_export:
  assumes k: "list_all (\<lambda>c. \<not> py_isspace c \<and> c \<noteq> CHR ''='') k"
  shows "\<not> starts_with (k @ CHR ''='' # v) ''export ''"
proof
  assume "starts_with (k @ CHR ''='' # v) ''export ''"
  then have t: "take 7 (k @ CHR ''='' # v) = ''export ''" by (simp add: starts_with_def eval_nat_numeral)
  have at: "(k @ CHR ''='' # v) ! i = ''export '' ! i" if "i < 7" for i
    unfolding t [symmetric] using that by (rule nth_take [symmetric])
  show False
  proof (cases "length k < 7")
    case True
    then have "CHR ''='' = ''export '' ! length k" using at [of "length k"] by simp
    moreover have "''export '' ! length k \<in> set ''export ''" using True by (intro nth_mem) simp
    ultimately show False by auto
  next
    case False
    then have "k ! 6 = CHR '' ''" using at [of 6] by (simp add: nth_append)
    moreover have "k ! 6 \<in> set k" using False by (intro nth_mem) simp
    moreover have "py_isspace (CHR '' '')" by code_simp
    ultimately show False using k by (metis list_all_iff)
  qed
qed

lemma parse_env_line_clean:
  assumes "clean_entry e"
  shows "parse_env_line (env_line e) = Some e"
proof -
  obtain k v where e: "e = (k, v)" by (cases e)
  have k: "k \<noteq> []" "\<not> py_isspace (hd k)" "CHR ''='' \<notin> set k" "\<not> py_isspace (last k)" "hd k \<noteq> CHR ''#''"
    using assms by (auto simp: e clean_entry_def list_all_iff)
  have "str_strip (env_line e) = env_line e"
    using k by (intro strip_tight) (simp_all add: e env_line_def py_isspace_def)
  moreover have "\<not> starts_with (env_line e) ''#''" "env_line e \<noteq> []"
    using k by (cases k; simp add: e env_line_def starts_with_def)+
  moreover have "\<not> starts_with (env_line e) ''export ''"
    using assms no_export [of k "CHR 0x22 # v @ [CHR 0x22]"] by (simp add: e env_line_def clean_entry_def)
  ultimately have line: "str_strip (env_line e) = env_line e" "\<not> starts_with (env_line e) ''#''" "env_line e \<noteq> []"
    "\<not> starts_with (env_line e) ''export ''" by simp_all
  have "str_strip k = k" "str_strip (CHR 0x22 # v @ [CHR 0x22]) = CHR 0x22 # v @ [CHR 0x22]"
    using k by (auto intro!: strip_tight simp: py_isspace_def)
  then show ?thesis
    using line split_once_key [OF k(3), of "CHR 0x22 # v @ [CHR 0x22]"]
    by (simp add: parse_env_line_def Let_def) (simp add: e env_line_def unquoted_def)
qed

lemma parse_env_file_roundtrip:
  "list_all clean_entry kvs \<Longrightarrow> parse_env_file (concat (map (\<lambda>e. env_line e @ [CHR 0x0A]) kvs)) = map_of (rev kvs)"
proof -
  assume clean: "list_all clean_entry kvs"
  have "split_lines (concat (map (\<lambda>e. env_line e @ [CHR 0x0A]) kvs)) = map env_line kvs @ [[]]"
    using clean
  proof (induction kvs)
    case (Cons e kvs)
    have "list_all (\<lambda>c. \<not> line_break c) (env_line e)"
      using Cons.prems line_break_facts by (cases e) (simp add: env_line_def clean_entry_def list_all_iff, blast)
    then show ?case using Cons by (simp add: split_lines_line)
  qed simp
  moreover have "foldl (\<lambda>env raw. case parse_env_line raw of None \<Rightarrow> env | Some (k, v) \<Rightarrow> env(k \<mapsto> v)) m (map env_line kvs) =
      m ++ map_of (rev kvs)" for m
    using clean by (induction kvs arbitrary: m) (auto simp: parse_env_line_clean map_add_upd_left)
  moreover have "parse_env_line [] = None"
    by code_simp
  ultimately show ?thesis by (simp add: parse_env_file_def flip: empty_def)
qed

section \<open>What passes, starts\<close>

lemma resolve_steps:
  "foldl (\<lambda>(resolved, problems) name.
         (case resolve_one files env name of
            (None, ps) \<Rightarrow> (resolved, problems @ ps)
          | (Some v, ps) \<Rightarrow> (resolved(name \<mapsto> v), problems @ ps))) (e, ps) names =
     (foldl (\<lambda>e name. case fst (resolve_one files env name) of None \<Rightarrow> e | Some v \<Rightarrow> e(name \<mapsto> v)) e names,
      ps @ concat (map (\<lambda>name. snd (resolve_one files env name)) names))"
  by (induction names arbitrary: e ps) (auto split: prod.splits option.splits)

text \<open>Where the check finds nothing wrong with the secret files, the application loads the same environment.\<close>

definition plain_path :: "environ \<Rightarrow> string \<Rightarrow> bool" where
  "plain_path env name \<longleftrightarrow> str_strip (env_get env (name @ ''_FILE'')) = env_get env (name @ ''_FILE'')"

lemma loads_resolved:
  assumes "\<forall>name \<in> set names. snd (resolve_one files env name) = [] \<and> plain_path env name \<and> env_get e (name @ ''_FILE'') = env_get env (name @ ''_FILE'')"
    and "\<forall>name \<in> set names. name @ ''_FILE'' \<notin> set names"
  shows "load_secrets files names e =
    Inr (foldl (\<lambda>e name. case fst (resolve_one files env name) of None \<Rightarrow> e | Some v \<Rightarrow> e(name \<mapsto> v)) e names)"
  using assms
proof (induction names arbitrary: e)
  case (Cons name names)
  let ?e = "case fst (resolve_one files env name) of None \<Rightarrow> e | Some v \<Rightarrow> e(name \<mapsto> v)"
  have "load_secrets files (name # names) e = load_secrets files names ?e"
    using Cons.prems(1) by (auto simp: resolve_one_def plain_path_def Let_def error_def split: option.splits if_splits)
  also have "\<dots> = Inr (foldl (\<lambda>e name. case fst (resolve_one files env name) of None \<Rightarrow> e | Some v \<Rightarrow> e(name \<mapsto> v)) ?e names)"
    using Cons.prems by (intro Cons.IH) (auto simp: env_get_def split: option.split)
  finally show ?case by simp
qed simp

lemma resolved_elsewhere:
  "key \<notin> set names \<Longrightarrow>
     foldl (\<lambda>e name. case fst (resolve_one files env name) of None \<Rightarrow> e | Some v \<Rightarrow> e(name \<mapsto> v)) e names key = e key"
  by (induction names arbitrary: e) (auto split: option.split)

lemma report_ok_append [simp]: "report_ok (fs @ gs) \<longleftrightarrow> report_ok fs \<and> report_ok gs"
  by (simp add: report_ok_def report_errors_def)

lemma report_ok_simps [simp]: "report_ok []" "\<not> report_ok (error k m # fs)"
  by (simp_all add: report_ok_def report_errors_def error_def)

lemma resolve_one_ok: "report_ok (snd (resolve_one files env name)) \<Longrightarrow> snd (resolve_one files env name) = []"
  by (auto simp: resolve_one_def Let_def split: option.splits if_splits)

lemma report_ok_concat: "report_ok (concat fss) \<longleftrightarrow> (\<forall>fs \<in> set fss. report_ok fs)"
  by (induction fss) auto

lemma doctor_runD:
  assumes "doctor_run literal_ok files env = Inr fs" "report_ok fs" "\<forall>name \<in> set FILE_BACKED. plain_path env name"
  obtains e where "load_file_backed_secrets files env = Inr e" "\<And>key. key \<notin> set FILE_BACKED \<Longrightarrow> e key = env key"
    "report_ok (check_environment_flag e)" "report_ok (check_secrets e)" "report_ok (check_public_urls e)" "report_ok (check_hardening e)"
proof -
  let ?e = "foldl (\<lambda>e name. case fst (resolve_one files env name) of None \<Rightarrow> e | Some v \<Rightarrow> e(name \<mapsto> v)) env FILE_BACKED"
  have ok: "report_ok (concat (map (\<lambda>name. snd (resolve_one files env name)) FILE_BACKED))"
    "report_ok (check_environment_flag ?e)" "report_ok (check_secrets ?e)" "report_ok (check_public_urls ?e)" "report_ok (check_hardening ?e)"
    using assms(1,2) unfolding doctor_run_def resolve_file_backed_def resolve_steps
    by (auto simp only: prod.case Let_def append_Nil report_ok_append split: sum.splits)
  have "load_file_backed_secrets files env = Inr ?e"
    unfolding load_file_backed_secrets_def
    using ok(1) assms(3) resolve_one_ok [of files env]
    by (intro loads_resolved) (auto simp: report_ok_concat FILE_BACKED_def)
  then show ?thesis using that ok resolved_elsewhere by blast
qed

lemma development_values_refused:
  "\<forall>t \<in> set DEV_PLACEHOLDERS. str_lower t \<in> set PLACEHOLDER_EXACT \<or>
     list_ex (\<lambda>marker. str_contains marker (str_lower t)) PLACEHOLDER_SUBSTRINGS \<or> str_lower t \<in> set DEV_SECRETS"
  by code_simp

lemma check_secret_ok:
  assumes "report_ok (check_secret env (key, n))"
  shows "str_strip (env_get env key) \<notin> set DEV_PLACEHOLDERS \<and> str_strip (env_get env key) \<noteq> [] \<and> n \<le> length (env_get env key)"
  using assms development_values_refused
  by (auto simp: check_secret_def is_placeholder_def Let_def PLACEHOLDER_EXACT_def split: if_splits)

lemma text_field_given: "str_strip (env_get env key) \<noteq> [] \<Longrightarrow> text_field env key fallback = env_get env key"
  by (cases "env key") (simp_all add: env_get_def text_field_def text_or_empty_def str_strip_def)

text \<open>Pydantic and the check read a value alike, where it is given.\<close>

definition plain_flag :: "(string \<Rightarrow> bool option) \<Rightarrow> environ \<Rightarrow> string \<Rightarrow> bool" where
  "plain_flag bool_of env name \<longleftrightarrow> (case env name of None \<Rightarrow> True | Some v \<Rightarrow> bool_of v = Some (reads_true v))"

definition BOOL_FIELDS :: "string list" where
  "BOOL_FIELDS = [''ALLOW_DERIVED_ENCRYPTION_KEY'', ''SESSION_COOKIE_SECURE'', ''EGRESS_ALLOW_PRIVATE_NETWORKS'', ''STARTUP_REQUIRE_ENGINE'']"

lemma bool_field_plain:
  "plain_flag bool_of env name \<Longrightarrow> env name \<noteq> None \<or> \<not> fallback \<Longrightarrow> bool_field bool_of env name fallback = Some (reads_true (env_get env name))"
  by (auto simp: plain_flag_def bool_field_def env_get_def text_or_empty_def reads_true_def str_strip_def split: option.splits)


text \<open>Pydantic's truth values, for the examples.\<close>

definition pydantic_bool :: "string \<Rightarrow> bool option" where
  "pydantic_bool v =
     (if str_lower v \<in> {''1'', ''true'', ''yes'', ''on'', ''t'', ''y''} then Some True
      else if str_lower v \<in> {''0'', ''false'', ''no'', ''off'', ''f'', ''n''} then Some False else None)"

definition production_values :: "(string \<times> string) list" where
  "production_values =
     [(''APP_ENV'', ''production''), (''JWT_SECRET_FILE'', ''/run/secrets/jwt''),
      (''SECRET_ENCRYPTION_KEY'', ''0123456789012345678901234567890123456789012=''),
      (''ENGINE_INTERNAL_TOKEN'', ''01234567890123456789012345678901''),
      (''DATABASE_URL'', ''postgresql://u:p@pg.example.com:5432/a?ssl=require''), (''PUBLIC_BASE_URL'', ''https://appbi.example.com''),
      (''NEXT_PUBLIC_API_BASE'', ''https://appbi.example.com''), (''ENGINE_BASE_URL'', ''http://engine:8099''),
      (''SESSION_COOKIE_SECURE'', ''true''), (''EGRESS_ALLOWED_HOSTS'', ''api.example.com''), (''IMAGE_TAG'', ''1.2.0''),
      (''IMAGE_REGISTRY'', ''registry.example.com''), (''ONCALL_CONTACT'', ''ops''), (''BACKUP_S3_BUCKET'', ''backups'')]"

definition secret_mount :: "string \<Rightarrow> string option" where
  "secret_mount path = (if path = ''/run/secrets/jwt'' then Some (replicate 48 (CHR ''x'') @ [CHR 0x0A]) else None)"

definition production_env :: environ where
  "production_env = map_of ((''ALLOW_DERIVED_ENCRYPTION_KEY'', ''false'') # production_values)"

lemma production_passes: "doctor_run (\<lambda>_. False) secret_mount production_env = Inr []"
  by code_simp

lemma production_env_values:
  "\<forall>name \<in> set FILE_BACKED. str_strip (env_get production_env (name @ ''_FILE'')) = env_get production_env (name @ ''_FILE'')"
  "map production_env BOOL_FIELDS = [Some ''false'', Some ''true'', None, None]"
  "map production_env [''APP_ENV'', ''ENGINE_TYPE''] = [Some ''production'', None]"
  by code_simp+

lemma load_secrets_elsewhere: "load_secrets files names env = Inr e \<Longrightarrow> key \<notin> set names \<Longrightarrow> e key = env key"
  by (induction names arbitrary: env) (auto simp: Let_def split: if_splits option.splits)

lemma settings_require_engine:
  "settings_of bool_of e = Some dp \<Longrightarrow> bool_field bool_of e ''STARTUP_REQUIRE_ENGINE'' False = Some (dp_startup_require_engine dp)"
  by (auto simp: settings_of_def split: option.splits)


section \<open>Where the two disagree\<close>

text \<open>An unset \<open>ALLOW_DERIVED_ENCRYPTION_KEY\<close> passes the check, which takes it for false; its default is true, and the application
  refuses to start.\<close>

definition derived_unset :: environ where
  "derived_unset = map_of production_values"

lemma derived_default_slips:
  "doctor_run (\<lambda>_. False) secret_mount derived_unset = Inr []"
  "case load_file_backed_secrets secret_mount derived_unset of
     Inl _ \<Rightarrow> False
   | Inr e \<Rightarrow>
       (case settings_of pydantic_bool e of
          None \<Rightarrow> False
        | Some dp \<Rightarrow> enforce_at_startup dp = Inl (UnsafeConfiguration [DERIVED_KEY_ALLOWED]))"
  by code_simp+

text \<open>Where a secret is given both as a value and as a file, the check says that the value wins, as it does in the application;
  there the file wins.\<close>

definition both_sources :: environ where
  "both_sources = (\<lambda>_. None)(''JWT_SECRET'' \<mapsto> ''direct'', ''JWT_SECRET_FILE'' \<mapsto> ''/mounted'')"

lemma secret_file_wins:
  "fst (resolve_file_backed (\<lambda>_. Some ''mounted'') both_sources) ''JWT_SECRET'' = Some ''direct''"
  "map_sum id (\<lambda>e. e ''JWT_SECRET'') (load_file_backed_secrets (\<lambda>_. Some ''mounted'') both_sources) = Inr (Some ''mounted'')"
  by code_simp+

text \<open>The check trims \<open>APP_ENV\<close>, the application does not: a quoted value with a blank passes the check and runs without any production
  rule.\<close>

lemma padded_environment_name:
  "check_environment_flag ((\<lambda>_. None)(''APP_ENV'' \<mapsto> ''production '')) = []"
  "map_option is_production (settings_of pydantic_bool ((\<lambda>_. None)(''APP_ENV'' \<mapsto> ''production ''))) = Some False"
  by code_simp+

end
