(* ===== verification/Release.thy ===== *)
theory Release
  imports Doctor
begin

text \<open>
  The release gate, \<open>scripts/release_gate.py\<close>: seven gates over the checkout, the configuration and the reports of the
  pipeline, and the verdict. \<open>git args\<close> is the output of a git command, \<^const>\<open>None\<close> where it fails; \<open>files\<close> maps a path,
  as resolved against the root, to its text; \<open>loads\<close> is \<open>json.loads\<close>, \<^const>\<open>None\<close> where it raises; the migration head is
  what alembic answers. A gate is modelled by the problems that it lists; it passes when there are none. What a gate
  records besides is not represented; of the provenance the rollback target is here, the rest in \<open>Images\<close>.
\<close>

section \<open>Patterns\<close>

type_synonym git = "string list \<Rightarrow> string option"

text \<open>The module defines \<open>_git\<close> twice; the second definition is the one in force.\<close>

definition git_text :: "git \<Rightarrow> string list \<Rightarrow> string" where
  "git_text git args = (case git args of None \<Rightarrow> ''unknown'' | Some out \<Rightarrow> str_strip out)"

definition eat :: "char \<Rightarrow> string \<Rightarrow> string option" where
  "eat c s = (case s of [] \<Rightarrow> None | x # xs \<Rightarrow> if x = c then Some xs else None)"

definition eat_digits :: "string \<Rightarrow> string option" where
  "eat_digits s = (if s \<noteq> [] \<and> is_digit (hd s) then Some (dropWhile is_digit s) else None)"

text \<open>\<open>^\d+\.\d+\.\d+(?:[-+].+)?$\<close>; the \<open>$\<close> also matches before a final newline.\<close>

definition version_ok :: "string \<Rightarrow> bool" where
  "version_ok version =
     (let s = (if version \<noteq> [] \<and> last version = CHR 0x0A then butlast version else version);
          dot = CHR ''.'';
          rest = Option.bind (Option.bind (Option.bind (Option.bind (eat_digits s) (eat dot)) eat_digits) (eat dot)) eat_digits
      in case rest of
           None \<Rightarrow> False
         | Some r \<Rightarrow> r = [] \<or> hd r \<in> {CHR ''-'', CHR ''+''} \<and> length r > 1 \<and> list_all (\<lambda>c. c \<noteq> CHR 0x0A) r)"

definition word_char :: "char \<Rightarrow> bool" where
  "word_char c = (lower_char c \<in> set ''abcdefghijklmnopqrstuvwxyz0123456789_'')"

definition skip_quote :: "string \<Rightarrow> string" where
  "skip_quote s = (if s \<noteq> [] \<and> hd s \<in> {CHR 0x27, CHR 0x22} then tl s else s)"

text \<open>The search of a pattern that begins with \<open>^\<close>, line starts in order; the flag says that the text stands at one.\<close>

fun search_lines :: "(string \<Rightarrow> 'a option) \<Rightarrow> bool \<Rightarrow> string \<Rightarrow> 'a option" where
  "search_lines m start [] = (if start then m [] else None)"
| "search_lines m start (c # cs) =
     (case (if start then m (c # cs) else None) of
        Some x \<Rightarrow> Some x
      | None \<Rightarrow> search_lines m (c = CHR 0x0A) cs)"

text \<open>\<open>\s*key:\s*\<close>, and what follows it\<close>

definition after_key :: "string \<Rightarrow> string \<Rightarrow> string option" where
  "after_key key s =
     (let t = dropWhile py_isspace s in
      if starts_with t (key @ '':'') then Some (dropWhile py_isspace (drop (length key + 1) t)) else None)"

definition nonempty_run :: "(char \<Rightarrow> bool) \<Rightarrow> string \<Rightarrow> string option" where
  "nonempty_run P s = (let r = takeWhile P s in if r = [] then None else Some r)"

definition commercial_gate :: "string \<Rightarrow> string option" where
  "commercial_gate text =
     search_lines (\<lambda>s. case after_key ''commercial_gate'' s of
         None \<Rightarrow> None | Some t \<Rightarrow> nonempty_run (\<lambda>c. c \<in> set ''ABCDEFGHIJKLMNOPQRSTUVWXYZ_'') (skip_quote t)) True text"

definition declared :: "string \<Rightarrow> string \<Rightarrow> string option" where
  "declared text key =
     search_lines (\<lambda>s. case after_key key s of None \<Rightarrow> None | Some t \<Rightarrow> nonempty_run (\<lambda>c. \<not> py_isspace c) t) True text"

text \<open>One match of \<open>^\s+(n8n[\w-]*):\s*['"]?([\d.]+)['"]?\s*$\<close> at a line start: the two groups, the text from the end of the
  match, and whether that is a line start. The last \<open>\s*\<close> takes all blanks up to the end of the text or else up to
  the last newline among them.\<close>

definition match_end :: "string \<Rightarrow> (bool \<times> string) option" where
  "match_end t =
     (let blanks = takeWhile py_isspace t; after = dropWhile py_isspace t in
      if after = [] then Some (False, [])
      else if CHR 0x0A \<notin> set blanks then None
      else
        (let kept = rev (takeWhile (\<lambda>c. c \<noteq> CHR 0x0A) (rev blanks));
             taken = take (length blanks - length kept - 1) blanks
         in Some (taken \<noteq> [] \<and> last taken = CHR 0x0A, CHR 0x0A # kept @ after)))"

definition match_pin :: "string \<Rightarrow> ((string \<times> string) \<times> bool \<times> string) option" where
  "match_pin s =
     (let t = dropWhile py_isspace s; name = takeWhile (\<lambda>c. word_char c \<or> c = CHR ''-'') t in
      if t = s \<or> \<not> starts_with name ''n8n'' then None
      else
        (case eat (CHR '':'') (drop (length name) t) of
           None \<Rightarrow> None
         | Some u \<Rightarrow>
             (let v = skip_quote (dropWhile py_isspace u); number = takeWhile (\<lambda>c. is_digit c \<or> c = CHR ''.'') v in
              if number = [] then None
              else map_option (\<lambda>e. ((name, number), e)) (match_end (skip_quote (drop (length number) v))))))"

text \<open>\<open>re.findall\<close>; a step consumes a character, so the length is fuel enough.\<close>

fun find_pins :: "nat \<Rightarrow> bool \<Rightarrow> string \<Rightarrow> (string \<times> string) list" where
  "find_pins 0 start s = []"
| "find_pins (Suc n) start s =
     (case (if start then match_pin s else None) of
        Some (pin, start', rest) \<Rightarrow> pin # find_pins n start' rest
      | None \<Rightarrow> (case s of [] \<Rightarrow> [] | c # cs \<Rightarrow> find_pins n (c = CHR 0x0A) cs))"

definition pins_of :: "string \<Rightarrow> (string \<times> string) list" where
  "pins_of text = find_pins (length text) True text"

section \<open>Gates\<close>

text \<open>The problems, one constructor for each message, with what it quotes.\<close>

datatype gate_problem =
    UncommittedChanges | NoSemanticVersion string
  | CompatibilityMissing | NoPins | PinsDiffer
  | NoEnvFile string | ConfigurationError string doctor_message
  | NoSingleHead | NoDriftReport | NoSuchDriftReport string | DriftReportNotJson | SchemaDrift json | ModelsDiffer
  | OtherHead json string | NotAtHead json json
  | NoEvidenceGiven | NoSuchEvidence string | EvidenceNotJson | NoResult string | SuiteFailed string int | SuiteDidNotRun string
  | CommercialGateMissing | DeclarationMissing string | EnterpriseSource string string | CommercialDelivery string
  | NobodyToEscalateTo

definition gate_identity :: "git \<Rightarrow> string \<Rightarrow> gate_problem list" where
  "gate_identity git version =
     (if git_text git [''status'', ''--porcelain''] \<noteq> [] then [UncommittedChanges] else []) @
     (if \<not> version_ok version then [NoSemanticVersion version] else [])"

text \<open>\<open>dict\<close> keeps the last pin of a name.\<close>

definition gate_pinned_runtime :: "(string \<Rightarrow> string option) \<Rightarrow> gate_problem list" where
  "gate_pinned_runtime files =
     (case files ''compatibility.yaml'' of
        None \<Rightarrow> [CompatibilityMissing]
      | Some text \<Rightarrow>
          (let pins = map_of (rev (pins_of text)); versions = remdups (List.map_filter pins (remdups (map fst (pins_of text)))) in
           (if pins_of text = [] then [NoPins] else []) @ (if length versions > 1 then [PinsDiffer] else [])))"

definition gate_configuration :: "(string \<Rightarrow> bool) \<Rightarrow> (string \<Rightarrow> string option) \<Rightarrow> environ \<Rightarrow> string option
    \<Rightarrow> py_exc + gate_problem list" where
  "gate_configuration literal_ok files process env_file =
     (let problems = (\<lambda>env. map_sum id (\<lambda>fs. map (\<lambda>f. ConfigurationError (fd_key f) (fd_message f)) (report_errors fs))
          (doctor_run literal_ok files env))
      in if text_or_empty env_file \<noteq> [] then
           (case files (text_or_empty env_file) of
              None \<Rightarrow> Inr [NoEnvFile (text_or_empty env_file)]
            | Some text \<Rightarrow> problems (parse_env_file text))
         else problems process)"

text \<open>Iterating over \<open>report.get("problems", [])\<close>\<close>

definition report_items :: "dict \<Rightarrow> string \<Rightarrow> py_exc + json list" where
  "report_items d key =
     (case map_of d key of
        None \<Rightarrow> Inr []
      | Some (JArr xs) \<Rightarrow> Inr xs
      | Some (JStr s) \<Rightarrow> Inr (map (\<lambda>c. JStr [c]) s)
      | Some (JObj kvs) \<Rightarrow> Inr (map (JStr \<circ> fst) kvs)
      | Some _ \<Rightarrow> Inl TypeErr)"

definition drift_problems :: "string option \<Rightarrow> dict \<Rightarrow> py_exc + gate_problem list" where
  "drift_problems head report =
     (case (if truthy (dget report ''ok'') then Inr [] else report_items report ''problems'') of
        Inl e \<Rightarrow> Inl e
      | Inr drift \<Rightarrow>
          Inr (map SchemaDrift drift @
            (if \<not> truthy (dget report ''models_match_schema'') then [ModelsDiffer] else []) @
            (case head of
               Some h \<Rightarrow> if h \<noteq> [] \<and> dget report ''head_revision'' \<noteq> JStr h then [OtherHead (dget report ''head_revision'') h] else []
             | None \<Rightarrow> []) @
            (if \<not> py_eq (dget report ''applied_revision'') (dget report ''head_revision'')
             then [NotAtHead (dget report ''applied_revision'') (dget report ''head_revision'')] else [])))"

definition gate_schema :: "(string \<Rightarrow> json option) \<Rightarrow> (string \<Rightarrow> string option) \<Rightarrow> string option \<Rightarrow> string option
    \<Rightarrow> py_exc + gate_problem list" where
  "gate_schema loads files head drift_report =
     (let headless = (if head = None then [NoSingleHead] else []); path = text_or_empty drift_report in
      if path = [] then Inr (headless @ [NoDriftReport])
      else
        (case files path of
           None \<Rightarrow> Inr (headless @ [NoSuchDriftReport path])
         | Some text \<Rightarrow>
             (case loads text of
                None \<Rightarrow> Inr (headless @ [DriftReportNotJson])
              | Some report \<Rightarrow>
                  (case as_dict report of
                     Inl e \<Rightarrow> Inl e
                   | Inr r \<Rightarrow> map_sum id (\<lambda>ps. headless @ ps) (drift_problems head r)))))"

definition REQUIRED_EVIDENCE :: "string list" where
  "REQUIRED_EVIDENCE = [''engine'', ''backend'', ''frontend'', ''e2e'', ''smoke'']"

definition count_of :: "dict \<Rightarrow> string \<Rightarrow> py_exc + int" where
  "count_of suite key = py_int (or_else (dget suite key) (JInt 0))"

definition suite_problems :: "dict \<Rightarrow> string \<Rightarrow> py_exc + gate_problem list" where
  "suite_problems raw name =
     (if dget raw name = JNull then Inr [NoResult name]
      else
        (case as_dict (dget raw name) of
           Inl e \<Rightarrow> Inl e
         | Inr suite \<Rightarrow>
             (case count_of suite ''failed'' of
                Inl e \<Rightarrow> Inl e
              | Inr failed \<Rightarrow>
                  (case count_of suite ''passed'' of
                     Inl e \<Rightarrow> Inl e
                   | Inr passed \<Rightarrow>
                       Inr (if failed \<noteq> 0 then [SuiteFailed name failed] else if passed = 0 then [SuiteDidNotRun name] else [])))))"

fun evidence_problems :: "dict \<Rightarrow> string list \<Rightarrow> py_exc + gate_problem list" where
  "evidence_problems raw [] = Inr []"
| "evidence_problems raw (name # names) =
     (case suite_problems raw name of
        Inl e \<Rightarrow> Inl e
      | Inr ps \<Rightarrow> map_sum id (\<lambda>qs. ps @ qs) (evidence_problems raw names))"

definition gate_evidence :: "(string \<Rightarrow> json option) \<Rightarrow> (string \<Rightarrow> string option) \<Rightarrow> string option \<Rightarrow> py_exc + gate_problem list" where
  "gate_evidence loads files evidence =
     (let path = text_or_empty evidence in
      if path = [] then Inr [NoEvidenceGiven]
      else
        (case files path of
           None \<Rightarrow> Inr [NoSuchEvidence path]
         | Some text \<Rightarrow>
             (case loads text of
                None \<Rightarrow> Inr [EvidenceNotJson]
              | Some raw \<Rightarrow> (case as_dict raw of Inl e \<Rightarrow> Inl e | Inr r \<Rightarrow> evidence_problems r REQUIRED_EVIDENCE))))"

datatype delivery = Commercial | Internal

definition declaration_problems :: "string \<Rightarrow> string \<Rightarrow> gate_problem list" where
  "declaration_problems text key =
     (case declared text key of
        None \<Rightarrow> [DeclarationMissing key]
      | Some v \<Rightarrow> if str_lower (str_strip v) \<noteq> ''false'' then [EnterpriseSource key v] else [])"

definition gate_legal :: "(string \<Rightarrow> string option) \<Rightarrow> delivery \<Rightarrow> gate_problem list" where
  "gate_legal files delivery =
     (let text = text_or_empty (files ''compatibility.yaml'') in
      case commercial_gate text of
        None \<Rightarrow> [CommercialGateMissing]
      | Some state \<Rightarrow>
          (let source = declaration_problems text ''ee_source_loaded_by_runtime'' @ declaration_problems text ''ee_feature_enabled'' in
           if source \<noteq> [] then source
           else if state = ''APPROVED'' then []
           else if delivery = Commercial then [CommercialDelivery state]
           else []))"

definition gate_oncall :: "(string \<Rightarrow> string option) \<Rightarrow> environ \<Rightarrow> string option \<Rightarrow> gate_problem list" where
  "gate_oncall files process env_file =
     (let given = env_get process ''ONCALL_CONTACT'';
          contact = (if given = [] \<and> text_or_empty env_file \<noteq> [] then
                 (case files (text_or_empty env_file) of
                    None \<Rightarrow> given
                  | Some text \<Rightarrow> env_get (parse_env_file text) ''ONCALL_CONTACT'')
               else given)
      in if contact = [] \<or> str_upper (str_strip contact) \<in> {''FILL_ME'', ''TBD'', ''TODO''} then [NobodyToEscalateTo] else [])"

section \<open>The verdict\<close>

record release_args =
  ra_version :: string
  ra_env_file :: "string option"
  ra_evidence :: "string option"
  ra_drift_report :: "string option"
  ra_delivery :: delivery
  ra_allow_dirty :: bool

record checkout =
  co_git :: git
  co_files :: "string \<Rightarrow> string option"
  co_process :: environ
  co_head :: "string option"
  co_loads :: "string \<Rightarrow> json option"
  co_literal_ok :: "string \<Rightarrow> bool"

text \<open>\<open>"uncommitted" in p\<close>: the text of a problem, which may quote the version.\<close>

fun mentions_uncommitted :: "gate_problem \<Rightarrow> bool" where
  "mentions_uncommitted UncommittedChanges = True"
| "mentions_uncommitted (NoSemanticVersion version) = str_contains ''uncommitted'' version"
| "mentions_uncommitted p = False"

definition identity_problems :: "checkout \<Rightarrow> release_args \<Rightarrow> gate_problem list" where
  "identity_problems co a =
     (let ps = gate_identity (co_git co) (ra_version a) in if ra_allow_dirty a then filter (\<lambda>p. \<not> mentions_uncommitted p) ps else ps)"

text \<open>The failures, by the name of their gate; \<^const>\<open>Inl\<close> where a gate raises.\<close>

definition release_failures :: "checkout \<Rightarrow> release_args \<Rightarrow> py_exc + (string \<times> gate_problem list) list" where
  "release_failures co a =
     (case gate_configuration (co_literal_ok co) (co_files co) (co_process co) (ra_env_file a) of
        Inl e \<Rightarrow> Inl e
      | Inr configuration \<Rightarrow>
          (case gate_schema (co_loads co) (co_files co) (co_head co) (ra_drift_report a) of
             Inl e \<Rightarrow> Inl e
           | Inr schema \<Rightarrow>
               (case gate_evidence (co_loads co) (co_files co) (ra_evidence a) of
                  Inl e \<Rightarrow> Inl e
                | Inr evidence \<Rightarrow>
                    Inr (filter (\<lambda>(_, ps). ps \<noteq> [])
                      [(''identity'', identity_problems co a), (''pinned_runtime'', gate_pinned_runtime (co_files co)),
                       (''configuration'', configuration), (''schema'', schema), (''evidence'', evidence),
                       (''legal'', gate_legal (co_files co) (ra_delivery a)),
                       (''oncall'', gate_oncall (co_files co) (co_process co) (ra_env_file a))]))))"

definition release_main :: "checkout \<Rightarrow> release_args \<Rightarrow> py_exc + int" where
  "release_main co a = map_sum id (\<lambda>failures. if failures = [] then 0 else 1) (release_failures co a)"

definition rollback_to :: "git \<Rightarrow> string \<Rightarrow> string option" where
  "rollback_to git version =
     (case filter (\<lambda>tag. tag \<noteq> [] \<and> tag \<noteq> ''v'' @ version) (split_lines (git_text git [''tag'', ''--sort=-creatordate''])) of
        [] \<Rightarrow> None | t # _ \<Rightarrow> Some t)"

section \<open>The scan for pins has fuel enough\<close>

lemma length_skip_quote: "length (skip_quote s) \<le> length s"
  by (simp add: skip_quote_def)

lemma length_takeWhile_dropWhile: "length (takeWhile P s) + length (dropWhile P s) = length s"
  by (metis length_append takeWhile_dropWhile_id)

lemma match_end_shorter: "match_end t = Some (start, rest) \<Longrightarrow> length rest \<le> length t"
proof -
  assume m: "match_end t = Some (start, rest)"
  let ?blanks = "takeWhile py_isspace t" let ?kept = "takeWhile (\<lambda>c. c \<noteq> CHR 0x0A) (rev ?blanks)"
  show "length rest \<le> length t"
  proof (cases "dropWhile py_isspace t = []")
    case False
    then have nl: "CHR 0x0A \<in> set ?blanks" and rest: "rest = CHR 0x0A # rev ?kept @ dropWhile py_isspace t"
      using m by (auto simp: match_end_def Let_def split: if_splits)
    from nl have "dropWhile (\<lambda>c. c \<noteq> CHR 0x0A) (rev ?blanks) \<noteq> []" by (simp add: dropWhile_eq_Nil_conv)
    then have "0 < length (dropWhile (\<lambda>c. c \<noteq> CHR 0x0A) (rev ?blanks))" unfolding length_greater_0_conv .
    then have "length ?kept < length ?blanks"
      using length_takeWhile_dropWhile [of "\<lambda>c. c \<noteq> CHR 0x0A" "rev ?blanks"] unfolding length_rev by linarith
    then show ?thesis using length_takeWhile_dropWhile [of py_isspace t] by (simp add: rest)
  qed (use m in \<open>simp add: match_end_def\<close>)
qed

lemma match_pin_shorter:
  assumes "match_pin s = Some (pin, start, rest)"
  shows "length rest < length s"
proof -
  define t where "t = dropWhile py_isspace s"
  define name where "name = takeWhile (\<lambda>c. word_char c \<or> c = CHR ''-'') t"
  obtain u where u: "eat (CHR '':'') (drop (length name) t) = Some u"
    using assms by (auto simp: match_pin_def t_def name_def Let_def split: option.splits if_splits)
  define v where "v = skip_quote (dropWhile py_isspace u)"
  define number where "number = takeWhile (\<lambda>c. is_digit c \<or> c = CHR ''.'') v"
  have e: "match_end (skip_quote (drop (length number) v)) = Some (start, rest)"
    using assms u by (auto simp: match_pin_def Let_def t_def name_def v_def number_def split: if_splits)
  have "length rest \<le> length v"
    using match_end_shorter [OF e] length_skip_quote [of "drop (length number) v"] by simp
  also have "\<dots> \<le> length u" unfolding v_def
    using length_skip_quote [of "dropWhile py_isspace u"] length_dropWhile_le [of py_isspace u] by linarith
  also have "\<dots> < length t"
    using u by (auto simp: eat_def split: list.splits if_splits dest!: arg_cong [of _ _ length])
  also have "\<dots> \<le> length s" unfolding t_def by (rule length_dropWhile_le)
  finally show ?thesis .
qed

lemma find_pins_fuel: "length s \<le> n \<Longrightarrow> find_pins n start s = find_pins (length s) start s"
proof (induction "length s" arbitrary: n start s rule: less_induct)
  case less
  show ?case
  proof (cases s)
    case Nil
    have "find_pins n start [] = []"
    proof (induction n arbitrary: start)
      case (Suc n)
      have "match_pin [] = None" by (simp add: match_pin_def)
      then show ?case using Suc by simp
    qed simp
    then show ?thesis using Nil by simp
  next
    case (Cons c cs)
    obtain k where n: "n = Suc k" "length cs \<le> k" using less.prems Cons by (cases n) auto
    have cs: "find_pins k b cs = find_pins (length cs) b cs" for b using less.hyps [of cs k] Cons n by simp
    show ?thesis
    proof (cases "if start then match_pin s else None")
      case (Some m)
      obtain pin b rest where m: "m = (pin, b, rest)" by (cases m) auto
      have "length rest < length s" using Some m match_pin_shorter [of s pin b rest] by (auto split: if_splits)
      then have "find_pins k b rest = find_pins (length rest) b rest" "find_pins (length cs) b rest = find_pins (length rest) b rest"
        using less.hyps [of rest k b] less.hyps [of rest "length cs" b] n Cons by auto
      then show ?thesis using Some m n(1) Cons by (simp split: if_splits)
    next
      case None
      then show ?thesis using n(1) Cons cs by (simp split: if_splits)
    qed
  qed
qed

section \<open>What a gate that passes has seen\<close>

definition configured :: "checkout \<Rightarrow> release_args \<Rightarrow> environ option" where
  "configured co a =
     (let path = text_or_empty (ra_env_file a) in if path \<noteq> [] then map_option parse_env_file (co_files co path) else Some (co_process co))"

definition json_report :: "checkout \<Rightarrow> string option \<Rightarrow> json option" where
  "json_report co path = (if text_or_empty path = [] then None else Option.bind (co_files co (text_or_empty path)) (co_loads co))"

definition one_pin :: "(string \<times> string) list \<Rightarrow> bool" where
  "one_pin pins \<longleftrightarrow> pins \<noteq> [] \<and> (\<exists>v. \<forall>name \<in> fst ` set pins. map_of (rev pins) name = Some v)"

definition schema_proved :: "string option \<Rightarrow> dict \<Rightarrow> bool" where
  "schema_proved head r \<longleftrightarrow>
     (truthy (dget r ''ok'') \<or> report_items r ''problems'' = Inr []) \<and> truthy (dget r ''models_match_schema'') \<and>
     (\<exists>h. head = Some h \<and> (h = [] \<or> dget r ''head_revision'' = JStr h)) \<and> py_eq (dget r ''applied_revision'') (dget r ''head_revision'')"

definition suite_passed :: "dict \<Rightarrow> string \<Rightarrow> bool" where
  "suite_passed raw name \<longleftrightarrow>
     (\<exists>suite passed. dget raw name = JObj suite \<and> count_of suite ''failed'' = Inr 0 \<and> count_of suite ''passed'' = Inr passed \<and> passed \<noteq> 0)"

definition cleared :: "string \<Rightarrow> delivery \<Rightarrow> bool" where
  "cleared text delivery \<longleftrightarrow>
     (\<exists>state. commercial_gate text = Some state \<and> (state = ''APPROVED'' \<or> delivery = Internal)) \<and>
     (\<forall>key \<in> {''ee_source_loaded_by_runtime'', ''ee_feature_enabled''}. \<exists>v. declared text key = Some v \<and> str_lower (str_strip v) = ''false'')"

lemma map_sum_Inr: "map_sum id f r = Inr y \<longleftrightarrow> (\<exists>x. r = Inr x \<and> y = f x)"
  by (cases r) auto

lemma distinct_le_1: "length (remdups xs) \<le> 1 \<longleftrightarrow> (\<forall>x \<in> set xs. \<forall>y \<in> set xs. x = y)"
  by (metis card_le_Suc0_iff_eq finite_set length_remdups_card_conv One_nat_def)

lemma pinned_passes:
  "gate_pinned_runtime files = [] \<longleftrightarrow> (\<exists>text. files ''compatibility.yaml'' = Some text \<and> one_pin (pins_of text))"
proof (cases "files ''compatibility.yaml''")
  case (Some content)
  let ?pins = "pins_of content" let ?m = "map_of (rev (pins_of content))"
  have named: "\<exists>v. ?m name = Some v" if "name \<in> fst ` set ?pins" for name
    using that by (cases "?m name") (auto simp: map_of_eq_None_iff)
  have vs: "v \<in> set (List.map_filter ?m (remdups (map fst ?pins))) \<longleftrightarrow> (\<exists>name \<in> fst ` set ?pins. ?m name = Some v)" for v
    by (force simp: map_filter_def)
  have "gate_pinned_runtime files = [] \<longleftrightarrow> ?pins \<noteq> [] \<and> length (remdups (List.map_filter ?m (remdups (map fst ?pins)))) \<le> 1"
    by (auto simp: gate_pinned_runtime_def Some Let_def)
  also have "\<dots> \<longleftrightarrow> one_pin ?pins"
  proof
    assume l: "?pins \<noteq> [] \<and> length (remdups (List.map_filter ?m (remdups (map fst ?pins)))) \<le> 1"
    then have same: "v = v'" if "?m name = Some v" "?m name' = Some v'" "name \<in> fst ` set ?pins" "name' \<in> fst ` set ?pins" for name name' v v'
      using that vs unfolding distinct_le_1 by blast
    obtain key where key: "key \<in> fst ` set ?pins" using l by (cases ?pins) auto
    then obtain v where "?m key = Some v" using named by blast
    then have "?m name = Some v" if "name \<in> fst ` set ?pins" for name
      using named [OF that] same [of name _ key v] that key by blast
    then show "one_pin ?pins" using l by (auto simp: one_pin_def)
  next
    assume "one_pin ?pins"
    then show "?pins \<noteq> [] \<and> length (remdups (List.map_filter ?m (remdups (map fst ?pins)))) \<le> 1"
      unfolding distinct_le_1 one_pin_def Ball_def vs by (metis option.inject)
  qed
  finally show ?thesis using Some by simp
qed (simp add: gate_pinned_runtime_def)

lemma configuration_passes:
  "gate_configuration literal_ok (co_files co) (co_process co) (ra_env_file a) = Inr [] \<longleftrightarrow>
     (\<exists>env fs. configured co a = Some env \<and> doctor_run literal_ok (co_files co) env = Inr fs \<and> report_ok fs)"
  by (auto simp: gate_configuration_def configured_def Let_def map_sum_Inr report_ok_def split: option.split)

lemma schema_passes:
  "gate_schema (co_loads co) (co_files co) head path = Inr [] \<longleftrightarrow>
     (\<exists>r. json_report co path = Some (JObj r) \<and> schema_proved head r)"
proof -
  have d: "drift_problems (Some h) r = Inr [] \<longleftrightarrow> schema_proved (Some h) r" for h r
    by (auto simp: drift_problems_def schema_proved_def split: sum.splits)
  have j: "as_dict report = Inr r \<longleftrightarrow> report = JObj r" for report r by (cases report) auto
  show ?thesis
    by (cases head) (auto simp: gate_schema_def json_report_def Let_def map_sum_Inr d j schema_proved_def [of None]
        split: option.splits sum.splits)
qed

lemma suite_passes: "suite_problems raw name = Inr [] \<longleftrightarrow> suite_passed raw name"
  by (cases "dget raw name") (auto simp: suite_problems_def suite_passed_def split: sum.splits)

lemma suites_pass: "evidence_problems raw names = Inr [] \<longleftrightarrow> (\<forall>name \<in> set names. suite_passed raw name)"
  by (induction names) (auto simp: map_sum_Inr suite_passes [symmetric] split: sum.splits)

lemma evidence_passes:
  "gate_evidence (co_loads co) (co_files co) path = Inr [] \<longleftrightarrow>
     (\<exists>raw. json_report co path = Some (JObj raw) \<and> (\<forall>name \<in> set REQUIRED_EVIDENCE. suite_passed raw name))"
proof -
  have j: "as_dict report = Inr r \<longleftrightarrow> report = JObj r" for report r by (cases report) auto
  show ?thesis by (auto simp: gate_evidence_def json_report_def Let_def suites_pass j split: option.splits sum.splits)
qed

lemma legal_passes: "gate_legal files delivery = [] \<longleftrightarrow> cleared (text_or_empty (files ''compatibility.yaml'')) delivery"
  by (cases delivery) (auto simp: gate_legal_def cleared_def declaration_problems_def Let_def split: option.splits if_splits)


definition compatibility_file :: string where
  "compatibility_file = concat (map (\<lambda>line. line @ [CHR 0x0A])
     [''licensing:'', ''  commercial_gate: APPROVED'', ''  ee_source_loaded_by_runtime: false'', ''  ee_feature_enabled: false'',
      ''engine:'', ''  n8n-core: 1.14.1'', ''  n8n-workflow: 1.14.1''])"

definition demo_reports :: "string \<Rightarrow> json option" where
  "demo_reports text =
     (if text = ''evidence'' then Some (JObj (map (\<lambda>name. (name, JObj [(''passed'', JInt 3), (''failed'', JInt 0)])) REQUIRED_EVIDENCE))
      else if text = ''drift'' then Some (JObj [(''ok'', JBool True), (''models_match_schema'', JBool True),
        (''head_revision'', JStr ''r1''), (''applied_revision'', JStr ''r1'')])
      else None)"

definition demo_checkout :: checkout where
  "demo_checkout = \<lparr>co_git = (\<lambda>_. Some []),
     co_files = (\<lambda>path. if path = ''compatibility.yaml'' then Some compatibility_file
       else if path \<in> {''evidence'', ''drift''} then Some path else secret_mount path),
     co_process = production_env, co_head = Some ''r1'', co_loads = demo_reports, co_literal_ok = (\<lambda>_. False)\<rparr>"

definition demo_release :: release_args where
  "demo_release = \<lparr>ra_version = ''1.2.0'', ra_env_file = None, ra_evidence = Some ''evidence'', ra_drift_report = Some ''drift'',
     ra_delivery = Commercial, ra_allow_dirty = False\<rparr>"

lemma demo_compatibility:
  "pins_of compatibility_file = [(''n8n-core'', ''1.14.1''), (''n8n-workflow'', ''1.14.1'')]"
  "commercial_gate compatibility_file = Some ''APPROVED''"
  "map (declared compatibility_file) [''ee_source_loaded_by_runtime'', ''ee_feature_enabled''] = [Some ''false'', Some ''false'']"
  by code_simp+

lemma demo_configuration: "doctor_run (\<lambda>_. False) (co_files demo_checkout) production_env = Inr []"
  by code_simp

lemma demo_evidence:
  "\<forall>name \<in> set REQUIRED_EVIDENCE. \<exists>suite passed. dget (map (\<lambda>name. (name, JObj [(''passed'', JInt 3), (''failed'', JInt 0)])) REQUIRED_EVIDENCE) name = JObj suite \<and>
     count_of suite ''failed'' = Inr 0 \<and> count_of suite ''passed'' = Inr passed \<and> passed \<noteq> 0"
  by (simp add: REQUIRED_EVIDENCE_def dget_def count_of_def or_else_def)


section \<open>What passes and should not\<close>

text \<open>Outside a git checkout every command answers ``unknown'': the tree reads as dirty, and where that is waived the release goes out
  without a commit, to be rolled back to a tag called ``unknown''. The message for this case is dead code.\<close>

lemma no_checkout_passes:
  assumes "co_git co = (\<lambda>_. None)" "ra_allow_dirty a" "version_ok (ra_version a)"
  shows "identity_problems co a = []" "ra_version a \<noteq> [] \<Longrightarrow> hd (ra_version a) \<noteq> CHR ''n'' \<Longrightarrow> rollback_to (co_git co) (ra_version a) = Some ''unknown''"
proof -
  show "identity_problems co a = []" using assms by (simp add: identity_problems_def gate_identity_def Let_def)
  have "split_lines ''unknown'' = [''unknown'']" by code_simp
  then show "rollback_to (co_git co) (ra_version a) = Some ''unknown''"
    using assms(1) by (simp add: rollback_to_def git_text_def)
qed

text \<open>A drift report that says that it failed passes when it lists no problem.\<close>

lemma failed_drift_report_passes:
  "drift_problems (Some ''r1'') [(''ok'', JBool False), (''problems'', JArr []), (''models_match_schema'', JBool True),
     (''head_revision'', JStr ''r1''), (''applied_revision'', JStr ''r1'')] = Inr []"
  by code_simp

text \<open>A contact of blanks is a contact.\<close>

lemma blank_contact_passes: "gate_oncall files ((\<lambda>_. None)(''ONCALL_CONTACT'' \<mapsto> ''  '')) None = []"
  by (simp add: gate_oncall_def env_get_def text_or_empty_def Let_def) code_simp

end
