(* ===== verification/Backup.thy ===== *)
theory Backup
  imports Release
begin

text \<open>
  Backups: \<open>scripts/backup.py\<close> dumps a database with a manifest and verifies a dump in a scratch database,
  \<open>scripts/restore.py\<close> restores one under a name. The server is a map from names to databases; what the PostgreSQL
  tools do to a database is an argument, and so is SHA-256. A manifest is its JSON object. That a tool cannot be started, the upload, and
  the container the tools may run in are not represented; names of databases hold no quote and no backslash, and no other session is
  connected to a database that is dropped.
\<close>

section \<open>Tools and server\<close>

text \<open>\<open>tl_load strict dump db\<close> is \<open>pg_restore\<close> into a database, with its success. A query that fails is \<^const>\<open>None\<close>.\<close>

record 'a tools =
  tl_dump :: "'a \<Rightarrow> string"
  tl_load :: "bool \<Rightarrow> string \<Rightarrow> 'a \<Rightarrow> 'a \<times> bool"
  tl_blank :: 'a
  tl_count :: "'a \<Rightarrow> string \<Rightarrow> int option"
  tl_revision :: "'a \<Rightarrow> string option"
  tl_sha256 :: "string \<Rightarrow> string"

type_synonym 'a server = "string \<Rightarrow> 'a option"

text \<open>The messages of \<open>SystemExit\<close>.\<close>

datatype stop =
    NoDatabaseUrl | NamesNoDatabase | DumpFailed | NoSuchDump | NoManifest | WrongChecksum
  | OtherRevision | OtherKey | TargetExists | PsqlFailed | RestoreFailed

section \<open>Addresses\<close>

text \<open>\<open>re.sub(r"^postgresql\+\w+://", "postgresql://", url)\<close>\<close>

definition without_dialect :: "string \<Rightarrow> string" where
  "without_dialect url =
     (let dialect = takeWhile word_char (drop 11 url); rest = drop (11 + length dialect) url in
      if starts_with url ''postgresql+'' \<and> dialect \<noteq> [] \<and> starts_with rest ''://'' then ''postgresql'' @ rest else url)"

definition url_path :: "string \<Rightarrow> string" where
  "url_path url =
     (let u = after_scheme (filter (\<lambda>c. c \<notin> {CHR 0x09, CHR 0x0A, CHR 0x0D}) (dropWhile (\<lambda>c. of_char c \<le> (32 :: nat)) url));
          rest = (if starts_with u ''//'' then dropWhile (\<lambda>c. c \<notin> set ''/?#'') (drop 2 u) else u)
      in takeWhile (\<lambda>c. c \<notin> set ''?#'') rest)"

definition database_of :: "string \<Rightarrow> string" where
  "database_of url = dropWhile (\<lambda>c. c = CHR ''/'') (url_path (without_dialect url))"

text \<open>\<open>re.sub(r"/[^/?]+(\?|$)", "/name\1", url)\<close>; the flag says that the match before has taken a question mark.\<close>

function swap_database :: "string \<Rightarrow> string \<Rightarrow> string" where
  "swap_database name [] = []"
| "swap_database name (c # cs) =
     (let segment = takeWhile (\<lambda>c. c \<noteq> CHR ''/'' \<and> c \<noteq> CHR ''?'') cs; rest = drop (length segment) cs in
      if c = CHR ''/'' \<and> segment \<noteq> [] \<and> (rest = [] \<or> hd rest = CHR ''?'')
      then CHR ''/'' # name @ take 1 rest @ swap_database name (drop 1 rest)
      else c # swap_database name cs)"
  by pat_completeness auto
termination by (relation "measure (\<lambda>(_, s). length s)") auto

section \<open>Backup\<close>

definition COUNTED_TABLES :: "string list" where
  "COUNTED_TABLES = [''workspaces'', ''users'', ''memberships'', ''workflows'', ''workflow_drafts'', ''workflow_versions'', ''credentials'',
     ''secrets'', ''trigger_bindings'', ''executions'', ''audit_events'']"

definition row_counts :: "'a tools \<Rightarrow> 'a \<Rightarrow> (string \<times> int) list" where
  "row_counts t db = map (\<lambda>table. (table, case tl_count t db table of Some n \<Rightarrow> n | None \<Rightarrow> -1)) COUNTED_TABLES"

definition key_fingerprint :: "'a tools \<Rightarrow> environ \<Rightarrow> string option" where
  "key_fingerprint t env =
     (let key = str_strip (env_get env ''SECRET_ENCRYPTION_KEY'') in
      if key = [] then None else Some (take 16 (tl_sha256 t (''appbi-workflow-kek-fingerprint:'' @ key))))"

text \<open>The fields that are read again.\<close>

definition manifest_of :: "'a tools \<Rightarrow> environ \<Rightarrow> 'a \<Rightarrow> string \<Rightarrow> string \<Rightarrow> dict" where
  "manifest_of t env db revision dump =
     [(''schema_revision'', JStr (if revision = [] then ''unknown'' else revision)),
      (''row_counts'', JObj (map (\<lambda>(table, n). (table, JInt n)) (row_counts t db))),
      (''dump_sha256'', JStr (tl_sha256 t dump)),
      (''encryption_key_fingerprint'', case key_fingerprint t env of None \<Rightarrow> JNull | Some f \<Rightarrow> JStr f)]"

definition do_backup :: "'a tools \<Rightarrow> environ \<Rightarrow> 'a server \<Rightarrow> stop + string \<times> dict" where
  "do_backup t env srv =
     (let url = env_get env ''DATABASE_URL'' in
      if url = [] then Inl NoDatabaseUrl
      else if database_of url = [] then Inl NamesNoDatabase
      else
        (case srv (database_of url) of
           None \<Rightarrow> Inl DumpFailed
         | Some db \<Rightarrow>
             (case tl_revision t db of
                None \<Rightarrow> Inl PsqlFailed
              | Some revision \<Rightarrow> Inr (tl_dump t db, manifest_of t env db (str_strip revision) (tl_dump t db)))))"

section \<open>Checks of a dump\<close>

text \<open>The dump and the manifest that lie beside each other, with a matching checksum.\<close>

definition checked_dump :: "'a tools \<Rightarrow> string option \<Rightarrow> dict option \<Rightarrow> stop + string \<times> dict" where
  "checked_dump t dump manifest =
     (case dump of
        None \<Rightarrow> Inl NoSuchDump
      | Some bytes \<Rightarrow>
          (case manifest of
             None \<Rightarrow> Inl NoManifest
           | Some m \<Rightarrow> if dget m ''dump_sha256'' \<noteq> JStr (tl_sha256 t bytes) then Inl WrongChecksum else Inr (bytes, m)))"

text \<open>The database that a tool connects to, and the statements that \<open>psql\<close> runs; the database one is connected to is not dropped.\<close>

definition connected :: "'a server \<Rightarrow> string \<Rightarrow> stop + 'a" where
  "connected srv url =
     (if database_of url = [] then Inl NamesNoDatabase
      else (case srv (database_of url) of None \<Rightarrow> Inl PsqlFailed | Some db \<Rightarrow> Inr db))"

definition drop_database :: "string \<Rightarrow> string \<Rightarrow> 'a server \<Rightarrow> stop + 'a server" where
  "drop_database url name srv =
     (case connected srv url of
        Inl e \<Rightarrow> Inl e
      | Inr _ \<Rightarrow> if name = [] \<or> name = database_of url then Inl PsqlFailed else Inr (srv(name := None)))"

definition create_database :: "'a tools \<Rightarrow> string \<Rightarrow> string \<Rightarrow> 'a server \<Rightarrow> stop + 'a server" where
  "create_database t url name srv =
     (case connected srv url of
        Inl e \<Rightarrow> Inl e
      | Inr _ \<Rightarrow> if name = [] \<or> srv name \<noteq> None then Inl PsqlFailed else Inr (srv(name \<mapsto> tl_blank t)))"

text \<open>A blank database under a name, whatever was there before.\<close>

definition recreate :: "'a tools \<Rightarrow> string \<Rightarrow> string \<Rightarrow> 'a server \<Rightarrow> stop + 'a server" where
  "recreate t url name srv = 
     (case drop_database url name srv of Inl e \<Rightarrow> Inl e | Inr srv1 \<Rightarrow> create_database t url name srv1)"

definition load_into :: "'a tools \<Rightarrow> bool \<Rightarrow> string \<Rightarrow> string \<Rightarrow> 'a server \<Rightarrow> (stop + bool) \<times> 'a server" where
  "load_into t strict dump url srv =
     (let name = database_of url in
      if name = [] then (Inl NamesNoDatabase, srv)
      else
        (case srv name of
           None \<Rightarrow> (Inr False, srv)
         | Some db \<Rightarrow> (let (db', ok) = tl_load t strict dump db in (Inr ok, srv(name \<mapsto> db')))))"

definition revision_at :: "'a tools \<Rightarrow> string \<Rightarrow> 'a server \<Rightarrow> stop + string" where
  "revision_at t url srv =
     (case connected srv url of
        Inl e \<Rightarrow> Inl e
      | Inr db \<Rightarrow> (case tl_revision t db of None \<Rightarrow> Inl PsqlFailed | Some r \<Rightarrow> Inr (str_strip r)))"

definition counts_at :: "'a tools \<Rightarrow> string \<Rightarrow> 'a server \<Rightarrow> (string \<times> int) list" where
  "counts_at t url srv =
     (case connected srv url of Inl _ \<Rightarrow> map (\<lambda>table. (table, -1)) COUNTED_TABLES | Inr db \<Rightarrow> row_counts t db)"

section \<open>Verification\<close>

text \<open>\<open>count < 0\<close> raises on what is no number; a table that the manifest does not know is not compared.\<close>

definition count_differs :: "(string \<times> int) list \<Rightarrow> string \<times> json \<Rightarrow> py_exc + bool" where
  "count_differs actual = (\<lambda>(table, v).
     (case v of
        JInt n \<Rightarrow> Inr (n \<ge> 0 \<and> map_of actual table \<noteq> Some n)
      | JBool b \<Rightarrow> Inr (map_of actual table \<noteq> Some (of_bool b))
      | _ \<Rightarrow> Inl TypeErr))"

fun counts_differ :: "(string \<times> int) list \<Rightarrow> dict \<Rightarrow> py_exc + bool" where
  "counts_differ actual [] = Inr False"
| "counts_differ actual (e # es) =
     (case count_differs actual e of
        Inl x \<Rightarrow> Inl x
      | Inr b \<Rightarrow> map_sum id (\<lambda>c. b \<or> c) (counts_differ actual es))"

text \<open>\<open>manifest.get("row_counts", {}).items()\<close>\<close>

definition expected_counts :: "dict \<Rightarrow> py_exc + dict" where
  "expected_counts m =
     (case map_of m ''row_counts'' of
        None \<Rightarrow> Inr []
      | Some (JObj d) \<Rightarrow> Inr d
      | Some _ \<Rightarrow> Inl AttributeError)"

datatype verdict = Stopped stop | Crashed py_exc | Verified int

definition compare_restored :: "'a tools \<Rightarrow> string \<Rightarrow> dict \<Rightarrow> 'a server \<Rightarrow> verdict + bool" where
  "compare_restored t url m srv =
     (case expected_counts m of
        Inl x \<Rightarrow> Inl (Crashed x)
      | Inr expected \<Rightarrow>
          (case counts_differ (counts_at t url srv) expected of
             Inl x \<Rightarrow> Inl (Crashed x)
           | Inr differ \<Rightarrow>
               (case revision_at t url srv of
                  Inl e \<Rightarrow> Inl (Stopped e)
                | Inr revision \<Rightarrow> Inr (differ \<or> JStr revision \<noteq> dget m ''schema_revision''))))"

text \<open>A key of the environment other than the one that the manifest records.\<close>

definition wrong_key :: "'a tools \<Rightarrow> environ \<Rightarrow> dict \<Rightarrow> bool" where
  "wrong_key t env m =
     (truthy (dget m ''encryption_key_fingerprint'') \<and>
      (case key_fingerprint t env of None \<Rightarrow> False | Some f \<Rightarrow> dget m ''encryption_key_fingerprint'' \<noteq> JStr f))"

definition do_verify :: "'a tools \<Rightarrow> environ \<Rightarrow> string \<Rightarrow> bool \<Rightarrow> bool \<Rightarrow> string option \<Rightarrow> dict option \<Rightarrow> 'a server
    \<Rightarrow> verdict \<times> 'a server" where
  "do_verify t env scratch strict keep dump manifest srv =
     (case checked_dump t dump manifest of
        Inl e \<Rightarrow> (Stopped e, srv)
      | Inr (bytes, m) \<Rightarrow>
          (let url = env_get env ''DATABASE_URL''; admin = swap_database ''postgres'' url; target = swap_database scratch url in
           if url = [] then (Stopped NoDatabaseUrl, srv)
           else
             (case recreate t admin scratch srv of
                Inl e \<Rightarrow> (Stopped e, srv)
              | Inr srv1 \<Rightarrow>
                  (case load_into t strict bytes target srv1 of
                     (Inl e, srv2) \<Rightarrow> (Stopped e, srv2)
                   | (Inr ok, srv2) \<Rightarrow>
                       if strict \<and> \<not> ok then (Stopped RestoreFailed, srv2)
                       else
                         (case compare_restored t target m srv2 of
                            Inl v \<Rightarrow> (v, srv2)
                          | Inr problems \<Rightarrow>
                              (case (if keep then Inr srv2 else drop_database admin scratch srv2) of
                                 Inl e \<Rightarrow> (Stopped e, srv2)
                               | Inr srv3 \<Rightarrow> (Verified (if problems \<or> wrong_key t env m then 1 else 0), srv3)))))))"

section \<open>Restore\<close>

subsection \<open>The head of the migrations\<close>

definition quoted_text :: "string \<Rightarrow> string option" where
  "quoted_text s =
     (if s \<noteq> [] \<and> hd s \<in> {CHR 0x27, CHR 0x22} then
        (let r = takeWhile (\<lambda>c. c \<notin> {CHR 0x27, CHR 0x22}) (tl s) in if r \<noteq> [] \<and> length r < length (tl s) then Some r else None)
      else None)"

definition revision_line :: "string \<Rightarrow> string option" where
  "revision_line s = (if starts_with s ''revision: str = '' then quoted_text (drop 16 s) else None)"

definition down_line :: "string \<Rightarrow> string option option" where
  "down_line s =
     (if starts_with s ''down_revision: str | None = '' then
        (case quoted_text (drop 28 s) of
           Some r \<Rightarrow> Some (Some r)
         | None \<Rightarrow> if starts_with (drop 28 s) ''None'' then Some None else None)
      else None)"

definition migration_of :: "string \<Rightarrow> (string \<times> string option) option" where
  "migration_of text =
     map_option (\<lambda>r. (r, Option.bind (search_lines down_line True text) id)) (search_lines revision_line True text)"

text \<open>The revisions that no other names as its parent; \<open>dict\<close> keeps the last entry of a revision.\<close>

definition heads_of :: "(string \<times> string option) list \<Rightarrow> string list" where
  "heads_of ms =
     (let table = map_of (rev ms); revisions = rev (remdups (rev (map fst ms))) in
      filter (\<lambda>r. \<forall>q \<in> set revisions. table q \<noteq> Some (Some r)) revisions)"

definition head_revision :: "string list option \<Rightarrow> string option" where
  "head_revision versions =
     (case versions of
        None \<Rightarrow> None
      | Some texts \<Rightarrow> (case heads_of (List.map_filter migration_of texts) of [r] \<Rightarrow> Some r | _ \<Rightarrow> None))"

subsection \<open>Into a named database\<close>

record restore_args =
  ro_into :: string
  ro_overwrite :: bool
  ro_ignore_revision :: bool

definition manifest_fits :: "'a tools \<Rightarrow> environ \<Rightarrow> string option \<Rightarrow> restore_args \<Rightarrow> dict \<Rightarrow> stop + unit" where
  "manifest_fits t env head a m =
     (if text_or_empty head \<noteq> [] \<and> dget m ''schema_revision'' \<noteq> JStr (text_or_empty head) \<and> \<not> ro_ignore_revision a
      then Inl OtherRevision
      else if wrong_key t env m then Inl OtherKey
      else Inr ())"

text \<open>The database is looked up, dropped when it is there, and created.\<close>

definition make_target :: "'a tools \<Rightarrow> string \<Rightarrow> restore_args \<Rightarrow> 'a server \<Rightarrow> stop + 'a server" where
  "make_target t admin a srv =
     (case connected srv admin of
        Inl e \<Rightarrow> Inl e
      | Inr _ \<Rightarrow>
          if srv (ro_into a) = None then create_database t admin (ro_into a) srv
          else if \<not> ro_overwrite a then Inl TargetExists
          else recreate t admin (ro_into a) srv)"

definition restore :: "'a tools \<Rightarrow> environ \<Rightarrow> string option \<Rightarrow> restore_args \<Rightarrow> string option \<Rightarrow> dict option \<Rightarrow> 'a server
    \<Rightarrow> (stop + unit) \<times> 'a server" where
  "restore t env head a dump manifest srv =
     (let url = env_get env ''DATABASE_URL''; target = swap_database (ro_into a) url in
      if url = [] then (Inl NoDatabaseUrl, srv)
      else
        (case checked_dump t dump manifest of
           Inl e \<Rightarrow> (Inl e, srv)
         | Inr (bytes, m) \<Rightarrow>
             (case manifest_fits t env head a m of
                Inl e \<Rightarrow> (Inl e, srv)
              | Inr _ \<Rightarrow>
                  (case make_target t (swap_database ''postgres'' url) a srv of
                     Inl e \<Rightarrow> (Inl e, srv)
                   | Inr srv1 \<Rightarrow>
                       (case load_into t True bytes target srv1 of
                          (Inl e, srv2) \<Rightarrow> (Inl e, srv2)
                        | (Inr ok, srv2) \<Rightarrow>
                            if \<not> ok then (Inl RestoreFailed, srv2)
                            else (case revision_at t target srv2 of Inl e \<Rightarrow> (Inl e, srv2) | Inr _ \<Rightarrow> (Inr (), srv2)))))))"

section \<open>The database that an address names\<close>

definition server_url :: "string \<Rightarrow> string \<Rightarrow> string \<Rightarrow> string \<Rightarrow> string" where
  "server_url driver netloc db query = ''postgresql'' @ driver @ ''://'' @ netloc @ CHR ''/'' # db @ query"

text \<open>Characters that neither end a part of an address nor are dropped from it.\<close>

definition unbroken :: "char \<Rightarrow> bool" where
  "unbroken c = (c \<notin> {CHR 0x09, CHR 0x0A, CHR 0x0D})"

definition part_char :: "char \<Rightarrow> bool" where
  "part_char c = (unbroken c \<and> c \<noteq> CHR ''/'' \<and> c \<noteq> CHR ''?'' \<and> c \<noteq> CHR ''#'')"

definition url_part :: "string \<Rightarrow> bool" where
  "url_part s = (s \<noteq> [] \<and> list_all part_char s)"

definition plain_query :: "string \<Rightarrow> bool" where
  "plain_query q = (q = [] \<or> hd q = CHR ''?'' \<and> list_all (\<lambda>c. unbroken c \<and> c \<noteq> CHR ''/'') q)"

definition plain_driver :: "string \<Rightarrow> bool" where
  "plain_driver d = (d = [] \<or> hd d = CHR ''+'' \<and> tl d \<noteq> [] \<and> list_all word_char (tl d))"

lemma swap_database_skips:
  assumes "CHR ''/'' \<notin> set s"
  shows "swap_database name (s @ rest) = s @ swap_database name rest"
  using assms by (induction s) auto

declare swap_database.simps [simp del]

lemma swap_database_segment:
  assumes "CHR ''/'' \<notin> set s" "CHR ''?'' \<notin> set s"
  shows "swap_database name (CHR ''/'' # s @ CHR ''/'' # rest) = CHR ''/'' # s @ swap_database name (CHR ''/'' # rest)"
proof -
  have "takeWhile (\<lambda>c. c \<noteq> CHR ''/'' \<and> c \<noteq> CHR ''?'') (s @ CHR ''/'' # rest) = s"
    using assms by (subst takeWhile_append2) auto
  then show ?thesis
    using swap_database_skips [OF assms(1), of name "CHR ''/'' # rest"]
    by (subst swap_database.simps) (simp add: Let_def)
qed

lemma takeWhile_stops:
  assumes "list_all P xs" "ys = [] \<or> \<not> P (hd ys)"
  shows "takeWhile P (xs @ ys) = xs" and "dropWhile P (xs @ ys) = ys"
proof -
  have xs: "\<forall>x \<in> set xs. P x"
    using assms(1) by (simp add: list_all_iff)
  have "takeWhile P ys = []" "dropWhile P ys = ys"
    using assms(2) by (cases ys; simp)+
  then show "takeWhile P (xs @ ys) = xs" "dropWhile P (xs @ ys) = ys"
    using xs by (simp_all add: takeWhile_append2 dropWhile_append2)
qed

lemma url_part_D:
  assumes "url_part s"
  shows "s \<noteq> []" "CHR ''/'' \<notin> set s" "CHR ''?'' \<notin> set s" "list_all part_char s" "list_all unbroken s"
  using assms by (auto simp: url_part_def list_all_iff part_char_def)

lemma plain_query_cases:
  assumes "plain_query q"
  obtains "q = []" | r where "q = CHR ''?'' # r" "CHR ''/'' \<notin> set r" "list_all unbroken r"
  using assms by (cases q) (auto simp: plain_query_def list_all_iff)

lemma swap_database_last:
  assumes "url_part db" "plain_query query"
  shows "swap_database name (CHR ''/'' # db @ query) = CHR ''/'' # name @ query"
proof -
  note db = url_part_D [OF assms(1)]
  have s: "list_all (\<lambda>c. c \<noteq> CHR ''/'' \<and> c \<noteq> CHR ''?'') db"
    using db by (auto simp: list_all_iff)
  show ?thesis
    using assms(2)
  proof (cases rule: plain_query_cases)
    case 1
    have "takeWhile (\<lambda>c. c \<noteq> CHR ''/'' \<and> c \<noteq> CHR ''?'') db = db"
      using takeWhile_stops(1) [OF s, of "[]"] by simp
    then show ?thesis
      using db 1 by (subst swap_database.simps) (simp add: Let_def swap_database.simps(1) del: takeWhile_eq_all_conv)
  next
    case (2 r)
    have "takeWhile (\<lambda>c. c \<noteq> CHR ''/'' \<and> c \<noteq> CHR ''?'') (db @ CHR ''?'' # r) = db"
      using takeWhile_stops(1) [OF s, of "CHR ''?'' # r"] by simp
    moreover have "swap_database name r = r"
      using swap_database_skips [OF 2(2), of name "[]"] by (simp add: swap_database.simps(1))
    ultimately show ?thesis
      using db(1) unfolding 2(1) by (subst swap_database.simps) (simp add: Let_def)
  qed
qed

lemma word_char_part: "word_char c \<Longrightarrow> part_char c \<and> c \<noteq> CHR '':''"
proof -
  have "\<not> word_char (CHR ''/'')" "\<not> word_char (CHR ''?'')" "\<not> word_char (CHR ''#'')" "\<not> word_char (CHR '':'')"
    "\<not> word_char (CHR 0x09)" "\<not> word_char (CHR 0x0A)" "\<not> word_char (CHR 0x0D)"
    by code_simp+
  then show "word_char c \<Longrightarrow> part_char c \<and> c \<noteq> CHR '':''"
    by (auto simp: part_char_def unbroken_def)
qed

lemma plain_driver_part: "plain_driver d \<Longrightarrow> list_all part_char d"
  using word_char_part by (cases d) (auto simp: plain_driver_def part_char_def unbroken_def list_all_iff)

lemma swap_database_server_url:
  assumes "plain_driver driver" "url_part netloc" "url_part db" "plain_query query"
  shows "swap_database name (server_url driver netloc db query) = server_url driver netloc name query"
proof -
  have a: "CHR ''/'' \<notin> set driver"
    using plain_driver_part [OF assms(1)] by (auto simp: part_char_def list_all_iff)
  have "swap_database name (server_url driver netloc db query)
    = ''postgresql'' @ driver @ '':'' @ swap_database name (CHR ''/'' # [] @ CHR ''/'' # netloc @ CHR ''/'' # db @ query)"
    using swap_database_skips [of "''postgresql'' @ driver @ '':''" name] a by (simp add: server_url_def)
  also have "\<dots> = server_url driver netloc name query"
    unfolding swap_database_segment [of "[]", simplified]
    using swap_database_segment [OF url_part_D(2,3) [OF assms(2)], of name "db @ query"] swap_database_last [OF assms(3,4)]
    by (simp add: server_url_def swap_database_segment [of "[]", simplified])
  finally show ?thesis .
qed

lemma scheme_parts:
  "after_scheme (''postgresql://'' @ rest) = ''//'' @ rest"
  by (simp add: after_scheme_def scheme_char_def) code_simp

lemma server_url_characters:
  assumes "plain_driver driver" "url_part netloc" "url_part db" "plain_query query"
  shows "filter (\<lambda>c. c \<notin> {CHR 0x09, CHR 0x0A, CHR 0x0D}) (server_url driver netloc db query) = server_url driver netloc db query"
proof -
  have "list_all unbroken driver"
    using plain_driver_part [OF assms(1)] by (auto simp: part_char_def list_all_iff)
  moreover have "list_all unbroken netloc" "list_all unbroken db"
    using assms(2,3) by (simp_all add: url_part_D)
  moreover have "list_all unbroken query"
    using assms(4) by (cases rule: plain_query_cases) (simp_all add: unbroken_def)
  moreover have "list_all unbroken ''postgresql''" "list_all unbroken ''://''" "unbroken (CHR ''/'')"
    by (simp_all add: unbroken_def)
  ultimately have "list_all unbroken (server_url driver netloc db query)"
    unfolding server_url_def by (simp only: list_all_append list.pred_inject)
  then have "filter unbroken (server_url driver netloc db query) = server_url driver netloc db query"
    by (simp only: filter_id_conv list_all_iff)
  then show ?thesis
    by (simp only: unbroken_def [abs_def])
qed

lemma without_dialect_server_url:
  assumes "plain_driver driver"
  shows "without_dialect (server_url driver netloc db query) = server_url [] netloc db query"
proof (cases driver)
  case Nil
  then show ?thesis
    by (simp add: without_dialect_def server_url_def starts_with_def eval_nat_numeral)
next
  case (Cons c w)
  have w: "c = CHR ''+''" "w \<noteq> []" "list_all word_char w"
    using assms Cons by (auto simp: plain_driver_def)
  have colon: "\<not> word_char (CHR '':'')"
    by code_simp
  let ?rest = "''://'' @ netloc @ CHR ''/'' # db @ query"
  have u: "server_url driver netloc db query = ''postgresql+'' @ w @ ?rest"
    using w(1) Cons by (simp add: server_url_def)
  have d: "drop (11 + n) (''postgresql+'' @ s) = drop n s" "take 11 (''postgresql+'' @ s) = ''postgresql+''" for n s
    unfolding drop_append take_append by simp_all
  have "takeWhile word_char (w @ ?rest) = w"
    using takeWhile_stops(1) [OF w(3), of ?rest] colon by simp
  then have "without_dialect (server_url driver netloc db query) = ''postgresql'' @ ?rest"
    using w(2) d(1) [of 0] d(1) [of "length w" "w @ ?rest"] d(2) unfolding u without_dialect_def Let_def
    by (simp add: starts_with_def)
  then show ?thesis
    by (simp add: server_url_def)
qed

lemma database_of_server_url:
  assumes "plain_driver driver" "url_part netloc" "url_part db" "plain_query query"
  shows "database_of (server_url driver netloc db query) = db"
proof -
  note db = url_part_D [OF assms(3)] and net = url_part_D [OF assms(2)]
  have "url_path (server_url [] netloc db query) = CHR ''/'' # db"
  proof -
    have "dropWhile (\<lambda>c. of_char c \<le> (32 :: nat)) (server_url [] netloc db query) = server_url [] netloc db query"
      by (simp add: server_url_def)
    moreover have "server_url [] netloc db query = ''postgresql://'' @ netloc @ CHR ''/'' # db @ query"
      by (simp add: server_url_def)
    moreover have "dropWhile (\<lambda>c. c \<notin> set ''/?#'') (netloc @ CHR ''/'' # db @ query) = CHR ''/'' # db @ query"
      using net(4) by (intro takeWhile_stops(2)) (auto simp: part_char_def list_all_iff)
    moreover have "takeWhile (\<lambda>c. c \<notin> set ''?#'') ((CHR ''/'' # db) @ query) = CHR ''/'' # db"
    proof (rule takeWhile_stops(1))
      show "list_all (\<lambda>c. c \<notin> set ''?#'') (CHR ''/'' # db)"
        using db(4) by (auto simp: part_char_def list_all_iff)
      show "query = [] \<or> \<not> hd query \<notin> set ''?#''"
        using assms(4) by (cases rule: plain_query_cases) simp_all
    qed
    ultimately show ?thesis
      using server_url_characters [of "[]" netloc db query] assms scheme_parts [of "netloc @ CHR ''/'' # db @ query"]
      by (simp only: url_path_def Let_def) (simp add: starts_with_def plain_driver_def)
  qed
  moreover have "dropWhile (\<lambda>c. c = CHR ''/'') db = db"
    using db(1,2) by (cases db) auto
  ultimately show ?thesis
    by (simp add: database_of_def without_dialect_server_url [OF assms(1)])
qed

section \<open>Backups come back\<close>

text \<open>What \<open>pg_restore\<close> promises of a dump of \<open>pg_dump\<close>, in a blank database.\<close>

definition faithful_tools :: "'a tools \<Rightarrow> bool" where
  "faithful_tools t \<longleftrightarrow> (\<forall>strict db. tl_load t strict (tl_dump t db) (tl_blank t) = (db, True))"

lemma counts_of_same_rows:
  assumes "distinct (map fst rows)" "set part \<subseteq> set rows"
  shows "counts_differ rows (map (\<lambda>(table, n). (table, JInt n)) part) = Inr False"
  using assms(2)
proof (induction part)
  case (Cons e part)
  obtain table n where e: "e = (table, n)"
    by (cases e) auto
  have "map_of rows table = Some n"
    using Cons.prems assms(1) e by (simp add: map_of_is_SomeI)
  then show ?case
    using Cons e by (simp add: count_differs_def)
qed simp

lemma row_counts_distinct: "distinct (map fst (row_counts t db))"
proof -
  have "map fst (row_counts t db) = COUNTED_TABLES"
    by (simp add: row_counts_def COUNTED_TABLES_def)
  then show ?thesis
    by (simp add: COUNTED_TABLES_def)
qed

lemma manifest_fields:
  "dget (manifest_of t env db revision dump) ''dump_sha256'' = JStr (tl_sha256 t dump)"
  "expected_counts (manifest_of t env db revision dump) = Inr (map (\<lambda>(table, n). (table, JInt n)) (row_counts t db))"
  "dget (manifest_of t env db revision dump) ''encryption_key_fingerprint''
     = (case key_fingerprint t env of None \<Rightarrow> JNull | Some f \<Rightarrow> JStr f)"
  "revision \<noteq> [] \<Longrightarrow> dget (manifest_of t env db revision dump) ''schema_revision'' = JStr revision"
  by (simp_all add: manifest_of_def dget_def expected_counts_def)

lemma manifest_key:
  "key_fingerprint t env' \<in> {None, key_fingerprint t env} \<Longrightarrow> \<not> wrong_key t env' (manifest_of t env db revision dump)"
  by (auto simp: wrong_key_def manifest_fields split: option.splits)

text \<open>A server that \<open>DATABASE_URL\<close> reaches, and a name for another database on it.\<close>

definition reaches :: "environ \<Rightarrow> 'a server \<Rightarrow> bool" where
  "reaches env srv \<longleftrightarrow>
     (\<exists>driver netloc db query. env_get env ''DATABASE_URL'' = server_url driver netloc db query \<and>
        plain_driver driver \<and> url_part netloc \<and> url_part db \<and> plain_query query) \<and>
     srv ''postgres'' \<noteq> None"

definition usable_name :: "string \<Rightarrow> bool" where
  "usable_name name \<longleftrightarrow> url_part name \<and> name \<noteq> ''postgres''"

lemma addresses_on_server:
  assumes "reaches env srv"
  shows "env_get env ''DATABASE_URL'' \<noteq> []"
    and "url_part name \<Longrightarrow> database_of (swap_database name (env_get env ''DATABASE_URL'')) = name"
proof -
  obtain driver netloc db query where u: "env_get env ''DATABASE_URL'' = server_url driver netloc db query"
    and p: "plain_driver driver" "url_part netloc" "url_part db" "plain_query query"
    using assms by (auto simp: reaches_def)
  show "env_get env ''DATABASE_URL'' \<noteq> []"
    unfolding u by (simp add: server_url_def)
  show "url_part name \<Longrightarrow> database_of (swap_database name (env_get env ''DATABASE_URL'')) = name"
    unfolding u swap_database_server_url [OF p] using p by (simp add: database_of_server_url)
qed

lemma admin_statements:
  assumes "reaches env srv" "usable_name name"
  defines "admin \<equiv> swap_database ''postgres'' (env_get env ''DATABASE_URL'')"
  shows "connected srv admin = Inr (the (srv ''postgres''))"
    and "drop_database admin name srv = Inr (srv(name := None))"
    and "srv name = None \<Longrightarrow> create_database t admin name srv = Inr (srv(name \<mapsto> tl_blank t))"
    and "recreate t admin name srv = Inr (srv(name \<mapsto> tl_blank t))"
proof -
  have p: "url_part ''postgres''"
    by (simp add: url_part_def part_char_def unbroken_def)
  have a: "database_of admin = ''postgres''" "srv ''postgres'' \<noteq> None"
    using addresses_on_server(2) [OF assms(1) p] assms(1) by (simp_all add: admin_def reaches_def)
  have n: "name \<noteq> []" "name \<noteq> ''postgres''"
    using assms(2) by (auto simp: usable_name_def url_part_def)
  have c: "connected srv' admin = Inr (the (srv ''postgres''))" if "srv' ''postgres'' = srv ''postgres''" for srv'
    using a that by (auto simp: connected_def)
  show "connected srv admin = Inr (the (srv ''postgres''))"
    by (simp add: c)
  show "drop_database admin name srv = Inr (srv(name := None))"
    using a n by (simp add: drop_database_def c)
  show "srv name = None \<Longrightarrow> create_database t admin name srv = Inr (srv(name \<mapsto> tl_blank t))"
    using n by (simp add: create_database_def c)
  show "recreate t admin name srv = Inr (srv(name \<mapsto> tl_blank t))"
    using a n c [of "srv(name := None)"] by (simp add: recreate_def drop_database_def create_database_def c)
qed

lemma loaded_dump:
  assumes "faithful_tools t" "reaches env srv" "usable_name name" "srv name = Some (tl_blank t)"
  defines "target \<equiv> swap_database name (env_get env ''DATABASE_URL'')"
  shows "load_into t strict (tl_dump t db) target srv = (Inr True, srv(name \<mapsto> db))"
    and "connected (srv(name \<mapsto> db)) target = Inr db"
  using assms(1,3,4) addresses_on_server(2) [OF assms(2), of name]
  by (auto simp: load_into_def connected_def target_def faithful_tools_def usable_name_def url_part_def Let_def)

lemma reaches_update: "usable_name name \<Longrightarrow> reaches env (srv(name := x)) \<longleftrightarrow> reaches env srv"
  by (auto simp: reaches_def usable_name_def)

lemma backup_contents:
  assumes "do_backup t env srv = Inr (dump, m)" "reaches env srv" "srv (database_of (env_get env ''DATABASE_URL'')) = Some db"
  obtains r where "tl_revision t db = Some r" "dump = tl_dump t db" "m = manifest_of t env db (str_strip r) dump"
  using assms by (auto simp: do_backup_def Let_def split: if_splits option.splits)

lemma backup_passes_verification:
  assumes "faithful_tools t" "tl_revision t db = Some r" "str_strip r \<noteq> []"
    and "key_fingerprint t env' \<in> {None, key_fingerprint t env}" "reaches env' srv'" "usable_name into"
  shows "do_verify t env' into strict False (Some (tl_dump t db)) (Some (manifest_of t env db (str_strip r) (tl_dump t db))) srv'
    = (Verified 0, srv'(into := None))"
proof -
  let ?m = "manifest_of t env db (str_strip r) (tl_dump t db)"
  let ?srv = "srv'(into \<mapsto> tl_blank t)" and ?url = "swap_database into (env_get env' ''DATABASE_URL'')"
  have reach: "reaches env' ?srv" "reaches env' (?srv(into \<mapsto> db))"
    using assms(5,6) by (simp_all add: reaches_update)
  note load = loaded_dump [OF assms(1) reach(1) assms(6)]
  have c: "connected (?srv(into \<mapsto> db)) ?url = Inr db"
    by (rule load(2)) simp
  have "compare_restored t ?url ?m (?srv(into \<mapsto> db)) = Inr False"
    unfolding compare_restored_def counts_at_def revision_at_def c
    using assms(2,3) by (simp add: manifest_fields counts_of_same_rows [OF row_counts_distinct])
  then show ?thesis
    using load(1) addresses_on_server(1) [OF assms(5)] admin_statements(4) [OF assms(5,6), of t]
      admin_statements(2) [OF reach(2) assms(6)] manifest_key [OF assms(4), of db "str_strip r" "tl_dump t db"]
    by (simp add: do_verify_def checked_dump_def manifest_fields Let_def)
qed

lemma backup_restores:
  assumes "faithful_tools t" "tl_revision t db = Some r" "str_strip r \<noteq> []"
    and "key_fingerprint t env' \<in> {None, key_fingerprint t env}" "reaches env' srv'" "usable_name (ro_into a)"
    and "head \<in> {None, Some (str_strip r)} \<or> ro_ignore_revision a" "srv' (ro_into a) = None \<or> ro_overwrite a"
  shows "restore t env' head a (Some (tl_dump t db)) (Some (manifest_of t env db (str_strip r) (tl_dump t db))) srv'
    = (Inr (), srv'(ro_into a \<mapsto> db))"
proof -
  let ?m = "manifest_of t env db (str_strip r) (tl_dump t db)" and ?into = "ro_into a"
  let ?srv = "srv'(?into \<mapsto> tl_blank t)" and ?url = "swap_database ?into (env_get env' ''DATABASE_URL'')"
  have reach: "reaches env' ?srv"
    using assms(5,6) by (simp add: reaches_update)
  note load = loaded_dump [OF assms(1) reach assms(6)]
  have c: "connected (?srv(?into \<mapsto> db)) ?url = Inr db"
    by (rule load(2)) simp
  have fits: "manifest_fits t env' head a ?m = Inr ()"
    using assms(3,7) manifest_key [OF assms(4), of db "str_strip r" "tl_dump t db"]
    by (auto simp: manifest_fits_def manifest_fields text_or_empty_def)
  have made: "make_target t (swap_database ''postgres'' (env_get env' ''DATABASE_URL'')) a srv' = Inr ?srv"
    using assms(8) admin_statements [OF assms(5,6)] by (auto simp: make_target_def)
  show ?thesis
    using load(1) c assms(2) addresses_on_server(1) [OF assms(5)] fits made
    by (simp add: restore_def checked_dump_def manifest_fields revision_at_def Let_def)
qed


definition sample_tools :: "string tools" where
  "sample_tools = \<lparr>tl_dump = (\<lambda>db. CHR ''D'' # db), tl_load = (\<lambda>_ dump _. (tl dump, True)), tl_blank = [],
     tl_count = (\<lambda>db table. if table = ''users'' then Some (int (length db)) else None), tl_revision = (\<lambda>_. Some ''7c1''),
     tl_sha256 = rev\<rparr>"

definition sample_env :: environ where
  "sample_env = [''DATABASE_URL'' \<mapsto> server_url ''+asyncpg'' ''u:p@db:5432'' ''app'' [], ''SECRET_ENCRYPTION_KEY'' \<mapsto> ''k1'']"

definition sample_server :: "string server" where
  "sample_server = [''postgres'' \<mapsto> [], ''app'' \<mapsto> ''data'']"

lemma sample_facts:
  "faithful_tools sample_tools" "reaches sample_env sample_server"
  "database_of (env_get sample_env ''DATABASE_URL'') = ''app''" "sample_server ''app'' = Some ''data''"
  "do_backup sample_tools sample_env sample_server = Inr (''Ddata'', manifest_of sample_tools sample_env ''data'' ''7c1'' ''Ddata'')"
  "usable_name ''copy''"
proof -
  have p: "plain_driver ''+asyncpg''" "url_part ''u:p@db:5432''" "url_part ''app''" "plain_query []"
    by code_simp+
  have u: "env_get sample_env ''DATABASE_URL'' = server_url ''+asyncpg'' ''u:p@db:5432'' ''app'' []"
    by (simp add: env_get_def sample_env_def text_or_empty_def)
  show "faithful_tools sample_tools"
    by (simp add: faithful_tools_def sample_tools_def)
  show "reaches sample_env sample_server"
    unfolding reaches_def u using p by (auto simp: sample_server_def)
  show d: "database_of (env_get sample_env ''DATABASE_URL'') = ''app''"
    unfolding u using p by (rule database_of_server_url)
  show "sample_server ''app'' = Some ''data''"
    by (simp add: sample_server_def)
  moreover have "env_get sample_env ''DATABASE_URL'' \<noteq> []" "str_strip ''7c1'' = ''7c1''"
    unfolding u by code_simp+
  ultimately show "do_backup sample_tools sample_env sample_server =
    Inr (''Ddata'', manifest_of sample_tools sample_env ''data'' ''7c1'' ''Ddata'')"
    by (simp add: do_backup_def d sample_tools_def Let_def)
  show "usable_name ''copy''"
    by code_simp
qed


text \<open>The scratch name is not guarded: a verification that is given the name of the live database passes, and drops that database.\<close>

lemma verification_drops_the_live_database:
  "do_verify sample_tools sample_env ''app'' True False (Some ''Ddata'') (Some (manifest_of sample_tools sample_env ''data'' ''7c1'' ''Ddata''))
     sample_server = (Verified 0, [''postgres'' \<mapsto> []])"
proof -
  have "usable_name ''app''" "str_strip ''7c1'' = ''7c1''"
    by code_simp+
  then have "do_verify sample_tools sample_env ''app'' True False (Some ''Ddata'') (Some (manifest_of sample_tools sample_env ''data'' ''7c1'' ''Ddata''))
     sample_server = (Verified 0, sample_server(''app'' := None))"
    using backup_passes_verification [OF sample_facts(1), of "''data''" "''7c1''" sample_env sample_env sample_server "''app''" True] sample_facts(2)
    by (simp add: sample_tools_def)
  then show ?thesis
    by (simp add: sample_server_def)
qed

section \<open>Restores are guarded\<close>

lemma load_into_target:
  assumes "reaches env srv0" "url_part name" "load_into t strict dump (swap_database name (env_get env ''DATABASE_URL'')) srv = (res, srv')"
    and "other \<noteq> name"
  shows "srv' other = srv other"
  using assms(3,4) addresses_on_server(2) [OF assms(1,2)]
  by (auto simp: load_into_def Let_def split: if_splits option.splits prod.splits)

text \<open>C35: A restore that is refused, for whatever reason, leaves the server as it was. One that changes anything changes its target alone,
  and only after the dump matched its checksum, the manifest named the revision of the checkout (or that check was waived) and no
  other key, and the target was free or overwriting it was asked for.\<close>

theorem restore_is_guarded:
  assumes "reaches env srv" "usable_name (ro_into a)" "restore t env head a dump manifest srv = (res, srv')" "srv' \<noteq> srv"
  shows "(\<forall>name. name \<noteq> ro_into a \<longrightarrow> srv' name = srv name) \<and>
    (srv (ro_into a) = None \<or> ro_overwrite a) \<and>
    (\<exists>bytes m. dump = Some bytes \<and> manifest = Some m \<and> dget m ''dump_sha256'' = JStr (tl_sha256 t bytes) \<and>
       (\<forall>r. head = Some r \<longrightarrow> r \<noteq> [] \<longrightarrow> dget m ''schema_revision'' = JStr r \<or> ro_ignore_revision a) \<and>
       \<not> wrong_key t env m)"
proof -
  let ?url = "env_get env ''DATABASE_URL''"
  obtain bytes m srv1 where c: "checked_dump t dump manifest = Inr (bytes, m)" "manifest_fits t env head a m = Inr ()"
    "make_target t (swap_database ''postgres'' ?url) a srv = Inr srv1"
    and l: "snd (load_into t True bytes (swap_database (ro_into a) ?url) srv1) = srv'"
    using assms(3,4) by (auto simp: restore_def Let_def split: if_splits sum.splits prod.splits)
  have made: "srv1 = srv(ro_into a \<mapsto> tl_blank t)" "srv (ro_into a) = None \<or> ro_overwrite a"
    using c(3) admin_statements [OF assms(1,2)] by (auto simp: make_target_def split: if_splits)
  have "srv' name = srv name" if "name \<noteq> ro_into a" for name
    using load_into_target [OF assms(1), of "ro_into a" t True bytes srv1 _ srv' name] l that assms(2)
    by (cases "load_into t True bytes (swap_database (ro_into a) ?url) srv1") (simp add: made usable_name_def)
  then show ?thesis
    using made(2) c(1,2) by (auto simp: checked_dump_def manifest_fits_def text_or_empty_def split: option.splits if_splits)
qed

theorem restore_is_guarded_witness:
  "snd (restore sample_tools sample_env (Some ''7c1'') \<lparr>ro_into = ''copy'', ro_overwrite = False, ro_ignore_revision = False\<rparr>
     (Some ''Ddata'') (Some (manifest_of sample_tools sample_env ''data'' ''7c1'' ''Ddata'')) sample_server) ''app'' = Some ''data''"
proof -
  let ?a = "\<lparr>ro_into = ''copy'', ro_overwrite = False, ro_ignore_revision = False\<rparr>"
  let ?r = "restore sample_tools sample_env (Some ''7c1'') ?a (Some ''Ddata'')
    (Some (manifest_of sample_tools sample_env ''data'' ''7c1'' ''Ddata'')) sample_server"
  have "str_strip ''7c1'' = ''7c1''"
    by code_simp
  then have r: "?r = (Inr (), sample_server(''copy'' \<mapsto> ''data''))"
    using backup_restores [of sample_tools "''data''" "''7c1''" sample_env sample_env sample_server ?a "Some ''7c1''"] sample_facts
    by (simp add: sample_tools_def) (simp add: sample_server_def)
  have "sample_server(''copy'' \<mapsto> ''data'') \<noteq> sample_server"
    by (auto simp: sample_server_def fun_eq_iff)
  then show ?thesis
    using restore_is_guarded [OF sample_facts(2) _ r, simplified, OF sample_facts(6)] sample_facts(4) by (simp add: r)
qed

section \<open>The migrations of this repository\<close>

text \<open>The lines of the files under \<open>backend/migrations/versions\<close> that the search reads.\<close>

definition revision_lines :: "string \<Rightarrow> string option \<Rightarrow> string" where
  "revision_lines r down =
     (let quoted = (\<lambda>s. CHR 0x27 # s @ [CHR 0x27]) in
      ''revision: str = '' @ quoted r @ CHR 0x0A # ''down_revision: str | None = '' @
        (case down of None \<Rightarrow> ''None'' | Some p \<Rightarrow> quoted p) @ [CHR 0x0A])"

definition versions :: "(string \<times> string option) list" where
  "versions = [(''df842f034dc0'', None), (''b1c4e7a92f10'', Some ''df842f034dc0''), (''c93a5d17be44'', Some ''b1c4e7a92f10''),
     (''d7f21ac6e885'', Some ''c93a5d17be44''), (''e5b0c8d34a71'', Some ''d7f21ac6e885''), (''b4f7e91c3a52'', Some ''e5b0c8d34a71'')]"

lemma migrations_have_one_head:
  "map migration_of (map (\<lambda>(r, down). revision_lines r down) versions) = map Some versions"
  "heads_of versions = [''b4f7e91c3a52'']"
  by code_simp+

lemma head_of_the_repository:
  "head_revision (Some (map (\<lambda>(r, down). revision_lines r down) versions)) = Some ''b4f7e91c3a52''"
proof -
  have f: "List.map_filter f xs = ys" if "map f xs = map Some ys" for f :: "string \<Rightarrow> (string \<times> string option) option" and xs ys
    using that by (induction xs arbitrary: ys) (auto simp: List.map_filter_simps split: option.splits)
  show ?thesis
    by (simp add: head_revision_def f [OF migrations_have_one_head(1)] migrations_have_one_head(2))
qed

end
