(* ===== verification/Install.thy ===== *)
theory Install
  imports Backup
begin

text \<open>
  Bringing a database up to a release: \<open>scripts/schema_drift.py\<close>, whose report the release gate reads, and
  \<open>scripts/install.py\<close>, which checks the configuration, waits for the database and runs three commands in order. What a
  command does to the world, and whether it succeeds, is an argument; so are the answers of the database.
\<close>

section \<open>Drift\<close>

definition UNSTAMPED :: string where
  "UNSTAMPED = ''__unstamped__''"

text \<open>The row of \<open>alembic_version\<close>, \<^const>\<open>Inl\<close> for the text of an exception.\<close>

definition applied_revision :: "string + string option \<Rightarrow> string + string option" where
  "applied_revision answer =
     (case answer of
        Inl message \<Rightarrow>
          if str_contains ''alembic_version'' message \<and> str_contains ''does not exist'' message then Inr (Some UNSTAMPED) else Inl message
      | Inr row \<Rightarrow> Inr row)"

datatype drift_problem = NoMigrationHead | NeverStamped string | Behind "string option" string | SchemaDiffers

definition compare_schema :: "string option \<Rightarrow> string option \<Rightarrow> bool \<Rightarrow> drift_problem list" where
  "compare_schema head applied models_match =
     (case head of
        None \<Rightarrow> [NoMigrationHead]
      | Some h \<Rightarrow> if applied = Some UNSTAMPED then [NeverStamped h] else if applied \<noteq> Some h then [Behind applied h] else []) @
     (if \<not> models_match then [SchemaDiffers] else [])"

definition json_or_null :: "string option \<Rightarrow> json" where
  "json_or_null s = (case s of None \<Rightarrow> JNull | Some t \<Rightarrow> JStr t)"

definition drift_report :: "(drift_problem \<Rightarrow> string) \<Rightarrow> string option \<Rightarrow> string option \<Rightarrow> bool \<Rightarrow> dict" where
  "drift_report wording head applied models_match =
     (let problems = compare_schema head applied models_match in
      [(''ok'', JBool (problems = [])),
       (''head_revision'', json_or_null head),
       (''applied_revision'', if applied = Some UNSTAMPED then JNull else json_or_null applied),
       (''models_match_schema'', JBool models_match),
       (''problems'', JArr (map (\<lambda>p. JStr (wording p)) problems))])"

text \<open>The exit code and the report; \<open>answer\<close> and \<open>alembic_check\<close> are what the database at the address gives.\<close>

definition drift_main :: "(drift_problem \<Rightarrow> string) \<Rightarrow> environ \<Rightarrow> string option \<Rightarrow> string option
    \<Rightarrow> (string \<Rightarrow> string + string option) \<Rightarrow> (string \<Rightarrow> bool) \<Rightarrow> int \<times> dict option" where
  "drift_main wording env database_url head answer alembic_check =
     (let url = (if text_or_empty database_url \<noteq> [] then text_or_empty database_url else env_get env ''DATABASE_URL'') in
      if url = [] then (2, None)
      else
        (case applied_revision (answer url) of
           Inl message \<Rightarrow> (1, Some [(''ok'', JBool False), (''error'', JStr message)])
         | Inr applied \<Rightarrow>
             (if compare_schema head applied (alembic_check url) = [] then 0 else 1,
              Some (drift_report wording head applied (alembic_check url)))))"

text \<open>The release gate and the script agree: the gate lets exactly the reports through that the script ended with 0 on.\<close>

lemma drift_report_fields:
  "dget (drift_report wording head applied ok) ''ok'' = JBool (compare_schema head applied ok = [])"
  "dget (drift_report wording head applied ok) ''head_revision'' = json_or_null head"
  "dget (drift_report wording head applied ok) ''applied_revision'' = (if applied = Some UNSTAMPED then JNull else json_or_null applied)"
  "dget (drift_report wording head applied ok) ''models_match_schema'' = JBool ok"
  "report_items (drift_report wording head applied ok) ''problems'' = Inr (map (\<lambda>p. JStr (wording p)) (compare_schema head applied ok))"
  by (simp_all add: drift_report_def dget_def report_items_def Let_def)

lemma gate_accepts_clean_drift_reports:
  assumes "drift_main wording env database_url head answer alembic_check = (code, Some report)"
  shows "schema_proved head report \<longleftrightarrow> code = 0"
proof (cases "applied_revision (answer (if text_or_empty database_url \<noteq> [] then text_or_empty database_url else env_get env ''DATABASE_URL''))")
  case (Inl message)
  then have "code = 1" "report = [(''ok'', JBool False), (''error'', JStr message)]"
    using assms by (auto simp: drift_main_def Let_def split: if_splits)
  then show ?thesis
    by (simp add: schema_proved_def dget_def)
next
  case (Inr applied)
  let ?url = "if text_or_empty database_url \<noteq> [] then text_or_empty database_url else env_get env ''DATABASE_URL''"
  have r: "code = (if compare_schema head applied (alembic_check ?url) = [] then 0 else 1)"
    "report = drift_report wording head applied (alembic_check ?url)"
    using assms Inr by (auto simp: drift_main_def Let_def split: if_splits)
  show ?thesis
    unfolding r schema_proved_def drift_report_fields
    by (cases head; cases applied) (auto simp: compare_schema_def json_or_null_def UNSTAMPED_def)
qed

section \<open>Installation\<close>

datatype command = UpgradeHead | AlembicCheck | AppBootstrap

datatype install_exit =
    Installed | NoSuchFile | UnusableSecrets | ConfigurationBlocked | NoAddress | DatabaseSilent | CommandFailed command

text \<open>Polling: attempt \<open>n\<close> takes some milliseconds and answers or does not; two seconds pass between attempts.\<close>

function wait_for_database :: "(nat \<Rightarrow> nat \<times> bool) \<Rightarrow> nat \<Rightarrow> nat \<Rightarrow> nat \<Rightarrow> nat option" where
  "wait_for_database polls deadline now attempt =
     (if now < deadline then
        (case polls attempt of
           (took, True) \<Rightarrow> Some attempt
         | (took, False) \<Rightarrow> wait_for_database polls deadline (now + took + 2000) (attempt + 1))
      else None)"
  by pat_completeness auto
termination by (relation "measure (\<lambda>(_, deadline, now, _). deadline - now)") auto

declare wait_for_database.simps [simp del]

fun run_commands :: "(command \<Rightarrow> environ \<Rightarrow> 'w \<Rightarrow> bool \<times> 'w) \<Rightarrow> environ \<Rightarrow> bool \<Rightarrow> command list \<Rightarrow> 'w
    \<Rightarrow> install_exit \<times> command list \<times> 'w" where
  "run_commands perform env dry_run [] w = (Installed, [], w)"
| "run_commands perform env dry_run (c # cs) w =
     (if dry_run then run_commands perform env dry_run cs w
      else
        (case perform c env w of
           (False, w1) \<Rightarrow> (CommandFailed c, [c], w1)
         | (True, w1) \<Rightarrow> (case run_commands perform env dry_run cs w1 of (e, cmds, w2) \<Rightarrow> (e, c # cmds, w2))))"

record install_args =
  ia_env_file :: "string option"
  ia_skip_doctor :: bool
  ia_skip_bootstrap :: bool
  ia_dry_run :: bool
  ia_database_timeout :: nat

text \<open>The environment of the commands, and the one that the doctor is shown.\<close>

definition environments :: "(string \<Rightarrow> string option) \<Rightarrow> environ \<Rightarrow> string \<Rightarrow> (environ \<times> environ) option" where
  "environments files process path =
     (if path = [] then Some (process, process)
      else map_option (\<lambda>text. ((process ++ parse_env_file text)(''APPBI_ENV_FILE'' \<mapsto> path), parse_env_file text)) (files path))"

definition commands_of :: "install_args \<Rightarrow> command list" where
  "commands_of a = [UpgradeHead, AlembicCheck] @ (if ia_skip_bootstrap a then [] else [AppBootstrap])"

definition configuration_ok :: "(string \<Rightarrow> bool) \<Rightarrow> (string \<Rightarrow> string option) \<Rightarrow> install_args \<Rightarrow> environ \<Rightarrow> py_exc + bool" where
  "configuration_ok literal_ok files a shown =
     (if ia_skip_doctor a then Inr True else map_sum id report_ok (doctor_run literal_ok files shown))"

definition install_main :: "(string \<Rightarrow> bool) \<Rightarrow> (string \<Rightarrow> string option) \<Rightarrow> (nat \<Rightarrow> nat \<times> bool)
    \<Rightarrow> (command \<Rightarrow> environ \<Rightarrow> 'w \<Rightarrow> bool \<times> 'w) \<Rightarrow> environ \<Rightarrow> install_args \<Rightarrow> 'w
    \<Rightarrow> py_exc + install_exit \<times> command list \<times> 'w" where
  "install_main literal_ok files polls perform process a w =
     (case environments files process (text_or_empty (ia_env_file a)) of
        None \<Rightarrow> Inr (NoSuchFile, [], w)
      | Some (merged, shown) \<Rightarrow>
          (let (env, problems) = resolve_file_backed files merged in
           if problems \<noteq> [] then Inr (UnusableSecrets, [], w)
           else
             (case configuration_ok literal_ok files a shown of
                Inl e \<Rightarrow> Inl e
              | Inr False \<Rightarrow> Inr (ConfigurationBlocked, [], w)
              | Inr True \<Rightarrow>
                  if env_get env ''DATABASE_URL'' = [] then Inr (NoAddress, [], w)
                  else if \<not> ia_dry_run a \<and> wait_for_database polls (ia_database_timeout a) 0 1 = None
                  then Inr (DatabaseSilent, [], w)
                  else Inr (run_commands perform env (ia_dry_run a) (commands_of a) w))))"

section \<open>Nothing runs unchecked\<close>

lemma waited_within_deadline:
  "wait_for_database polls deadline now attempt = Some n \<Longrightarrow>
     attempt \<le> n \<and> now + 2000 * (n - attempt) < deadline \<and> snd (polls n)"
proof (induction polls deadline now attempt rule: wait_for_database.induct)
  case (1 polls deadline now attempt)
  obtain took ok where p: "polls attempt = (took, ok)"
    by (cases "polls attempt")
  show ?case
  proof (cases ok)
    case True
    then show ?thesis
      using "1.prems" p by (subst (asm) wait_for_database.simps) (auto split: if_splits)
  next
    case False
    then have now: "now < deadline" and rest: "wait_for_database polls deadline (now + took + 2000) (attempt + 1) = Some n"
      using "1.prems" p by (subst (asm) wait_for_database.simps, auto split: if_splits)+
    show ?thesis
      using "1.IH" [OF now p [symmetric] _ rest] False by (auto simp: algebra_simps)
  qed
qed

lemma run_commands_stop:
  "run_commands perform env dry_run cs w = (e, cmds, w') \<Longrightarrow>
     (\<exists>rest. cs = cmds @ rest) \<and> (dry_run \<longrightarrow> cmds = []) \<and> (cmds = [] \<longrightarrow> w' = w) \<and>
     (e = Installed \<and> (dry_run \<or> cmds = cs) \<or> (\<exists>c. e = CommandFailed c \<and> cmds \<noteq> [] \<and> last cmds = c))"
proof (induction cs arbitrary: e cmds w w')
  case (Cons c cs)
  show ?case
  proof (cases dry_run)
    case False
    obtain ok w1 where p: "perform c env w = (ok, w1)"
      by (cases "perform c env w")
    show ?thesis
    proof (cases ok)
      case True
      obtain e2 cmds2 w2 where r: "run_commands perform env dry_run cs w1 = (e2, cmds2, w2)"
        by (cases "run_commands perform env dry_run cs w1")
      then show ?thesis
        using Cons.prems Cons.IH [OF r] False True p by auto
    qed (use Cons.prems False p in auto)
  next
    case True
    have "cmds = []" "w' = w" "e = Installed"
      using Cons.IH [of w e cmds w'] Cons.prems True by auto
    then show ?thesis
      using True by simp
  qed
qed simp

text \<open>An installation runs its commands in order and stops at the first that fails. It runs none, and leaves the world alone, unless
  the configuration passed or the check was waived, an address is configured and the database answered in time.\<close>

lemma install_runs_nothing_unchecked:
  assumes "install_main literal_ok files polls perform process a w = Inr (e, cmds, w')"
  shows "(\<exists>rest. commands_of a = cmds @ rest) \<and> (cmds = [] \<longrightarrow> w' = w) \<and>
    (e = Installed \<longrightarrow> ia_dry_run a \<or> cmds = commands_of a) \<and>
    (cmds \<noteq> [] \<longrightarrow> \<not> ia_dry_run a \<and>
       (\<exists>merged shown. environments files process (text_or_empty (ia_env_file a)) = Some (merged, shown) \<and>
          configuration_ok literal_ok files a shown = Inr True \<and> snd (resolve_file_backed files merged) = []) \<and>
       (\<exists>n. wait_for_database polls (ia_database_timeout a) 0 1 = Some n))"
proof (cases "environments files process (text_or_empty (ia_env_file a))")
  case None
  then show ?thesis
    using assms by (auto simp: install_main_def)
next
  case (Some envs)
  obtain merged shown env problems where s: "envs = (merged, shown)" "resolve_file_backed files merged = (env, problems)"
    by (metis surj_pair)
  consider "cmds = []" "w' = w" "e \<noteq> Installed"
    | "run_commands perform env (ia_dry_run a) (commands_of a) w = (e, cmds, w')" "problems = []"
      "configuration_ok literal_ok files a shown = Inr True" "ia_dry_run a \<or> wait_for_database polls (ia_database_timeout a) 0 1 \<noteq> None"
    using assms Some s by (auto simp: install_main_def split: if_splits sum.splits bool.splits)
  then show ?thesis
  proof cases
    case 2
    then show ?thesis
      using run_commands_stop [OF 2(1)] Some s by auto
  qed auto
qed

end
