(* ===== verification/Clients.thy ===== *)
theory Clients
  imports Gateway
begin

text \<open>
  The reference sender of a webhook, \<open>scripts/demo_webhook.py\<close>, against the gateway of \<open>Triggers\<close>: what it signs is what the
  gateway checks. The HMAC is the gateway's; the clock of the sender is an argument, in seconds.
\<close>

section \<open>The sender\<close>

record sender_args =
  da_secret :: "string option"
  da_order_id :: "string option"
  da_rush :: bool
  da_unsigned :: bool
  da_replay :: bool

definition json_field :: "string \<Rightarrow> string \<Rightarrow> string" where
  "json_field key v = dumps_str True key @ '': '' @ v"

text \<open>\<open>json.dumps(payload)\<close>; the customer is a constant with two characters outside ASCII, which are escaped.\<close>

definition demo_body :: "sender_args \<Rightarrow> int \<Rightarrow> string" where
  "demo_body a now =
     (let order = (if text_or_empty (da_order_id a) \<noteq> [] then text_or_empty (da_order_id a) else ''DH-'' @ show_int (now mod 100000));
          customer = CHR 0x22 # ''Kh'' @ CHR 0x5C # ''u00e1ch t'' @ CHR 0x5C # ''u1eeb website'' @ [CHR 0x22]
      in ''{'' @ join '', '' [json_field ''order_id'' (dumps_str True order),
           json_field ''rush'' (if da_rush a then ''true'' else ''false''), json_field ''customer'' customer] @ ''}'')"

text \<open>The request, \<^const>\<open>None\<close> where the script ends with 2 because it has no secret to sign with.\<close>

definition sender_request :: "(string \<Rightarrow> string \<Rightarrow> string) \<Rightarrow> sender_args \<Rightarrow> int \<Rightarrow> hook_request option" where
  "sender_request hmac a now =
     (let body = demo_body a now; json_type = (''Content-Type'', ''application/json'');
          request = (\<lambda>headers. \<lparr>hk_method = ''POST'', hk_headers = headers, hk_body = body, hk_content_type = Some ''application/json''\<rparr>) in
      if da_unsigned a then Some (request [json_type])
      else if text_or_empty (da_secret a) = [] then None
      else
        (let timestamp = show_int (now - (if da_replay a then 600 else 0));
             signature = hmac (text_or_empty (da_secret a)) (timestamp @ ''.'' @ body)
         in Some (request [json_type, (TIMESTAMP_HEADER, timestamp), (SIGNATURE_HEADER, ''sha256='' @ signature)])))"

text \<open>The exit code, given the status of the answer.\<close>

definition demo_exit :: "hook_request option \<Rightarrow> (hook_request \<Rightarrow> int) \<Rightarrow> int" where
  "demo_exit request send = (case request of None \<Rightarrow> 2 | Some r \<Rightarrow> if send r = 202 then 0 else 1)"

section \<open>Integers read back\<close>

lemma digit_char: "n < 10 \<Longrightarrow> is_digit (char_of (48 + n)) \<and> (of_char (char_of (48 + n)) :: int) = 48 + int n"
proof -
  assume n: "n < 10"
  have "(of_char (char_of (48 + n) :: char) :: nat) = 48 + n"
    using n by simp
  then show ?thesis
    using n of_nat_of_char [of "char_of (48 + n)", where 'a = int] by (simp add: is_digit_def)
qed

lemma show_nat_digits: "list_all is_digit (show_nat n) \<and> show_nat n \<noteq> []"
proof (induction n rule: show_nat.induct)
  case (1 n)
  then show ?case
    using digit_char [of n] digit_char [of "n mod 10"] by (simp add: show_nat.simps [of n])
qed

lemma digits_of_append:
  "list_all is_digit s \<Longrightarrow> digits_of (s @ t) acc = Option.bind (digits_of s acc) (digits_of t)"
  by (induction s arbitrary: acc) auto

lemma digits_of_show_nat: "digits_of (show_nat n) 0 = Some (int n)"
proof (induction n rule: show_nat.induct)
  case (1 n)
  show ?case
  proof (cases "n < 10")
    case True
    then show ?thesis
      using digit_char [OF True] True by (simp add: show_nat.simps [of n])
  next
    case False
    have d: "n mod 10 < 10"
      by simp
    have "digits_of (show_nat n) 0 = digits_of [char_of (48 + n mod 10)] (int (n div 10))"
      using False 1 show_nat_digits [of "n div 10"] by (simp add: show_nat.simps [of n] digits_of_append)
    then show ?thesis
      using digit_char [OF d] by (simp add: zdiv_int zmod_int)
  qed
qed

lemma digit_no_space: "is_digit c \<Longrightarrow> \<not> py_isspace c"
  by (auto simp: is_digit_def py_isspace_def Let_def)

lemma strip_plain:
  assumes "s \<noteq> []" "\<not> py_isspace (hd s)" "\<not> py_isspace (last s)"
  shows "str_strip s = s"
proof -
  have "dropWhile py_isspace s = s"
    using assms(1,2) by (cases s) auto
  moreover have "dropWhile py_isspace (rev s) = rev s"
    using assms(1,3) by (cases s rule: rev_cases) auto
  ultimately show ?thesis
    by (simp add: str_strip_def)
qed

lemma parse_show_int: "parse_int (show_int i) = Some i"
proof -
  have d: "show_nat n \<noteq> []" "is_digit (hd (show_nat n))" "is_digit (last (show_nat n))" for n
    using show_nat_digits [of n] by (auto simp: list_all_iff)
  have u: "unsigned_of (show_nat n) = Some (int n)" for n
    using d [of n] digits_of_show_nat [of n] by (cases "show_nat n") (auto simp: unsigned_of_def)
  have sign: "\<not> is_digit (CHR ''-'')" "\<not> is_digit (CHR ''+'')" "\<not> py_isspace (CHR ''-'')"
    by code_simp+
  show ?thesis
  proof (cases "i < 0")
    case True
    have "str_strip (CHR ''-'' # show_nat (nat (- i))) = CHR ''-'' # show_nat (nat (- i))"
      using d [of "nat (- i)"] sign by (intro strip_plain) (auto simp: digit_no_space)
    then show ?thesis
      using True by (simp add: parse_int_def show_int_def u)
  next
    case False
    have "str_strip (show_nat (nat i)) = show_nat (nat i)"
      using d [of "nat i"] by (intro strip_plain) (auto simp: digit_no_space)
    then show ?thesis
      using False d [of "nat i"] sign u [of "nat i"] by (cases "show_nat (nat i)") (auto simp: parse_int_def show_int_def)
  qed
qed

section \<open>The gateway takes what the sender signs\<close>

text \<open>For a binding in signature mode the gateway accepts the sender's request exactly when it is signed and the two clocks are at most
  five minutes apart, counting the ten minutes that a replay is dated back.\<close>

lemma sender_meets_gateway:
  assumes "auth_mode_of b = Some WA_HEADER_SIGNATURE" "stored_secret env b d = Inr secret" "secret \<noteq> []" "da_secret a = Some secret"
    and "sender_request (env_hmac env) a now = Some r" "within_policy env b r" "\<And>m. is_ascii (env_hmac env secret m)"
  shows "authenticate_webhook env b r d = Inr () \<longleftrightarrow>
    \<not> da_unsigned a \<and> \<bar>env_now env div 1000000 - (now - (if da_replay a then 600 else 0))\<bar> \<le> 300"
proof -
  have low: "str_lower TIMESTAMP_HEADER = ''x-appbi-timestamp''" "str_lower SIGNATURE_HEADER = ''x-appbi-signature''"
    "str_lower ''Content-Type'' = ''content-type''"
    by code_simp+
  let ?t = "show_int (now - (if da_replay a then 600 else 0))"
  have auth: "authenticate_webhook env b r d = Inr () \<longleftrightarrow> check_signature env (hk_headers r) (hk_body r) secret = Inr ()"
    using authenticate_signature [OF assms(1,2,6)] assms(3) by simp
  show ?thesis
  proof (cases "da_unsigned a")
    case True
    then have "header (hk_headers r) SIGNATURE_HEADER = []"
      using assms(5) by (auto simp: sender_request_def header_def low Let_def)
    then show ?thesis
      using True unfolding auth check_signature_Inr by simp
  next
    case False
    have t: "?t \<noteq> []"
      using show_nat_digits by (simp add: show_int_def)
    have h: "header (hk_headers r) TIMESTAMP_HEADER = ?t"
      "header (hk_headers r) SIGNATURE_HEADER = ''sha256='' @ env_hmac env secret (?t @ ''.'' @ hk_body r)"
      using assms(3,4,5) False by (auto simp: sender_request_def header_def low text_or_empty_def Let_def)
    show ?thesis
      unfolding auth check_signature_Inr h using t False assms(7) by (simp add: parse_show_int starts_with_def Let_def)
  qed
qed

end
