(* ===== verification/Keys.thy ===== *)
theory Keys
  imports Doctor
begin

text \<open>
  Key material, \<open>build_kek\<close> and \<open>_kek\<close> of \<open>core/secrets.py\<close>, and the masking of the structured log,
  \<open>core/logging.py\<close>. \<open>b64\<close> is \<open>base64.urlsafe_b64decode\<close>, \<^const>\<open>None\<close> where it raises; \<open>digest\<close> is SHA-256. A
  key that is built is the key that \<open>Credentials\<close> calls \<open>env_kek\<close>.
\<close>

section \<open>Key material\<close>

datatype key_error = NoKeyMaterial | NotAKey | KeyNotSet

definition build_kek :: "(string \<Rightarrow> string option) \<Rightarrow> (string \<Rightarrow> string) \<Rightarrow> bool \<Rightarrow> string \<Rightarrow> key_error + string" where
  "build_kek b64 digest allow_derived given =
     (let raw = str_strip given; material = text_or_empty (b64 raw) in
      if raw = [] then Inl NoKeyMaterial
      else if length material = 32 then Inr material
      else if \<not> allow_derived then Inl NotAKey
      else Inr (digest raw))"

definition kek :: "(string \<Rightarrow> string option) \<Rightarrow> (string \<Rightarrow> string) \<Rightarrow> deployment \<Rightarrow> key_error + string" where
  "kek b64 digest dp =
     (let raw = str_strip (dp_secret_encryption_key dp) in
      if raw = [] then Inl KeyNotSet else build_kek b64 digest (dp_allow_derived_encryption_key dp) raw)"

text \<open>\<open>rewrap_all\<close> with the two keys as they are given.\<close>

definition rotate :: "(string \<Rightarrow> string option) \<Rightarrow> (string \<Rightarrow> string) \<Rightarrow> bool \<Rightarrow> env \<Rightarrow> string \<Rightarrow> string \<Rightarrow> nat \<Rightarrow> db
    \<Rightarrow> (key_error + nat \<times> nat) \<times> db" where
  "rotate b64 digest allow_derived env old_key new_key batch d =
     (case build_kek b64 digest allow_derived old_key of
        Inl e \<Rightarrow> (Inl e, d)
      | Inr old \<Rightarrow>
          (case build_kek b64 digest allow_derived new_key of
             Inl e \<Rightarrow> (Inl e, d)
           | Inr new \<Rightarrow> (case rewrap_all env old new batch d of (counts, d') \<Rightarrow> (Inr counts, d'))))"

lemma derived_keys_only_on_request:
  "build_kek b64 digest False given = Inr material \<Longrightarrow> b64 (str_strip given) = Some material \<and> length material = 32"
  by (cases "b64 (str_strip given)") (auto simp: build_kek_def text_or_empty_def Let_def split: if_splits)

lemma every_key_is_built_in_development:
  "(\<And>s. length (digest s) = 32) \<Longrightarrow> str_strip given \<noteq> [] \<Longrightarrow>
     \<exists>material. build_kek b64 digest True given = Inr material \<and> length material = 32"
  by (auto simp: build_kek_def Let_def)

lemma bad_key_rotates_nothing:
  "fst (rotate b64 digest allow_derived env old_key new_key batch d) = Inl e \<Longrightarrow>
     snd (rotate b64 digest allow_derived env old_key new_key batch d) = d"
  by (auto simp: rotate_def split: sum.splits prod.splits)

text \<open>No check looks at the form of the key: a key of forty-three letters, which is no padded Base64, passes the production check, the
  deployment starts with it, and then no secret can be written or read.\<close>

definition unpadded_key :: string where
  "unpadded_key = replicate 43 (CHR ''x'')"

definition unpadded_env :: environ where
  "unpadded_env = production_env(''SECRET_ENCRYPTION_KEY'' \<mapsto> unpadded_key)"

lemma unusable_key_starts:
  "doctor_run (\<lambda>_. False) secret_mount unpadded_env = Inr []"
  "case load_file_backed_secrets secret_mount unpadded_env of
     Inl _ \<Rightarrow> False
   | Inr e \<Rightarrow>
       (case settings_of pydantic_bool e of
          None \<Rightarrow> False
        | Some dp \<Rightarrow> is_production dp \<and> lifespan dp offline = Inr () \<and> kek (\<lambda>_. None) digest dp = Inl NotAKey)"
  by code_simp+

section \<open>The log\<close>

definition SECRET_HINTS :: "string list" where
  "SECRET_HINTS = [''password'', ''secret'', ''token'', ''credential'', ''api_key'', ''apikey'', ''private_key'', ''client_secret'',
     ''access_key'', ''passphrase'', ''authorization'', ''service_account'', ''keyfile'', ''sasl'']"

definition log_hides :: "string \<Rightarrow> bool" where
  "log_hides key = list_ex (\<lambda>hint. str_contains hint (str_lower key)) SECRET_HINTS"

function log_redact :: "nat \<Rightarrow> json \<Rightarrow> json" where
  "log_redact depth v =
     (if depth > 8 then JStr ''<truncated>''
      else case v of
        JObj kvs \<Rightarrow> JObj (map (\<lambda>(k, x). (k, if log_hides k then JStr ''********'' else log_redact (Suc depth) x)) kvs)
      | JArr xs \<Rightarrow> JArr (map (log_redact (Suc depth)) xs)
      | _ \<Rightarrow> v)"
  by pat_completeness auto
termination by (relation "measure (\<lambda>(depth, _). 9 - depth)") auto

declare log_redact.simps [simp del]

record log_record =
  lg_timestamp :: string
  lg_levelname :: string
  lg_message_text :: string
  lg_extra :: "dict option"
  lg_exception :: "string option"

record log_context =
  lc_trace_id :: string
  lc_workspace :: string
  lc_actor :: string

text \<open>\<open>payload.update(redact(extra))\<close>\<close>

definition update_dict :: "dict \<Rightarrow> dict \<Rightarrow> dict" where
  "update_dict d extra = foldl (\<lambda>acc (k, v). dput acc k v) d extra"

definition log_line_of :: "deployment \<Rightarrow> log_context \<Rightarrow> log_record \<Rightarrow> dict" where
  "log_line_of dp c r =
     (let head = [(''timestamp'', JStr (lg_timestamp r)), (''level'', JStr (lg_levelname r)), (''service'', JStr (dp_service_name dp)),
           (''environment'', JStr (dp_app_env dp)), (''message'', JStr (lg_message_text r))] @
         concat (map (\<lambda>(k, v). if v \<noteq> [] then [(k, JStr v)] else [])
           [(''trace_id'', lc_trace_id c), (''workspace_id'', lc_workspace c), (''actor_id'', lc_actor c)]);
         body = (case lg_extra r of
             Some (e # es) \<Rightarrow> (case log_redact 0 (JObj (e # es)) of JObj kvs \<Rightarrow> update_dict head kvs | _ \<Rightarrow> head)
           | _ \<Rightarrow> head)
      in case lg_exception r of None \<Rightarrow> body | Some x \<Rightarrow> dput body ''exception'' (JStr x))"

text \<open>No key of a logged value that names a secret keeps its value, at any depth.\<close>

fun log_safe :: "json \<Rightarrow> bool" where
  "log_safe (JObj kvs) = list_all (\<lambda>(k, v). (log_hides k \<longrightarrow> v = JStr ''********'') \<and> log_safe v) kvs"
| "log_safe (JArr xs) = list_all log_safe xs"
| "log_safe _ = True"

definition safe_field :: "string \<Rightarrow> json \<Rightarrow> bool" where
  "safe_field k v \<longleftrightarrow> (log_hides k \<longrightarrow> v = JStr ''********'') \<and> log_safe v"

definition safe_fields :: "dict \<Rightarrow> bool" where
  "safe_fields d \<longleftrightarrow> (\<forall>(k, v) \<in> set d. safe_field k v)"

lemma log_safe_fields: "log_safe (JObj d) \<longleftrightarrow> safe_fields d"
  by (simp add: safe_fields_def safe_field_def list_all_iff)

lemma log_redact_simps:
  assumes "depth \<le> 8"
  shows "log_redact depth JNull = JNull" "log_redact depth (JBool b) = JBool b" "log_redact depth (JInt i) = JInt i"
    "log_redact depth (JStr s) = JStr s" "log_redact depth (JArr xs) = JArr (map (log_redact (Suc depth)) xs)"
    "log_redact depth (JObj kvs) =
       JObj (map (\<lambda>(k, x). (k, if log_hides k then JStr ''********'' else log_redact (Suc depth) x)) kvs)"
  using assms by (simp_all add: log_redact.simps)

lemma log_redact_safe: "log_safe (log_redact depth v)"
proof (induction depth v rule: log_redact.induct)
  case (1 depth v)
  show ?case
  proof (cases "depth > 8")
    case False
    then have d: "depth \<le> 8"
      by simp
    show ?thesis
      using "1.IH" False by (cases v) (auto simp: log_redact_simps [OF d] list_all_iff)
  qed (simp add: log_redact.simps)
qed

lemma safe_dput: "safe_fields d \<Longrightarrow> safe_field k v \<Longrightarrow> safe_fields (dput d k v)"
  by (induction d k v rule: dput.induct) (auto simp: safe_fields_def)

lemma safe_update: "safe_fields d \<Longrightarrow> safe_fields extra \<Longrightarrow> safe_fields (update_dict d extra)"
proof (induction extra arbitrary: d)
  case (Cons e extra)
  obtain k v where e: "e = (k, v)"
    by (cases e)
  have "safe_fields (dput d k v)" "safe_fields extra"
    using Cons.prems safe_dput [OF Cons.prems(1), of k v] by (simp_all add: safe_fields_def e)
  then have "safe_fields (update_dict (dput d k v) extra)"
    by (rule Cons.IH)
  then show ?case
    by (simp add: update_dict_def e)
qed (simp add: update_dict_def)

text \<open>A whole line of the log is safe, whatever the caller passes as fields.\<close>

lemma log_line_safe: "log_safe (JObj (log_line_of dp c r))"
proof -
  have keys: "\<not> log_hides ''timestamp''" "\<not> log_hides ''level''" "\<not> log_hides ''service''" "\<not> log_hides ''environment''"
    "\<not> log_hides ''message''" "\<not> log_hides ''trace_id''" "\<not> log_hides ''workspace_id''" "\<not> log_hides ''actor_id''"
    "\<not> log_hides ''exception''"
    by code_simp+
  have redacted: "safe_fields kvs" if "log_redact 0 (JObj es) = JObj kvs" for es kvs
    using log_redact_safe [of 0 "JObj es"] unfolding that log_safe_fields .
  define head where "head = [(''timestamp'', JStr (lg_timestamp r)), (''level'', JStr (lg_levelname r)), (''service'', JStr (dp_service_name dp)),
      (''environment'', JStr (dp_app_env dp)), (''message'', JStr (lg_message_text r))] @
    concat (map (\<lambda>(k, v). if v \<noteq> [] then [(k, JStr v)] else [])
      [(''trace_id'', lc_trace_id c), (''workspace_id'', lc_workspace c), (''actor_id'', lc_actor c)])"
  have h: "safe_fields head"
    by (auto simp: head_def safe_fields_def safe_field_def keys)
  define body where "body = (case lg_extra r of
      Some (e # es) \<Rightarrow> (case log_redact 0 (JObj (e # es)) of JObj kvs \<Rightarrow> update_dict head kvs | _ \<Rightarrow> head)
    | _ \<Rightarrow> head)"
  have "safe_fields body"
    using h redacted safe_update [OF h] unfolding body_def by (fastforce split: option.split list.split json.split)
  then have "safe_fields (case lg_exception r of None \<Rightarrow> body | Some x \<Rightarrow> dput body ''exception'' (JStr x))"
    by (simp add: safe_dput safe_field_def keys split: option.split)
  then show ?thesis
    unfolding log_safe_fields log_line_of_def Let_def head_def [symmetric] body_def [symmetric] .
qed

end
