(* ===== verification/Backfill.thy ===== *)
theory Backfill
  imports Reach
begin

text \<open>
  The data migration \<open>backend/migrations/versions/20260917_1400_organizations_and_member_overrides.py\<close>, which puts one
  organisation above the workspaces of a deployment, and what it does to the reach of an account. Before it there are no
  organisations, no column \<open>organization_id\<close> (here the empty text) and no permission overrides. The types, indices and foreign keys
  that it creates are not represented; \<open>fresh\<close> stands for \<open>gen_random_uuid()\<close>.
\<close>

section \<open>Upgrade and downgrade\<close>

definition DEFAULT_SLUG :: string where "DEFAULT_SLUG = ''default''"

text \<open>The name in UTF-8.\<close>

definition DEFAULT_NAME :: string where
  "DEFAULT_NAME = ''T'' @ [CHR 0xE1, CHR 0xBB, CHR 0x95] @ '' ch'' @ [CHR 0xE1, CHR 0xBB, CHR 0xA9] @ ''c m'' @
     [CHR 0xE1, CHR 0xBA, CHR 0xB7] @ ''c '' @ [CHR 0xC4, CHR 0x91, CHR 0xE1, CHR 0xBB, CHR 0x8B] @ ''nh''"

text \<open>\<open>INSERT ... SELECT\<close>: one membership for each selected user.\<close>

definition org_rows :: "(nat \<Rightarrow> uuid) \<Rightarrow> uuid \<Rightarrow> org_role \<Rightarrow> user list \<Rightarrow> organization_membership list" where
  "org_rows ids org role us =
     map (\<lambda>(n, u). \<lparr>om_id = ids n, om_organization_id = org, om_user_id = us_id u, om_role = role\<rparr>) (enumerate 0 us)"

definition owns_a_workspace :: "db \<Rightarrow> user \<Rightarrow> bool" where
  "owns_a_workspace d u = list_ex (\<lambda>m. me_user_id m = us_id u \<and> me_role m = R_OWNER) (db_memberships d)"

definition backfill_owners :: "(nat \<Rightarrow> uuid) \<Rightarrow> uuid \<Rightarrow> db \<Rightarrow> db" where
  "backfill_owners ids org d =
     d\<lparr>db_org_memberships := db_org_memberships d @
         org_rows ids org OR_OWNER (filter (\<lambda>u. us_is_platform_admin u \<or> owns_a_workspace d u) (db_users d))\<rparr>"

definition backfill_members :: "(nat \<Rightarrow> uuid) \<Rightarrow> uuid \<Rightarrow> db \<Rightarrow> db" where
  "backfill_members ids org d =
     d\<lparr>db_org_memberships := db_org_memberships d @
         org_rows ids org OR_MEMBER
           (filter (\<lambda>u. list_ex (\<lambda>m. me_user_id m = us_id u) (db_memberships d) \<and>
               \<not> list_ex (\<lambda>r. om_organization_id r = org \<and> om_user_id r = us_id u) (db_org_memberships d)) (db_users d))\<rparr>"

definition adopt_workspaces :: "uuid \<Rightarrow> db \<Rightarrow> db" where
  "adopt_workspaces org d =
     d\<lparr>db_organizations := db_organizations d @ [\<lparr>og_id = org, og_name = DEFAULT_NAME, og_slug = DEFAULT_SLUG, og_status = WS_ACTIVE\<rparr>],
       db_workspaces := map (\<lambda>w. if ws_organization_id w = [] then w\<lparr>ws_organization_id := org\<rparr> else w) (db_workspaces d)\<rparr>"

definition upgrade :: "(nat \<Rightarrow> uuid) \<Rightarrow> (nat \<Rightarrow> uuid) \<Rightarrow> uuid \<Rightarrow> db \<Rightarrow> db" where
  "upgrade owner_ids member_ids org d =
     (let filled = (if db_workspaces d \<noteq> []
           then backfill_members member_ids org (backfill_owners owner_ids org (adopt_workspaces org d)) else d)
      in filled\<lparr>db_memberships := map (\<lambda>m. m\<lparr>me_permissions := None\<rparr>) (db_memberships filled)\<rparr>)"

definition downgrade :: "db \<Rightarrow> db" where
  "downgrade d =
     d\<lparr>db_memberships := map (\<lambda>m. m\<lparr>me_permissions := None\<rparr>) (db_memberships d),
       db_workspaces := map (\<lambda>w. w\<lparr>ws_organization_id := []\<rparr>) (db_workspaces d),
       db_org_memberships := [], db_organizations := []\<rparr>"

section \<open>A deployment before the migration\<close>

definition before_organizations :: "db \<Rightarrow> bool" where
  "before_organizations d \<longleftrightarrow>
     db_organizations d = [] \<and> db_org_memberships d = [] \<and> list_all (\<lambda>w. ws_organization_id w = []) (db_workspaces d) \<and>
     list_all (\<lambda>m. me_permissions m = None) (db_memberships d)"

lemma before_same_rows:
  assumes "before_organizations d"
  shows "map (\<lambda>m. m\<lparr>me_permissions := None\<rparr>) (db_memberships d) = db_memberships d"
    and "map (\<lambda>w. w\<lparr>ws_organization_id := []\<rparr>) (db_workspaces d) = db_workspaces d"
  using assms by (auto simp: before_organizations_def list_all_iff intro!: map_idI)

text \<open>Going up and down again loses nothing.\<close>

lemma downgrade_upgrade:
  assumes "before_organizations d"
  shows "downgrade (upgrade owner_ids member_ids org d) = d"
proof -
  let ?up = "\<lambda>w. if ws_organization_id w = [] then w\<lparr>ws_organization_id := org\<rparr> else w"
  have w: "map (\<lambda>w. w\<lparr>ws_organization_id := []\<rparr>) (map ?up (db_workspaces d)) = db_workspaces d"
    using assms by (auto simp: before_organizations_def list_all_iff intro!: map_idI)
  have m: "map (\<lambda>m. m\<lparr>me_permissions := None\<rparr>) (map (\<lambda>m. m\<lparr>me_permissions := None\<rparr>) (db_memberships d)) = db_memberships d"
    by (simp only: before_same_rows(1) [OF assms])
  have empty: "db_org_memberships d = []" "db_organizations d = []"
    using assms by (simp_all add: before_organizations_def)
  show ?thesis
    unfolding downgrade_def upgrade_def backfill_members_def backfill_owners_def adopt_workspaces_def Let_def
    using w m before_same_rows(2) [OF assms] by (intro db.equality) (simp_all add: empty del: map_map)
qed

section \<open>What it does to the reach of an account\<close>

definition unique_users :: "db \<Rightarrow> bool" where
  "unique_users d = distinct (map us_id (db_users d))"

lemma org_rows_keys: "map (\<lambda>m. (om_organization_id m, om_user_id m)) (org_rows ids org role us) = map (\<lambda>u. (org, us_id u)) us"
  by (rule nth_equalityI) (simp_all add: org_rows_def nth_enumerate_eq)

lemma org_rows_iff:
  "(\<exists>m \<in> set (org_rows ids org role us). om_user_id m = uid \<and> om_organization_id m = oid \<and> om_role m \<in> R) \<longleftrightarrow>
     oid = org \<and> role \<in> R \<and> uid \<in> us_id ` set us"
  by (auto simp: org_rows_def set_conv_nth nth_enumerate_eq image_iff)

text \<open>The rows of the upgraded tables.\<close>

definition former_owners :: "db \<Rightarrow> user list" where
  "former_owners d = filter (\<lambda>u. us_is_platform_admin u \<or> owns_a_workspace d u) (db_users d)"

definition former_members :: "db \<Rightarrow> user list" where
  "former_members d =
     filter (\<lambda>u. list_ex (\<lambda>m. me_user_id m = us_id u) (db_memberships d) \<and> us_id u \<notin> us_id ` set (former_owners d)) (db_users d)"

lemma upgraded_tables:
  fixes owner_ids member_ids :: "nat \<Rightarrow> uuid" and org :: uuid
  assumes "before_organizations d" "db_workspaces d \<noteq> []"
  defines "e \<equiv> upgrade owner_ids member_ids org d"
  shows "db_users e = db_users d" "db_memberships e = db_memberships d"
    "db_workspaces e = map (\<lambda>w. w\<lparr>ws_organization_id := org\<rparr>) (db_workspaces d)"
    "db_org_memberships e = org_rows owner_ids org OR_OWNER (former_owners d) @ org_rows member_ids org OR_MEMBER (former_members d)"
proof -
  have w: "map (\<lambda>w. if ws_organization_id w = [] then w\<lparr>ws_organization_id := org\<rparr> else w) (db_workspaces d) =
      map (\<lambda>w. w\<lparr>ws_organization_id := org\<rparr>) (db_workspaces d)"
    using assms(1) by (auto simp: before_organizations_def list_all_iff)
  have o: "db_org_memberships d = []"
    using assms(1) by (simp add: before_organizations_def)
  have owner: "list_ex (\<lambda>r. om_organization_id r = org \<and> om_user_id r = us_id u) (org_rows owner_ids org OR_OWNER us)
      \<longleftrightarrow> us_id u \<in> us_id ` set us" for u us
    using org_rows_iff [of owner_ids org OR_OWNER us "us_id u" org UNIV] by (auto simp: list_ex_iff)
  show "db_users e = db_users d" "db_workspaces e = map (\<lambda>w. w\<lparr>ws_organization_id := org\<rparr>) (db_workspaces d)"
    using assms(2) w
    by (simp_all add: e_def upgrade_def backfill_members_def backfill_owners_def adopt_workspaces_def Let_def)
  show "db_memberships e = db_memberships d"
    using assms(2) before_same_rows(1) [OF assms(1)]
    by (simp add: e_def upgrade_def backfill_members_def backfill_owners_def adopt_workspaces_def Let_def)
  show "db_org_memberships e = org_rows owner_ids org OR_OWNER (former_owners d) @ org_rows member_ids org OR_MEMBER (former_members d)"
    using assms(2)
    by (simp add: e_def upgrade_def backfill_members_def backfill_owners_def adopt_workspaces_def Let_def o owner
        former_owners_def former_members_def owns_a_workspace_def)
qed

lemma upgraded_keys:
  assumes "before_organizations d" "db_workspaces d \<noteq> []" "keys_ok d" "unique_users d"
  shows "keys_ok (upgrade owner_ids member_ids org d)"
proof -
  note t = upgraded_tables [OF assms(1,2)]
  have p: "distinct (map (\<lambda>u. (org, us_id u)) us)" if "distinct (map us_id us)" for us
    using that by (auto simp: distinct_map inj_on_def)
  have "distinct (map us_id (former_owners d))" "distinct (map us_id (former_members d))"
    using assms(4) by (simp_all add: unique_users_def former_owners_def former_members_def distinct_map_filter)
  moreover have "us_id ` set (former_owners d) \<inter> us_id ` set (former_members d) = {}"
  proof -
    have "us_id v \<notin> us_id ` set (former_owners d)" if "v \<in> set (former_members d)" for v
      using that by (simp add: former_members_def)
    then show ?thesis
      unfolding disjoint_iff by (metis imageE)
  qed
  ultimately have "distinct (map (\<lambda>m. (om_organization_id m, om_user_id m)) (db_org_memberships (upgrade owner_ids member_ids org d)))"
    unfolding t map_append org_rows_keys by (auto simp: p)
  moreover have "map ws_id (db_workspaces (upgrade owner_ids member_ids org d)) = map ws_id (db_workspaces d)"
    unfolding t by simp
  ultimately show ?thesis
    using assms(3) unfolding keys_ok_def by (simp only: t(2))
qed

lemma upgraded_grant:
  assumes "before_organizations d" "db_workspaces d \<noteq> []" "unique_users d" "u \<in> set (db_users d)"
  shows "has_org_grant (upgrade owner_ids member_ids org d) (us_id u) org \<longleftrightarrow> us_is_platform_admin u \<or> owns_a_workspace d u"
proof -
  have "us_id u \<in> us_id ` set (former_owners d) \<longleftrightarrow> u \<in> set (former_owners d)"
    using assms(3,4) by (auto simp: unique_users_def former_owners_def distinct_map dest: inj_onD)
  then show ?thesis
    using assms(4) unfolding has_org_grant_def upgraded_tables [OF assms(1,2)] set_append bex_Un org_rows_iff
    by (auto simp: former_owners_def)
qed

text \<open>C31: The migration keeps the reach of every account, with its role, and adds to it for one kind of account only: whoever owned
  some workspace reaches every active workspace of the deployment, as an owner.\<close>

theorem backfill_extends_reach_of_owners_only:
  assumes "before_organizations d" "keys_ok d" "unique_users d" "u \<in> set (db_users d)" "w \<in> set (db_workspaces d)"
  shows "(\<exists>a \<in> set (user_reachable (upgrade owner_ids member_ids org d) u). ws_id (wa_workspace a) = ws_id w \<and> wa_role a = r) \<longleftrightarrow>
    (\<exists>a \<in> set (user_reachable d u). wa_workspace a = w \<and> wa_role a = r) \<or>
    (r = R_OWNER \<and> ws_active w \<and> owns_a_workspace d u \<and> \<not> us_is_platform_admin u \<and> seat_of d (us_id u) (ws_id w) = None)"
proof -
  let ?e = "upgrade owner_ids member_ids org d" and ?w = "w\<lparr>ws_organization_id := org\<rparr>"
  have ne: "db_workspaces d \<noteq> []"
    using assms(5) by auto
  note t = upgraded_tables [OF assms(1) ne] and k = upgraded_keys [OF assms(1) ne assms(2,3)]
  have same: "v \<in> set (db_workspaces ?e) \<and> ws_id v = ws_id w \<longleftrightarrow> v = ?w" for v
    using assms(2,5) by (auto simp: t keys_ok_def distinct_map dest: inj_onD)
  have seat: "seat_of ?e = seat_of d"
    by (simp add: seat_of_def t fun_eq_iff)
  have none: "\<not> has_org_grant d uid oid" for uid oid
    using assms(1) by (simp add: has_org_grant_def before_organizations_def)
  have "(\<exists>a \<in> set (user_reachable ?e u). ws_id (wa_workspace a) = ws_id w \<and> wa_role a = r) \<longleftrightarrow>
      (\<exists>v. v \<in> set (db_workspaces ?e) \<and> ws_id v = ws_id w \<and> reach_role ?e u v = Some r)"
    using user_reachable_iff [OF k, where u = u] by metis
  also have "\<dots> \<longleftrightarrow> reach_role ?e u ?w = Some r"
    using same by metis
  also have "\<dots> \<longleftrightarrow> reach_role d u w = Some r \<or>
      (r = R_OWNER \<and> ws_active w \<and> owns_a_workspace d u \<and> \<not> us_is_platform_admin u \<and> seat_of d (us_id u) (ws_id w) = None)"
    using upgraded_grant [OF assms(1) ne assms(3,4)]
    by (auto simp: reach_role_def seat none ws_active_def split: option.splits)
  finally show ?thesis
    using user_reachable_iff [OF assms(2), of u w r] assms(5) by simp
qed

definition two_tenants :: db where
  "two_tenants = empty_db\<lparr>db_users := [demo_user],
     db_workspaces := [(reach_workspace ''w1'')\<lparr>ws_organization_id := []\<rparr>, (reach_workspace ''w2'')\<lparr>ws_organization_id := []\<rparr>],
     db_memberships := [seat ''m'' ''w1'' R_OWNER]\<rparr>"

text \<open>The owner of one of two workspaces owns the other one too after the migration.\<close>

theorem backfill_extends_reach_of_owners_only_witness:
  "(\<exists>a \<in> set (user_reachable (upgrade (\<lambda>_. ''i'') (\<lambda>_. ''j'') ''org'' two_tenants) demo_user).
      ws_id (wa_workspace a) = ''w2'' \<and> wa_role a = R_OWNER) \<and>
   \<not> (\<exists>a \<in> set (user_reachable two_tenants demo_user). wa_workspace a = (reach_workspace ''w2'')\<lparr>ws_organization_id := []\<rparr>)"
proof -
  let ?w = "(reach_workspace ''w2'')\<lparr>ws_organization_id := []\<rparr>"
  have h: "before_organizations two_tenants" "keys_ok two_tenants" "unique_users two_tenants" "demo_user \<in> set (db_users two_tenants)"
    "?w \<in> set (db_workspaces two_tenants)"
    by (simp_all add: before_organizations_def keys_ok_def unique_users_def two_tenants_def empty_db_def reach_workspace_def seat_def)
  have u: "us_id demo_user = demo_cid" "\<not> us_is_platform_admin demo_user"
    by (simp_all add: demo_user_def invited_user_def)
  have o: "ws_active ?w" "owns_a_workspace two_tenants demo_user" "seat_of two_tenants (us_id demo_user) (ws_id ?w) = None"
    by (simp_all add: ws_active_def owns_a_workspace_def seat_of_def two_tenants_def empty_db_def reach_workspace_def seat_def u)
  have none: "reach_role two_tenants demo_user ?w = None"
    using o(1,3) u(2) by (simp add: reach_role_def) (simp add: has_org_grant_def two_tenants_def empty_db_def)
  have "wa_workspace a \<noteq> ?w" if "a \<in> set (user_reachable two_tenants demo_user)" for a
    using user_reachable_iff [OF h(2), of demo_user ?w "wa_role a"] that none by auto
  moreover have "\<exists>a \<in> set (user_reachable (upgrade (\<lambda>_. ''i'') (\<lambda>_. ''j'') ''org'' two_tenants) demo_user).
      ws_id (wa_workspace a) = ws_id ?w \<and> wa_role a = R_OWNER"
    using backfill_extends_reach_of_owners_only [OF h, of "\<lambda>_. ''i''" "\<lambda>_. ''j''" "''org''" R_OWNER] o u(2) by simp
  ultimately show ?thesis
    by (auto simp: reach_workspace_def)
qed

end
