(* ===== verification/Schema.thy ===== *)
theory Schema
  imports Prelude
begin

text \<open>
  The database schema as the migrations (\<open>backend/migrations/versions\<close>) and the ORM models (\<open>app/models\<close>) speak
  of it. A catalogue holds the tables, with their columns, constraints and indexes, and the enumerated types; a DDL
  operation of \<open>alembic.op\<close> changes it, or fails as PostgreSQL does. Rows are not part of it: a data statement leaves
  the catalogue alone. The second half reads a declared model by the naming convention of \<open>core/db.py\<close>.
\<close>

section \<open>The catalogue\<close>

datatype sql_type = UUID | VARCHAR nat | TEXT | INTEGER | BIGINT | BOOLEAN | TIMESTAMPTZ | JSONB | ENUM string

datatype on_delete = NO_ACTION | CASCADE | SET_NULL | RESTRICT

datatype constraint =
    PrimaryKey "string list"
  | Unique "string list"
  | ForeignKey "string list" string "string list" on_delete

record column =
  cl_name :: string
  cl_type :: sql_type
  cl_nullable :: bool
  cl_default :: "string option"

record sql_index =
  ix_columns :: "string list"
  ix_unique :: bool
  ix_where :: "string option"

record relation =
  rl_columns :: "column list"
  rl_constraints :: "(string \<times> constraint) list"
  rl_indexes :: "(string \<times> sql_index) list"

record catalog =
  ct_tables :: "(string \<times> relation) list"
  ct_types :: "(string \<times> string list) list"

definition empty_catalog :: catalog where
  "empty_catalog = \<lparr>ct_tables = [], ct_types = []\<rparr>"

fun find_in :: "string \<Rightarrow> (string \<times> 'a) list \<Rightarrow> 'a option" where
  "find_in k [] = None"
| "find_in k ((n, x) # xs) = (if n = k then Some x else find_in k xs)"

fun without :: "string \<Rightarrow> (string \<times> 'a) list \<Rightarrow> (string \<times> 'a) list" where
  "without k [] = []"
| "without k ((n, x) # xs) = (if n = k then without k xs else (n, x) # without k xs)"

definition table_of :: "catalog \<Rightarrow> string \<Rightarrow> relation option" where
  "table_of ct t = find_in t (ct_tables ct)"

fun find_column :: "string \<Rightarrow> column list \<Rightarrow> column option" where
  "find_column c [] = None"
| "find_column c (x # xs) = (if cl_name x = c then Some x else find_column c xs)"

definition column_of :: "relation \<Rightarrow> string \<Rightarrow> column option" where
  "column_of r c = find_column c (rl_columns r)"

definition has_columns :: "relation \<Rightarrow> string list \<Rightarrow> bool" where
  "has_columns r cs = list_all (\<lambda>c. column_of r c \<noteq> None) cs"

fun is_key :: "constraint \<Rightarrow> bool" where
  "is_key (ForeignKey _ _ _ _) = False"
| "is_key _ = True"

fun columns_of :: "constraint \<Rightarrow> string list" where
  "columns_of (PrimaryKey cs) = cs"
| "columns_of (Unique cs) = cs"
| "columns_of (ForeignKey cs _ _ _) = cs"

fun is_primary :: "constraint \<Rightarrow> bool" where
  "is_primary (PrimaryKey _) = True"
| "is_primary _ = False"

text \<open>Tables, indexes and the indexes behind keys share one name space.\<close>

fun names_in :: "(string \<times> relation) list \<Rightarrow> string list" where
  "names_in [] = []"
| "names_in ((t, r) # ts) =
     t # map fst (filter (\<lambda>c. is_key (snd c)) (rl_constraints r)) @ map fst (rl_indexes r) @ names_in ts"

definition names_in_use :: "catalog \<Rightarrow> string list" where
  "names_in_use ct = names_in (ct_tables ct)"

text \<open>The columns that a foreign key points at must be those of a key, or of a unique index over all rows.\<close>

definition key_over :: "relation \<Rightarrow> string list \<Rightarrow> bool" where
  "key_over r cs =
     (list_ex (\<lambda>(_, c). is_key c \<and> set (columns_of c) = set cs) (rl_constraints r) \<or>
      list_ex (\<lambda>(_, i). ix_unique i \<and> ix_where i = None \<and> set (ix_columns i) = set cs) (rl_indexes r))"

fun target_ok :: "relation \<Rightarrow> string list \<Rightarrow> relation option \<Rightarrow> string list \<Rightarrow> bool" where
  "target_ok r cs None refs = False"
| "target_ok r cs (Some r') refs =
     (key_over r' refs \<and> map (\<lambda>c. map_option cl_type (column_of r c)) cs = map (\<lambda>c. map_option cl_type (column_of r' c)) refs)"

fun reference_ok :: "catalog \<Rightarrow> relation \<Rightarrow> constraint \<Rightarrow> bool" where
  "reference_ok ct r (ForeignKey cs t refs _) = target_ok r cs (table_of ct t) refs"
| "reference_ok ct r _ = True"

text \<open>A foreign key of another table that points at \<open>t\<close>, and one that points at these columns of it.\<close>

fun keys_in :: "(string \<times> relation) list \<Rightarrow> (string \<times> constraint) list" where
  "keys_in [] = []"
| "keys_in ((t, r) # ts) = map (\<lambda>c. (t, snd c)) (filter (\<lambda>c. \<not> is_key (snd c)) (rl_constraints r)) @ keys_in ts"

definition foreign_keys :: "catalog \<Rightarrow> (string \<times> constraint) list" where
  "foreign_keys ct = keys_in (ct_tables ct)"

fun points_at :: "string \<Rightarrow> constraint \<Rightarrow> bool" where
  "points_at t (ForeignKey _ t' _ _) = (t' = t)"
| "points_at t _ = False"

fun points_at_columns :: "string \<Rightarrow> string list \<Rightarrow> constraint \<Rightarrow> bool" where
  "points_at_columns t cs (ForeignKey _ t' refs _) = (t' = t \<and> set refs = set cs)"
| "points_at_columns t cs _ = False"

fun mentions_column :: "string \<Rightarrow> string \<Rightarrow> constraint \<Rightarrow> bool" where
  "mentions_column t c (ForeignKey _ t' refs _) = (t' = t \<and> c \<in> set refs)"
| "mentions_column t c _ = False"

definition type_used :: "catalog \<Rightarrow> string \<Rightarrow> bool" where
  "type_used ct n = list_ex (\<lambda>(_, r). list_ex (\<lambda>c. cl_type c = ENUM n) (rl_columns r)) (ct_tables ct)"

fun put_table :: "string \<Rightarrow> relation \<Rightarrow> (string \<times> relation) list \<Rightarrow> (string \<times> relation) list" where
  "put_table t r' [] = []"
| "put_table t r' ((n, r) # ts) = (if n = t then (n, r') # ts else (n, r) # put_table t r' ts)"

definition with_table :: "string \<Rightarrow> relation \<Rightarrow> catalog \<Rightarrow> catalog" where
  "with_table t r ct = \<lparr>ct_tables = put_table t r (ct_tables ct), ct_types = ct_types ct\<rparr>"

section \<open>DDL operations\<close>

datatype ddl_error =
    DuplicateTable string
  | UndefinedTable string
  | DuplicateColumn string
  | UndefinedColumn string
  | DuplicateObject string
  | UndefinedObject string
  | InvalidForeignKey string
  | InvalidTableDefinition string
  | DependentObjects string

text \<open>The types of \<open>sqlalchemy\<close> that the code names: \<open>sa.Enum\<close> carries the labels of the type it creates,
  \<open>postgresql.ENUM(create_type=False)\<close> refers to one.\<close>

datatype sa_type =
    SA_UUID | SA_String nat | SA_Text | SA_Integer | SA_BigInteger | SA_Boolean | SA_DateTime | SA_JSONB
  | SA_Enum "string list" string
  | PG_Enum string

fun sql_of :: "sa_type \<Rightarrow> sql_type" where
  "sql_of SA_UUID = UUID"
| "sql_of (SA_String n) = VARCHAR n"
| "sql_of SA_Text = TEXT"
| "sql_of SA_Integer = INTEGER"
| "sql_of SA_BigInteger = BIGINT"
| "sql_of SA_Boolean = BOOLEAN"
| "sql_of SA_DateTime = TIMESTAMPTZ"
| "sql_of SA_JSONB = JSONB"
| "sql_of (SA_Enum _ n) = ENUM n"
| "sql_of (PG_Enum n) = ENUM n"

text \<open>\<open>sa.Column(name, type, nullable=..., server_default=...)\<close>.\<close>

datatype sa_column = Column string sa_type bool "string option"

fun column_name :: "sa_column \<Rightarrow> string" where
  "column_name (Column n _ _ _) = n"

fun enum_of :: "sa_column \<Rightarrow> (string \<times> string list) option" where
  "enum_of (Column _ (SA_Enum ls n) _ _) = Some (n, ls)"
| "enum_of _ = None"

fun render_column :: "sa_column \<Rightarrow> column" where
  "render_column (Column n ty nullable dflt) =
     \<lparr>cl_name = n, cl_type = sql_of ty, cl_nullable = nullable, cl_default = dflt\<rparr>"

text \<open>A constraint inside \<open>create_table\<close>: its name, what it says, and \<open>use_alter\<close>, which leaves it out of the statement.\<close>

type_synonym table_constraint = "string \<times> constraint \<times> bool"

datatype ddl =
    CreateTable string "sa_column list" "table_constraint list"
  | DropTable string
  | CreateIndex string string "string list" bool "string option"
  | DropIndex string string
  | AddColumn string sa_column
  | DropColumn string string
  | AlterNullable string string bool
  | CreateUnique string string "string list"
  | CreateForeignKey string string string "string list" "string list" on_delete
  | DropConstraint string string
  | CreateType string "string list"
  | DropType string
  | DropTypeIfExists string
  | DataStatement

text \<open>The catalogue, and the enumerated types that this run of \<open>alembic\<close> has created: a later table of the run that names
  one of them does not create it again.\<close>

record migration =
  mg_catalog :: catalog
  mg_made :: "string list"

fun checked :: "(bool \<times> 'e) list \<Rightarrow> 'a \<Rightarrow> 'e + 'a" where
  "checked [] x = Inr x"
| "checked ((ok, e) # ds) x = (if ok then checked ds x else Inl e)"

fun each :: "('i \<Rightarrow> 's \<Rightarrow> 'e + 's) \<Rightarrow> 'i list \<Rightarrow> 'e + 's \<Rightarrow> 'e + 's" where
  "each f [] s = s"
| "each f (i # is) (Inl e) = Inl e"
| "each f (i # is) (Inr s) = each f is (f i s)"

text \<open>An operation on a table reads it first; one on a catalogue leaves the record of created types alone.\<close>

fun add_constraint_to :: "string \<Rightarrow> string \<Rightarrow> constraint \<Rightarrow> catalog \<Rightarrow> relation option \<Rightarrow> ddl_error + catalog" where
  "add_constraint_to t n c ct None = Inl (UndefinedTable t)"
| "add_constraint_to t n c ct (Some r) =
     checked
       [(n \<notin> set (map fst (rl_constraints r)), DuplicateObject n),
        (is_key c \<longrightarrow> n \<notin> set (names_in_use ct), DuplicateTable n),
        (is_primary c \<longrightarrow> list_all (\<lambda>k. \<not> is_primary (snd k)) (rl_constraints r), InvalidTableDefinition t),
        (has_columns r (columns_of c), UndefinedColumn n),
        (reference_ok ct r c, InvalidForeignKey n)]
       (with_table t (r\<lparr>rl_constraints := rl_constraints r @ [(n, c)]\<rparr>) ct)"

definition add_constraint :: "string \<Rightarrow> string \<times> constraint \<Rightarrow> catalog \<Rightarrow> ddl_error + catalog" where
  "add_constraint t nc ct = add_constraint_to t (fst nc) (snd nc) ct (table_of ct t)"

definition create_type :: "string \<times> string list \<Rightarrow> catalog \<Rightarrow> ddl_error + catalog" where
  "create_type ty ct =
     checked [(fst ty \<notin> set (map fst (ct_types ct)), DuplicateObject (fst ty))] \<lparr>ct_tables = ct_tables ct, ct_types = ct_types ct @ [ty]\<rparr>"

fun in_run :: "string list \<Rightarrow> ddl_error + catalog \<Rightarrow> ddl_error + migration" where
  "in_run made (Inl e) = Inl e"
| "in_run made (Inr ct) = Inr \<lparr>mg_catalog = ct, mg_made = made\<rparr>"

definition on_catalog :: "(catalog \<Rightarrow> ddl_error + catalog) \<Rightarrow> migration \<Rightarrow> ddl_error + migration" where
  "on_catalog f m = in_run (mg_made m) (f (mg_catalog m))"

definition create_type_once :: "string \<times> string list \<Rightarrow> migration \<Rightarrow> ddl_error + migration" where
  "create_type_once ty m =
     (if fst ty \<in> set (mg_made m) then Inr m
      else in_run (fst ty # mg_made m) (create_type ty (mg_catalog m)))"

definition types_exist :: "catalog \<Rightarrow> sa_column list \<Rightarrow> bool" where
  "types_exist ct cs =
     list_all (\<lambda>c. case cl_type (render_column c) of ENUM n \<Rightarrow> n \<in> set (map fst (ct_types ct)) | _ \<Rightarrow> True) cs"

text \<open>Keys come before foreign keys, wherever the statement has them: a table may refer to itself.\<close>

definition inline_constraints :: "table_constraint list \<Rightarrow> (string \<times> constraint) list" where
  "inline_constraints cs =
     (let inline = map (\<lambda>(n, c, _). (n, c)) (filter (\<lambda>(_, _, use_alter). \<not> use_alter) cs)
      in filter (\<lambda>c. is_key (snd c)) inline @ filter (\<lambda>c. \<not> is_key (snd c)) inline)"

definition add_table :: "string \<Rightarrow> sa_column list \<Rightarrow> catalog \<Rightarrow> ddl_error + catalog" where
  "add_table t cols ct =
     checked
       [(t \<notin> set (names_in_use ct), DuplicateTable t),
        (distinct (map column_name cols), DuplicateColumn t),
        (types_exist ct cols, UndefinedObject t)]
       \<lparr>ct_tables = ct_tables ct @ [(t, \<lparr>rl_columns = map render_column cols, rl_constraints = [], rl_indexes = []\<rparr>)],
        ct_types = ct_types ct\<rparr>"

definition constrain :: "string \<Rightarrow> string \<times> constraint \<Rightarrow> migration \<Rightarrow> ddl_error + migration" where
  "constrain t c m = on_catalog (add_constraint t c) m"

text \<open>\<open>create_table\<close>: the types, the table, its constraints.\<close>

definition create_table :: "string \<Rightarrow> sa_column list \<Rightarrow> table_constraint list \<Rightarrow> migration \<Rightarrow> ddl_error + migration" where
  "create_table t cols cons m =
     each (constrain t) (inline_constraints cons)
       (each (on_catalog \<circ> add_table t) [cols] (each create_type_once (List.map_filter enum_of cols) (Inr m)))"

definition drop_table :: "string \<Rightarrow> catalog \<Rightarrow> ddl_error + catalog" where
  "drop_table t ct =
     checked
       [(table_of ct t \<noteq> None, UndefinedTable t),
        (list_all (\<lambda>k. fst k = t \<or> \<not> points_at t (snd k)) (foreign_keys ct), DependentObjects t)]
       \<lparr>ct_tables = without t (ct_tables ct), ct_types = ct_types ct\<rparr>"

fun create_index_on :: "string \<Rightarrow> string \<Rightarrow> sql_index \<Rightarrow> catalog \<Rightarrow> relation option \<Rightarrow> ddl_error + catalog" where
  "create_index_on n t i ct None = Inl (UndefinedTable t)"
| "create_index_on n t i ct (Some r) =
     checked
       [(n \<notin> set (names_in_use ct), DuplicateTable n), (has_columns r (ix_columns i), UndefinedColumn n)]
       (with_table t (r\<lparr>rl_indexes := rl_indexes r @ [(n, i)]\<rparr>) ct)"

text \<open>No foreign key needs the columns of \<open>t\<close> to stay a key.\<close>

definition unreferenced :: "catalog \<Rightarrow> string \<Rightarrow> string list \<Rightarrow> bool" where
  "unreferenced ct t cs = list_all (\<lambda>k. \<not> points_at_columns t cs (snd k)) (foreign_keys ct)"

fun drop_index_of :: "string \<Rightarrow> string \<Rightarrow> catalog \<Rightarrow> relation \<Rightarrow> sql_index option \<Rightarrow> ddl_error + catalog" where
  "drop_index_of n t ct r None = Inl (UndefinedObject n)"
| "drop_index_of n t ct r (Some i) =
     checked [(\<not> ix_unique i \<or> unreferenced ct t (ix_columns i), DependentObjects n)]
       (with_table t (r\<lparr>rl_indexes := without n (rl_indexes r)\<rparr>) ct)"

fun drop_index_on :: "string \<Rightarrow> string \<Rightarrow> catalog \<Rightarrow> relation option \<Rightarrow> ddl_error + catalog" where
  "drop_index_on n t ct None = Inl (UndefinedTable t)"
| "drop_index_on n t ct (Some r) = drop_index_of n t ct r (find_in n (rl_indexes r))"

fun add_column_to :: "string \<Rightarrow> sa_column \<Rightarrow> catalog \<Rightarrow> relation option \<Rightarrow> ddl_error + catalog" where
  "add_column_to t c ct None = Inl (UndefinedTable t)"
| "add_column_to t c ct (Some r) =
     checked
       [(column_of r (column_name c) = None, DuplicateColumn (column_name c)), (types_exist ct [c], UndefinedObject t)]
       (with_table t (r\<lparr>rl_columns := rl_columns r @ [render_column c]\<rparr>) ct)"

text \<open>Constraints and indexes over a dropped column go with it, unless a foreign key of another table needs the column.\<close>

fun drop_column_of :: "string \<Rightarrow> string \<Rightarrow> catalog \<Rightarrow> relation option \<Rightarrow> ddl_error + catalog" where
  "drop_column_of t c ct None = Inl (UndefinedTable t)"
| "drop_column_of t c ct (Some r) =
     checked
       [(column_of r c \<noteq> None, UndefinedColumn c),
        (list_all (\<lambda>k. fst k = t \<or> \<not> mentions_column t c (snd k)) (foreign_keys ct), DependentObjects c)]
       (with_table t
          \<lparr>rl_columns = filter (\<lambda>x. cl_name x \<noteq> c) (rl_columns r),
           rl_constraints = filter (\<lambda>k. c \<notin> set (columns_of (snd k)) \<and> \<not> mentions_column t c (snd k)) (rl_constraints r),
           rl_indexes = filter (\<lambda>i. c \<notin> set (ix_columns (snd i))) (rl_indexes r)\<rparr> ct)"

fun alter_nullable_of :: "string \<Rightarrow> string \<Rightarrow> bool \<Rightarrow> catalog \<Rightarrow> relation option \<Rightarrow> ddl_error + catalog" where
  "alter_nullable_of t c b ct None = Inl (UndefinedTable t)"
| "alter_nullable_of t c b ct (Some r) =
     checked [(column_of r c \<noteq> None, UndefinedColumn c)]
       (with_table t (r\<lparr>rl_columns := map (\<lambda>x. if cl_name x = c then x\<lparr>cl_nullable := b\<rparr> else x) (rl_columns r)\<rparr>) ct)"

fun drop_constraint_of :: "string \<Rightarrow> string \<Rightarrow> catalog \<Rightarrow> relation \<Rightarrow> constraint option \<Rightarrow> ddl_error + catalog" where
  "drop_constraint_of n t ct r None = Inl (UndefinedObject n)"
| "drop_constraint_of n t ct r (Some c) =
     checked [(\<not> is_key c \<or> unreferenced ct t (columns_of c), DependentObjects n)]
       (with_table t (r\<lparr>rl_constraints := without n (rl_constraints r)\<rparr>) ct)"

fun drop_constraint_on :: "string \<Rightarrow> string \<Rightarrow> catalog \<Rightarrow> relation option \<Rightarrow> ddl_error + catalog" where
  "drop_constraint_on n t ct None = Inl (UndefinedTable t)"
| "drop_constraint_on n t ct (Some r) = drop_constraint_of n t ct r (find_in n (rl_constraints r))"

definition drop_type :: "bool \<Rightarrow> string \<Rightarrow> catalog \<Rightarrow> ddl_error + catalog" where
  "drop_type if_exists n ct =
     checked
       [(if_exists \<or> n \<in> set (map fst (ct_types ct)), UndefinedObject n),
        (n \<notin> set (map fst (ct_types ct)) \<or> \<not> type_used ct n, DependentObjects n)]
       \<lparr>ct_tables = ct_tables ct, ct_types = without n (ct_types ct)\<rparr>"

fun exec_ddl :: "ddl \<Rightarrow> catalog \<Rightarrow> ddl_error + catalog" where
  "exec_ddl (DropTable t) ct = drop_table t ct"
| "exec_ddl (CreateIndex n t cs u w) ct =
     create_index_on n t \<lparr>ix_columns = cs, ix_unique = u, ix_where = w\<rparr> ct (table_of ct t)"
| "exec_ddl (DropIndex n t) ct = drop_index_on n t ct (table_of ct t)"
| "exec_ddl (AddColumn t c) ct = add_column_to t c ct (table_of ct t)"
| "exec_ddl (DropColumn t c) ct = drop_column_of t c ct (table_of ct t)"
| "exec_ddl (AlterNullable t c b) ct = alter_nullable_of t c b ct (table_of ct t)"
| "exec_ddl (CreateUnique n t cs) ct = add_constraint t (n, Unique cs) ct"
| "exec_ddl (CreateForeignKey n t u cs refs od) ct = add_constraint t (n, ForeignKey cs u refs od) ct"
| "exec_ddl (DropConstraint n t) ct = drop_constraint_on n t ct (table_of ct t)"
| "exec_ddl (CreateType n ls) ct = create_type (n, ls) ct"
| "exec_ddl (DropType n) ct = drop_type False n ct"
| "exec_ddl (DropTypeIfExists n) ct = drop_type True n ct"
| "exec_ddl _ ct = Inr ct"

fun step_ddl :: "ddl \<Rightarrow> migration \<Rightarrow> ddl_error + migration" where
  "step_ddl (CreateTable t cols cons) m = create_table t cols cons m"
| "step_ddl d m = on_catalog (exec_ddl d) m"

text \<open>One run of \<open>alembic\<close> over a list of operations, in one transaction.\<close>

fun finished :: "ddl_error + migration \<Rightarrow> ddl_error + catalog" where
  "finished (Inl e) = Inl e"
| "finished (Inr m) = Inr (mg_catalog m)"

definition run_ddl :: "ddl list \<Rightarrow> catalog \<Rightarrow> ddl_error + catalog" where
  "run_ddl ds ct = finished (each step_ddl ds (Inr \<lparr>mg_catalog = ct, mg_made = []\<rparr>))"

section \<open>Evaluation\<close>

text \<open>Code equations that pass a catalogue through patterns: the simplifier then leaves what it has evaluated alone.\<close>

fun pick :: "bool \<Rightarrow> 'a \<Rightarrow> 'a \<Rightarrow> 'a" where
  "pick True x y = x"
| "pick False x y = y"

lemma pick_if: "pick b x y = (if b then x else y)"
  by (cases b) simp_all

lemma checked_code [code]:
  "checked [] x = Inr x"
  "checked ((True, e) # ds) x = checked ds x"
  "checked ((False, e) # ds) x = Inl e"
  by simp_all

lemma put_table_code [code]:
  "put_table t r' [] = []"
  "put_table t r' ((n, r) # ts) = pick (n = t) ((n, r') # ts) ((n, r) # put_table t r' ts)"
  by (simp_all add: pick_if)

lemma find_column_code [code]:
  "find_column c [] = None"
  "find_column c (x # xs) = pick (cl_name x = c) (Some x) (find_column c xs)"
  by (simp_all add: pick_if)

lemma find_in_code [code]:
  "find_in k [] = None"
  "find_in k ((n, x) # xs) = pick (n = k) (Some x) (find_in k xs)"
  by (simp_all add: pick_if)

lemma without_code [code]:
  "without k [] = []"
  "without k ((n, x) # xs) = pick (n = k) (\<lambda>ys. ys) ((#) (n, x)) (without k xs)"
  by (simp_all add: pick_if)

lemma create_type_once_code [code]:
  "create_type_once ty m =
     pick (fst ty \<in> set (mg_made m)) (Inr m) (in_run (fst ty # mg_made m) (create_type ty (mg_catalog m)))"
  by (simp add: create_type_once_def pick_if)

section \<open>Comparing catalogues\<close>

text \<open>What \<open>alembic check\<close> compares: the same columns, constraints, indexes and types, in any order.\<close>

definition same_items :: "'a list \<Rightarrow> 'a list \<Rightarrow> bool" where
  "same_items xs ys = (length xs = length ys \<and> set xs = set ys)"

definition same_relation :: "relation \<Rightarrow> relation \<Rightarrow> bool" where
  "same_relation r s =
     (same_items (rl_columns r) (rl_columns s) \<and> same_items (rl_constraints r) (rl_constraints s) \<and>
      same_items (rl_indexes r) (rl_indexes s))"

definition same_catalog :: "catalog \<Rightarrow> catalog \<Rightarrow> bool" where
  "same_catalog a b =
     (same_items (ct_types a) (ct_types b) \<and> same_items (map fst (ct_tables a)) (map fst (ct_tables b)) \<and>
      list_all (\<lambda>(t, r). case table_of b t of Some s \<Rightarrow> same_relation r s | None \<Rightarrow> False) (ct_tables a))"

section \<open>Declared models\<close>

text \<open>\<open>NAMING_CONVENTION\<close>.\<close>

definition ix_name :: "string \<Rightarrow> string \<Rightarrow> string" where
  "ix_name t c = ''ix_'' @ t @ ''_'' @ c"

definition uq_name :: "string \<Rightarrow> string \<Rightarrow> string" where
  "uq_name t c = ''uq_'' @ t @ ''_'' @ c"

definition fk_name :: "string \<Rightarrow> string \<Rightarrow> string \<Rightarrow> string" where
  "fk_name t c u = ''fk_'' @ t @ ''_'' @ c @ ''_'' @ u"

definition pk_name :: "string \<Rightarrow> string" where
  "pk_name t = ''pk_'' @ t"

text \<open>\<open>mapped_column(...)\<close> and the entries of \<open>__table_args__\<close>.\<close>

record mapped =
  mc_name :: string
  mc_type :: sa_type
  mc_nullable :: bool
  mc_primary :: bool
  mc_unique :: bool
  mc_index :: bool
  mc_reference :: "(string \<times> string \<times> on_delete) option"
  mc_default :: "string option"

definition mapped_column :: "string \<Rightarrow> sa_type \<Rightarrow> bool \<Rightarrow> mapped" where
  "mapped_column n ty nullable =
     \<lparr>mc_name = n, mc_type = ty, mc_nullable = nullable, mc_primary = False, mc_unique = False, mc_index = False,
      mc_reference = None, mc_default = None\<rparr>"

datatype table_arg =
    Index string "string list" bool "string option"
  | UniqueConstraint string "string list"
  | ForeignKeyConstraint string "string list" string "string list" on_delete

record model =
  md_table :: string
  md_args :: "table_arg list"
  md_columns :: "mapped list"

definition column_constraints :: "string \<Rightarrow> mapped \<Rightarrow> (string \<times> constraint) list" where
  "column_constraints t c =
     (if mc_unique c \<and> \<not> mc_index c then [(uq_name t (mc_name c), Unique [mc_name c])] else []) @
     (case mc_reference c of
        None \<Rightarrow> []
      | Some (u, k, od) \<Rightarrow> [(fk_name t (mc_name c) u, ForeignKey [mc_name c] u [k] od)])"

text \<open>\<open>index=True\<close> makes an index, a unique one when the column is \<open>unique\<close> as well.\<close>

definition column_indexes :: "string \<Rightarrow> mapped \<Rightarrow> (string \<times> sql_index) list" where
  "column_indexes t c =
     (if mc_index c then [(ix_name t (mc_name c), \<lparr>ix_columns = [mc_name c], ix_unique = mc_unique c, ix_where = None\<rparr>)] else [])"

fun arg_constraints :: "table_arg \<Rightarrow> (string \<times> constraint) list" where
  "arg_constraints (UniqueConstraint n cs) = [(n, Unique cs)]"
| "arg_constraints (ForeignKeyConstraint n cs u refs od) = [(n, ForeignKey cs u refs od)]"
| "arg_constraints _ = []"

fun arg_indexes :: "table_arg \<Rightarrow> (string \<times> sql_index) list" where
  "arg_indexes (Index n cs u w) = [(n, \<lparr>ix_columns = cs, ix_unique = u, ix_where = w\<rparr>)]"
| "arg_indexes _ = []"

definition declared_relation :: "model \<Rightarrow> relation" where
  "declared_relation md =
     (let t = md_table md; cs = md_columns md in
      \<lparr>rl_columns = map (\<lambda>c. render_column (Column (mc_name c) (mc_type c) (mc_nullable c) (mc_default c))) cs,
       rl_constraints = (pk_name t, PrimaryKey (map mc_name (filter mc_primary cs))) #
         concat (map (column_constraints t) cs) @ concat (map arg_constraints (md_args md)),
       rl_indexes = concat (map (column_indexes t) cs) @ concat (map arg_indexes (md_args md))\<rparr>)"

definition declared_types :: "model list \<Rightarrow> (string \<times> string list) list" where
  "declared_types mds =
     remdups (List.map_filter (\<lambda>c. enum_of (Column (mc_name c) (mc_type c) (mc_nullable c) (mc_default c)))
       (concat (map md_columns mds)))"

definition declared_catalog :: "model list \<Rightarrow> catalog" where
  "declared_catalog mds = \<lparr>ct_tables = map (\<lambda>md. (md_table md, declared_relation md)) mds, ct_types = declared_types mds\<rparr>"

end
