(* ===== verification/Migrations.thy ===== *)
theory Migrations
  imports Schema
begin

text \<open>
  The six revisions of \<open>backend/migrations/versions\<close>, statement by statement: one list of operations per table of the
  first revision, one per \<open>upgrade\<close> and \<open>downgrade\<close>. The statements of a revision that change rows are a
  \<^const>\<open>DataStatement\<close> here; what they do to the rows is in \<open>Backfill\<close> and \<open>Collapse\<close>.
\<close>

definition create_audit_events :: "ddl list" where
  "create_audit_events =
     [CreateTable ''audit_events''
        [Column ''id'' SA_UUID False None,
         Column ''workspace_id'' SA_UUID False None,
         Column ''actor_type'' (SA_Enum [''USER'', ''SYSTEM'', ''API'', ''WEBHOOK''] ''actor_type'') False None,
         Column ''actor_id'' SA_UUID True None,
         Column ''actor_label'' (SA_String 255) True None,
         Column ''action'' (SA_String 64) False None,
         Column ''resource_type'' (SA_String 32) False None,
         Column ''resource_id'' SA_UUID True None,
         Column ''resource_label'' (SA_String 255) True None,
         Column ''result'' (SA_Enum [''SUCCESS'', ''FAILURE''] ''audit_result'') False None,
         Column ''before_summary'' SA_JSONB True None,
         Column ''after_summary'' SA_JSONB True None,
         Column ''trace_id'' (SA_String 48) False None,
         Column ''ip_address'' (SA_String 64) True None,
         Column ''user_agent'' (SA_String 255) True None,
         Column ''created_at'' SA_DateTime False None]
        [(''pk_audit_events'', PrimaryKey [''id''], False)],
      CreateIndex ''ix_audit_events_action'' ''audit_events'' [''action''] False None,
      CreateIndex ''ix_audit_events_created_at'' ''audit_events'' [''created_at''] False None,
      CreateIndex ''ix_audit_events_workspace_id'' ''audit_events'' [''workspace_id''] False None,
      CreateIndex ''ix_audit_ws_created'' ''audit_events'' [''workspace_id'', ''created_at''] False None]"

definition create_engine_instances :: "ddl list" where
  "create_engine_instances =
     [CreateTable ''engine_instances''
        [Column ''id'' SA_UUID False None,
         Column ''engine_type'' (SA_Enum [''N8N_CORE''] ''engine_type'') False None,
         Column ''name'' (SA_String 80) False None,
         Column ''endpoint_ref'' (SA_String 160) False None,
         Column ''engine_version'' (SA_String 32) True None,
         Column ''adapter_contract_version'' (SA_String 16) False None,
         Column ''compiler_version'' (SA_String 16) False None,
         Column ''status'' (SA_Enum [''HEALTHY'', ''DEGRADED'', ''OFFLINE''] ''engine_instance_status'') False None,
         Column ''last_probe_at'' SA_DateTime True None,
         Column ''last_probe_message'' SA_Text True None,
         Column ''region'' (SA_String 32) True None,
         Column ''capacity_class'' (SA_String 32) True None,
         Column ''is_default'' SA_Boolean False None,
         Column ''created_at'' SA_DateTime False (Some ''now()''),
         Column ''updated_at'' SA_DateTime False (Some ''now()'')]
        [(''pk_engine_instances'', PrimaryKey [''id''], False)]]"

definition create_node_definitions :: "ddl list" where
  "create_node_definitions =
     [CreateTable ''node_definitions''
        [Column ''id'' SA_UUID False None,
         Column ''node_key'' (SA_String 64) False None,
         Column ''display_name'' (SA_String 120) False None,
         Column ''category'' (SA_Enum [''TRIGGER'', ''ACTION'', ''LOGIC'', ''DATA'', ''APP''] ''node_category'') False None,
         Column ''description'' SA_Text True None,
         Column ''icon'' (SA_String 64) True None,
         Column ''product_schema_version'' SA_Integer False None,
         Column ''config_schema'' SA_JSONB False None,
         Column ''capability_json'' SA_JSONB False None,
         Column ''certification'' (SA_Enum [''SUPPORTED'', ''BETA'', ''HIDDEN'', ''BLOCKED''] ''certification'') False None,
         Column ''status'' (SA_Enum [''ACTIVE'', ''DISABLED'', ''DEPRECATED''] ''node_status'') False None,
         Column ''engine_binding'' SA_JSONB False None,
         Column ''security_profile'' SA_JSONB False None,
         Column ''docs_ref'' (SA_String 255) True None,
         Column ''last_certified_at'' SA_DateTime True None,
         Column ''spec_hash'' (SA_String 64) False None,
         Column ''known_issues'' SA_Text True None,
         Column ''created_at'' SA_DateTime False (Some ''now()''),
         Column ''updated_at'' SA_DateTime False (Some ''now()'')]
        [(''pk_node_definitions'', PrimaryKey [''id''], False)],
      CreateIndex ''ix_node_definitions_node_key'' ''node_definitions'' [''node_key''] True None,
      CreateIndex ''ix_nodes_status_certification_category'' ''node_definitions'' [''status'', ''certification'', ''category''] False None]"

definition create_notifications :: "ddl list" where
  "create_notifications =
     [CreateTable ''notifications''
        [Column ''id'' SA_UUID False None,
         Column ''workspace_id'' SA_UUID False None,
         Column ''event_type'' (SA_Enum [''EXECUTION_FAILED'', ''CONSECUTIVE_FAILURES'', ''CREDENTIAL_INVALID'', ''SCHEDULE_MISSED'', ''WEBHOOK_AUTH_FAILURE_BURST'', ''ENGINE_DEGRADED'', ''VERSION_INCOMPATIBLE''] ''alert_event_type'') False None,
         Column ''severity'' (SA_String 16) False None,
         Column ''title'' (SA_String 255) False None,
         Column ''body'' SA_Text True None,
         Column ''workflow_id'' SA_UUID True None,
         Column ''execution_id'' SA_UUID True None,
         Column ''dedup_key'' (SA_String 160) False None,
         Column ''status'' (SA_Enum [''UNREAD'', ''READ'', ''ACKNOWLEDGED''] ''notification_status'') False None,
         Column ''remediation'' SA_JSONB True None,
         Column ''created_at'' SA_DateTime False None,
         Column ''read_at'' SA_DateTime True None]
        [(''pk_notifications'', PrimaryKey [''id''], False)],
      CreateIndex ''ix_notifications_created_at'' ''notifications'' [''created_at''] False None,
      CreateIndex ''ix_notifications_dedup_key'' ''notifications'' [''dedup_key''] False None,
      CreateIndex ''ix_notifications_workspace_id'' ''notifications'' [''workspace_id''] False None,
      CreateIndex ''ix_notifications_ws_status_created'' ''notifications'' [''workspace_id'', ''status'', ''created_at''] False None]"

definition create_secrets :: "ddl list" where
  "create_secrets =
     [CreateTable ''secrets''
        [Column ''id'' SA_UUID False None,
         Column ''ref'' (SA_String 255) False None,
         Column ''workspace_id'' SA_UUID False None,
         Column ''provider'' (SA_String 64) False None,
         Column ''wrapped_data_key'' SA_Text False None,
         Column ''ciphertext'' SA_Text False None,
         Column ''field_names'' SA_JSONB False None,
         Column ''version'' SA_Integer False None,
         Column ''rotated_at'' SA_DateTime True None,
         Column ''created_at'' SA_DateTime False (Some ''now()''),
         Column ''updated_at'' SA_DateTime False (Some ''now()'')]
        [(''pk_secrets'', PrimaryKey [''id''], False)],
      CreateIndex ''ix_secrets_ref'' ''secrets'' [''ref''] True None,
      CreateIndex ''ix_secrets_workspace_id'' ''secrets'' [''workspace_id''] False None]"

definition create_users :: "ddl list" where
  "create_users =
     [CreateTable ''users''
        [Column ''id'' SA_UUID False None,
         Column ''email'' (SA_String 255) False None,
         Column ''full_name'' (SA_String 255) False None,
         Column ''password_hash'' (SA_String 255) False None,
         Column ''is_active'' SA_Boolean False None,
         Column ''is_platform_admin'' SA_Boolean False None,
         Column ''locale'' (SA_String 8) False None,
         Column ''last_login_at'' SA_DateTime True None,
         Column ''failed_login_count'' SA_Integer False None,
         Column ''locked_until'' SA_DateTime True None,
         Column ''password_change_required'' SA_Boolean False (Some ''false''),
         Column ''session_version'' SA_Integer False (Some ''0''),
         Column ''password_changed_at'' SA_DateTime True None,
         Column ''created_at'' SA_DateTime False (Some ''now()''),
         Column ''updated_at'' SA_DateTime False (Some ''now()'')]
        [(''pk_users'', PrimaryKey [''id''], False)],
      CreateIndex ''ix_users_email'' ''users'' [''email''] True None]"

definition create_workspaces :: "ddl list" where
  "create_workspaces =
     [CreateTable ''workspaces''
        [Column ''id'' SA_UUID False None,
         Column ''name'' (SA_String 100) False None,
         Column ''slug'' (SA_String 100) False None,
         Column ''status'' (SA_Enum [''ACTIVE'', ''SUSPENDED'', ''DELETED''] ''workspace_status'') False None,
         Column ''timezone'' (SA_String 64) False None,
         Column ''engine_instance_id'' SA_UUID True None,
         Column ''max_concurrent_executions'' SA_Integer True None,
         Column ''created_at'' SA_DateTime False (Some ''now()''),
         Column ''updated_at'' SA_DateTime False (Some ''now()'')]
        [(''fk_workspaces_engine_instance_id_engine_instances'', ForeignKey [''engine_instance_id''] ''engine_instances'' [''id''] NO_ACTION, False),
         (''pk_workspaces'', PrimaryKey [''id''], False)],
      CreateIndex ''ix_workspaces_slug'' ''workspaces'' [''slug''] True None]"

definition create_credentials :: "ddl list" where
  "create_credentials =
     [CreateTable ''credentials''
        [Column ''id'' SA_UUID False None,
         Column ''workspace_id'' SA_UUID False None,
         Column ''name'' (SA_String 160) False None,
         Column ''credential_type'' (SA_Enum [''NONE'', ''HTTP_BASIC'', ''BEARER'', ''HEADER_API_KEY'', ''QUERY_API_KEY''] ''credential_type'') False None,
         Column ''secret_ref'' (SA_String 255) True None,
         Column ''public_metadata'' SA_JSONB False None,
         Column ''status'' (SA_Enum [''ACTIVE'', ''INVALID'', ''REVOKED'', ''DELETED''] ''credential_status'') False None,
         Column ''last_test_at'' SA_DateTime True None,
         Column ''last_test_ok'' SA_Boolean True None,
         Column ''last_test_message'' SA_Text True None,
         Column ''created_by'' SA_UUID True None,
         Column ''rotated_at'' SA_DateTime True None,
         Column ''deleted_at'' SA_DateTime True None,
         Column ''created_at'' SA_DateTime False (Some ''now()''),
         Column ''updated_at'' SA_DateTime False (Some ''now()'')]
        [(''fk_credentials_created_by_users'', ForeignKey [''created_by''] ''users'' [''id''] SET_NULL, False),
         (''fk_credentials_workspace_id_workspaces'', ForeignKey [''workspace_id''] ''workspaces'' [''id''] CASCADE, False),
         (''pk_credentials'', PrimaryKey [''id''], False),
         (''uq_credential_ws_name'', Unique [''workspace_id'', ''name''], False)],
      CreateIndex ''ix_credentials_workspace_id'' ''credentials'' [''workspace_id''] False None,
      CreateIndex ''ix_credentials_ws_status'' ''credentials'' [''workspace_id'', ''status''] False None]"

definition create_memberships :: "ddl list" where
  "create_memberships =
     [CreateTable ''memberships''
        [Column ''id'' SA_UUID False None,
         Column ''workspace_id'' SA_UUID False None,
         Column ''user_id'' SA_UUID False None,
         Column ''role'' (SA_Enum [''OWNER'', ''AUTOMATION_ADMIN'', ''AUTOMATION_BUILDER'', ''OPERATOR'', ''ANALYST'', ''AUDITOR'', ''PLATFORM_ADMIN''] ''member_role'') False None,
         Column ''created_at'' SA_DateTime False (Some ''now()''),
         Column ''updated_at'' SA_DateTime False (Some ''now()'')]
        [(''fk_memberships_user_id_users'', ForeignKey [''user_id''] ''users'' [''id''] CASCADE, False),
         (''fk_memberships_workspace_id_workspaces'', ForeignKey [''workspace_id''] ''workspaces'' [''id''] CASCADE, False),
         (''pk_memberships'', PrimaryKey [''id''], False),
         (''uq_membership_ws_user'', Unique [''workspace_id'', ''user_id''], False)],
      CreateIndex ''ix_memberships_user_id'' ''memberships'' [''user_id''] False None,
      CreateIndex ''ix_memberships_workspace_id'' ''memberships'' [''workspace_id''] False None]"

definition create_workflows :: "ddl list" where
  "create_workflows =
     [CreateTable ''workflows''
        [Column ''id'' SA_UUID False None,
         Column ''workspace_id'' SA_UUID False None,
         Column ''name'' (SA_String 200) False None,
         Column ''description'' SA_Text True None,
         Column ''status'' (SA_Enum [''ACTIVE'', ''INACTIVE'', ''DELETED''] ''workflow_status'') False None,
         Column ''published_version_id'' SA_UUID True None,
         Column ''active_version_id'' SA_UUID True None,
         Column ''trigger_type_cache'' (SA_Enum [''MANUAL'', ''WEBHOOK'', ''SCHEDULE''] ''trigger_type'') True None,
         Column ''created_by'' SA_UUID True None,
         Column ''updated_by'' SA_UUID True None,
         Column ''deleted_at'' SA_DateTime True None,
         Column ''created_at'' SA_DateTime False (Some ''now()''),
         Column ''updated_at'' SA_DateTime False (Some ''now()'')]
        [(''fk_workflows_active_version_id_workflow_versions'', ForeignKey [''active_version_id''] ''workflow_versions'' [''id''] SET_NULL, True),
         (''fk_workflows_created_by_users'', ForeignKey [''created_by''] ''users'' [''id''] SET_NULL, False),
         (''fk_workflows_published_version_id_workflow_versions'', ForeignKey [''published_version_id''] ''workflow_versions'' [''id''] SET_NULL, True),
         (''fk_workflows_updated_by_users'', ForeignKey [''updated_by''] ''users'' [''id''] SET_NULL, False),
         (''fk_workflows_workspace_id_workspaces'', ForeignKey [''workspace_id''] ''workspaces'' [''id''] CASCADE, False),
         (''pk_workflows'', PrimaryKey [''id''], False)],
      CreateIndex ''ix_workflows_workspace_id'' ''workflows'' [''workspace_id''] False None,
      CreateIndex ''ix_workflows_ws_active_version'' ''workflows'' [''workspace_id'', ''active_version_id''] False None,
      CreateIndex ''ix_workflows_ws_status_updated'' ''workflows'' [''workspace_id'', ''status'', ''updated_at''] False None]"

definition create_alert_rules :: "ddl list" where
  "create_alert_rules =
     [CreateTable ''alert_rules''
        [Column ''id'' SA_UUID False None,
         Column ''workspace_id'' SA_UUID False None,
         Column ''event_type'' (SA_Enum [''EXECUTION_FAILED'', ''CONSECUTIVE_FAILURES'', ''CREDENTIAL_INVALID'', ''SCHEDULE_MISSED'', ''WEBHOOK_AUTH_FAILURE_BURST'', ''ENGINE_DEGRADED'', ''VERSION_INCOMPATIBLE''] ''alert_event_type'') False None,
         Column ''workflow_id'' SA_UUID True None,
         Column ''threshold'' SA_Integer False None,
         Column ''channel'' (SA_String 32) False None,
         Column ''cooldown_seconds'' SA_Integer False None,
         Column ''enabled'' SA_Boolean False None,
         Column ''created_at'' SA_DateTime False (Some ''now()''),
         Column ''updated_at'' SA_DateTime False (Some ''now()'')]
        [(''fk_alert_rules_workflow_id_workflows'', ForeignKey [''workflow_id''] ''workflows'' [''id''] CASCADE, False),
         (''fk_alert_rules_workspace_id_workspaces'', ForeignKey [''workspace_id''] ''workspaces'' [''id''] CASCADE, False),
         (''pk_alert_rules'', PrimaryKey [''id''], False)],
      CreateIndex ''ix_alert_rules_workspace_id'' ''alert_rules'' [''workspace_id''] False None,
      CreateIndex ''ix_alert_rules_ws_event'' ''alert_rules'' [''workspace_id'', ''event_type''] False None]"

definition create_workflow_drafts :: "ddl list" where
  "create_workflow_drafts =
     [CreateTable ''workflow_drafts''
        [Column ''workflow_id'' SA_UUID False None,
         Column ''workspace_id'' SA_UUID False None,
         Column ''graph_json'' SA_JSONB False None,
         Column ''graph_hash'' (SA_String 64) False None,
         Column ''product_schema_version'' SA_Integer False None,
         Column ''revision'' SA_BigInteger False (Some ''0''),
         Column ''validation_state'' SA_JSONB True None,
         Column ''saved_by'' SA_UUID True None,
         Column ''updated_at'' SA_DateTime False None]
        [(''fk_workflow_drafts_saved_by_users'', ForeignKey [''saved_by''] ''users'' [''id''] SET_NULL, False),
         (''fk_workflow_drafts_workflow_id_workflows'', ForeignKey [''workflow_id''] ''workflows'' [''id''] CASCADE, False),
         (''pk_workflow_drafts'', PrimaryKey [''workflow_id''], False)],
      CreateIndex ''ix_workflow_drafts_workspace_id'' ''workflow_drafts'' [''workspace_id''] False None]"

definition create_workflow_versions :: "ddl list" where
  "create_workflow_versions =
     [CreateTable ''workflow_versions''
        [Column ''id'' SA_UUID False None,
         Column ''workflow_id'' SA_UUID False None,
         Column ''workspace_id'' SA_UUID False None,
         Column ''version_number'' SA_Integer False None,
         Column ''graph_json'' SA_JSONB False None,
         Column ''graph_hash'' (SA_String 64) False None,
         Column ''product_schema_version'' SA_Integer False None,
         Column ''compiler_version'' (SA_String 32) False None,
         Column ''engine_compatibility_set'' (SA_String 64) False None,
         Column ''published_by'' SA_UUID True None,
         Column ''published_at'' SA_DateTime False None,
         Column ''change_note'' SA_Text True None]
        [(''fk_workflow_versions_published_by_users'', ForeignKey [''published_by''] ''users'' [''id''] SET_NULL, False),
         (''fk_workflow_versions_workflow_id_workflows'', ForeignKey [''workflow_id''] ''workflows'' [''id''] CASCADE, False),
         (''pk_workflow_versions'', PrimaryKey [''id''], False),
         (''uq_version_workflow_number'', Unique [''workflow_id'', ''version_number''], False)],
      CreateIndex ''ix_versions_workflow_number'' ''workflow_versions'' [''workflow_id'', ''version_number''] False None,
      CreateIndex ''ix_workflow_versions_workflow_id'' ''workflow_versions'' [''workflow_id''] False None,
      CreateIndex ''ix_workflow_versions_workspace_id'' ''workflow_versions'' [''workspace_id''] False None]"

definition create_executions :: "ddl list" where
  "create_executions =
     [CreateTable ''executions''
        [Column ''id'' SA_UUID False None,
         Column ''short_id'' (SA_String 12) False None,
         Column ''workspace_id'' SA_UUID False None,
         Column ''workflow_id'' SA_UUID False None,
         Column ''version_kind'' (SA_Enum [''DRAFT'', ''PUBLISHED''] ''version_kind'') False None,
         Column ''workflow_version_id'' SA_UUID True None,
         Column ''version_number'' SA_Integer True None,
         Column ''draft_revision'' SA_BigInteger True None,
         Column ''graph_snapshot'' SA_JSONB False None,
         Column ''graph_hash'' (SA_String 64) False None,
         Column ''trigger_type'' (SA_Enum [''MANUAL'', ''WEBHOOK'', ''SCHEDULE''] ''trigger_type'') False None,
         Column ''triggered_by'' SA_UUID True None,
         Column ''retry_of_execution_id'' SA_UUID True None,
         Column ''idempotency_key'' (SA_String 128) True None,
         Column ''status'' (SA_Enum [''QUEUED'', ''DISPATCHING'', ''RUNNING'', ''SUCCEEDED'', ''FAILED'', ''CANCEL_REQUESTED'', ''CANCELLED'', ''TIMED_OUT'', ''FAILED_TO_START'', ''ENGINE_INTERRUPTED''] ''execution_status'') False None,
         Column ''error_category'' (SA_String 48) True None,
         Column ''error_code'' (SA_String 64) True None,
         Column ''error_summary'' SA_Text True None,
         Column ''failed_node_name'' (SA_String 200) True None,
         Column ''queued_at'' SA_DateTime False None,
         Column ''started_at'' SA_DateTime True None,
         Column ''ended_at'' SA_DateTime True None,
         Column ''duration_ms'' SA_BigInteger True None,
         Column ''last_seen_at'' SA_DateTime True None,
         Column ''input_metadata'' SA_JSONB False None,
         Column ''start_payload'' SA_JSONB True None,
         Column ''output_summary'' SA_JSONB False None,
         Column ''technical_metadata'' SA_JSONB False None,
         Column ''engine_ref'' (SA_String 128) True None,
         Column ''engine_instance_id'' SA_UUID True None,
         Column ''trace_id'' (SA_String 48) False None]
        [(''fk_executions_engine_instance_id_engine_instances'', ForeignKey [''engine_instance_id''] ''engine_instances'' [''id''] NO_ACTION, False),
         (''fk_executions_retry_of_execution_id_executions'', ForeignKey [''retry_of_execution_id''] ''executions'' [''id''] SET_NULL, False),
         (''fk_executions_triggered_by_users'', ForeignKey [''triggered_by''] ''users'' [''id''] SET_NULL, False),
         (''fk_executions_workflow_id_workflows'', ForeignKey [''workflow_id''] ''workflows'' [''id''] CASCADE, False),
         (''fk_executions_workflow_version_id_workflow_versions'', ForeignKey [''workflow_version_id''] ''workflow_versions'' [''id''] SET_NULL, False),
         (''fk_executions_workspace_id_workspaces'', ForeignKey [''workspace_id''] ''workspaces'' [''id''] CASCADE, False),
         (''pk_executions'', PrimaryKey [''id''], False)],
      CreateIndex ''ix_executions_dispatch'' ''executions'' [''status'', ''queued_at''] False None,
      CreateIndex ''ix_executions_idempotency'' ''executions'' [''workspace_id'', ''idempotency_key''] False None,
      CreateIndex ''ix_executions_short_id'' ''executions'' [''short_id''] False None,
      CreateIndex ''ix_executions_workflow_id'' ''executions'' [''workflow_id''] False None,
      CreateIndex ''ix_executions_workspace_id'' ''executions'' [''workspace_id''] False None,
      CreateIndex ''ix_executions_ws_status_queued'' ''executions'' [''workspace_id'', ''status'', ''queued_at''] False None,
      CreateIndex ''ix_executions_ws_workflow_started'' ''executions'' [''workspace_id'', ''workflow_id'', ''started_at''] False None]"

definition create_trigger_bindings :: "ddl list" where
  "create_trigger_bindings =
     [CreateTable ''trigger_bindings''
        [Column ''id'' SA_UUID False None,
         Column ''workflow_id'' SA_UUID False None,
         Column ''workflow_version_id'' SA_UUID True None,
         Column ''workspace_id'' SA_UUID False None,
         Column ''trigger_type'' (SA_Enum [''MANUAL'', ''WEBHOOK'', ''SCHEDULE''] ''trigger_type'') False None,
         Column ''enabled'' SA_Boolean False None,
         Column ''config_json'' SA_JSONB False None,
         Column ''public_key'' (SA_String 64) True None,
         Column ''webhook_secret_ref'' (SA_String 255) True None,
         Column ''next_run_at'' SA_DateTime True None,
         Column ''last_fired_at'' SA_DateTime True None,
         Column ''overlap_policy'' (SA_Enum [''SKIP_IF_RUNNING'', ''ALLOW''] ''overlap_policy'') False None,
         Column ''activated_by'' SA_UUID True None,
         Column ''created_at'' SA_DateTime False (Some ''now()''),
         Column ''updated_at'' SA_DateTime False (Some ''now()'')]
        [(''fk_trigger_bindings_activated_by_users'', ForeignKey [''activated_by''] ''users'' [''id''] SET_NULL, False),
         (''fk_trigger_bindings_workflow_id_workflows'', ForeignKey [''workflow_id''] ''workflows'' [''id''] CASCADE, False),
         (''fk_trigger_bindings_workflow_version_id_workflow_versions'', ForeignKey [''workflow_version_id''] ''workflow_versions'' [''id''] SET_NULL, False),
         (''pk_trigger_bindings'', PrimaryKey [''id''], False),
         (''uq_trigger_public_key'', Unique [''public_key''], False)],
      CreateIndex ''ix_trigger_bindings_workflow_id'' ''trigger_bindings'' [''workflow_id''] False None,
      CreateIndex ''ix_trigger_bindings_workspace_id'' ''trigger_bindings'' [''workspace_id''] False None,
      CreateIndex ''ix_triggers_due'' ''trigger_bindings'' [''enabled'', ''next_run_at''] False None]"

definition create_execution_logs :: "ddl list" where
  "create_execution_logs =
     [CreateTable ''execution_logs''
        [Column ''id'' SA_UUID False None,
         Column ''execution_id'' SA_UUID False None,
         Column ''sequence'' SA_Integer False None,
         Column ''at'' SA_DateTime False None,
         Column ''level'' (SA_String 16) False None,
         Column ''node_name'' (SA_String 200) True None,
         Column ''message'' SA_Text False None]
        [(''fk_execution_logs_execution_id_executions'', ForeignKey [''execution_id''] ''executions'' [''id''] CASCADE, False),
         (''pk_execution_logs'', PrimaryKey [''id''], False)],
      CreateIndex ''ix_execution_logs_exec_seq'' ''execution_logs'' [''execution_id'', ''sequence''] False None,
      CreateIndex ''ix_execution_logs_execution_id'' ''execution_logs'' [''execution_id''] False None]"

definition create_execution_node_results :: "ddl list" where
  "create_execution_node_results =
     [CreateTable ''execution_node_results''
        [Column ''id'' SA_UUID False None,
         Column ''execution_id'' SA_UUID False None,
         Column ''node_id'' (SA_String 64) False None,
         Column ''node_key'' (SA_String 64) False None,
         Column ''node_name'' (SA_String 200) False None,
         Column ''status'' (SA_Enum [''PENDING'', ''RUNNING'', ''SUCCEEDED'', ''FAILED'', ''SKIPPED''] ''node_run_status'') False None,
         Column ''execution_index'' SA_Integer False None,
         Column ''started_at'' SA_DateTime True None,
         Column ''ended_at'' SA_DateTime True None,
         Column ''duration_ms'' SA_BigInteger True None,
         Column ''item_count'' SA_Integer True None,
         Column ''input_preview'' SA_JSONB True None,
         Column ''output_preview'' SA_JSONB True None,
         Column ''truncated'' SA_Boolean False None,
         Column ''error_json'' SA_JSONB True None,
         Column ''branch_metadata'' SA_JSONB False None]
        [(''fk_execution_node_results_execution_id_executions'', ForeignKey [''execution_id''] ''executions'' [''id''] CASCADE, False),
         (''pk_execution_node_results'', PrimaryKey [''id''], False)],
      CreateIndex ''ix_execution_node_results_execution_id'' ''execution_node_results'' [''execution_id''] False None,
      CreateIndex ''ix_node_results_execution'' ''execution_node_results'' [''execution_id'', ''node_id'', ''execution_index''] False None]"

definition circular_pair :: "ddl list" where
  "circular_pair =
     [CreateForeignKey ''fk_workflows_published_version_id_workflow_versions'' ''workflows'' ''workflow_versions'' [''published_version_id''] [''id''] SET_NULL,
      CreateForeignKey ''fk_workflows_active_version_id_workflow_versions'' ''workflows'' ''workflow_versions'' [''active_version_id''] [''id''] SET_NULL]"

definition upgrade_df84 :: "ddl list" where
  "upgrade_df84 =
     create_audit_events @ create_engine_instances @ create_node_definitions @ create_notifications @
     create_secrets @ create_users @ create_workspaces @ create_credentials @
     create_memberships @ create_workflows @ create_alert_rules @ create_workflow_drafts @
     create_workflow_versions @ create_executions @ create_trigger_bindings @ create_execution_logs @
     create_execution_node_results @ circular_pair"

definition created_types :: "string list" where
  "created_types =
     [''actor_type'', ''alert_event_type'', ''audit_result'', ''certification'', ''credential_status'',
      ''credential_type'', ''engine_instance_status'', ''engine_type'', ''execution_status'', ''member_role'',
      ''node_category'', ''node_run_status'', ''node_status'', ''notification_status'', ''overlap_policy'',
      ''trigger_type'', ''version_kind'', ''workflow_status'', ''workspace_status'']"

definition downgrade_df84 :: "ddl list" where
  "downgrade_df84 =
     [DropConstraint ''fk_workflows_active_version_id_workflow_versions'' ''workflows'',
      DropConstraint ''fk_workflows_published_version_id_workflow_versions'' ''workflows'',
      DropIndex ''ix_node_results_execution'' ''execution_node_results'',
      DropIndex ''ix_execution_node_results_execution_id'' ''execution_node_results'',
      DropTable ''execution_node_results'',
      DropIndex ''ix_execution_logs_execution_id'' ''execution_logs'',
      DropIndex ''ix_execution_logs_exec_seq'' ''execution_logs'',
      DropTable ''execution_logs'',
      DropIndex ''ix_triggers_due'' ''trigger_bindings'',
      DropIndex ''ix_trigger_bindings_workspace_id'' ''trigger_bindings'',
      DropIndex ''ix_trigger_bindings_workflow_id'' ''trigger_bindings'',
      DropTable ''trigger_bindings'',
      DropIndex ''ix_executions_ws_workflow_started'' ''executions'',
      DropIndex ''ix_executions_ws_status_queued'' ''executions'',
      DropIndex ''ix_executions_workspace_id'' ''executions'',
      DropIndex ''ix_executions_workflow_id'' ''executions'',
      DropIndex ''ix_executions_short_id'' ''executions'',
      DropIndex ''ix_executions_idempotency'' ''executions'',
      DropIndex ''ix_executions_dispatch'' ''executions'',
      DropTable ''executions'',
      DropIndex ''ix_workflow_versions_workspace_id'' ''workflow_versions'',
      DropIndex ''ix_workflow_versions_workflow_id'' ''workflow_versions'',
      DropIndex ''ix_versions_workflow_number'' ''workflow_versions'',
      DropTable ''workflow_versions'',
      DropIndex ''ix_workflow_drafts_workspace_id'' ''workflow_drafts'',
      DropTable ''workflow_drafts'',
      DropIndex ''ix_alert_rules_ws_event'' ''alert_rules'',
      DropIndex ''ix_alert_rules_workspace_id'' ''alert_rules'',
      DropTable ''alert_rules'',
      DropIndex ''ix_workflows_ws_status_updated'' ''workflows'',
      DropIndex ''ix_workflows_ws_active_version'' ''workflows'',
      DropIndex ''ix_workflows_workspace_id'' ''workflows'',
      DropTable ''workflows'',
      DropIndex ''ix_memberships_workspace_id'' ''memberships'',
      DropIndex ''ix_memberships_user_id'' ''memberships'',
      DropTable ''memberships'',
      DropIndex ''ix_credentials_ws_status'' ''credentials'',
      DropIndex ''ix_credentials_workspace_id'' ''credentials'',
      DropTable ''credentials'',
      DropIndex ''ix_workspaces_slug'' ''workspaces'',
      DropTable ''workspaces'',
      DropIndex ''ix_users_email'' ''users'',
      DropTable ''users'',
      DropIndex ''ix_secrets_workspace_id'' ''secrets'',
      DropIndex ''ix_secrets_ref'' ''secrets'',
      DropTable ''secrets'',
      DropIndex ''ix_notifications_ws_status_created'' ''notifications'',
      DropIndex ''ix_notifications_workspace_id'' ''notifications'',
      DropIndex ''ix_notifications_dedup_key'' ''notifications'',
      DropIndex ''ix_notifications_created_at'' ''notifications'',
      DropTable ''notifications'',
      DropIndex ''ix_nodes_status_certification_category'' ''node_definitions'',
      DropIndex ''ix_node_definitions_node_key'' ''node_definitions'',
      DropTable ''node_definitions'',
      DropTable ''engine_instances'',
      DropIndex ''ix_audit_ws_created'' ''audit_events'',
      DropIndex ''ix_audit_events_workspace_id'' ''audit_events'',
      DropIndex ''ix_audit_events_created_at'' ''audit_events'',
      DropIndex ''ix_audit_events_action'' ''audit_events'',
      DropTable ''audit_events''] @
     map DropTypeIfExists created_types"

definition upgrade_b1c4 :: "ddl list" where
  "upgrade_b1c4 =
     [DataStatement,
      DropIndex ''ix_executions_idempotency'' ''executions'',
      CreateIndex ''uq_executions_idempotency'' ''executions'' [''workspace_id'', ''workflow_id'', ''idempotency_key''] True (Some ''idempotency_key IS NOT NULL''),
      CreateTable ''rate_limit_buckets''
        [Column ''bucket_key'' (SA_String 200) False None,
         Column ''window_start'' SA_BigInteger False None,
         Column ''hits'' SA_Integer False None,
         Column ''updated_at'' SA_DateTime False None]
        [(pk_name ''rate_limit_buckets'', PrimaryKey [''bucket_key''], False)],
      CreateIndex ''ix_rate_limit_buckets_updated_at'' ''rate_limit_buckets'' [''updated_at''] False None,
      CreateUnique ''uq_engine_instances_name'' ''engine_instances'' [''name'']]"

definition downgrade_b1c4 :: "ddl list" where
  "downgrade_b1c4 =
     [DropConstraint ''uq_engine_instances_name'' ''engine_instances'',
      DropIndex ''ix_rate_limit_buckets_updated_at'' ''rate_limit_buckets'',
      DropTable ''rate_limit_buckets'',
      DropIndex ''uq_executions_idempotency'' ''executions'',
      CreateIndex ''ix_executions_idempotency'' ''executions'' [''workspace_id'', ''idempotency_key''] False None]"

definition upgrade_c93a :: "ddl list" where
  "upgrade_c93a =
     [AddColumn ''executions'' (Column ''start_payload_sealed'' SA_Text True None)]"

definition downgrade_c93a :: "ddl list" where
  "downgrade_c93a =
     [DropColumn ''executions'' ''start_payload_sealed'']"

definition upgrade_d7f2 :: "ddl list" where
  "upgrade_d7f2 =
     [AddColumn ''engine_instances'' (Column ''last_worker_beat_at'' SA_DateTime True None)]"

definition downgrade_d7f2 :: "ddl list" where
  "downgrade_d7f2 =
     [DropColumn ''engine_instances'' ''last_worker_beat_at'']"

definition upgrade_e5b0 :: "ddl list" where
  "upgrade_e5b0 =
     [CreateUnique ''uq_workflows_workspace_id'' ''workflows'' [''workspace_id'', ''id''],
      CreateForeignKey ''fk_executions_workflow_same_workspace'' ''executions'' ''workflows'' [''workspace_id'', ''workflow_id''] [''workspace_id'', ''id''] CASCADE]"

definition downgrade_e5b0 :: "ddl list" where
  "downgrade_e5b0 =
     [DropConstraint ''fk_executions_workflow_same_workspace'' ''executions'',
      DropConstraint ''uq_workflows_workspace_id'' ''workflows'']"

definition upgrade_b4f7 :: "ddl list" where
  "upgrade_b4f7 =
     [CreateType ''org_role'' [''ORG_OWNER'', ''ORG_ADMIN'', ''ORG_MEMBER''],
      CreateTable ''organizations''
        [Column ''id'' SA_UUID False None,
         Column ''name'' (SA_String 120) False None,
         Column ''slug'' (SA_String 120) False None,
         Column ''status'' (PG_Enum ''workspace_status'') False None,
         Column ''created_at'' SA_DateTime False (Some ''now()''),
         Column ''updated_at'' SA_DateTime False (Some ''now()'')]
        [(''pk_organizations'', PrimaryKey [''id''], False)],
      CreateIndex ''ix_organizations_slug'' ''organizations'' [''slug''] True None,
      CreateTable ''organization_memberships''
        [Column ''id'' SA_UUID False None,
         Column ''organization_id'' SA_UUID False None,
         Column ''user_id'' SA_UUID False None,
         Column ''role'' (PG_Enum ''org_role'') False None,
         Column ''created_at'' SA_DateTime False (Some ''now()''),
         Column ''updated_at'' SA_DateTime False (Some ''now()'')]
        [(''fk_organization_memberships_organization_id_organizations'', ForeignKey [''organization_id''] ''organizations'' [''id''] CASCADE, False),
         (''fk_organization_memberships_user_id_users'', ForeignKey [''user_id''] ''users'' [''id''] CASCADE, False),
         (''pk_organization_memberships'', PrimaryKey [''id''], False),
         (''uq_org_membership_org_user'', Unique [''organization_id'', ''user_id''], False)],
      CreateIndex ''ix_organization_memberships_organization_id'' ''organization_memberships'' [''organization_id''] False None,
      CreateIndex ''ix_organization_memberships_user_id'' ''organization_memberships'' [''user_id''] False None,
      AddColumn ''workspaces'' (Column ''organization_id'' SA_UUID True None),
      DataStatement,
      AlterNullable ''workspaces'' ''organization_id'' False,
      CreateForeignKey ''fk_workspaces_organization_id_organizations'' ''workspaces'' ''organizations'' [''organization_id''] [''id''] RESTRICT,
      CreateIndex ''ix_workspaces_organization_id'' ''workspaces'' [''organization_id''] False None,
      AddColumn ''memberships'' (Column ''permissions'' SA_JSONB True None)]"

definition downgrade_b4f7 :: "ddl list" where
  "downgrade_b4f7 =
     [DropColumn ''memberships'' ''permissions'',
      DropIndex ''ix_workspaces_organization_id'' ''workspaces'',
      DropConstraint ''fk_workspaces_organization_id_organizations'' ''workspaces'',
      DropColumn ''workspaces'' ''organization_id'',
      DropIndex ''ix_organization_memberships_user_id'' ''organization_memberships'',
      DropIndex ''ix_organization_memberships_organization_id'' ''organization_memberships'',
      DropTable ''organization_memberships'',
      DropIndex ''ix_organizations_slug'' ''organizations'',
      DropTable ''organizations'',
      DropType ''org_role'']"

section \<open>The chain\<close>

text \<open>Revision, operations up, operations down, from the base to the head.\<close>

definition migrations :: "(string \<times> ddl list \<times> ddl list) list" where
  "migrations =
     [(''df842f034dc0'', upgrade_df84, downgrade_df84),
      (''b1c4e7a92f10'', upgrade_b1c4, downgrade_b1c4),
      (''c93a5d17be44'', upgrade_c93a, downgrade_c93a),
      (''d7f21ac6e885'', upgrade_d7f2, downgrade_d7f2),
      (''e5b0c8d34a71'', upgrade_e5b0, downgrade_e5b0),
      (''b4f7e91c3a52'', upgrade_b4f7, downgrade_b4f7)]"

definition upgrades :: "nat \<Rightarrow> ddl list" where
  "upgrades n = concat (map (fst \<circ> snd) (take n migrations))"

text \<open>\<open>alembic upgrade head\<close> and \<open>alembic downgrade base\<close>.\<close>

definition upgrade_head :: "catalog \<Rightarrow> ddl_error + catalog" where
  "upgrade_head = run_ddl (upgrades (length migrations))"

definition downgrade_base :: "catalog \<Rightarrow> ddl_error + catalog" where
  "downgrade_base = run_ddl (concat (map (snd \<circ> snd) (rev migrations)))"

end
