(* ===== verification/Metadata.thy ===== *)
theory Metadata
  imports Migrations Store
begin

text \<open>
  The tables that the ORM models declare (\<open>app/models\<close>, \<open>Base.metadata\<close>): what \<open>create_all\<close> builds and what \<open>alembic check\<close>
  compares a migrated database with. The labels of an enumerated type are those of the model's enumeration. The lemmas
  show that the migrations build these tables from nothing, and take down what they built.
\<close>

section \<open>The models\<close>

definition timestamp_mixin :: "mapped list" where
  "timestamp_mixin =
     [(mapped_column ''created_at'' SA_DateTime False)\<lparr>mc_default := Some ''now()''\<rparr>,
      (mapped_column ''updated_at'' SA_DateTime False)\<lparr>mc_default := Some ''now()''\<rparr>]"

definition model_user :: model where
  "model_user =
     \<lparr>md_table = ''users'',
      md_args = [],
      md_columns =
        [(mapped_column ''id'' SA_UUID False)\<lparr>mc_primary := True\<rparr>,
         (mapped_column ''email'' (SA_String 255) False)\<lparr>mc_unique := True, mc_index := True\<rparr>,
         mapped_column ''full_name'' (SA_String 255) False,
         mapped_column ''password_hash'' (SA_String 255) False,
         mapped_column ''is_active'' SA_Boolean False,
         mapped_column ''is_platform_admin'' SA_Boolean False,
         mapped_column ''locale'' (SA_String 8) False,
         mapped_column ''last_login_at'' SA_DateTime True,
         mapped_column ''failed_login_count'' SA_Integer False,
         mapped_column ''locked_until'' SA_DateTime True,
         (mapped_column ''password_change_required'' SA_Boolean False)\<lparr>mc_default := Some ''false''\<rparr>,
         (mapped_column ''session_version'' SA_Integer False)\<lparr>mc_default := Some ''0''\<rparr>,
         mapped_column ''password_changed_at'' SA_DateTime True] @ timestamp_mixin\<rparr>"

definition model_organization :: model where
  "model_organization =
     \<lparr>md_table = ''organizations'',
      md_args = [],
      md_columns =
        [(mapped_column ''id'' SA_UUID False)\<lparr>mc_primary := True\<rparr>,
         mapped_column ''name'' (SA_String 120) False,
         (mapped_column ''slug'' (SA_String 120) False)\<lparr>mc_unique := True, mc_index := True\<rparr>,
         mapped_column ''status'' (SA_Enum (map workspace_status_value workspace_status_members) ''workspace_status'') False] @ timestamp_mixin\<rparr>"

definition model_organization_membership :: model where
  "model_organization_membership =
     \<lparr>md_table = ''organization_memberships'',
      md_args = [UniqueConstraint ''uq_org_membership_org_user'' [''organization_id'', ''user_id'']],
      md_columns =
        [(mapped_column ''id'' SA_UUID False)\<lparr>mc_primary := True\<rparr>,
         (mapped_column ''organization_id'' SA_UUID False)\<lparr>mc_index := True, mc_reference := Some (''organizations'', ''id'', CASCADE)\<rparr>,
         (mapped_column ''user_id'' SA_UUID False)\<lparr>mc_index := True, mc_reference := Some (''users'', ''id'', CASCADE)\<rparr>,
         mapped_column ''role'' (SA_Enum (map org_role_value org_role_members) ''org_role'') False] @ timestamp_mixin\<rparr>"

definition model_workspace :: model where
  "model_workspace =
     \<lparr>md_table = ''workspaces'',
      md_args = [],
      md_columns =
        [(mapped_column ''id'' SA_UUID False)\<lparr>mc_primary := True\<rparr>,
         (mapped_column ''organization_id'' SA_UUID False)\<lparr>mc_index := True, mc_reference := Some (''organizations'', ''id'', RESTRICT)\<rparr>,
         mapped_column ''name'' (SA_String 100) False,
         (mapped_column ''slug'' (SA_String 100) False)\<lparr>mc_unique := True, mc_index := True\<rparr>,
         mapped_column ''status'' (SA_Enum (map workspace_status_value workspace_status_members) ''workspace_status'') False,
         mapped_column ''timezone'' (SA_String 64) False,
         (mapped_column ''engine_instance_id'' SA_UUID True)\<lparr>mc_reference := Some (''engine_instances'', ''id'', NO_ACTION)\<rparr>,
         mapped_column ''max_concurrent_executions'' SA_Integer True] @ timestamp_mixin\<rparr>"

definition model_membership :: model where
  "model_membership =
     \<lparr>md_table = ''memberships'',
      md_args = [UniqueConstraint ''uq_membership_ws_user'' [''workspace_id'', ''user_id'']],
      md_columns =
        [(mapped_column ''id'' SA_UUID False)\<lparr>mc_primary := True\<rparr>,
         (mapped_column ''workspace_id'' SA_UUID False)\<lparr>mc_index := True, mc_reference := Some (''workspaces'', ''id'', CASCADE)\<rparr>,
         (mapped_column ''user_id'' SA_UUID False)\<lparr>mc_index := True, mc_reference := Some (''users'', ''id'', CASCADE)\<rparr>,
         mapped_column ''role'' (SA_Enum (map role_value role_members) ''member_role'') False,
         mapped_column ''permissions'' SA_JSONB True] @ timestamp_mixin\<rparr>"

definition model_workflow :: model where
  "model_workflow =
     \<lparr>md_table = ''workflows'',
      md_args = [Index ''ix_workflows_ws_status_updated'' [''workspace_id'', ''status'', ''updated_at''] False None,
        Index ''ix_workflows_ws_active_version'' [''workspace_id'', ''active_version_id''] False None,
        UniqueConstraint ''uq_workflows_workspace_id'' [''workspace_id'', ''id'']],
      md_columns =
        [(mapped_column ''id'' SA_UUID False)\<lparr>mc_primary := True\<rparr>,
         (mapped_column ''workspace_id'' SA_UUID False)\<lparr>mc_index := True, mc_reference := Some (''workspaces'', ''id'', CASCADE)\<rparr>,
         mapped_column ''name'' (SA_String 200) False,
         mapped_column ''description'' SA_Text True,
         mapped_column ''status'' (SA_Enum (map workflow_status_value workflow_status_members) ''workflow_status'') False,
         (mapped_column ''published_version_id'' SA_UUID True)\<lparr>mc_reference := Some (''workflow_versions'', ''id'', SET_NULL)\<rparr>,
         (mapped_column ''active_version_id'' SA_UUID True)\<lparr>mc_reference := Some (''workflow_versions'', ''id'', SET_NULL)\<rparr>,
         mapped_column ''trigger_type_cache'' (SA_Enum (map trigger_type_value trigger_type_members) ''trigger_type'') True,
         (mapped_column ''created_by'' SA_UUID True)\<lparr>mc_reference := Some (''users'', ''id'', SET_NULL)\<rparr>,
         (mapped_column ''updated_by'' SA_UUID True)\<lparr>mc_reference := Some (''users'', ''id'', SET_NULL)\<rparr>,
         mapped_column ''deleted_at'' SA_DateTime True] @ timestamp_mixin\<rparr>"

definition model_workflow_draft :: model where
  "model_workflow_draft =
     \<lparr>md_table = ''workflow_drafts'',
      md_args = [],
      md_columns =
        [(mapped_column ''workflow_id'' SA_UUID False)\<lparr>mc_primary := True, mc_reference := Some (''workflows'', ''id'', CASCADE)\<rparr>,
         (mapped_column ''workspace_id'' SA_UUID False)\<lparr>mc_index := True\<rparr>,
         mapped_column ''graph_json'' SA_JSONB False,
         mapped_column ''graph_hash'' (SA_String 64) False,
         mapped_column ''product_schema_version'' SA_Integer False,
         (mapped_column ''revision'' SA_BigInteger False)\<lparr>mc_default := Some ''0''\<rparr>,
         mapped_column ''validation_state'' SA_JSONB True,
         (mapped_column ''saved_by'' SA_UUID True)\<lparr>mc_reference := Some (''users'', ''id'', SET_NULL)\<rparr>,
         mapped_column ''updated_at'' SA_DateTime False]\<rparr>"

definition model_workflow_version :: model where
  "model_workflow_version =
     \<lparr>md_table = ''workflow_versions'',
      md_args = [UniqueConstraint ''uq_version_workflow_number'' [''workflow_id'', ''version_number''],
        Index ''ix_versions_workflow_number'' [''workflow_id'', ''version_number''] False None],
      md_columns =
        [(mapped_column ''id'' SA_UUID False)\<lparr>mc_primary := True\<rparr>,
         (mapped_column ''workflow_id'' SA_UUID False)\<lparr>mc_index := True, mc_reference := Some (''workflows'', ''id'', CASCADE)\<rparr>,
         (mapped_column ''workspace_id'' SA_UUID False)\<lparr>mc_index := True\<rparr>,
         mapped_column ''version_number'' SA_Integer False,
         mapped_column ''graph_json'' SA_JSONB False,
         mapped_column ''graph_hash'' (SA_String 64) False,
         mapped_column ''product_schema_version'' SA_Integer False,
         mapped_column ''compiler_version'' (SA_String 32) False,
         mapped_column ''engine_compatibility_set'' (SA_String 64) False,
         (mapped_column ''published_by'' SA_UUID True)\<lparr>mc_reference := Some (''users'', ''id'', SET_NULL)\<rparr>,
         mapped_column ''published_at'' SA_DateTime False,
         mapped_column ''change_note'' SA_Text True]\<rparr>"

definition model_trigger_binding :: model where
  "model_trigger_binding =
     \<lparr>md_table = ''trigger_bindings'',
      md_args = [Index ''ix_triggers_due'' [''enabled'', ''next_run_at''] False None,
        UniqueConstraint ''uq_trigger_public_key'' [''public_key'']],
      md_columns =
        [(mapped_column ''id'' SA_UUID False)\<lparr>mc_primary := True\<rparr>,
         (mapped_column ''workflow_id'' SA_UUID False)\<lparr>mc_index := True, mc_reference := Some (''workflows'', ''id'', CASCADE)\<rparr>,
         (mapped_column ''workflow_version_id'' SA_UUID True)\<lparr>mc_reference := Some (''workflow_versions'', ''id'', SET_NULL)\<rparr>,
         (mapped_column ''workspace_id'' SA_UUID False)\<lparr>mc_index := True\<rparr>,
         mapped_column ''trigger_type'' (SA_Enum (map trigger_type_value trigger_type_members) ''trigger_type'') False,
         mapped_column ''enabled'' SA_Boolean False,
         mapped_column ''config_json'' SA_JSONB False,
         mapped_column ''public_key'' (SA_String 64) True,
         mapped_column ''webhook_secret_ref'' (SA_String 255) True,
         mapped_column ''next_run_at'' SA_DateTime True,
         mapped_column ''last_fired_at'' SA_DateTime True,
         mapped_column ''overlap_policy'' (SA_Enum (map overlap_policy_value overlap_policy_members) ''overlap_policy'') False,
         (mapped_column ''activated_by'' SA_UUID True)\<lparr>mc_reference := Some (''users'', ''id'', SET_NULL)\<rparr>] @ timestamp_mixin\<rparr>"

definition model_credential :: model where
  "model_credential =
     \<lparr>md_table = ''credentials'',
      md_args = [Index ''ix_credentials_ws_status'' [''workspace_id'', ''status''] False None,
        UniqueConstraint ''uq_credential_ws_name'' [''workspace_id'', ''name'']],
      md_columns =
        [(mapped_column ''id'' SA_UUID False)\<lparr>mc_primary := True\<rparr>,
         (mapped_column ''workspace_id'' SA_UUID False)\<lparr>mc_index := True, mc_reference := Some (''workspaces'', ''id'', CASCADE)\<rparr>,
         mapped_column ''name'' (SA_String 160) False,
         mapped_column ''credential_type'' (SA_Enum (map credential_type_value credential_type_members) ''credential_type'') False,
         mapped_column ''secret_ref'' (SA_String 255) True,
         mapped_column ''public_metadata'' SA_JSONB False,
         mapped_column ''status'' (SA_Enum (map credential_status_value credential_status_members) ''credential_status'') False,
         mapped_column ''last_test_at'' SA_DateTime True,
         mapped_column ''last_test_ok'' SA_Boolean True,
         mapped_column ''last_test_message'' SA_Text True,
         (mapped_column ''created_by'' SA_UUID True)\<lparr>mc_reference := Some (''users'', ''id'', SET_NULL)\<rparr>,
         mapped_column ''rotated_at'' SA_DateTime True,
         mapped_column ''deleted_at'' SA_DateTime True] @ timestamp_mixin\<rparr>"

definition model_execution :: model where
  "model_execution =
     \<lparr>md_table = ''executions'',
      md_args = [ForeignKeyConstraint ''fk_executions_workflow_same_workspace'' [''workspace_id'', ''workflow_id''] ''workflows'' [''workspace_id'', ''id''] CASCADE,
        Index ''ix_executions_ws_workflow_started'' [''workspace_id'', ''workflow_id'', ''started_at''] False None,
        Index ''ix_executions_ws_status_queued'' [''workspace_id'', ''status'', ''queued_at''] False None,
        Index ''ix_executions_dispatch'' [''status'', ''queued_at''] False None,
        Index ''uq_executions_idempotency'' [''workspace_id'', ''workflow_id'', ''idempotency_key''] True (Some ''idempotency_key IS NOT NULL'')],
      md_columns =
        [(mapped_column ''id'' SA_UUID False)\<lparr>mc_primary := True\<rparr>,
         (mapped_column ''short_id'' (SA_String 12) False)\<lparr>mc_index := True\<rparr>,
         (mapped_column ''workspace_id'' SA_UUID False)\<lparr>mc_index := True, mc_reference := Some (''workspaces'', ''id'', CASCADE)\<rparr>,
         (mapped_column ''workflow_id'' SA_UUID False)\<lparr>mc_index := True, mc_reference := Some (''workflows'', ''id'', CASCADE)\<rparr>,
         mapped_column ''version_kind'' (SA_Enum (map version_kind_value version_kind_members) ''version_kind'') False,
         (mapped_column ''workflow_version_id'' SA_UUID True)\<lparr>mc_reference := Some (''workflow_versions'', ''id'', SET_NULL)\<rparr>,
         mapped_column ''version_number'' SA_Integer True,
         mapped_column ''draft_revision'' SA_BigInteger True,
         mapped_column ''graph_snapshot'' SA_JSONB False,
         mapped_column ''graph_hash'' (SA_String 64) False,
         mapped_column ''trigger_type'' (SA_Enum (map trigger_type_value trigger_type_members) ''trigger_type'') False,
         (mapped_column ''triggered_by'' SA_UUID True)\<lparr>mc_reference := Some (''users'', ''id'', SET_NULL)\<rparr>,
         (mapped_column ''retry_of_execution_id'' SA_UUID True)\<lparr>mc_reference := Some (''executions'', ''id'', SET_NULL)\<rparr>,
         mapped_column ''idempotency_key'' (SA_String 128) True,
         mapped_column ''status'' (SA_Enum (map execution_status_value execution_status_members) ''execution_status'') False,
         mapped_column ''error_category'' (SA_String 48) True,
         mapped_column ''error_code'' (SA_String 64) True,
         mapped_column ''error_summary'' SA_Text True,
         mapped_column ''failed_node_name'' (SA_String 200) True,
         mapped_column ''queued_at'' SA_DateTime False,
         mapped_column ''started_at'' SA_DateTime True,
         mapped_column ''ended_at'' SA_DateTime True,
         mapped_column ''duration_ms'' SA_BigInteger True,
         mapped_column ''last_seen_at'' SA_DateTime True,
         mapped_column ''input_metadata'' SA_JSONB False,
         mapped_column ''start_payload'' SA_JSONB True,
         mapped_column ''start_payload_sealed'' SA_Text True,
         mapped_column ''output_summary'' SA_JSONB False,
         mapped_column ''technical_metadata'' SA_JSONB False,
         mapped_column ''engine_ref'' (SA_String 128) True,
         (mapped_column ''engine_instance_id'' SA_UUID True)\<lparr>mc_reference := Some (''engine_instances'', ''id'', NO_ACTION)\<rparr>,
         mapped_column ''trace_id'' (SA_String 48) False]\<rparr>"

definition model_execution_node_result :: model where
  "model_execution_node_result =
     \<lparr>md_table = ''execution_node_results'',
      md_args = [Index ''ix_node_results_execution'' [''execution_id'', ''node_id'', ''execution_index''] False None],
      md_columns =
        [(mapped_column ''id'' SA_UUID False)\<lparr>mc_primary := True\<rparr>,
         (mapped_column ''execution_id'' SA_UUID False)\<lparr>mc_index := True, mc_reference := Some (''executions'', ''id'', CASCADE)\<rparr>,
         mapped_column ''node_id'' (SA_String 64) False,
         mapped_column ''node_key'' (SA_String 64) False,
         mapped_column ''node_name'' (SA_String 200) False,
         mapped_column ''status'' (SA_Enum (map node_run_status_value node_run_status_members) ''node_run_status'') False,
         mapped_column ''execution_index'' SA_Integer False,
         mapped_column ''started_at'' SA_DateTime True,
         mapped_column ''ended_at'' SA_DateTime True,
         mapped_column ''duration_ms'' SA_BigInteger True,
         mapped_column ''item_count'' SA_Integer True,
         mapped_column ''input_preview'' SA_JSONB True,
         mapped_column ''output_preview'' SA_JSONB True,
         mapped_column ''truncated'' SA_Boolean False,
         mapped_column ''error_json'' SA_JSONB True,
         mapped_column ''branch_metadata'' SA_JSONB False]\<rparr>"

definition model_execution_log_line :: model where
  "model_execution_log_line =
     \<lparr>md_table = ''execution_logs'',
      md_args = [Index ''ix_execution_logs_exec_seq'' [''execution_id'', ''sequence''] False None],
      md_columns =
        [(mapped_column ''id'' SA_UUID False)\<lparr>mc_primary := True\<rparr>,
         (mapped_column ''execution_id'' SA_UUID False)\<lparr>mc_index := True, mc_reference := Some (''executions'', ''id'', CASCADE)\<rparr>,
         mapped_column ''sequence'' SA_Integer False,
         mapped_column ''at'' SA_DateTime False,
         mapped_column ''level'' (SA_String 16) False,
         mapped_column ''node_name'' (SA_String 200) True,
         mapped_column ''message'' SA_Text False]\<rparr>"

definition model_audit_event :: model where
  "model_audit_event =
     \<lparr>md_table = ''audit_events'',
      md_args = [Index ''ix_audit_ws_created'' [''workspace_id'', ''created_at''] False None],
      md_columns =
        [(mapped_column ''id'' SA_UUID False)\<lparr>mc_primary := True\<rparr>,
         (mapped_column ''workspace_id'' SA_UUID False)\<lparr>mc_index := True\<rparr>,
         mapped_column ''actor_type'' (SA_Enum (map actor_type_value actor_type_members) ''actor_type'') False,
         mapped_column ''actor_id'' SA_UUID True,
         mapped_column ''actor_label'' (SA_String 255) True,
         (mapped_column ''action'' (SA_String 64) False)\<lparr>mc_index := True\<rparr>,
         mapped_column ''resource_type'' (SA_String 32) False,
         mapped_column ''resource_id'' SA_UUID True,
         mapped_column ''resource_label'' (SA_String 255) True,
         mapped_column ''result'' (SA_Enum (map audit_result_value audit_result_members) ''audit_result'') False,
         mapped_column ''before_summary'' SA_JSONB True,
         mapped_column ''after_summary'' SA_JSONB True,
         mapped_column ''trace_id'' (SA_String 48) False,
         mapped_column ''ip_address'' (SA_String 64) True,
         mapped_column ''user_agent'' (SA_String 255) True,
         (mapped_column ''created_at'' SA_DateTime False)\<lparr>mc_index := True\<rparr>]\<rparr>"

definition model_alert_rule :: model where
  "model_alert_rule =
     \<lparr>md_table = ''alert_rules'',
      md_args = [Index ''ix_alert_rules_ws_event'' [''workspace_id'', ''event_type''] False None],
      md_columns =
        [(mapped_column ''id'' SA_UUID False)\<lparr>mc_primary := True\<rparr>,
         (mapped_column ''workspace_id'' SA_UUID False)\<lparr>mc_index := True, mc_reference := Some (''workspaces'', ''id'', CASCADE)\<rparr>,
         mapped_column ''event_type'' (SA_Enum (map alert_event_type_value alert_event_type_members) ''alert_event_type'') False,
         (mapped_column ''workflow_id'' SA_UUID True)\<lparr>mc_reference := Some (''workflows'', ''id'', CASCADE)\<rparr>,
         mapped_column ''threshold'' SA_Integer False,
         mapped_column ''channel'' (SA_String 32) False,
         mapped_column ''cooldown_seconds'' SA_Integer False,
         mapped_column ''enabled'' SA_Boolean False] @ timestamp_mixin\<rparr>"

definition model_notification :: model where
  "model_notification =
     \<lparr>md_table = ''notifications'',
      md_args = [Index ''ix_notifications_ws_status_created'' [''workspace_id'', ''status'', ''created_at''] False None],
      md_columns =
        [(mapped_column ''id'' SA_UUID False)\<lparr>mc_primary := True\<rparr>,
         (mapped_column ''workspace_id'' SA_UUID False)\<lparr>mc_index := True\<rparr>,
         mapped_column ''event_type'' (SA_Enum (map alert_event_type_value alert_event_type_members) ''alert_event_type'') False,
         mapped_column ''severity'' (SA_String 16) False,
         mapped_column ''title'' (SA_String 255) False,
         mapped_column ''body'' SA_Text True,
         mapped_column ''workflow_id'' SA_UUID True,
         mapped_column ''execution_id'' SA_UUID True,
         (mapped_column ''dedup_key'' (SA_String 160) False)\<lparr>mc_index := True\<rparr>,
         mapped_column ''status'' (SA_Enum (map notification_status_value notification_status_members) ''notification_status'') False,
         mapped_column ''remediation'' SA_JSONB True,
         (mapped_column ''created_at'' SA_DateTime False)\<lparr>mc_index := True\<rparr>,
         mapped_column ''read_at'' SA_DateTime True]\<rparr>"

definition model_rate_limit_bucket :: model where
  "model_rate_limit_bucket =
     \<lparr>md_table = ''rate_limit_buckets'',
      md_args = [Index ''ix_rate_limit_buckets_updated_at'' [''updated_at''] False None],
      md_columns =
        [(mapped_column ''bucket_key'' (SA_String 200) False)\<lparr>mc_primary := True\<rparr>,
         mapped_column ''window_start'' SA_BigInteger False,
         mapped_column ''hits'' SA_Integer False,
         mapped_column ''updated_at'' SA_DateTime False]\<rparr>"

definition model_secret_record :: model where
  "model_secret_record =
     \<lparr>md_table = ''secrets'',
      md_args = [],
      md_columns =
        [(mapped_column ''id'' SA_UUID False)\<lparr>mc_primary := True\<rparr>,
         (mapped_column ''ref'' (SA_String 255) False)\<lparr>mc_unique := True, mc_index := True\<rparr>,
         (mapped_column ''workspace_id'' SA_UUID False)\<lparr>mc_index := True\<rparr>,
         mapped_column ''provider'' (SA_String 64) False,
         mapped_column ''wrapped_data_key'' SA_Text False,
         mapped_column ''ciphertext'' SA_Text False,
         mapped_column ''field_names'' SA_JSONB False,
         mapped_column ''version'' SA_Integer False,
         mapped_column ''rotated_at'' SA_DateTime True] @ timestamp_mixin\<rparr>"

definition model_node_definition :: model where
  "model_node_definition =
     \<lparr>md_table = ''node_definitions'',
      md_args = [Index ''ix_nodes_status_certification_category'' [''status'', ''certification'', ''category''] False None],
      md_columns =
        [(mapped_column ''id'' SA_UUID False)\<lparr>mc_primary := True\<rparr>,
         (mapped_column ''node_key'' (SA_String 64) False)\<lparr>mc_unique := True, mc_index := True\<rparr>,
         mapped_column ''display_name'' (SA_String 120) False,
         mapped_column ''category'' (SA_Enum (map node_category_value node_category_members) ''node_category'') False,
         mapped_column ''description'' SA_Text True,
         mapped_column ''icon'' (SA_String 64) True,
         mapped_column ''product_schema_version'' SA_Integer False,
         mapped_column ''config_schema'' SA_JSONB False,
         mapped_column ''capability_json'' SA_JSONB False,
         mapped_column ''certification'' (SA_Enum (map certification_value certification_members) ''certification'') False,
         mapped_column ''status'' (SA_Enum (map node_status_value node_status_members) ''node_status'') False,
         mapped_column ''engine_binding'' SA_JSONB False,
         mapped_column ''security_profile'' SA_JSONB False,
         mapped_column ''docs_ref'' (SA_String 255) True,
         mapped_column ''last_certified_at'' SA_DateTime True,
         mapped_column ''spec_hash'' (SA_String 64) False,
         mapped_column ''known_issues'' SA_Text True] @ timestamp_mixin\<rparr>"

definition model_engine_instance :: model where
  "model_engine_instance =
     \<lparr>md_table = ''engine_instances'',
      md_args = [],
      md_columns =
        [(mapped_column ''id'' SA_UUID False)\<lparr>mc_primary := True\<rparr>,
         mapped_column ''engine_type'' (SA_Enum [''N8N_CORE''] ''engine_type'') False,
         (mapped_column ''name'' (SA_String 80) False)\<lparr>mc_unique := True\<rparr>,
         mapped_column ''endpoint_ref'' (SA_String 160) False,
         mapped_column ''engine_version'' (SA_String 32) True,
         mapped_column ''adapter_contract_version'' (SA_String 16) False,
         mapped_column ''compiler_version'' (SA_String 16) False,
         mapped_column ''status'' (SA_Enum (map engine_status_value engine_status_members) ''engine_instance_status'') False,
         mapped_column ''last_worker_beat_at'' SA_DateTime True,
         mapped_column ''last_probe_at'' SA_DateTime True,
         mapped_column ''last_probe_message'' SA_Text True,
         mapped_column ''region'' (SA_String 32) True,
         mapped_column ''capacity_class'' (SA_String 32) True,
         mapped_column ''is_default'' SA_Boolean False] @ timestamp_mixin\<rparr>"

definition models :: "model list" where
  "models =
     [model_user, model_organization, model_organization_membership, model_workspace,
      model_membership, model_workflow, model_workflow_draft, model_workflow_version,
      model_trigger_binding, model_credential, model_execution, model_execution_node_result,
      model_execution_log_line, model_audit_event, model_alert_rule, model_notification,
      model_rate_limit_bucket, model_secret_record, model_node_definition, model_engine_instance]"

definition metadata :: catalog where
  "metadata = declared_catalog models"

section \<open>Edges between tenants\<close>

text \<open>
  A foreign key between two tables that both carry a tenant lets the two tenants differ, unless it contains the tenant
  column, or another key of the same pair contains both.
\<close>

definition tenant_table :: "catalog \<Rightarrow> string \<Rightarrow> bool" where
  "tenant_table ct t = (case table_of ct t of None \<Rightarrow> False | Some r \<Rightarrow> has_columns r [''workspace_id''])"

fun crosses_tenants :: "catalog \<Rightarrow> string \<times> constraint \<Rightarrow> bool" where
  "crosses_tenants ct (t, ForeignKey cs u refs _) = (tenant_table ct t \<and> tenant_table ct u \<and> ''workspace_id'' \<notin> set cs)"
| "crosses_tenants ct _ = False"

fun guards :: "string \<times> constraint \<Rightarrow> string \<times> constraint \<Rightarrow> bool" where
  "guards (t', ForeignKey cs' u' refs' _) (t, ForeignKey cs u refs _) =
     (t' = t \<and> u' = u \<and> (''workspace_id'', ''workspace_id'') \<in> set (zip cs' refs') \<and> set (zip cs refs) \<subseteq> set (zip cs' refs'))"
| "guards _ _ = False"

definition unguarded_edges :: "catalog \<Rightarrow> (string \<times> constraint) list" where
  "unguarded_edges ct =
     filter (\<lambda>k. crosses_tenants ct k \<and> \<not> list_ex (\<lambda>g. guards g k) (foreign_keys ct)) (foreign_keys ct)"

fun edge :: "string \<times> constraint \<Rightarrow> string \<times> string list" where
  "edge k = (fst k, columns_of (snd k))"

text \<open>The composite key covers the workflow of a run, and no other edge.\<close>

lemma edges_left_to_the_services:
  "map edge (unguarded_edges metadata) =
     [(''workflows'', [''published_version_id'']), (''workflows'', [''active_version_id'']),
      (''workflow_drafts'', [''workflow_id'']), (''workflow_versions'', [''workflow_id'']),
      (''trigger_bindings'', [''workflow_id'']), (''trigger_bindings'', [''workflow_version_id'']),
      (''executions'', [''workflow_version_id'']), (''executions'', [''retry_of_execution_id'']),
      (''alert_rules'', [''workflow_id''])]"
  by code_simp

section \<open>Up and down\<close>

text \<open>PostgreSQL cuts a longer name off, and the next migration would not find it.\<close>

lemma names_fit: "list_all (\<lambda>n. length n \<le> 63) (names_in_use metadata)"
  by code_simp

lemma upgrade_gives_metadata: "case upgrade_head empty_catalog of Inr ct \<Rightarrow> same_catalog ct metadata | Inl _ \<Rightarrow> False"
  by code_simp

lemma downgrade_gives_empty:
  "case upgrade_head empty_catalog of Inr ct \<Rightarrow> downgrade_base ct = Inr empty_catalog | Inl _ \<Rightarrow> False"
  by code_simp

text \<open>
  C36: The migrations and the models agree, and the migrations can be undone. Run in order on an empty database, they succeed
  and leave the tables, columns, constraints, indexes and types that the models declare, each under the name that the
  naming convention gives it; run backwards from there they succeed too, and leave nothing, enumerated types included, so
  that they can be run again.
\<close>

theorem migrations_build_the_models:
  "\<exists>ct. upgrade_head empty_catalog = Inr ct \<and> same_catalog ct metadata \<and> downgrade_base ct = Inr empty_catalog"
  using upgrade_gives_metadata downgrade_gives_empty by (auto split: sum.splits)

end
