(* ===== verification/Collapse.thy ===== *)
theory Collapse
  imports Runs
begin

text \<open>
  The data statement of \<open>backend/migrations/versions/20260905_0900_idempotency_and_rate_limit.py\<close>: before the unique index on
  idempotency keys is made, the runs that share a key of a workflow are collapsed into the earliest of them. Deleting a
  run takes its results and log lines with it (\<open>ON DELETE CASCADE\<close>) and clears the reference of a retry to it
  (\<open>ON DELETE SET NULL\<close>). A row comparison is lexicographic; UUIDs compare as their digits do.
\<close>

section \<open>The statement\<close>

definition row_before :: "execution \<Rightarrow> execution \<Rightarrow> bool" where
  "row_before a b = (ex_queued_at a < ex_queued_at b \<or> ex_queued_at a = ex_queued_at b \<and> ex_id a < ex_id b)"

definition same_key :: "execution \<Rightarrow> execution \<Rightarrow> bool" where
  "same_key a b =
     (ex_idempotency_key a \<noteq> None \<and> ex_idempotency_key b = ex_idempotency_key a \<and>
      ex_workspace_id b = ex_workspace_id a \<and> ex_workflow_id b = ex_workflow_id a)"

definition superseded :: "db \<Rightarrow> execution \<Rightarrow> bool" where
  "superseded d e = list_ex (\<lambda>k. same_key e k \<and> row_before k e) (db_executions d)"

definition forget :: "uuid list \<Rightarrow> execution \<Rightarrow> execution" where
  "forget gone e =
     (case ex_retry_of e of Some r \<Rightarrow> if r \<in> set gone then e\<lparr>ex_retry_of := None\<rparr> else e | None \<Rightarrow> e)"

definition collapse_duplicates :: "db \<Rightarrow> db" where
  "collapse_duplicates d =
     (let gone = map ex_id (filter (superseded d) (db_executions d)) in
      d\<lparr>db_executions := map (forget gone) (delete_where (superseded d) (db_executions d)),
        db_node_results := delete_where (\<lambda>r. nr_execution_id r \<in> set gone) (db_node_results d),
        db_logs := delete_where (\<lambda>l. lg_execution_id l \<in> set gone) (db_logs d)\<rparr>)"

section \<open>One run for each key\<close>

lemma forget_fields [simp]:
  "ex_id (forget gone e) = ex_id e" "ex_workspace_id (forget gone e) = ex_workspace_id e"
  "ex_workflow_id (forget gone e) = ex_workflow_id e" "ex_idempotency_key (forget gone e) = ex_idempotency_key e"
  "ex_status (forget gone e) = ex_status e" "ex_queued_at (forget gone e) = ex_queued_at e"
  by (auto simp: forget_def split: option.splits)

lemma row_before_total:
  assumes "ids_distinct d" "a \<in> set (db_executions d)" "b \<in> set (db_executions d)"
  shows "row_before a b \<or> row_before b a \<or> a = b"
proof -
  have "a = b" if "ex_id a = ex_id b"
    using assms that by (metis distinct_map inj_onD)
  then show ?thesis
    using less_linear [of "ex_queued_at a" "ex_queued_at b"] less_linear [of "ex_id a" "ex_id b"] by (auto simp: row_before_def)
qed

lemma same_key_trans: "same_key a b \<Longrightarrow> same_key b c \<Longrightarrow> same_key a c"
  by (auto simp: same_key_def)

lemma row_before_trans: "row_before a b \<Longrightarrow> row_before b c \<Longrightarrow> row_before a c"
  by (auto simp: row_before_def)

lemma same_key_sym: "same_key a b \<Longrightarrow> same_key b a"
  by (auto simp: same_key_def)

text \<open>Among finitely many rows with a key one is before all others.\<close>

lemma earliest_exists:
  assumes "ids_distinct d" "set xs \<subseteq> set (db_executions d)" "xs \<noteq> []"
  shows "\<exists>m \<in> set xs. \<forall>x \<in> set xs. x = m \<or> row_before m x"
  using assms(2,3)
proof (induction xs)
  case (Cons a xs)
  show ?case
  proof (cases "xs = []")
    case False
    with Cons obtain m where m: "m \<in> set xs" "\<forall>x \<in> set xs. x = m \<or> row_before m x" by auto
    with row_before_total [OF assms(1), of a m] Cons.prems consider "row_before a m" | "row_before m a" | "a = m" by auto
    then show ?thesis
    proof cases
      case 1
      then have "x = a \<or> row_before a x" if "x \<in> set (a # xs)" for x
        using m(2) that by (auto intro: row_before_trans)
      then show ?thesis by (intro bexI [of _ a]) simp_all
    next
      case 2
      then show ?thesis using m by (intro bexI [of _ m]) simp_all
    next
      case 3
      then show ?thesis using m by (intro bexI [of _ m]) simp_all
    qed
  qed simp
qed simp

lemma kept_iff: "e \<in> set (db_executions d) \<Longrightarrow>
  (\<not> superseded d e) = (\<forall>k \<in> set (db_executions d). same_key e k \<longrightarrow> \<not> row_before k e)"
  by (auto simp: superseded_def list_ex_iff)

lemma kept_with_key:
  assumes "ids_distinct d" "a \<in> set (db_executions d)" "b \<in> set (db_executions d)"
    and "\<not> superseded d a" "\<not> superseded d b" "same_key a b"
  shows "a = b"
  using row_before_total [OF assms(1-3)] kept_iff [OF assms(2)] kept_iff [OF assms(3)] assms same_key_sym by blast

text \<open>Every run has its representative: itself when it has no key, the earliest run of its key otherwise.\<close>

lemma earliest_is_kept:
  assumes "ids_distinct d" "e \<in> set (db_executions d)" "ex_idempotency_key e \<noteq> None"
  shows "\<exists>m \<in> set (db_executions d). \<not> superseded d m \<and> same_key e m \<and> (m = e \<or> row_before m e)"
proof -
  define xs where "xs = filter (same_key e) (db_executions d)"
  have "e \<in> set xs" using assms by (simp add: xs_def same_key_def)
  then have "xs \<noteq> []" by auto
  moreover have "set xs \<subseteq> set (db_executions d)" by (auto simp: xs_def)
  ultimately obtain m where m: "m \<in> set xs" "\<forall>x \<in> set xs. x = m \<or> row_before m x"
    using earliest_exists [OF assms(1)] by blast
  have "\<not> superseded d m"
  proof
    assume "superseded d m"
    then obtain k where k: "k \<in> set (db_executions d)" "same_key m k" "row_before k m" by (auto simp: superseded_def list_ex_iff)
    with m(1) have "k \<in> set xs" by (auto simp: xs_def intro: same_key_trans)
    with m(2) k(3) show False by (auto simp: row_before_def)
  qed
  with m \<open>e \<in> set xs\<close> show ?thesis by (auto simp: xs_def)
qed

section \<open>What the index relies on\<close>

lemma collapsed_rows:
  "db_executions (collapse_duplicates d) =
     map (forget (map ex_id (filter (superseded d) (db_executions d)))) (delete_where (superseded d) (db_executions d))"
  by (simp add: collapse_duplicates_def Let_def)

lemma collapsed_ids: "ids_distinct d \<Longrightarrow> ids_distinct (collapse_duplicates d)"
  by (simp add: collapsed_rows comp_def delete_where_def distinct_map_filter)

lemma count_collapsed:
  assumes "\<And>gone e. P (forget gone e) = P e"
  shows "count_where P (db_executions (collapse_duplicates d)) \<le> count_where P (db_executions d)"
proof -
  have "count_where P (map (forget g) xs) = count_where P xs" for g xs
    by (induction xs) (auto simp: assms)
  moreover have "count_where P (filter Q xs) \<le> count_where P xs" for Q and xs :: "execution list"
    by (induction xs) auto
  ultimately show ?thesis by (simp add: collapsed_rows delete_where_def)
qed

lemma collapsed_within_ceilings:
  assumes "within_ceilings cfg d"
  shows "within_ceilings cfg (collapse_duplicates d)"
proof -
  let ?d = "collapse_duplicates d"
  have "workspace_ceiling cfg ?d = workspace_ceiling cfg d"
    by (rule ext) (simp add: workspace_ceiling_def get_workspace_def collapse_duplicates_def Let_def)
  moreover have "count_where (active_in_workflow w f) (db_executions ?d) \<le> count_where (active_in_workflow w f) (db_executions d)"
    "count_where (active_in_workspace w) (db_executions ?d) \<le> count_where (active_in_workspace w) (db_executions d)" for w f
    by (rule count_collapsed, simp add: active_in_workflow_def active_in_workspace_def)+
  ultimately show ?thesis
    using assms unfolding within_ceilings_def by (metis (no_types, lifting) of_nat_mono order_trans)
qed

lemma collapsed_keys_unique:
  assumes "ids_distinct d"
  shows "keys_unique (collapse_duplicates d)"
proof -
  let ?keyed = "filter (\<lambda>e. ex_idempotency_key e \<noteq> None) (delete_where (superseded d) (db_executions d))"
  have "filter (\<lambda>e. ex_idempotency_key e \<noteq> None) (map (forget g) xs) = map (forget g) (filter (\<lambda>e. ex_idempotency_key e \<noteq> None) xs)" for g xs
    by (simp add: filter_map comp_def)
  moreover have "distinct (map (\<lambda>e. (ex_workspace_id e, ex_workflow_id e, ex_idempotency_key e)) ?keyed)"
  proof (subst distinct_map, intro conjI inj_onI)
    show "distinct ?keyed"
      using assms by (simp add: delete_where_def distinct_map)
    fix a b
    assume "a \<in> set ?keyed" "b \<in> set ?keyed"
      "(ex_workspace_id a, ex_workflow_id a, ex_idempotency_key a) = (ex_workspace_id b, ex_workflow_id b, ex_idempotency_key b)"
    then show "a = b"
      by (intro kept_with_key [OF assms]) (auto simp: set_delete_where same_key_def)
  qed
  ultimately show ?thesis by (simp add: keys_unique_def collapsed_rows comp_def)
qed

text \<open>Nobody loses a run that was not a duplicate: each is represented by a run that is there, with its key.\<close>

lemma collapsed_represents:
  assumes "ids_distinct d" "e \<in> set (db_executions d)"
  shows "\<exists>m \<in> set (db_executions (collapse_duplicates d)).
    ex_id m = ex_id e \<or> ex_idempotency_key e \<noteq> None \<and> same_key e m \<and> ex_queued_at m \<le> ex_queued_at e"
proof (cases "superseded d e")
  case False
  then show ?thesis using assms(2) by (force simp: collapsed_rows set_delete_where)
next
  case True
  then have "ex_idempotency_key e \<noteq> None" by (auto simp: superseded_def list_ex_iff same_key_def)
  with earliest_is_kept [OF assms this] True obtain m where
    "m \<in> set (db_executions d)" "\<not> superseded d m" "same_key e m" "row_before m e" by blast
  then show ?thesis
    using \<open>ex_idempotency_key e \<noteq> None\<close>
    by (intro bexI [of _ "forget (map ex_id (filter (superseded d) (db_executions d))) m"])
      (auto simp: collapsed_rows set_delete_where same_key_def row_before_def)
qed

text \<open>A result or log line that stays belongs to a run that stays.\<close>

lemma collapsed_children:
  assumes "\<forall>r \<in> set (db_node_results d). \<exists>e \<in> set (db_executions d). ex_id e = nr_execution_id r"
    and "r \<in> set (db_node_results (collapse_duplicates d))"
  shows "\<exists>e \<in> set (db_executions (collapse_duplicates d)). ex_id e = nr_execution_id r"
proof -
  from assms(2) have r: "r \<in> set (db_node_results d)" "nr_execution_id r \<notin> ex_id ` {e \<in> set (db_executions d). superseded d e}"
    by (auto simp: collapse_duplicates_def Let_def set_delete_where)
  with assms(1) obtain e where "e \<in> set (db_executions d)" "ex_id e = nr_execution_id r" by blast
  with r(2) show ?thesis by (force simp: collapsed_rows set_delete_where)
qed


text \<open>Two clicks that both were stored: the later run goes, with its results.\<close>

definition clicked :: "uuid \<Rightarrow> int \<Rightarrow> execution" where
  "clicked eid t = demo_execution\<lparr>ex_id := eid, ex_status := EX_SUCCEEDED, ex_idempotency_key := Some ''k'', ex_queued_at := t\<rparr>"

definition clicked_twice :: db where
  "clicked_twice = empty_db\<lparr>db_executions := [clicked ''b'' 1, clicked ''a'' 2]\<rparr>"

lemma clicked_twice_collapses: "map ex_id (db_executions (collapse_duplicates clicked_twice)) = [''b'']"
  by code_simp


end
