(* ===== verification/Bundles.thy ===== *)
theory Bundles
  imports Doctor "HOL-Library.Product_Lexorder"
begin

text \<open>
  The two scripts that collect packages of the engine's lockfile: \<open>scripts/vendor_npm.py\<close>, which takes the production tree
  into the repository, and \<open>scripts/mirror_bundle.py\<close>, which takes what an internal registry must hold. Both download into a
  directory, check each file against the hash of the lockfile and write a manifest; both re-check a directory from its
  manifest, without the network. What they share is a locale; the lemmas say what a re-check repeats of the run.

  The lockfile is given as npm writes it. Hashing, base64, the reading of a tar archive and the network are parameters;
  the network may answer each request as it likes.
\<close>

section \<open>Parts the scripts share\<close>

record lock_entry =
  le_path :: string
  le_version :: "string option"
  le_resolved :: "string option"
  le_integrity :: "string option"
  le_dev :: bool
  le_optional :: bool

record item =
  it_name :: string
  it_version :: "string option"
  it_resolved :: string
  it_integrity :: "string option"
  it_host :: string
  it_optional :: bool
  it_reasons :: "string list"

datatype fetched = Fetched string | HttpStatus int | NotReached string

text \<open>A member of an archive: its name, whether it is a file, and its content where that is JSON.\<close>

record member =
  mb_name :: string
  mb_is_file :: bool
  mb_json :: "json option"

record tools =
  tl_digest :: "string \<Rightarrow> string \<Rightarrow> string option"  \<comment> \<open>\<open>hashlib.new\<close>, \<^const>\<open>None\<close> for an algorithm it does not have\<close>
  tl_b64decode :: "string \<Rightarrow> string option"
  tl_unpack :: "string \<Rightarrow> member list option"
  tl_literal_ok :: "string \<Rightarrow> bool"

type_synonym files = "string \<Rightarrow> string option"

text \<open>\<open>item["version"]\<close> in an f-string.\<close>

definition shown :: "string option \<Rightarrow> string" where
  "shown v = (case v of None \<Rightarrow> ''None'' | Some s \<Rightarrow> s)"

fun after_first :: "string \<Rightarrow> string \<Rightarrow> string" where
  "after_first p [] = []"
| "after_first p (c # cs) = (if starts_with (c # cs) p then drop (length p) (c # cs) else after_first p cs)"

text \<open>\<open>s.split(p)[-1]\<close>.\<close>

fun after_last :: "nat \<Rightarrow> string \<Rightarrow> string \<Rightarrow> string" where
  "after_last 0 p s = s"
| "after_last (Suc n) p s = (if str_contains p s then after_last n p (after_first p s) else s)"

definition last_part :: "string \<Rightarrow> string \<Rightarrow> string" where
  "last_part p s = after_last (length s) p s"

definition expected_digest :: "tools \<Rightarrow> string option \<Rightarrow> (string \<times> string) option" where
  "expected_digest tk integrity =
     (case integrity of
        None \<Rightarrow> None
      | Some s \<Rightarrow>
          (case split_once (CHR ''-'') s of
             None \<Rightarrow> None
           | Some (algorithm, encoded) \<Rightarrow> map_option (\<lambda>want. (algorithm, want)) (tl_b64decode tk encoded)))"

text \<open>\<open>check\<close>, on the bytes of the file.\<close>

definition check_bytes :: "tools \<Rightarrow> string \<Rightarrow> string option \<Rightarrow> string" where
  "check_bytes tk bytes integrity =
     (case expected_digest tk integrity of
        None \<Rightarrow> ''unverified''
      | Some (algorithm, want) \<Rightarrow>
          (case tl_digest tk algorithm bytes of
             None \<Rightarrow> ''unverified''
           | Some got \<Rightarrow> if got = want then ''ok'' else ''MISMATCH''))"

text \<open>\<open>download\<close>: a file that is there is not fetched again. The state when there is no file says why.\<close>

definition download :: "tools \<Rightarrow> fetched \<Rightarrow> string \<Rightarrow> item \<Rightarrow> files \<Rightarrow> (string option \<times> string) \<times> files" where
  "download tk answer name i fs =
     (case fs name of
        Some bytes \<Rightarrow> ((Some bytes, check_bytes tk bytes (it_integrity i)), fs)
      | None \<Rightarrow>
          (case answer of
             Fetched bytes \<Rightarrow> ((Some bytes, check_bytes tk bytes (it_integrity i)), fs(name \<mapsto> bytes))
           | HttpStatus n \<Rightarrow> ((None, ''HTTP '' @ show_int n), fs)
           | NotReached why \<Rightarrow> ((None, ''unreachable ('' @ why @ '')''), fs)))"

section \<open>\<open>vendor_npm.py\<close>\<close>

fun production_entries :: "tools \<Rightarrow> lock_entry list \<Rightarrow> py_exc + item list" where
  "production_entries tk [] = Inr []"
| "production_entries tk (e # es) =
     (if \<not> starts_with (le_path e) ''node_modules/'' \<or> le_dev e then production_entries tk es
      else
        (case le_resolved e of
           None \<Rightarrow> production_entries tk es
         | Some url \<Rightarrow>
             if url = [] then production_entries tk es
             else
               (case urlparse (tl_literal_ok tk) url of
                  Inl x \<Rightarrow> Inl x
                | Inr host \<Rightarrow>
                    map_sum id (\<lambda>is. \<lparr>it_name = last_part ''node_modules/'' (le_path e), it_version = le_version e, it_resolved = url,
                      it_integrity = le_integrity e, it_host = host, it_optional = le_optional e, it_reasons = []\<rparr> # is)
                      (production_entries tk es))))"

definition filename_for :: "item \<Rightarrow> string" where
  "filename_for i = map (\<lambda>c. if c = CHR ''/'' then CHR ''-'' else c) (it_name i) @ ''-'' @ shown (it_version i) @ ''.tgz''"

text \<open>\<open>inspect\<close>: the licence declared so far and the enterprise files so far, over the members.\<close>

definition inner_name :: "string \<Rightarrow> string" where
  "inner_name n = (if str_contains ''package/'' n then after_first ''package/'' n else n)"

definition declared_licence :: "dict \<Rightarrow> string option" where
  "declared_licence d =
     (let v = or_else (dget d ''license'') (dget d ''licence'');
          v = (case v of JObj o' \<Rightarrow> dget o' ''type'' | _ \<Rightarrow> v)
      in case v of JStr s \<Rightarrow> if str_strip s \<noteq> [] then Some (str_strip s) else None | _ \<Rightarrow> None)"

fun inspect_members :: "member list \<Rightarrow> string \<Rightarrow> string list \<Rightarrow> py_exc + string \<times> string list" where
  "inspect_members [] licence enterprise = Inr (licence, sort enterprise)"
| "inspect_members (m # ms) licence enterprise =
     (if \<not> mb_is_file m then inspect_members ms licence enterprise
      else
        let inner = inner_name (mb_name m);
            enterprise = (if str_contains ''.ee.'' inner then enterprise @ [inner] else enterprise)
        in if inner = ''package.json'' \<and> licence = ''UNDECLARED''
           then (case mb_json m of
                   None \<Rightarrow> inspect_members ms licence enterprise
                 | Some (JObj d) \<Rightarrow>
                     inspect_members ms (case declared_licence d of Some l \<Rightarrow> l | None \<Rightarrow> licence) enterprise
                 | Some _ \<Rightarrow> Inl AttributeError)
           else inspect_members ms licence enterprise)"

definition inspect :: "tools \<Rightarrow> string \<Rightarrow> py_exc + string \<times> string list" where
  "inspect tk bytes =
     (case tl_unpack tk bytes of
        None \<Rightarrow> Inr (''UNREADABLE'', [])
      | Some ms \<Rightarrow> inspect_members ms ''UNDECLARED'' [])"

record package =
  pk_name :: string
  pk_version :: "string option"
  pk_file :: string
  pk_resolved :: string
  pk_integrity :: "string option"
  pk_verified :: string
  pk_bytes :: nat
  pk_optional :: bool
  pk_license :: string
  pk_enterprise :: "string list"

definition package_of :: "item \<Rightarrow> string \<Rightarrow> string \<Rightarrow> string \<times> string list \<Rightarrow> package" where
  "package_of i bytes state detail =
     \<lparr>pk_name = it_name i, pk_version = it_version i, pk_file = filename_for i, pk_resolved = it_resolved i,
      pk_integrity = it_integrity i, pk_verified = state, pk_bytes = length bytes, pk_optional = it_optional i,
      pk_license = fst detail, pk_enterprise = snd detail\<rparr>"

record vendor_run =
  vr_files :: files
  vr_packages :: "package list"
  vr_failed :: "(item \<times> string) list"

text \<open>The loop over the items: \<open>net n\<close> is the answer to the request for the \<open>n\<close>-th of them.\<close>

fun vendor_items :: "tools \<Rightarrow> (nat \<Rightarrow> fetched) \<Rightarrow> nat \<Rightarrow> item list \<Rightarrow> vendor_run \<Rightarrow> py_exc option \<times> vendor_run" where
  "vendor_items tk net n [] r = (None, r)"
| "vendor_items tk net n (i # is) r =
     (case download tk (net n) (filename_for i) i (vr_files r) of
        ((None, state), fs) \<Rightarrow> vendor_items tk net (Suc n) is (r\<lparr>vr_files := fs, vr_failed := vr_failed r @ [(i, state)]\<rparr>)
      | ((Some bytes, state), fs) \<Rightarrow>
          if state = ''MISMATCH''
          then vendor_items tk net (Suc n) is (r\<lparr>vr_files := fs, vr_failed := vr_failed r @ [(i, state)]\<rparr>)
          else
            (case inspect tk bytes of
               Inl x \<Rightarrow> (Some x, r\<lparr>vr_files := fs\<rparr>)
             | Inr detail \<Rightarrow>
                 vendor_items tk net (Suc n) is
                   (r\<lparr>vr_files := fs, vr_packages := vr_packages r @ [package_of i bytes state detail]\<rparr>)))"

definition PINNED :: "string list" where
  "PINNED = [''n8n-core'', ''n8n-nodes-base'', ''n8n-workflow'']"

record vendor_manifest =
  vm_pinned :: dict
  vm_count :: nat
  vm_bytes :: nat
  vm_packages :: "package list"

definition vendor_manifest_of :: "package list \<Rightarrow> vendor_manifest" where
  "vendor_manifest_of ps =
     \<lparr>vm_pinned = fold (\<lambda>p d. dput d (pk_name p) (case pk_version p of Some v \<Rightarrow> JStr v | None \<Rightarrow> JNull))
        (filter (\<lambda>p. pk_name p \<in> set PINNED) ps) [],
      vm_count = length ps, vm_bytes = sum_list (map pk_bytes ps),
      vm_packages = sort_key (\<lambda>p. (pk_name p, shown (pk_version p))) ps\<rparr>"

text \<open>A directory: its files, and the manifest in it. A Python exception ends a run with status 1.\<close>

record 'm folder =
  bu_files :: files
  bu_manifest :: "'m option"

definition vendor_main :: "tools \<Rightarrow> (nat \<Rightarrow> fetched) \<Rightarrow> lock_entry list option \<Rightarrow> vendor_manifest folder \<Rightarrow> int \<times> vendor_manifest folder" where
  "vendor_main tk net lock b =
     (case lock of
        None \<Rightarrow> (2, b)
      | Some es \<Rightarrow>
          (case production_entries tk es of
             Inl _ \<Rightarrow> (1, b)
           | Inr [] \<Rightarrow> (1, b)
           | Inr is \<Rightarrow>
               (case vendor_items tk net 0 is \<lparr>vr_files = bu_files b, vr_packages = [], vr_failed = []\<rparr> of
                  (Some _, r) \<Rightarrow> (1, b\<lparr>bu_files := vr_files r\<rparr>)
                | (None, r) \<Rightarrow>
                    (if vr_failed r \<noteq> [] then 1 else 0,
                     \<lparr>bu_files = vr_files r, bu_manifest = Some (vendor_manifest_of (vr_packages r))\<rparr>))))"

definition package_bad :: "tools \<Rightarrow> files \<Rightarrow> package \<Rightarrow> bool" where
  "package_bad tk fs p =
     (case fs (pk_file p) of
        None \<Rightarrow> True
      | Some bytes \<Rightarrow> check_bytes tk bytes (pk_integrity p) = ''MISMATCH'')"

definition vendor_verify :: "tools \<Rightarrow> lock_entry list option \<Rightarrow> vendor_manifest folder \<Rightarrow> int" where
  "vendor_verify tk lock b =
     (case lock of
        None \<Rightarrow> 2
      | Some _ \<Rightarrow>
          (case bu_manifest b of
             None \<Rightarrow> 2
           | Some m \<Rightarrow> if count_where (package_bad tk (bu_files b)) (vm_packages m) > 0 then 1 else 0))"

section \<open>\<open>mirror_bundle.py\<close>\<close>

definition PINNED_PREFIXES :: "string list" where
  "PINNED_PREFIXES = [''node_modules/n8n-core'', ''node_modules/n8n-nodes-base'', ''node_modules/n8n-workflow'']"

definition NPM_REGISTRY_HOSTS :: "string set" where
  "NPM_REGISTRY_HOSTS = {''registry.npmjs.org''}"

definition reasons_of :: "string \<Rightarrow> string \<Rightarrow> string list" where
  "reasons_of path host =
     (if path \<in> set PINNED_PREFIXES then [''pinned''] else []) @ (if host \<notin> NPM_REGISTRY_HOSTS then [''off-registry''] else [])"

fun entries :: "tools \<Rightarrow> lock_entry list \<Rightarrow> py_exc + item list" where
  "entries tk [] = Inr []"
| "entries tk (e # es) =
     (case le_resolved e of
        None \<Rightarrow> entries tk es
      | Some url \<Rightarrow>
          if url = [] then entries tk es
          else
            (case urlparse (tl_literal_ok tk) url of
               Inl x \<Rightarrow> Inl x
             | Inr host \<Rightarrow>
                 (let reasons = reasons_of (le_path e) host in
                  if reasons = [] then entries tk es
                  else map_sum id (\<lambda>is. \<lparr>it_name = (if starts_with (le_path e) ''node_modules/'' then drop (length ''node_modules/'') (le_path e) else le_path e),
                      it_version = le_version e, it_resolved = url, it_integrity = le_integrity e, it_host = host,
                      it_optional = le_optional e, it_reasons = reasons\<rparr> # is) (entries tk es))))"

text \<open>The last segment of the URL.\<close>

definition segment_of :: "item \<Rightarrow> string" where
  "segment_of i = rev (takeWhile (\<lambda>c. c \<noteq> CHR ''/'') (rev (it_resolved i)))"

text \<open>A row of the manifest: the item, its file when it has one, and how the check went.\<close>

record mirror_row =
  mi_item :: item
  mi_file :: "string option"
  mi_verified :: string

fun mirror_items :: "tools \<Rightarrow> (nat \<Rightarrow> fetched) \<Rightarrow> nat \<Rightarrow> item list \<Rightarrow> files \<times> mirror_row list \<times> nat \<Rightarrow> files \<times> mirror_row list \<times> nat" where
  "mirror_items tk net n [] r = r"
| "mirror_items tk net n (i # is) (fs, rows, bad) =
     (case download tk (net n) (segment_of i) i fs of
        ((file, state), fs) \<Rightarrow>
          if file = None \<or> state = ''MISMATCH''
          then mirror_items tk net (Suc n) is (fs, rows @ [\<lparr>mi_item = i, mi_file = None, mi_verified = state\<rparr>], Suc bad)
          else mirror_items tk net (Suc n) is (fs, rows @ [\<lparr>mi_item = i, mi_file = Some (segment_of i), mi_verified = state\<rparr>], bad))"

definition mirror_main :: "tools \<Rightarrow> (nat \<Rightarrow> fetched) \<Rightarrow> lock_entry list option \<Rightarrow> mirror_row list folder \<Rightarrow> int \<times> mirror_row list folder" where
  "mirror_main tk net lock b =
     (case lock of
        None \<Rightarrow> (2, b)
      | Some es \<Rightarrow>
          (case entries tk es of
             Inl _ \<Rightarrow> (1, b)
           | Inr [] \<Rightarrow> (1, b)
           | Inr is \<Rightarrow>
               (case mirror_items tk net 0 is (bu_files b, [], 0) of
                  (fs, rows, bad) \<Rightarrow> (if bad > 0 then 1 else 0, \<lparr>bu_files = fs, bu_manifest = Some rows\<rparr>))))"

definition row_bad :: "tools \<Rightarrow> files \<Rightarrow> mirror_row \<Rightarrow> bool" where
  "row_bad tk fs r =
     (case mi_file r of
        None \<Rightarrow> True
      | Some f \<Rightarrow>
          if f = [] then True
          else (case fs f of
                  None \<Rightarrow> True
                | Some bytes \<Rightarrow> check_bytes tk bytes (it_integrity (mi_item r)) = ''MISMATCH''))"

definition mirror_verify :: "tools \<Rightarrow> lock_entry list option \<Rightarrow> mirror_row list folder \<Rightarrow> int" where
  "mirror_verify tk lock b =
     (case lock of
        None \<Rightarrow> 2
      | Some es \<Rightarrow>
          (case entries tk es of
             Inl _ \<Rightarrow> 1
           | Inr [] \<Rightarrow> 1
           | Inr (_ # _) \<Rightarrow>
               (case bu_manifest b of
                  None \<Rightarrow> 2
                | Some rows \<Rightarrow> if count_where (row_bad tk (bu_files b)) rows > 0 then 1 else 0)))"

section \<open>Files only come\<close>

text \<open>
  What a re-check relies on: a run that downloads never replaces a file. \<open>recorded\<close> says which file an entry of the
  manifest names and with which hash.
\<close>

locale downloads =
  fixes run :: "nat \<Rightarrow> item list \<Rightarrow> 's \<Rightarrow> 's"
    and held :: "'s \<Rightarrow> files"
    and recorded :: "'s \<Rightarrow> (string \<times> string option) set"
    and tk :: tools
  assumes keeps_files: "held s f = Some bytes \<Longrightarrow> held (run n is s) f = Some bytes"
    and records: "(f, h) \<in> recorded (run n is s) \<Longrightarrow> (f, h) \<notin> recorded s \<Longrightarrow>
      \<exists>bytes. held (run n is s) f = Some bytes \<and> check_bytes tk bytes h \<noteq> ''MISMATCH''"
begin

definition sound :: "'s \<Rightarrow> bool" where
  "sound s \<longleftrightarrow> (\<forall>(f, h) \<in> recorded s. \<exists>bytes. held s f = Some bytes \<and> check_bytes tk bytes h \<noteq> ''MISMATCH'')"

lemma run_sound:
  assumes "sound s"
  shows "sound (run n is s)"
  unfolding sound_def
proof (clarify)
  fix f h
  assume r: "(f, h) \<in> recorded (run n is s)"
  show "\<exists>bytes. held (run n is s) f = Some bytes \<and> check_bytes tk bytes h \<noteq> ''MISMATCH''"
  proof (cases "(f, h) \<in> recorded s")
    case True
    with assms obtain bytes where "held s f = Some bytes" "check_bytes tk bytes h \<noteq> ''MISMATCH''"
      unfolding sound_def by blast
    with keeps_files show ?thesis by blast
  qed (rule records [OF r])
qed

end

lemma download_keeps: "fs f = Some bytes \<Longrightarrow> snd (download tk a name i fs) f = Some bytes"
  by (auto simp: download_def split: option.splits fetched.splits)

lemma download_stores:
  "download tk a name i fs = ((Some bytes, state), fs') \<Longrightarrow> fs' name = Some bytes \<and> state = check_bytes tk bytes (it_integrity i)"
  by (auto simp: download_def split: option.splits fetched.splits)

lemma vendor_items_keep: "vr_files r f = Some bytes \<Longrightarrow> vr_files (snd (vendor_items tk net n is r)) f = Some bytes"
proof (induction tk net n "is" r rule: vendor_items.induct)
  case (2 tk net n i "is" r)
  obtain got state fs where d: "download tk (net n) (filename_for i) i (vr_files r) = ((got, state), fs)"
    by (metis prod.exhaust)
  have "fs f = Some bytes"
    using download_keeps [where fs = "vr_files r", OF "2.prems", of tk "net n" "filename_for i" i] by (simp add: d)
  with "2.IH" [OF d [symmetric] refl] d show ?case
    by (cases got; cases "state = ''MISMATCH''") (auto split: sum.splits)
qed simp

lemma vendor_items_record:
  assumes "p \<in> set (vr_packages (snd (vendor_items tk net n is r)))" "p \<notin> set (vr_packages r)"
  shows "\<exists>bytes. vr_files (snd (vendor_items tk net n is r)) (pk_file p) = Some bytes \<and>
    check_bytes tk bytes (pk_integrity p) \<noteq> ''MISMATCH''"
  using assms
proof (induction tk net n "is" r rule: vendor_items.induct)
  case (2 tk net n i "is" r)
  obtain got state fs where d: "download tk (net n) (filename_for i) i (vr_files r) = ((got, state), fs)"
    by (metis prod.exhaust)
  note IH = "2.IH" [OF d [symmetric] refl]
  consider "got = None" | "state = ''MISMATCH''" | bytes where "got = Some bytes" "state \<noteq> ''MISMATCH''" by blast
  then show ?case
  proof cases
    case 1
    then show ?thesis using IH(1) "2.prems" d by simp
  next
    case 2
    then show ?thesis using IH(1,2) "2.prems" d by (cases got) auto
  next
    case (3 bytes)
    note stored = download_stores [OF d [unfolded 3(1)]]
    show ?thesis
    proof (cases "inspect tk bytes")
      case (Inl x)
      then show ?thesis using "2.prems" d 3 by simp
    next
      case (Inr detail)
      let ?r = "r\<lparr>vr_files := fs, vr_packages := vr_packages r @ [package_of i bytes state detail]\<rparr>"
      have eq: "vendor_items tk net n (i # is) r = vendor_items tk net (Suc n) is ?r"
        using d 3 Inr by simp
      show ?thesis
      proof (cases "p = package_of i bytes state detail")
        case True
        then have p: "pk_file p = filename_for i" "pk_integrity p = it_integrity i" by (simp_all add: package_of_def)
        have "vr_files ?r (filename_for i) = Some bytes" using stored by simp
        from vendor_items_keep [OF this, of tk net "Suc n" "is"] show ?thesis
          unfolding eq p using stored 3 by blast
      next
        case False
        then show ?thesis using IH(3) [OF 3 Inr] "2.prems" [unfolded eq] unfolding eq by simp
      qed
    qed
  qed
qed simp

lemma mirror_items_keep: "fst r f = Some bytes \<Longrightarrow> fst (mirror_items tk net n is r) f = Some bytes"
proof (induction tk net n "is" r rule: mirror_items.induct)
  case (2 tk net n i "is" fs rows bad)
  obtain got state fs' where d: "download tk (net n) (segment_of i) i fs = ((got, state), fs')"
    by (metis prod.exhaust)
  have "fs' f = Some bytes"
    using download_keeps [where fs = fs, of f bytes tk "net n" "segment_of i" i] "2.prems" by (simp add: d)
  with "2.IH" [OF d [symmetric] refl] d show ?case
    by (cases "got = None \<or> state = ''MISMATCH''") auto
qed simp

abbreviation named_files :: "mirror_row list \<Rightarrow> (string \<times> string option) set" where
  "named_files rows \<equiv> {(f, it_integrity (mi_item r)) | f r. r \<in> set rows \<and> mi_file r = Some f}"

lemma mirror_items_record:
  assumes "(f, h) \<in> named_files (fst (snd (mirror_items tk net n is s)))" "(f, h) \<notin> named_files (fst (snd s))"
  shows "\<exists>bytes. fst (mirror_items tk net n is s) f = Some bytes \<and> check_bytes tk bytes h \<noteq> ''MISMATCH''"
  using assms
proof (induction tk net n "is" s rule: mirror_items.induct)
  case (2 tk net n i "is" fs rows bad)
  obtain got state fs' where d: "download tk (net n) (segment_of i) i fs = ((got, state), fs')"
    by (metis prod.exhaust)
  note IH = "2.IH" [OF d [symmetric] refl]
  show ?case
  proof (cases "got = None \<or> state = ''MISMATCH''")
    case True
    let ?row = "\<lparr>mi_item = i, mi_file = None, mi_verified = state\<rparr>"
    have eq: "mirror_items tk net n (i # is) (fs, rows, bad) = mirror_items tk net (Suc n) is (fs', rows @ [?row], Suc bad)"
      using d True by simp
    have "(f, h) \<notin> named_files (fst (snd (fs', rows @ [?row], Suc bad)))"
      using "2.prems"(2) by auto
    then show ?thesis unfolding eq by (rule IH(1) [OF True "2.prems"(1) [unfolded eq]])
  next
    case False
    then obtain bytes where got: "got = Some bytes" by auto
    note stored = download_stores [OF d [unfolded got]]
    let ?row = "\<lparr>mi_item = i, mi_file = Some (segment_of i), mi_verified = state\<rparr>"
    have eq: "mirror_items tk net n (i # is) (fs, rows, bad) = mirror_items tk net (Suc n) is (fs', rows @ [?row], bad)"
      using d False by auto
    show ?thesis
    proof (cases "f = segment_of i \<and> h = it_integrity i")
      case True
      have "fst (fs', rows @ [?row], bad) (segment_of i) = Some bytes" using stored by simp
      from mirror_items_keep [OF this, of tk net "Suc n" "is"] show ?thesis
        unfolding eq using True stored False got by auto
    next
      case other: False
      have "(f, h) \<notin> named_files (fst (snd (fs', rows @ [?row], bad)))"
        using "2.prems"(2) other by auto
      then show ?thesis unfolding eq by (rule IH(2) [OF False "2.prems"(1) [unfolded eq]])
    qed
  qed
qed simp

interpretation vendored: downloads "\<lambda>n is r. snd (vendor_items tk net n is r)" vr_files
  "\<lambda>r. (\<lambda>p. (pk_file p, pk_integrity p)) ` set (vr_packages r)" tk for tk net
proof
  show "vr_files (snd (vendor_items tk net n is s)) f = Some bytes" if "vr_files s f = Some bytes" for s f bytes n "is"
    using that by (rule vendor_items_keep)
  fix f h n "is" s
  assume "(f, h) \<in> (\<lambda>p. (pk_file p, pk_integrity p)) ` set (vr_packages (snd (vendor_items tk net n is s)))"
    and "(f, h) \<notin> (\<lambda>p. (pk_file p, pk_integrity p)) ` set (vr_packages s)"
  then show "\<exists>bytes. vr_files (snd (vendor_items tk net n is s)) f = Some bytes \<and> check_bytes tk bytes h \<noteq> ''MISMATCH''"
    using vendor_items_record [of _ tk net n "is" s] by auto
qed

interpretation mirrored: downloads "mirror_items tk net" fst "\<lambda>s. named_files (fst (snd s))" tk for tk net
  by unfold_locales (rule mirror_items_keep, assumption, rule mirror_items_record)

section \<open>Re-checking a directory\<close>

lemma count_where_pos: "(0 < count_where P xs) = (\<exists>x \<in> set xs. P x)"
  using count_where_0_iff [of P xs] by auto

text \<open>Every manifest that \<open>vendor_npm.py\<close> writes passes its own re-check, also after a run that ended with status 1.\<close>

lemma written_manifest_verifies:
  assumes "bu_manifest b = None" "vendor_main tk net (Some es) b = (code, b')" "bu_manifest b' \<noteq> None"
  shows "vendor_verify tk (Some es) b' = 0"
proof -
  from assms obtain i "is" r where v: "production_entries tk es = Inr (i # is)"
    "vendor_items tk net 0 (i # is) \<lparr>vr_files = bu_files b, vr_packages = [], vr_failed = []\<rparr> = (None, r)"
    "b' = \<lparr>bu_files = vr_files r, bu_manifest = Some (vendor_manifest_of (vr_packages r))\<rparr>"
    by (auto simp: vendor_main_def split: sum.splits list.splits prod.splits option.splits)
  have "vendored.sound tk \<lparr>vr_files = bu_files b, vr_packages = [], vr_failed = []\<rparr>"
    by (simp add: vendored.sound_def)
  from vendored.run_sound [OF this, of net 0 "i # is"] have "vendored.sound tk r" unfolding v(2) by simp
  then have "\<not> package_bad tk (vr_files r) p" if "p \<in> set (vr_packages r)" for p
    using that by (force simp: vendored.sound_def package_bad_def split: option.splits)
  then show ?thesis
    by (auto simp: vendor_verify_def v(3) vendor_manifest_of_def count_where_pos)
qed

text \<open>What is in the manifest after a run that reported no failure: every package of the production tree.\<close>

lemma vendor_items_complete:
  assumes "vendor_items tk net n is r = (None, r')" "vr_failed r' = []"
  shows "vr_failed r = [] \<and> set (vr_packages r) \<subseteq> set (vr_packages r') \<and>
    (\<forall>i \<in> set is. \<exists>p \<in> set (vr_packages r'). pk_name p = it_name i \<and> pk_version p = it_version i \<and>
       pk_integrity p = it_integrity i \<and> pk_file p = filename_for i)"
  using assms
proof (induction tk net n "is" r rule: vendor_items.induct)
  case (2 tk net n i "is" r)
  obtain got state fs where d: "download tk (net n) (filename_for i) i (vr_files r) = ((got, state), fs)"
    by (metis prod.exhaust)
  note IH = "2.IH" [OF d [symmetric] refl]
  consider "got = None" | "got \<noteq> None" "state = ''MISMATCH''" | bytes where "got = Some bytes" "state \<noteq> ''MISMATCH''" by blast
  then show ?case
  proof cases
    case 1
    then show ?thesis using IH(1) "2.prems" d by simp
  next
    case 2
    then show ?thesis using IH(2) "2.prems" d by auto
  next
    case (3 bytes)
    show ?thesis
    proof (cases "inspect tk bytes")
      case (Inl x)
      then show ?thesis using "2.prems" d 3 by simp
    next
      case (Inr detail)
      let ?p = "package_of i bytes state detail"
      let ?r = "r\<lparr>vr_files := fs, vr_packages := vr_packages r @ [?p]\<rparr>"
      have eq: "vendor_items tk net n (i # is) r = vendor_items tk net (Suc n) is ?r"
        using d 3 Inr by simp
      have p: "pk_name ?p = it_name i" "pk_version ?p = it_version i" "pk_integrity ?p = it_integrity i" "pk_file ?p = filename_for i"
        by (simp_all add: package_of_def)
      from IH(3) [OF 3 Inr] "2.prems" [unfolded eq] show ?thesis using p by auto
    qed
  qed
qed simp


text \<open>The count of the run is the count of rows without a file.\<close>

lemma mirror_items_bad:
  "mirror_items tk net n is (fs, rows, bad) = (fs', rows', bad') \<Longrightarrow> bad = count_where (\<lambda>r. mi_file r = None) rows \<Longrightarrow>
    \<forall>i \<in> set is. segment_of i \<noteq> [] \<Longrightarrow> \<forall>r \<in> set rows. mi_file r \<noteq> Some [] \<Longrightarrow>
    bad' = count_where (\<lambda>r. mi_file r = None) rows' \<and> (\<forall>r \<in> set rows'. mi_file r \<noteq> Some [])"
proof (induction "is" arbitrary: n fs rows bad)
  case (Cons i "is")
  obtain got state fs2 where d: "download tk (net n) (segment_of i) i fs = ((got, state), fs2)"
    by (metis prod.exhaust)
  show ?case
  proof (cases "got = None \<or> state = ''MISMATCH''")
    case True
    from Cons.prems(1) True d have "mirror_items tk net (Suc n) is
        (fs2, rows @ [\<lparr>mi_item = i, mi_file = None, mi_verified = state\<rparr>], Suc bad) = (fs', rows', bad')" by simp
    from Cons.IH [OF this] Cons.prems(2-) show ?thesis by simp
  next
    case False
    from Cons.prems(1) False d have "mirror_items tk net (Suc n) is
        (fs2, rows @ [\<lparr>mi_item = i, mi_file = Some (segment_of i), mi_verified = state\<rparr>], bad) = (fs', rows', bad')" by auto
    from Cons.IH [OF this] Cons.prems(2-) show ?thesis by simp
  qed
qed simp

text \<open>
  A re-check of a mirror repeats the verdict of the run that wrote it, as long as the addresses end in a file name.
\<close>

lemma mirror_recheck_repeats_the_verdict:
  assumes "entries tk es = Inr is" "is \<noteq> []" "\<forall>i \<in> set is. segment_of i \<noteq> []"
    and "mirror_main tk net (Some es) b = (code, b')"
  shows "mirror_verify tk (Some es) b' = code"
proof -
  obtain fs rows bad where r: "mirror_items tk net 0 is (bu_files b, [], 0) = (fs, rows, bad)"
    by (metis prod.exhaust)
  have b': "code = (if bad > 0 then 1 else 0)" "b' = \<lparr>bu_files = fs, bu_manifest = Some rows\<rparr>"
    using assms r by (auto simp: mirror_main_def split: list.splits)
  from mirror_items_bad [OF r] assms(3) have bad: "bad = count_where (\<lambda>r. mi_file r = None) rows" "\<forall>r \<in> set rows. mi_file r \<noteq> Some []"
    by simp_all
  have "mirrored.sound tk (bu_files b, [], 0)" by (simp add: mirrored.sound_def)
  from mirrored.run_sound [OF this, of net 0 "is"] have "mirrored.sound tk (fs, rows, bad)" unfolding r .
  then have sound: "\<exists>bytes. fs f = Some bytes \<and> check_bytes tk bytes (it_integrity (mi_item row)) \<noteq> ''MISMATCH''"
    if "row \<in> set rows" "mi_file row = Some f" for row f
    using that unfolding mirrored.sound_def by auto
  have "row_bad tk fs row = (mi_file row = None)" if "row \<in> set rows" for row
  proof (cases "mi_file row")
    case (Some f)
    with sound [OF that Some] bad(2) that show ?thesis by (auto simp: row_bad_def)
  qed (simp add: row_bad_def)
  then have "(count_where (row_bad tk fs) rows > 0) = (bad > 0)"
    unfolding bad(1) count_where_pos by blast
  then show ?thesis
    using assms(1,2) by (auto simp: mirror_verify_def b' split: list.splits)
qed

text \<open>The re-check reads the lockfile for its existence only: it compares with the hashes of the manifest.\<close>

lemma verify_ignores_the_lockfile: "vendor_verify tk (Some es) b = vendor_verify tk (Some es') b"
  by (simp add: vendor_verify_def)

section \<open>A run\<close>

definition demo_tools :: tools where
  "demo_tools = \<lparr>tl_digest = (\<lambda>algorithm bytes. if algorithm = ''sha512'' then Some (rev bytes) else None),
     tl_b64decode = Some, tl_unpack = (\<lambda>_. Some [\<lparr>mb_name = ''package/package.json'', mb_is_file = True,
       mb_json = Some (JObj [(''license'', JStr ''MIT'')])\<rparr>]), tl_literal_ok = (\<lambda>_. False)\<rparr>"

definition demo_lock :: "lock_entry list" where
  "demo_lock = [\<lparr>le_path = ''node_modules/n8n-core'', le_version = Some ''1'', le_resolved = Some ''https://r/n8n-core-1.tgz'',
     le_integrity = Some ''sha512-abc'', le_dev = False, le_optional = False\<rparr>]"

definition demo_item :: item where
  "demo_item = \<lparr>it_name = ''n8n-core'', it_version = Some ''1'', it_resolved = ''https://r/n8n-core-1.tgz'',
     it_integrity = Some ''sha512-abc'', it_host = ''r'', it_optional = False, it_reasons = []\<rparr>"

definition demo_reply :: "fetched \<Rightarrow> nat \<Rightarrow> fetched" where
  "demo_reply answer n = answer"

definition empty_folder :: "'m folder" where
  "empty_folder = \<lparr>bu_files = (\<lambda>_. None), bu_manifest = None\<rparr>"

lemma demo_entries: "production_entries demo_tools demo_lock = Inr [demo_item]"
  by code_simp

text \<open>The network is down: the run ends with status 1, and what it leaves passes the re-check.\<close>

lemma incomplete_tree_verifies:
  "fst (vendor_main demo_tools (demo_reply (NotReached ''down'')) (Some demo_lock) empty_folder) = 1"
  "vendor_verify demo_tools (Some demo_lock)
     (snd (vendor_main demo_tools (demo_reply (NotReached ''down'')) (Some demo_lock) empty_folder)) = 0"
  by code_simp+

lemma demo_vendored: "fst (vendor_main demo_tools (demo_reply (Fetched ''cba'')) (Some demo_lock) empty_folder) = 0"
  by code_simp


lemma mirror_recheck_repeats_the_verdict_example:
  "mirror_verify demo_tools (Some demo_lock)
     (snd (mirror_main demo_tools (demo_reply (Fetched ''other'')) (Some demo_lock) empty_folder)) = 1"
proof -
  let ?run = "mirror_main demo_tools (demo_reply (Fetched ''other'')) (Some demo_lock) empty_folder"
  have e: "entries demo_tools demo_lock = Inr [demo_item\<lparr>it_reasons := [''pinned'', ''off-registry'']\<rparr>]" by code_simp
  have "fst ?run = 1" by code_simp
  then have "?run = (1, snd ?run)" by (simp add: prod_eq_iff)
  from mirror_recheck_repeats_the_verdict [OF e _ _ this] show ?thesis
    by (simp add: segment_of_def demo_item_def)
qed

end
