(* ===== verification/Sbom.thy ===== *)
theory Sbom
  imports Bundles
begin

text \<open>
  The bill of materials and the vulnerability statement of a release, \<open>scripts/sbom.py\<close>: components out of the
  lockfiles and the Python requirements, and one statement for each advisory of \<open>npm audit\<close>, judged by what a test of
  the engine measured as reachable. The lockfile and the report of the audit are given as npm writes them; the
  wording of a justification is a constructor.
\<close>

section \<open>Components\<close>

record component =
  cp_name :: string
  cp_version :: string
  cp_purl :: "string option"
  cp_required :: "bool option"  \<comment> \<open>\<open>scope\<close>: \<open>required\<close> or \<open>optional\<close>, none for Python\<close>
  cp_workspace :: string
  cp_resolved_from :: "string option"
  cp_hash :: "(string \<times> string) option"

definition text_of :: "string option \<Rightarrow> string" where
  "text_of v = (case v of None \<Rightarrow> [] | Some s \<Rightarrow> s)"

definition without_prefix :: "string \<Rightarrow> string \<Rightarrow> string" where
  "without_prefix p s = (if starts_with s p then drop (length p) s else s)"

definition package_name :: "string \<Rightarrow> string" where
  "package_name path = last_part ''/node_modules/'' (without_prefix ''node_modules/'' path)"

text \<open>\<open>name.replace('@', '%40')\<close>\<close>

definition quote_at :: "string \<Rightarrow> string" where
  "quote_at n = concat (map (\<lambda>c. if c = CHR ''@'' then ''%40'' else [c]) n)"

definition npm_purl :: "string \<Rightarrow> string \<Rightarrow> string" where
  "npm_purl name version = ''pkg:npm/'' @ quote_at name @ ''@'' @ version"

text \<open>\<open>algorithm.upper().replace("SHA", "SHA-")\<close>, and the digest.\<close>

fun dash_sha :: "string \<Rightarrow> string" where
  "dash_sha [] = []"
| "dash_sha (c # cs) = (if starts_with (c # cs) ''SHA'' then ''SHA-'' @ dash_sha (drop 2 cs) else c # dash_sha cs)"

definition hash_of :: "string option \<Rightarrow> (string \<times> string) option" where
  "hash_of integrity =
     (if text_of integrity = [] then None
      else case split_once (CHR ''-'') (text_of integrity) of
             Some (a, d) \<Rightarrow> Some (dash_sha (str_upper a), d)
           | None \<Rightarrow> Some (dash_sha (str_upper (text_of integrity)), []))"

fun npm_components :: "(string \<Rightarrow> bool) \<Rightarrow> lock_entry list \<Rightarrow> string \<Rightarrow> py_exc + component list" where
  "npm_components literal_ok [] workspace = Inr []"
| "npm_components literal_ok (e # es) workspace =
     (if le_path e = [] \<or> text_of (le_version e) = [] then npm_components literal_ok es workspace
      else
        (case urlparse literal_ok (text_of (le_resolved e)) of
           Inl x \<Rightarrow> Inl x
         | Inr host \<Rightarrow>
             (let name = package_name (le_path e); version = text_of (le_version e) in
              map_sum id (\<lambda>cs. \<lparr>cp_name = name, cp_version = version, cp_purl = Some (npm_purl name version),
                cp_required = Some (\<not> le_dev e), cp_workspace = workspace,
                cp_resolved_from = Some (if host \<noteq> [] then host else ''unknown''), cp_hash = hash_of (le_integrity e)\<rparr> # cs)
                (npm_components literal_ok es workspace))))"

text \<open>\<open>^([A-Za-z0-9._\-\[\]]+)==([^\s;]+)\<close>; the characters of a name do not include the separator.\<close>

definition requirement_char :: "char \<Rightarrow> bool" where
  "requirement_char c = (lower_char c \<in> set ''abcdefghijklmnopqrstuvwxyz0123456789._-[]'')"

definition pinned_requirement :: "string \<Rightarrow> (string \<times> string) option" where
  "pinned_requirement line =
     (let name = takeWhile requirement_char line; rest = dropWhile requirement_char line;
          version = takeWhile (\<lambda>c. \<not> py_isspace c \<and> c \<noteq> CHR '';'') (drop 2 rest)
      in if name \<noteq> [] \<and> starts_with rest ''=='' \<and> version \<noteq> [] then Some (name, version) else None)"

definition requirement_line :: "string \<Rightarrow> string" where
  "requirement_line raw = str_strip (takeWhile (\<lambda>c. c \<noteq> CHR ''#'') raw)"

definition pip_component :: "string \<Rightarrow> component option" where
  "pip_component raw =
     (let line = requirement_line raw in
      if line = [] \<or> starts_with line ''-'' then None
      else
        (case pinned_requirement line of
           None \<Rightarrow> Some \<lparr>cp_name = line, cp_version = ''UNPINNED'', cp_purl = None, cp_required = None,
             cp_workspace = ''backend'', cp_resolved_from = None, cp_hash = None\<rparr>
         | Some (name, version) \<Rightarrow> Some \<lparr>cp_name = name, cp_version = version,
             cp_purl = Some (''pkg:pypi/'' @ str_lower name @ ''@'' @ version), cp_required = None,
             cp_workspace = ''backend'', cp_resolved_from = None, cp_hash = None\<rparr>))"

definition pip_components :: "string \<Rightarrow> component list" where
  "pip_components text = List.map_filter pip_component (split_lines text)"

section \<open>Statements\<close>

record advisory =
  av_title :: "string option"
  av_url :: "string option"
  av_severity :: "string option"

text \<open>An entry of \<open>vulnerabilities\<close>: \<open>via\<close> names packages and holds advisories.\<close>

datatype via = ViaName string | ViaAdvisory advisory

record vulnerability =
  vu_name :: string
  vu_severity :: "string option"
  vu_via :: "via list"

record measurement =
  rc_reachable :: "string list"
  rc_unreachable :: "string list"
  rc_measured_at :: "string option"

definition no_reachability :: measurement where
  "no_reachability = \<lparr>rc_reachable = [], rc_unreachable = [], rc_measured_at = None\<rparr>"

datatype analysis_state = Affected | NotAffected | InTriage

datatype justification =
    Override string  \<comment> \<open>the text under this key of \<open>ADVISORY_NOT_AFFECTED\<close>\<close>
  | UNREACHABLE_JUSTIFICATION
  | REACHABLE_NOTE
  | MitigatedPackage string
  | MitigatedAdvisory string
  | NotMeasured

record vex_statement =
  vs_id :: string
  vs_severity :: string
  vs_description :: string
  vs_ref :: string
  vs_state :: analysis_state
  vs_detail :: justification

definition MITIGATED :: "string list" where
  "MITIGATED = [''axios'', ''qs'']"

definition ADVISORY_NOT_AFFECTED :: "string list" where
  "ADVISORY_NOT_AFFECTED = [''Execute Command Node'']"

definition ADVISORY_MITIGATED :: "string list" where
  "ADVISORY_MITIGATED = [''ASF parser'']"

definition or_text :: "string option \<Rightarrow> string \<Rightarrow> string" where
  "or_text v fallback = (if text_of v \<noteq> [] then text_of v else fallback)"

definition advisories_of :: "vulnerability \<Rightarrow> advisory list" where
  "advisories_of v = List.map_filter (\<lambda>x. case x of ViaAdvisory a \<Rightarrow> Some a | ViaName _ \<Rightarrow> None) (vu_via v)"

definition analysis :: "measurement \<Rightarrow> string \<Rightarrow> advisory \<Rightarrow> analysis_state \<times> justification" where
  "analysis rc name a =
     (let title = text_of (av_title a) in
      case find (\<lambda>key. str_contains key title) ADVISORY_NOT_AFFECTED of
        Some key \<Rightarrow> (NotAffected, Override key)
      | None \<Rightarrow>
          if name \<in> set (rc_unreachable rc) then (NotAffected, UNREACHABLE_JUSTIFICATION)
          else if name \<in> set (rc_reachable rc) then
            (Affected,
             case find (\<lambda>key. str_contains key title) ADVISORY_MITIGATED of
               Some key \<Rightarrow> MitigatedAdvisory key
             | None \<Rightarrow> if name \<in> set MITIGATED then MitigatedPackage name else REACHABLE_NOTE)
          else (InTriage, NotMeasured))"

definition statement_of :: "measurement \<Rightarrow> vulnerability \<Rightarrow> advisory \<Rightarrow> vex_statement" where
  "statement_of rc v a =
     \<lparr>vs_id = or_text (av_url a) (or_text (av_title a) (vu_name v)),
      vs_severity = or_text (av_severity a) (or_text (vu_severity v) ''unknown''),
      vs_description = or_text (av_title a) (vu_name v),
      vs_ref = ''pkg:npm/'' @ quote_at (vu_name v),
      vs_state = fst (analysis rc (vu_name v) a), vs_detail = snd (analysis rc (vu_name v) a)\<rparr>"

definition vex_statements :: "measurement \<Rightarrow> vulnerability list \<Rightarrow> vex_statement list" where
  "vex_statements rc audit = concat (map (\<lambda>v. map (statement_of rc v) (advisories_of v)) audit)"

section \<open>The run\<close>

text \<open>
  What the script finds: the lockfiles of the engine and the frontend, the requirements, the measurement, and what
  \<open>npm audit\<close> reported, \<^const>\<open>None\<close> when it could not be run or its output is not JSON.
\<close>

record release_tree =
  rt_engine_lock :: "lock_entry list option"
  rt_frontend_lock :: "lock_entry list option"
  rt_requirements :: "string option"
  rt_reachability :: "measurement option"
  rt_audit :: "vulnerability list option"
  rt_literal_ok :: "string \<Rightarrow> bool"

definition npm_audit :: "release_tree \<Rightarrow> vulnerability list" where
  "npm_audit rt = (case rt_audit rt of None \<Rightarrow> [] | Some vs \<Rightarrow> vs)"

definition reachability :: "release_tree \<Rightarrow> measurement" where
  "reachability rt = (case rt_reachability rt of None \<Rightarrow> no_reachability | Some rc \<Rightarrow> rc)"

definition lock_components :: "release_tree \<Rightarrow> lock_entry list option \<Rightarrow> string \<Rightarrow> py_exc + component list" where
  "lock_components rt lock workspace =
     (case lock of None \<Rightarrow> Inr [] | Some es \<Rightarrow> npm_components (rt_literal_ok rt) es workspace)"

definition sbom_components :: "release_tree \<Rightarrow> py_exc + component list" where
  "sbom_components rt =
     (case lock_components rt (rt_engine_lock rt) ''workflow-engine'' of
        Inl x \<Rightarrow> Inl x
      | Inr engine \<Rightarrow>
          map_sum id (\<lambda>frontend. engine @ frontend @ (case rt_requirements rt of None \<Rightarrow> [] | Some text \<Rightarrow> pip_components text))
            (lock_components rt (rt_frontend_lock rt) ''frontend''))"

text \<open>The exit status, and the two documents when they are written. An exception ends the run with status 1.\<close>

definition sbom_main :: "release_tree \<Rightarrow> int \<times> (component list \<times> vex_statement list) option" where
  "sbom_main rt =
     (case sbom_components rt of
        Inl _ \<Rightarrow> (1, None)
      | Inr cs \<Rightarrow>
          (let rc = reachability rt in
           if rc_reachable rc = [] \<and> rc_unreachable rc = [] then (2, None)
           else (0, Some (cs, vex_statements rc (npm_audit rt)))))"

section \<open>What the statements rest on\<close>

lemma statements_iff:
  "(s \<in> set (vex_statements rc audit)) = (\<exists>v \<in> set audit. \<exists>a. ViaAdvisory a \<in> set (vu_via v) \<and> s = statement_of rc v a)"
proof -
  have "a \<in> set (advisories_of v) \<longleftrightarrow> ViaAdvisory a \<in> set (vu_via v)" for a v
    unfolding advisories_of_def List.map_filter_def by (force split: via.splits)
  then show ?thesis by (auto simp: vex_statements_def image_iff)
qed

lemma analysis_state:
  "fst (analysis rc name a) =
     (if \<exists>key \<in> set ADVISORY_NOT_AFFECTED. str_contains key (text_of (av_title a)) then NotAffected
      else if name \<in> set (rc_unreachable rc) then NotAffected
      else if name \<in> set (rc_reachable rc) then Affected else InTriage)"
proof (cases "find (\<lambda>key. str_contains key (text_of (av_title a))) ADVISORY_NOT_AFFECTED")
  case None
  then have "\<not> (\<exists>key \<in> set ADVISORY_NOT_AFFECTED. str_contains key (text_of (av_title a)))" by (simp add: find_None_iff)
  then show ?thesis by (simp add: analysis_def Let_def None)
next
  case (Some key)
  then show ?thesis using find_SomeD [OF Some] by (auto simp: analysis_def Let_def)
qed

text \<open>
  Nothing is called unaffected but by a key that the advisory's own title contains or by a measurement that does not
  find the package loaded; what is neither measured nor named stays in triage; and no advisory goes without a statement.
\<close>

theorem vex_claims_are_measured:
  assumes "v \<in> set audit" "ViaAdvisory a \<in> set (vu_via v)"
  shows "\<exists>s \<in> set (vex_statements rc audit). s = statement_of rc v a \<and>
    (vs_state s = NotAffected \<longleftrightarrow>
       (\<exists>key \<in> set ADVISORY_NOT_AFFECTED. str_contains key (text_of (av_title a))) \<or> vu_name v \<in> set (rc_unreachable rc)) \<and>
    (vs_state s = Affected \<longrightarrow> vu_name v \<in> set (rc_reachable rc)) \<and>
    (vu_name v \<notin> set (rc_reachable rc) \<union> set (rc_unreachable rc) \<and> vs_state s \<noteq> NotAffected \<longrightarrow> vs_state s = InTriage)"
proof -
  have "statement_of rc v a \<in> set (vex_statements rc audit)" using assms by (auto simp: statements_iff)
  moreover have "vs_state (statement_of rc v a) = fst (analysis rc (vu_name v) a)" by (simp add: statement_of_def)
  ultimately show ?thesis
    by (intro bexI [of _ "statement_of rc v a"] conjI refl) (simp_all only: analysis_state, auto)
qed

text \<open>The number of statements is the number of advisories: a package flagged for its dependencies has none of its own.\<close>

lemma one_statement_for_each_advisory:
  "length (vex_statements rc audit) = sum_list (map (\<lambda>v. length (advisories_of v)) audit)"
  by (simp add: vex_statements_def length_concat comp_def)

text \<open>An audit that could not be run reads like an audit without findings.\<close>

lemma failed_audit_reads_clean:
  assumes "rt_audit rt = None" "fst (sbom_main rt) = 0"
  shows "\<exists>cs. sbom_main rt = (0, Some (cs, [])) \<and> sbom_main (rt\<lparr>rt_audit := Some []\<rparr>) = sbom_main rt"
proof -
  have "sbom_components (rt\<lparr>rt_audit := Some []\<rparr>) = sbom_components rt"
    by (simp add: sbom_components_def lock_components_def cong: option.case_cong sum.case_cong)
  with assms show ?thesis
    by (auto simp: sbom_main_def npm_audit_def reachability_def vex_statements_def Let_def split: sum.splits if_splits)
qed

text \<open>Without a measurement there is no statement to publish.\<close>

lemma no_measurement_no_documents: "rt_reachability rt = None \<Longrightarrow> fst (sbom_main rt) \<noteq> 0 \<and> snd (sbom_main rt) = None"
  by (auto simp: sbom_main_def reachability_def no_reachability_def split: sum.splits)

section \<open>Package URLs\<close>

lemma quote_at_Cons: "quote_at (c # n) = (if c = CHR ''@'' then ''%40'' else [c]) @ quote_at n"
  by (simp add: quote_at_def)

lemma quote_at_no_at: "CHR ''@'' \<notin> set (quote_at n)"
  by (induction n) (auto simp: quote_at_def)

lemma quote_at_inj: "CHR ''%'' \<notin> set n \<Longrightarrow> CHR ''%'' \<notin> set n' \<Longrightarrow> quote_at n = quote_at n' \<Longrightarrow> n = n'"
proof (induction n arbitrary: n')
  case Nil
  then show ?case by (cases n') (auto simp: quote_at_def split: if_splits)
next
  case (Cons c n)
  then show ?case by (cases n') (auto simp: quote_at_Cons quote_at_def [of "[]"] split: if_splits)
qed

text \<open>A package URL names one package at one version.\<close>

lemma npm_purl_inj:
  assumes "CHR ''%'' \<notin> set n" "CHR ''%'' \<notin> set n'" "npm_purl n v = npm_purl n' v'"
  shows "n = n' \<and> v = v'"
proof -
  let ?P = "\<lambda>c. c \<noteq> CHR ''@''"
  have e: "quote_at n @ CHR ''@'' # v = quote_at n' @ CHR ''@'' # v'"
    using assms(3) by (simp add: npm_purl_def)
  have split: "takeWhile ?P (quote_at m @ CHR ''@'' # w) = quote_at m \<and> dropWhile ?P (quote_at m @ CHR ''@'' # w) = CHR ''@'' # w" for m w
    using quote_at_no_at [of m] by (auto simp: takeWhile_append dropWhile_append takeWhile_eq_all_conv)
  have "quote_at n = quote_at n'"
    using arg_cong [OF e, of "takeWhile ?P"] split [of n v] split [of n' v'] by (simp only:)
  moreover have "CHR ''@'' # v = CHR ''@'' # v'"
    using arg_cong [OF e, of "dropWhile ?P"] split [of n v] split [of n' v'] by (simp only:)
  ultimately have "quote_at n = quote_at n'" "v = v'" by simp_all
  then show ?thesis using quote_at_inj [OF assms(1,2)] by simp
qed

section \<open>Both documents\<close>

lemma map_sum_InrE:
  assumes "map_sum id f r = Inr y"
  obtains x where "r = Inr x" "y = f x"
  using assms by (cases r) auto

lemma npm_components_complete:
  "npm_components literal_ok es workspace = Inr cs \<Longrightarrow> e \<in> set es \<Longrightarrow> le_path e \<noteq> [] \<Longrightarrow> text_of (le_version e) \<noteq> [] \<Longrightarrow>
    \<exists>c \<in> set cs. cp_purl c = Some (npm_purl (package_name (le_path e)) (text_of (le_version e))) \<and> cp_workspace c = workspace"
proof (induction es arbitrary: cs)
  case (Cons e' es)
  show ?case
  proof (cases "le_path e' = [] \<or> text_of (le_version e') = []")
    case True
    with Cons show ?thesis by auto
  next
    case False
    then obtain c cs' where "cs = c # cs'" "npm_components literal_ok es workspace = Inr cs'"
      "cp_purl c = Some (npm_purl (package_name (le_path e')) (text_of (le_version e')))" "cp_workspace c = workspace"
      using Cons.prems(1) by (auto simp: Let_def split: sum.splits elim!: map_sum_InrE)
    with Cons show ?thesis by auto
  qed
qed simp

lemma written_documents:
  assumes "sbom_main rt = (code, Some (cs, vex))"
  obtains engine frontend where "lock_components rt (rt_engine_lock rt) ''workflow-engine'' = Inr engine"
    "lock_components rt (rt_frontend_lock rt) ''frontend'' = Inr frontend"
    "cs = engine @ frontend @ (case rt_requirements rt of None \<Rightarrow> [] | Some text \<Rightarrow> pip_components text)"
    "vex = vex_statements (reachability rt) (npm_audit rt)"
    "rc_reachable (reachability rt) \<noteq> [] \<or> rc_unreachable (reachability rt) \<noteq> []"
  using assms by (auto simp: sbom_main_def sbom_components_def Let_def split: sum.splits if_splits elim!: map_sum_InrE)


section \<open>An audit\<close>

definition demo_audit :: "vulnerability list" where
  "demo_audit =
     [\<lparr>vu_name = ''n8n-core'', vu_severity = Some ''high'', vu_via = [ViaName ''uuid'']\<rparr>,
      \<lparr>vu_name = ''uuid'', vu_severity = Some ''high'', vu_via = [ViaAdvisory \<lparr>av_title = Some ''overflow'', av_url = None, av_severity = None\<rparr>]\<rparr>]"

definition demo_tree :: release_tree where
  "demo_tree =
     \<lparr>rt_engine_lock = Some demo_lock, rt_frontend_lock = None, rt_requirements = Some ''fastapi==0.1 # web'',
      rt_reachability = Some \<lparr>rc_reachable = [], rc_unreachable = [''uuid''], rc_measured_at = None\<rparr>,
      rt_audit = Some demo_audit, rt_literal_ok = (\<lambda>_. False)\<rparr>"

lemma demo_documents:
  "\<exists>cs vex. sbom_main demo_tree = (0, Some (cs, vex)) \<and> map vs_state vex = [NotAffected] \<and>
     map cp_name cs = [''n8n-core'', ''fastapi'']"
proof -
  have "case sbom_main demo_tree of (code, Some (cs, vex)) \<Rightarrow> code = 0 \<and> map vs_state vex = [NotAffected] \<and>
     map cp_name cs = [''n8n-core'', ''fastapi''] | _ \<Rightarrow> False"
    by code_simp
  then show ?thesis by (auto split: prod.splits option.splits)
qed


end
