(* ===== verification/Certify.thy ===== *)
theory Certify
  imports Prelude Complex_Main
begin

text \<open>
  The compatibility gate, \<open>scripts/certify.py\<close>: the node catalogue, the pins of \<open>compatibility.yaml\<close>, the installed
  packages and the versions that the engine's runtime offers must agree, and \<open>node-lock.json\<close> must be the file that they
  give. The catalogue and the pins are given as they parse; a node version is the number that \<open>float\<close> makes of it.
  SHA-256 of a configuration schema and the text of a lock (\<open>json.dumps\<close> with indentation) are parameters.
\<close>

section \<open>What is compared\<close>

record binding =
  bd_engine_node_type :: "string option"
  bd_engine_type_version :: "rat option"

record node =
  nd_key :: string
  nd_schema_version :: "int option"
  nd_binding :: binding
  nd_certification :: "string option"
  nd_config_schema :: dict

record pin =
  pn_engine_type :: "string option"
  pn_engine_type_version :: "rat option"

record pins_file =
  cm_product_version :: "string option"
  cm_compiler_version :: "string option"
  cm_certified :: "(string \<times> pin) list"
  cm_packages :: "(string \<times> string) list"

text \<open>\<open>float(d.get(key, fallback))\<close>\<close>

definition number_or :: "rat option \<Rightarrow> rat \<Rightarrow> rat" where
  "number_or v fallback = (case v of None \<Rightarrow> fallback | Some x \<Rightarrow> x)"

datatype check =
    HasBinding string
  | Named string
  | TypeMatches string
  | VersionMatches string
  | StillPresent string
  | Installed string
  | RuntimeCertifies string
  | LockUpToDate

definition has_binding :: "node \<Rightarrow> check \<times> bool" where
  "has_binding n =
     (HasBinding (nd_key n),
      (case bd_engine_node_type (nd_binding n) of None \<Rightarrow> False | Some t \<Rightarrow> t \<noteq> []) \<and> bd_engine_type_version (nd_binding n) \<noteq> None)"

definition pin_checks :: "pins_file \<Rightarrow> node \<Rightarrow> (check \<times> bool) list" where
  "pin_checks cm n =
     (case map_of (cm_certified cm) (nd_key n) of
        None \<Rightarrow> [(Named (nd_key n), False)]
      | Some p \<Rightarrow>
          [(Named (nd_key n), True),
           (TypeMatches (nd_key n), pn_engine_type p = bd_engine_node_type (nd_binding n)),
           (VersionMatches (nd_key n),
            number_or (pn_engine_type_version p) (-1) = number_or (bd_engine_type_version (nd_binding n)) (-2))])"

definition still_present :: "node list \<Rightarrow> string \<Rightarrow> check \<times> bool" where
  "still_present nodes key = (StillPresent key, list_ex (\<lambda>n. nd_key n = key) nodes)"

text \<open>Nothing installed, or a runtime that could not be asked: the checks are left out.\<close>

definition package_checks :: "(string \<times> string) list \<Rightarrow> pins_file \<Rightarrow> (check \<times> bool) list" where
  "package_checks installed cm =
     (if installed = [] then [] else map (\<lambda>(p, v). (Installed p, map_of installed p = Some v)) (cm_packages cm))"

definition runtime_checks :: "(string \<times> rat list) list \<Rightarrow> node list \<Rightarrow> (check \<times> bool) list" where
  "runtime_checks runtime nodes =
     (if runtime = [] then []
      else map (\<lambda>n. (RuntimeCertifies (nd_key n),
          number_or (bd_engine_type_version (nd_binding n)) (-1) \<in>
            set (case Option.bind (bd_engine_node_type (nd_binding n)) (map_of runtime) of None \<Rightarrow> [] | Some vs \<Rightarrow> vs))) nodes)"

section \<open>The lock\<close>

record locked_node =
  ln_schema_version :: int
  ln_engine_node_type :: "string option"
  ln_engine_type_version :: "rat option"
  ln_certification :: "string option"
  ln_config_schema_hash :: string

record lock =
  lk_product_version :: "string option"
  lk_compiler_version :: "string option"
  lk_packages :: "(string \<times> string) list"
  lk_nodes :: "(string \<times> locked_node) list"

definition locked :: "(string \<Rightarrow> string) \<Rightarrow> node \<Rightarrow> string \<times> locked_node" where
  "locked sha n =
     (nd_key n,
      \<lparr>ln_schema_version = (case nd_schema_version n of None \<Rightarrow> 1 | Some v \<Rightarrow> v),
       ln_engine_node_type = bd_engine_node_type (nd_binding n), ln_engine_type_version = bd_engine_type_version (nd_binding n),
       ln_certification = nd_certification n,
       ln_config_schema_hash = take 32 (sha (dumps True True '','' '':'' (JObj (nd_config_schema n))))\<rparr>)"

definition lock_of :: "(string \<Rightarrow> string) \<Rightarrow> pins_file \<Rightarrow> node list \<Rightarrow> lock" where
  "lock_of sha cm nodes =
     \<lparr>lk_product_version = cm_product_version cm, lk_compiler_version = cm_compiler_version cm, lk_packages = cm_packages cm,
      lk_nodes = map (locked sha) (sort_key nd_key nodes)\<rparr>"

section \<open>The run\<close>

record certify_tree =
  cy_nodes :: "node list"
  cy_compatibility :: pins_file
  cy_installed :: "(string \<times> string) list"
  cy_runtime :: "(string \<times> rat list) list"
  cy_lock :: "string option"

definition serialised :: "(string \<Rightarrow> string) \<Rightarrow> (lock \<Rightarrow> string) \<Rightarrow> certify_tree \<Rightarrow> string" where
  "serialised sha dump t = dump (lock_of sha (cy_compatibility t) (cy_nodes t))"

definition lock_check :: "(string \<Rightarrow> string) \<Rightarrow> (lock \<Rightarrow> string) \<Rightarrow> certify_tree \<Rightarrow> check \<times> bool" where
  "lock_check sha dump t = (LockUpToDate, (case cy_lock t of None \<Rightarrow> [] | Some s \<Rightarrow> s) = serialised sha dump t)"

definition agreement_checks :: "certify_tree \<Rightarrow> (check \<times> bool) list" where
  "agreement_checks t =
     map has_binding (cy_nodes t) @ concat (map (pin_checks (cy_compatibility t)) (cy_nodes t)) @
     map (still_present (cy_nodes t) \<circ> fst) (cm_certified (cy_compatibility t)) @
     package_checks (cy_installed t) (cy_compatibility t) @ runtime_checks (cy_runtime t) (cy_nodes t)"

definition failures :: "(check \<times> bool) list \<Rightarrow> check list" where
  "failures cs = map fst (filter (\<lambda>c. \<not> snd c) cs)"

definition certify_main :: "(string \<Rightarrow> string) \<Rightarrow> (lock \<Rightarrow> string) \<Rightarrow> bool \<Rightarrow> certify_tree \<Rightarrow> int \<times> certify_tree" where
  "certify_main sha dump check t =
     (let checks = agreement_checks t @ (if check then [lock_check sha dump t] else []) in
      (if failures checks \<noteq> [] then 1 else 0, if check then t else t\<lparr>cy_lock := Some (serialised sha dump t)\<rparr>))"

section \<open>What a passed gate means\<close>

lemma failures_Nil_iff: "failures cs = [] \<longleftrightarrow> (\<forall>c \<in> set cs. snd c)"
  by (induction cs) (auto simp: failures_def)

text \<open>A node of the catalogue is pinned at what its binding says, and the engine has it.\<close>

definition pinned_as_bound :: "pins_file \<Rightarrow> node \<Rightarrow> bool" where
  "pinned_as_bound cm n =
     (\<exists>p t v. map_of (cm_certified cm) (nd_key n) = Some p \<and> t \<noteq> [] \<and>
        bd_engine_node_type (nd_binding n) = Some t \<and> pn_engine_type p = Some t \<and>
        bd_engine_type_version (nd_binding n) = Some v \<and> number_or (pn_engine_type_version p) (-1) = v)"

definition engine_offers :: "certify_tree \<Rightarrow> node \<Rightarrow> bool" where
  "engine_offers t n =
     (\<exists>ty v vs. bd_engine_node_type (nd_binding n) = Some ty \<and> bd_engine_type_version (nd_binding n) = Some v \<and>
        map_of (cy_runtime t) ty = Some vs \<and> v \<in> set vs)"

lemma node_checks_iff:
  "snd (has_binding n) \<and> (\<forall>c \<in> set (pin_checks cm n). snd c) \<longleftrightarrow> pinned_as_bound cm n"
  by (auto simp: has_binding_def pin_checks_def pinned_as_bound_def number_or_def split: option.splits)

lemma runtime_check_iff:
  assumes "pinned_as_bound cm n"
  shows "(number_or (bd_engine_type_version (nd_binding n)) (-1) \<in>
     set (case Option.bind (bd_engine_node_type (nd_binding n)) (map_of (cy_runtime t)) of None \<Rightarrow> [] | Some vs \<Rightarrow> vs)) = engine_offers t n"
proof -
  from assms obtain ty v where b: "bd_engine_node_type (nd_binding n) = Some ty" "bd_engine_type_version (nd_binding n) = Some v"
    by (auto simp: pinned_as_bound_def)
  show ?thesis by (cases "map_of (cy_runtime t) ty") (simp_all add: engine_offers_def number_or_def b)
qed

text \<open>
  The gate passes exactly when every node of the catalogue is pinned at what its binding says, nothing else is pinned, the
  installed packages and the engine agree, where there are any, and the committed lock is the one they give.
\<close>

lemma certified_iff_consistent:
  "fst (certify_main sha dump True t) = 0 \<longleftrightarrow>
     (\<forall>n \<in> set (cy_nodes t). pinned_as_bound (cy_compatibility t) n) \<and>
     fst ` set (cm_certified (cy_compatibility t)) = nd_key ` set (cy_nodes t) \<and>
     (cy_installed t = [] \<or> (\<forall>(p, v) \<in> set (cm_packages (cy_compatibility t)). map_of (cy_installed t) p = Some v)) \<and>
     (cy_runtime t = [] \<or> (\<forall>n \<in> set (cy_nodes t). engine_offers t n)) \<and>
     (case cy_lock t of None \<Rightarrow> [] | Some s \<Rightarrow> s) = serialised sha dump t"
proof -
  let ?cm = "cy_compatibility t" and ?nodes = "set (cy_nodes t)"
  have main: "fst (certify_main sha dump True t) = 0 \<longleftrightarrow>
      (\<forall>c \<in> set (agreement_checks t). snd c) \<and> snd (lock_check sha dump t)"
    by (auto simp: certify_main_def Let_def failures_Nil_iff)
  have nodes: "(\<forall>n \<in> ?nodes. snd (has_binding n)) \<and> (\<forall>n \<in> ?nodes. \<forall>c \<in> set (pin_checks ?cm n). snd c) \<longleftrightarrow>
      (\<forall>n \<in> ?nodes. pinned_as_bound ?cm n)"
    using node_checks_iff by blast
  have keys: "nd_key ` ?nodes \<subseteq> fst ` set (cm_certified ?cm)" if "\<forall>n \<in> ?nodes. pinned_as_bound ?cm n"
    using that by (force simp: pinned_as_bound_def dest: map_of_SomeD)
  have present: "(\<forall>k \<in> fst ` set (cm_certified ?cm). snd (still_present (cy_nodes t) k)) \<longleftrightarrow>
      fst ` set (cm_certified ?cm) \<subseteq> nd_key ` ?nodes"
    by (force simp: still_present_def list_ex_iff image_iff)
  have packages: "(\<forall>c \<in> set (package_checks (cy_installed t) ?cm). snd c) \<longleftrightarrow>
      (cy_installed t = [] \<or> (\<forall>(p, v) \<in> set (cm_packages ?cm). map_of (cy_installed t) p = Some v))"
    by (auto simp: package_checks_def)
  have runtime: "(\<forall>c \<in> set (runtime_checks (cy_runtime t) (cy_nodes t)). snd c) \<longleftrightarrow>
      (cy_runtime t = [] \<or> (\<forall>n \<in> ?nodes. engine_offers t n))" if "\<forall>n \<in> ?nodes. pinned_as_bound ?cm n"
    using that runtime_check_iff [of ?cm _ t] by (auto simp: runtime_checks_def)
  have lock: "snd (lock_check sha dump t) \<longleftrightarrow> (case cy_lock t of None \<Rightarrow> [] | Some s \<Rightarrow> s) = serialised sha dump t"
    by (simp add: lock_check_def)
  have "(\<forall>c \<in> set (agreement_checks t). snd c) \<longleftrightarrow>
      ((\<forall>n \<in> ?nodes. snd (has_binding n)) \<and> (\<forall>n \<in> ?nodes. \<forall>c \<in> set (pin_checks ?cm n). snd c)) \<and>
      (\<forall>k \<in> fst ` set (cm_certified ?cm). snd (still_present (cy_nodes t) k)) \<and>
      (\<forall>c \<in> set (package_checks (cy_installed t) ?cm). snd c) \<and> (\<forall>c \<in> set (runtime_checks (cy_runtime t) (cy_nodes t)). snd c)"
    by (auto simp: agreement_checks_def ball_Un)
  then show ?thesis unfolding main nodes present packages lock using keys runtime by blast
qed

text \<open>Writing the lock and checking it: the second run repeats the verdict of the first.\<close>

lemma written_lock_is_current: "fst (certify_main sha dump True (snd (certify_main sha dump False t))) = fst (certify_main sha dump False t)"
  by (simp add: certify_main_def Let_def lock_check_def serialised_def agreement_checks_def failures_def)

text \<open>Without the packages and a built engine the gate compares two files with each other, and passes.\<close>

lemma nothing_installed_passes:
  assumes "fst (certify_main sha dump True t) = 0"
  shows "fst (certify_main sha dump True (t\<lparr>cy_installed := [], cy_runtime := []\<rparr>)) = 0"
  using assms unfolding certified_iff_consistent by (simp add: serialised_def pinned_as_bound_def)

end
