(* ===== verification/Sweep.thy ===== *)
theory Sweep
  imports Prelude
begin

text \<open>
  The operations script that empties and suspends leftover tenants, \<open>scripts/tenant_sweep.py\<close>. It talks to a running
  product; the product is a parameter that answers a call in the light of all calls before it. A history has its latest
  call first. The lemmas are about the calls that the script makes, whatever the product answers.
\<close>

section \<open>Calls\<close>

datatype call =
    Login string string
  | ListWorkspaces
  | SetStatus string string
  | SwitchTo string
  | ListWorkflows
  | Deactivate string
  | DeleteWorkflow string

record listed_tenant =
  tr_id :: string
  tr_name :: string
  tr_status :: string
  tr_created_at :: string

text \<open>The status, 0 when the product cannot be reached, and what the script reads from the body of a listing.\<close>

record answer =
  an_status :: int
  an_rows :: "listed_tenant list"
  an_items :: "string list"

type_synonym history = "call list"

type_synonym server = "history \<Rightarrow> answer"

text \<open>\<open>Client.call\<close>\<close>

definition ask :: "server \<Rightarrow> call \<Rightarrow> history \<Rightarrow> answer \<times> history" where
  "ask server c h = (server (c # h), c # h)"

section \<open>The script\<close>

record sweep_args =
  sw_email :: string
  sw_password :: "string option"
  sw_keep :: "string list"
  sw_since :: string
  sw_dry_run :: bool

record sweep_counts =
  sc_removed :: nat
  sc_emptied :: nat
  sc_failed :: nat

definition accepted :: "answer \<Rightarrow> bool" where
  "accepted a = (an_status a \<in> {200, 204})"

fun remove_flows :: "server \<Rightarrow> string list \<Rightarrow> nat \<times> history \<Rightarrow> nat \<times> history" where
  "remove_flows server [] s = s"
| "remove_flows server (f # fs) (removed, h) =
     (let h = snd (ask server (Deactivate f) h);
          (a, h) = ask server (DeleteWorkflow f) h
      in remove_flows server fs (if accepted a then Suc removed else removed, h))"

definition empty_tenant :: "server \<Rightarrow> string \<Rightarrow> sweep_counts \<times> history \<Rightarrow> sweep_counts \<times> history" where
  "empty_tenant server w s =
     (let (n, h) = s; (a, h) = ask server (SwitchTo w) h in
      if an_status a \<noteq> 200 then (n, h)
      else
        let (a, h) = ask server ListWorkflows h;
            items = (if an_status a = 200 then an_items a else []);
            (removed, h) = remove_flows server items (sc_removed n, h)
        in (\<lparr>sc_removed = removed, sc_emptied = (if items \<noteq> [] then Suc (sc_emptied n) else sc_emptied n), sc_failed = sc_failed n\<rparr>, h))"

text \<open>Home before suspending.\<close>

definition leave_and_suspend :: "server \<Rightarrow> string \<Rightarrow> string \<Rightarrow> sweep_counts \<times> history \<Rightarrow> sweep_counts \<times> history" where
  "leave_and_suspend server home w s =
     (let (n, h) = s; h = snd (ask server (SwitchTo home) h) in (n, snd (ask server (SetStatus w ''SUSPENDED'') h)))"

definition sweep_tenant :: "server \<Rightarrow> string \<Rightarrow> listed_tenant \<Rightarrow> sweep_counts \<times> history \<Rightarrow> sweep_counts \<times> history" where
  "sweep_tenant server home t s =
     (let (n, h) = s in
      if tr_status t \<noteq> ''ACTIVE'' then
        (case ask server (SetStatus (tr_id t) ''ACTIVE'') h of
           (a, h) \<Rightarrow>
             if \<not> accepted a then (n\<lparr>sc_failed := Suc (sc_failed n)\<rparr>, h)
             else leave_and_suspend server home (tr_id t) (empty_tenant server (tr_id t) (n, h)))
      else leave_and_suspend server home (tr_id t) (empty_tenant server (tr_id t) (n, h)))"

definition home_of :: "sweep_args \<Rightarrow> listed_tenant list \<Rightarrow> listed_tenant option" where
  "home_of args rows = find (\<lambda>r. tr_name r \<in> set (sw_keep args) \<and> tr_status r = ''ACTIVE'') rows"

definition targets_of :: "sweep_args \<Rightarrow> listed_tenant list \<Rightarrow> listed_tenant list" where
  "targets_of args rows = filter (\<lambda>r. tr_name r \<notin> set (sw_keep args) \<and> sw_since args \<le> tr_created_at r) rows"

definition no_counts :: sweep_counts where
  "no_counts = \<lparr>sc_removed = 0, sc_emptied = 0, sc_failed = 0\<rparr>"

definition sweep_main :: "server \<Rightarrow> sweep_args \<Rightarrow> int \<times> history" where
  "sweep_main server args =
     (case sw_password args of
        None \<Rightarrow> (2, [])
      | Some password \<Rightarrow>
          if password = [] then (2, [])
          else
            let (a, h) = ask server (Login (sw_email args) password) [] in
            if an_status a \<noteq> 200 then (1, h)
            else
              let (a, h) = ask server ListWorkspaces h in
              if an_status a \<noteq> 200 then (1, h)
              else
                (case home_of args (an_rows a) of
                   None \<Rightarrow> (1, h)
                 | Some home \<Rightarrow>
                     if sw_dry_run args then (0, h)
                     else
                       (case fold (sweep_tenant server (tr_id home)) (targets_of args (an_rows a)) (no_counts, h) of
                          (n, h) \<Rightarrow> (if sc_failed n > 0 then 1 else 0, h))))"

section \<open>Where the session is\<close>

text \<open>The workspace that the product last let the session switch to.\<close>

fun session :: "server \<Rightarrow> history \<Rightarrow> string option" where
  "session server [] = None"
| "session server (c # h) =
     (case c of SwitchTo w \<Rightarrow> if an_status (server (c # h)) = 200 then Some w else session server h | _ \<Rightarrow> session server h)"

text \<open>
  What the script may do: write the status of a target, enter a target or the home workspace, and touch a workflow only
  from inside a target.
\<close>

fun permitted :: "server \<Rightarrow> string set \<Rightarrow> string \<Rightarrow> call \<Rightarrow> history \<Rightarrow> bool" where
  "permitted server targets home (SetStatus w _) h = (w \<in> targets)"
| "permitted server targets home (SwitchTo w) h = (w \<in> insert home targets)"
| "permitted server targets home (Deactivate _) h = (\<exists>w \<in> targets. session server h = Some w)"
| "permitted server targets home (DeleteWorkflow _) h = (\<exists>w \<in> targets. session server h = Some w)"
| "permitted server targets home _ h = True"

fun all_permitted :: "server \<Rightarrow> string set \<Rightarrow> string \<Rightarrow> history \<Rightarrow> bool" where
  "all_permitted server targets home [] = True"
| "all_permitted server targets home (c # h) = (permitted server targets home c h \<and> all_permitted server targets home h)"

lemma remove_flows_permitted:
  "all_permitted server T home h \<Longrightarrow> w \<in> T \<Longrightarrow> session server h = Some w \<Longrightarrow>
     all_permitted server T home (snd (remove_flows server fs (n, h)))"
  by (induction fs arbitrary: n h) (auto simp: ask_def Let_def)

lemma empty_tenant_permitted:
  assumes "all_permitted server T home (snd s)" "w \<in> T"
  shows "all_permitted server T home (snd (empty_tenant server w s))"
proof -
  obtain n h where s: "s = (n, h)" by (cases s)
  show ?thesis
  proof (cases "an_status (server (SwitchTo w # h)) = 200")
    case True
    let ?h = "ListWorkflows # SwitchTo w # h"
    let ?items = "if an_status (server ?h) = 200 then an_items (server ?h) else []"
    have h: "all_permitted server T home ?h" "session server ?h = Some w" using assms True by (simp_all add: s)
    have "snd (empty_tenant server w s) = snd (remove_flows server ?items (sc_removed n, ?h))"
      using True by (simp add: empty_tenant_def ask_def s Let_def split: prod.split)
    with remove_flows_permitted [OF h(1) assms(2) h(2), of ?items "sc_removed n"] show ?thesis by (simp only:)
  qed (use assms in \<open>simp add: empty_tenant_def ask_def s\<close>)
qed

lemma leave_and_suspend_permitted:
  "all_permitted server T home (snd s) \<Longrightarrow> w \<in> T \<Longrightarrow> all_permitted server T home (snd (leave_and_suspend server home w s))"
  by (cases s) (simp add: leave_and_suspend_def ask_def Let_def)

lemma sweep_tenant_permitted:
  assumes "all_permitted server T home (snd s)" "tr_id t \<in> T"
  shows "all_permitted server T home (snd (sweep_tenant server home t s))"
proof -
  obtain n h where s: "s = (n, h)" by (cases s)
  have "all_permitted server T home (SetStatus (tr_id t) ''ACTIVE'' # h)" using assms by (simp add: s)
  then show ?thesis
    using assms by (auto simp: sweep_tenant_def ask_def s intro!: leave_and_suspend_permitted empty_tenant_permitted)
qed

lemma sweep_all_permitted:
  "all_permitted server T home (snd s) \<Longrightarrow> tr_id ` set ts \<subseteq> T \<Longrightarrow>
     all_permitted server T home (snd (fold (sweep_tenant server home) ts s))"
proof (induction ts arbitrary: s)
  case (Cons t ts)
  then have "all_permitted server T home (snd (sweep_tenant server home t s))" by (intro sweep_tenant_permitted) simp_all
  from Cons.IH [OF this] Cons.prems(2) show ?case by simp
qed simp

section \<open>What is spared\<close>

text \<open>The rows that the product lists when it is asked, after the login.\<close>

definition listed :: "server \<Rightarrow> sweep_args \<Rightarrow> listed_tenant list" where
  "listed server args =
     (case sw_password args of
        None \<Rightarrow> []
      | Some p \<Rightarrow> an_rows (server [ListWorkspaces, Login (sw_email args) p]))"

definition changes :: "call \<Rightarrow> bool" where
  "changes c = (case c of SetStatus _ _ \<Rightarrow> True | Deactivate _ \<Rightarrow> True | DeleteWorkflow _ \<Rightarrow> True | _ \<Rightarrow> False)"

lemma dry_run_changes_nothing: "sw_dry_run args \<Longrightarrow> c \<in> set (snd (sweep_main server args)) \<Longrightarrow> \<not> changes c"
  by (auto simp: sweep_main_def ask_def changes_def Let_def split: option.splits if_splits)

lemma sweep_main_permitted:
  "snd (sweep_main server args) = [] \<or>
   all_permitted server (tr_id ` set (targets_of args (listed server args)))
     (case home_of args (listed server args) of None \<Rightarrow> [] | Some r \<Rightarrow> tr_id r) (snd (sweep_main server args))"
proof (cases "sw_password args")
  case (Some p)
  let ?h = "[ListWorkspaces, Login (sw_email args) p]"
  have rows: "an_rows (server ?h) = listed server args" by (simp add: listed_def Some)
  show ?thesis
  proof (cases "home_of args (listed server args)")
    case (Some home)
    let ?T = "tr_id ` set (targets_of args (listed server args))"
    have "all_permitted server ?T (tr_id home) (snd (fold (sweep_tenant server (tr_id home)) (targets_of args (listed server args)) (no_counts, ?h)))"
      by (rule sweep_all_permitted) simp_all
    then show ?thesis
      using \<open>sw_password args = Some p\<close> rows Some
      by (auto simp: sweep_main_def ask_def Let_def split: prod.split)
  qed (use \<open>sw_password args = Some p\<close> rows in \<open>auto simp: sweep_main_def ask_def Let_def\<close>)
qed (simp add: sweep_main_def)

lemma all_permitted_suffix: "all_permitted server T home (xs @ c # h) \<Longrightarrow> permitted server T home c h"
  by (induction xs) auto


section \<open>A sweep\<close>

definition demo_rows :: "listed_tenant list" where
  "demo_rows =
     [\<lparr>tr_id = ''w1'', tr_name = ''Home'', tr_status = ''ACTIVE'', tr_created_at = ''2026''\<rparr>,
      \<lparr>tr_id = ''w2'', tr_name = ''E2E'', tr_status = ''DELETED'', tr_created_at = ''2026''\<rparr>]"

text \<open>A product that lists two tenants and one workflow, and refuses to suspend.\<close>

definition demo_server :: server where
  "demo_server h =
     \<lparr>an_status = (case h of SetStatus _ s # _ \<Rightarrow> if s = ''SUSPENDED'' then 409 else 200 | _ \<Rightarrow> 200),
      an_rows = demo_rows, an_items = [''f'']\<rparr>"

definition demo_sweep :: sweep_args where
  "demo_sweep = \<lparr>sw_email = ''a'', sw_password = Some ''p'', sw_keep = [''Home''], sw_since = ''2000'', sw_dry_run = False\<rparr>"

text \<open>
  A tenant that is not active for another reason than a suspension, a deleted one, is reinstated as well; and a
  suspension that the product refuses leaves the tenant active behind a run that ends with status 0.
\<close>

lemma deleted_tenant_stays_reinstated:
  "sweep_main demo_server demo_sweep =
     (0, [SetStatus ''w2'' ''SUSPENDED'', SwitchTo ''w1'', DeleteWorkflow ''f'', Deactivate ''f'', ListWorkflows, SwitchTo ''w2'',
          SetStatus ''w2'' ''ACTIVE'', ListWorkspaces, Login ''a'' ''p''])"
  "an_status (demo_server (snd (sweep_main demo_server demo_sweep))) = 409"
  by code_simp+


end
