(* ===== verification/Seed.thy ===== *)
theory Seed
  imports Validation
begin

text \<open>
  The demonstration tenant, \<open>scripts/demo_seed.py\<close>: eight workflows and the calls that build, run and publish them, and the
  graph of \<open>scripts/smoke.py\<close>. The product is a parameter that answers a request in the light of the requests so far. The
  registry is the shipped one, \<open>resources/node_registry.json\<close>, and the graphs meet the validator of \<open>services/graph.py\<close>
  on it. Text outside ASCII is spelled in UTF-8 bytes.
\<close>

section \<open>The shipped registry\<close>

definition manual_trigger_entry :: node_definition where
  "manual_trigger_entry =
     \<lparr>nd_status = ''ACTIVE'', nd_certification = ''SUPPORTED'', nd_display_name = ''Manual Trigger'', nd_schema_version = 1,
      nd_fields =
        [\<lparr>fs_key = ''test_payload'', fs_type = ''json'', fs_required = False, fs_condition = None, fs_default = JObj []\<rparr>],
      nd_is_trigger = True, nd_trigger_type = [], nd_output_ports_from = [],
      nd_output_ports = [''main''], nd_input_ports = []\<rparr>"

definition webhook_trigger_entry :: node_definition where
  "webhook_trigger_entry =
     \<lparr>nd_status = ''ACTIVE'', nd_certification = ''SUPPORTED'', nd_display_name = ''Webhook Trigger'', nd_schema_version = 1,
      nd_fields =
        [\<lparr>fs_key = ''method'', fs_type = ''enum'', fs_required = True, fs_condition = None, fs_default = JStr ''POST''\<rparr>,
         \<lparr>fs_key = ''auth_mode'', fs_type = ''enum'', fs_required = True, fs_condition = None, fs_default = JStr ''HEADER_SIGNATURE''\<rparr>,
         \<lparr>fs_key = ''allowed_content_type'', fs_type = ''enum'', fs_required = False, fs_condition = None, fs_default = JStr ''application/json''\<rparr>,
         \<lparr>fs_key = ''max_body_bytes'', fs_type = ''number'', fs_required = False, fs_condition = None, fs_default = JInt 262144\<rparr>],
      nd_is_trigger = True, nd_trigger_type = ''WEBHOOK'', nd_output_ports_from = [],
      nd_output_ports = [''main''], nd_input_ports = []\<rparr>"

definition schedule_trigger_entry :: node_definition where
  "schedule_trigger_entry =
     \<lparr>nd_status = ''ACTIVE'', nd_certification = ''SUPPORTED'', nd_display_name = ''Schedule Trigger'', nd_schema_version = 1,
      nd_fields =
        [\<lparr>fs_key = ''schedule_type'', fs_type = ''enum'', fs_required = True, fs_condition = None, fs_default = JStr ''INTERVAL''\<rparr>,
         \<lparr>fs_key = ''interval_seconds'', fs_type = ''number'', fs_required = False, fs_condition = Some (''schedule_type'', JStr ''INTERVAL''), fs_default = JInt 3600\<rparr>,
         \<lparr>fs_key = ''time_of_day'', fs_type = ''time'', fs_required = False, fs_condition = Some (''schedule_type'', JStr ''DAILY''), fs_default = JStr ''02:00''\<rparr>,
         \<lparr>fs_key = ''cron_expression'', fs_type = ''string'', fs_required = False, fs_condition = Some (''schedule_type'', JStr ''CRON''), fs_default = JNull\<rparr>,
         \<lparr>fs_key = ''timezone'', fs_type = ''timezone'', fs_required = False, fs_condition = None, fs_default = JStr ''Asia/Bangkok''\<rparr>,
         \<lparr>fs_key = ''overlap_policy'', fs_type = ''enum'', fs_required = False, fs_condition = None, fs_default = JStr ''SKIP_IF_RUNNING''\<rparr>],
      nd_is_trigger = True, nd_trigger_type = ''SCHEDULE'', nd_output_ports_from = [],
      nd_output_ports = [''main''], nd_input_ports = []\<rparr>"

definition http_request_entry :: node_definition where
  "http_request_entry =
     \<lparr>nd_status = ''ACTIVE'', nd_certification = ''SUPPORTED'', nd_display_name = ''HTTP Request'', nd_schema_version = 1,
      nd_fields =
        [\<lparr>fs_key = ''method'', fs_type = ''enum'', fs_required = True, fs_condition = None, fs_default = JStr ''GET''\<rparr>,
         \<lparr>fs_key = ''url'', fs_type = ''string'', fs_required = True, fs_condition = None, fs_default = JNull\<rparr>,
         \<lparr>fs_key = ''credential_id'', fs_type = ''credential'', fs_required = False, fs_condition = None, fs_default = JNull\<rparr>,
         \<lparr>fs_key = ''query_parameters'', fs_type = ''collection'', fs_required = False, fs_condition = None, fs_default = JNull\<rparr>,
         \<lparr>fs_key = ''headers'', fs_type = ''collection'', fs_required = False, fs_condition = None, fs_default = JNull\<rparr>,
         \<lparr>fs_key = ''body_mode'', fs_type = ''enum'', fs_required = False, fs_condition = None, fs_default = JStr ''NONE''\<rparr>,
         \<lparr>fs_key = ''json_body'', fs_type = ''json'', fs_required = False, fs_condition = Some (''body_mode'', JStr ''JSON''), fs_default = JNull\<rparr>,
         \<lparr>fs_key = ''form_body'', fs_type = ''collection'', fs_required = False, fs_condition = Some (''body_mode'', JStr ''FORM''), fs_default = JNull\<rparr>,
         \<lparr>fs_key = ''response_format'', fs_type = ''enum'', fs_required = False, fs_condition = None, fs_default = JStr ''AUTO''\<rparr>,
         \<lparr>fs_key = ''timeout_ms'', fs_type = ''number'', fs_required = False, fs_condition = None, fs_default = JInt 30000\<rparr>,
         \<lparr>fs_key = ''continue_on_error'', fs_type = ''boolean'', fs_required = False, fs_condition = None, fs_default = JBool False\<rparr>],
      nd_is_trigger = False, nd_trigger_type = [], nd_output_ports_from = [],
      nd_output_ports = [''main''], nd_input_ports = [''main'']\<rparr>"

definition edit_fields_entry :: node_definition where
  "edit_fields_entry =
     \<lparr>nd_status = ''ACTIVE'', nd_certification = ''SUPPORTED'', nd_display_name = ''Edit Fields'', nd_schema_version = 1,
      nd_fields =
        [\<lparr>fs_key = ''assignments'', fs_type = ''collection'', fs_required = True, fs_condition = None, fs_default = JNull\<rparr>,
         \<lparr>fs_key = ''keep_only_set'', fs_type = ''boolean'', fs_required = False, fs_condition = None, fs_default = JBool False\<rparr>],
      nd_is_trigger = False, nd_trigger_type = [], nd_output_ports_from = [],
      nd_output_ports = [''main''], nd_input_ports = [''main'']\<rparr>"

definition if_entry :: node_definition where
  "if_entry =
     \<lparr>nd_status = ''ACTIVE'', nd_certification = ''SUPPORTED'', nd_display_name = ''IF'', nd_schema_version = 1,
      nd_fields =
        [\<lparr>fs_key = ''combinator'', fs_type = ''enum'', fs_required = False, fs_condition = None, fs_default = JStr ''and''\<rparr>,
         \<lparr>fs_key = ''conditions'', fs_type = ''collection'', fs_required = True, fs_condition = None, fs_default = JNull\<rparr>],
      nd_is_trigger = False, nd_trigger_type = [], nd_output_ports_from = [],
      nd_output_ports = [''true'', ''false''], nd_input_ports = [''main'']\<rparr>"

definition filter_entry :: node_definition where
  "filter_entry =
     \<lparr>nd_status = ''ACTIVE'', nd_certification = ''SUPPORTED'', nd_display_name = ''Filter'', nd_schema_version = 1,
      nd_fields =
        [\<lparr>fs_key = ''combinator'', fs_type = ''enum'', fs_required = False, fs_condition = None, fs_default = JStr ''and''\<rparr>,
         \<lparr>fs_key = ''conditions'', fs_type = ''collection'', fs_required = True, fs_condition = None, fs_default = JNull\<rparr>],
      nd_is_trigger = False, nd_trigger_type = [], nd_output_ports_from = [],
      nd_output_ports = [''main''], nd_input_ports = [''main'']\<rparr>"

definition switch_entry :: node_definition where
  "switch_entry =
     \<lparr>nd_status = ''ACTIVE'', nd_certification = ''SUPPORTED'', nd_display_name = ''Switch'', nd_schema_version = 1,
      nd_fields =
        [\<lparr>fs_key = ''value'', fs_type = ''string'', fs_required = True, fs_condition = None, fs_default = JNull\<rparr>,
         \<lparr>fs_key = ''rules'', fs_type = ''collection'', fs_required = True, fs_condition = None, fs_default = JNull\<rparr>,
         \<lparr>fs_key = ''fallback'', fs_type = ''enum'', fs_required = False, fs_condition = None, fs_default = JStr ''NONE''\<rparr>],
      nd_is_trigger = False, nd_trigger_type = [], nd_output_ports_from = ''rules'',
      nd_output_ports = [], nd_input_ports = [''main'']\<rparr>"

definition merge_entry :: node_definition where
  "merge_entry =
     \<lparr>nd_status = ''ACTIVE'', nd_certification = ''SUPPORTED'', nd_display_name = ''Merge'', nd_schema_version = 1,
      nd_fields =
        [\<lparr>fs_key = ''mode'', fs_type = ''enum'', fs_required = True, fs_condition = None, fs_default = JStr ''APPEND''\<rparr>,
         \<lparr>fs_key = ''match_field'', fs_type = ''string'', fs_required = False, fs_condition = Some (''mode'', JStr ''COMBINE_BY_KEY''), fs_default = JNull\<rparr>],
      nd_is_trigger = False, nd_trigger_type = [], nd_output_ports_from = [],
      nd_output_ports = [''main''], nd_input_ports = [''input_1'', ''input_2'']\<rparr>"

definition shipped_registry :: registry where
  "shipped_registry = map_of
     [(''manual_trigger'', manual_trigger_entry), (''webhook_trigger'', webhook_trigger_entry), (''schedule_trigger'', schedule_trigger_entry), (''http_request'', http_request_entry), (''edit_fields'', edit_fields_entry), (''if'', if_entry), (''filter'', filter_entry), (''switch'', switch_entry), (''merge'', merge_entry)]"

section \<open>The workflows\<close>

definition seed_node :: "string \<Rightarrow> string \<Rightarrow> string \<Rightarrow> int \<Rightarrow> int \<Rightarrow> dict \<Rightarrow> json" where
  "seed_node nid key name x y config = JObj
     [(''id'', JStr nid), (''node_key'', JStr key), (''name'', JStr name),
      (''position'', JObj [(''x'', JInt x), (''y'', JInt y)]), (''config'', JObj config)]"

definition link :: "string \<Rightarrow> string \<Rightarrow> string \<Rightarrow> string \<Rightarrow> json" where
  "link source target port to_port = JObj
     [(''from'', JObj [(''node_id'', JStr source), (''port'', JStr port)]),
      (''to'', JObj [(''node_id'', JStr target), (''port'', JStr to_port)])]"

definition assign :: "(string \<times> string) list \<Rightarrow> json" where
  "assign pairs = JArr (map (\<lambda>(name, v). JObj [(''name'', JStr name), (''type'', JStr ''string''), (''value'', JStr v)]) pairs)"

record demo =
  de_name :: string
  de_description :: string
  de_nodes :: "json list"
  de_links :: "json list"
  de_trigger :: string

definition graph_of :: "demo \<Rightarrow> dict" where
  "graph_of de = [(''nodes'', JArr (de_nodes de)), (''connections'', JArr (de_links de))]"

definition approval_nodes :: "json list" where
  "approval_nodes =
     [seed_node ''start_1'' ''manual_trigger'' (''Khi b'' @ [CHR 0xE1, CHR 0xBA, CHR 0xA5] @ ''m Run'') 60 240
        [],
      seed_node ''norm'' ''edit_fields'' (''Chu'' @ [CHR 0xE1, CHR 0xBA, CHR 0xA9] @ ''n ho'' @ [CHR 0xC3, CHR 0xA1] @ '' '' @ [CHR 0xC4, CHR 0x91, CHR 0xC6, CHR 0xA1] @ ''n'') 300 240
        [(''assignments'', JArr [JObj [(''name'', JStr ''ma_don''), (''type'', JStr ''string''), (''value'', JStr ''={{ $json.order_id }}'')], JObj [(''name'', JStr ''gia_tri''), (''type'', JStr ''number''), (''value'', JStr ''={{ $json.amount }}'')], JObj [(''name'', JStr ''khach''), (''type'', JStr ''string''), (''value'', JStr ''={{ $json.customer }}'')]]), (''keep_only_set'', JBool False)],
      seed_node ''gate'' ''if'' (''Tr'' @ [CHR 0xC3, CHR 0xAA] @ ''n 5 tri'' @ [CHR 0xE1, CHR 0xBB, CHR 0x87] @ ''u?'') 560 240
        [(''combinator'', JStr ''and''), (''conditions'', JArr [JObj [(''left'', JStr ''={{ $json.amount }}''), (''operator'', JStr ''gt''), (''value_type'', JStr ''number''), (''right'', JStr ''5000000'')]])],
      seed_node ''manual_ok'' ''edit_fields'' (''Ch'' @ [CHR 0xE1, CHR 0xBB, CHR 0x9D] @ '' duy'' @ [CHR 0xE1, CHR 0xBB, CHR 0x87] @ ''t tay'') 820 130
        [(''assignments'', assign [(''trang_thai'', ''cho_duyet''), (''nguoi_xu_ly'', ''quan_ly'')])],
      seed_node ''auto_ok'' ''edit_fields'' (''T'' @ [CHR 0xE1, CHR 0xBB, CHR 0xB1] @ '' '' @ [CHR 0xC4, CHR 0x91, CHR 0xE1, CHR 0xBB, CHR 0x99] @ ''ng duy'' @ [CHR 0xE1, CHR 0xBB, CHR 0x87] @ ''t'') 820 350
        [(''assignments'', assign [(''trang_thai'', ''da_duyet''), (''nguoi_xu_ly'', ''he_thong'')])],
      seed_node ''gop'' ''merge'' (''G'' @ [CHR 0xE1, CHR 0xBB, CHR 0x99] @ ''p k'' @ [CHR 0xE1, CHR 0xBA, CHR 0xBF] @ ''t qu'' @ [CHR 0xE1, CHR 0xBA, CHR 0xA3]) 1080 240
        [(''mode'', JStr ''APPEND'')],
      seed_node ''ket'' ''edit_fields'' (''K'' @ [CHR 0xE1, CHR 0xBA, CHR 0xBF] @ ''t lu'' @ [CHR 0xE1, CHR 0xBA, CHR 0xAD] @ ''n'') 1320 240
        [(''assignments'', JArr [JObj [(''name'', JStr ''tom_tat''), (''type'', JStr ''string''), (''value'', JStr ''={{ $json.ma_don }} - {{ $json.trang_thai }}'')]]), (''keep_only_set'', JBool False)]]"

definition approval_links :: "json list" where
  "approval_links =
     [link ''start_1'' ''norm'' ''main'' ''main'', link ''norm'' ''gate'' ''main'' ''main'', link ''gate'' ''manual_ok'' ''true'' ''main'', link ''gate'' ''auto_ok'' ''false'' ''main'', link ''manual_ok'' ''gop'' ''main'' ''input_1'', link ''auto_ok'' ''gop'' ''main'' ''input_2'', link ''gop'' ''ket'' ''main'' ''main'']"

definition approval_demo :: "demo" where
  "approval_demo =
     \<lparr>de_name = (''Duy'' @ [CHR 0xE1, CHR 0xBB, CHR 0x87] @ ''t '' @ [CHR 0xC4, CHR 0x91, CHR 0xC6, CHR 0xA1] @ ''n h'' @ [CHR 0xC3, CHR 0xA0] @ ''ng theo gi'' @ [CHR 0xC3, CHR 0xA1] @ '' tr'' @ [CHR 0xE1, CHR 0xBB, CHR 0x8B]),
      de_description = ([CHR 0xC4, CHR 0x90, CHR 0xC6, CHR 0xA1] @ ''n tr'' @ [CHR 0xC3, CHR 0xAA] @ ''n 5 tri'' @ [CHR 0xE1, CHR 0xBB, CHR 0x87] @ ''u c'' @ [CHR 0xE1, CHR 0xBA, CHR 0xA7] @ ''n duy'' @ [CHR 0xE1, CHR 0xBB, CHR 0x87] @ ''t tay, d'' @ [CHR 0xC6, CHR 0xB0, CHR 0xE1, CHR 0xBB, CHR 0x9B] @ ''i th'' @ [CHR 0xC3, CHR 0xAC] @ '' t'' @ [CHR 0xE1, CHR 0xBB, CHR 0xB1] @ '' '' @ [CHR 0xC4, CHR 0x91, CHR 0xE1, CHR 0xBB, CHR 0x99] @ ''ng. Hai nh'' @ [CHR 0xC3, CHR 0xA1] @ ''nh g'' @ [CHR 0xE1, CHR 0xBB, CHR 0x99] @ ''p l'' @ [CHR 0xE1, CHR 0xBA, CHR 0xA1] @ ''i b'' @ [CHR 0xE1, CHR 0xBA, CHR 0xB1] @ ''ng b'' @ [CHR 0xC6, CHR 0xB0, CHR 0xE1, CHR 0xBB, CHR 0x9B] @ ''c Merge.''),
      de_nodes = approval_nodes, de_links = approval_links, de_trigger = ''manual_trigger''\<rparr>"

definition tickets_nodes :: "json list" where
  "tickets_nodes =
     [seed_node ''start_1'' ''manual_trigger'' (''Khi b'' @ [CHR 0xE1, CHR 0xBA, CHR 0xA5] @ ''m Run'') 60 260
        [],
      seed_node ''sw'' ''switch'' (''Theo m'' @ [CHR 0xE1, CHR 0xBB, CHR 0xA9] @ ''c '' @ [CHR 0xC4, CHR 0x91, CHR 0xE1, CHR 0xBB, CHR 0x99]) 320 260
        [(''value'', JStr ''={{ $json.priority }}''), (''rules'', JArr [JObj [(''output_key'', JStr ''khan_cap''), (''operator'', JStr ''equals''), (''value_type'', JStr ''string''), (''compare_to'', JStr ''urgent'')], JObj [(''output_key'', JStr ''cao''), (''operator'', JStr ''equals''), (''value_type'', JStr ''string''), (''compare_to'', JStr ''high'')], JObj [(''output_key'', JStr ''thuong''), (''operator'', JStr ''equals''), (''value_type'', JStr ''string''), (''compare_to'', JStr ''normal'')]]), (''fallback'', JStr ''EXTRA_OUTPUT'')],
      seed_node ''p1'' ''edit_fields'' (''G'' @ [CHR 0xE1, CHR 0xBB, CHR 0x8D] @ ''i tr'' @ [CHR 0xE1, CHR 0xBB, CHR 0xB1] @ ''c page'') 620 60
        [(''assignments'', assign [(''sla'', (''15 ph'' @ [CHR 0xC3, CHR 0xBA] @ ''t'')), (''kenh'', ''goi_dien'')])],
      seed_node ''p2'' ''edit_fields'' (''V'' @ [CHR 0xC3, CHR 0xA0] @ ''o h'' @ [CHR 0xC3, CHR 0xA0] @ ''ng '' @ [CHR 0xC4, CHR 0x91, CHR 0xE1, CHR 0xBB, CHR 0xA3] @ ''i '' @ [CHR 0xC6, CHR 0xB0] @ ''u ti'' @ [CHR 0xC3, CHR 0xAA] @ ''n'') 620 200
        [(''assignments'', assign [(''sla'', (''2 gi'' @ [CHR 0xE1, CHR 0xBB, CHR 0x9D])), (''kenh'', ''chat'')])],
      seed_node ''p3'' ''edit_fields'' (''H'' @ [CHR 0xC3, CHR 0xA0] @ ''ng '' @ [CHR 0xC4, CHR 0x91, CHR 0xE1, CHR 0xBB, CHR 0xA3] @ ''i th'' @ [CHR 0xC6, CHR 0xB0, CHR 0xE1, CHR 0xBB, CHR 0x9D] @ ''ng'') 620 340
        [(''assignments'', assign [(''sla'', (''24 gi'' @ [CHR 0xE1, CHR 0xBB, CHR 0x9D])), (''kenh'', ''email'')])],
      seed_node ''p4'' ''edit_fields'' (''C'' @ [CHR 0xE1, CHR 0xBA, CHR 0xA7] @ ''n ph'' @ [CHR 0xC3, CHR 0xA2] @ ''n lo'' @ [CHR 0xE1, CHR 0xBA, CHR 0xA1] @ ''i l'' @ [CHR 0xE1, CHR 0xBA, CHR 0xA1] @ ''i'') 620 480
        [(''assignments'', assign [(''sla'', (''ch'' @ [CHR 0xC6, CHR 0xB0] @ ''a x'' @ [CHR 0xC3, CHR 0xA1] @ ''c '' @ [CHR 0xC4, CHR 0x91, CHR 0xE1, CHR 0xBB, CHR 0x8B] @ ''nh'')), (''kenh'', ''cho_xu_ly'')])]]"

definition tickets_links :: "json list" where
  "tickets_links =
     [link ''start_1'' ''sw'' ''main'' ''main'', link ''sw'' ''p1'' ''khan_cap'' ''main'', link ''sw'' ''p2'' ''cao'' ''main'', link ''sw'' ''p3'' ''thuong'' ''main'', link ''sw'' ''p4'' ''other'' ''main'']"

definition tickets_demo :: "demo" where
  "tickets_demo =
     \<lparr>de_name = (''Ph'' @ [CHR 0xC3, CHR 0xA2] @ ''n lo'' @ [CHR 0xE1, CHR 0xBA, CHR 0xA1] @ ''i ticket h'' @ [CHR 0xE1, CHR 0xBB, CHR 0x97] @ '' tr'' @ [CHR 0xE1, CHR 0xBB, CHR 0xA3]),
      de_description = (''Switch chia theo m'' @ [CHR 0xE1, CHR 0xBB, CHR 0xA9] @ ''c '' @ [CHR 0xC4, CHR 0x91, CHR 0xE1, CHR 0xBB, CHR 0x99] @ '' '' @ [CHR 0xC6, CHR 0xB0] @ ''u ti'' @ [CHR 0xC3, CHR 0xAA] @ ''n, m'' @ [CHR 0xE1, CHR 0xBB, CHR 0x8D] @ ''i gi'' @ [CHR 0xC3, CHR 0xA1] @ '' tr'' @ [CHR 0xE1, CHR 0xBB, CHR 0x8B] @ '' l'' @ [CHR 0xE1, CHR 0xBA, CHR 0xA1] @ '' r'' @ [CHR 0xC6, CHR 0xA1] @ ''i v'' @ [CHR 0xC3, CHR 0xA0] @ ''o nh'' @ [CHR 0xC3, CHR 0xA1] @ ''nh '' @ [CHR 0x27] @ ''other'' @ [CHR 0x27] @ ''.''),
      de_nodes = tickets_nodes, de_links = tickets_links, de_trigger = ''manual_trigger''\<rparr>"

definition fetch_nodes :: "json list" where
  "fetch_nodes =
     [seed_node ''start_1'' ''manual_trigger'' (''Khi b'' @ [CHR 0xE1, CHR 0xBA, CHR 0xA5] @ ''m Run'') 60 240
        [],
      seed_node ''http_1'' ''http_request'' (''L'' @ [CHR 0xE1, CHR 0xBA, CHR 0xA5] @ ''y b'' @ [CHR 0xC3, CHR 0xA0] @ ''i vi'' @ [CHR 0xE1, CHR 0xBA, CHR 0xBF] @ ''t'') 300 240
        [(''method'', JStr ''GET''), (''url'', JStr ''https://jsonplaceholder.typicode.com/posts/1''), (''body_mode'', JStr ''NONE''), (''response_format'', JStr ''AUTO''), (''timeout_ms'', JInt 20000), (''continue_on_error'', JBool False)],
      seed_node ''do'' ''edit_fields'' ([CHR 0xC4, CHR 0x90] @ ''o '' @ [CHR 0xC4, CHR 0x91, CHR 0xE1, CHR 0xBB, CHR 0x99] @ '' d'' @ [CHR 0xC3, CHR 0xA0] @ ''i'') 560 240
        [(''assignments'', JArr [JObj [(''name'', JStr ''tieu_de''), (''type'', JStr ''string''), (''value'', JStr ''={{ $json.title }}'')], JObj [(''name'', JStr ''so_ky_tu''), (''type'', JStr ''number''), (''value'', JStr ''={{ $json.body.length }}'')], JObj [(''name'', JStr ''so_tu''), (''type'', JStr ''number''), (''value'', JStr (''={{ $json.body.split('' @ [CHR 0x27] @ '' '' @ [CHR 0x27] @ '').length }}''))]]), (''keep_only_set'', JBool False)],
      seed_node ''gate'' ''if'' (''B'' @ [CHR 0xC3, CHR 0xA0] @ ''i d'' @ [CHR 0xC3, CHR 0xA0] @ ''i?'') 820 240
        [(''combinator'', JStr ''and''), (''conditions'', JArr [JObj [(''left'', JStr ''={{ $json.so_ky_tu }}''), (''operator'', JStr ''gt''), (''value_type'', JStr ''number''), (''right'', JStr ''100'')]])],
      seed_node ''dai'' ''edit_fields'' (''C'' @ [CHR 0xE1, CHR 0xBA, CHR 0xA7] @ ''n t'' @ [CHR 0xC3, CHR 0xB3] @ ''m t'' @ [CHR 0xE1, CHR 0xBA, CHR 0xAF] @ ''t'') 1080 150
        [(''assignments'', assign [(''xu_ly'', ''tom_tat'')])],
      seed_node ''ngan'' ''edit_fields'' ([CHR 0xC4, CHR 0x90, CHR 0xC4, CHR 0x83] @ ''ng nguy'' @ [CHR 0xC3, CHR 0xAA] @ ''n v'' @ [CHR 0xC4, CHR 0x83] @ ''n'') 1080 340
        [(''assignments'', assign [(''xu_ly'', ''dang_nguyen_van'')])]]"

definition fetch_links :: "json list" where
  "fetch_links =
     [link ''start_1'' ''http_1'' ''main'' ''main'', link ''http_1'' ''do'' ''main'' ''main'', link ''do'' ''gate'' ''main'' ''main'', link ''gate'' ''dai'' ''true'' ''main'', link ''gate'' ''ngan'' ''false'' ''main'']"

definition fetch_demo :: "demo" where
  "fetch_demo =
     \<lparr>de_name = (''L'' @ [CHR 0xE1, CHR 0xBA, CHR 0xA5] @ ''y b'' @ [CHR 0xC3, CHR 0xA0] @ ''i vi'' @ [CHR 0xE1, CHR 0xBA, CHR 0xBF] @ ''t t'' @ [CHR 0xE1, CHR 0xBB, CHR 0xAB] @ '' API v'' @ [CHR 0xC3, CHR 0xA0] @ '' ph'' @ [CHR 0xC3, CHR 0xA2] @ ''n lo'' @ [CHR 0xE1, CHR 0xBA, CHR 0xA1] @ ''i''),
      de_description = (''G'' @ [CHR 0xE1, CHR 0xBB, CHR 0x8D] @ ''i m'' @ [CHR 0xE1, CHR 0xBB, CHR 0x99] @ ''t API c'' @ [CHR 0xC3, CHR 0xB4] @ ''ng khai th'' @ [CHR 0xE1, CHR 0xBA, CHR 0xAD] @ ''t, r'' @ [CHR 0xE1, CHR 0xBB, CHR 0x93] @ ''i d'' @ [CHR 0xC3, CHR 0xB9] @ ''ng bi'' @ [CHR 0xE1, CHR 0xBB, CHR 0x83] @ ''u th'' @ [CHR 0xE1, CHR 0xBB, CHR 0xA9] @ ''c tr'' @ [CHR 0xC3, CHR 0xAA] @ ''n d'' @ [CHR 0xE1, CHR 0xBB, CHR 0xAF] @ '' li'' @ [CHR 0xE1, CHR 0xBB, CHR 0x87] @ ''u tr'' @ [CHR 0xE1, CHR 0xBA, CHR 0xA3] @ '' v'' @ [CHR 0xE1, CHR 0xBB, CHR 0x81] @ ''. B'' @ [CHR 0xC6, CHR 0xB0, CHR 0xE1, CHR 0xBB, CHR 0x9B] @ ''c xanh ngh'' @ [CHR 0xC4, CHR 0xA9] @ ''a l'' @ [CHR 0xC3, CHR 0xA0] @ '' request '' @ [CHR 0xC4, CHR 0x91, CHR 0xC3, CHR 0xA3] @ '' th'' @ [CHR 0xE1, CHR 0xBB, CHR 0xB1] @ ''c s'' @ [CHR 0xE1, CHR 0xBB, CHR 0xB1] @ '' '' @ [CHR 0xC4, CHR 0x91] @ ''i ra ngo'' @ [CHR 0xC3, CHR 0xA0] @ ''i.''),
      de_nodes = fetch_nodes, de_links = fetch_links, de_trigger = ''manual_trigger''\<rparr>"

definition combine_nodes :: "json list" where
  "combine_nodes =
     [seed_node ''start_1'' ''manual_trigger'' (''Khi b'' @ [CHR 0xE1, CHR 0xBA, CHR 0xA5] @ ''m Run'') 60 240
        [],
      seed_node ''a'' ''http_request'' (''Ngu'' @ [CHR 0xE1, CHR 0xBB, CHR 0x93] @ ''n A: ng'' @ [CHR 0xC6, CHR 0xB0, CHR 0xE1, CHR 0xBB, CHR 0x9D] @ ''i d'' @ [CHR 0xC3, CHR 0xB9] @ ''ng'') 320 130
        [(''method'', JStr ''GET''), (''url'', JStr ''https://jsonplaceholder.typicode.com/users/1''), (''body_mode'', JStr ''NONE''), (''timeout_ms'', JInt 20000)],
      seed_node ''b'' ''http_request'' (''Ngu'' @ [CHR 0xE1, CHR 0xBB, CHR 0x93] @ ''n B: b'' @ [CHR 0xC3, CHR 0xA0] @ ''i vi'' @ [CHR 0xE1, CHR 0xBA, CHR 0xBF] @ ''t'') 320 360
        [(''method'', JStr ''GET''), (''url'', JStr ''https://jsonplaceholder.typicode.com/posts/1''), (''body_mode'', JStr ''NONE''), (''timeout_ms'', JInt 20000)],
      seed_node ''gop'' ''merge'' (''Gh'' @ [CHR 0xC3, CHR 0xA9] @ ''p theo v'' @ [CHR 0xE1, CHR 0xBB, CHR 0x8B] @ '' tr'' @ [CHR 0xC3, CHR 0xAD]) 620 240
        [(''mode'', JStr ''COMBINE_BY_POSITION'')],
      seed_node ''out'' ''edit_fields'' (''K'' @ [CHR 0xE1, CHR 0xBA, CHR 0xBF] @ ''t qu'' @ [CHR 0xE1, CHR 0xBA, CHR 0xA3]) 880 240
        [(''assignments'', JArr [JObj [(''name'', JStr ''nguoi_dung''), (''type'', JStr ''string''), (''value'', JStr ''={{ $json.name }}'')], JObj [(''name'', JStr ''bai_viet''), (''type'', JStr ''string''), (''value'', JStr ''={{ $json.title }}'')]]), (''keep_only_set'', JBool False)]]"

definition combine_links :: "json list" where
  "combine_links =
     [link ''start_1'' ''a'' ''main'' ''main'', link ''start_1'' ''b'' ''main'' ''main'', link ''a'' ''gop'' ''main'' ''input_1'', link ''b'' ''gop'' ''main'' ''input_2'', link ''gop'' ''out'' ''main'' ''main'']"

definition combine_demo :: "demo" where
  "combine_demo =
     \<lparr>de_name = (''G'' @ [CHR 0xE1, CHR 0xBB, CHR 0x99] @ ''p d'' @ [CHR 0xE1, CHR 0xBB, CHR 0xAF] @ '' li'' @ [CHR 0xE1, CHR 0xBB, CHR 0x87] @ ''u t'' @ [CHR 0xE1, CHR 0xBB, CHR 0xAB] @ '' hai ngu'' @ [CHR 0xE1, CHR 0xBB, CHR 0x93] @ ''n''),
      de_description = (''Hai l'' @ [CHR 0xE1, CHR 0xBB, CHR 0x9D] @ ''i g'' @ [CHR 0xE1, CHR 0xBB, CHR 0x8D] @ ''i API ch'' @ [CHR 0xE1, CHR 0xBA, CHR 0xA1] @ ''y song song, Merge gh'' @ [CHR 0xC3, CHR 0xA9] @ ''p theo v'' @ [CHR 0xE1, CHR 0xBB, CHR 0x8B] @ '' tr'' @ [CHR 0xC3, CHR 0xAD] @ ''.''),
      de_nodes = combine_nodes, de_links = combine_links, de_trigger = ''manual_trigger''\<rparr>"

definition hook_nodes :: "json list" where
  "hook_nodes =
     [seed_node ''start_1'' ''webhook_trigger'' (''Khi c'' @ [CHR 0xC3, CHR 0xB3] @ '' request'') 60 240
        [(''method'', JStr ''POST''), (''auth_mode'', JStr ''HEADER_SIGNATURE''), (''allowed_content_type'', JStr ''application/json'')],
      seed_node ''ghi'' ''edit_fields'' (''Ghi nh'' @ [CHR 0xE1, CHR 0xBA, CHR 0xAD] @ ''n '' @ [CHR 0xC4, CHR 0x91, CHR 0xC6, CHR 0xA1] @ ''n'') 320 240
        [(''assignments'', JArr [JObj [(''name'', JStr ''ma_don''), (''type'', JStr ''string''), (''value'', JStr ''={{ $json.order_id }}'')], JObj [(''name'', JStr ''nhan_luc''), (''type'', JStr ''string''), (''value'', JStr ''={{ $now }}'')], JObj [(''name'', JStr ''trang_thai''), (''type'', JStr ''string''), (''value'', JStr ''da_nhan'')]]), (''keep_only_set'', JBool False)],
      seed_node ''gate'' ''if'' ([CHR 0xC4, CHR 0x90, CHR 0xC6, CHR 0xA1] @ ''n g'' @ [CHR 0xE1, CHR 0xBA, CHR 0xA5] @ ''p?'') 580 240
        [(''combinator'', JStr ''and''), (''conditions'', JArr [JObj [(''left'', JStr ''={{ $json.rush }}''), (''operator'', JStr ''equals''), (''value_type'', JStr ''boolean''), (''right'', JStr ''true'')]])],
      seed_node ''gap'' ''edit_fields'' ([CHR 0xC4, CHR 0x90, CHR 0xE1, CHR 0xBA, CHR 0xA9] @ ''y l'' @ [CHR 0xC3, CHR 0xAA] @ ''n '' @ [CHR 0xC4, CHR 0x91, CHR 0xE1, CHR 0xBA, CHR 0xA7] @ ''u'') 840 150
        [(''assignments'', assign [(''uu_tien'', ''cao'')])],
      seed_node ''thuong'' ''edit_fields'' (''X'' @ [CHR 0xE1, CHR 0xBA, CHR 0xBF] @ ''p h'' @ [CHR 0xC3, CHR 0xA0] @ ''ng b'' @ [CHR 0xC3, CHR 0xAC] @ ''nh th'' @ [CHR 0xC6, CHR 0xB0, CHR 0xE1, CHR 0xBB, CHR 0x9D] @ ''ng'') 840 340
        [(''assignments'', assign [(''uu_tien'', ''thuong'')])]]"

definition hook_links :: "json list" where
  "hook_links =
     [link ''start_1'' ''ghi'' ''main'' ''main'', link ''ghi'' ''gate'' ''main'' ''main'', link ''gate'' ''gap'' ''true'' ''main'', link ''gate'' ''thuong'' ''false'' ''main'']"

definition hook_demo :: "demo" where
  "hook_demo =
     \<lparr>de_name = (''Nh'' @ [CHR 0xE1, CHR 0xBA, CHR 0xAD] @ ''n '' @ [CHR 0xC4, CHR 0x91, CHR 0xC6, CHR 0xA1] @ ''n h'' @ [CHR 0xC3, CHR 0xA0] @ ''ng t'' @ [CHR 0xE1, CHR 0xBB, CHR 0xAB] @ '' website''),
      de_description = (''Webhook nh'' @ [CHR 0xE1, CHR 0xBA, CHR 0xAD] @ ''n '' @ [CHR 0xC4, CHR 0x91, CHR 0xC6, CHR 0xA1] @ ''n m'' @ [CHR 0xE1, CHR 0xBB, CHR 0x9B] @ ''i. URL c'' @ [CHR 0xC3, CHR 0xB3] @ '' ngay t'' @ [CHR 0xE1, CHR 0xBB, CHR 0xAB] @ '' l'' @ [CHR 0xC3, CHR 0xBA] @ ''c t'' @ [CHR 0xE1, CHR 0xBA, CHR 0xA1] @ ''o, k'' @ [CHR 0xC3, CHR 0xBD] @ '' HMAC-SHA256.''),
      de_nodes = hook_nodes, de_links = hook_links, de_trigger = ''webhook_trigger''\<rparr>"

definition scheduled_nodes :: "json list" where
  "scheduled_nodes =
     [seed_node ''start_1'' ''schedule_trigger'' (''Theo l'' @ [CHR 0xE1, CHR 0xBB, CHR 0x8B] @ ''ch'') 60 240
        [(''schedule_type'', JStr ''INTERVAL''), (''interval_seconds'', JInt 3600), (''timezone'', JStr ''Asia/Bangkok''), (''overlap_policy'', JStr ''SKIP_IF_RUNNING'')],
      seed_node ''ping'' ''http_request'' (''Ping d'' @ [CHR 0xE1, CHR 0xBB, CHR 0x8B] @ ''ch v'' @ [CHR 0xE1, CHR 0xBB, CHR 0xA5]) 320 240
        [(''method'', JStr ''GET''), (''url'', JStr ''https://httpbin.org/status/200''), (''body_mode'', JStr ''NONE''), (''timeout_ms'', JInt 15000), (''continue_on_error'', JBool True)],
      seed_node ''ghi'' ''edit_fields'' (''Ghi nh'' @ [CHR 0xE1, CHR 0xBA, CHR 0xAD] @ ''n'') 580 240
        [(''assignments'', assign [(''kiem_tra'', ''hoan_tat'')])]]"

definition scheduled_links :: "json list" where
  "scheduled_links =
     [link ''start_1'' ''ping'' ''main'' ''main'', link ''ping'' ''ghi'' ''main'' ''main'']"

definition scheduled_demo :: "demo" where
  "scheduled_demo =
     \<lparr>de_name = (''Ki'' @ [CHR 0xE1, CHR 0xBB, CHR 0x83] @ ''m tra s'' @ [CHR 0xE1, CHR 0xBB, CHR 0xA9] @ ''c kho'' @ [CHR 0xE1, CHR 0xBA, CHR 0xBB] @ '' d'' @ [CHR 0xE1, CHR 0xBB, CHR 0x8B] @ ''ch v'' @ [CHR 0xE1, CHR 0xBB, CHR 0xA5] @ '' m'' @ [CHR 0xE1, CHR 0xBB, CHR 0x97] @ ''i gi'' @ [CHR 0xE1, CHR 0xBB, CHR 0x9D]),
      de_description = (''G'' @ [CHR 0xE1, CHR 0xBB, CHR 0x8D] @ ''i m'' @ [CHR 0xE1, CHR 0xBB, CHR 0x99] @ ''t endpoint ki'' @ [CHR 0xE1, CHR 0xBB, CHR 0x83] @ ''m tra m'' @ [CHR 0xE1, CHR 0xBB, CHR 0x97] @ ''i gi'' @ [CHR 0xE1, CHR 0xBB, CHR 0x9D] @ '' v'' @ [CHR 0xC3, CHR 0xA0] @ '' ghi l'' @ [CHR 0xE1, CHR 0xBA, CHR 0xA1] @ ''i k'' @ [CHR 0xE1, CHR 0xBA, CHR 0xBF] @ ''t qu'' @ [CHR 0xE1, CHR 0xBA, CHR 0xA3] @ ''.''),
      de_nodes = scheduled_nodes, de_links = scheduled_links, de_trigger = ''schedule_trigger''\<rparr>"

definition broken_nodes :: "json \<Rightarrow> json list" where
  "broken_nodes credential_id =
     [seed_node ''start_1'' ''manual_trigger'' (''Khi b'' @ [CHR 0xE1, CHR 0xBA, CHR 0xA5] @ ''m Run'') 60 240
        [],
      seed_node ''http_1'' ''http_request'' (''G'' @ [CHR 0xE1, CHR 0xBB, CHR 0x8D] @ ''i API '' @ [CHR 0xC4, CHR 0x91, CHR 0xE1, CHR 0xBB, CHR 0x91] @ ''i t'' @ [CHR 0xC3, CHR 0xA1] @ ''c'') 320 240
        [(''method'', JStr ''GET''), (''url'', JStr ''https://api.invalid.example/orders''), (''body_mode'', JStr ''NONE''), (''timeout_ms'', JInt 8000), (''continue_on_error'', JBool False), (''credential_id'', credential_id)]]"

definition broken_links :: "json list" where
  "broken_links =
     [link ''start_1'' ''http_1'' ''main'' ''main'']"

definition broken_demo :: "json \<Rightarrow> demo" where
  "broken_demo credential_id =
     \<lparr>de_name = (''G'' @ [CHR 0xE1, CHR 0xBB, CHR 0x8D] @ ''i API '' @ [CHR 0xC4, CHR 0x91, CHR 0xE1, CHR 0xBB, CHR 0x91] @ ''i t'' @ [CHR 0xC3, CHR 0xA1] @ ''c ('' @ [CHR 0xC4, CHR 0x91] @ ''ang l'' @ [CHR 0xE1, CHR 0xBB, CHR 0x97] @ ''i)''),
      de_description = (''V'' @ [CHR 0xC3, CHR 0xAD] @ '' d'' @ [CHR 0xE1, CHR 0xBB, CHR 0xA5] @ '' v'' @ [CHR 0xE1, CHR 0xBB, CHR 0x81] @ '' m'' @ [CHR 0xE1, CHR 0xBB, CHR 0x99] @ ''t l'' @ [CHR 0xE1, CHR 0xBA, CHR 0xA7] @ ''n ch'' @ [CHR 0xE1, CHR 0xBA, CHR 0xA1] @ ''y th'' @ [CHR 0xE1, CHR 0xBA, CHR 0xA5] @ ''t b'' @ [CHR 0xE1, CHR 0xBA, CHR 0xA1] @ ''i v'' @ [CHR 0xC3, CHR 0xA0] @ '' c'' @ [CHR 0xC3, CHR 0xA1] @ ''ch s'' @ [CHR 0xE1, CHR 0xBA, CHR 0xA3] @ ''n ph'' @ [CHR 0xE1, CHR 0xBA, CHR 0xA9] @ ''m gi'' @ [CHR 0xE1, CHR 0xBA, CHR 0xA3] @ ''i th'' @ [CHR 0xC3, CHR 0xAD] @ ''ch nguy'' @ [CHR 0xC3, CHR 0xAA] @ ''n nh'' @ [CHR 0xC3, CHR 0xA2] @ ''n.''),
      de_nodes = broken_nodes credential_id, de_links = broken_links, de_trigger = ''manual_trigger''\<rparr>"

definition unfinished_nodes :: "json list" where
  "unfinished_nodes =
     [seed_node ''start_1'' ''manual_trigger'' (''Khi b'' @ [CHR 0xE1, CHR 0xBA, CHR 0xA5] @ ''m Run'') 60 240
        [],
      seed_node ''http_1'' ''http_request'' ([CHR 0xC4, CHR 0x90, CHR 0xE1, CHR 0xBA, CHR 0xA9] @ ''y sang CRM'') 320 240
        [(''method'', JStr ''POST''), (''body_mode'', JStr ''JSON'')]]"

definition unfinished_links :: "json list" where
  "unfinished_links =
     [link ''start_1'' ''http_1'' ''main'' ''main'']"

definition unfinished_demo :: "demo" where
  "unfinished_demo =
     \<lparr>de_name = ([CHR 0xC4, CHR 0x90, CHR 0xE1, CHR 0xBB, CHR 0x93] @ ''ng b'' @ [CHR 0xE1, CHR 0xBB, CHR 0x99] @ '' kh'' @ [CHR 0xC3, CHR 0xA1] @ ''ch h'' @ [CHR 0xC3, CHR 0xA0] @ ''ng sang CRM ('' @ [CHR 0xC4, CHR 0x91] @ ''ang l'' @ [CHR 0xC3, CHR 0xA0] @ ''m)''),
      de_description = (''B'' @ [CHR 0xE1, CHR 0xBA, CHR 0xA3] @ ''n nh'' @ [CHR 0xC3, CHR 0xA1] @ ''p ch'' @ [CHR 0xC6, CHR 0xB0] @ ''a ho'' @ [CHR 0xC3, CHR 0xA0] @ ''n thi'' @ [CHR 0xE1, CHR 0xBB, CHR 0x87] @ ''n '' @ [CHR 0xE2, CHR 0x80, CHR 0x94] @ '' b'' @ [CHR 0xC6, CHR 0xB0, CHR 0xE1, CHR 0xBB, CHR 0x9B] @ ''c HTTP ch'' @ [CHR 0xC6, CHR 0xB0] @ ''a '' @ [CHR 0xC4, CHR 0x91] @ ''i'' @ [CHR 0xE1, CHR 0xBB, CHR 0x81] @ ''n URL.''),
      de_nodes = unfinished_nodes, de_links = unfinished_links, de_trigger = ''manual_trigger''\<rparr>"

section \<open>The validator on them\<close>

definition accepted_graph :: "dict \<Rightarrow> bool" where
  "accepted_graph g = (case validate_graph g shipped_registry True of Inr r \<Rightarrow> result_ok r | Inl _ \<Rightarrow> False)"

lemma shipped_demos_accepted:
  "list_all (accepted_graph \<circ> graph_of) [approval_demo, tickets_demo, fetch_demo, combine_demo, hook_demo, scheduled_demo]"
  by code_simp

text \<open>With no credential, and with one.\<close>

lemma broken_accepted:
  "accepted_graph (graph_of (broken_demo JNull))" "accepted_graph (graph_of (broken_demo (JStr ''00c1'')))"
  by code_simp+

lemma unfinished_refused:
  "map_sum id (\<lambda>r. map iss_code (vr_issues r)) (validate_graph (graph_of unfinished_demo) shipped_registry True) =
     Inr [''NODE_CONFIGURATION_INVALID'']"
  by code_simp

section \<open>The graph of the smoke test\<close>

text \<open>\<open>graph(url_endpoint)\<close>: an HTTP node between the first two where an address is given.\<close>

definition smoke_node :: "string \<Rightarrow> string \<Rightarrow> string \<Rightarrow> int \<Rightarrow> int \<Rightarrow> dict \<Rightarrow> json" where
  "smoke_node nid key name x y config = seed_node nid key name x y config"

definition smoke_nodes :: "string option \<Rightarrow> json list" where
  "smoke_nodes url_endpoint =
     [smoke_node ''start_1'' ''manual_trigger'' (''Khi b'' @ [CHR 0xE1, CHR 0xBA, CHR 0xA5] @ ''m Run'') 100 200 []] @
     (case url_endpoint of
        None \<Rightarrow> []
      | Some url \<Rightarrow>
          if url = [] then []
          else [smoke_node ''http_1'' ''http_request'' (''G'' @ [CHR 0xE1, CHR 0xBB, CHR 0x8D] @ ''i API'') 230 200
                  [(''method'', JStr ''GET''), (''url'', JStr url)]]) @
     [smoke_node ''set_1'' ''edit_fields'' (''Chu'' @ [CHR 0xE1, CHR 0xBA, CHR 0xA9] @ ''n h'' @ [CHR 0xC3, CHR 0xB3] @ ''a'') 360 200
        [(''assignments'', JArr
           [JObj [(''name'', JStr ''tier''), (''type'', JStr ''string''), (''value'', JStr ''={{ $json.plan }}'')],
            JObj [(''name'', JStr ''double''), (''type'', JStr ''string''), (''value'', JStr ''={{ $json.amount * 2 }}'')]]),
         (''keep_only_set'', JBool False)],
      smoke_node ''if_1'' ''if'' (''L'' @ [CHR 0xC3, CHR 0xA0] @ '' VIP'') 620 200
        [(''combinator'', JStr ''and''),
         (''conditions'', JArr
           [JObj [(''left'', JStr ''={{ $json.plan }}''), (''operator'', JStr ''equals''), (''value_type'', JStr ''string''),
                  (''right'', JStr ''vip'')]])],
      smoke_node ''set_vip'' ''edit_fields'' (''G'' @ [CHR 0xE1, CHR 0xBA, CHR 0xAF] @ ''n nh'' @ [CHR 0xC3, CHR 0xA3] @ ''n VIP'') 880 120
        [(''assignments'', assign [(''label'', ''VIP'')])],
      smoke_node ''set_std'' ''edit_fields'' (''G'' @ [CHR 0xE1, CHR 0xBA, CHR 0xAF] @ ''n nh'' @ [CHR 0xC3, CHR 0xA3] @ ''n th'' @ [CHR 0xC6, CHR 0xB0, CHR 0xE1, CHR 0xBB, CHR 0x9D] @ ''ng'') 880 300
        [(''assignments'', assign [(''label'', ''STANDARD'')])]]"

definition smoke_links :: "string option \<Rightarrow> json list" where
  "smoke_links url_endpoint =
     (if url_endpoint \<noteq> None \<and> url_endpoint \<noteq> Some []
      then [link ''start_1'' ''http_1'' ''main'' ''main'', link ''http_1'' ''set_1'' ''main'' ''main'']
      else [link ''start_1'' ''set_1'' ''main'' ''main'']) @
     [link ''set_1'' ''if_1'' ''main'' ''main'', link ''if_1'' ''set_vip'' ''true'' ''main'', link ''if_1'' ''set_std'' ''false'' ''main'']"

definition smoke_graph :: "string option \<Rightarrow> dict" where
  "smoke_graph url_endpoint = [(''nodes'', JArr (smoke_nodes url_endpoint)), (''connections'', JArr (smoke_links url_endpoint))]"

lemma smoke_accepted: "accepted_graph (smoke_graph None)" "accepted_graph (smoke_graph (Some ''https://example.org/health''))"
  by code_simp+

section \<open>The calls\<close>

record request =
  rq_method :: string
  rq_path :: string
  rq_body :: "json option"
  rq_workspace :: "string option"

text \<open>\<^const>\<open>None\<close> where the call raises: the product cannot be reached, or its answer is not JSON.\<close>

type_synonym product = "request list \<Rightarrow> (int \<times> json) option"

text \<open>A script extends the history, latest request first, and may end in an exception.\<close>

type_synonym 'a script = "request list \<Rightarrow> (py_exc + 'a) \<times> request list"

definition give :: "'a \<Rightarrow> 'a script" where
  "give x h = (Inr x, h)"

definition lift :: "py_exc + 'a \<Rightarrow> 'a script" where
  "lift r h = (r, h)"

definition bind :: "'a script \<Rightarrow> ('a \<Rightarrow> 'b script) \<Rightarrow> 'b script" where
  "bind s f h = (case s h of (Inl e, h) \<Rightarrow> (Inl e, h) | (Inr x, h) \<Rightarrow> f x h)"

definition ask_product :: "product \<Rightarrow> string option \<Rightarrow> string \<Rightarrow> string \<Rightarrow> json option \<Rightarrow> (int \<times> json) script" where
  "ask_product product ws verb path body h =
     (let h = \<lparr>rq_method = verb, rq_path = path, rq_body = body, rq_workspace = ws\<rparr> # h in
      (case product h of None \<Rightarrow> Inl LookupErr | Some a \<Rightarrow> Inr a, h))"

definition item_of :: "json \<Rightarrow> string \<Rightarrow> py_exc + json" where
  "item_of v k =
     (case v of JObj d \<Rightarrow> (case map_of d k of None \<Rightarrow> Inl KeyErr | Some x \<Rightarrow> Inr x) | _ \<Rightarrow> Inl TypeErr)"

definition get_of :: "json \<Rightarrow> string \<Rightarrow> py_exc + json" where
  "get_of v k = map_sum id (\<lambda>d. dget d k) (as_dict v)"

definition workflow_path :: "json \<Rightarrow> string \<Rightarrow> string" where
  "workflow_path wid rest = ''/api/v1/workflows/'' @ py_str wid @ rest"

definition graph_body :: "json \<Rightarrow> dict \<Rightarrow> json" where
  "graph_body revision g = JObj [(''expected_revision'', revision), (''graph'', JObj g)]"

text \<open>\<open>build\<close>: the identifier of the workflow, \<^const>\<open>None\<close> when it was not created. A draft that is not saved is only reported.\<close>

definition build :: "product \<Rightarrow> string option \<Rightarrow> demo \<Rightarrow> json option script" where
  "build product ws de =
     bind (ask_product product ws ''POST'' ''/api/v1/workflows''
         (Some (JObj [(''name'', JStr (de_name de)), (''description'', JStr (de_description de)), (''trigger_node_key'', JStr (de_trigger de))])))
       (\<lambda>(_, workflow). bind (lift (as_dict workflow)) (\<lambda>w.
          case map_of w ''id'' of
            None \<Rightarrow> give None
          | Some wid \<Rightarrow>
              bind (ask_product product ws ''GET'' (workflow_path wid ''/draft'') None) (\<lambda>(_, draft).
              bind (lift (item_of draft ''revision'')) (\<lambda>revision.
              bind (ask_product product ws ''PUT'' (workflow_path wid ''/draft'') (Some (graph_body revision (graph_of de)))) (\<lambda>_.
              give (Some wid))))))"

definition TERMINAL :: "string list" where
  "TERMINAL = [''SUCCEEDED'', ''FAILED'', ''TIMED_OUT'', ''CANCELLED'', ''ENGINE_INTERRUPTED'', ''FAILED_TO_START'']"

fun poll_run :: "nat \<Rightarrow> product \<Rightarrow> string option \<Rightarrow> json \<Rightarrow> unit script" where
  "poll_run 0 product ws eid = give ()"
| "poll_run (Suc n) product ws eid =
     bind (ask_product product ws ''GET'' (''/api/v1/executions/'' @ py_str eid) None) (\<lambda>(_, detail).
     bind (lift (get_of detail ''status'')) (\<lambda>status.
     if status \<in> JStr ` set TERMINAL then give () else poll_run n product ws eid))"

definition run_demo :: "product \<Rightarrow> string option \<Rightarrow> json \<Rightarrow> json \<Rightarrow> unit script" where
  "run_demo product ws wid payload =
     bind (ask_product product ws ''POST'' (workflow_path wid ''/executions'') (Some (JObj [(''kind'', JStr ''DRAFT''), (''payload'', payload)])))
       (\<lambda>(status, execution).
          if status \<noteq> 202 then give ()
          else bind (lift (item_of execution ''id'')) (poll_run 120 product ws))"

definition publish_and_activate :: "product \<Rightarrow> string option \<Rightarrow> json \<Rightarrow> string \<Rightarrow> unit script" where
  "publish_and_activate product ws wid note =
     bind (ask_product product ws ''POST'' (workflow_path wid ''/publish'') (Some (JObj [(''change_note'', JStr note)])))
       (\<lambda>(status, _). if status = 201 then bind (ask_product product ws ''POST'' (workflow_path wid ''/activate'') (Some (JObj []))) (\<lambda>_. give ()) else give ())"

text \<open>A step of the list: what follows the building of a workflow, when it was created.\<close>

definition stage :: "product \<Rightarrow> string option \<Rightarrow> demo \<Rightarrow> (json \<Rightarrow> unit script) \<Rightarrow> unit script" where
  "stage product ws de after_build =
     bind (build product ws de)
       (\<lambda>wid. case wid of None \<Rightarrow> give () | Some w \<Rightarrow> if truthy w then after_build w else give ())"

fun run_each :: "product \<Rightarrow> string option \<Rightarrow> json list \<Rightarrow> json \<Rightarrow> unit script" where
  "run_each product ws [] wid = give ()"
| "run_each product ws (p # ps) wid = bind (run_demo product ws wid (JArr [p])) (\<lambda>_. run_each product ws ps wid)"

definition first_version :: string where
  "first_version = ''B'' @ [CHR 0xE1, CHR 0xBA, CHR 0xA3] @ ''n '' @ [CHR 0xC4, CHR 0x91, CHR 0xE1, CHR 0xBA, CHR 0xA7] @ ''u ti'' @ [CHR 0xC3, CHR 0xAA] @ ''n''"

definition approval_payloads :: "json list" where
  "approval_payloads =
     [JObj [(''order_id'', JStr ''DH-1001''), (''amount'', JInt 8500000), (''customer'', JStr (''C'' @ [CHR 0xC3, CHR 0xB4] @ ''ng ty A''))],
      JObj [(''order_id'', JStr ''DH-1002''), (''amount'', JInt 1200000), (''customer'', JStr (''C'' @ [CHR 0xC3, CHR 0xB4] @ ''ng ty B''))]]"

definition tickets_payloads :: "json list" where
  "tickets_payloads =
     [JObj [(''ticket'', JStr ''T-1''), (''priority'', JStr ''urgent'')], JObj [(''ticket'', JStr ''T-2''), (''priority'', JStr ''normal'')],
      JObj [(''ticket'', JStr ''T-3''), (''priority'', JStr ''khong-biet'')]]"

text \<open>The webhook's address is read for the summary: the answer has to be an object, and its \<open>webhook\<close> too.\<close>

definition after_hook :: "product \<Rightarrow> string option \<Rightarrow> json \<Rightarrow> unit script" where
  "after_hook product ws wid =
     bind (publish_and_activate product ws wid first_version) (\<lambda>_.
     bind (ask_product product ws ''GET'' (workflow_path wid ''/trigger'') None) (\<lambda>(_, trigger).
     bind (lift (get_of trigger ''webhook'')) (\<lambda>webhook.
     bind (lift (get_of (or_else webhook (JObj [])) ''url'')) (\<lambda>_. give ()))))"

definition after_scheduled :: "product \<Rightarrow> string option \<Rightarrow> json \<Rightarrow> unit script" where
  "after_scheduled product ws wid =
     bind (publish_and_activate product ws wid first_version) (\<lambda>_. run_each product ws [JObj []] wid)"

definition seed_demos :: "product \<Rightarrow> string option \<Rightarrow> json \<Rightarrow> unit script" where
  "seed_demos product ws credential =
     bind (stage product ws approval_demo (run_each product ws approval_payloads)) (\<lambda>_.
     bind (stage product ws tickets_demo (run_each product ws tickets_payloads)) (\<lambda>_.
     bind (stage product ws fetch_demo (run_each product ws [JObj []])) (\<lambda>_.
     bind (stage product ws combine_demo (run_each product ws [JObj []])) (\<lambda>_.
     bind (stage product ws hook_demo (after_hook product ws)) (\<lambda>_.
     bind (stage product ws scheduled_demo (after_scheduled product ws)) (\<lambda>_.
     bind (lift (get_of credential ''id'')) (\<lambda>credential_id.
     bind (stage product ws (broken_demo credential_id) (run_each product ws [JObj []])) (\<lambda>_.
     stage product ws unfinished_demo (\<lambda>_. give ())))))))))"

text \<open>The summary counts the runs and those that succeeded.\<close>

fun statuses :: "json list \<Rightarrow> py_exc + json list" where
  "statuses [] = Inr []"
| "statuses (i # is) =
     (case item_of i ''status'' of Inl e \<Rightarrow> Inl e | Inr s \<Rightarrow> map_sum id (\<lambda>ss. s # ss) (statuses is))"

definition summary :: "product \<Rightarrow> string option \<Rightarrow> unit script" where
  "summary product ws =
     bind (ask_product product ws ''GET'' ''/api/v1/executions?page_size=100'' None) (\<lambda>(_, listed).
     bind (lift (as_dict listed)) (\<lambda>d.
     bind (lift (iterate (case map_of d ''items'' of None \<Rightarrow> JArr [] | Some v \<Rightarrow> v))) (\<lambda>items.
     bind (lift (statuses items)) (\<lambda>_. give ()))))"

record seed_args =
  sa_admin_email :: string
  sa_admin_password :: string
  sa_admin_new_password :: string
  sa_tenant_name :: string
  sa_owner_email :: string
  sa_owner_password :: string

definition sign_in_as :: "product \<Rightarrow> string \<Rightarrow> string \<Rightarrow> (int \<times> json) script" where
  "sign_in_as product email password =
     ask_product product None ''POST'' ''/api/v1/auth/login'' (Some (JObj [(''email'', JStr email), (''password'', JStr password)]))"

definition sign_in :: "product \<Rightarrow> seed_args \<Rightarrow> (int \<times> json) script" where
  "sign_in product a =
     bind (sign_in_as product (sa_admin_email a) (sa_admin_password a)) (\<lambda>(status, body).
     if status \<noteq> 200 then sign_in_as product (sa_admin_email a) (sa_admin_new_password a) else give (status, body))"

definition renew_password :: "product \<Rightarrow> seed_args \<Rightarrow> json \<Rightarrow> unit script" where
  "renew_password product a body =
     bind (lift (get_of body ''password_change_required'')) (\<lambda>required.
     if truthy required
     then bind (ask_product product None ''POST'' ''/api/v1/auth/change-password''
            (Some (JObj [(''current_password'', JStr (sa_admin_password a)), (''new_password'', JStr (sa_admin_new_password a))])))
            (\<lambda>_. give ())
     else give ())"

definition provision :: "product \<Rightarrow> seed_args \<Rightarrow> (int \<times> json) script" where
  "provision product a =
     ask_product product None ''POST'' ''/api/v1/platform/workspaces''
       (Some (JObj [(''name'', JStr (sa_tenant_name a)), (''owner_email'', JStr (sa_owner_email a)),
          (''owner_password'', JStr (sa_owner_password a)), (''max_concurrent_executions'', JInt 10)]))"

definition seed_tenant :: "product \<Rightarrow> json \<Rightarrow> int script" where
  "seed_tenant product tenant =
     bind (lift (item_of tenant ''id'')) (\<lambda>tid.
     bind (lift (item_of tenant ''name'')) (\<lambda>_.
     bind (lift (item_of tenant ''slug'')) (\<lambda>_.
     let ws = Some (py_str tid) in
     bind (ask_product product ws ''POST'' ''/api/v1/credentials''
         (Some (JObj [(''name'', JStr (''Token API n'' @ [CHR 0xE1, CHR 0xBB, CHR 0x99] @ ''i b'' @ [CHR 0xE1, CHR 0xBB, CHR 0x99])), (''credential_type'', JStr ''BEARER''),
            (''data'', JObj [(''token'', JStr ''demo-token-not-a-real-secret'')])]))) (\<lambda>(_, credential).
     bind (seed_demos product ws credential) (\<lambda>_.
     bind (summary product ws) (\<lambda>_. give 0))))))"

definition seed_main :: "product \<Rightarrow> seed_args \<Rightarrow> int script" where
  "seed_main product a =
     bind (sign_in product a) (\<lambda>(status, body).
     if status \<noteq> 200 then give 1
     else
       bind (renew_password product a body) (\<lambda>_.
       bind (provision product a) (\<lambda>(status, tenant).
       if status \<noteq> 201 then
         bind (lift (get_of tenant ''error'')) (\<lambda>e. bind (lift (get_of (or_else e (JObj [])) ''code'')) (\<lambda>_. give 1))
       else seed_tenant product tenant)))"

section \<open>What it asks for\<close>

text \<open>The script only adds requests, and each of them satisfies \<open>P\<close>.\<close>

definition emits :: "(request \<Rightarrow> bool) \<Rightarrow> 'a script \<Rightarrow> bool" where
  "emits P s \<longleftrightarrow> (\<forall>h. list_all P h \<longrightarrow> list_all P (snd (s h)))"

named_theorems emits_intro

lemma emits_give [emits_intro]: "emits P (give x)"
  by (simp add: emits_def give_def)

lemma emits_lift [emits_intro]: "emits P (lift r)"
  by (simp add: emits_def lift_def)

lemma emits_bind [emits_intro]: "emits P s \<Longrightarrow> (\<And>x. emits P (f x)) \<Longrightarrow> emits P (bind s f)"
  by (fastforce simp: emits_def bind_def split: prod.splits sum.splits)

lemma emits_call [emits_intro]:
  "P \<lparr>rq_method = verb, rq_path = path, rq_body = body, rq_workspace = ws\<rparr> \<Longrightarrow> emits P (ask_product product ws verb path body)"
  by (simp add: emits_def ask_product_def Let_def)

lemma emits_prod [emits_intro]: "(\<And>x y. emits P (f x y)) \<Longrightarrow> emits P (case p of (x, y) \<Rightarrow> f x y)"
  by (cases p) simp

lemma emits_if [emits_intro]: "emits P s \<Longrightarrow> emits P t \<Longrightarrow> emits P (if b then s else t)"
  by simp

lemma emits_option [emits_intro]: "emits P s \<Longrightarrow> (\<And>x. emits P (f x)) \<Longrightarrow> emits P (case v of None \<Rightarrow> s | Some x \<Rightarrow> f x)"
  by (cases v) simp_all

text \<open>A draft that is saved has the graph of one of the demonstrations.\<close>

definition demos :: "demo set" where
  "demos = {approval_demo, tickets_demo, fetch_demo, combine_demo, hook_demo, scheduled_demo, unfinished_demo} \<union> range broken_demo"

definition saves_a_demo :: "request \<Rightarrow> bool" where
  "saves_a_demo r \<longleftrightarrow> (rq_method r = ''PUT'' \<longrightarrow> (\<exists>revision. \<exists>de \<in> demos. rq_body r = Some (graph_body revision (graph_of de))))"

lemma demo_members:
  "approval_demo \<in> demos" "tickets_demo \<in> demos" "fetch_demo \<in> demos" "combine_demo \<in> demos" "hook_demo \<in> demos"
  "scheduled_demo \<in> demos" "unfinished_demo \<in> demos" "broken_demo c \<in> demos"
  by (simp_all add: demos_def)

lemma build_saves: "de \<in> demos \<Longrightarrow> emits saves_a_demo (build product ws de)"
  unfolding build_def by (intro emits_intro) (auto simp: saves_a_demo_def)

lemma poll_emits: "P \<lparr>rq_method = ''GET'', rq_path = ''/api/v1/executions/'' @ py_str eid, rq_body = None, rq_workspace = ws\<rparr> \<Longrightarrow>
    emits P (poll_run n product ws eid)"
  by (induction n) (auto intro!: emits_intro)

lemma run_demo_saves: "emits saves_a_demo (run_demo product ws wid payload)"
  unfolding run_demo_def by (intro emits_intro poll_emits) (auto simp: saves_a_demo_def)

lemma run_each_saves: "emits saves_a_demo (run_each product ws ps wid)"
  by (induction ps) (auto intro!: emits_intro run_demo_saves)

lemma publish_saves: "emits saves_a_demo (publish_and_activate product ws wid note)"
  unfolding publish_and_activate_def by (intro emits_intro) (auto simp: saves_a_demo_def)

lemma stage_saves: "de \<in> demos \<Longrightarrow> (\<And>w. emits saves_a_demo (f w)) \<Longrightarrow> emits saves_a_demo (stage product ws de f)"
  unfolding stage_def by (intro emits_intro build_saves)

lemma after_saves: "emits saves_a_demo (after_hook product ws wid)" "emits saves_a_demo (after_scheduled product ws wid)"
  unfolding after_hook_def after_scheduled_def
  by (intro emits_intro publish_saves run_each_saves; simp add: saves_a_demo_def)+

lemma seed_demos_saves: "emits saves_a_demo (seed_demos product ws credential)" "emits saves_a_demo (summary product ws)"
  unfolding seed_demos_def summary_def
  by (intro emits_intro stage_saves demo_members run_each_saves after_saves; simp add: saves_a_demo_def)+

lemma administration_saves:
  "emits saves_a_demo (sign_in product a)" "emits saves_a_demo (renew_password product a body)" "emits saves_a_demo (provision product a)"
  unfolding sign_in_def sign_in_as_def renew_password_def provision_def
  by (intro emits_intro; simp add: saves_a_demo_def)+

lemma seed_main_saves: "emits saves_a_demo (seed_main product a)"
  unfolding seed_main_def seed_tenant_def Let_def
  by (intro emits_intro seed_demos_saves administration_saves) (simp add: saves_a_demo_def)

text \<open>So the drafts of the tenant are graphs that the validator accepts on the shipped registry, all but the one that is meant to be unfinished and
  the one whose credential the product named.\<close>

lemma seeded_drafts_are_valid:
  assumes "r \<in> set (snd (seed_main product a []))" "rq_method r = ''PUT''"
  obtains revision de where "rq_body r = Some (graph_body revision (graph_of de))"
    "de = unfinished_demo \<or> de \<in> range broken_demo \<or> accepted_graph (graph_of de)"
proof -
  have "list_all saves_a_demo (snd (seed_main product a []))" using seed_main_saves [of product a] by (simp add: emits_def)
  with assms have "\<exists>revision. \<exists>de \<in> demos. rq_body r = Some (graph_body revision (graph_of de))"
    by (auto simp: list_all_iff saves_a_demo_def)
  then show ?thesis using shipped_demos_accepted that unfolding demos_def by auto
qed

section \<open>Where it asks\<close>

text \<open>Before the tenant is there, the script asks as the administrator, for three things; from then on in the tenant only.\<close>

definition ADMIN_PATHS :: "string list" where
  "ADMIN_PATHS = [''/api/v1/auth/login'', ''/api/v1/auth/change-password'', ''/api/v1/platform/workspaces'']"

definition scoped :: "string \<Rightarrow> request \<Rightarrow> bool" where
  "scoped ws r \<longleftrightarrow> rq_workspace r = Some ws \<or> rq_workspace r = None \<and> rq_path r \<in> set ADMIN_PATHS"

lemma run_each_scoped: "emits (scoped ws) (run_each product (Some ws) ps wid)"
  by (induction ps) (auto simp: run_demo_def scoped_def intro!: emits_intro poll_emits)

lemma build_scoped: "emits (scoped ws) (build product (Some ws) de)"
  unfolding build_def by (intro emits_intro) (simp_all add: scoped_def)

lemma publish_scoped: "emits (scoped ws) (publish_and_activate product (Some ws) wid note)"
  unfolding publish_and_activate_def by (intro emits_intro) (simp_all add: scoped_def)

lemma stage_scoped: "(\<And>w. emits (scoped ws) (f w)) \<Longrightarrow> emits (scoped ws) (stage product (Some ws) de f)"
  unfolding stage_def by (intro emits_intro build_scoped)

lemma after_scoped: "emits (scoped ws) (after_hook product (Some ws) wid)" "emits (scoped ws) (after_scheduled product (Some ws) wid)"
  unfolding after_hook_def after_scheduled_def
  by (intro emits_intro publish_scoped run_each_scoped; simp add: scoped_def)+

lemma seed_demos_scoped: "emits (scoped ws) (seed_demos product (Some ws) credential)" "emits (scoped ws) (summary product (Some ws))"
  unfolding seed_demos_def summary_def
  by (intro emits_intro stage_scoped run_each_scoped after_scoped; simp add: scoped_def)+

lemma administration_scoped:
  "emits (scoped ws) (sign_in product a)" "emits (scoped ws) (renew_password product a body)" "emits (scoped ws) (provision product a)"
  unfolding sign_in_def sign_in_as_def renew_password_def provision_def
  by (intro emits_intro; simp add: scoped_def ADMIN_PATHS_def)+

definition somewhere :: "'a script \<Rightarrow> bool" where
  "somewhere s \<longleftrightarrow> (\<forall>h. (\<forall>ws. list_all (scoped ws) h) \<longrightarrow> (\<exists>ws. list_all (scoped ws) (snd (s h))))"

lemma somewhere_emits: "emits (scoped ws) s \<Longrightarrow> somewhere s"
  by (auto simp: somewhere_def emits_def)

lemma somewhere_bind:
  assumes "\<And>ws. emits (scoped ws) s" "\<And>x. somewhere (f x)"
  shows "somewhere (bind s f)"
  unfolding somewhere_def
proof (intro allI impI)
  fix h
  assume "\<forall>ws. list_all (scoped ws) h"
  then have h: "\<forall>ws. list_all (scoped ws) (snd (s h))" using assms(1) by (simp add: emits_def)
  show "\<exists>ws. list_all (scoped ws) (snd (bind s f h))"
  proof (cases "s h")
    case (Pair r h')
    with h assms(2) show ?thesis by (cases r) (simp_all add: bind_def somewhere_def)
  qed
qed

lemma seed_tenant_somewhere: "somewhere (seed_tenant product tenant)"
  unfolding seed_tenant_def Let_def
proof (rule somewhere_bind)
  fix tid
  show "somewhere (bind (lift (item_of tenant ''name'')) (\<lambda>_. bind (lift (item_of tenant ''slug'')) (\<lambda>_.
      bind (ask_product product (Some (py_str tid)) ''POST'' ''/api/v1/credentials''
        (Some (JObj [(''name'', JStr (''Token API n'' @ [CHR 0xE1, CHR 0xBB, CHR 0x99] @ ''i b'' @ [CHR 0xE1, CHR 0xBB, CHR 0x99])), (''credential_type'', JStr ''BEARER''),
            (''data'', JObj [(''token'', JStr ''demo-token-not-a-real-secret'')])]))) (\<lambda>(_, credential).
      bind (seed_demos product (Some (py_str tid)) credential) (\<lambda>_. bind (summary product (Some (py_str tid))) (\<lambda>_. give 0))))))"
    by (rule somewhere_emits [of "py_str tid"]) (intro emits_intro seed_demos_scoped; simp add: scoped_def)
qed (rule emits_lift)

lemma somewhere_prod: "(\<And>x y. somewhere (f x y)) \<Longrightarrow> somewhere (case p of (x, y) \<Rightarrow> f x y)"
  by (cases p) simp

lemma somewhere_if: "somewhere s \<Longrightarrow> somewhere t \<Longrightarrow> somewhere (if b then s else t)"
  by simp

lemma refused_somewhere: "somewhere (bind (lift r) (\<lambda>e. bind (lift (f e)) (\<lambda>_. give n)))"
  by (rule somewhere_emits) (intro emits_intro)

lemma seed_main_somewhere: "somewhere (seed_main product a)"
  unfolding seed_main_def
  by (intro somewhere_bind administration_scoped somewhere_prod somewhere_if refused_somewhere seed_tenant_somewhere
      somewhere_emits [OF emits_give])

lemma seeds_one_tenant:
  obtains ws where "\<forall>r \<in> set (snd (seed_main product a [])). scoped ws r"
  using seed_main_somewhere [of product a, unfolded somewhere_def, rule_format, of "[]"] that by (auto simp: list_all_iff)

end
