(* ===== verification/Images.thy ===== *)
theory Images
  imports Release
begin

text \<open>
  The images of a release: \<open>scripts/release_images.py\<close>, which exports them, and \<open>provenance\<close> of \<open>scripts/release_gate.py\<close>,
  which records what was exported in the artefact of the release. Docker is a parameter that answers a command in the
  light of the commands so far; a history has its latest command first. SHA-256, \<open>json.dumps\<close> and \<open>json.loads\<close> are parameters.
\<close>

section \<open>\<open>release_images.py\<close>\<close>

datatype docker_command =
    Inspect string
  | Tag string string
  | Save string string  \<comment> \<open>the file, and the image\<close>

text \<open>An answer: the status, the output, and for \<open>save\<close> the content that the file has afterwards, if it has changed.\<close>

record docker_answer =
  da_returncode :: int
  da_stdout :: string
  da_written :: "string option"

type_synonym docker = "docker_command list \<Rightarrow> docker_answer"

definition IMAGES :: "(string \<times> string) list" where
  "IMAGES = [(''appbi-workflow-api'', ''api''), (''appbi-workflow-engine'', ''engine''), (''appbi-workflow-frontend'', ''frontend'')]"

record image_row =
  im_role :: string
  im_repository :: string
  im_tag :: string
  im_image_id :: string
  im_file :: string
  im_bytes :: nat
  im_sha256 :: string

record export =
  xp_history :: "docker_command list"
  xp_files :: "string \<Rightarrow> string option"
  xp_manifest :: "image_row list"
  xp_missing :: "string list"

definition image_id :: "docker_answer \<Rightarrow> string option" where
  "image_id a = (if da_returncode a = 0 then Some (str_strip (da_stdout a)) else None)"

definition tarball :: "string \<Rightarrow> string \<Rightarrow> string" where
  "tarball repository version = repository @ ''-'' @ version @ ''.tar''"

definition image_ref :: "string \<Rightarrow> string \<Rightarrow> string" where
  "image_ref repository tag = repository @ '':'' @ tag"

text \<open>The commands of one image. Reading a file that is not there raises, which is \<open>LookupErr\<close> here.\<close>

definition export_image :: "docker \<Rightarrow> (string \<Rightarrow> string) \<Rightarrow> string \<Rightarrow> string \<Rightarrow> string \<times> string \<Rightarrow> export \<Rightarrow> py_exc option \<times> export" where
  "export_image docker sha256 version tag img s =
     (let (repository, role) = img; h = Inspect (image_ref repository tag) # xp_history s in
      case image_id (docker h) of
        None \<Rightarrow> (None, s\<lparr>xp_history := h, xp_missing := xp_missing s @ [image_ref repository tag]\<rparr>)
      | Some identifier \<Rightarrow>
          (let name = tarball repository version;
               h = Save name (image_ref repository version) # Tag (image_ref repository tag) (image_ref repository version) # h;
               files = (case da_written (docker h) of None \<Rightarrow> xp_files s | Some content \<Rightarrow> (xp_files s)(name \<mapsto> content))
           in if da_returncode (docker h) \<noteq> 0
              then (None, s\<lparr>xp_history := h, xp_files := files, xp_missing := xp_missing s @ [image_ref repository version]\<rparr>)
              else
                (case files name of
                   None \<Rightarrow> (Some LookupErr, s\<lparr>xp_history := h, xp_files := files\<rparr>)
                 | Some content \<Rightarrow>
                     (None, s\<lparr>xp_history := h, xp_files := files,
                        xp_manifest := xp_manifest s @ [\<lparr>im_role = role, im_repository = repository, im_tag = version,
                          im_image_id = identifier, im_file = name, im_bytes = length content, im_sha256 = sha256 content\<rparr>]\<rparr>))))"

fun export_images :: "docker \<Rightarrow> (string \<Rightarrow> string) \<Rightarrow> string \<Rightarrow> string \<Rightarrow> (string \<times> string) list \<Rightarrow> export \<Rightarrow> py_exc option \<times> export" where
  "export_images docker sha256 version tag [] s = (None, s)"
| "export_images docker sha256 version tag (i # is) s =
     (case export_image docker sha256 version tag i s of
        (None, s) \<Rightarrow> export_images docker sha256 version tag is s
      | (Some e, s) \<Rightarrow> (Some e, s))"

definition row_json :: "image_row \<Rightarrow> json" where
  "row_json r = JObj
     [(''role'', JStr (im_role r)), (''repository'', JStr (im_repository r)), (''tag'', JStr (im_tag r)),
      (''image_id'', JStr (im_image_id r)), (''file'', JStr (im_file r)), (''bytes'', JInt (int (im_bytes r))),
      (''sha256'', JStr (im_sha256 r))]"

definition manifest_json :: "string \<Rightarrow> image_row list \<Rightarrow> json" where
  "manifest_json version rows = JObj [(''version'', JStr version), (''images'', JArr (map row_json rows))]"

definition sums_text :: "image_row list \<Rightarrow> string" where
  "sums_text rows = concat (map (\<lambda>r. im_sha256 r @ ''  '' @ im_file r @ [CHR 0x0A]) rows)"

definition images_main ::
  "docker \<Rightarrow> (string \<Rightarrow> string) \<Rightarrow> (json \<Rightarrow> string) \<Rightarrow> string \<Rightarrow> string \<Rightarrow> (string \<Rightarrow> string option) \<Rightarrow> int \<times> (string \<Rightarrow> string option)" where
  "images_main docker sha256 dump version tag files =
     (case export_images docker sha256 version tag IMAGES \<lparr>xp_history = [], xp_files = files, xp_manifest = [], xp_missing = []\<rparr> of
        (Some _, s) \<Rightarrow> (1, xp_files s)
      | (None, s) \<Rightarrow>
          if xp_missing s \<noteq> [] then (1, xp_files s)
          else (0, (xp_files s)(''SHA256SUMS'' \<mapsto> sums_text (xp_manifest s),
                 ''images-'' @ version @ ''.json'' \<mapsto> dump (manifest_json version (xp_manifest s)) @ [CHR 0x0A])))"

section \<open>\<open>provenance\<close>\<close>

record image_record =
  ir_repository :: json
  ir_tag :: json
  ir_image_id :: json
  ir_sha256 :: json

record provenance =
  pv_commit :: string
  pv_git_describe :: string
  pv_images :: "image_record list option"
  pv_migration_revision :: json
  pv_documents :: "(string \<times> string \<times> string) list"
  pv_rollback_to :: "string option"

definition needs :: "dict \<Rightarrow> string \<Rightarrow> py_exc + json" where
  "needs d k = (case map_of d k of None \<Rightarrow> Inl KeyErr | Some v \<Rightarrow> Inr v)"

definition image_record_of :: "json \<Rightarrow> py_exc + image_record" where
  "image_record_of row =
     (case row of
        JObj d \<Rightarrow>
          (case (needs d ''repository'', needs d ''tag'', needs d ''image_id'', needs d ''sha256'') of
             (Inr r, Inr t, Inr i, Inr s) \<Rightarrow> Inr \<lparr>ir_repository = r, ir_tag = t, ir_image_id = i, ir_sha256 = s\<rparr>
           | _ \<Rightarrow> Inl KeyErr)
      | _ \<Rightarrow> Inl TypeErr)"

fun image_records :: "json list \<Rightarrow> py_exc + image_record list" where
  "image_records [] = Inr []"
| "image_records (row # rows) =
     (case image_record_of row of
        Inl e \<Rightarrow> Inl e
      | Inr r \<Rightarrow> map_sum id (\<lambda>rs. r # rs) (image_records rows))"

text \<open>The loop of a comprehension: a text gives its characters, an object its keys.\<close>

definition rows_of :: "json \<Rightarrow> py_exc + json list" where
  "rows_of v =
     (case v of
        JArr xs \<Rightarrow> Inr xs
      | JStr s \<Rightarrow> Inr (map (\<lambda>c. JStr [c]) s)
      | JObj d \<Rightarrow> Inr (map (JStr \<circ> fst) d)
      | _ \<Rightarrow> Inl TypeErr)"

definition images_dir :: string where
  "images_dir = ''dist/images/''"

definition image_manifest :: "checkout \<Rightarrow> string \<Rightarrow> string option" where
  "image_manifest co version =
     (case co_files co (images_dir @ ''images-v'' @ version @ ''.json'') of
        Some text \<Rightarrow> Some text
      | None \<Rightarrow> co_files co (images_dir @ ''images-'' @ version @ ''.json''))"

definition loads_or_raise :: "checkout \<Rightarrow> string \<Rightarrow> py_exc + json" where
  "loads_or_raise co text = (case co_loads co text of None \<Rightarrow> Inl ValueErr | Some j \<Rightarrow> Inr j)"

definition recorded_images :: "checkout \<Rightarrow> string \<Rightarrow> py_exc + image_record list option" where
  "recorded_images co version =
     (case image_manifest co version of
        None \<Rightarrow> Inr None
      | Some text \<Rightarrow>
          (case loads_or_raise co text of
             Inl e \<Rightarrow> Inl e
           | Inr j \<Rightarrow>
               (case as_dict j of
                  Inl e \<Rightarrow> Inl e
                | Inr d \<Rightarrow>
                    (case rows_of (case map_of d ''images'' of None \<Rightarrow> JArr [] | Some v \<Rightarrow> v) of
                       Inl e \<Rightarrow> Inl e
                     | Inr rows \<Rightarrow> map_sum id Some (image_records rows)))))"

definition recorded_revision :: "checkout \<Rightarrow> string option \<Rightarrow> py_exc + json" where
  "recorded_revision co path =
     (if text_or_empty path = [] then Inr JNull
      else case co_files co (text_or_empty path) of
             None \<Rightarrow> Inr JNull
           | Some text \<Rightarrow>
               (case loads_or_raise co text of
                  Inl e \<Rightarrow> Inl e
                | Inr j \<Rightarrow> map_sum id (\<lambda>d. dget d ''head_revision'') (as_dict j)))"

text \<open>\<open>documents[kind] = ...\<close> for every match in order: the last one stays. \<open>listing\<close> has the names in \<open>release/\<close>.\<close>

definition glob_match :: "string \<Rightarrow> string \<Rightarrow> bool" where
  "glob_match kind name \<longleftrightarrow> (let p = kind @ ''-''; q = ''.cdx.json'' in starts_with name p \<and> ends_with (drop (length p) name) q)"

definition document_of :: "(string \<Rightarrow> string) \<Rightarrow> checkout \<Rightarrow> string list \<Rightarrow> string \<Rightarrow> (string \<times> string \<times> string) list" where
  "document_of sha256 co listing kind =
     (case rev (sort (filter (glob_match kind) listing)) of
        [] \<Rightarrow> []
      | name # _ \<Rightarrow> [(kind, name, sha256 (text_or_empty (co_files co (''release/'' @ name))))])"

definition provenance_of :: "(string \<Rightarrow> string) \<Rightarrow> string list \<Rightarrow> checkout \<Rightarrow> release_args \<Rightarrow> py_exc + provenance" where
  "provenance_of sha256 listing co a =
     (case recorded_images co (ra_version a) of
        Inl e \<Rightarrow> Inl e
      | Inr images \<Rightarrow>
          map_sum id
            (\<lambda>revision. \<lparr>pv_commit = git_text (co_git co) [''rev-parse'', ''HEAD''],
               pv_git_describe = git_text (co_git co) [''describe'', ''--tags'', ''--always''],
               pv_images = images, pv_migration_revision = revision,
               pv_documents = document_of sha256 co listing ''sbom'' @ document_of sha256 co listing ''vex'',
               pv_rollback_to = rollback_to (co_git co) (ra_version a)\<rparr>)
            (recorded_revision co (ra_drift_report a)))"

text \<open>The gate with its artefact: what the evidence fails on, and what the artefact says.\<close>

definition release_artefact ::
  "(string \<Rightarrow> string) \<Rightarrow> string list \<Rightarrow> checkout \<Rightarrow> release_args \<Rightarrow> py_exc + int \<times> provenance" where
  "release_artefact sha256 listing co a =
     (case release_main co a of
        Inl e \<Rightarrow> Inl e
      | Inr code \<Rightarrow> map_sum id (\<lambda>p. (code, p)) (provenance_of sha256 listing co a))"

section \<open>What an export that ends well has exported\<close>

text \<open>Only a \<open>save\<close> changes a file, and only its own.\<close>

lemma export_image_other:
  "export_image docker sha256 version tag i s = (e, s') \<Longrightarrow> name \<noteq> tarball (fst i) version \<Longrightarrow> xp_files s' name = xp_files s name"
  by (auto simp: export_image_def Let_def split: prod.splits option.splits if_splits)

text \<open>A row is about the file as it is now.\<close>

definition row_fits :: "(string \<Rightarrow> string) \<Rightarrow> string \<Rightarrow> (string \<Rightarrow> string option) \<Rightarrow> image_row \<Rightarrow> string \<times> string \<Rightarrow> bool" where
  "row_fits sha256 version files r i \<longleftrightarrow>
     im_repository r = fst i \<and> im_role r = snd i \<and> im_tag r = version \<and> im_file r = tarball (fst i) version \<and>
     (\<exists>content. files (im_file r) = Some content \<and> im_sha256 r = sha256 content \<and> im_bytes r = length content)"

lemma export_image_row:
  assumes "export_image docker sha256 version tag i s = (None, s')" "xp_missing s' = []"
  shows "xp_missing s = [] \<and> (\<exists>r. xp_manifest s' = xp_manifest s @ [r] \<and> row_fits sha256 version (xp_files s') r i)"
  using assms by (auto simp: export_image_def row_fits_def Let_def split: prod.splits option.splits if_splits)

lemma tarball_inj: "tarball r v = tarball r' v \<longleftrightarrow> r = r'"
  by (simp add: tarball_def)

lemma export_images_rows:
  "export_images docker sha256 version tag is s = (None, s') \<Longrightarrow> xp_missing s' = [] \<Longrightarrow> distinct (map fst is) \<Longrightarrow>
    xp_missing s = [] \<and> (\<exists>rows. xp_manifest s' = xp_manifest s @ rows \<and> list_all2 (row_fits sha256 version (xp_files s')) rows is) \<and>
    (\<forall>name. name \<notin> (\<lambda>i. tarball (fst i) version) ` set is \<longrightarrow> xp_files s' name = xp_files s name)"
proof (induction "is" arbitrary: s)
  case (Cons i "is")
  obtain e s1 where one: "export_image docker sha256 version tag i s = (e, s1)" by (metis prod.exhaust)
  with Cons.prems(1) have rest: "export_images docker sha256 version tag is s1 = (None, s')" and e: "e = None"
    by (auto split: option.splits)
  from Cons.IH [OF rest Cons.prems(2)] Cons.prems(3) obtain rows where rows: "xp_missing s1 = []" "xp_manifest s' = xp_manifest s1 @ rows"
    "list_all2 (row_fits sha256 version (xp_files s')) rows is"
    and frame: "\<And>name. name \<notin> (\<lambda>i. tarball (fst i) version) ` set is \<Longrightarrow> xp_files s' name = xp_files s1 name" by auto
  from export_image_row [OF one [unfolded e] rows(1)] obtain r where r: "xp_missing s = []" "xp_manifest s1 = xp_manifest s @ [r]"
    "row_fits sha256 version (xp_files s1) r i" by blast
  have own: "tarball (fst i) version \<notin> (\<lambda>i. tarball (fst i) version) ` set is"
    using Cons.prems(3) by (clarsimp simp: tarball_inj) (metis fst_conv image_eqI)
  have "row_fits sha256 version (xp_files s') r i" using r(3) frame [OF own] by (auto simp: row_fits_def)
  with rows r show ?case using frame export_image_other [OF one] by auto
qed simp

section \<open>What the artefact records of it\<close>

definition record_of :: "image_row \<Rightarrow> image_record" where
  "record_of r = \<lparr>ir_repository = JStr (im_repository r), ir_tag = JStr (im_tag r), ir_image_id = JStr (im_image_id r),
     ir_sha256 = JStr (im_sha256 r)\<rparr>"

lemma image_records_of_rows: "image_records (map row_json rows) = Inr (map record_of rows)"
  by (induction rows) (simp_all add: row_json_def image_record_of_def needs_def record_of_def)

lemma tarball_names:
  "tarball r version \<noteq> ''SHA256SUMS''" "tarball r version \<noteq> ''images-'' @ version @ ''.json''"
  by (auto simp: tarball_def dest!: arg_cong [of _ _ rev])

text \<open>The artefact names exactly the three images, each with the hash of the file that was exported and is listed in \<open>SHA256SUMS\<close>.\<close>

lemma release_names_the_exported_images:
  assumes "images_main docker sha256 dump version tag files = (0, files')"
    and "\<And>j. co_loads co (dump j @ [CHR 0x0A]) = Some j"
    and "\<And>name. co_files co (images_dir @ name) = files' name" "version = CHR ''v'' # ra_version a"
    and "provenance_of sha256 listing co a = Inr p"
  shows "\<exists>rows. pv_images p = Some (map record_of rows) \<and> list_all2 (row_fits sha256 version files') rows IMAGES \<and>
    files' ''SHA256SUMS'' = Some (sums_text rows)"
proof -
  let ?s = "\<lparr>xp_history = [], xp_files = files, xp_manifest = [], xp_missing = []\<rparr>" let ?m = "''images-'' @ version @ ''.json''"
  obtain s where s: "export_images docker sha256 version tag IMAGES ?s = (None, s)" "xp_missing s = []"
    "files' = (xp_files s)(''SHA256SUMS'' \<mapsto> sums_text (xp_manifest s), ?m \<mapsto> dump (manifest_json version (xp_manifest s)) @ [CHR 0x0A])"
    using assms(1) by (auto simp: images_main_def split: prod.splits option.splits if_splits)
  have "distinct (map fst IMAGES)" by (simp add: IMAGES_def)
  from export_images_rows [OF s(1,2) this] have rows: "list_all2 (row_fits sha256 version (xp_files s)) (xp_manifest s) IMAGES" by auto
  have "row_fits sha256 version files' r i" if "row_fits sha256 version (xp_files s) r i" for r i
    using that tarball_names by (auto simp: row_fits_def s(3))
  with rows have rows: "list_all2 (row_fits sha256 version files') (xp_manifest s) IMAGES" by (rule list_all2_mono)
  have sums: "files' ''SHA256SUMS'' = Some (sums_text (xp_manifest s))" by (simp add: s(3))
  have "co_files co (images_dir @ ''images-v'' @ ra_version a @ ''.json'') = Some (dump (manifest_json version (xp_manifest s)) @ [CHR 0x0A])"
    using assms(3) [of ?m] by (simp add: s(3) assms(4))
  then have "image_manifest co (ra_version a) = Some (dump (manifest_json version (xp_manifest s)) @ [CHR 0x0A])"
    by (simp add: image_manifest_def)
  then have "recorded_images co (ra_version a) = Inr (Some (map record_of (xp_manifest s)))"
    by (simp add: recorded_images_def loads_or_raise_def assms(2) manifest_json_def rows_of_def image_records_of_rows)
  then have "pv_images p = Some (map record_of (xp_manifest s))"
    using assms(5) by (cases "recorded_revision co (ra_drift_report a)") (auto simp: provenance_of_def)
  with rows sums show ?thesis by blast
qed

text \<open>
  Nobody looks at the answer to \<open>docker tag\<close>: where it fails, \<open>docker save\<close> exports what had the release's tag before, and the
  manifest gives that file the identifier of another image.
\<close>

fun is_tag :: "docker_command list \<Rightarrow> bool" where
  "is_tag (Tag _ _ # _) = True"
| "is_tag _ = False"

lemma failed_tag_goes_unnoticed:
  assumes "\<And>h. \<not> is_tag h \<Longrightarrow> docker' h = docker h"
  shows "images_main docker' sha256 dump version tag files = images_main docker sha256 dump version tag files"
proof -
  have "export_image docker' sha256 version tag i s = export_image docker sha256 version tag i s" for i s
    by (cases i) (simp add: export_image_def Let_def assms split: option.split)
  then have "export_images docker' sha256 version tag is s = export_images docker sha256 version tag is s" for "is" s
    by (induction "is" arbitrary: s) (auto split: prod.splits option.splits)
  then show ?thesis by (simp add: images_main_def)
qed

text \<open>The documents of another version are taken when their names come later: \<open>1.9.0\<close> comes after \<open>1.10.0\<close>.\<close>

lemma older_document_recorded:
  "map (fst \<circ> snd) (document_of sha256 co [''sbom-1.10.0.cdx.json'', ''sbom-1.9.0.cdx.json''] ''sbom'') = [''sbom-1.9.0.cdx.json'']"
proof -
  have "rev (sort (filter (glob_match ''sbom'') [''sbom-1.10.0.cdx.json'', ''sbom-1.9.0.cdx.json''])) = [''sbom-1.9.0.cdx.json'', ''sbom-1.10.0.cdx.json'']"
    by code_simp
  then show ?thesis by (simp add: document_of_def)
qed

text \<open>A verdict of 0 is not the end: provenance that cannot be read ends the run with an exception after the gates.\<close>

lemma unreadable_manifest_stops_release:
  "release_main co a = Inr 0 \<Longrightarrow> recorded_images co (ra_version a) = Inl e \<Longrightarrow> release_artefact sha256 listing co a = Inl e"
  by (simp add: release_artefact_def provenance_of_def)

end
