(* ===== verification/Params.thy ===== *)
theory Params
  imports Enums Errors
begin

text \<open>
  Query parameters that name a member of an enumeration, \<open>app/core/params.py\<close>. The details of the error list what is
  accepted.
\<close>

definition invalid_filter :: "string \<Rightarrow> string \<Rightarrow> string list \<Rightarrow> app_error" where
  "invalid_filter field value allowed =
     AppError_init ValidationError (no_args\<lparr>arg_code := Some ''INVALID_FILTER_VALUE'',
       arg_details := Some [(''field'', JStr field), (''value'', JStr value), (''allowed'', JArr (map JStr allowed))]\<rparr>)"

definition coerce :: "(string \<Rightarrow> string) \<Rightarrow> string option \<Rightarrow> 'e list \<Rightarrow> ('e \<Rightarrow> string) \<Rightarrow> string \<Rightarrow> app_error + 'e option" where
  "coerce fold_case value members val field =
     (case value of
        None \<Rightarrow> Inr None
      | Some s \<Rightarrow>
          if s = [] then Inr None
          else (case enum_parse members val (fold_case (str_strip s)) of
                  Some e \<Rightarrow> Inr (Some e)
                | None \<Rightarrow> Inl (invalid_filter field s (map val members))))"

definition as_enum :: "string option \<Rightarrow> 'e list \<Rightarrow> ('e \<Rightarrow> string) \<Rightarrow> string \<Rightarrow> app_error + 'e option" where
  "as_enum = coerce str_upper"

definition as_lower_enum :: "string option \<Rightarrow> 'e list \<Rightarrow> ('e \<Rightarrow> string) \<Rightarrow> string \<Rightarrow> app_error + 'e option" where
  "as_lower_enum = coerce str_lower"

context py_enum
begin

text \<open>A value is taken for a member exactly when it is that member's value but for blanks around it and its case.\<close>

lemma coerce_member:
  "coerce fold_case (Some s) members val field = Inr (Some e) \<longleftrightarrow> s \<noteq> [] \<and> fold_case (str_strip s) = val e"
  by (auto simp: coerce_def parse_value parse_Some value_inj split: option.split)

text \<open>Everything else that is not empty is refused as input, with status 422, and names every value that is accepted.\<close>

lemma coerce_refuses:
  "coerce fold_case (Some s) members val field = Inl x \<longleftrightarrow>
     s \<noteq> [] \<and> fold_case (str_strip s) \<notin> range val \<and> x = invalid_filter field s (map val members)"
  proof (cases "enum_parse members val (fold_case (str_strip s))")
  case None
  then show ?thesis using None parse_None [THEN iffD1, OF None] by (auto simp: coerce_def)
next
  case (Some e)
  then show ?thesis using parse_Some [THEN iffD1, OF Some] by (auto simp: coerce_def)
qed

end

lemma invalid_filter_status: "ae_status (invalid_filter field value allowed) = 422"
  by (simp add: invalid_filter_def AppError_init_def no_args_def ValidationError_def)

text \<open>Blanks alone are not an empty value: they are refused.\<close>

lemma blank_filter_refused:
  "as_enum (Some '' '') execution_status_members execution_status_value ''status'' =
     Inl (invalid_filter ''status'' '' '' (map execution_status_value execution_status_members))"
  by code_simp

end
