(* ===== verification/Spec2Isabelle.thy ===== *)
theory Spec2Isabelle
  imports Boundary Adapter Hooks Console Install Clients Keys Backfill Metadata Collapse Sbom Certify Sweep Seed Images Params
begin

text \<open>
  The AppBI workflow automation platform: its Python backend, \<open>src/backend/app\<close>.

  \<^bold>\<open>The program.\<close> The backend keeps workflows, their versions, triggers, credentials and runs for many tenants
  in one PostgreSQL database, and drives an engine service that executes a graph. A request comes in through a
  route (\<open>app/api\<close>): the dependencies of \<open>deps.py\<close> turn its token into a user and the header into a tenant
  context; a service (\<open>app/services\<close>) checks the permission of the context, reads and writes rows, and the
  route commits. A hook comes in without a user through \<open>api/hooks.py\<close> and the gateway in \<open>triggers.py\<close>. The
  worker (\<open>worker.py\<close>) claims queued runs and dispatches them, polls the engine, fires schedules, and
  does the housekeeping. Services and worker meet in the database only. The engine is reached through one
  adapter (\<open>engine/n8n_service_adapter.py\<close>).

  \<^bold>\<open>The shape of the model.\<close> A table is a list of records in the order of insertion, one record per ORM model
  (theory \<open>Store\<close>); the database is the record \<open>db\<close> of these lists. An operation is a function of an
  environment, a tenant context, its arguments and the database, and returns the database with either a
  result or an error, \<open>Inl\<close>. An error is a value of \<open>service_error\<close>: an \<open>AppError\<close> of the product, with its
  status, code, category and extra fields, or one of the Python exceptions that the code can run into. Where an
  operation has written before it raises, the database it returns holds what it had flushed; the route decides
  what is committed. Instants are integers, microseconds since the epoch. Identifiers are strings of
  thirty-two hexadecimal digits. JSON is the datatype \<open>json\<close> of \<open>Prelude\<close>; its numbers are integers, as no
  operation computes with a fraction. Strings are byte strings; \<open>lower\<close>, \<open>strip\<close> and the like work on ASCII.

  \<^bold>\<open>The theories\<close>, in the order in which they build on each other, with the files under \<open>src/backend/app\<close>.

  \<^item> \<open>Prelude\<close>: JSON, the standard library's string operations, parsing of enumerations (locale \<open>py_enum\<close>),
    tables with their lemma collection \<open>table_simps\<close>, and machines that are driven by a list of requests (locales
    \<open>invariant_machine\<close>, \<open>framed_machine\<close>, \<open>growing_machine\<close>).
  \<^item> \<open>Enums\<close> (\<open>models/enums.py\<close>), \<open>Errors\<close> (\<open>core/errors.py\<close>), \<open>Permissions\<close> (\<open>core/permissions.py\<close>,
    \<open>core/context.py\<close>): every enumeration interprets \<open>py_enum\<close>; the error envelope; role matrix, overrides and
    their serialisation.
  \<^item> \<open>Graph\<close> and \<open>Validation\<close> (\<open>services/graph.py\<close>): the graph hash, ports, expressions, the cycle search; then
    \<open>validate_graph\<close> pass by pass. The lemmas say when each pass is silent; together they meet a declarative
    notion of a well-formed graph.
  \<^item> \<open>Redaction\<close> (\<open>core/redaction.py\<close>), \<open>Schedules\<close> (\<open>services/schedules.py\<close>), \<open>RateLimit\<close>
    (\<open>core/rate_limit.py\<close>, an instance of the locale \<open>fixed_window\<close>).
  \<^item> \<open>Store\<close> (\<open>models/*.py\<close>, \<open>core/config.py\<close>): tables, settings, the environment.
  \<^item> \<open>Alerts\<close> (\<open>services/audit.py\<close>, \<open>services/alerts.py\<close>), \<open>Credentials\<close> (\<open>core/secrets.py\<close>,
    \<open>services/credentials.py\<close>).
  \<^item> \<open>Executions\<close> (\<open>services/executions.py\<close>, \<open>core/payload_vault.py\<close>): the run saga. \<open>Reconcile\<close> adds the
    dispatch and reconcile loops of \<open>worker.py\<close> and the step relation \<open>run_step\<close> over all of it, in which
    requests and worker interleave; \<open>dispatch\<close> commits in the middle, so it is two steps. \<open>Runs\<close> and \<open>Recovery\<close>
    state what holds along every execution of that relation.
  \<^item> \<open>Workflows\<close> (\<open>services/workflows.py\<close>) and \<open>Authoring\<close>, which shows what drafts, versions and activation
    guarantee; its requests interpret \<open>growing_machine\<close>.
  \<^item> \<open>Triggers\<close> (\<open>services/triggers.py\<close>, the schedule loop), \<open>Gateway\<close>, its properties, and \<open>Hooks\<close>
    (\<open>api/hooks.py\<close>), the public route.
  \<^item> \<open>Security\<close> (\<open>core/security.py\<close>), \<open>Access\<close> (\<open>services/access.py\<close>), \<open>Sessions\<close> (\<open>api/deps.py\<close>,
    \<open>api/v1/auth.py\<close>), \<open>Reach\<close>, the properties of sign-in and reach.
  \<^item> \<open>Seats\<close>: the interface that the memberships of a workspace and of an organisation share, the locale
    \<open>guarded_seats\<close>; \<open>Members\<close> and \<open>Organizations\<close> (\<open>services/organizations.py\<close>) interpret it.
  \<^item> \<open>Provisioning\<close> (\<open>services/provisioning.py\<close>) and \<open>Tenants\<close>, the invariant of all tenants over every
    sequence of platform and organisation requests.
  \<^item> \<open>Housekeeping\<close> (the slow loop of \<open>worker.py\<close>), \<open>Catalog\<close> (\<open>services/catalog.py\<close>, \<open>api/v1/nodes.py\<close>),
    \<open>Monitoring\<close> (\<open>services/monitoring.py\<close>), \<open>Adapter\<close> (\<open>engine/n8n_service_adapter.py\<close>, \<open>engine/dto.py\<close>),
    \<open>Deployment\<close> (\<open>core/readiness.py\<close>, \<open>engine/registry.py\<close>, \<open>main.py\<close>, \<open>api/metrics.py\<close>, \<open>bootstrap.py\<close>).

  \<^item> \<open>Ownership\<close>: which workspace a row belongs to; every table of \<open>db\<close> interprets the locales \<open>owned_table\<close> and
    \<open>keyed_table\<close>, and \<open>moves\<close> is the relation of a transaction that acts in one workspace. \<open>Isolation\<close> shows it for
    every operation of the services. \<open>Routes\<close> (\<open>api/v1/workflows.py\<close>, \<open>executions.py\<close>, \<open>credentials.py\<close>, \<open>ops.py\<close>,
    \<open>organization.py\<close>, \<open>platform.py\<close>) is one definition per route and the dispatch over all of them; \<open>Boundary\<close> states
    what holds of the whole API.

  \<^item> The tools around the backend. \<open>Doctor\<close> (\<open>core/config.py\<close>, \<open>scripts/doctor.py\<close>) has the secret files, the settings and
    the check of a production configuration, and shows that a configuration that passes starts. \<open>Keys\<close>
    (\<open>core/secrets.py\<close>, \<open>core/logging.py\<close>): key material and the masked log. \<open>Console\<close> (\<open>provision.py\<close>): tenants from
    the command line. \<open>Release\<close> (\<open>scripts/release_gate.py\<close>), which asks the doctor, \<open>Backup\<close> (\<open>scripts/backup.py\<close>,
    \<open>scripts/restore.py\<close>) and \<open>Install\<close> (\<open>scripts/schema_drift.py\<close>, \<open>scripts/install.py\<close>), whose drift report the release
    gate reads. \<open>Clients\<close> (\<open>scripts/demo_webhook.py\<close>): the sender whose signature the gateway checks. \<open>Backfill\<close>
    (\<open>migrations/versions/20260917_1400_...\<close>): the rows that the migration to organisations writes, against the
    specification of reach.

  \<^item> The schema. \<open>Schema\<close> is a catalogue of tables, constraints, indexes and enumerated types, with the DDL operations
    of \<open>alembic\<close> on it, each with the errors of the database, and the reading of a declared model by the naming convention of
    \<open>core/db.py\<close>. \<open>Migrations\<close> (\<open>migrations/versions\<close>) is every migration statement by statement, up and down.
    \<open>Metadata\<close> (\<open>models/*.py\<close>) is every model as it is declared; the theorem there runs all migrations in the kernel and
    compares. \<open>Collapse\<close> (\<open>migrations/versions/20260905_0900_...\<close>) is the statement that removes duplicate runs, which
    establishes the invariant that \<open>Runs\<close> keeps.
  \<^item> The scripts of a release. \<open>Bundles\<close> (\<open>scripts/vendor_npm.py\<close>, \<open>scripts/mirror_bundle.py\<close>) interpret the locale \<open>downloads\<close>,
    files that only come; \<open>Sbom\<close> (\<open>scripts/sbom.py\<close>) has the bill of materials and the vulnerability statements; \<open>Certify\<close>
    (\<open>scripts/certify.py\<close>) the compatibility gate; \<open>Sweep\<close> (\<open>scripts/tenant_sweep.py\<close>) is a client of a product that may
    answer anything, as a function of the calls so far. \<open>Images\<close> (\<open>scripts/release_images.py\<close>, the provenance of
    \<open>scripts/release_gate.py\<close>) follows the exported images into the artefact of the release.
  \<^item> \<open>Seed\<close> (\<open>scripts/demo_seed.py\<close>, the graph of \<open>scripts/smoke.py\<close>, \<open>resources/node_registry.json\<close>): the graphs that the scripts
    save are accepted by the validator on the shipped registry, and the calls stay in the tenant that the script made. \<open>Params\<close>
    (\<open>core/params.py\<close>): filters that name a member of an enumeration.

  \<^bold>\<open>Interleaving.\<close> Each step of a machine is one transaction. \<open>Reconcile.run_step\<close> cuts a dispatch at its commit;
  \<open>Members\<close> cuts a demotion between its count and its write, because no lock joins them. Row locks of the
  worker (\<open>FOR UPDATE SKIP LOCKED\<close>) make a claim one step, the advisory lock of \<open>create\<close> makes the count and
  the insertion of a run one step.

  \<^bold>\<open>Fuel and bounds.\<close> The cycle search recurses along the graph; its fuel counts the nodes and the edges, and
  \<open>Graph.has_cycle_fuel\<close> shows that it never runs out. On the adjacency that validation builds two hundred nested calls
  are enough (\<open>Validation.cycle_search_terminates\<close>), the largest number of nodes a graph may have. The scan for pins has the length of the text, which \<open>Release.find_pins_fuel\<close> shows to be
  enough. The last part of a path is found with the length of the path as fuel, as every step drops a separator. Every other loop is structural or has a termination proof (redaction by depth, placeholders and addresses
  by the rest of the text, the rewrap of secrets by the rows left, the wait for a database by the time left). The
  limits of the code, such as two hundred runs in a reconcile round, are the code's constants.

  \<^bold>\<open>Parameters.\<close> What is not in the repository is a field of the environment or an argument, and no theorem
  assumes anything of it that it does not name: the digests and Base64 (\<open>env_sha256\<close>, \<open>env_hmac\<close>,
  \<open>env_b64decode\<close>), the cipher (\<open>env_encrypt\<close>, \<open>env_decrypt\<close>), fresh identifiers and tokens, the time-zone
  data and cron arithmetic (\<open>calendar\<close>), the password hash and the token codec (\<open>crypto\<close>), parsing of a
  time or a JSON text, the answers of the engine, what the PostgreSQL tools, Git and Alembic do, the network and the archives of npm, the audit and the probe of the runtime, the rank of a percentile (float arithmetic), the removal of
  combining marks. A theorem that needs a law of one, such as a cipher that decrypts what it encrypted, states it
  as a hypothesis, and its witness instantiates the parameter.

  \<^bold>\<open>Not modelled.\<close>
  \<^item> Human-readable message texts, titles and log lines, and columns that only decorate a screen.
  \<^item> The sessions of \<open>core/db.py\<close> and \<open>migrations/env.py\<close>, which connect to a database. The list of credential types, a
    bundled file.
  \<^item> Of \<open>scripts/\<close>, the checks that \<open>smoke\<close> makes on the answers of a running product, and \<open>ci_env\<close>, which fills a file with random
    secrets; of every script, what it prints.
  \<^item> The engine service (\<open>workflow-engine/\<close>) and the frontend: other languages, on the other side of an interface.
\<close>

end
